(* ===== verification/Prelude.thy ===== *)
theory Prelude
  imports Main "HOL-Library.Word" "HOL-Library.Monad_Syntax" "HOL-Library.Sublist"
begin

text \<open>
  Shared vocabulary of the development: Go's machine integers, the parts of the Go standard
  library that the code calls (package strings, strconv, the verbs of fmt), the panic monad and
  the lemma collections that the component theories fill.

  Conventions.  \<open>int32\<close> is a 32-bit word read with \<open>sint\<close>; Go's \<open>int\<close> (64 bits on the
  supported platforms) is an \<open>int\<close> whose arithmetic goes through \<open>i64\<close>.  A function that can
  panic returns an option, \<open>None\<close> being the panic.  A Go error is a \<open>string option\<close> holding
  \<open>err.Error()\<close>, \<open>None\<close> being nil.
\<close>

section \<open>Lemma collections\<close>

named_theorems frame_simps "which fields an operation leaves alone"
named_theorems go_int "arithmetic of Go integers inside their range"
named_theorems status_defs "the status operations, unfolded"

section \<open>Machine integers\<close>

type_synonym int32 = "32 word"

definition i64 :: "int \<Rightarrow> int" where
  "i64 x = sint (word_of_int x :: 64 word)"

definition int32_of :: "int \<Rightarrow> int32" where
  "int32_of x = word_of_int x"

definition in_i64 :: "int \<Rightarrow> bool" where
  "in_i64 x \<longleftrightarrow> - (2 ^ 63) \<le> x \<and> x < 2 ^ 63"

definition in_i32 :: "int \<Rightarrow> bool" where
  "in_i32 x \<longleftrightarrow> - (2 ^ 31) \<le> x \<and> x < 2 ^ 31"

lemma i64_id [go_int]: "in_i64 x \<Longrightarrow> i64 x = x"
  by (simp add: i64_def in_i64_def signed_of_int signed_take_bit_int_eq_self_iff)

lemma in_i64_i64: "in_i64 (i64 x)"
  using sint_range_size [of "word_of_int x :: 64 word"]
  by (simp add: i64_def in_i64_def word_size)

lemma sint_int32_of [go_int]: "in_i32 x \<Longrightarrow> sint (int32_of x) = x"
  by (simp add: int32_of_def in_i32_def signed_of_int signed_take_bit_int_eq_self_iff)

lemma sint_in_i32: "in_i32 (sint (x :: int32))"
  using sint_range_size [of x] by (simp add: in_i32_def word_size)

lemma int32_of_sint [simp]: "int32_of (sint x) = x"
  by (simp add: int32_of_def)

lemma sint_int32_add [go_int]: "in_i32 (sint a + sint b) \<Longrightarrow> sint (a + b :: int32) = sint a + sint b"
  by (metis int32_of_def int32_of_sint sint_int32_of wi_hom_add)

lemma sint_int32_diff [go_int]: "in_i32 (sint a - sint b) \<Longrightarrow> sint (a - b :: int32) = sint a - sint b"
  by (metis int32_of_def int32_of_sint sint_int32_of wi_hom_sub)

lemma in_i32_mono: "in_i32 a \<Longrightarrow> in_i32 b \<Longrightarrow> a \<le> x \<Longrightarrow> x \<le> b \<Longrightarrow> in_i32 x"
  by (simp add: in_i32_def)

lemma in_i64_mono: "in_i64 a \<Longrightarrow> in_i64 b \<Longrightarrow> a \<le> x \<Longrightarrow> x \<le> b \<Longrightarrow> in_i64 x"
  by (simp add: in_i64_def)

lemma in_i32_in_i64: "in_i32 x \<Longrightarrow> in_i64 x"
  by (simp add: in_i32_def in_i64_def)

section \<open>Strings\<close>

text \<open>Package strings: prefixes, suffixes, splitting at a one-character separator, joining.\<close>

definition strings_HasPrefix :: "string \<Rightarrow> string \<Rightarrow> bool" where
  "strings_HasPrefix s p \<longleftrightarrow> take (length p) s = p"

definition strings_HasSuffix :: "string \<Rightarrow> string \<Rightarrow> bool" where
  "strings_HasSuffix s p \<longleftrightarrow> length p \<le> length s \<and> drop (length s - length p) s = p"

definition strings_TrimPrefix :: "string \<Rightarrow> string \<Rightarrow> string" where
  "strings_TrimPrefix s p = (if strings_HasPrefix s p then drop (length p) s else s)"

definition strings_TrimSuffix :: "string \<Rightarrow> string \<Rightarrow> string" where
  "strings_TrimSuffix s p = (if strings_HasSuffix s p then take (length s - length p) s else s)"

fun strings_Split :: "string \<Rightarrow> char \<Rightarrow> string list" where
  "strings_Split [] d = [[]]"
| "strings_Split (c # s) d =
     (if c = d then [] # strings_Split s d
      else (case strings_Split s d of [] \<Rightarrow> [[c]] | w # ws \<Rightarrow> (c # w) # ws))"

fun strings_Join :: "string list \<Rightarrow> char \<Rightarrow> string" where
  "strings_Join [] d = []"
| "strings_Join [w] d = w"
| "strings_Join (w # ws) d = w @ d # strings_Join ws d"

lemma strings_Split_nonempty [simp]: "strings_Split s d \<noteq> []"
  by (induction s) (auto split: list.splits)

lemma strings_Split_no_sep: "d \<notin> set s \<Longrightarrow> strings_Split s d = [s]"
  by (induction s) auto

lemma strings_Split_app: "d \<notin> set t \<Longrightarrow> strings_Split (s @ d # t) d = strings_Split s d @ [t]"
  by (induction s) (auto simp: strings_Split_no_sep split: list.splits)

lemma strings_Join_Cons: "ws \<noteq> [] \<Longrightarrow> strings_Join (w # ws) d = w @ d # strings_Join ws d"
  by (cases ws) auto

lemma strings_Join_Split [simp]: "strings_Join (strings_Split s d) d = s"
proof (induction s)
  case (Cons c s)
  show ?case
  proof (cases "strings_Split s d")
    case (Cons w ws)
    then show ?thesis using Cons.IH \<open>strings_Split s d = w # ws\<close>
      by (cases ws) auto
  qed simp
qed simp

lemma strings_TrimSuffix_app [simp]: "strings_TrimSuffix (s @ p) p = s"
  by (simp add: strings_TrimSuffix_def strings_HasSuffix_def)

lemma strings_HasSuffix_app [simp]: "strings_HasSuffix (s @ p) p"
  by (simp add: strings_HasSuffix_def)

lemma strings_TrimPrefix_app [simp]: "strings_TrimPrefix (p @ s) p = s"
  by (simp add: strings_TrimPrefix_def strings_HasPrefix_def)

lemma strings_HasPrefix_Cons [simp]: "strings_HasPrefix (c # s) [c]"
  by (simp add: strings_HasPrefix_def)

section \<open>Numbers in text\<close>

text \<open>strconv.Itoa (and the verb \<open>%d\<close>), strconv.Atoi, strconv.FormatUint.\<close>

definition digit_char :: "nat \<Rightarrow> char" where
  "digit_char n = (if n < 10 then char_of (48 + n) else char_of (87 + n))"

fun format_nat :: "nat \<Rightarrow> nat \<Rightarrow> string" where
  "format_nat b n =
     (if n < b \<or> b < 2 then [digit_char n] else format_nat b (n div b) @ [digit_char (n mod b)])"

declare format_nat.simps [simp del]

definition itoa :: "int \<Rightarrow> string" where
  "itoa n = (if n < 0 then CHR ''-'' # format_nat 10 (nat (- n)) else format_nat 10 (nat n))"

definition strconv_FormatHex :: "nat \<Rightarrow> string" where
  "strconv_FormatHex n = format_nat 16 n"

fun atoi_digits :: "nat \<Rightarrow> string \<Rightarrow> nat option" where
  "atoi_digits a [] = Some a"
| "atoi_digits a (c # s) =
     (let k = (of_char c :: nat) in
      if 48 \<le> k \<and> k \<le> 57 then atoi_digits (a * 10 + (k - 48)) s else None)"

definition atoi_unsigned :: "string \<Rightarrow> nat option" where
  "atoi_unsigned s = (if s = [] then None else atoi_digits 0 s)"

text \<open>
  The value and the error of strconv.Atoi: 0 with a syntax error, the nearest bound with a range
  error.
\<close>

definition strconv_Atoi :: "string \<Rightarrow> int \<times> string option" where
  "strconv_Atoi s =
     (let neg = (case s of c # _ \<Rightarrow> c = CHR ''-'' | [] \<Rightarrow> False);
          body = (case s of c # t \<Rightarrow> if c = CHR ''-'' \<or> c = CHR ''+'' then t else s | [] \<Rightarrow> [])
      in case atoi_unsigned body of
           None \<Rightarrow> (0, Some (''strconv.Atoi: parsing: invalid syntax''))
         | Some n \<Rightarrow>
             (let v = (if neg then - int n else int n) in
              if in_i64 v then (v, None)
              else (if neg then - (2 ^ 63) else 2 ^ 63 - 1,
                    Some (''strconv.Atoi: parsing: value out of range''))))"

lemma of_char_digit: "n < 10 \<Longrightarrow> of_char (digit_char n) = (48 + n :: nat)"
  by (simp add: digit_char_def)

lemma atoi_digits_app:
  "atoi_digits a (s @ t) = (case atoi_digits a s of None \<Rightarrow> None | Some b \<Rightarrow> atoi_digits b t)"
  by (induction a s rule: atoi_digits.induct) (auto simp: Let_def)

lemma format_nat_nonempty: "format_nat b n \<noteq> []"
  by (subst format_nat.simps) simp

lemma format_nat_digits: "c \<in> set (format_nat 10 n) \<Longrightarrow> 48 \<le> (of_char c :: nat) \<and> (of_char c :: nat) \<le> 57"
proof (induction "10 :: nat" n rule: format_nat.induct)
  case (1 n)
  show ?case
  proof (cases "n < 10")
    case True
    then show ?thesis using "1.prems" by (subst (asm) format_nat.simps) (auto simp: of_char_digit)
  next
    case False
    then have "c \<in> set (format_nat 10 (n div 10)) \<or> c = digit_char (n mod 10)"
      using "1.prems" by (subst (asm) format_nat.simps) auto
    then show ?thesis using "1.hyps" False by (auto simp: of_char_digit)
  qed
qed

lemma atoi_format_nat: "atoi_digits 0 (format_nat 10 n) = Some n"
proof (induction "10 :: nat" n rule: format_nat.induct)
  case (1 n)
  show ?case
  proof (cases "n < 10")
    case True
    then show ?thesis by (subst format_nat.simps) (simp add: of_char_digit)
  next
    case False
    then have "atoi_digits 0 (format_nat 10 (n div 10)) = Some (n div 10)"
      using "1.hyps" by simp
    then show ?thesis using False
      by (subst format_nat.simps) (simp add: atoi_digits_app of_char_digit)
  qed
qed

lemma digit_not_sign: "48 \<le> (of_char c :: nat) \<Longrightarrow> c \<noteq> CHR ''-'' \<and> c \<noteq> CHR ''+''"
  by auto

lemma minus_notin_format_nat: "CHR ''-'' \<notin> set (format_nat 10 n)"
  using format_nat_digits [of "CHR ''-''" n] by auto

lemma strconv_Atoi_itoa:
  assumes "in_i64 n"
  shows "strconv_Atoi (itoa n) = (n, None)"
proof (cases "n < 0")
  case True
  then show ?thesis using assms
    by (simp add: strconv_Atoi_def itoa_def atoi_unsigned_def format_nat_nonempty atoi_format_nat)
next
  case False
  obtain c t where ct: "format_nat 10 (nat n) = c # t"
    using format_nat_nonempty by (cases "format_nat 10 (nat n)") auto
  then have "c \<noteq> CHR ''-'' \<and> c \<noteq> CHR ''+''"
    using format_nat_digits [of c "nat n"] by (intro digit_not_sign) simp
  then show ?thesis using False assms ct atoi_format_nat [of "nat n"]
    by (simp add: strconv_Atoi_def itoa_def atoi_unsigned_def)
qed

lemma minus_notin_itoa: "0 \<le> n \<Longrightarrow> CHR ''-'' \<notin> set (itoa n)"
  by (simp add: itoa_def minus_notin_format_nat)

end
