(* ===== verification/Rollout_Types.thy ===== *)
theory Rollout_Types
  imports Prelude
begin

text \<open>
  The API types of apis/standard.oam.dev/v1alpha1/rollout_plan_types.go: the rollout plan that a
  user writes and the status that the controller keeps.  Go's string-typed enumerations are
  datatypes with one constructor per constant and one last constructor for every other string
  (the empty string of a fresh object among them); \<open>*_str\<close> gives the string back.  An optional
  field (a pointer) is an \<open>option\<close>, a slice whose nil-ness the code tests is an \<open>option\<close> of a
  list.  Fields that no code of the modelled components reads (canary metrics, pod lists) are
  left out.
\<close>

section \<open>Values of k8s.io/apimachinery and crossplane-runtime that the code builds or reads\<close>

datatype ios_kind = IosInt | IosString

record int_or_string =
  IosType :: ios_kind
  IntVal :: int32
  StrVal :: string

datatype cond_bool = ConditionTrue | ConditionFalse | ConditionUnknown

datatype condition_type =
  RolloutSpecVerifying | RolloutInitializing | RolloutInProgress | RolloutFinalizing
| RolloutFailing | RolloutAbandoning | RolloutDeleting | RolloutFailed | RolloutSucceed
| BatchInitializing | BatchPaused | BatchVerifying | BatchRolloutFailed | BatchFinalizing
| BatchReady | OtherCondition string

record condition =
  condType :: condition_type
  condStatus :: cond_bool
  condLastTransitionTime :: int
  condReason :: string
  condMessage :: string

section \<open>The rollout plan\<close>

datatype rollout_strategy = IncreaseFirst | DecreaseFirst | OtherStrategy string

datatype hook_type =
  InitializeRolloutHook | PreBatchRolloutHook | PostBatchRolloutHook | FinalizeRolloutHook
| OtherHook string

record rollout_webhook =
  whType :: hook_type
  whName :: string
  whURL :: string
  whMethod :: string
  whExpectedStatus :: "int list"
  whMetadata :: "(string \<rightharpoonup> string) option"

record rollout_webhook_payload =
  plName :: string
  plNamespace :: string
  plPhase :: string
  plMetadata :: "string \<rightharpoonup> string"

record rollout_batch =
  batchReplicas :: int_or_string
  batchMaxUnavailable :: "int_or_string option"
  batchInstanceInterval :: "int32 option"
  batchRolloutWebhooks :: "rollout_webhook list"

record rollout_plan =
  RolloutStrategy :: rollout_strategy
  TargetSize :: "int32 option"
  NumBatches :: "int32 option"
  RolloutBatches :: "rollout_batch list option"
  BatchPartition :: "int32 option"
  Paused :: bool
  RolloutWebhooks :: "rollout_webhook list"

text \<open>Ranging over a nil slice is ranging over an empty one, and its length is 0.\<close>

definition batches :: "rollout_plan \<Rightarrow> rollout_batch list" where
  "batches p = (case RolloutBatches p of None \<Rightarrow> [] | Some bs \<Rightarrow> bs)"

lemma batches_frame [simp]:
  "batches (p\<lparr>TargetSize := t\<rparr>) = batches p" "batches (p\<lparr>BatchPartition := i\<rparr>) = batches p"
  "batches (p\<lparr>Paused := b\<rparr>) = batches p" "batches (p\<lparr>NumBatches := n\<rparr>) = batches p"
  "batches (p\<lparr>RolloutWebhooks := hs\<rparr>) = batches p"
  "batches (p\<lparr>RolloutBatches := Some bs\<rparr>) = bs"
  by (simp_all add: batches_def)

section \<open>The rollout status\<close>

datatype rolling_state =
  LocatingTargetAppState | VerifyingSpecState | InitializingState | RollingInBatchesState
| FinalisingState | RolloutFailingState | RolloutSucceedState | RolloutAbandoningState
| RolloutDeletingState | RolloutFailedState | OtherRollingState string

datatype batch_rolling_state =
  BatchInitializingState | BatchInRollingState | BatchVerifyingState | BatchRolloutFailedState
| BatchFinalizingState | BatchReadyState | OtherBatchState string

record rollout_status =
  Conditions :: "condition list"
  RolloutOriginalSize :: int32
  RolloutTargetSize :: int32
  NewPodTemplateIdentifier :: string
  LastAppliedPodTemplateIdentifier :: string
  RollingState :: rolling_state
  BatchRollingState :: batch_rolling_state
  CurrentBatch :: int32
  UpgradedReplicas :: int32
  UpgradedReadyReplicas :: int32

fun rolling_state_str :: "rolling_state \<Rightarrow> string" where
  "rolling_state_str LocatingTargetAppState = ''locatingTargetApp''"
| "rolling_state_str VerifyingSpecState = ''verifyingSpec''"
| "rolling_state_str InitializingState = ''initializing''"
| "rolling_state_str RollingInBatchesState = ''rollingInBatches''"
| "rolling_state_str FinalisingState = ''finalising''"
| "rolling_state_str RolloutFailingState = ''rolloutFailing''"
| "rolling_state_str RolloutSucceedState = ''rolloutSucceed''"
| "rolling_state_str RolloutAbandoningState = ''rolloutAbandoning''"
| "rolling_state_str RolloutDeletingState = ''RolloutDeletingState''"
| "rolling_state_str RolloutFailedState = ''rolloutFailed''"
| "rolling_state_str (OtherRollingState s) = s"

fun batch_rolling_state_str :: "batch_rolling_state \<Rightarrow> string" where
  "batch_rolling_state_str BatchInitializingState = ''batchInitializing''"
| "batch_rolling_state_str BatchInRollingState = ''batchInRolling''"
| "batch_rolling_state_str BatchVerifyingState = ''batchVerifying''"
| "batch_rolling_state_str BatchRolloutFailedState = ''batchVerifyFailed''"
| "batch_rolling_state_str BatchFinalizingState = ''batchFinalizing''"
| "batch_rolling_state_str BatchReadyState = ''batchReady''"
| "batch_rolling_state_str (OtherBatchState s) = s"

fun strategy_str :: "rollout_strategy \<Rightarrow> string" where
  "strategy_str IncreaseFirst = ''IncreaseFirst''"
| "strategy_str DecreaseFirst = ''DecreaseFirst''"
| "strategy_str (OtherStrategy s) = s"

text \<open>
  What the state machine is about: the rollout state, the state inside a batch and the batch.
\<close>

type_synonym phase = "rolling_state \<times> batch_rolling_state \<times> int32"

definition phase :: "rollout_status \<Rightarrow> phase" where
  "phase s = (RollingState s, BatchRollingState s, CurrentBatch s)"

definition terminal :: "rolling_state \<Rightarrow> bool" where
  "terminal r \<longleftrightarrow> r = RolloutSucceedState \<or> r = RolloutFailedState"

lemma phase_eqI:
  "RollingState s = RollingState t \<Longrightarrow> BatchRollingState s = BatchRollingState t \<Longrightarrow>
   CurrentBatch s = CurrentBatch t \<Longrightarrow> phase s = phase t"
  by (simp add: phase_def)

lemma terminal_simps [simp]:
  "terminal RolloutSucceedState" "terminal RolloutFailedState"
  "\<not> terminal LocatingTargetAppState" "\<not> terminal VerifyingSpecState"
  "\<not> terminal InitializingState" "\<not> terminal RollingInBatchesState"
  "\<not> terminal FinalisingState" "\<not> terminal RolloutFailingState"
  "\<not> terminal RolloutAbandoningState" "\<not> terminal RolloutDeletingState"
  "\<not> terminal (OtherRollingState x)"
  by (simp_all add: terminal_def)

end
