(* ===== verification/Rollout_State.thy ===== *)
theory Rollout_State
  imports Rollout_Types
begin

text \<open>
  The rollout state machine, apis/standard.oam.dev/v1alpha1/rollout_state.go, method by method.
  Two things come from outside the repository and are arguments: \<open>sc\<close> is crossplane's
  ConditionedStatus.SetConditions acting on the list of conditions, \<open>now\<close> the reading of
  time.Now().  The last sections hold the abstract machine on phases, which forgets conditions
  and counters, and the proof that StateTransition implements it.
\<close>

section \<open>Events and conditions\<close>

text \<open>
  RollingFinalizedEvent is declared with the string of AllBatchFinishedEvent, so that to the
  code the two constants are one value.
\<close>

datatype rollout_event =
  RollingFailedEvent | RollingRetriableFailureEvent | AppLocatedEvent | RollingModifiedEvent
| RollingDeletedEvent | RollingSpecVerifiedEvent | RollingInitializedEvent
| AllBatchFinishedEvent | InitializedOneBatchEvent | FinishedOneBatchEvent
| RolloutOneBatchEvent | OneBatchAvailableEvent | BatchRolloutApprovedEvent
| BatchRolloutFailedEvent

definition RollingFinalizedEvent :: rollout_event where
  "RollingFinalizedEvent = AllBatchFinishedEvent"

fun event_str :: "rollout_event \<Rightarrow> string" where
  "event_str RollingFailedEvent = ''RollingFailedEvent''"
| "event_str RollingRetriableFailureEvent = ''RollingRetriableFailureEvent''"
| "event_str AppLocatedEvent = ''AppLocatedEvent''"
| "event_str RollingModifiedEvent = ''RollingModifiedEvent''"
| "event_str RollingDeletedEvent = ''RollingDeletedEvent''"
| "event_str RollingSpecVerifiedEvent = ''RollingSpecVerifiedEvent''"
| "event_str RollingInitializedEvent = ''RollingInitializedEvent''"
| "event_str AllBatchFinishedEvent = ''AllBatchFinishedEvent''"
| "event_str InitializedOneBatchEvent = ''InitializedOneBatchEvent''"
| "event_str FinishedOneBatchEvent = ''FinishedOneBatchEvent''"
| "event_str RolloutOneBatchEvent = ''RolloutOneBatchEvent''"
| "event_str OneBatchAvailableEvent = ''OneBatchAvailable''"
| "event_str BatchRolloutApprovedEvent = ''BatchRolloutApprovedEvent''"
| "event_str BatchRolloutFailedEvent = ''BatchRolloutFailedEvent''"

type_synonym conditioner = "condition \<Rightarrow> condition list \<Rightarrow> condition list"

definition NewPositiveCondition :: "int \<Rightarrow> condition_type \<Rightarrow> condition" where
  "NewPositiveCondition now ty =
     \<lparr>condType = ty, condStatus = ConditionTrue, condLastTransitionTime = now,
      condReason = '''', condMessage = ''''\<rparr>"

definition NewNegativeCondition :: "int \<Rightarrow> condition_type \<Rightarrow> string \<Rightarrow> condition" where
  "NewNegativeCondition now ty message =
     \<lparr>condType = ty, condStatus = ConditionFalse, condLastTransitionTime = now,
      condReason = '''', condMessage = message\<rparr>"

definition invalidRollingStateTransition :: "rolling_state \<Rightarrow> rollout_event \<Rightarrow> string" where
  "invalidRollingStateTransition r e =
     ''the rollout state transition from `'' @ rolling_state_str r @ ''` state  with `'' @
     event_str e @ ''` is invalid''"

definition invalidBatchRollingStateTransition ::
  "batch_rolling_state \<Rightarrow> rollout_event \<Rightarrow> string" where
  "invalidBatchRollingStateTransition b e =
     ''the batch rolling state transition from `'' @ batch_rolling_state_str b @
     ''` state  with `'' @ event_str e @ ''` is invalid''"

definition getRolloutConditionType :: "rollout_status \<Rightarrow> condition_type" where
  "getRolloutConditionType r =
     (case RollingState r of
        VerifyingSpecState \<Rightarrow> RolloutSpecVerifying
      | InitializingState \<Rightarrow> RolloutInitializing
      | RollingInBatchesState \<Rightarrow>
          (case BatchRollingState r of
             BatchInitializingState \<Rightarrow> BatchInitializing
           | BatchVerifyingState \<Rightarrow> BatchVerifying
           | BatchFinalizingState \<Rightarrow> BatchFinalizing
           | BatchRolloutFailedState \<Rightarrow> BatchRolloutFailed
           | BatchReadyState \<Rightarrow> BatchReady
           | _ \<Rightarrow> RolloutInProgress)
      | FinalisingState \<Rightarrow> RolloutFinalizing
      | RolloutFailingState \<Rightarrow> RolloutFailing
      | RolloutAbandoningState \<Rightarrow> RolloutAbandoning
      | RolloutDeletingState \<Rightarrow> RolloutDeleting
      | RolloutSucceedState \<Rightarrow> RolloutSucceed
      | _ \<Rightarrow> RolloutFailed)"

section \<open>Special transitions\<close>

definition SetConditions :: "conditioner \<Rightarrow> condition \<Rightarrow> rollout_status \<Rightarrow> rollout_status" where
  "SetConditions sc c r = r\<lparr>Conditions := sc c (Conditions r)\<rparr>"

definition RolloutRetry :: "conditioner \<Rightarrow> int \<Rightarrow> string \<Rightarrow> rollout_status \<Rightarrow> rollout_status" where
  "RolloutRetry sc now reason r =
     SetConditions sc (NewNegativeCondition now (getRolloutConditionType r) reason) r"

definition rolloutFailed :: "conditioner \<Rightarrow> int \<Rightarrow> string \<Rightarrow> rollout_status \<Rightarrow> rollout_status" where
  "rolloutFailed sc now reason r =
     (SetConditions sc (NewNegativeCondition now (getRolloutConditionType r) reason) r)
       \<lparr>RollingState := RolloutFailedState\<rparr>"

definition rolloutFailing :: "conditioner \<Rightarrow> int \<Rightarrow> string \<Rightarrow> rollout_status \<Rightarrow> rollout_status" where
  "rolloutFailing sc now reason r =
     (SetConditions sc (NewNegativeCondition now (getRolloutConditionType r) reason) r)
       \<lparr>RollingState := RolloutFailingState, BatchRollingState := BatchInitializingState\<rparr>"

definition ResetStatus :: "rollout_status \<Rightarrow> rollout_status" where
  "ResetStatus r = r
     \<lparr>NewPodTemplateIdentifier := '''', RolloutTargetSize := -1,
      LastAppliedPodTemplateIdentifier := '''', RollingState := LocatingTargetAppState,
      BatchRollingState := BatchInitializingState, CurrentBatch := 0,
      UpgradedReplicas := 0, UpgradedReadyReplicas := 0\<rparr>"

text \<open>
  The loop of SetRolloutCondition, which assigns to the slice it ranges over: \<open>replace_condition\<close>
  gives the new slice and whether \<open>exists\<close> is set.  It does not stop at the first match.
\<close>

fun replace_condition :: "condition \<Rightarrow> condition list \<Rightarrow> bool \<times> condition list" where
  "replace_condition new [] = (False, [])"
| "replace_condition new (c # cs) =
     (let (ex, cs') = replace_condition new cs in
      if condType c \<noteq> condType new then (ex, c # cs')
      else if condType c = condType new \<and> condStatus c = condStatus new \<and>
              condReason c = condReason new \<and> condMessage c = condMessage new \<and>
              condLastTransitionTime c = condLastTransitionTime new
           then (True, c # cs')
      else (True, new # cs'))"

definition SetRolloutCondition :: "condition \<Rightarrow> rollout_status \<Rightarrow> rollout_status" where
  "SetRolloutCondition new r =
     (let (ex, cs) = replace_condition new (Conditions r) in
      r\<lparr>Conditions := (if ex then cs else cs @ [new])\<rparr>)"

definition illegalStateTransition ::
  "conditioner \<Rightarrow> int \<Rightarrow> string \<Rightarrow> rollout_status \<Rightarrow> rollout_status" where
  "illegalStateTransition sc now err r = rolloutFailed sc now err r"

definition set_positive :: "int \<Rightarrow> rollout_status \<Rightarrow> rollout_status" where
  "set_positive now r = SetRolloutCondition (NewPositiveCondition now (getRolloutConditionType r)) r"

section \<open>StateTransition\<close>

definition batchStateTransition ::
  "conditioner \<Rightarrow> int \<Rightarrow> rollout_event \<Rightarrow> rollout_status \<Rightarrow> rollout_status" where
  "batchStateTransition sc now event r =
     (let illegal = illegalStateTransition sc now
                      (invalidBatchRollingStateTransition (BatchRollingState r) event) r
      in if event = BatchRolloutFailedEvent then
           (let r' = r\<lparr>BatchRollingState := BatchRolloutFailedState,
                        RollingState := RolloutFailedState\<rparr>
            in SetConditions sc (NewNegativeCondition now (getRolloutConditionType r') ''failed'') r')
         else (case BatchRollingState r of
           BatchInitializingState \<Rightarrow>
             if event = InitializedOneBatchEvent
             then r\<lparr>BatchRollingState := BatchInRollingState\<rparr>
             else illegal
         | BatchInRollingState \<Rightarrow>
             if event = RolloutOneBatchEvent
             then (set_positive now r)\<lparr>BatchRollingState := BatchVerifyingState\<rparr>
             else illegal
         | BatchVerifyingState \<Rightarrow>
             if event = OneBatchAvailableEvent
             then (set_positive now r)\<lparr>BatchRollingState := BatchFinalizingState\<rparr>
             else illegal
         | BatchFinalizingState \<Rightarrow>
             if event = FinishedOneBatchEvent
             then (set_positive now r)\<lparr>BatchRollingState := BatchReadyState\<rparr>
             else if event = AllBatchFinishedEvent
             then (set_positive now r)\<lparr>BatchRollingState := BatchReadyState,
                                      RollingState := FinalisingState\<rparr>
             else illegal
         | BatchReadyState \<Rightarrow>
             if event = BatchRolloutApprovedEvent
             then (set_positive now r)\<lparr>BatchRollingState := BatchInitializingState,
                                      CurrentBatch := CurrentBatch r + 1\<rparr>
             else illegal
         | _ \<Rightarrow>
             illegalStateTransition sc now
               (''invalid batch rolling state '' @ batch_rolling_state_str (BatchRollingState r)) r))"

definition StateTransition ::
  "conditioner \<Rightarrow> int \<Rightarrow> rollout_event \<Rightarrow> rollout_status \<Rightarrow> rollout_status" where
  "StateTransition sc now event r =
     (let illegal = illegalStateTransition sc now
                      (invalidRollingStateTransition (RollingState r) event) r
      in if event = RollingFailedEvent \<or> event = RollingRetriableFailureEvent then illegal
         else if event = RollingModifiedEvent then
           (if RollingState r = RolloutDeletingState then illegal
            else if RollingState r = RolloutFailedState \<or> RollingState r = RolloutSucceedState
            then ResetStatus r
            else (SetRolloutCondition
                    (NewNegativeCondition now (getRolloutConditionType r)
                       ''Rollout Spec is modified'') r)
                   \<lparr>RollingState := RolloutAbandoningState,
                    BatchRollingState := BatchInitializingState\<rparr>)
         else if event = RollingDeletedEvent then
           (if RollingState r = RolloutFailedState \<or> RollingState r = RolloutSucceedState
            then illegal
            else (SetRolloutCondition
                    (NewNegativeCondition now (getRolloutConditionType r)
                       ''Rollout is being deleted'') r)
                   \<lparr>RollingState := RolloutDeletingState,
                    BatchRollingState := BatchInitializingState\<rparr>)
         else if event = AppLocatedEvent then
           (if RollingState r = LocatingTargetAppState
            then r\<lparr>RollingState := VerifyingSpecState\<rparr> else r)
         else (case RollingState r of
           VerifyingSpecState \<Rightarrow>
             if event = RollingSpecVerifiedEvent
             then (set_positive now r)\<lparr>RollingState := InitializingState\<rparr>
             else illegal
         | InitializingState \<Rightarrow>
             if event = RollingInitializedEvent
             then (set_positive now r)\<lparr>RollingState := RollingInBatchesState,
                                      BatchRollingState := BatchInitializingState\<rparr>
             else illegal
         | RollingInBatchesState \<Rightarrow> batchStateTransition sc now event r
         | RolloutAbandoningState \<Rightarrow>
             if event = RollingFinalizedEvent then ResetStatus (set_positive now r) else illegal
         | RolloutDeletingState \<Rightarrow>
             if event = RollingFinalizedEvent
             then (set_positive now r)\<lparr>RollingState := RolloutFailedState\<rparr>
             else illegal
         | FinalisingState \<Rightarrow>
             if event = RollingFinalizedEvent
             then (set_positive now r)\<lparr>RollingState := RolloutSucceedState\<rparr>
             else illegal
         | RolloutFailingState \<Rightarrow>
             if event = RollingFinalizedEvent
             then (set_positive now r)\<lparr>RollingState := RolloutFailedState\<rparr>
             else illegal
         | RolloutSucceedState \<Rightarrow> illegal
         | RolloutFailedState \<Rightarrow> illegal
         | _ \<Rightarrow>
             illegalStateTransition sc now
               (''invalid rolling state '' @ rolling_state_str (RollingState r) @
                '' before transition'') r))"

section \<open>What the operations leave alone\<close>

lemma SetConditions_frame [simp, frame_simps]:
  "RollingState (SetConditions sc c r) = RollingState r"
  "BatchRollingState (SetConditions sc c r) = BatchRollingState r"
  "CurrentBatch (SetConditions sc c r) = CurrentBatch r"
  "RolloutTargetSize (SetConditions sc c r) = RolloutTargetSize r"
  "RolloutOriginalSize (SetConditions sc c r) = RolloutOriginalSize r"
  "UpgradedReplicas (SetConditions sc c r) = UpgradedReplicas r"
  "UpgradedReadyReplicas (SetConditions sc c r) = UpgradedReadyReplicas r"
  "NewPodTemplateIdentifier (SetConditions sc c r) = NewPodTemplateIdentifier r"
  "LastAppliedPodTemplateIdentifier (SetConditions sc c r) = LastAppliedPodTemplateIdentifier r"
  by (simp_all add: SetConditions_def)

lemma RolloutRetry_frame [simp, frame_simps]:
  "RollingState (RolloutRetry sc now e r) = RollingState r"
  "BatchRollingState (RolloutRetry sc now e r) = BatchRollingState r"
  "CurrentBatch (RolloutRetry sc now e r) = CurrentBatch r"
  "RolloutTargetSize (RolloutRetry sc now e r) = RolloutTargetSize r"
  "RolloutOriginalSize (RolloutRetry sc now e r) = RolloutOriginalSize r"
  "UpgradedReplicas (RolloutRetry sc now e r) = UpgradedReplicas r"
  "UpgradedReadyReplicas (RolloutRetry sc now e r) = UpgradedReadyReplicas r"
  "NewPodTemplateIdentifier (RolloutRetry sc now e r) = NewPodTemplateIdentifier r"
  "LastAppliedPodTemplateIdentifier (RolloutRetry sc now e r) = LastAppliedPodTemplateIdentifier r"
  by (simp_all add: RolloutRetry_def)

lemma SetRolloutCondition_frame [simp, frame_simps]:
  "RollingState (SetRolloutCondition c r) = RollingState r"
  "BatchRollingState (SetRolloutCondition c r) = BatchRollingState r"
  "CurrentBatch (SetRolloutCondition c r) = CurrentBatch r"
  "RolloutTargetSize (SetRolloutCondition c r) = RolloutTargetSize r"
  "RolloutOriginalSize (SetRolloutCondition c r) = RolloutOriginalSize r"
  "UpgradedReplicas (SetRolloutCondition c r) = UpgradedReplicas r"
  "UpgradedReadyReplicas (SetRolloutCondition c r) = UpgradedReadyReplicas r"
  "NewPodTemplateIdentifier (SetRolloutCondition c r) = NewPodTemplateIdentifier r"
  "LastAppliedPodTemplateIdentifier (SetRolloutCondition c r) = LastAppliedPodTemplateIdentifier r"
  by (simp_all add: SetRolloutCondition_def split: prod.splits)

lemma set_positive_frame [simp, frame_simps]:
  "RollingState (set_positive now r) = RollingState r"
  "BatchRollingState (set_positive now r) = BatchRollingState r"
  "CurrentBatch (set_positive now r) = CurrentBatch r"
  "RolloutTargetSize (set_positive now r) = RolloutTargetSize r"
  "UpgradedReplicas (set_positive now r) = UpgradedReplicas r"
  by (simp_all add: set_positive_def)

lemma rolloutFailed_frame [simp, frame_simps]:
  "RollingState (rolloutFailed sc now e r) = RolloutFailedState"
  "BatchRollingState (rolloutFailed sc now e r) = BatchRollingState r"
  "CurrentBatch (rolloutFailed sc now e r) = CurrentBatch r"
  "RolloutTargetSize (rolloutFailed sc now e r) = RolloutTargetSize r"
  "UpgradedReplicas (rolloutFailed sc now e r) = UpgradedReplicas r"
  by (simp_all add: rolloutFailed_def)

lemma rolloutFailing_frame [simp, frame_simps]:
  "RollingState (rolloutFailing sc now e r) = RolloutFailingState"
  "BatchRollingState (rolloutFailing sc now e r) = BatchInitializingState"
  "CurrentBatch (rolloutFailing sc now e r) = CurrentBatch r"
  "RolloutTargetSize (rolloutFailing sc now e r) = RolloutTargetSize r"
  "UpgradedReplicas (rolloutFailing sc now e r) = UpgradedReplicas r"
  by (simp_all add: rolloutFailing_def)

lemma ResetStatus_frame [simp, frame_simps]:
  "RollingState (ResetStatus r) = LocatingTargetAppState"
  "BatchRollingState (ResetStatus r) = BatchInitializingState"
  "CurrentBatch (ResetStatus r) = 0"
  "Conditions (ResetStatus r) = Conditions r"
  by (simp_all add: ResetStatus_def)

lemmas illegal_frame [simp, frame_simps] = rolloutFailed_frame [folded illegalStateTransition_def]

lemma phase_RolloutRetry [simp, frame_simps]: "phase (RolloutRetry sc now e r) = phase r"
  by (simp add: phase_def)

lemma phase_SetConditions [simp, frame_simps]: "phase (SetConditions sc c r) = phase r"
  by (simp add: phase_def)

section \<open>The abstract machine on phases\<close>

text \<open>
  \<open>enabled\<close> is the table of the events a phase expects.  Every other event is illegal and fails
  the rollout.  The three special events are enabled everywhere but where the code rejects them.
\<close>

fun enabled :: "rollout_event \<Rightarrow> rolling_state \<Rightarrow> batch_rolling_state \<Rightarrow> bool" where
  "enabled AppLocatedEvent r b = True"
| "enabled RollingModifiedEvent r b = (r \<noteq> RolloutDeletingState)"
| "enabled RollingDeletedEvent r b = (\<not> terminal r)"
| "enabled RollingSpecVerifiedEvent r b = (r = VerifyingSpecState)"
| "enabled RollingInitializedEvent r b = (r = InitializingState)"
| "enabled AllBatchFinishedEvent r b =
     (r \<in> {FinalisingState, RolloutFailingState, RolloutAbandoningState, RolloutDeletingState} \<or>
      r = RollingInBatchesState \<and> b = BatchFinalizingState)"
| "enabled BatchRolloutFailedEvent r b = (r = RollingInBatchesState)"
| "enabled InitializedOneBatchEvent r b = (r = RollingInBatchesState \<and> b = BatchInitializingState)"
| "enabled RolloutOneBatchEvent r b = (r = RollingInBatchesState \<and> b = BatchInRollingState)"
| "enabled OneBatchAvailableEvent r b = (r = RollingInBatchesState \<and> b = BatchVerifyingState)"
| "enabled FinishedOneBatchEvent r b = (r = RollingInBatchesState \<and> b = BatchFinalizingState)"
| "enabled BatchRolloutApprovedEvent r b = (r = RollingInBatchesState \<and> b = BatchReadyState)"
| "enabled _ r b = False"

inductive phase_step :: "rollout_event \<Rightarrow> phase \<Rightarrow> phase \<Rightarrow> bool" where
  illegal: "\<not> enabled ev r b \<Longrightarrow> phase_step ev (r, b, n) (RolloutFailedState, b, n)"
| located: "phase_step AppLocatedEvent (LocatingTargetAppState, b, n) (VerifyingSpecState, b, n)"
| located_before: "r \<noteq> LocatingTargetAppState \<Longrightarrow> phase_step AppLocatedEvent (r, b, n) (r, b, n)"
| restarted: "terminal r \<Longrightarrow>
     phase_step RollingModifiedEvent (r, b, n) (LocatingTargetAppState, BatchInitializingState, 0)"
| abandoned: "\<not> terminal r \<Longrightarrow> r \<noteq> RolloutDeletingState \<Longrightarrow>
     phase_step RollingModifiedEvent (r, b, n) (RolloutAbandoningState, BatchInitializingState, n)"
| deleted: "\<not> terminal r \<Longrightarrow>
     phase_step RollingDeletedEvent (r, b, n) (RolloutDeletingState, BatchInitializingState, n)"
| verified: "phase_step RollingSpecVerifiedEvent (VerifyingSpecState, b, n) (InitializingState, b, n)"
| initialized: "phase_step RollingInitializedEvent (InitializingState, b, n)
     (RollingInBatchesState, BatchInitializingState, n)"
| batch_initialized: "phase_step InitializedOneBatchEvent
     (RollingInBatchesState, BatchInitializingState, n)
     (RollingInBatchesState, BatchInRollingState, n)"
| batch_rolled: "phase_step RolloutOneBatchEvent
     (RollingInBatchesState, BatchInRollingState, n) (RollingInBatchesState, BatchVerifyingState, n)"
| batch_available: "phase_step OneBatchAvailableEvent
     (RollingInBatchesState, BatchVerifyingState, n) (RollingInBatchesState, BatchFinalizingState, n)"
| batch_finished: "phase_step FinishedOneBatchEvent
     (RollingInBatchesState, BatchFinalizingState, n) (RollingInBatchesState, BatchReadyState, n)"
| batch_approved: "phase_step BatchRolloutApprovedEvent
     (RollingInBatchesState, BatchReadyState, n)
     (RollingInBatchesState, BatchInitializingState, n + 1)"
| all_finished: "phase_step AllBatchFinishedEvent
     (RollingInBatchesState, BatchFinalizingState, n) (FinalisingState, BatchReadyState, n)"
| batch_failed: "phase_step BatchRolloutFailedEvent
     (RollingInBatchesState, b, n) (RolloutFailedState, BatchRolloutFailedState, n)"
| succeeded: "phase_step AllBatchFinishedEvent (FinalisingState, b, n) (RolloutSucceedState, b, n)"
| failed: "r = RolloutFailingState \<or> r = RolloutDeletingState \<Longrightarrow>
     phase_step AllBatchFinishedEvent (r, b, n) (RolloutFailedState, b, n)"
| abandon_reset: "phase_step AllBatchFinishedEvent (RolloutAbandoningState, b, n)
     (LocatingTargetAppState, BatchInitializingState, 0)"

inductive_cases phase_stepE [elim!]: "phase_step ev (r, b, n) p"

lemmas transition_defs =
  StateTransition_def batchStateTransition_def RollingFinalizedEvent_def Let_def phase_def

lemma StateTransition_phase_step: "phase_step ev (phase r) (phase (StateTransition sc now ev r))"
proof (cases ev)
  case AllBatchFinishedEvent
  then show ?thesis
    by (cases "RollingState r"; cases "BatchRollingState r")
       (auto simp: transition_defs intro: phase_step.intros)
next
  case RollingModifiedEvent
  then show ?thesis
    by (cases "RollingState r") (auto simp: transition_defs intro: phase_step.intros)
next
  case RollingDeletedEvent
  then show ?thesis
    by (cases "RollingState r") (auto simp: transition_defs intro: phase_step.intros)
next
  case AppLocatedEvent
  then show ?thesis
    by (cases "RollingState r") (auto simp: transition_defs intro: phase_step.intros)
next
  case BatchRolloutFailedEvent
  then show ?thesis
    by (cases "RollingState r") (auto simp: transition_defs intro: phase_step.intros)
qed (cases "RollingState r"; cases "BatchRollingState r";
     auto simp: transition_defs intro: phase_step.intros)+

lemma phase_step_deterministic: "phase_step ev p q \<Longrightarrow> phase_step ev p q' \<Longrightarrow> q = q'"
  by (induction rule: phase_step.induct) (auto simp: terminal_def)

text \<open>
  C7: StateTransition implements the abstract machine: the phase it leaves is the one phase the
  abstract step relation allows for the event, for every event and every status.
\<close>

theorem StateTransition_refines:
  "phase_step ev (phase r) p \<longleftrightarrow> p = phase (StateTransition sc now ev r)"
  by (metis StateTransition_phase_step phase_step_deterministic)

text \<open>
  A rollout that has succeeded or failed leaves the terminal states by no event but
  RollingModifiedEvent, and that event restarts it from the beginning.
\<close>

theorem terminal_left_by_modification_only:
  assumes "terminal (RollingState r)"
  shows "(terminal (RollingState (StateTransition sc now ev r)) \<longleftrightarrow> ev \<noteq> RollingModifiedEvent) \<and>
         phase (StateTransition sc now RollingModifiedEvent r) =
           (LocatingTargetAppState, BatchInitializingState, 0)"
proof
  show "terminal (RollingState (StateTransition sc now ev r)) \<longleftrightarrow> ev \<noteq> RollingModifiedEvent"
    using assms by (cases ev; force simp: terminal_def transition_defs)
  show "phase (StateTransition sc now RollingModifiedEvent r) =
          (LocatingTargetAppState, BatchInitializingState, 0)"
    using assms by (force simp: terminal_def transition_defs)
qed

definition fresh_status :: rollout_status where
  "fresh_status =
     \<lparr>Conditions = [], RolloutOriginalSize = 0, RolloutTargetSize = 0,
      NewPodTemplateIdentifier = '''', LastAppliedPodTemplateIdentifier = '''',
      RollingState = OtherRollingState '''', BatchRollingState = OtherBatchState '''',
      CurrentBatch = 0, UpgradedReplicas = 0, UpgradedReadyReplicas = 0\<rparr>"

theorem terminal_left_by_modification_only_witness:
  "phase (StateTransition (\<lambda>c cs. cs @ [c]) 0 RollingModifiedEvent
            (fresh_status\<lparr>RollingState := RolloutSucceedState\<rparr>)) =
     (LocatingTargetAppState, BatchInitializingState, 0)"
  using terminal_left_by_modification_only
    [of "fresh_status\<lparr>RollingState := RolloutSucceedState\<rparr>" "\<lambda>c cs. cs @ [c]" 0]
  by simp

section \<open>Reachable phases\<close>

text \<open>
  A rollout starts reset.  After that its phase changes by events and by the two methods that
  move it without one, RolloutFailing and RolloutFailed.
\<close>

inductive rollout_reaches :: "phase \<Rightarrow> bool" where
  reset: "rollout_reaches (LocatingTargetAppState, BatchInitializingState, 0)"
| event: "rollout_reaches p \<Longrightarrow> phase_step ev p q \<Longrightarrow> rollout_reaches q"
| failing: "rollout_reaches (r, b, n) \<Longrightarrow>
     rollout_reaches (RolloutFailingState, BatchInitializingState, n)"
| fail: "rollout_reaches (r, b, n) \<Longrightarrow> rollout_reaches (RolloutFailedState, b, n)"

text \<open>
  The shape of a reachable phase: which batch states go with which rollout states.
\<close>

fun phase_ok :: "phase \<Rightarrow> bool" where
  "phase_ok (r, b, n) =
     (case r of
        OtherRollingState _ \<Rightarrow> False
      | RollingInBatchesState \<Rightarrow>
          b \<in> {BatchInitializingState, BatchInRollingState, BatchVerifyingState,
                BatchFinalizingState, BatchReadyState}
      | FinalisingState \<Rightarrow> b = BatchReadyState
      | RolloutSucceedState \<Rightarrow> b = BatchReadyState
      | RolloutFailedState \<Rightarrow> \<forall>s. b \<noteq> OtherBatchState s
      | _ \<Rightarrow> b = BatchInitializingState)"

lemma phase_step_ok: "phase_step ev p q \<Longrightarrow> phase_ok p \<Longrightarrow> phase_ok q"
  by (induction rule: phase_step.induct) (auto simp: terminal_def split: rolling_state.splits)

lemma rollout_reaches_ok: "rollout_reaches p \<Longrightarrow> phase_ok p"
  by (induction rule: rollout_reaches.induct)
     (auto intro: phase_step_ok split: rolling_state.splits)

text \<open>
  C8: In every reachable status the batch state fits the rollout state: it is one of the five
  working states while rolling, ready when finalising or succeeded, initializing in every other
  state that is not failed, and no status is ever reached whose rollout or batch state is not one
  of the declared constants.
\<close>

theorem reachable_shape:
  assumes "rollout_reaches (phase r)"
  shows "phase_ok (phase r) \<and> phase_ok (phase (StateTransition sc now ev r)) \<and>
         rollout_reaches (phase (StateTransition sc now ev r))"
proof -
  have "rollout_reaches (phase (StateTransition sc now ev r))"
    using assms StateTransition_phase_step by (rule rollout_reaches.event)
  with assms show ?thesis by (simp add: rollout_reaches_ok)
qed

theorem reachable_shape_witness:
  "rollout_reaches (VerifyingSpecState, BatchInitializingState, 0)"
proof -
  have "rollout_reaches (phase (ResetStatus fresh_status))"
    by (simp add: phase_def rollout_reaches.reset)
  from reachable_shape [OF this, of "\<lambda>c cs. cs" 0 AppLocatedEvent]
  show ?thesis by (simp add: phase_def StateTransition_def)
qed

text \<open>
  The current batch moves by one, and only when a ready batch is approved; otherwise it is kept,
  or set to zero when the rollout starts over.
\<close>

theorem CurrentBatch_moves:
  "CurrentBatch (StateTransition sc now ev r) =
     (if ev = BatchRolloutApprovedEvent \<and> RollingState r = RollingInBatchesState \<and>
         BatchRollingState r = BatchReadyState then CurrentBatch r + 1
      else if (ev = RollingModifiedEvent \<and> terminal (RollingState r)) \<or>
              (ev = RollingFinalizedEvent \<and> RollingState r = RolloutAbandoningState) then 0
      else CurrentBatch r)"
  using StateTransition_phase_step [of ev r sc now]
  by (auto simp: phase_def RollingFinalizedEvent_def terminal_def split: if_splits)

section \<open>SetRolloutCondition\<close>

lemma replace_condition_exists: "fst (replace_condition new cs) \<longleftrightarrow> condType new \<in> condType ` set cs"
  by (induction cs) (auto split: prod.splits)

lemma condition_eqI:
  "condType c = condType d \<Longrightarrow> condStatus c = condStatus d \<Longrightarrow> condReason c = condReason d \<Longrightarrow>
   condMessage c = condMessage d \<Longrightarrow> condLastTransitionTime c = condLastTransitionTime d \<Longrightarrow>
   c = (d :: condition)"
  by simp

lemma replace_condition_map:
  "snd (replace_condition new cs) = map (\<lambda>c. if condType c = condType new then new else c) cs"
  by (induction cs) (auto split: prod.splits intro: condition_eqI)

text \<open>
  SetRolloutCondition is an update of the condition of one type: the conditions of every other
  type keep their places and values, every condition of the new one's type becomes the new one,
  and it is appended exactly when its type was not there, so that distinct types stay distinct.
\<close>

theorem SetRolloutCondition_update:
  "Conditions (SetRolloutCondition new r) =
     map (\<lambda>c. if condType c = condType new then new else c) (Conditions r) @
     (if condType new \<in> condType ` set (Conditions r) then [] else [new])"
  using replace_condition_exists [of new "Conditions r"] replace_condition_map [of new "Conditions r"]
  by (auto simp: SetRolloutCondition_def split: prod.splits)

lemma SetRolloutCondition_distinct:
  "distinct (map condType (Conditions r)) \<Longrightarrow>
   distinct (map condType (Conditions (SetRolloutCondition new r)))"
proof -
  have "map condType (map (\<lambda>c. if condType c = condType new then new else c) (Conditions r)) =
          map condType (Conditions r)"
    by simp
  moreover have "Conditions (SetRolloutCondition new r) =
     map (\<lambda>c. if condType c = condType new then new else c) (Conditions r) @
     (if condType new \<in> condType ` set (Conditions r) then [] else [new])"
    using replace_condition_exists [of new "Conditions r"] replace_condition_map [of new "Conditions r"]
    by (auto simp: SetRolloutCondition_def split: prod.splits)
  moreover assume "distinct (map condType (Conditions r))"
  ultimately show ?thesis
    by (simp del: map_map)
qed

end
