(* ===== verification/Batches.thy ===== *)
theory Batches
  imports Rollout_Types
begin

text \<open>
  The batch arithmetic of pkg/controller/common/rollout/workloads/common.go: is a plan's
  distribution of replicas valid for a size, and how many pods are to be new after a batch.

  \<open>gv\<close> stands for intstr.GetValueFromIntOrPercent of k8s.io/apimachinery (value and error), the
  one library function these routines rest on; \<open>intstr_doc\<close> is its documented behaviour.
  \<open>sane_replicas\<close> is what the theorems assume of a plan: the values of the batches are not
  negative (the webhook checks that) and below \<open>2 ^ 32\<close>, which percentages up to 100 and all
  int32 values are.  With fewer than \<open>2 ^ 30\<close> batches no sum leaves the range of Go's int.
\<close>

section \<open>The routines\<close>

type_synonym ios_value = "int_or_string \<Rightarrow> int \<Rightarrow> bool \<Rightarrow> int \<times> string option"

definition batch_value :: "ios_value \<Rightarrow> int \<Rightarrow> rollout_batch \<Rightarrow> int" where
  "batch_value gv base rb = fst (gv (batchReplicas rb) base True)"

definition mismatch_message :: "int \<Rightarrow> int \<Rightarrow> string" where
  "mismatch_message totalRollout totalReplicas =
     ''the rollout plan batch size mismatch, total batch size = '' @ itoa totalRollout @
     '', totalReplicas size = '' @ itoa totalReplicas"

definition verifyBatchesWithRollout :: "ios_value \<Rightarrow> rollout_plan \<Rightarrow> int32 \<Rightarrow> string option" where
  "verifyBatchesWithRollout gv spec totalReplicas =
     (let bs = batches spec in
      if length bs = 0 then Some ''the rolloutPlan must have batches''
      else
        let totalRollout = foldl (\<lambda>t rb. i64 (t + batch_value gv (sint totalReplicas) rb)) 0 (butlast bs)
        in if totalRollout \<ge> sint totalReplicas
           then Some (mismatch_message totalRollout (sint totalReplicas))
           else
             let lastBatch = last bs in
             if IosType (batchReplicas lastBatch) = IosInt then
               let totalRollout' = i64 (totalRollout + sint (IntVal (batchReplicas lastBatch))) in
               if totalRollout' \<noteq> sint totalReplicas
               then Some (mismatch_message totalRollout' (sint totalReplicas))
               else None
             else None)"

definition verifyBatchesWithScale :: "ios_value \<Rightarrow> rollout_plan \<Rightarrow> int \<Rightarrow> int \<Rightarrow> string option" where
  "verifyBatchesWithScale gv spec originalSize targetSize =
     (let bs = batches spec;
          sizes = (\<lambda>t. itoa t @ '', targetSize size = '' @ itoa targetSize)
      in if length bs = 0 then Some ''the rolloutPlan must have batches''
      else
        let totalRollout =
              foldl (\<lambda>t rb. if targetSize > originalSize
                            then i64 (t + batch_value gv (i64 (targetSize - originalSize)) rb)
                            else i64 (t - batch_value gv (i64 (originalSize - targetSize)) rb))
                    originalSize (butlast bs)
        in if targetSize > originalSize \<and> totalRollout \<ge> targetSize
           then Some (''the rollout plan increased too much, total batch size = '' @ sizes totalRollout)
           else if targetSize < originalSize \<and> totalRollout \<le> targetSize
           then Some (''the rollout plan reduced too much, total batch size = '' @ sizes totalRollout)
           else if targetSize = originalSize \<and> totalRollout \<noteq> targetSize
           then Some (''the rollout plan changed on no-op scale, total batch size = '' @ sizes totalRollout)
           else
             let lastBatch = last bs in
             if IosType (batchReplicas lastBatch) = IosInt then
               let totalRollout' =
                     (if targetSize > originalSize
                      then i64 (totalRollout + sint (IntVal (batchReplicas lastBatch)))
                      else i64 (totalRollout - sint (IntVal (batchReplicas lastBatch))))
               in if totalRollout' \<noteq> targetSize
                  then Some (''the rollout plan batch size mismatch, total batch size = '' @ sizes totalRollout')
                  else None
             else None)"

text \<open>The loop runs over the batches up to the current one, and stops at the plan's end.\<close>

definition calculateNewBatchTarget :: "ios_value \<Rightarrow> rollout_plan \<Rightarrow> int \<Rightarrow> int \<Rightarrow> int \<Rightarrow> int" where
  "calculateNewBatchTarget gv spec originalSize targetSize currentBatch =
     (if currentBatch = int (length (batches spec)) - 1 then targetSize
      else foldl (\<lambda>t rb. if targetSize > originalSize
                         then i64 (t + batch_value gv (i64 (targetSize - originalSize)) rb)
                         else i64 (t - batch_value gv (i64 (originalSize - targetSize)) rb))
                 originalSize (take (nat (currentBatch + 1)) (batches spec)))"

section \<open>Sums without wrap-around\<close>

definition sane_replicas :: "ios_value \<Rightarrow> rollout_plan \<Rightarrow> bool" where
  "sane_replicas gv spec \<longleftrightarrow>
     length (batches spec) < 2 ^ 30 \<and>
     (\<forall>rb \<in> set (batches spec). \<forall>base. 0 \<le> base \<longrightarrow> base < 2 ^ 32 \<longrightarrow>
        0 \<le> batch_value gv base rb \<and> batch_value gv base rb < 2 ^ 32)"

definition prefix_sum :: "ios_value \<Rightarrow> int \<Rightarrow> rollout_batch list \<Rightarrow> int" where
  "prefix_sum gv d bs = sum_list (map (batch_value gv d) bs)"

lemma prefix_sum_simps [simp]:
  "prefix_sum gv d [] = 0"
  "prefix_sum gv d (b # bs) = batch_value gv d b + prefix_sum gv d bs"
  by (simp_all add: prefix_sum_def)

lemma prefix_sum_append [simp]: "prefix_sum gv d (xs @ ys) = prefix_sum gv d xs + prefix_sum gv d ys"
  by (simp add: prefix_sum_def)

definition small_values :: "ios_value \<Rightarrow> int \<Rightarrow> rollout_batch list \<Rightarrow> bool" where
  "small_values gv d bs \<longleftrightarrow>
     length bs < 2 ^ 30 \<and> (\<forall>b \<in> set bs. 0 \<le> batch_value gv d b \<and> batch_value gv d b < 2 ^ 32)"

lemma prefix_sum_bounds:
  "\<forall>b \<in> set bs. 0 \<le> batch_value gv d b \<and> batch_value gv d b < 2 ^ 32 \<Longrightarrow>
   0 \<le> prefix_sum gv d bs \<and> prefix_sum gv d bs \<le> 2 ^ 32 * int (length bs)"
  by (induction bs) (auto simp: algebra_simps)

lemma small_values_sum:
  assumes "small_values gv d bs"
  shows "0 \<le> prefix_sum gv d bs" and "prefix_sum gv d bs < 2 ^ 62"
  using prefix_sum_bounds [of bs gv d] assms by (auto simp: small_values_def)

lemma prefix_sum_nonneg:
  "\<forall>b \<in> set bs. 0 \<le> batch_value gv d b \<Longrightarrow> 0 \<le> prefix_sum gv d bs"
  by (induction bs) auto

lemma prefix_sum_take_mono:
  "\<forall>b \<in> set bs. 0 \<le> batch_value gv d b \<Longrightarrow> i \<le> j \<Longrightarrow>
   prefix_sum gv d (take i bs) \<le> prefix_sum gv d (take j bs)"
proof (induction bs arbitrary: i j)
  case (Cons b bs)
  then show ?case
    by (cases i; cases j) (auto intro!: add_nonneg_nonneg prefix_sum_nonneg dest: in_set_takeD)
qed simp

lemma foldl_add_i64:
  assumes "\<forall>b \<in> set bs. 0 \<le> batch_value gv d b" and "0 \<le> a + 2 ^ 62"
    and "a + prefix_sum gv d bs < 2 ^ 63"
  shows "foldl (\<lambda>t b. i64 (t + batch_value gv d b)) a bs = a + prefix_sum gv d bs"
  using assms
proof (induction bs arbitrary: a)
  case (Cons b bs)
  have pos: "0 \<le> prefix_sum gv d bs"
    using Cons.prems(1) by (intro prefix_sum_nonneg) auto
  with Cons.prems have "in_i64 (a + batch_value gv d b)"
    by (auto simp: in_i64_def)
  then have "i64 (a + batch_value gv d b) = a + batch_value gv d b"
    by (rule i64_id)
  with Cons show ?case by (simp add: algebra_simps)
qed simp

lemma foldl_sub_i64:
  assumes "\<forall>b \<in> set bs. 0 \<le> batch_value gv d b" and "a < 2 ^ 62"
    and "0 \<le> a - prefix_sum gv d bs + 2 ^ 63"
  shows "foldl (\<lambda>t b. i64 (t - batch_value gv d b)) a bs = a - prefix_sum gv d bs"
  using assms
proof (induction bs arbitrary: a)
  case (Cons b bs)
  have pos: "0 \<le> prefix_sum gv d bs"
    using Cons.prems(1) by (intro prefix_sum_nonneg) auto
  with Cons.prems have "in_i64 (a - batch_value gv d b)"
    by (auto simp: in_i64_def)
  then have "i64 (a - batch_value gv d b) = a - batch_value gv d b"
    by (rule i64_id)
  with Cons show ?case by (simp add: algebra_simps)
qed simp

section \<open>Targets of a verified plan\<close>

lemma sane_small:
  assumes "sane_replicas gv spec" and "0 \<le> d" and "d < 2 ^ 32" and "set bs \<subseteq> set (batches spec)"
    and "length bs \<le> length (batches spec)"
  shows "small_values gv d bs"
  using assms by (auto simp: sane_replicas_def small_values_def)

lemma small_values_nonneg: "small_values gv d bs \<Longrightarrow> \<forall>b \<in> set bs. 0 \<le> batch_value gv d b"
  by (simp add: small_values_def)

lemma scale_fold:
  assumes "sane_replicas gv spec" and "in_i32 a" and "in_i32 t"
    and sub: "set bs \<subseteq> set (batches spec)" and len: "length bs \<le> length (batches spec)"
  shows "foldl (\<lambda>x rb. if t > a then i64 (x + batch_value gv (i64 (t - a)) rb)
                       else i64 (x - batch_value gv (i64 (a - t)) rb)) a bs =
         (if t > a then a + prefix_sum gv (t - a) bs else a - prefix_sum gv (a - t) bs)"
proof (cases "t > a")
  case True
  have "small_values gv (t - a) bs"
    using assms True by (intro sane_small) (auto simp: in_i32_def)
  note sums = small_values_sum [OF this] and pos = small_values_nonneg [OF this]
  have "i64 (t - a) = t - a"
    using assms(2,3) by (intro i64_id) (auto simp: in_i32_def in_i64_def)
  with True sums pos assms(2) show ?thesis
    by (simp add: foldl_add_i64 in_i32_def)
next
  case False
  have "small_values gv (a - t) bs"
    using assms False by (intro sane_small) (auto simp: in_i32_def)
  note sums = small_values_sum [OF this] and pos = small_values_nonneg [OF this]
  have "i64 (a - t) = a - t"
    using assms(2,3) by (intro i64_id) (auto simp: in_i32_def in_i64_def)
  with False sums pos assms(2) show ?thesis
    by (simp add: foldl_sub_i64 in_i32_def)
qed

lemma set_butlast_subset: "set (butlast xs) \<subseteq> set xs"
  by (auto dest: in_set_butlastD)

lemma verifyBatchesWithScale_None:
  assumes "verifyBatchesWithScale gv spec a t = None" and "sane_replicas gv spec"
    and "in_i32 a" and "in_i32 t"
  shows "batches spec \<noteq> []"
    and "t > a \<Longrightarrow> a + prefix_sum gv (t - a) (butlast (batches spec)) < t"
    and "t < a \<Longrightarrow> t < a - prefix_sum gv (a - t) (butlast (batches spec))"
    and "t = a \<Longrightarrow> prefix_sum gv 0 (butlast (batches spec)) = 0"
  using assms(1) scale_fold [OF assms(2-4) set_butlast_subset]
  by (auto simp: verifyBatchesWithScale_def Let_def split: if_splits)

lemma target_before_last:
  assumes "sane_replicas gv spec" and "in_i32 a" and "in_i32 t" and "k < int (length (batches spec)) - 1"
  shows "calculateNewBatchTarget gv spec a t k =
           (if t > a then a + prefix_sum gv (t - a) (take (nat (k + 1)) (butlast (batches spec)))
            else a - prefix_sum gv (a - t) (take (nat (k + 1)) (butlast (batches spec))))"
proof -
  have "nat (k + 1) < length (batches spec) \<or> nat (k + 1) = 0"
    using assms(4) by linarith
  then have "take (nat (k + 1)) (batches spec) = take (nat (k + 1)) (butlast (batches spec))"
    by (elim disjE) (simp only: take_butlast, simp)
  moreover have "foldl (\<lambda>x rb. if t > a then i64 (x + batch_value gv (i64 (t - a)) rb)
                            else i64 (x - batch_value gv (i64 (a - t)) rb)) a
                   (take (nat (k + 1)) (butlast (batches spec))) =
    (if t > a then a + prefix_sum gv (t - a) (take (nat (k + 1)) (butlast (batches spec)))
     else a - prefix_sum gv (a - t) (take (nat (k + 1)) (butlast (batches spec))))"
    by (rule scale_fold [OF assms(1-3)]) (auto dest: in_set_takeD in_set_butlastD)
  ultimately show ?thesis
    using assms(4) by (simp add: calculateNewBatchTarget_def del: if_split)
qed

lemma target_last [simp]:
  "calculateNewBatchTarget gv spec a t (int (length (batches spec)) - 1) = t"
  by (simp add: calculateNewBatchTarget_def)

lemma prefix_sum_take_le:
  assumes "small_values gv d bs"
  shows "0 \<le> prefix_sum gv d (take i bs)" and "prefix_sum gv d (take i bs) \<le> prefix_sum gv d bs"
proof -
  note pos = small_values_nonneg [OF assms]
  show "0 \<le> prefix_sum gv d (take i bs)"
    using prefix_sum_take_mono [OF pos, of 0 i] by simp
  show "prefix_sum gv d (take i bs) \<le> prefix_sum gv d bs"
    using prefix_sum_take_mono [OF pos, of i "max i (length bs)"] by simp
qed

lemma scale_targets_bounds:
  assumes "verifyBatchesWithScale gv spec a t = None" and "sane_replicas gv spec"
    and "in_i32 a" and "in_i32 t" and "-1 \<le> i" and "i \<le> j" and "j < int (length (batches spec))"
  defines "T \<equiv> calculateNewBatchTarget gv spec a t"
  shows "(a \<le> t \<longrightarrow> a \<le> T i \<and> T i \<le> T j \<and> T j \<le> t) \<and>
         (t \<le> a \<longrightarrow> t \<le> T j \<and> T j \<le> T i \<and> T i \<le> a) \<and>
         T (int (length (batches spec)) - 1) = t \<and>
         (i < j \<and> a \<noteq> t \<longrightarrow> T i \<noteq> t)"
proof -
  let ?bs = "butlast (batches spec)"
  let ?d = "if t > a then t - a else a - t"
  note v = verifyBatchesWithScale_None [OF assms(1-4)]
  have small: "small_values gv ?d ?bs"
    using assms(2-4) by (intro sane_small) (auto simp: in_i32_def dest: in_set_butlastD)
  note pos = small_values_nonneg [OF small]
  have T: "T k = (if t > a then a + prefix_sum gv ?d (take (nat (k + 1)) ?bs)
                  else a - prefix_sum gv ?d (take (nat (k + 1)) ?bs))"
    if "k < int (length (batches spec)) - 1" for k
    using target_before_last [OF assms(2-4) that] by (simp add: T_def)
  have mono: "prefix_sum gv ?d (take (nat (i + 1)) ?bs) \<le> prefix_sum gv ?d (take (nat (j + 1)) ?bs)"
    using assms(6) by (intro prefix_sum_take_mono [OF pos]) simp
  note le = prefix_sum_take_le [OF small]
  have last: "T (int (length (batches spec)) - 1) = t"
    by (simp add: T_def)
  have total: "if t > a then a + prefix_sum gv ?d ?bs < t
               else if t < a then t < a - prefix_sum gv ?d ?bs else prefix_sum gv ?d ?bs = 0"
    using v(2-4) by auto
  show ?thesis
  proof (cases "j = int (length (batches spec)) - 1")
    case True
    show ?thesis
    proof (cases "i = j")
      case True
      with \<open>j = _\<close> last show ?thesis by simp
    next
      case False
      with assms(6) True have "i < int (length (batches spec)) - 1" by simp
      from T [OF this] le [of "nat (i + 1)"] total True last False show ?thesis
        by (auto split: if_splits)
    qed
  next
    case False
    with assms(6,7) have "i < int (length (batches spec)) - 1" "j < int (length (batches spec)) - 1"
      by auto
    from T [OF this(1)] T [OF this(2)] le [of "nat (i + 1)"] le [of "nat (j + 1)"] mono total last
    show ?thesis by (auto split: if_splits)
  qed
qed

text \<open>
  C6: On a plan that verifyBatchesWithScale accepts, the pod targets of the batches lead
  from the original size to the target size: they never leave the interval between the two, never
  move against the direction of the scale, the last one is the target size, and no batch before
  the last reaches it.
\<close>

theorem scale_targets_monotone:
  assumes "verifyBatchesWithScale gv spec a t = None" and "sane_replicas gv spec"
    and "in_i32 a" and "in_i32 t" and "-1 \<le> i" and "i \<le> j" and "j < int (length (batches spec))"
  defines "T \<equiv> calculateNewBatchTarget gv spec a t"
  shows "(a \<le> t \<longrightarrow> a \<le> T i \<and> T i \<le> T j \<and> T j \<le> t) \<and>
         (t \<le> a \<longrightarrow> t \<le> T j \<and> T j \<le> T i \<and> T i \<le> a) \<and>
         T (int (length (batches spec)) - 1) = t \<and>
         (i < j \<and> a \<noteq> t \<longrightarrow> T i \<noteq> t)"
  unfolding T_def by (rule scale_targets_bounds [OF assms(1-7)])

section \<open>Rolling is scaling from zero\<close>

lemma verifyBatchesWithRollout_pos:
  assumes "verifyBatchesWithRollout gv spec n = None" and "sane_replicas gv spec" and "0 \<le> sint n"
  shows "0 < sint n"
proof -
  have "small_values gv (sint n) (butlast (batches spec))"
    using assms(2,3) sint_in_i32 [of n]
    by (intro sane_small) (auto simp: in_i32_def dest: in_set_butlastD)
  then have "0 \<le> foldl (\<lambda>t rb. i64 (t + batch_value gv (sint n) rb)) 0 (butlast (batches spec))"
    using small_values_sum [of gv "sint n" "butlast (batches spec)"]
    by (simp add: foldl_add_i64 small_values_nonneg)
  with assms(1) show ?thesis
    by (auto simp: verifyBatchesWithRollout_def Let_def split: if_splits)
qed

lemma i64_sint32 [simp]: "i64 (sint (n :: int32)) = sint n"
  by (intro i64_id in_i32_in_i64 sint_in_i32)

text \<open>
  For a positive number of pods, verifying a plan as a rolling upgrade and verifying it as a
  scale from zero accept the same plans, so the two verifiers can not drift apart.
\<close>

theorem verify_rollout_is_scale_from_zero:
  assumes "0 < sint n"
  shows "verifyBatchesWithRollout gv spec n = None \<longleftrightarrow>
         verifyBatchesWithScale gv spec 0 (sint n) = None"
  using assms by (auto simp: verifyBatchesWithRollout_def verifyBatchesWithScale_def Let_def)

lemma rollout_targets_monotone:
  assumes "verifyBatchesWithRollout gv spec n = None" and "sane_replicas gv spec" and "0 \<le> sint n"
    and "-1 \<le> i" and "i \<le> j" and "j < int (length (batches spec))"
  defines "T \<equiv> calculateNewBatchTarget gv spec 0 (sint n)"
  shows "0 \<le> T i \<and> T i \<le> T j \<and> T j \<le> sint n"
proof -
  have pos: "0 < sint n"
    using assms(1-3) by (rule verifyBatchesWithRollout_pos)
  then have "verifyBatchesWithScale gv spec 0 (sint n) = None"
    using assms(1) by (auto simp: verifyBatchesWithRollout_def verifyBatchesWithScale_def Let_def
        split: if_splits)
  moreover have "in_i32 0" by (simp add: in_i32_def)
  ultimately show ?thesis
    using scale_targets_bounds [OF _ assms(2) _ sint_in_i32 assms(4-6)] pos
    unfolding T_def by simp
qed

section \<open>The library function\<close>

definition ceil_percent :: "int \<Rightarrow> int \<Rightarrow> int" where
  "ceil_percent p n = - ((- (p * n)) div 100)"

text \<open>
  What the documentation of intstr says with rounding up: an int is itself, a percentage of a
  total is rounded up, and a string that is no percentage is 0 with an error.
\<close>

definition intstr_doc :: "ios_value \<Rightarrow> bool" where
  "intstr_doc gv \<longleftrightarrow>
     (\<forall>v. (IosType v = IosInt \<longrightarrow> (\<forall>n. gv v n True = (sint (IntVal v), None))) \<and>
          (IosType v = IosString \<longrightarrow>
             (\<exists>p. \<forall>n. gv v n True = (ceil_percent p n, None)) \<or>
             (\<exists>e. \<forall>n. gv v n True = (0, Some e))))"

text \<open>An instance of it, for examples: percentages are written with their sign at the end.\<close>

definition example_ios_value :: ios_value where
  "example_ios_value v n up =
     (case IosType v of
        IosInt \<Rightarrow> (sint (IntVal v), None)
      | IosString \<Rightarrow>
          (if strings_HasSuffix (StrVal v) ''%'' then
             (case strconv_Atoi (strings_TrimSuffix (StrVal v) ''%'') of
                (p, None) \<Rightarrow> (ceil_percent p n, None)
              | (p, Some e) \<Rightarrow> (0, Some e))
           else (0, Some ''invalid type: string is not a percentage'')))"

lemma example_ios_value_doc: "intstr_doc example_ios_value"
proof -
  have "(\<exists>p. \<forall>n. example_ios_value v n True = (ceil_percent p n, None)) \<or>
        (\<exists>e. \<forall>n. example_ios_value v n True = (0, Some e))" if "IosType v = IosString" for v
    using that
    by (cases "strconv_Atoi (strings_TrimSuffix (StrVal v) ''%'')";
        cases "snd (strconv_Atoi (strings_TrimSuffix (StrVal v) ''%''))")
       (auto simp: example_ios_value_def split: option.splits)
  then show ?thesis
    by (auto simp: intstr_doc_def example_ios_value_def)
qed

lemma ceil_percent_nonneg: "0 \<le> p \<Longrightarrow> 0 \<le> n \<Longrightarrow> 0 \<le> ceil_percent p n"
  by (simp add: ceil_percent_def div_nonpos_pos_le0)

lemma ceil_percent_100 [simp]: "ceil_percent p 100 = p"
proof -
  have "- (p * 100) = (- p) * 100" by simp
  then show ?thesis unfolding ceil_percent_def
    by (metis add.inverse_inverse nonzero_mult_div_cancel_right zero_neq_numeral)
qed

lemma ceil_percent_le: "0 \<le> n \<Longrightarrow> p \<le> 100 \<Longrightarrow> ceil_percent p n \<le> n"
proof -
  assume "0 \<le> n" "p \<le> 100"
  then have "p * n \<le> 100 * n" by (intro mult_right_mono)
  then have "- n * 100 \<le> - (p * n)" by simp
  then have "(- n * 100) div 100 \<le> (- (p * n)) div 100" by (intro zdiv_mono1) auto
  then show ?thesis by (simp add: ceil_percent_def)
qed

text \<open>
  What the admission webhook checks of a batch, at a total of 100, keeps its value sane at every
  total, up to a percentage of 100.
\<close>

lemma intstr_doc_sane:
  assumes doc: "intstr_doc gv" and len: "length (batches spec) < 2 ^ 30"
    and valid: "\<forall>rb \<in> set (batches spec). 0 \<le> batch_value gv 100 rb \<and>
                  (IosType (batchReplicas rb) = IosString \<longrightarrow> batch_value gv 100 rb \<le> 100)"
  shows "sane_replicas gv spec"
proof -
  have "0 \<le> batch_value gv base rb \<and> batch_value gv base rb < 2 ^ 32"
    if "rb \<in> set (batches spec)" "0 \<le> base" "base < 2 ^ 32" for rb base
  proof (cases "IosType (batchReplicas rb)")
    case IosInt
    with doc have "batch_value gv n rb = sint (IntVal (batchReplicas rb))" for n
      by (simp add: intstr_doc_def batch_value_def)
    with valid that(1) sint_in_i32 [of "IntVal (batchReplicas rb)"] show ?thesis
      by (auto simp: in_i32_def)
  next
    case IosString
    with doc have "(\<exists>p. \<forall>n. batch_value gv n rb = ceil_percent p n) \<or> (\<forall>n. batch_value gv n rb = 0)"
      unfolding intstr_doc_def batch_value_def by (metis fst_conv)
    with valid that IosString show ?thesis
      using ceil_percent_nonneg ceil_percent_le by fastforce
  qed
  with len show ?thesis by (simp add: sane_replicas_def)
qed

section \<open>Examples\<close>

definition int_batch :: "int32 \<Rightarrow> rollout_batch" where
  "int_batch n =
     \<lparr>batchReplicas = \<lparr>IosType = IosInt, IntVal = n, StrVal = ''''\<rparr>, batchMaxUnavailable = None,
      batchInstanceInterval = None, batchRolloutWebhooks = []\<rparr>"

definition plan_of :: "rollout_batch list \<Rightarrow> rollout_plan" where
  "plan_of bs =
     \<lparr>RolloutStrategy = IncreaseFirst, TargetSize = None, NumBatches = None,
      RolloutBatches = Some bs, BatchPartition = None, Paused = False, RolloutWebhooks = []\<rparr>"

lemma plan_of_simps [simp]:
  "batches (plan_of bs) = bs" "BatchPartition (plan_of bs) = None" "Paused (plan_of bs) = False"
  "RolloutWebhooks (plan_of bs) = []" "TargetSize (plan_of bs) = None"
  "RolloutStrategy (plan_of bs) = IncreaseFirst" "RolloutBatches (plan_of bs) = Some bs"
  by (simp_all add: plan_of_def batches_def)

lemma int_batch_value [simp]: "batch_value example_ios_value d (int_batch n) = sint n"
  by (simp add: batch_value_def int_batch_def example_ios_value_def)

lemma int_batch_simps [simp]:
  "IosType (batchReplicas (int_batch n)) = IosInt" "IntVal (batchReplicas (int_batch n)) = n"
  "batchMaxUnavailable (int_batch n) = None" "batchRolloutWebhooks (int_batch n) = []"
  by (simp_all add: int_batch_def)

lemma example_sane: "sane_replicas example_ios_value (plan_of [int_batch 2, int_batch 3])"
  by (simp add: sane_replicas_def)

lemma example_verified:
  "verifyBatchesWithScale example_ios_value (plan_of [int_batch 2, int_batch 3]) 0 5 = None"
  "verifyBatchesWithRollout example_ios_value (plan_of [int_batch 2, int_batch 3]) 5 = None"
  by (simp_all add: verifyBatchesWithScale_def verifyBatchesWithRollout_def i64_def)

theorem scale_targets_monotone_witness:
  "let T = calculateNewBatchTarget example_ios_value (plan_of [int_batch 2, int_batch 3]) 0 5
   in T 0 = 2 \<and> T 0 \<le> T 1 \<and> T 1 \<le> 5 \<and> T 0 \<noteq> 5"
proof -
  have "in_i32 0" "in_i32 5" by (simp_all add: in_i32_def)
  from scale_targets_monotone [OF example_verified(1) example_sane this, of 0 1]
  show ?thesis by (simp add: Let_def calculateNewBatchTarget_def i64_def)
qed

theorem verify_rollout_is_scale_from_zero_witness:
  "verifyBatchesWithScale example_ios_value (plan_of [int_batch 2, int_batch 3]) 0 5 = None"
proof -
  have "0 < sint (5 :: int32)" by simp
  from verify_rollout_is_scale_from_zero
    [OF this, of example_ios_value "plan_of [int_batch 2, int_batch 3]"]
  show ?thesis by (simp add: example_verified)
qed

end
