(* ===== verification/Workloads.thy ===== *)
theory Workloads
  imports Rollout_State Batches
begin

text \<open>
  The frame in which the workload controllers of pkg/controller/common/rollout/workloads run
  (controller.go): the Kubernetes objects they read and patch, the struct workloadController, the
  interface WorkloadController, and the small operations the controllers share.

  Everything that is not in the repository is a field of the record \<open>env\<close>: the API server
  (\<open>'w\<close> is its state, which other actors may also change between calls, so that each call gives
  a new one), the clock, crossplane's SetConditions, the functions of apimachinery, the hash
  function and the HTTP client.
\<close>

section \<open>Kubernetes objects\<close>

record owner_ref =
  orAPIVersion :: string
  orKind :: string
  orName :: string
  orUID :: string
  orController :: "bool option"
  orBlockOwnerDeletion :: "bool option"

text \<open>\<open>depRest\<close> is the part of a Deployment's spec that only the hash looks at.\<close>

record deployment_spec =
  depReplicas :: "int32 option"
  depPaused :: bool
  depRest :: string

record deployment =
  depName :: string
  depNamespace :: string
  depOwners :: "owner_ref list"
  depSpec :: deployment_spec
  depStatusReplicas :: int32
  depUpdatedReplicas :: int32
  depReadyReplicas :: int32

record cloneset =
  csName :: string
  csNamespace :: string
  csOwners :: "owner_ref list"
  csReplicas :: "int32 option"
  csUpdatePaused :: bool
  csPartition :: "int_or_string option"
  csStatusReplicas :: int32
  csUpdatedReplicas :: int32
  csUpdatedReadyReplicas :: int32
  csReadyReplicas :: int32
  csUpdateRevision :: string

record api_error =
  errNotFound :: bool
  errText :: string

record parent_object =
  parName :: string
  parNamespace :: string
  parUID :: string

type_synonym nsname = "string \<times> string"

record http_response =
  respStatusCode :: int
  respBody :: "string + string"

type_synonym http_vars = "http_response option \<times> string"

section \<open>What is outside the repository\<close>

text \<open>
  \<open>envPatch*\<close> gets the object as it was, as it is to be and the field owner, and returns the
  error and what the object in memory is afterwards.  \<open>envRetryOnError\<close> is client-go's
  retry.OnError with the default backoff and an always-retriable error, \<open>envHTTPDo\<close> the default
  HTTP client on method, URL and payload (an error with the response there may be, or a response;
  how far the request's body has been read is part of the world), \<open>envParseURL\<close> url.Parse
  followed by String, \<open>envNewRequest\<close> the error of http.NewRequestWithContext.  The two groups
  are the constants kruisev1.GroupVersion.Group and apps.GroupName.
\<close>

record 'w env =
  envNow :: "'w \<Rightarrow> int"
  envSetConditions :: conditioner
  envGetValue :: ios_value
  envGetControllerOf :: "owner_ref list \<Rightarrow> owner_ref option"
  envOwnerString :: "owner_ref \<Rightarrow> string"
  envNewControllerRef :: "parent_object \<Rightarrow> owner_ref"
  envHash :: "deployment_spec \<Rightarrow> string + nat"
  envGetDeployment :: "nsname \<Rightarrow> 'w \<Rightarrow> (api_error + deployment) \<times> 'w"
  envPatchDeployment ::
    "deployment \<Rightarrow> deployment \<Rightarrow> string \<Rightarrow> 'w \<Rightarrow> (api_error option \<times> deployment) \<times> 'w"
  envGetCloneSet :: "nsname \<Rightarrow> 'w \<Rightarrow> (api_error + cloneset) \<times> 'w"
  envPatchCloneSet ::
    "cloneset \<Rightarrow> cloneset \<Rightarrow> string \<Rightarrow> 'w \<Rightarrow> (api_error option \<times> cloneset) \<times> 'w"
  envParseURL :: "string \<Rightarrow> string + string"
  envNewRequest :: "string \<Rightarrow> string \<Rightarrow> string option"
  envHTTPDo :: "string \<Rightarrow> string \<Rightarrow> rollout_webhook_payload \<Rightarrow> 'w \<Rightarrow>
    (http_response option \<times> string + http_response) \<times> 'w"
  envRetryOnError :: "((http_vars \<times> 'w) \<Rightarrow> string option \<times> (http_vars \<times> 'w)) \<Rightarrow>
    (http_vars \<times> 'w) \<Rightarrow> string option \<times> (http_vars \<times> 'w)"
  envKruiseGroup :: string
  envAppsGroup :: string

section \<open>workloadController\<close>

text \<open>
  The read-only fields of the struct, and the state that its methods change: the world behind the
  client, the rollout status (a pointer shared with the plan controller) and what the event
  recorder has been given.
\<close>

record 'w workload_ctl =
  clientEnv :: "'w env"
  parentController :: parent_object
  rolloutSpec :: rollout_plan

datatype rec_event = NormalEvent string string | WarningEvent string string

record 'w ctl =
  world :: 'w
  rolloutStatus :: rollout_status
  recorded :: "rec_event list"

text \<open>What a method of the interface returns besides its effects: the flag and the error.\<close>

type_synonym verdict = "bool \<times> string option"

text \<open>The interface WorkloadController, as a table of methods; \<open>None\<close> is a panic.\<close>

record 'w workload_controller =
  VerifySpec :: "'w ctl \<Rightarrow> (verdict \<times> 'w ctl) option"
  Initialize :: "'w ctl \<Rightarrow> (verdict \<times> 'w ctl) option"
  RolloutOneBatchPods :: "'w ctl \<Rightarrow> (verdict \<times> 'w ctl) option"
  CheckOneBatchPods :: "'w ctl \<Rightarrow> (verdict \<times> 'w ctl) option"
  FinalizeOneBatch :: "'w ctl \<Rightarrow> (verdict \<times> 'w ctl) option"
  Finalize :: "bool \<Rightarrow> 'w ctl \<Rightarrow> (bool \<times> 'w ctl) option"

definition emit :: "rec_event \<Rightarrow> ('w, 'z) ctl_scheme \<Rightarrow> ('w, 'z) ctl_scheme" where
  "emit e c = c\<lparr>recorded := recorded c @ [e]\<rparr>"

definition on_status ::
  "(rollout_status \<Rightarrow> rollout_status) \<Rightarrow> ('w, 'z) ctl_scheme \<Rightarrow> ('w, 'z) ctl_scheme" where
  "on_status f c = c\<lparr>rolloutStatus := f (rolloutStatus c)\<rparr>"

definition retry :: "'w env \<Rightarrow> string \<Rightarrow> ('w, 'z) ctl_scheme \<Rightarrow> ('w, 'z) ctl_scheme" where
  "retry E reason c = on_status (RolloutRetry (envSetConditions E) (envNow E (world c)) reason) c"

definition failing :: "'w env \<Rightarrow> string \<Rightarrow> ('w, 'z) ctl_scheme \<Rightarrow> ('w, 'z) ctl_scheme" where
  "failing E reason c = on_status (rolloutFailing (envSetConditions E) (envNow E (world c)) reason) c"

definition failed :: "'w env \<Rightarrow> string \<Rightarrow> ('w, 'z) ctl_scheme \<Rightarrow> ('w, 'z) ctl_scheme" where
  "failed E reason c = on_status (rolloutFailed (envSetConditions E) (envNow E (world c)) reason) c"

definition transition :: "'w env \<Rightarrow> rollout_event \<Rightarrow> ('w, 'z) ctl_scheme \<Rightarrow> ('w, 'z) ctl_scheme" where
  "transition E ev c = on_status (StateTransition (envSetConditions E) (envNow E (world c)) ev) c"

definition AppRolloutKind :: string where
  "AppRolloutKind = ''AppRollout''"

definition SchemeGroupVersion :: string where
  "SchemeGroupVersion = ''core.oam.dev/v1beta1''"

definition owned_by_rollout :: "owner_ref \<Rightarrow> bool" where
  "owned_by_rollout o1 \<longleftrightarrow> orKind o1 = AppRolloutKind \<and> orAPIVersion o1 = SchemeGroupVersion"

text \<open>utils.ComputeSpecHash of pkg/controller/utils/utils.go, on a Deployment's spec.\<close>

definition ComputeSpecHash :: "'w env \<Rightarrow> deployment_spec \<Rightarrow> string + string" where
  "ComputeSpecHash E spec =
     (case envHash E spec of
        Inl err \<Rightarrow> Inl err
      | Inr specHash \<Rightarrow> Inr (strconv_FormatHex specHash))"

definition getDeployReplicaSize :: "deployment \<Rightarrow> int32" where
  "getDeployReplicaSize d = (case depReplicas (depSpec d) of Some n \<Rightarrow> n | None \<Rightarrow> 1)"

text \<open>Reading \<open>RolloutBatches[i]\<close> panics outside the slice.\<close>

definition batch_at :: "rollout_plan \<Rightarrow> int32 \<Rightarrow> rollout_batch option" where
  "batch_at spec i =
     (if 0 \<le> sint i \<and> sint i < int (length (batches spec)) then Some (batches spec ! nat (sint i))
      else None)"

definition unavailable :: "'w env \<Rightarrow> rollout_batch \<Rightarrow> int \<Rightarrow> int" where
  "unavailable E rb n =
     (case batchMaxUnavailable rb of None \<Rightarrow> 0 | Some v \<Rightarrow> fst (envGetValue E v n True))"

section \<open>Frame lemmas\<close>

definition status_phase :: "('w, 'z) ctl_scheme \<Rightarrow> phase" where
  "status_phase c = phase (rolloutStatus c)"

lemma ctl_frame [simp, frame_simps]:
  "rolloutStatus (emit e c) = rolloutStatus c"
  "world (emit e c) = world c"
  "world (on_status f c) = world c"
  "recorded (on_status f c) = recorded c"
  "rolloutStatus (on_status f c) = f (rolloutStatus c)"
  "world (retry E m c) = world c"
  "recorded (retry E m c) = recorded c"
  "world (failing E m c) = world c"
  "world (failed E m c) = world c"
  "world (transition E ev c) = world c"
  "status_phase (emit e c) = status_phase c"
  "status_phase (c\<lparr>world := w\<rparr>) = status_phase c"
  "status_phase (retry E m c) = status_phase c"
  by (simp_all add: emit_def on_status_def retry_def failing_def failed_def transition_def
      status_phase_def)

lemma retry_status [simp, frame_simps]:
  "RollingState (rolloutStatus (retry E m c)) = RollingState (rolloutStatus c)"
  "CurrentBatch (rolloutStatus (retry E m c)) = CurrentBatch (rolloutStatus c)"
  "RolloutTargetSize (rolloutStatus (retry E m c)) = RolloutTargetSize (rolloutStatus c)"
  "RolloutOriginalSize (rolloutStatus (retry E m c)) = RolloutOriginalSize (rolloutStatus c)"
  "UpgradedReplicas (rolloutStatus (retry E m c)) = UpgradedReplicas (rolloutStatus c)"
  "NewPodTemplateIdentifier (rolloutStatus (retry E m c)) = NewPodTemplateIdentifier (rolloutStatus c)"
  by (simp_all add: retry_def)

lemma batch_at_in_range:
  "0 \<le> sint i \<Longrightarrow> sint i < int (length (batches spec)) \<Longrightarrow>
   batch_at spec i = Some (batches spec ! nat (sint i))"
  by (simp add: batch_at_def)

section \<open>The contract of a workload controller\<close>

text \<open>
  What the plan controller relies on.  A method changes neither the rollout state, nor the batch
  state, nor the current batch; only VerifySpec sets the sizes; and no method panics in the states
  where it is called, described by \<open>pre\<close>.
\<close>

definition status_sizes :: "('w, 'z) ctl_scheme \<Rightarrow> int32 \<times> int32" where
  "status_sizes c = (RolloutOriginalSize (rolloutStatus c), RolloutTargetSize (rolloutStatus c))"

lemma status_sizes_frame [simp, frame_simps]:
  "status_sizes (emit e c) = status_sizes c"
  "status_sizes (c\<lparr>world := w\<rparr>) = status_sizes c"
  "status_sizes (retry E m c) = status_sizes c"
  by (simp_all add: status_sizes_def)

definition stable :: "('w, 'y) ctl_scheme \<Rightarrow> ('w, 'z) ctl_scheme \<Rightarrow> bool" where
  "stable c c' \<longleftrightarrow> status_phase c' = status_phase c \<and> status_sizes c' = status_sizes c"

lemma stable_refl [simp]: "stable c c"
  by (simp add: stable_def)

lemma stable_trans [trans]: "stable a b \<Longrightarrow> stable b c \<Longrightarrow> stable a c"
  by (simp add: stable_def)

lemma stable_frame [simp]:
  "stable c (emit e d) = stable c d"
  "stable c (retry E m d) = stable c d"
  "stable c (d\<lparr>world := w\<rparr>) = stable c d"
  by (simp_all add: stable_def)

lemma stable_counters [simp]:
  "stable c (on_status (\<lambda>r. r\<lparr>UpgradedReplicas := n\<rparr>) d) = stable c d"
  "stable c (on_status (\<lambda>r. r\<lparr>UpgradedReadyReplicas := n\<rparr>) d) = stable c d"
  "stable c (on_status (\<lambda>r. r\<lparr>LastAppliedPodTemplateIdentifier := f r\<rparr>) d) = stable c d"
  "stable c (on_status (\<lambda>r. r\<lparr>NewPodTemplateIdentifier := h\<rparr>) d) = stable c d"
  by (simp_all add: stable_def status_phase_def status_sizes_def phase_def)

lemma status_phase_counters [simp]:
  "status_phase (on_status (\<lambda>r. r\<lparr>RolloutTargetSize := n\<rparr>) d) = status_phase d"
  "status_phase (on_status (\<lambda>r. r\<lparr>RolloutOriginalSize := n\<rparr>) d) = status_phase d"
  "status_phase (on_status (\<lambda>r. r\<lparr>RolloutTargetSize := n, RolloutOriginalSize := m\<rparr>) d) = status_phase d"
  "status_phase (on_status (\<lambda>r. r\<lparr>NewPodTemplateIdentifier := h\<rparr>) d) = status_phase d"
  by (simp_all add: status_phase_def phase_def)

lemma stable_same_status: "rolloutStatus c' = rolloutStatus c \<Longrightarrow> stable c c'"
  by (simp add: stable_def status_phase_def status_sizes_def)

lemma stable_left: "stable c d \<Longrightarrow> rolloutStatus c' = rolloutStatus c \<Longrightarrow> stable c' d"
  by (simp add: stable_def status_phase_def status_sizes_def)

locale workload_contract =
  fixes M :: "'w workload_controller" and pre :: "'w ctl \<Rightarrow> bool"
  assumes VerifySpec_phase: "VerifySpec M c = Some (v, c') \<Longrightarrow> status_phase c' = status_phase c"
    and Initialize_stable: "Initialize M c = Some (v, c') \<Longrightarrow> stable c c'"
    and RolloutOneBatchPods_stable: "RolloutOneBatchPods M c = Some (v, c') \<Longrightarrow> stable c c'"
    and CheckOneBatchPods_stable: "CheckOneBatchPods M c = Some (v, c') \<Longrightarrow> stable c c'"
    and FinalizeOneBatch_stable: "FinalizeOneBatch M c = Some (v, c') \<Longrightarrow> stable c c'"
    and Finalize_stable: "Finalize M b c = Some (ok, c') \<Longrightarrow> stable c c'"
    and VerifySpec_returns: "VerifySpec M c \<noteq> None"
    and Initialize_returns: "Initialize M c \<noteq> None"
    and RolloutOneBatchPods_returns: "pre c \<Longrightarrow> RolloutOneBatchPods M c \<noteq> None"
    and CheckOneBatchPods_returns: "pre c \<Longrightarrow> CheckOneBatchPods M c \<noteq> None"
    and FinalizeOneBatch_returns: "pre c \<Longrightarrow> FinalizeOneBatch M c \<noteq> None"
    and Finalize_returns: "Finalize M b c \<noteq> None"

definition batch_in_range :: "rollout_plan \<Rightarrow> int32 \<Rightarrow> bool" where
  "batch_in_range spec i \<longleftrightarrow> 0 \<le> sint i \<and> sint i < int (length (batches spec))"

lemma batch_at_Some [simp]:
  "batch_in_range spec i \<Longrightarrow> batch_at spec i = Some (batches spec ! nat (sint i))"
  by (simp add: batch_at_def batch_in_range_def)

end
