(* ===== verification/Example_Env.thy ===== *)
theory Example_Env
  imports Workloads
begin

text \<open>
  A concrete environment for the examples: an API server that holds one CloneSet and two
  Deployments, applies every patch and never fails, a clock that stands still, and a web server
  that accepts every request.  It shows that the hypotheses on the environment can hold.
\<close>

record example_world =
  exCloneSet :: cloneset
  exSource :: deployment
  exTarget :: deployment

definition example_owner :: owner_ref where
  "example_owner =
     \<lparr>orAPIVersion = SchemeGroupVersion, orKind = AppRolloutKind, orName = ''rollout'',
      orUID = ''uid'', orController = Some True, orBlockOwnerDeletion = Some True\<rparr>"

definition example_env :: "example_world env" where
  "example_env =
     \<lparr>envNow = (\<lambda>w. 0),
      envSetConditions = (\<lambda>c cs. cs),
      envGetValue = example_ios_value,
      envGetControllerOf = find (\<lambda>o1. orController o1 = Some True),
      envOwnerString = orName,
      envNewControllerRef = (\<lambda>p. example_owner\<lparr>orName := parName p, orUID := parUID p\<rparr>),
      envHash = (\<lambda>spec. Inr (length (depRest spec))),
      envGetDeployment = (\<lambda>n w. (Inr (if snd n = ''source'' then exSource w else exTarget w), w)),
      envPatchDeployment = (\<lambda>orig d owner w.
        ((None, d), if depName d = ''source'' then w\<lparr>exSource := d\<rparr> else w\<lparr>exTarget := d\<rparr>)),
      envGetCloneSet = (\<lambda>n w. (Inr (exCloneSet w), w)),
      envPatchCloneSet = (\<lambda>orig cs owner w. ((None, cs), w\<lparr>exCloneSet := cs\<rparr>)),
      envParseURL = Inr,
      envNewRequest = (\<lambda>method url. None),
      envHTTPDo = (\<lambda>method url payload w. (Inr \<lparr>respStatusCode = 200, respBody = Inr ''''\<rparr>, w)),
      envRetryOnError = (\<lambda>f. f),
      envKruiseGroup = ''apps.kruise.io'',
      envAppsGroup = ''apps''\<rparr>"

definition example_cloneset :: cloneset where
  "example_cloneset =
     \<lparr>csName = ''app'', csNamespace = ''default'', csOwners = [], csReplicas = Some 5,
      csUpdatePaused = True, csPartition = None, csStatusReplicas = 5, csUpdatedReplicas = 5,
      csUpdatedReadyReplicas = 5, csReadyReplicas = 5, csUpdateRevision = ''v2''\<rparr>"

definition example_deployment :: "string \<Rightarrow> int32 \<Rightarrow> deployment" where
  "example_deployment name n =
     \<lparr>depName = name, depNamespace = ''default'', depOwners = [],
      depSpec = \<lparr>depReplicas = Some n, depPaused = True, depRest = name\<rparr>,
      depStatusReplicas = n, depUpdatedReplicas = n, depReadyReplicas = n\<rparr>"

definition example_start :: example_world where
  "example_start =
     \<lparr>exCloneSet = example_cloneset, exSource = example_deployment ''source'' 5,
      exTarget = example_deployment ''target'' 0\<rparr>"

definition example_plan :: rollout_plan where
  "example_plan = plan_of [int_batch 2, int_batch 3]"

definition example_parent :: parent_object where
  "example_parent = \<lparr>parName = ''rollout'', parNamespace = ''default'', parUID = ''uid''\<rparr>"

definition example_client :: "rollout_plan \<Rightarrow> example_world workload_ctl" where
  "example_client spec =
     \<lparr>clientEnv = example_env, parentController = example_parent, rolloutSpec = spec\<rparr>"

definition example_status :: "rolling_state \<Rightarrow> batch_rolling_state \<Rightarrow> int32 \<Rightarrow> rollout_status" where
  "example_status r b i =
     fresh_status\<lparr>RollingState := r, BatchRollingState := b, CurrentBatch := i,
                  RolloutTargetSize := 5\<rparr>"

definition example_ctl :: "rolling_state \<Rightarrow> batch_rolling_state \<Rightarrow> int32 \<Rightarrow> example_world ctl" where
  "example_ctl r b i =
     \<lparr>world = example_start, rolloutStatus = example_status r b i, recorded = []\<rparr>"

lemmas example_defs =
  example_env_def example_cloneset_def example_deployment_def example_start_def example_plan_def
  example_parent_def example_client_def example_status_def example_ctl_def example_owner_def
  fresh_status_def

lemma example_client_simps [simp]:
  "clientEnv (example_client spec) = example_env" "rolloutSpec (example_client spec) = spec"
  "parentController (example_client spec) = example_parent"
  by (simp_all add: example_client_def)

lemma example_env_simps [simp]:
  "envGetValue example_env = example_ios_value" "envNow example_env w = 0"
  "envSetConditions example_env c cs = cs"
  "envGetDeployment example_env n w = (Inr (if snd n = ''source'' then exSource w else exTarget w), w)"
  "envPatchDeployment example_env orig d p w =
     ((None, d), if depName d = ''source'' then w\<lparr>exSource := d\<rparr> else w\<lparr>exTarget := d\<rparr>)"
  "envGetCloneSet example_env n w = (Inr (exCloneSet w), w)"
  "envPatchCloneSet example_env old new p w = ((None, new), w\<lparr>exCloneSet := new\<rparr>)"
  "envGetControllerOf example_env = find (\<lambda>o1. orController o1 = Some True)"
  "envHash example_env spec = Inr (length (depRest spec))"
  "envNewControllerRef example_env par = example_owner\<lparr>orName := parName par, orUID := parUID par\<rparr>"
  by (simp_all add: example_env_def)

lemma example_ctl_simps [simp]:
  "world (example_ctl r b i) = example_start" "recorded (example_ctl r b i) = []"
  "rolloutStatus (example_ctl r b i) = example_status r b i"
  by (simp_all add: example_ctl_def)

lemma example_status_simps [simp]:
  "RollingState (example_status r b i) = r" "BatchRollingState (example_status r b i) = b"
  "CurrentBatch (example_status r b i) = i" "RolloutTargetSize (example_status r b i) = 5"
  "RolloutOriginalSize (example_status r b i) = 0" "UpgradedReplicas (example_status r b i) = 0"
  "LastAppliedPodTemplateIdentifier (example_status r b i) = ''''"
  by (simp_all add: example_status_def fresh_status_def)

lemma example_start_simps [simp]:
  "exCloneSet example_start = example_cloneset"
  "exSource example_start = example_deployment ''source'' 5"
  "exTarget example_start = example_deployment ''target'' 0"
  by (simp_all add: example_start_def)

lemma example_cloneset_simps [simp]:
  "csName example_cloneset = ''app''" "csReplicas example_cloneset = Some 5"
  "csStatusReplicas example_cloneset = 5" "csOwners example_cloneset = []"
  "csUpdatePaused example_cloneset" "csUpdatedReplicas example_cloneset = 5"
  "csUpdateRevision example_cloneset = ''v2''" "csReadyReplicas example_cloneset = 5"
  "csUpdatedReadyReplicas example_cloneset = 5"
  by (simp_all add: example_cloneset_def)

lemma example_deployment_simps [simp]:
  "depName (example_deployment name n) = name" "depOwners (example_deployment name n) = []"
  "depReplicas (depSpec (example_deployment name n)) = Some n"
  "depPaused (depSpec (example_deployment name n))" "depStatusReplicas (example_deployment name n) = n"
  "depReadyReplicas (example_deployment name n) = n"
  "depRest (depSpec (example_deployment name n)) = name"
  "depNamespace (example_deployment name n) = ''default''"
  by (simp_all add: example_deployment_def)

lemma find_in_set: "find P xs = Some x \<Longrightarrow> x \<in> set xs"
  by (metis find_Some_iff nth_mem)

lemma example_plan_batches [simp]: "batches example_plan = [int_batch 2, int_batch 3]"
  "BatchPartition example_plan = None" "TargetSize example_plan = None" "Paused example_plan = False"
  "RolloutWebhooks example_plan = []" "RolloutStrategy example_plan = IncreaseFirst"
  by (simp_all add: example_plan_def)

lemma example_plan_sane [simp]: "sane_replicas example_ios_value example_plan"
  by (simp add: example_plan_def example_sane)

lemma example_plan_verified [simp]:
  "verifyBatchesWithRollout example_ios_value example_plan 5 = None"
  "verifyBatchesWithScale example_ios_value example_plan 0 5 = None"
  by (simp_all add: example_plan_def example_verified)

lemma example_range [simp]:
  "batch_in_range example_plan 0" "batch_in_range example_plan 1"
  by (simp_all add: batch_in_range_def)

lemma example_targets [simp]:
  "calculateNewBatchTarget example_ios_value example_plan 0 5 0 = 2"
  "calculateNewBatchTarget example_ios_value example_plan 0 5 1 = 5"
  by (simp_all add: calculateNewBatchTarget_def i64_def)

end
