(* ===== verification/Deployment_Client.thy ===== *)
theory Deployment_Client
  imports Example_Env
begin

text \<open>
  deploymentController (delopyment_controller.go): the three changes the deployment controllers
  make to a Deployment.  Each gets the object a pointer of the controller refers to and returns
  it as it is in memory afterwards.
\<close>

definition patchDeployment ::
  "'w workload_ctl \<Rightarrow> deployment \<Rightarrow> deployment \<Rightarrow> ('w, 'z) ctl_scheme \<Rightarrow>
     (string option \<times> deployment) \<times> ('w, 'z) ctl_scheme" where
  "patchDeployment W orig modified c =
     (case envPatchDeployment (clientEnv W) orig modified (parUID (parentController W)) (world c) of
        ((err, d), w) \<Rightarrow> ((map_option errText err, d), c\<lparr>world := w\<rparr>))"

text \<open>Returns whether the deployment was claimed before, and the error.\<close>

definition claimDeployment ::
  "'w workload_ctl \<Rightarrow> deployment \<Rightarrow> int32 option \<Rightarrow> ('w, 'z) ctl_scheme \<Rightarrow>
     (verdict \<times> deployment) \<times> ('w, 'z) ctl_scheme" where
  "claimDeployment W deploy initSize c =
     (let E = clientEnv W in
      if (case envGetControllerOf E (depOwners deploy) of
            Some owner \<Rightarrow> owned_by_rollout owner | None \<Rightarrow> False)
      then (((True, None), deploy), c)
      else
        let ref = envNewControllerRef E (parentController W);
            deploy' = deploy\<lparr>depOwners := depOwners deploy @ [ref],
              depSpec := (depSpec deploy)\<lparr>depPaused := False,
                depReplicas := (case initSize of Some n \<Rightarrow> Some n
                                | None \<Rightarrow> depReplicas (depSpec deploy))\<rparr>\<rparr>
        in case patchDeployment W deploy deploy' c of
             ((Some err, d), c) \<Rightarrow>
               (((False, Some err), d),
                retry E err (emit (WarningEvent ''Failed to the start the Deployment update'' err) c))
           | ((None, d), c) \<Rightarrow> (((False, None), d), c))"

definition scaleDeployment ::
  "'w workload_ctl \<Rightarrow> deployment \<Rightarrow> int32 \<Rightarrow> ('w, 'z) ctl_scheme \<Rightarrow>
     (string option \<times> deployment) \<times> ('w, 'z) ctl_scheme" where
  "scaleDeployment W deploy target c =
     (let deploy' = deploy\<lparr>depSpec := (depSpec deploy)\<lparr>depReplicas := Some target\<rparr>\<rparr> in
      case patchDeployment W deploy deploy' c of
        ((Some err, d), c) \<Rightarrow>
          ((Some err, d),
           retry (clientEnv W) err
             (emit (WarningEvent (''Failed to update the deployment '' @ depName d @
                      '' to the correct target '' @ itoa (sint target)) err) c))
      | ((None, d), c) \<Rightarrow> ((None, d), c))"

text \<open>Returns whether the deployment was released before, and the error.\<close>

definition releaseDeployment ::
  "'w workload_ctl \<Rightarrow> deployment \<Rightarrow> ('w, 'z) ctl_scheme \<Rightarrow>
     (verdict \<times> deployment) \<times> ('w, 'z) ctl_scheme" where
  "releaseDeployment W deploy c =
     (if \<not> (\<exists>owner \<in> set (depOwners deploy). owned_by_rollout owner)
      then (((True, None), deploy), c)
      else
        let deploy' = deploy\<lparr>depOwners :=
                        filter (\<lambda>owner. \<not> owned_by_rollout owner) (depOwners deploy)\<rparr>
        in case patchDeployment W deploy deploy' c of
             ((Some err, d), c) \<Rightarrow>
               (((False, Some err), d),
                retry (clientEnv W) err (emit (WarningEvent ''Failed to the release the Deployment'' err) c))
           | ((None, d), c) \<Rightarrow> (((False, None), d), c))"

section \<open>What the changes leave alone\<close>

lemma patchDeployment_status:
  "patchDeployment W orig d c = (r, c') \<Longrightarrow> rolloutStatus c' = rolloutStatus c"
  by (auto simp: patchDeployment_def split: prod.splits)

lemma stable_patchDeployment: "patchDeployment W orig d c = (r, c') \<Longrightarrow> stable c c'"
  by (auto intro: stable_same_status dest: patchDeployment_status)

lemma stable_claimDeployment: "claimDeployment W d n c = (r, c') \<Longrightarrow> stable c c'"
  by (auto simp: claimDeployment_def Let_def dest!: stable_patchDeployment
      split: prod.splits option.splits if_splits)

lemma stable_scaleDeployment: "scaleDeployment W d n c = (r, c') \<Longrightarrow> stable c c'"
  by (auto simp: scaleDeployment_def Let_def dest!: stable_patchDeployment
      split: prod.splits option.splits)

lemma stable_releaseDeployment: "releaseDeployment W d c = (r, c') \<Longrightarrow> stable c c'"
  by (auto simp: releaseDeployment_def Let_def dest!: stable_patchDeployment
      split: prod.splits option.splits if_splits)

lemmas stable_deployment =
  stable_claimDeployment stable_scaleDeployment stable_releaseDeployment

section \<open>Claiming and releasing\<close>

text \<open>
  An API server that answers a successful patch with the object it was asked for, in the owners.
\<close>

definition patch_keeps_owners :: "'w env \<Rightarrow> bool" where
  "patch_keeps_owners E \<longleftrightarrow>
     (\<forall>orig d p w d' w'. envPatchDeployment E orig d p w = ((None, d'), w') \<longrightarrow>
        depOwners d' = depOwners d)"

lemma patchDeployment_ok:
  "patchDeployment W orig d c = ((None, d'), c') \<Longrightarrow>
   \<exists>w. envPatchDeployment (clientEnv W) orig d (parUID (parentController W)) (world c) =
         ((None, d'), w) \<and> c' = c\<lparr>world := w\<rparr>"
  by (auto simp: patchDeployment_def split: prod.splits)

lemma patchDeployment_owners:
  "patch_keeps_owners (clientEnv W) \<Longrightarrow> patchDeployment W orig d c = ((None, d'), c') \<Longrightarrow>
   depOwners d' = depOwners d"
  using patchDeployment_ok [of W orig d c d' c'] unfolding patch_keeps_owners_def by metis

text \<open>
  C10: A deployment that was claimed for a rollout and then released has the owners it had before
  without the rollouts among them, in their order; it is reported as not released before, and
  releasing it once more finds nothing to do and changes nothing.
\<close>

theorem claim_release_roundtrip:
  assumes server: "patch_keeps_owners (clientEnv W)"
    and ref: "owned_by_rollout (envNewControllerRef (clientEnv W) (parentController W))"
    and claim: "claimDeployment W d initSize c = (((False, None), d1), c1)"
    and release: "releaseDeployment W d1 c1' = (((released, None), d2), c2)"
  shows "\<not> released \<and>
         depOwners d2 = filter (\<lambda>owner. \<not> owned_by_rollout owner) (depOwners d) \<and>
         releaseDeployment W d2 c3 = (((True, None), d2), c3)"
proof -
  have d1: "depOwners d1 = depOwners d @ [envNewControllerRef (clientEnv W) (parentController W)]"
    using claim server
    by (auto simp: claimDeployment_def Let_def dest!: patchDeployment_owners
        split: prod.splits option.splits if_splits)
  have "depOwners d2 = filter (\<lambda>owner. \<not> owned_by_rollout owner) (depOwners d1)" "\<not> released"
    using release server d1 ref
    by (auto simp: releaseDeployment_def Let_def dest!: patchDeployment_owners
        split: prod.splits option.splits if_splits)
  moreover from this(1) have "releaseDeployment W d2 c3 = (((True, None), d2), c3)"
    by (auto simp: releaseDeployment_def)
  ultimately show ?thesis
    using d1 ref by simp
qed

theorem claim_release_roundtrip_witness:
  "let W = example_client example_plan; d = example_deployment ''target'' 0;
       ((_, d1), c1) = claimDeployment W d (Some 1) (example_ctl InitializingState BatchInitializingState 0);
       ((v, d2), c2) = releaseDeployment W d1 c1
   in depOwners d1 \<noteq> [] \<and> v = (False, None) \<and> depOwners d2 = []"
proof -
  let ?W = "example_client example_plan" and ?d = "example_deployment ''target'' 0"
  let ?c = "example_ctl InitializingState BatchInitializingState 0"
  have server: "patch_keeps_owners (clientEnv ?W)"
    by (simp add: patch_keeps_owners_def)
  have ref: "owned_by_rollout (envNewControllerRef (clientEnv ?W) (parentController ?W))"
    by (simp add: owned_by_rollout_def example_owner_def)
  obtain d1 c1 where claim: "claimDeployment ?W ?d (Some 1) ?c = (((False, None), d1), c1)"
    by (simp add: claimDeployment_def patchDeployment_def Let_def)
  then have d1: "depOwners d1 \<noteq> []"
    by (auto simp: claimDeployment_def patchDeployment_def Let_def)
  obtain r d2 c2 where release: "releaseDeployment ?W d1 c1 = (((r, None), d2), c2)"
    by (cases "releaseDeployment ?W d1 c1")
       (auto simp: releaseDeployment_def patchDeployment_def Let_def split: if_splits)
  from claim_release_roundtrip [OF server ref claim release, of c2] claim release d1
  show ?thesis by simp
qed

end
