(* ===== verification/CloneSet_Rollout.thy ===== *)
theory CloneSet_Rollout
  imports Example_Env
begin

text \<open>
  cloneSetController (controller.go) and CloneSetRolloutController
  (cloneset_rollout_controller.go): an in-place rolling upgrade of a Kruise CloneSet, driven by
  its partition, the number of pods that keep the old revision.
\<close>

section \<open>cloneSetController\<close>

text \<open>The struct adds a pointer to the fetched CloneSet, nil at first.\<close>

record 'w cs_ctl = "'w ctl" +
  cloneSet :: "cloneset option"

definition fetchCloneSet ::
  "'w workload_ctl \<Rightarrow> nsname \<Rightarrow> 'w cs_ctl \<Rightarrow> (string + cloneset) \<times> 'w cs_ctl" where
  "fetchCloneSet W name c =
     (case envGetCloneSet (clientEnv W) name (world c) of
        (Inl err, w) \<Rightarrow>
          (Inl (errText err),
           if errNotFound err then c\<lparr>world := w\<rparr>
           else emit (WarningEvent ''Failed to get the Cloneset'' (errText err)) (c\<lparr>world := w\<rparr>))
      | (Inr cs, w) \<Rightarrow> (Inr cs, c\<lparr>world := w, cloneSet := Some cs\<rparr>))"

definition cs_replicas :: "cloneset \<Rightarrow> int32" where
  "cs_replicas cs = (case csReplicas cs of None \<Rightarrow> 1 | Some n \<Rightarrow> n)"

text \<open>size also hands on the CloneSet it has read the size from, c.cloneSet from then on.\<close>

definition cs_size ::
  "'w workload_ctl \<Rightarrow> nsname \<Rightarrow> 'w cs_ctl \<Rightarrow> (string + int32 \<times> cloneset) \<times> 'w cs_ctl" where
  "cs_size W name c =
     (case cloneSet c of
        Some cs \<Rightarrow> (Inr (cs_replicas cs, cs), c)
      | None \<Rightarrow>
          (case fetchCloneSet W name c of
             (Inl err, c1) \<Rightarrow> (Inl err, c1)
           | (Inr cs, c1) \<Rightarrow> (Inr (cs_replicas cs, cs), c1)))"

definition patchCloneSet ::
  "'w workload_ctl \<Rightarrow> cloneset \<Rightarrow> cloneset \<Rightarrow> 'w cs_ctl \<Rightarrow> string option \<times> 'w cs_ctl" where
  "patchCloneSet W orig modified c =
     (case envPatchCloneSet (clientEnv W) orig modified (parUID (parentController W)) (world c) of
        ((err, cs), w) \<Rightarrow> (map_option errText err, c\<lparr>world := w, cloneSet := Some cs\<rparr>))"

section \<open>CloneSetRolloutController\<close>

definition csr_verifyRolloutBatchReplicaValue :: "'w workload_ctl \<Rightarrow> int32 \<Rightarrow> string option" where
  "csr_verifyRolloutBatchReplicaValue W currentReplicas =
     (case TargetSize (rolloutSpec W) of
        Some t \<Rightarrow>
          if t \<noteq> currentReplicas
          then Some (''the rollout plan is attempting to scale the cloneset, target = '' @
                     itoa (sint t) @ '', cloneset size = '' @ itoa (sint currentReplicas))
          else verifyBatchesWithRollout (envGetValue (clientEnv W)) (rolloutSpec W) currentReplicas
      | None \<Rightarrow> verifyBatchesWithRollout (envGetValue (clientEnv W)) (rolloutSpec W) currentReplicas)"

definition verify_failed :: "string \<Rightarrow> ('w, 'z) ctl_scheme \<Rightarrow> ('w, 'z) ctl_scheme" where
  "verify_failed err c = emit (WarningEvent ''VerifyFailed'' err) c"

definition csr_VerifySpec :: "'w workload_ctl \<Rightarrow> nsname \<Rightarrow> 'w cs_ctl \<Rightarrow> verdict \<times> 'w cs_ctl" where
  "csr_VerifySpec W name c0 =
     (let E = clientEnv W in
      case cs_size W name c0 of
        (Inl err, c) \<Rightarrow> ((False, None), verify_failed err (retry E err c))
      | (Inr (currentReplicas, cs), c) \<Rightarrow>
          if csReplicas cs \<noteq> None \<and> csReplicas cs \<noteq> Some (csStatusReplicas cs) then
            (let err = ''the cloneset is still scaling, target = '' @ itoa (sint (cs_replicas cs)) @
                       '', cloneset size = '' @ itoa (sint (csStatusReplicas cs))
             in ((False, None), verify_failed err (retry E err c)))
          else
            let targetHash = csUpdateRevision cs in
            if targetHash = LastAppliedPodTemplateIdentifier (rolloutStatus c) then
              ((False, Some (''there is no difference between the source and target, hash = '' @
                             targetHash)), c)
            else case csr_verifyRolloutBatchReplicaValue W currentReplicas of
              Some err \<Rightarrow> ((False, Some err), verify_failed err c)
            | None \<Rightarrow>
                let c = on_status (\<lambda>r. r\<lparr>RolloutTargetSize := currentReplicas,
                                        RolloutOriginalSize := currentReplicas\<rparr>) c in
                if \<not> csUpdatePaused cs then
                  ((False, Some (''the cloneset '' @ csName cs @
                     '' is in the middle of updating, need to be paused first'')), c)
                else case envGetControllerOf E (csOwners cs) of
                  Some owner \<Rightarrow>
                    ((False, Some (''the cloneset '' @ csName cs @ '' has a controller owner '' @
                                   envOwnerString E owner)), c)
                | None \<Rightarrow>
                    ((True, None),
                     on_status (\<lambda>r. r\<lparr>NewPodTemplateIdentifier := targetHash\<rparr>)
                       (emit (NormalEvent ''Rollout Verified''
                                ''Rollout spec and the CloneSet resource are verified'') c)))"

definition csr_Initialize :: "'w workload_ctl \<Rightarrow> nsname \<Rightarrow> 'w cs_ctl \<Rightarrow> verdict \<times> 'w cs_ctl" where
  "csr_Initialize W name c0 =
     (let E = clientEnv W in
      case cs_size W name c0 of
        (Inl err, c) \<Rightarrow> ((False, None), retry E err c)
      | (Inr (totalReplicas, cs), c) \<Rightarrow>
          if (case envGetControllerOf E (csOwners cs) of
                Some owner \<Rightarrow> owned_by_rollout owner | None \<Rightarrow> False)
          then ((True, None), c)
          else
            let ref = envNewControllerRef E (parentController W);
                cs' = cs\<lparr>csOwners := csOwners cs @ [ref], csUpdatePaused := False,
                         csPartition := Some \<lparr>IosType = IosInt, IntVal = totalReplicas, StrVal = ''''\<rparr>\<rparr>
            in case patchCloneSet W cs cs' c of
                 (Some err, c) \<Rightarrow>
                   ((False, None),
                    retry E err (emit (WarningEvent ''Failed to the start the cloneset update'' err) c))
               | (None, c) \<Rightarrow>
                   ((True, None),
                    emit (NormalEvent ''Rollout Initialized'' ''Rollout resource are initialized'') c))"

definition csr_RolloutOneBatchPods ::
  "'w workload_ctl \<Rightarrow> nsname \<Rightarrow> 'w cs_ctl \<Rightarrow> verdict \<times> 'w cs_ctl" where
  "csr_RolloutOneBatchPods W name c0 =
     (let E = clientEnv W in
      case cs_size W name c0 of
        (Inl err, c) \<Rightarrow> ((False, None), retry E err c)
      | (Inr (cloneSetSize, cs), c) \<Rightarrow>
          let currentBatch = CurrentBatch (rolloutStatus c);
              newPodTarget = calculateNewBatchTarget (envGetValue E) (rolloutSpec W) 0
                               (sint cloneSetSize) (sint currentBatch);
              cs' = cs\<lparr>csPartition := Some \<lparr>IosType = IosInt,
                         IntVal = cloneSetSize - int32_of newPodTarget, StrVal = ''''\<rparr>\<rparr>
          in case patchCloneSet W cs cs' c of
               (Some err, c) \<Rightarrow>
                 ((False, None),
                  retry E err (emit (WarningEvent ''Failed to update the cloneset to upgrade'' err) c))
             | (None, c) \<Rightarrow>
                 ((True, None),
                  on_status (\<lambda>r. r\<lparr>UpgradedReplicas := int32_of newPodTarget\<rparr>)
                    (emit (NormalEvent ''Batch Rollout''
                             (''Submitted upgrade quest for batch '' @ itoa (sint currentBatch))) c)))"

text \<open>\<open>None\<close> is the panic of indexing the batches with a negative current batch.\<close>

definition csr_CheckOneBatchPods ::
  "'w workload_ctl \<Rightarrow> nsname \<Rightarrow> 'w cs_ctl \<Rightarrow> (verdict \<times> 'w cs_ctl) option" where
  "csr_CheckOneBatchPods W name c0 =
     (let E = clientEnv W in
      case cs_size W name c0 of
        (Inl err, c) \<Rightarrow> Some ((False, None), retry E err c)
      | (Inr (cloneSetSize, cs), c) \<Rightarrow>
          let current = CurrentBatch (rolloutStatus c);
              newPodTarget = calculateNewBatchTarget (envGetValue E) (rolloutSpec W) 0
                               (sint cloneSetSize) (sint current);
              readyPodCount = sint (csUpdatedReadyReplicas cs)
          in if int (length (batches (rolloutSpec W))) \<le> sint current
             then Some ((False, Some ''somehow, currentBatch number exceeded the rolloutBatches spec''), c)
             else do {
               currentBatch \<leftarrow> batch_at (rolloutSpec W) current;
               let unavail = unavailable E currentBatch (sint cloneSetSize);
               let c = on_status (\<lambda>r. r\<lparr>UpgradedReadyReplicas := int32_of readyPodCount\<rparr>) c;
               if i64 (unavail + readyPodCount) \<ge> newPodTarget
               then Some ((True, None),
                      emit (NormalEvent ''Batch Available''
                              (''Batch '' @ itoa (sint current) @ '' is available'')) c)
               else Some ((False, None), retry E ''the batch is not ready yet'' c)
             })"

definition csr_FinalizeOneBatch ::
  "'w workload_ctl \<Rightarrow> nsname \<Rightarrow> 'w cs_ctl \<Rightarrow> verdict \<times> 'w cs_ctl" where
  "csr_FinalizeOneBatch W name c =
     (let gv = envGetValue (clientEnv W); spec = rolloutSpec W; status = rolloutStatus c;
          upgradedReplicas = sint (UpgradedReplicas status);
          currentBatch = sint (CurrentBatch status);
          podCount = (\<lambda>k. calculateNewBatchTarget gv spec 0 (sint (RolloutTargetSize status)) k)
      in if (case BatchPartition spec of Some p \<Rightarrow> sint p < currentBatch | None \<Rightarrow> False)
         then ((False, Some ''the current batch value in the status is greater than the batch partition''), c)
         else if podCount (i64 (currentBatch - 1)) > upgradedReplicas
         then ((False, Some ''the upgraded replica in the status is less than all the pods in the previous batch''), c)
         else if podCount currentBatch < upgradedReplicas
         then ((False, Some ''the upgraded replica in the status is greater than all the pods in the current batch''), c)
         else ((True, None), c))"

definition csr_Finalize :: "'w workload_ctl \<Rightarrow> nsname \<Rightarrow> bool \<Rightarrow> 'w cs_ctl \<Rightarrow> bool \<times> 'w cs_ctl" where
  "csr_Finalize W name succeed c0 =
     (let E = clientEnv W in
      case fetchCloneSet W name c0 of
        (Inl err, c) \<Rightarrow> (False, retry E err c)
      | (Inr cs, c) \<Rightarrow>
          if \<not> (\<exists>owner \<in> set (csOwners cs). owned_by_rollout owner) then (True, c)
          else
            let cs' = cs\<lparr>csOwners := filter (\<lambda>owner. \<not> owned_by_rollout owner) (csOwners cs),
                         csUpdatePaused := (if succeed then csUpdatePaused cs else True)\<rparr>
            in case patchCloneSet W cs cs' c of
                 (Some err, c) \<Rightarrow>
                   (False, retry E err (emit (WarningEvent ''Failed to the finalize the cloneset'' err) c))
               | (None, c) \<Rightarrow>
                   (True,
                    on_status (\<lambda>r. r\<lparr>LastAppliedPodTemplateIdentifier := NewPodTemplateIdentifier r\<rparr>)
                      (emit (NormalEvent ''Rollout Finalized''
                               (''Rollout resource are finalized, succeed := '' @
                                (if succeed then ''true'' else ''false''))) c)))"

section \<open>What the helpers leave alone\<close>

lemma fetchCloneSet_status: "fetchCloneSet W name c = (r, c') \<Longrightarrow> rolloutStatus c' = rolloutStatus c"
  by (auto simp: fetchCloneSet_def split: prod.splits sum.splits if_splits)

lemma cs_size_status: "cs_size W name c = (r, c') \<Longrightarrow> rolloutStatus c' = rolloutStatus c"
  by (auto simp: cs_size_def dest!: fetchCloneSet_status split: option.splits prod.splits sum.splits)

lemma cs_size_value: "cs_size W name c = (Inr (n, cs), c') \<Longrightarrow> n = cs_replicas cs"
  by (auto simp: cs_size_def split: option.splits prod.splits sum.splits)

lemma patchCloneSet_status: "patchCloneSet W orig m c = (r, c') \<Longrightarrow> rolloutStatus c' = rolloutStatus c"
  by (auto simp: patchCloneSet_def split: prod.splits)

lemmas cs_status = fetchCloneSet_status cs_size_status patchCloneSet_status

lemma stable_cs:
  "fetchCloneSet W name c = (r, c') \<Longrightarrow> stable c c'"
  "cs_size W name c = (s, c') \<Longrightarrow> stable c c'"
  "patchCloneSet W orig m c = (t, c') \<Longrightarrow> stable c c'"
  by (auto intro: stable_same_status dest: cs_status)

lemma status_phase_same: "rolloutStatus c' = rolloutStatus c \<Longrightarrow> status_phase c' = status_phase c"
  by (simp add: status_phase_def)

lemma verify_failed_frame [simp, frame_simps]:
  "rolloutStatus (verify_failed e c) = rolloutStatus c"
  "status_phase (verify_failed e c) = status_phase c"
  by (simp_all add: verify_failed_def)

section \<open>CloneSetRolloutController as a WorkloadController\<close>

text \<open>
  A new controller, without a CloneSet, is made for each reconcile, which calls one method of it.
  \<open>as_cs\<close> starts one, \<open>ctl.truncate\<close> forgets it.
\<close>

definition as_cs :: "'w ctl \<Rightarrow> 'w cs_ctl" where
  "as_cs c = ctl.extend c (cs_ctl.fields None)"

lemma as_cs_frame [simp]:
  "rolloutStatus (as_cs c) = rolloutStatus c" "world (as_cs c) = world c"
  "recorded (as_cs c) = recorded c" "cloneSet (as_cs c) = None"
  by (simp_all add: as_cs_def ctl.defs cs_ctl.defs)

lemma truncate_frame [simp]:
  "rolloutStatus (ctl.truncate c) = rolloutStatus c" "world (ctl.truncate c) = world c"
  "recorded (ctl.truncate c) = recorded c" "status_phase (ctl.truncate c) = status_phase c"
  "stable d (ctl.truncate c) = stable d c"
  by (simp_all add: ctl.defs status_phase_def stable_def status_sizes_def)

lemma stable_as_cs [simp]: "stable (as_cs c) d = stable c d" "stable e (as_cs c) = stable e c"
  by (simp_all add: stable_def status_phase_def status_sizes_def)

lemma status_phase_as_cs [simp]: "status_phase (as_cs c) = status_phase c"
  by (simp add: status_phase_def)

definition forget :: "'a \<times> ('w, 'z) ctl_scheme \<Rightarrow> 'a \<times> 'w ctl" where
  "forget r = map_prod id ctl.truncate r"

lemma forget_eq [simp]: "forget (v, c) = (v, ctl.truncate c)"
  by (simp add: forget_def)

lemma forget_eq_iff: "forget r = (v, c') \<longleftrightarrow> v = fst r \<and> c' = ctl.truncate (snd r)"
  by (cases r) auto

definition csr_controller :: "'w workload_ctl \<Rightarrow> nsname \<Rightarrow> 'w workload_controller" where
  "csr_controller W name =
     \<lparr>VerifySpec = (\<lambda>c. Some (forget (csr_VerifySpec W name (as_cs c)))),
      Initialize = (\<lambda>c. Some (forget (csr_Initialize W name (as_cs c)))),
      RolloutOneBatchPods = (\<lambda>c. Some (forget (csr_RolloutOneBatchPods W name (as_cs c)))),
      CheckOneBatchPods = (\<lambda>c. map_option forget (csr_CheckOneBatchPods W name (as_cs c))),
      FinalizeOneBatch = (\<lambda>c. Some (forget (csr_FinalizeOneBatch W name (as_cs c)))),
      Finalize = (\<lambda>b c. Some (forget (csr_Finalize W name b (as_cs c))))\<rparr>"

lemma csr_VerifySpec_phase: "status_phase (snd (csr_VerifySpec W name c)) = status_phase c"
  by (auto simp: csr_VerifySpec_def Let_def dest!: cs_size_status
      split: prod.splits sum.splits option.splits if_splits intro: status_phase_same)

lemma csr_Initialize_stable: "stable c (snd (csr_Initialize W name c))"
  by (auto simp: csr_Initialize_def Let_def split: prod.splits sum.splits option.splits
      intro: stable_trans dest!: stable_cs)

lemma csr_RolloutOneBatchPods_stable: "stable c (snd (csr_RolloutOneBatchPods W name c))"
  by (auto simp: csr_RolloutOneBatchPods_def Let_def split: prod.splits sum.splits option.splits
      intro: stable_trans dest!: stable_cs)

lemma csr_CheckOneBatchPods_stable: "csr_CheckOneBatchPods W name c = Some (v, c') \<Longrightarrow> stable c c'"
  by (auto simp: csr_CheckOneBatchPods_def Let_def bind_eq_Some_conv
      split: prod.splits sum.splits if_splits intro: stable_trans dest!: stable_cs)

lemma csr_FinalizeOneBatch_state [simp]: "snd (csr_FinalizeOneBatch W name c) = c"
  by (simp add: csr_FinalizeOneBatch_def Let_def)

lemma csr_Finalize_stable: "stable c (snd (csr_Finalize W name b c))"
  by (auto simp: csr_Finalize_def Let_def split: prod.splits sum.splits option.splits
      intro: stable_trans dest!: stable_cs)

lemma csr_CheckOneBatchPods_returns:
  "batch_in_range (rolloutSpec W) (CurrentBatch (rolloutStatus c)) \<Longrightarrow>
   csr_CheckOneBatchPods W name c \<noteq> None"
  by (auto simp: csr_CheckOneBatchPods_def Let_def dest!: cs_size_status
      split: prod.splits sum.splits)

interpretation csr: workload_contract "csr_controller W name"
  "\<lambda>c. batch_in_range (rolloutSpec W) (CurrentBatch (rolloutStatus c))" for W name
proof (unfold_locales, goal_cases)
  case (1 c v c')
  then show ?case using csr_VerifySpec_phase [of W name "as_cs c"]
    by (auto simp: csr_controller_def forget_eq_iff)
next
  case (2 c v c')
  then show ?case using csr_Initialize_stable [of "as_cs c" W name]
    by (auto simp: csr_controller_def forget_eq_iff)
next
  case (3 c v c')
  then show ?case using csr_RolloutOneBatchPods_stable [of "as_cs c" W name]
    by (auto simp: csr_controller_def forget_eq_iff)
next
  case (4 c v c')
  then show ?case
    by (auto simp: csr_controller_def forget_eq_iff dest!: csr_CheckOneBatchPods_stable)
next
  case (6 b c ok c')
  then show ?case using csr_Finalize_stable [of "as_cs c" W name b]
    by (auto simp: csr_controller_def forget_eq_iff)
next
  case (10 c)
  then show ?case using csr_CheckOneBatchPods_returns [of W "as_cs c" name]
    by (simp add: csr_controller_def)
qed (auto simp: csr_controller_def forget_eq_iff)

section \<open>Batches driven by the partition\<close>

lemma csr_RolloutOneBatchPods_True:
  assumes "csr_RolloutOneBatchPods W name c = ((True, None), c')"
    and "cs_size W name c = (Inr (n, cs), c1)"
  shows "UpgradedReplicas (rolloutStatus c') = int32_of (calculateNewBatchTarget
           (envGetValue (clientEnv W)) (rolloutSpec W) 0 (sint n) (sint (CurrentBatch (rolloutStatus c))))"
  using assms
  by (auto simp: csr_RolloutOneBatchPods_def Let_def split: prod.splits option.splits
      dest!: cs_size_status)

lemma stable_CurrentBatch: "stable c c' \<Longrightarrow> CurrentBatch (rolloutStatus c') = CurrentBatch (rolloutStatus c)"
  by (simp add: stable_def status_phase_def phase_def)

lemma stable_sizes:
  "stable c c' \<Longrightarrow> RolloutTargetSize (rolloutStatus c') = RolloutTargetSize (rolloutStatus c)"
  "stable c c' \<Longrightarrow> RolloutOriginalSize (rolloutStatus c') = RolloutOriginalSize (rolloutStatus c)"
  by (simp_all add: stable_def status_sizes_def)

definition partition_passed :: "rollout_plan \<Rightarrow> int32 \<Rightarrow> bool" where
  "partition_passed spec current \<longleftrightarrow>
     (case BatchPartition spec of Some p \<Rightarrow> sint p < sint current | None \<Rightarrow> False)"

lemma pred_batch: "batch_in_range spec i \<Longrightarrow> i64 (sint i - 1) = sint i - 1"
  using sint_in_i32 [of i]
  by (intro i64_id) (auto simp: batch_in_range_def in_i64_def in_i32_def)

text \<open>
  The batch that RolloutOneBatchPods submits is one that FinalizeOneBatch accepts: on a
  verified plan, with the size of the CloneSet that was verified, the number of upgraded replicas
  it records lies between zero and that size and passes the consistency checks.
\<close>

theorem csr_submitted_batch_is_accepted:
  assumes verified: "verifyBatchesWithRollout (envGetValue (clientEnv W)) (rolloutSpec W) n = None"
    and sane: "sane_replicas (envGetValue (clientEnv W)) (rolloutSpec W)" and "0 \<le> sint n"
    and range: "batch_in_range (rolloutSpec W) (CurrentBatch (rolloutStatus c))"
    and partition: "\<not> partition_passed (rolloutSpec W) (CurrentBatch (rolloutStatus c))"
    and size: "RolloutTargetSize (rolloutStatus c) = n" "cs_size W name c = (Inr (n, cs), c1)"
    and submit: "csr_RolloutOneBatchPods W name c = ((True, None), c')"
  shows "csr_FinalizeOneBatch W name c' = ((True, None), c') \<and>
         0 \<le> sint (UpgradedReplicas (rolloutStatus c')) \<and>
         sint (UpgradedReplicas (rolloutStatus c')) \<le> sint n"
proof -
  let ?T = "calculateNewBatchTarget (envGetValue (clientEnv W)) (rolloutSpec W) 0 (sint n)"
  let ?k = "sint (CurrentBatch (rolloutStatus c))"
  have stable: "stable c c'"
    using csr_RolloutOneBatchPods_stable [of c W name] submit by simp
  have up: "UpgradedReplicas (rolloutStatus c') = int32_of (?T ?k)"
    using submit size(2) by (rule csr_RolloutOneBatchPods_True)
  have partition': "\<not> partition_passed (rolloutSpec W) (CurrentBatch (rolloutStatus c'))"
    using partition by (simp add: stable_CurrentBatch [OF stable])
  have bounds: "0 \<le> ?T (?k - 1)" "?T (?k - 1) \<le> ?T ?k" "?T ?k \<le> sint n"
    using rollout_targets_monotone [OF verified sane \<open>0 \<le> sint n\<close>, of "?k - 1" ?k] range
    by (auto simp: batch_in_range_def)
  have "in_i32 (?T ?k)"
    using bounds sint_in_i32 [of n] by (auto simp: in_i32_def)
  then have "sint (UpgradedReplicas (rolloutStatus c')) = ?T ?k"
    by (simp add: up sint_int32_of)
  then show ?thesis
    using bounds partition' range
    by (simp add: csr_FinalizeOneBatch_def Let_def stable_CurrentBatch [OF stable]
        stable_sizes [OF stable] size(1) pred_batch flip: partition_passed_def)
qed

text \<open>
  A rollout of a CloneSet is verified only when every precondition holds: the CloneSet is not
  scaling, is paused and has no controller, its revision is not the one applied last, a target
  size of the plan is the current size and the batches add up to it.  The size is recorded as
  original and target size, and the revision as the one to roll out.
\<close>

theorem csr_VerifySpec_verified:
  assumes "csr_VerifySpec W name c = ((True, None), c')"
  shows "\<exists>n cs c1. cs_size W name c = (Inr (n, cs), c1) \<and>
           (csReplicas cs = None \<or> csReplicas cs = Some (csStatusReplicas cs)) \<and>
           csUpdatePaused cs \<and> envGetControllerOf (clientEnv W) (csOwners cs) = None \<and>
           csUpdateRevision cs \<noteq> LastAppliedPodTemplateIdentifier (rolloutStatus c) \<and>
           (TargetSize (rolloutSpec W) = None \<or> TargetSize (rolloutSpec W) = Some n) \<and>
           verifyBatchesWithRollout (envGetValue (clientEnv W)) (rolloutSpec W) n = None \<and>
           status_sizes c' = (n, n) \<and>
           NewPodTemplateIdentifier (rolloutStatus c') = csUpdateRevision cs"
  using assms
  by (auto simp: csr_VerifySpec_def csr_verifyRolloutBatchReplicaValue_def Let_def status_sizes_def
      dest!: cs_size_status split: prod.splits sum.splits option.splits if_splits)

section \<open>Releasing the CloneSet\<close>

text \<open>
  What Finalize sends to the API server, for a CloneSet that a rollout owns: the CloneSet with
  all owners but the rollouts, in their order, paused if the rollout did not succeed, and nothing
  else changed.
\<close>

theorem csr_Finalize_releases:
  assumes "fetchCloneSet W name c = (Inr cs, c1)"
    and "list_ex owned_by_rollout (csOwners cs)"
    and "envPatchCloneSet (clientEnv W) cs
           (cs\<lparr>csOwners := filter (\<lambda>owner. \<not> owned_by_rollout owner) (csOwners cs),
               csUpdatePaused := csUpdatePaused cs \<or> \<not> succeed\<rparr>)
           (parUID (parentController W)) (world c1) = ((err, cs'), w)"
  shows "fst (csr_Finalize W name succeed c) = (err = None) \<and>
         world (snd (csr_Finalize W name succeed c)) = w \<and>
         cloneSet (snd (csr_Finalize W name succeed c)) = Some cs'"
proof -
  have owned: "\<exists>owner \<in> set (csOwners cs). owned_by_rollout owner"
    using assms(2) by (simp add: list_ex_iff)
  show ?thesis
    using assms(1,3) owned
    by (cases err; cases succeed; cases "csUpdatePaused cs")
       (simp_all add: csr_Finalize_def Let_def patchCloneSet_def emit_def retry_def on_status_def)
qed

section \<open>Examples\<close>

definition example_cs :: "batch_rolling_state \<Rightarrow> int32 \<Rightarrow> example_world cs_ctl" where
  "example_cs b i = as_cs (example_ctl RollingInBatchesState b i)"

lemma example_cs_size [simp]:
  "cs_size (example_client spec) name (example_cs b i) =
     (Inr (5, example_cloneset), (example_cs b i)\<lparr>cloneSet := Some example_cloneset\<rparr>)"
  by (simp add: cs_size_def fetchCloneSet_def example_cs_def as_cs_def ctl.defs cs_ctl.defs
      example_ctl_def cs_replicas_def example_cloneset_def)

lemma example_cs_simps [simp]:
  "rolloutStatus (example_cs b i) = example_status RollingInBatchesState b i"
  "world (example_cs b i) = example_start"
  by (simp_all add: example_cs_def)

lemma cloneSet_on_status [simp]: "cloneSet (on_status f c) = cloneSet c"
  by (simp add: on_status_def)

lemma example_cs_none [simp]: "cloneSet (example_cs b i) = None"
  by (simp add: example_cs_def)

lemma example_fetch:
  "fetchCloneSet (example_client spec) name c =
     (Inr (exCloneSet (world c)), c\<lparr>cloneSet := Some (exCloneSet (world c))\<rparr>)"
  by (simp add: fetchCloneSet_def)

lemma example_size:
  "cloneSet c = None \<Longrightarrow> cs_size (example_client spec) name c =
     (Inr (cs_replicas (exCloneSet (world c)), exCloneSet (world c)),
      c\<lparr>cloneSet := Some (exCloneSet (world c))\<rparr>)"
  by (simp add: cs_size_def example_fetch)

theorem csr_submitted_batch_is_accepted_witness:
  "let c' = snd (csr_RolloutOneBatchPods (example_client example_plan) (''default'', ''app'')
                   (example_cs BatchInRollingState 0))
   in csr_FinalizeOneBatch (example_client example_plan) (''default'', ''app'') c' = ((True, None), c') \<and>
      sint (UpgradedReplicas (rolloutStatus c')) \<le> 5"
proof -
  define c' where "c' = snd (csr_RolloutOneBatchPods (example_client example_plan)
    (''default'', ''app'') (example_cs BatchInRollingState 0))"
  have submitted: "csr_RolloutOneBatchPods (example_client example_plan) (''default'', ''app'')
    (example_cs BatchInRollingState 0) = ((True, None), c')"
    by (simp add: c'_def csr_RolloutOneBatchPods_def patchCloneSet_def Let_def)
  have "verifyBatchesWithRollout (envGetValue (clientEnv (example_client example_plan)))
          (rolloutSpec (example_client example_plan)) 5 = None"
    by simp
  from csr_submitted_batch_is_accepted [OF this _ _ _ _ _ example_cs_size submitted]
  show ?thesis unfolding c'_def [symmetric] by (simp add: partition_passed_def)
qed

theorem csr_VerifySpec_verified_witness:
  "\<exists>c'. csr_VerifySpec (example_client example_plan) (''default'', ''app'')
          (example_cs BatchInitializingState 0) = ((True, None), c') \<and> status_sizes c' = (5, 5)"
proof -
  obtain c' where c': "csr_VerifySpec (example_client example_plan) (''default'', ''app'')
          (example_cs BatchInitializingState 0) = ((True, None), c')"
    by (simp add: csr_VerifySpec_def csr_verifyRolloutBatchReplicaValue_def Let_def)
  from csr_VerifySpec_verified [OF this] c' show ?thesis by auto
qed

theorem csr_Finalize_releases_witness:
  "let cs = example_cloneset\<lparr>csOwners := [example_owner]\<rparr>;
       c = (example_cs BatchReadyState 1)\<lparr>world := example_start\<lparr>exCloneSet := cs\<rparr>\<rparr>
   in fst (csr_Finalize (example_client example_plan) (''default'', ''app'') True c)"
proof -
  define cs where "cs = example_cloneset\<lparr>csOwners := [example_owner]\<rparr>"
  define c where "c = (example_cs BatchReadyState 1)\<lparr>world := example_start\<lparr>exCloneSet := cs\<rparr>\<rparr>"
  have fetched: "fetchCloneSet (example_client example_plan) (''default'', ''app'') c =
      (Inr cs, c\<lparr>cloneSet := Some cs\<rparr>)"
    by (simp add: fetchCloneSet_def c_def)
  have owned: "list_ex owned_by_rollout (csOwners cs)"
    by (simp add: cs_def example_owner_def owned_by_rollout_def)
  from csr_Finalize_releases [OF fetched owned, of True]
  show ?thesis unfolding cs_def [symmetric] Let_def c_def [symmetric] by simp
qed

end
