(* ===== verification/CloneSet_Scale.thy ===== *)
theory CloneSet_Scale
  imports CloneSet_Rollout
begin

text \<open>
  CloneSetScaleController (cloneset_scale_controller.go): a CloneSet is scaled in batches from the
  size it has to the target size of the plan.  util.Min, util.Max and util.Abs are those of
  pkg/oam/util/helper.go.
\<close>

section \<open>util\<close>

definition util_Min :: "int \<Rightarrow> int \<Rightarrow> int" where
  "util_Min a b = (if a < b then a else b)"

definition util_Max :: "int \<Rightarrow> int \<Rightarrow> int" where
  "util_Max a b = (if a > b then a else b)"

definition util_Abs :: "int \<Rightarrow> int" where
  "util_Abs a = (if a < 0 then i64 (- a) else a)"

section \<open>What the two scale controllers compute from the status\<close>

text \<open>The pod target of batch \<open>k\<close>, from the recorded original and target sizes.\<close>

definition scale_target :: "'w workload_ctl \<Rightarrow> rollout_status \<Rightarrow> int \<Rightarrow> int" where
  "scale_target W status k =
     calculateNewBatchTarget (envGetValue (clientEnv W)) (rolloutSpec W)
       (sint (RolloutOriginalSize status)) (sint (RolloutTargetSize status)) k"

text \<open>The variable \<open>targetReached\<close> of CheckOneBatchPods.\<close>

definition scale_target_reached :: "rollout_status \<Rightarrow> int \<Rightarrow> int \<Rightarrow> int \<Rightarrow> bool" where
  "scale_target_reached status unavail readyPodCount newPodTarget \<longleftrightarrow>
     (if sint (RolloutOriginalSize status) \<le> sint (RolloutTargetSize status) \<and>
         i64 (unavail + readyPodCount) \<ge> newPodTarget then True
      else sint (RolloutOriginalSize status) > sint (RolloutTargetSize status) \<and>
           readyPodCount \<le> newPodTarget)"

section \<open>CloneSetScaleController\<close>

definition css_VerifySpec :: "'w workload_ctl \<Rightarrow> nsname \<Rightarrow> 'w cs_ctl \<Rightarrow> verdict \<times> 'w cs_ctl" where
  "css_VerifySpec W name c0 =
     (let E = clientEnv W in
      case TargetSize (rolloutSpec W) of
        None \<Rightarrow>
          ((False, Some (''the rollout plan is attempting to scale the cloneset '' @ snd name @
                         '' without a target'')), c0)
      | Some target \<Rightarrow>
          let c0 = on_status (\<lambda>r. r\<lparr>RolloutTargetSize := target\<rparr>) c0 in
          case cs_size W name c0 of
            (Inl err, c) \<Rightarrow> ((False, None), verify_failed err (retry E err c))
          | (Inr (originalSize, cs), c) \<Rightarrow>
              let c = on_status (\<lambda>r. r\<lparr>RolloutOriginalSize := originalSize\<rparr>) c in
              case verifyBatchesWithScale (envGetValue E) (rolloutSpec W) (sint originalSize)
                     (sint (RolloutTargetSize (rolloutStatus c))) of
                Some err \<Rightarrow> ((False, Some err), verify_failed err c)
              | None \<Rightarrow>
                  if originalSize \<noteq> csStatusReplicas cs then
                    (let err = ''the cloneset '' @ csName cs @
                               '' is in the middle of scaling, target size = '' @
                               itoa (sint originalSize) @ '', real size = '' @
                               itoa (sint (csStatusReplicas cs))
                     in ((False, None), verify_failed err (retry E err c)))
                  else if \<not> csUpdatePaused cs \<and> csUpdatedReplicas cs \<noteq> originalSize then
                    (let err = ''the cloneset '' @ csName cs @
                               '' is in the middle of updating, target size = '' @
                               itoa (sint originalSize) @ '', updated pod = '' @
                               itoa (sint (csUpdatedReplicas cs))
                     in ((False, None), verify_failed err (retry E err c)))
                  else case envGetControllerOf E (csOwners cs) of
                    Some owner \<Rightarrow>
                      ((False, Some (''the cloneset '' @ csName cs @ '' has a controller owner '' @
                                     envOwnerString E owner)), c)
                  | None \<Rightarrow>
                      ((True, None),
                       emit (NormalEvent ''Scale Verified''
                               ''Rollout spec and the CloneSet resource are verified'') c))"

definition css_Initialize :: "'w workload_ctl \<Rightarrow> nsname \<Rightarrow> 'w cs_ctl \<Rightarrow> verdict \<times> 'w cs_ctl" where
  "css_Initialize W name c0 =
     (let E = clientEnv W in
      case fetchCloneSet W name c0 of
        (Inl err, c) \<Rightarrow> ((False, None), retry E err c)
      | (Inr cs, c) \<Rightarrow>
          if (case envGetControllerOf E (csOwners cs) of
                Some owner \<Rightarrow> owned_by_rollout owner | None \<Rightarrow> False)
          then ((True, None), c)
          else
            let ref = envNewControllerRef E (parentController W);
                cs' = cs\<lparr>csOwners := csOwners cs @ [ref], csUpdatePaused := False\<rparr>
            in case patchCloneSet W cs cs' c of
                 (Some err, c) \<Rightarrow>
                   ((False, None),
                    retry E err (emit (WarningEvent ''Failed to the start the cloneset update'' err) c))
               | (None, c) \<Rightarrow>
                   ((True, None),
                    emit (NormalEvent ''Scale Initialized'' ''Cloneset is initialized'') c))"

definition css_RolloutOneBatchPods ::
  "'w workload_ctl \<Rightarrow> nsname \<Rightarrow> 'w cs_ctl \<Rightarrow> verdict \<times> 'w cs_ctl" where
  "css_RolloutOneBatchPods W name c0 =
     (let E = clientEnv W in
      case fetchCloneSet W name c0 of
        (Inl err, c) \<Rightarrow> ((False, None), retry E err c)
      | (Inr cs, c) \<Rightarrow>
          let current = CurrentBatch (rolloutStatus c);
              newPodTarget = scale_target W (rolloutStatus c) (sint current);
              cs' = cs\<lparr>csReplicas := Some (int32_of newPodTarget)\<rparr>
          in case patchCloneSet W cs cs' c of
               (Some err, c) \<Rightarrow>
                 ((False, None),
                  retry E err (emit (WarningEvent ''Failed to update the cloneset to upgrade'' err) c))
             | (None, c) \<Rightarrow>
                 ((True, None),
                  on_status (\<lambda>r. r\<lparr>UpgradedReplicas := int32_of newPodTarget\<rparr>)
                    (emit (NormalEvent ''Batch Rollout''
                             (''Submitted scale quest for batch '' @ itoa (sint current))) c)))"

definition css_CheckOneBatchPods ::
  "'w workload_ctl \<Rightarrow> nsname \<Rightarrow> 'w cs_ctl \<Rightarrow> (verdict \<times> 'w cs_ctl) option" where
  "css_CheckOneBatchPods W name c0 =
     (let E = clientEnv W in
      case fetchCloneSet W name c0 of
        (Inl err, c) \<Rightarrow> Some ((False, None), retry E err c)
      | (Inr cs, c) \<Rightarrow>
          let status = rolloutStatus c;
              current = CurrentBatch status;
              newPodTarget = scale_target W status (sint current);
              readyPodCount = sint (csReadyReplicas cs)
          in do {
            currentBatch \<leftarrow> batch_at (rolloutSpec W) current;
            let unavail = unavailable E currentBatch
                            (util_Abs (sint (RolloutTargetSize status - RolloutOriginalSize status)));
            let c = on_status (\<lambda>r. r\<lparr>UpgradedReadyReplicas := int32_of readyPodCount\<rparr>) c;
            if scale_target_reached status unavail readyPodCount newPodTarget
            then Some ((True, None),
                   emit (NormalEvent ''Batch Available''
                           (''Batch '' @ itoa (sint current) @ '' is available'')) c)
            else Some ((False, None), retry E ''the batch is not ready yet'' c)
          })"

definition css_FinalizeOneBatch ::
  "'w workload_ctl \<Rightarrow> 'w cs_ctl \<Rightarrow> verdict \<times> 'w cs_ctl" where
  "css_FinalizeOneBatch W c =
     (let status = rolloutStatus c; spec = rolloutSpec W in
      if (case BatchPartition spec of Some p \<Rightarrow> sint p < sint (CurrentBatch status) | None \<Rightarrow> False)
      then ((False, Some ''the current batch value in the status is greater than the batch partition''), c)
      else if RolloutOriginalSize status = RolloutTargetSize status then ((True, None), c)
      else
        let finishedPodCount = sint (UpgradedReplicas status);
            currentBatch = sint (CurrentBatch status);
            preBatchTarget = scale_target W status (i64 (currentBatch - 1));
            curBatchTarget = scale_target W status currentBatch
        in if finishedPodCount < util_Min preBatchTarget curBatchTarget
           then ((False, Some ''the upgraded replica in the status is less than the lower bound''), c)
           else if finishedPodCount > util_Max preBatchTarget curBatchTarget
           then ((False, Some ''the upgraded replica in the status is greater than the upper bound''), c)
           else ((True, None), c))"

definition css_Finalize :: "'w workload_ctl \<Rightarrow> nsname \<Rightarrow> bool \<Rightarrow> 'w cs_ctl \<Rightarrow> bool \<times> 'w cs_ctl" where
  "css_Finalize W name succeed c0 =
     (let E = clientEnv W in
      case fetchCloneSet W name c0 of
        (Inl err, c) \<Rightarrow> (False, retry E err c)
      | (Inr cs, c) \<Rightarrow>
          if \<not> (\<exists>owner \<in> set (csOwners cs). owned_by_rollout owner) then (True, c)
          else
            let cs' = cs\<lparr>csOwners := filter (\<lambda>owner. \<not> owned_by_rollout owner) (csOwners cs)\<rparr>
            in case patchCloneSet W cs cs' c of
                 (Some err, c) \<Rightarrow>
                   (False, retry E err (emit (WarningEvent ''Failed to the finalize the cloneset'' err) c))
               | (None, c) \<Rightarrow>
                   (True,
                    emit (NormalEvent ''Scale Finalized''
                            (''Scale resource are finalized, succeed := '' @
                             (if succeed then ''true'' else ''false''))) c))"

section \<open>CloneSetScaleController as a WorkloadController\<close>

definition css_controller :: "'w workload_ctl \<Rightarrow> nsname \<Rightarrow> 'w workload_controller" where
  "css_controller W name =
     \<lparr>VerifySpec = (\<lambda>c. Some (forget (css_VerifySpec W name (as_cs c)))),
      Initialize = (\<lambda>c. Some (forget (css_Initialize W name (as_cs c)))),
      RolloutOneBatchPods = (\<lambda>c. Some (forget (css_RolloutOneBatchPods W name (as_cs c)))),
      CheckOneBatchPods = (\<lambda>c. map_option forget (css_CheckOneBatchPods W name (as_cs c))),
      FinalizeOneBatch = (\<lambda>c. Some (forget (css_FinalizeOneBatch W (as_cs c)))),
      Finalize = (\<lambda>b c. Some (forget (css_Finalize W name b (as_cs c))))\<rparr>"

lemma css_VerifySpec_phase: "status_phase (snd (css_VerifySpec W name c)) = status_phase c"
  by (auto simp: css_VerifySpec_def Let_def dest!: cs_size_status
      split: prod.splits sum.splits option.splits if_splits intro: status_phase_same)
     (auto simp: status_phase_def phase_def)

lemma css_Initialize_stable: "stable c (snd (css_Initialize W name c))"
  by (auto simp: css_Initialize_def Let_def split: prod.splits sum.splits option.splits
      intro: stable_trans dest!: stable_cs)

lemma css_RolloutOneBatchPods_stable: "stable c (snd (css_RolloutOneBatchPods W name c))"
  by (auto simp: css_RolloutOneBatchPods_def Let_def split: prod.splits sum.splits option.splits
      intro: stable_trans dest!: stable_cs)

lemma css_CheckOneBatchPods_stable: "css_CheckOneBatchPods W name c = Some (v, c') \<Longrightarrow> stable c c'"
  by (auto simp: css_CheckOneBatchPods_def Let_def bind_eq_Some_conv
      split: prod.splits sum.splits if_splits intro: stable_trans dest!: stable_cs)

lemma css_FinalizeOneBatch_state [simp]: "snd (css_FinalizeOneBatch W c) = c"
  by (simp add: css_FinalizeOneBatch_def Let_def)

lemma css_Finalize_stable: "stable c (snd (css_Finalize W name b c))"
  by (auto simp: css_Finalize_def Let_def split: prod.splits sum.splits option.splits
      intro: stable_trans dest!: stable_cs)

lemma css_CheckOneBatchPods_returns:
  "batch_in_range (rolloutSpec W) (CurrentBatch (rolloutStatus c)) \<Longrightarrow>
   css_CheckOneBatchPods W name c \<noteq> None"
  by (auto simp: css_CheckOneBatchPods_def Let_def dest!: fetchCloneSet_status
      split: prod.splits sum.splits)

interpretation css: workload_contract "css_controller W name"
  "\<lambda>c. batch_in_range (rolloutSpec W) (CurrentBatch (rolloutStatus c))" for W name
proof (unfold_locales, goal_cases)
  case (1 c v c')
  then show ?case using css_VerifySpec_phase [of W name "as_cs c"]
    by (auto simp: css_controller_def forget_eq_iff)
next
  case (2 c v c')
  then show ?case using css_Initialize_stable [of "as_cs c" W name]
    by (auto simp: css_controller_def forget_eq_iff)
next
  case (3 c v c')
  then show ?case using css_RolloutOneBatchPods_stable [of "as_cs c" W name]
    by (auto simp: css_controller_def forget_eq_iff)
next
  case (4 c v c')
  then show ?case
    by (auto simp: css_controller_def forget_eq_iff dest!: css_CheckOneBatchPods_stable)
next
  case (6 b c ok c')
  then show ?case using css_Finalize_stable [of "as_cs c" W name b]
    by (auto simp: css_controller_def forget_eq_iff)
next
  case (10 c)
  then show ?case using css_CheckOneBatchPods_returns [of W "as_cs c" name]
    by (simp add: css_controller_def)
qed (auto simp: css_controller_def forget_eq_iff)

section \<open>Scaling up and down\<close>

text \<open>
  The targets on both sides of a batch enclose the target of the batch, and lie in the range of
  int32, so that recording a target and reading it back gives it again.
\<close>

lemma scale_target_recorded:
  fixes status :: rollout_status
  defines "a \<equiv> sint (RolloutOriginalSize status)" and "t \<equiv> sint (RolloutTargetSize status)"
  assumes "verifyBatchesWithScale (envGetValue (clientEnv W)) (rolloutSpec W) a t = None"
    and "sane_replicas (envGetValue (clientEnv W)) (rolloutSpec W)"
    and "batch_in_range (rolloutSpec W) k"
  shows "sint (int32_of (scale_target W status (sint k))) = scale_target W status (sint k)"
    and "min a t \<le> scale_target W status (sint k)" "scale_target W status (sint k) \<le> max a t"
proof -
  have "in_i32 a" "in_i32 t" by (simp_all add: a_def t_def sint_in_i32)
  from scale_targets_bounds [OF assms(3,4) this, of "sint k" "sint k"] assms(5)
  show b: "min a t \<le> scale_target W status (sint k)" "scale_target W status (sint k) \<le> max a t"
    by (auto simp: scale_target_def a_def t_def batch_in_range_def min_def max_def)
  show "sint (int32_of (scale_target W status (sint k))) = scale_target W status (sint k)"
    using b \<open>in_i32 a\<close> \<open>in_i32 t\<close> by (intro sint_int32_of) (auto simp: in_i32_def)
qed

lemma util_MinMax [simp]: "util_Min x y = min x y" "util_Max x y = max x y"
  by (auto simp: util_Min_def util_Max_def)

lemma scale_target_status:
  "RolloutOriginalSize s = RolloutOriginalSize r \<Longrightarrow> RolloutTargetSize s = RolloutTargetSize r \<Longrightarrow>
   scale_target W s = scale_target W r"
  by (simp add: scale_target_def fun_eq_iff)

lemma css_RolloutOneBatchPods_True:
  "css_RolloutOneBatchPods W name c = ((True, None), c') \<Longrightarrow>
   UpgradedReplicas (rolloutStatus c') =
     int32_of (scale_target W (rolloutStatus c) (sint (CurrentBatch (rolloutStatus c))))"
  by (auto simp: css_RolloutOneBatchPods_def Let_def split: prod.splits option.splits sum.splits
      dest!: fetchCloneSet_status)

text \<open>
  Scaling a CloneSet up or down in batches: whatever batch of a verified plan is submitted,
  the size recorded for it lies between the original and the target size, and FinalizeOneBatch
  accepts it.
\<close>

theorem css_submitted_batch_is_accepted:
  assumes verified: "verifyBatchesWithScale (envGetValue (clientEnv W)) (rolloutSpec W)
                       (sint (RolloutOriginalSize (rolloutStatus c)))
                       (sint (RolloutTargetSize (rolloutStatus c))) = None"
    and sane: "sane_replicas (envGetValue (clientEnv W)) (rolloutSpec W)"
    and range: "batch_in_range (rolloutSpec W) (CurrentBatch (rolloutStatus c))"
    and partition: "\<not> partition_passed (rolloutSpec W) (CurrentBatch (rolloutStatus c))"
    and submit: "css_RolloutOneBatchPods W name c = ((True, None), c')"
  shows "css_FinalizeOneBatch W c' = ((True, None), c') \<and>
         min (sint (RolloutOriginalSize (rolloutStatus c))) (sint (RolloutTargetSize (rolloutStatus c)))
           \<le> sint (UpgradedReplicas (rolloutStatus c')) \<and>
         sint (UpgradedReplicas (rolloutStatus c')) \<le>
           max (sint (RolloutOriginalSize (rolloutStatus c))) (sint (RolloutTargetSize (rolloutStatus c)))"
proof -
  let ?k = "CurrentBatch (rolloutStatus c)"
  have stable: "stable c c'"
    using css_RolloutOneBatchPods_stable [of c W name] submit by simp
  note sizes = stable_sizes [OF stable] stable_CurrentBatch [OF stable]
  have target: "scale_target W (rolloutStatus c') = scale_target W (rolloutStatus c)"
    by (rule scale_target_status) (simp_all add: sizes)
  note recorded = scale_target_recorded [OF verified sane range]
  have up: "sint (UpgradedReplicas (rolloutStatus c')) = scale_target W (rolloutStatus c) (sint ?k)"
    using css_RolloutOneBatchPods_True [OF submit] recorded(1) by simp
  have "\<not> partition_passed (rolloutSpec W) (CurrentBatch (rolloutStatus c'))"
    using partition by (simp add: sizes)
  then have "css_FinalizeOneBatch W c' = ((True, None), c')"
    by (simp add: css_FinalizeOneBatch_def Let_def up target sizes flip: partition_passed_def)
  then show ?thesis
    using recorded(2,3) up by simp
qed

theorem css_submitted_batch_is_accepted_witness:
  "let c' = snd (css_RolloutOneBatchPods (example_client example_plan) (''default'', ''app'')
                   (example_cs BatchInRollingState 1))
   in css_FinalizeOneBatch (example_client example_plan) c' = ((True, None), c') \<and>
      sint (UpgradedReplicas (rolloutStatus c')) \<le> 5"
proof -
  define c' where "c' = snd (css_RolloutOneBatchPods (example_client example_plan)
    (''default'', ''app'') (example_cs BatchInRollingState 1))"
  have submitted: "css_RolloutOneBatchPods (example_client example_plan) (''default'', ''app'')
    (example_cs BatchInRollingState 1) = ((True, None), c')"
    by (simp add: c'_def css_RolloutOneBatchPods_def fetchCloneSet_def patchCloneSet_def Let_def)
  from css_submitted_batch_is_accepted [OF _ _ _ _ submitted]
  show ?thesis unfolding c'_def [symmetric] by (simp add: partition_passed_def)
qed

text \<open>
  A scale of a CloneSet is verified only when the plan has a target size that its batches
  reach from the current size, and the CloneSet is at rest: at its size, not updating, without a
  controller.  The two sizes are recorded.
\<close>

theorem css_VerifySpec_verified:
  assumes "css_VerifySpec W name c = ((True, None), c')"
  shows "\<exists>t n cs c1. TargetSize (rolloutSpec W) = Some t \<and>
           cs_size W name (on_status (\<lambda>r. r\<lparr>RolloutTargetSize := t\<rparr>) c) = (Inr (n, cs), c1) \<and>
           verifyBatchesWithScale (envGetValue (clientEnv W)) (rolloutSpec W) (sint n) (sint t) = None \<and>
           csStatusReplicas cs = n \<and> (csUpdatePaused cs \<or> csUpdatedReplicas cs = n) \<and>
           envGetControllerOf (clientEnv W) (csOwners cs) = None \<and>
           status_sizes c' = (n, t)"
  using assms
  by (auto simp: css_VerifySpec_def Let_def status_sizes_def
      dest!: cs_size_status split: prod.splits sum.splits option.splits if_splits)

theorem css_VerifySpec_verified_witness:
  "\<exists>c'. css_VerifySpec (example_client (example_plan\<lparr>TargetSize := Some 10\<rparr>)) (''default'', ''app'')
          (example_cs BatchInitializingState 0) = ((True, None), c') \<and> status_sizes c' = (5, 10)"
proof -
  have "verifyBatchesWithScale example_ios_value (example_plan\<lparr>TargetSize := Some 10\<rparr>) 5 10 = None"
    by (simp add: verifyBatchesWithScale_def i64_def)
  then obtain c' where c': "css_VerifySpec (example_client (example_plan\<lparr>TargetSize := Some 10\<rparr>))
      (''default'', ''app'') (example_cs BatchInitializingState 0) = ((True, None), c')"
    by (simp add: css_VerifySpec_def example_size cs_replicas_def Let_def)
  from css_VerifySpec_verified [OF this] c' show ?thesis
    by (auto simp: example_size cs_replicas_def)
qed

end
