(* ===== verification/Deployment_Rollout.thy ===== *)
theory Deployment_Rollout
  imports Deployment_Client CloneSet_Scale
begin

text \<open>
  DeploymentRolloutController (deployment_rollout_controller.go): pods move from a source
  Deployment to a target Deployment, each batch in two halves whose order the rollout strategy
  gives.
\<close>

section \<open>The struct and its helpers\<close>

record 'w dr_ctl = "'w ctl" +
  sourceDeploy :: deployment
  targetDeploy :: deployment

text \<open>The names of the two deployments, source and target.\<close>

type_synonym nsnames = "nsname \<times> nsname"

definition fetchDeployments ::
  "'w workload_ctl \<Rightarrow> nsnames \<Rightarrow> 'w dr_ctl \<Rightarrow> string option \<times> 'w dr_ctl" where
  "fetchDeployments W names c =
     (case envGetDeployment (clientEnv W) (fst names) (world c) of
        (Inl err, w) \<Rightarrow>
          (Some (errText err),
           if errNotFound err then c\<lparr>world := w\<rparr>
           else emit (WarningEvent ''Failed to get the source Deployment'' (errText err)) (c\<lparr>world := w\<rparr>))
      | (Inr source, w) \<Rightarrow>
          let c = c\<lparr>world := w, sourceDeploy := source\<rparr> in
          case envGetDeployment (clientEnv W) (snd names) (world c) of
            (Inl err, w) \<Rightarrow>
              (Some (errText err),
               if errNotFound err then c\<lparr>world := w\<rparr>
               else emit (WarningEvent ''Failed to get the target Deployment'' (errText err))
                      (c\<lparr>world := w\<rparr>))
          | (Inr target, w) \<Rightarrow> (None, c\<lparr>world := w, targetDeploy := target\<rparr>))"

definition calculateRolloutTotalSize :: "'w workload_ctl \<Rightarrow> 'w dr_ctl \<Rightarrow> int32 \<times> string option" where
  "calculateRolloutTotalSize W c =
     (let sourceSize = getDeployReplicaSize (sourceDeploy c) in
      case TargetSize (rolloutSpec W) of
        Some targetSize \<Rightarrow>
          if sint targetSize < sint sourceSize
          then (-1, Some (''target size `'' @ itoa (sint targetSize) @ ''` less than source size `'' @
                          itoa (sint sourceSize) @ ''`''))
          else (targetSize, None)
      | None \<Rightarrow> (sourceSize, None))"

definition dpr_verifyRolloutBatchReplicaValue :: "'w workload_ctl \<Rightarrow> int32 \<Rightarrow> string option" where
  "dpr_verifyRolloutBatchReplicaValue W totalReplicas =
     verifyBatchesWithRollout (envGetValue (clientEnv W)) (rolloutSpec W) totalReplicas"

definition calculateCurrentTarget :: "'w workload_ctl \<Rightarrow> rollout_status \<Rightarrow> int32 \<Rightarrow> int32" where
  "calculateCurrentTarget W status totalSize =
     int32_of (calculateNewBatchTarget (envGetValue (clientEnv W)) (rolloutSpec W) 0
                 (sint totalSize) (sint (CurrentBatch status)))"

definition calculateCurrentSource :: "'w workload_ctl \<Rightarrow> rollout_status \<Rightarrow> int32 \<Rightarrow> int32" where
  "calculateCurrentSource W status totalSize = totalSize - calculateCurrentTarget W status totalSize"

text \<open>The strategy of the plan; an empty one is IncreaseFirst.\<close>

definition rollout_strategy_of :: "rollout_plan \<Rightarrow> rollout_strategy" where
  "rollout_strategy_of spec =
     (if length (strategy_str (RolloutStrategy spec)) \<noteq> 0 then RolloutStrategy spec
      else IncreaseFirst)"

definition submitted :: "string \<Rightarrow> int32 \<Rightarrow> string \<Rightarrow> int32 \<Rightarrow> rec_event" where
  "submitted part current which n =
     NormalEvent ''Batch Rollout''
       (''Submitted the '' @ part @ '' part of upgrade quests for batch '' @ itoa (sint current) @
        '', '' @ which @ '' size = '' @ itoa (sint n))"

text \<open>The deferred function of rolloutBatchFirstHalf runs where it has finished.\<close>

definition rolloutBatchFirstHalf ::
  "'w workload_ctl \<Rightarrow> rollout_strategy \<Rightarrow> 'w dr_ctl \<Rightarrow> verdict \<times> 'w dr_ctl" where
  "rolloutBatchFirstHalf W strategy c =
     (let status = rolloutStatus c;
          current = CurrentBatch status;
          targetSize = calculateCurrentTarget W status (RolloutTargetSize status);
          finished =
            (\<lambda>c. on_status (\<lambda>r. r\<lparr>UpgradedReplicas := targetSize\<rparr>)
                   (emit (NormalEvent ''Batch Rollout''
                            (''upgrade quests for batch '' @ itoa (sint current) @
                             '' is already reached, no need to upgrade'')) c))
      in if strategy = IncreaseFirst then
           if sint (getDeployReplicaSize (targetDeploy c)) < sint targetSize
           then let ((_, d), c) = scaleDeployment W (targetDeploy c) targetSize c
                in ((False, None),
                    emit (submitted ''increase'' current ''target'' targetSize) (c\<lparr>targetDeploy := d\<rparr>))
           else ((True, None), finished c)
         else if strategy = DecreaseFirst then
           let sourceSize = calculateCurrentSource W status (RolloutTargetSize status) in
           if sint (getDeployReplicaSize (sourceDeploy c)) > sint sourceSize
           then let ((_, d), c) = scaleDeployment W (sourceDeploy c) sourceSize c
                in ((False, None),
                    emit (submitted ''decrease'' current ''source'' sourceSize) (c\<lparr>sourceDeploy := d\<rparr>))
           else ((True, None), finished c)
         else ((False, Some (''encountered an unknown rolloutStrategy `'' @ strategy_str strategy @
                             ''`'')), c))"

text \<open>A strategy that is neither of the two falls through to the end.\<close>

definition rolloutBatchSecondHalf ::
  "'w workload_ctl \<Rightarrow> rollout_strategy \<Rightarrow> int32 \<Rightarrow> 'w dr_ctl \<Rightarrow> (bool \<times> 'w dr_ctl) option" where
  "rolloutBatchSecondHalf W strategy targetSize c =
     (let E = clientEnv W;
          status = rolloutStatus c;
          current = CurrentBatch status;
          sourceSize = calculateCurrentSource W status (RolloutTargetSize status)
      in if strategy = IncreaseFirst then do {
           currentBatch \<leftarrow> batch_at (rolloutSpec W) current;
           let maxUnavail = unavailable E currentBatch (sint (RolloutTargetSize status));
           let ready = depReadyReplicas (targetDeploy c);
           if sint (ready + int32_of maxUnavail) \<ge> sint targetSize
           then (case scaleDeployment W (sourceDeploy c) sourceSize c of
                   ((Some err, d), c) \<Rightarrow> Some (False, c\<lparr>sourceDeploy := d\<rparr>)
                 | ((None, d), c) \<Rightarrow>
                     Some (True, emit (submitted ''decrease'' current ''source'' sourceSize)
                                   (c\<lparr>sourceDeploy := d\<rparr>)))
           else Some (False,
                  retry E (''the batch '' @ itoa (sint current) @ '' is not ready yet with '' @
                           itoa (sint ready) @ '' target pods ready'') c)
         }
         else if strategy = DecreaseFirst then
           let pods = depStatusReplicas (sourceDeploy c) in
           if pods = sourceSize
           then (case scaleDeployment W (targetDeploy c) targetSize c of
                   ((Some err, d), c) \<Rightarrow> Some (False, c\<lparr>targetDeploy := d\<rparr>)
                 | ((None, d), c) \<Rightarrow>
                     Some (True, emit (submitted ''increase'' current ''target'' targetSize)
                                   (c\<lparr>targetDeploy := d\<rparr>)))
           else Some (False,
                  retry E (''the batch '' @ itoa (sint current) @ '' is not ready yet with '' @
                           itoa (sint pods) @ '' source pods'') c)
         else Some (True, c))"

section \<open>The interface\<close>

definition dpr_VerifySpec :: "'w workload_ctl \<Rightarrow> nsnames \<Rightarrow> 'w dr_ctl \<Rightarrow> verdict \<times> 'w dr_ctl" where
  "dpr_VerifySpec W names c0 =
     (let E = clientEnv W in
      case fetchDeployments W names c0 of
        (Some err, c) \<Rightarrow> ((False, None), retry E err c)
      | (None, c) \<Rightarrow>
          (case calculateRolloutTotalSize W c of
             (_, Some err) \<Rightarrow> ((False, Some err), verify_failed err c)
           | (targetTotalReplicas, None) \<Rightarrow>
               let c = on_status (\<lambda>r. r\<lparr>RolloutTargetSize := targetTotalReplicas\<rparr>) c;
                   source = sourceDeploy c;
                   target = targetDeploy c
               in case ComputeSpecHash E (depSpec target) of
                 Inl err \<Rightarrow> ((False, None), verify_failed err (retry E err c))
               | Inr targetHash \<Rightarrow>
                   if targetHash = LastAppliedPodTemplateIdentifier (rolloutStatus c) then
                     ((False, Some (''there is no difference between the source and target, hash = '' @
                                    targetHash)), c)
                   else case dpr_verifyRolloutBatchReplicaValue W targetTotalReplicas of
                     Some err \<Rightarrow> ((False, Some err), verify_failed err c)
                   | None \<Rightarrow>
                       if \<not> depPaused (depSpec source) \<and>
                          getDeployReplicaSize source \<noteq> depStatusReplicas source then
                         ((False, Some (''the source deployment '' @ depName source @
                            '' is still being reconciled, need to be paused or stable'')), c)
                       else if \<not> depPaused (depSpec target) \<and>
                               getDeployReplicaSize target \<noteq> depStatusReplicas target then
                         ((False, Some (''the target deployment '' @ depName target @
                            '' is still being reconciled, need to be paused or stable'')), c)
                       else case envGetControllerOf E (depOwners target) of
                         Some owner \<Rightarrow>
                           ((False, Some (''the target deployment '' @ depName target @
                              '' has a controller owner '' @ envOwnerString E owner)), c)
                       | None \<Rightarrow>
                         (case envGetControllerOf E (depOwners source) of
                            Some owner \<Rightarrow>
                              ((False, Some (''the source deployment '' @ depName source @
                                 '' has a controller owner '' @ envOwnerString E owner)), c)
                          | None \<Rightarrow>
                              ((True, None),
                               on_status (\<lambda>r. r\<lparr>NewPodTemplateIdentifier := targetHash\<rparr>)
                                 (emit (NormalEvent ''Rollout Verified''
                                   ''Rollout spec and the Deployment resource are verified'') c)))))"

definition dpr_Initialize :: "'w workload_ctl \<Rightarrow> nsnames \<Rightarrow> 'w dr_ctl \<Rightarrow> verdict \<times> 'w dr_ctl" where
  "dpr_Initialize W names c0 =
     (case fetchDeployments W names c0 of
        (Some err, c) \<Rightarrow> ((False, None), retry (clientEnv W) err c)
      | (None, c) \<Rightarrow>
          (case claimDeployment W (sourceDeploy c) None c of
             (((_, Some err), d), c) \<Rightarrow> ((False, None), c\<lparr>sourceDeploy := d\<rparr>)
           | (((_, None), d), c) \<Rightarrow>
               let c = c\<lparr>sourceDeploy := d\<rparr>;
                   targetInitSize = RolloutTargetSize (rolloutStatus c) -
                                    getDeployReplicaSize (sourceDeploy c)
               in case claimDeployment W (targetDeploy c) (Some targetInitSize) c of
                 (((_, Some err), d), c) \<Rightarrow> ((False, None), c\<lparr>targetDeploy := d\<rparr>)
               | (((_, None), d), c) \<Rightarrow>
                   ((True, None),
                    emit (NormalEvent ''Rollout Initialized'' ''Rollout resource are initialized'')
                      (c\<lparr>targetDeploy := d\<rparr>))))"

definition dpr_RolloutOneBatchPods ::
  "'w workload_ctl \<Rightarrow> nsnames \<Rightarrow> 'w dr_ctl \<Rightarrow> (verdict \<times> 'w dr_ctl) option" where
  "dpr_RolloutOneBatchPods W names c0 =
     (case fetchDeployments W names c0 of
        (Some err, c) \<Rightarrow> Some ((False, None), retry (clientEnv W) err c)
      | (None, c) \<Rightarrow> do {
          sourceReplicas \<leftarrow> depReplicas (depSpec (sourceDeploy c));
          targetReplicas \<leftarrow> depReplicas (depSpec (targetDeploy c));
          let currentSizeSetting = sourceReplicas + targetReplicas;
          let strategy = rollout_strategy_of (rolloutSpec W);
          let status = rolloutStatus c;
          if currentSizeSetting = RolloutTargetSize status
          then Some (rolloutBatchFirstHalf W strategy c)
          else do {
            let targetSize = calculateCurrentTarget W status (RolloutTargetSize status);
            (ok, c) \<leftarrow> rolloutBatchSecondHalf W strategy targetSize c;
            if \<not> ok then Some ((False, None), c)
            else Some ((True, None),
                   on_status (\<lambda>r. r\<lparr>UpgradedReplicas := targetSize\<rparr>)
                     (emit (NormalEvent ''Batch Rollout''
                        (''Finished submiting all upgrade quests for batch '' @
                         itoa (sint (CurrentBatch status)))) c))
          }
        })"

definition dpr_CheckOneBatchPods ::
  "'w workload_ctl \<Rightarrow> nsnames \<Rightarrow> 'w dr_ctl \<Rightarrow> (verdict \<times> 'w dr_ctl) option" where
  "dpr_CheckOneBatchPods W names c0 =
     (case fetchDeployments W names c0 of
        (Some err, c) \<Rightarrow> Some ((False, None), c)
      | (None, c) \<Rightarrow> do {
          let E = clientEnv W;
          let status = rolloutStatus c;
          let current = CurrentBatch status;
          let readyTargetPodCount = depReadyReplicas (targetDeploy c);
          let sourcePodCount = depStatusReplicas (sourceDeploy c);
          currentBatch \<leftarrow> batch_at (rolloutSpec W) current;
          let targetGoal = calculateCurrentTarget W status (RolloutTargetSize status);
          let sourceGoal = calculateCurrentSource W status (RolloutTargetSize status);
          let strategy = rollout_strategy_of (rolloutSpec W);
          let maxUnavail = unavailable E currentBatch (sint (RolloutTargetSize status));
          if (strategy = IncreaseFirst \<and> sint sourcePodCount > sint sourceGoal) \<or>
             (strategy = DecreaseFirst \<and>
              sint (int32_of maxUnavail + readyTargetPodCount) < sint targetGoal)
          then Some ((False, None),
                 retry E (''the batch '' @ itoa (sint current) @ '' is not ready yet with '' @
                          itoa (sint readyTargetPodCount) @ '' target pods ready and '' @
                          itoa (sint sourcePodCount) @ '' source pods with '' @ itoa maxUnavail @
                          '' unavailable allowed'') c)
          else Some ((True, None),
                 emit (NormalEvent ''Batch Available''
                         (''Batch '' @ itoa (sint current) @ '' is available''))
                   (on_status (\<lambda>r. r\<lparr>UpgradedReadyReplicas := readyTargetPodCount\<rparr>) c))
        })"

definition dpr_FinalizeOneBatch ::
  "'w workload_ctl \<Rightarrow> nsnames \<Rightarrow> 'w dr_ctl \<Rightarrow> verdict \<times> 'w dr_ctl" where
  "dpr_FinalizeOneBatch W names c0 =
     (case fetchDeployments W names c0 of
        (Some err, c) \<Rightarrow> ((False, None), c)
      | (None, c) \<Rightarrow>
          let sourceTarget = getDeployReplicaSize (sourceDeploy c);
              targetTarget = getDeployReplicaSize (targetDeploy c);
              total = RolloutTargetSize (rolloutStatus c)
          in if sourceTarget + targetTarget \<noteq> total
             then ((False, Some (''deployment targets don't match total rollout, sourceTarget = '' @
                     itoa (sint sourceTarget) @ '', targetTarget = '' @ itoa (sint targetTarget) @
                     '', rolloutTargetSize = '' @ itoa (sint total))), c)
             else ((True, None), c))"

definition dpr_Finalize :: "'w workload_ctl \<Rightarrow> nsnames \<Rightarrow> bool \<Rightarrow> 'w dr_ctl \<Rightarrow> bool \<times> 'w dr_ctl" where
  "dpr_Finalize W names succeed c0 =
     (case fetchDeployments W names c0 of
        (Some err, c) \<Rightarrow> (False, c)
      | (None, c) \<Rightarrow>
          (case releaseDeployment W (sourceDeploy c) c of
             (((_, Some err), d), c) \<Rightarrow> (False, c\<lparr>sourceDeploy := d\<rparr>)
           | (((_, None), d), c) \<Rightarrow>
               let c = c\<lparr>sourceDeploy := d\<rparr> in
               case releaseDeployment W (targetDeploy c) c of
                 (((_, Some err), d), c) \<Rightarrow> (False, c\<lparr>targetDeploy := d\<rparr>)
               | (((_, None), d), c) \<Rightarrow>
                   (True,
                    emit (NormalEvent ''Rollout Finalized''
                            (''Rollout resource are finalized, succeed := '' @
                             (if succeed then ''true'' else ''false'')))
                      (on_status (\<lambda>r. r\<lparr>LastAppliedPodTemplateIdentifier := NewPodTemplateIdentifier r\<rparr>)
                         (c\<lparr>targetDeploy := d\<rparr>)))))"

section \<open>DeploymentRolloutController as a WorkloadController\<close>

lemma fetchDeployments_status: "fetchDeployments W names c = (r, c') \<Longrightarrow> rolloutStatus c' = rolloutStatus c"
  by (auto simp: fetchDeployments_def Let_def split: prod.splits sum.splits if_splits)

lemma stable_fetchDeployments: "fetchDeployments W names c = (r, c') \<Longrightarrow> stable c c'"
  by (auto intro: stable_same_status dest: fetchDeployments_status)

lemma stable_deploys [simp]:
  "stable c (d\<lparr>sourceDeploy := x\<rparr>) = stable c d" "stable c (d\<lparr>targetDeploy := x\<rparr>) = stable c d"
  "stable (d\<lparr>sourceDeploy := x\<rparr>) e = stable d e" "stable (d\<lparr>targetDeploy := x\<rparr>) e = stable d e"
  by (simp_all add: stable_def status_phase_def status_sizes_def)

lemma deploys_frame [simp]:
  "sourceDeploy (on_status f c) = sourceDeploy c" "targetDeploy (on_status f c) = targetDeploy c"
  "sourceDeploy (emit e c) = sourceDeploy c" "targetDeploy (emit e c) = targetDeploy c"
  "sourceDeploy (retry E m c) = sourceDeploy c" "targetDeploy (retry E m c) = targetDeploy c"
  by (simp_all add: on_status_def emit_def retry_def)

lemma rolloutBatchFirstHalf_stable: "stable c (snd (rolloutBatchFirstHalf W s c))"
  by (auto simp: rolloutBatchFirstHalf_def Let_def split: prod.splits dest: stable_deployment)

lemma rolloutBatchSecondHalf_stable: "rolloutBatchSecondHalf W s n c = Some (ok, c') \<Longrightarrow> stable c c'"
  by (auto simp: rolloutBatchSecondHalf_def Let_def bind_eq_Some_conv
      split: prod.splits option.splits if_splits dest: stable_deployment)

lemma dpr_VerifySpec_phase: "status_phase (snd (dpr_VerifySpec W names c)) = status_phase c"
  by (auto simp: dpr_VerifySpec_def Let_def dest!: fetchDeployments_status
      split: prod.splits sum.splits option.splits if_splits intro: status_phase_same)

lemma dpr_Initialize_stable: "stable c (snd (dpr_Initialize W names c))"
  by (auto simp: dpr_Initialize_def Let_def split: prod.splits option.splits
      dest!: stable_fetchDeployments stable_deployment intro: stable_trans)

text \<open>RolloutOneBatchPods is the first half or the second half on the fetched deployments.\<close>

lemma dpr_RolloutOneBatchPods_cases:
  assumes "dpr_RolloutOneBatchPods W names c = Some (v, c')"
  obtains (fetch) err c1 where "fetchDeployments W names c = (Some err, c1)" "v = (False, None)"
      "c' = retry (clientEnv W) err c1"
  | (first) s t c1 where "fetchDeployments W names c = (None, c1)"
      "depReplicas (depSpec (sourceDeploy c1)) = Some s" "depReplicas (depSpec (targetDeploy c1)) = Some t"
      "s + t = RolloutTargetSize (rolloutStatus c1)"
      "rolloutBatchFirstHalf W (rollout_strategy_of (rolloutSpec W)) c1 = (v, c')"
  | (second) s t c1 ok c2 where "fetchDeployments W names c = (None, c1)"
      "depReplicas (depSpec (sourceDeploy c1)) = Some s" "depReplicas (depSpec (targetDeploy c1)) = Some t"
      "s + t \<noteq> RolloutTargetSize (rolloutStatus c1)"
      "rolloutBatchSecondHalf W (rollout_strategy_of (rolloutSpec W))
         (calculateCurrentTarget W (rolloutStatus c1) (RolloutTargetSize (rolloutStatus c1))) c1 =
         Some (ok, c2)"
      "v = (ok, None)" "stable c2 c'" "world c' = world c2"
proof (cases "fetchDeployments W names c")
  case (Pair r c1)
  show thesis
  proof (cases r)
    case (Some err)
    show thesis
      using assms by (intro fetch [of err c1]) (auto simp: dpr_RolloutOneBatchPods_def Pair Some)
  next
    case None
    with assms Pair obtain s t where st: "depReplicas (depSpec (sourceDeploy c1)) = Some s"
      "depReplicas (depSpec (targetDeploy c1)) = Some t"
      by (auto simp: dpr_RolloutOneBatchPods_def bind_eq_Some_conv)
    show thesis
    proof (cases "s + t = RolloutTargetSize (rolloutStatus c1)")
      case True
      then show thesis
        using assms Pair None st by (intro first [of c1 s t]) (auto simp: dpr_RolloutOneBatchPods_def)
    next
      case False
      then obtain ok c2 where half: "rolloutBatchSecondHalf W (rollout_strategy_of (rolloutSpec W))
          (calculateCurrentTarget W (rolloutStatus c1) (RolloutTargetSize (rolloutStatus c1))) c1 =
          Some (ok, c2)"
        using assms Pair None st
        by (auto simp: dpr_RolloutOneBatchPods_def Let_def bind_eq_Some_conv)
      then have "v = (ok, None)" "stable c2 c'" "world c' = world c2"
        using assms Pair None st False
        by (auto simp: dpr_RolloutOneBatchPods_def Let_def split: if_splits)
      with Pair None st False half show thesis
        by (intro second [of c1 s t ok c2]) auto
    qed
  qed
qed

lemma dpr_RolloutOneBatchPods_stable:
  assumes "dpr_RolloutOneBatchPods W names c = Some (v, c')"
  shows "stable c c'"
  using assms
proof (cases rule: dpr_RolloutOneBatchPods_cases)
  case (fetch err c1)
  then show ?thesis by (auto dest: stable_fetchDeployments)
next
  case (first s t c1)
  then have "stable c1 c'"
    using rolloutBatchFirstHalf_stable [of c1 W "rollout_strategy_of (rolloutSpec W)"] by simp
  with first(1) show ?thesis by (blast intro: stable_trans dest: stable_fetchDeployments)
next
  case (second s t c1 ok c2)
  then show ?thesis
    by (blast intro: stable_trans dest: stable_fetchDeployments rolloutBatchSecondHalf_stable)
qed

lemma dpr_CheckOneBatchPods_stable: "dpr_CheckOneBatchPods W names c = Some (v, c') \<Longrightarrow> stable c c'"
  by (auto simp: dpr_CheckOneBatchPods_def Let_def bind_eq_Some_conv
      split: prod.splits option.splits if_splits dest!: stable_fetchDeployments)

lemma dpr_FinalizeOneBatch_stable: "stable c (snd (dpr_FinalizeOneBatch W names c))"
  by (auto simp: dpr_FinalizeOneBatch_def Let_def split: prod.splits option.splits
      dest!: stable_fetchDeployments)

lemma dpr_Finalize_stable: "stable c (snd (dpr_Finalize W names b c))"
  by (auto simp: dpr_Finalize_def Let_def split: prod.splits option.splits
      dest!: stable_fetchDeployments stable_deployment intro: stable_trans)

text \<open>
  The API server defaults spec.replicas of a Deployment, so that a Deployment it returns has one.
\<close>

definition replicas_defaulted :: "'w env \<Rightarrow> bool" where
  "replicas_defaulted E \<longleftrightarrow>
     (\<forall>n w d w'. envGetDeployment E n w = (Inr d, w') \<longrightarrow> depReplicas (depSpec d) \<noteq> None)"

lemma fetchDeployments_ok:
  "fetchDeployments W names c = (None, c') \<Longrightarrow>
   \<exists>w w'. envGetDeployment (clientEnv W) (fst names) (world c) = (Inr (sourceDeploy c'), w) \<and>
          envGetDeployment (clientEnv W) (snd names) w = (Inr (targetDeploy c'), w') \<and>
          world c' = w'"
  by (auto simp: fetchDeployments_def Let_def split: prod.splits sum.splits)

lemma rolloutBatchSecondHalf_returns:
  "batch_in_range (rolloutSpec W) (CurrentBatch (rolloutStatus c)) \<Longrightarrow>
   \<exists>ok c'. rolloutBatchSecondHalf W s n c = Some (ok, c')"
  by (auto simp: rolloutBatchSecondHalf_def Let_def split: prod.splits option.splits)

lemma fetchDeployments_replicas:
  assumes "replicas_defaulted (clientEnv W)" and "fetchDeployments W names c = (None, c')"
  shows "\<exists>s t. depReplicas (depSpec (sourceDeploy c')) = Some s \<and>
               depReplicas (depSpec (targetDeploy c')) = Some t"
  using fetchDeployments_ok [OF assms(2)] assms(1) unfolding replicas_defaulted_def
  by (metis not_Some_eq)

lemma dpr_RolloutOneBatchPods_returns:
  assumes range: "batch_in_range (rolloutSpec W) (CurrentBatch (rolloutStatus c))"
    and "replicas_defaulted (clientEnv W)"
  shows "dpr_RolloutOneBatchPods W names c \<noteq> None"
proof (cases "fetchDeployments W names c")
  case (Pair r c1)
  show ?thesis
  proof (cases r)
    case None
    obtain s t where st: "depReplicas (depSpec (sourceDeploy c1)) = Some s"
      "depReplicas (depSpec (targetDeploy c1)) = Some t"
      using fetchDeployments_replicas assms(2) Pair None by blast
    have "batch_in_range (rolloutSpec W) (CurrentBatch (rolloutStatus c1))"
      using range fetchDeployments_status [OF Pair] by simp
    from rolloutBatchSecondHalf_returns [OF this] obtain ok c2 where
      "rolloutBatchSecondHalf W (rollout_strategy_of (rolloutSpec W))
         (calculateCurrentTarget W (rolloutStatus c1) (RolloutTargetSize (rolloutStatus c1))) c1 =
         Some (ok, c2)" by blast
    then show ?thesis
      using Pair None st
      by (cases "rolloutBatchFirstHalf W (rollout_strategy_of (rolloutSpec W)) c1")
         (auto simp: dpr_RolloutOneBatchPods_def Let_def)
  qed (simp add: dpr_RolloutOneBatchPods_def Pair)
qed

lemma dpr_CheckOneBatchPods_returns:
  "batch_in_range (rolloutSpec W) (CurrentBatch (rolloutStatus c)) \<Longrightarrow>
   dpr_CheckOneBatchPods W names c \<noteq> None"
  by (auto simp: dpr_CheckOneBatchPods_def Let_def dest!: fetchDeployments_status
      split: prod.splits option.splits)

definition empty_deployment :: deployment where
  "empty_deployment =
     \<lparr>depName = '''', depNamespace = '''', depOwners = [],
      depSpec = \<lparr>depReplicas = None, depPaused = False, depRest = ''''\<rparr>,
      depStatusReplicas = 0, depUpdatedReplicas = 0, depReadyReplicas = 0\<rparr>"

definition as_dr :: "'w ctl \<Rightarrow> 'w dr_ctl" where
  "as_dr c = ctl.extend c (dr_ctl.fields empty_deployment empty_deployment)"

lemma as_dr_frame [simp]:
  "rolloutStatus (as_dr c) = rolloutStatus c" "world (as_dr c) = world c"
  "recorded (as_dr c) = recorded c" "status_phase (as_dr c) = status_phase c"
  "stable (as_dr c) d = stable c d" "stable e (as_dr c) = stable e c"
  by (simp_all add: as_dr_def ctl.defs dr_ctl.defs stable_def status_phase_def status_sizes_def)

definition dpr_controller :: "'w workload_ctl \<Rightarrow> nsnames \<Rightarrow> 'w workload_controller" where
  "dpr_controller W names =
     \<lparr>VerifySpec = (\<lambda>c. Some (forget (dpr_VerifySpec W names (as_dr c)))),
      Initialize = (\<lambda>c. Some (forget (dpr_Initialize W names (as_dr c)))),
      RolloutOneBatchPods = (\<lambda>c. map_option forget (dpr_RolloutOneBatchPods W names (as_dr c))),
      CheckOneBatchPods = (\<lambda>c. map_option forget (dpr_CheckOneBatchPods W names (as_dr c))),
      FinalizeOneBatch = (\<lambda>c. Some (forget (dpr_FinalizeOneBatch W names (as_dr c)))),
      Finalize = (\<lambda>b c. Some (forget (dpr_Finalize W names b (as_dr c))))\<rparr>"

interpretation dpr: workload_contract "dpr_controller W names"
  "\<lambda>c. batch_in_range (rolloutSpec W) (CurrentBatch (rolloutStatus c)) \<and>
       replicas_defaulted (clientEnv W)" for W names
proof (unfold_locales, goal_cases)
  case (1 c v c')
  then show ?case using dpr_VerifySpec_phase [of W names "as_dr c"]
    by (auto simp: dpr_controller_def forget_eq_iff)
next
  case (2 c v c')
  then show ?case using dpr_Initialize_stable [of "as_dr c" W names]
    by (auto simp: dpr_controller_def forget_eq_iff)
next
  case (3 c v c')
  then show ?case
    by (auto simp: dpr_controller_def forget_eq_iff dest!: dpr_RolloutOneBatchPods_stable)
next
  case (4 c v c')
  then show ?case
    by (auto simp: dpr_controller_def forget_eq_iff dest!: dpr_CheckOneBatchPods_stable)
next
  case (5 c v c')
  then show ?case using dpr_FinalizeOneBatch_stable [of "as_dr c" W names]
    by (auto simp: dpr_controller_def forget_eq_iff)
next
  case (6 b c ok c')
  then show ?case using dpr_Finalize_stable [of "as_dr c" W names b]
    by (auto simp: dpr_controller_def forget_eq_iff)
next
  case (9 c)
  then show ?case using dpr_RolloutOneBatchPods_returns [of W "as_dr c" names]
    by (simp add: dpr_controller_def)
next
  case (10 c)
  then show ?case using dpr_CheckOneBatchPods_returns [of W "as_dr c" names]
    by (simp add: dpr_controller_def)
qed (auto simp: dpr_controller_def forget_eq_iff)

section \<open>The two halves of a batch keep the total\<close>

text \<open>
  What the theorems assume of the API server: \<open>replicas w n\<close> is the replica setting of the
  deployment called \<open>n\<close>.  A deployment is returned under its name with its setting, a successful
  patch changes the setting of that deployment to the one sent and returns it, and reading and
  failed patches change no setting.
\<close>

definition deployment_server :: "'w env \<Rightarrow> ('w \<Rightarrow> nsname \<Rightarrow> int32) \<Rightarrow> bool" where
  "deployment_server E replicas \<longleftrightarrow>
     (\<forall>n w d w'. envGetDeployment E n w = (Inr d, w') \<longrightarrow>
        replicas w' = replicas w \<and> (depNamespace d, depName d) = n \<and>
        depReplicas (depSpec d) = Some (replicas w n)) \<and>
     (\<forall>n w e w'. envGetDeployment E n w = (Inl e, w') \<longrightarrow> replicas w' = replicas w) \<and>
     (\<forall>orig d p w e d' w'. envPatchDeployment E orig d p w = ((Some e, d'), w') \<longrightarrow>
        replicas w' = replicas w) \<and>
     (\<forall>orig d p w d' w' k. envPatchDeployment E orig d p w = ((None, d'), w') \<longrightarrow>
        depReplicas (depSpec d) = Some k \<longrightarrow>
        replicas w' = (replicas w)((depNamespace d, depName d) := k) \<and>
        depReplicas (depSpec d') = Some k)"

lemma server_get:
  "deployment_server E replicas \<Longrightarrow> envGetDeployment E n w = (Inr d, w') \<Longrightarrow>
   replicas w' = replicas w \<and> (depNamespace d, depName d) = n \<and>
   depReplicas (depSpec d) = Some (replicas w n)"
  unfolding deployment_server_def by metis

lemma server_get_error:
  "deployment_server E replicas \<Longrightarrow> envGetDeployment E n w = (Inl e, w') \<Longrightarrow> replicas w' = replicas w"
  unfolding deployment_server_def by metis

lemma server_patch:
  "deployment_server E replicas \<Longrightarrow> envPatchDeployment E orig d p w = ((None, d'), w') \<Longrightarrow>
   depReplicas (depSpec d) = Some k \<Longrightarrow> replicas w' = (replicas w)((depNamespace d, depName d) := k) \<and>
   depReplicas (depSpec d') = Some k"
  unfolding deployment_server_def by metis

lemma server_patch_error:
  "deployment_server E replicas \<Longrightarrow> envPatchDeployment E orig d p w = ((Some e, d'), w') \<Longrightarrow>
   replicas w' = replicas w"
  unfolding deployment_server_def by metis

lemma scaleDeployment_server:
  assumes "deployment_server (clientEnv W) replicas" and "scaleDeployment W d k c = ((e, d'), c')"
  shows "replicas (world c') =
           (if e = None then (replicas (world c))((depNamespace d, depName d) := k)
            else replicas (world c))"
proof -
  let ?d = "d\<lparr>depSpec := (depSpec d)\<lparr>depReplicas := Some k\<rparr>\<rparr>"
  obtain r d1 w where p: "envPatchDeployment (clientEnv W) d ?d (parUID (parentController W)) (world c)
      = ((r, d1), w)"
    by (metis surj_pair)
  then show ?thesis
    using assms(2) server_patch [OF assms(1)] server_patch_error [OF assms(1)]
    by (cases r) (fastforce simp: scaleDeployment_def patchDeployment_def Let_def)+
qed

lemma fetchDeployments_server:
  assumes "deployment_server (clientEnv W) replicas" and "fetchDeployments W names c = (r, c')"
  shows "replicas (world c') = replicas (world c)"
    and "r = None \<Longrightarrow> (depNamespace (sourceDeploy c'), depName (sourceDeploy c')) = fst names \<and>
           (depNamespace (targetDeploy c'), depName (targetDeploy c')) = snd names \<and>
           depReplicas (depSpec (sourceDeploy c')) = Some (replicas (world c) (fst names)) \<and>
           depReplicas (depSpec (targetDeploy c')) = Some (replicas (world c) (snd names))"
  using assms(2)
  by (auto simp: fetchDeployments_def Let_def split: prod.splits sum.splits if_splits
      dest!: server_get [OF assms(1)] server_get_error [OF assms(1)])

text \<open>
  Between the halves of a batch one deployment has already the size the batch gives it; at all
  other times the two settings add up to the size of the rollout.
\<close>

definition balanced :: "(nsname \<Rightarrow> int32) \<Rightarrow> nsnames \<Rightarrow> rollout_status \<Rightarrow> bool" where
  "balanced setting names status \<longleftrightarrow>
     setting (fst names) + setting (snd names) = RolloutTargetSize status"

definition half_rolled ::
  "'w workload_ctl \<Rightarrow> (nsname \<Rightarrow> int32) \<Rightarrow> nsnames \<Rightarrow> rollout_status \<Rightarrow> bool" where
  "half_rolled W setting names status \<longleftrightarrow>
     (if rollout_strategy_of (rolloutSpec W) = IncreaseFirst
      then setting (snd names) = calculateCurrentTarget W status (RolloutTargetSize status)
      else setting (fst names) = calculateCurrentSource W status (RolloutTargetSize status))"

lemma calculateCurrent_status:
  "CurrentBatch s = CurrentBatch r \<Longrightarrow> calculateCurrentTarget W s n = calculateCurrentTarget W r n"
  "CurrentBatch s = CurrentBatch r \<Longrightarrow> calculateCurrentSource W s n = calculateCurrentSource W r n"
  by (simp_all add: calculateCurrentTarget_def calculateCurrentSource_def)

lemma balanced_stable:
  "stable c c' \<Longrightarrow> balanced f names (rolloutStatus c') = balanced f names (rolloutStatus c)"
  "stable c c' \<Longrightarrow> half_rolled W f names (rolloutStatus c') = half_rolled W f names (rolloutStatus c)"
  by (simp_all add: balanced_def half_rolled_def stable_sizes stable_CurrentBatch
      calculateCurrent_status [of "rolloutStatus c'" "rolloutStatus c"])

lemma first_half_server:
  assumes server: "deployment_server (clientEnv W) replicas"
    and strategy: "s = IncreaseFirst \<or> s = DecreaseFirst"
    and names: "(depNamespace (sourceDeploy c), depName (sourceDeploy c)) = fst names"
      "(depNamespace (targetDeploy c), depName (targetDeploy c)) = snd names"
    and half: "rolloutBatchFirstHalf W s c = ((ok, err), c')"
  defines "tot \<equiv> RolloutTargetSize (rolloutStatus c)"
  shows "replicas (world c') = replicas (world c) \<or>
         \<not> ok \<and> replicas (world c') =
           (if s = IncreaseFirst
            then (replicas (world c))(snd names := calculateCurrentTarget W (rolloutStatus c) tot)
            else (replicas (world c))(fst names := calculateCurrentSource W (rolloutStatus c) tot))"
  using half strategy names
  by (auto simp: rolloutBatchFirstHalf_def Let_def tot_def split: prod.splits if_splits
      dest!: scaleDeployment_server [OF server])

lemma second_half_server:
  assumes server: "deployment_server (clientEnv W) replicas"
    and strategy: "s = IncreaseFirst \<or> s = DecreaseFirst"
    and names: "(depNamespace (sourceDeploy c), depName (sourceDeploy c)) = fst names"
      "(depNamespace (targetDeploy c), depName (targetDeploy c)) = snd names"
    and half: "rolloutBatchSecondHalf W s (calculateCurrentTarget W (rolloutStatus c) tot) c =
                 Some (ok, c')"
    and tot: "tot = RolloutTargetSize (rolloutStatus c)"
  shows "replicas (world c') =
           (if \<not> ok then replicas (world c)
            else if s = IncreaseFirst
            then (replicas (world c))(fst names := calculateCurrentSource W (rolloutStatus c) tot)
            else (replicas (world c))(snd names := calculateCurrentTarget W (rolloutStatus c) tot))"
  using half strategy names
  by (auto simp: rolloutBatchSecondHalf_def Let_def tot bind_eq_Some_conv
      split: prod.splits if_splits option.splits dest!: scaleDeployment_server [OF server])

lemma second_half_balances:
  assumes "half_rolled W f names status" and "fst names \<noteq> snd names"
    and "rollout_strategy_of (rolloutSpec W) = s" "s = IncreaseFirst \<or> s = DecreaseFirst"
    and "g = (if s = IncreaseFirst
              then f(fst names := calculateCurrentSource W status (RolloutTargetSize status))
              else f(snd names := calculateCurrentTarget W status (RolloutTargetSize status)))"
  shows "balanced g names status \<and> half_rolled W g names status"
  using assms by (auto simp: half_rolled_def balanced_def calculateCurrentSource_def)

lemma first_half_half_rolled:
  assumes "fst names \<noteq> snd names"
    and "rollout_strategy_of (rolloutSpec W) = s" "s = IncreaseFirst \<or> s = DecreaseFirst"
    and "g = (if s = IncreaseFirst
              then f(snd names := calculateCurrentTarget W status (RolloutTargetSize status))
              else f(fst names := calculateCurrentSource W status (RolloutTargetSize status)))"
  shows "half_rolled W g names status"
  using assms by (auto simp: half_rolled_def)

text \<open>
  C3: The rollout of a deployment never loses a replica between batches: starting from settings
  that add up to the size of the rollout, or with one deployment already at the size of the
  current batch, RolloutOneBatchPods keeps this for every outcome, failed patches included, and
  reports the batch as done only when the two settings add up again, which is what
  FinalizeOneBatch checks.
\<close>

theorem dpr_batch_keeps_total:
  assumes server: "deployment_server (clientEnv W) replicas" and names: "fst names \<noteq> snd names"
    and strategy: "rollout_strategy_of (rolloutSpec W) \<in> {IncreaseFirst, DecreaseFirst}"
    and inv: "balanced (replicas (world c)) names (rolloutStatus c) \<or>
              half_rolled W (replicas (world c)) names (rolloutStatus c)"
    and roll: "dpr_RolloutOneBatchPods W names c = Some ((ok, err), c')"
  shows "(balanced (replicas (world c')) names (rolloutStatus c') \<or>
          half_rolled W (replicas (world c')) names (rolloutStatus c')) \<and>
         (ok \<longrightarrow> balanced (replicas (world c')) names (rolloutStatus c'))"
proof -
  have strat: "rollout_strategy_of (rolloutSpec W) = IncreaseFirst \<or>
               rollout_strategy_of (rolloutSpec W) = DecreaseFirst"
    using strategy by simp
  from roll show ?thesis
  proof (cases rule: dpr_RolloutOneBatchPods_cases)
    case (fetch err c1)
    then have "stable c c'" by (auto dest: stable_fetchDeployments)
    with fetch inv fetchDeployments_server(1) [OF server fetch(1)] show ?thesis
      by (simp add: balanced_stable)
  next
    case (first s t c1)
    note fetched = fetchDeployments_server [OF server first(1)]
    have stable: "stable c c1" "stable c1 c'"
      using first(1,5) rolloutBatchFirstHalf_stable [of c1 W "rollout_strategy_of (rolloutSpec W)"]
      by (auto dest: stable_fetchDeployments)
    have bal: "balanced (replicas (world c1)) names (rolloutStatus c1)"
      using first(2-4) fetched by (simp add: balanced_def)
    have ids: "(depNamespace (sourceDeploy c1), depName (sourceDeploy c1)) = fst names"
      "(depNamespace (targetDeploy c1), depName (targetDeploy c1)) = snd names"
      using fetched(2) by auto
    from first_half_server [OF server strat ids first(5)]
    consider "replicas (world c') = replicas (world c1)"
      | "\<not> ok" "half_rolled W (replicas (world c')) names (rolloutStatus c1)"
      using first_half_half_rolled [OF names refl strat] by metis
    then show ?thesis
      using bal by cases (simp_all add: balanced_stable [OF stable(2)])
  next
    case (second s t c1 ok2 c2)
    note fetched = fetchDeployments_server [OF server second(1)]
    have stable: "stable c c1" "stable c1 c2" "stable c2 c'"
      using second by (auto dest: stable_fetchDeployments rolloutBatchSecondHalf_stable)
    have unbalanced: "\<not> balanced (replicas (world c1)) names (rolloutStatus c1)"
      using second(2-4) fetched by (simp add: balanced_def)
    have ids: "(depNamespace (sourceDeploy c1), depName (sourceDeploy c1)) = fst names"
      "(depNamespace (targetDeploy c1), depName (targetDeploy c1)) = snd names"
      using fetched(2) by auto
    have half: "half_rolled W (replicas (world c1)) names (rolloutStatus c1)"
      using inv unbalanced fetched(1) by (simp add: balanced_stable [OF stable(1)])
    have after: "replicas (world c2) =
      (if \<not> ok then replicas (world c1)
       else if rollout_strategy_of (rolloutSpec W) = IncreaseFirst
       then (replicas (world c1))(fst names :=
              calculateCurrentSource W (rolloutStatus c1) (RolloutTargetSize (rolloutStatus c1)))
       else (replicas (world c1))(snd names :=
              calculateCurrentTarget W (rolloutStatus c1) (RolloutTargetSize (rolloutStatus c1))))"
      using second_half_server [OF server strat ids second(5) refl] second(6) by simp
    show ?thesis
    proof (cases ok)
      case True
      have "balanced (replicas (world c2)) names (rolloutStatus c1)"
        using second_half_balances [OF half names refl strat] after True by simp
      then show ?thesis
        by (simp add: second(7,8) balanced_stable [OF stable(3)] balanced_stable [OF stable(2)])
    next
      case False
      then show ?thesis
        using after half second(8)
        by (simp add: balanced_stable [OF stable(3)] balanced_stable [OF stable(2)])
    qed
  qed
qed

text \<open>Claiming a deployment sets the size it is given, or leaves the setting alone.\<close>

lemma claimDeployment_server:
  assumes server: "deployment_server (clientEnv W) replicas"
    and "depReplicas (depSpec d) = Some k" and "replicas (world c) (depNamespace d, depName d) = k"
    and claim: "claimDeployment W d n c = (((claimed, None), d'), c')"
  shows "depReplicas (depSpec d') = Some (if claimed then k else case n of Some m \<Rightarrow> m | None \<Rightarrow> k) \<and>
         replicas (world c') = (if claimed then replicas (world c)
           else (replicas (world c))((depNamespace d, depName d) := case n of Some m \<Rightarrow> m | None \<Rightarrow> k))"
  using assms
  by (auto simp: claimDeployment_def Let_def dest!: patchDeployment_ok
      split: prod.splits option.splits if_splits dest: server_patch [OF server])

text \<open>
  A rollout of deployments starts with settings that add up to its size: when Initialize
  succeeds and the target deployment was not already claimed, the source keeps its setting and the
  target gets what is missing to the size of the rollout.
\<close>

theorem dpr_Initialize_balances:
  assumes server: "deployment_server (clientEnv W) replicas" and names: "fst names \<noteq> snd names"
    and unclaimed: "\<forall>w d w'. envGetDeployment (clientEnv W) (snd names) w = (Inr d, w') \<longrightarrow>
                      list_all (\<lambda>owner. \<not> owned_by_rollout owner) (depOwners d)"
    and controller: "\<forall>os owner. envGetControllerOf (clientEnv W) os = Some owner \<longrightarrow> owner \<in> set os"
    and init: "dpr_Initialize W names c = ((True, None), c')"
  shows "balanced (replicas (world c')) names (rolloutStatus c') \<and>
         replicas (world c') (fst names) = replicas (world c) (fst names)"
proof -
  obtain c1 where fetch: "fetchDeployments W names c = (None, c1)"
    using init by (auto simp: dpr_Initialize_def split: prod.splits option.splits)
  note fetched = fetchDeployments_server [OF server fetch] fetchDeployments_ok [OF fetch]
  let ?n = "replicas (world c) (fst names)" and ?size = "RolloutTargetSize (rolloutStatus c)"
  obtain b d c2 where source: "claimDeployment W (sourceDeploy c1) None c1 = (((b, None), d), c2)"
    using init fetch by (auto simp: dpr_Initialize_def split: prod.splits option.splits)
  have kept: "depReplicas (depSpec d) = Some ?n" "replicas (world c2) = replicas (world c)"
    using claimDeployment_server [OF server _ _ source] fetched(1,2) by auto
  have target_kept: "targetDeploy c2 = targetDeploy c1"
    using source by (auto simp: claimDeployment_def patchDeployment_def Let_def
        split: prod.splits option.splits if_splits)
  have stable: "stable c c2"
    using fetch source by (blast intro: stable_trans dest: stable_fetchDeployments stable_deployment)
  have size: "RolloutTargetSize (rolloutStatus c2) = ?size" by (rule stable_sizes(1) [OF stable])
  obtain b2 d2 c3 where target: "claimDeployment W (targetDeploy c1) (Some (?size - ?n))
      (c2\<lparr>sourceDeploy := d\<rparr>) = (((b2, None), d2), c3)"
    and c': "replicas (world c') = replicas (world c3)" "rolloutStatus c' = rolloutStatus c3"
    using init fetch source kept(1) size target_kept
    by (auto simp: dpr_Initialize_def Let_def getDeployReplicaSize_def split: prod.splits option.splits)
  have "list_all (\<lambda>owner. \<not> owned_by_rollout owner) (depOwners (targetDeploy c1))"
    using unclaimed fetched(3) by metis
  then have "envGetControllerOf (clientEnv W) (depOwners (targetDeploy c1)) = Some owner \<Longrightarrow>
      \<not> owned_by_rollout owner" for owner
    using controller by (simp add: list_all_iff)
  then have "\<not> b2"
    using target by (auto simp: claimDeployment_def Let_def split: prod.splits option.splits if_splits)
  with claimDeployment_server [OF server _ _ target] fetched(2) kept(2)
  have "replicas (world c3) = (replicas (world c))(snd names := ?size - ?n)" by auto
  moreover have "stable c2 c3"
    using stable_claimDeployment [OF target] by simp
  ultimately show ?thesis
    using names c' size stable_sizes(1) [of c2 c3] by (simp add: balanced_def)
qed

text \<open>
  A rollout of deployments is verified only when neither deployment has a controller, each is
  paused or at its size, the batches of the plan add up to the size of the rollout, which is the
  plan's target size or else the size of the source and never smaller than the source, and the
  target is not what was applied last.
\<close>

theorem dpr_VerifySpec_verified:
  assumes "dpr_VerifySpec W names c = ((True, None), c')"
  shows "let source = sourceDeploy c'; target = targetDeploy c'; n = RolloutTargetSize (rolloutStatus c')
         in verifyBatchesWithRollout (envGetValue (clientEnv W)) (rolloutSpec W) n = None \<and>
            sint (getDeployReplicaSize source) \<le> sint n \<and>
            (case TargetSize (rolloutSpec W) of Some t \<Rightarrow> n = t
             | None \<Rightarrow> n = getDeployReplicaSize source) \<and>
            (depPaused (depSpec source) \<or> getDeployReplicaSize source = depStatusReplicas source) \<and>
            (depPaused (depSpec target) \<or> getDeployReplicaSize target = depStatusReplicas target) \<and>
            envGetControllerOf (clientEnv W) (depOwners source) = None \<and>
            envGetControllerOf (clientEnv W) (depOwners target) = None \<and>
            ComputeSpecHash (clientEnv W) (depSpec target) =
              Inr (NewPodTemplateIdentifier (rolloutStatus c')) \<and>
            NewPodTemplateIdentifier (rolloutStatus c') \<noteq>
              LastAppliedPodTemplateIdentifier (rolloutStatus c)"
  using assms
  by (auto simp: dpr_VerifySpec_def Let_def calculateRolloutTotalSize_def
      dpr_verifyRolloutBatchReplicaValue_def dest!: fetchDeployments_status
      split: prod.splits sum.splits option.splits if_splits)

section \<open>Examples\<close>

definition example_names :: nsnames where
  "example_names = ((''default'', ''source''), (''default'', ''target''))"

text \<open>A server whose state is only the two settings.\<close>

definition settings_env :: "(nsname \<Rightarrow> int32) env" where
  "settings_env =
     \<lparr>envNow = (\<lambda>w. 0), envSetConditions = (\<lambda>c cs. cs), envGetValue = example_ios_value,
      envGetControllerOf = find (\<lambda>o1. orController o1 = Some True), envOwnerString = orName,
      envNewControllerRef = (\<lambda>p. example_owner), envHash = (\<lambda>spec. Inr 7),
      envGetDeployment = (\<lambda>n w.
        (Inr ((example_deployment (snd n) (w n))\<lparr>depNamespace := fst n\<rparr>), w)),
      envPatchDeployment = (\<lambda>orig d owner w.
        ((None, d), case depReplicas (depSpec d) of
           Some k \<Rightarrow> w((depNamespace d, depName d) := k) | None \<Rightarrow> w)),
      envGetCloneSet = (\<lambda>n w. (Inr example_cloneset, w)),
      envPatchCloneSet = (\<lambda>orig cs owner w. ((None, cs), w)),
      envParseURL = Inr, envNewRequest = (\<lambda>method url. None),
      envHTTPDo = (\<lambda>method url payload w. (Inr \<lparr>respStatusCode = 200, respBody = Inr ''''\<rparr>, w)),
      envRetryOnError = (\<lambda>f. f), envKruiseGroup = ''apps.kruise.io'', envAppsGroup = ''apps''\<rparr>"

lemma settings_env_simps [simp]:
  "envGetDeployment settings_env n w =
     (Inr ((example_deployment (snd n) (w n))\<lparr>depNamespace := fst n\<rparr>), w)"
  "envPatchDeployment settings_env orig d p w =
     ((None, d), case depReplicas (depSpec d) of
           Some k \<Rightarrow> w((depNamespace d, depName d) := k) | None \<Rightarrow> w)"
  "envGetControllerOf settings_env = find (\<lambda>o1. orController o1 = Some True)"
  "envGetValue settings_env = example_ios_value" "envHash settings_env spec = Inr 7"
  "envNewControllerRef settings_env par = example_owner"
  by (simp_all add: settings_env_def)

lemma settings_server: "deployment_server settings_env (\<lambda>w. w)"
  by (auto simp: deployment_server_def split: option.splits)

definition settings_client :: "(nsname \<Rightarrow> int32) workload_ctl" where
  "settings_client =
     \<lparr>clientEnv = settings_env, parentController = example_parent, rolloutSpec = example_plan\<rparr>"

lemma settings_client_simps [simp]:
  "clientEnv settings_client = settings_env" "rolloutSpec settings_client = example_plan"
  by (simp_all add: settings_client_def)

definition settings_ctl :: "int32 \<Rightarrow> int32 \<Rightarrow> int32 \<Rightarrow> (nsname \<Rightarrow> int32) dr_ctl" where
  "settings_ctl s t i =
     as_dr \<lparr>world = (\<lambda>n. if n = fst example_names then s else if n = snd example_names then t else 0),
            rolloutStatus = example_status RollingInBatchesState BatchInRollingState i,
            recorded = []\<rparr>"

lemma settings_ctl_simps [simp]:
  "world (settings_ctl s t i) = (\<lambda>n. if n = fst example_names then s else if n = snd example_names then t else 0)"
  "rolloutStatus (settings_ctl s t i) = example_status RollingInBatchesState BatchInRollingState i"
  by (simp_all add: settings_ctl_def)

lemma example_names_simps [simp]:
  "fst example_names = (''default'', ''source'')" "snd example_names = (''default'', ''target'')"
  by (simp_all add: example_names_def)

lemma settings_fetch:
  "fetchDeployments settings_client example_names c =
     (None, c\<lparr>sourceDeploy := example_deployment ''source'' (world c (fst example_names)),
              targetDeploy := example_deployment ''target'' (world c (snd example_names))\<rparr>)"
  by (simp add: fetchDeployments_def Let_def example_deployment_def)

lemma example_strategy [simp]: "rollout_strategy_of example_plan = IncreaseFirst"
  by (simp add: rollout_strategy_of_def)

theorem dpr_batch_keeps_total_witness:
  "\<exists>c' c''. dpr_RolloutOneBatchPods settings_client example_names (settings_ctl 5 0 0) =
              Some ((False, None), c') \<and>
            dpr_RolloutOneBatchPods settings_client example_names c' = Some ((True, None), c'') \<and>
            world c'' (fst example_names) = 3 \<and>
            balanced (world c'') example_names (rolloutStatus c'')"
proof -
  have target: "calculateCurrentTarget settings_client
                  (example_status RollingInBatchesState BatchInRollingState 0) 5 = 2"
    by (simp add: calculateCurrentTarget_def int32_of_def)
  obtain c' where first: "dpr_RolloutOneBatchPods settings_client example_names (settings_ctl 5 0 0) =
      Some ((False, None), c')"
    and c': "world c' = (world (settings_ctl 5 2 0))"
      "rolloutStatus c' = rolloutStatus (settings_ctl 5 2 0)"
    by (simp add: dpr_RolloutOneBatchPods_def settings_fetch rolloutBatchFirstHalf_def Let_def target
        getDeployReplicaSize_def scaleDeployment_def patchDeployment_def fun_eq_iff)
  obtain c'' where second: "dpr_RolloutOneBatchPods settings_client example_names c' =
      Some ((True, None), c'')"
    and c'': "world c'' (fst example_names) = 3"
    by (simp add: dpr_RolloutOneBatchPods_def settings_fetch rolloutBatchSecondHalf_def Let_def target
        getDeployReplicaSize_def scaleDeployment_def patchDeployment_def c' batch_at_def
        unavailable_def calculateCurrentSource_def int32_of_def)
  have server: "deployment_server (clientEnv settings_client) (\<lambda>w. w)"
    by (simp add: settings_server)
  have "half_rolled settings_client (world c') example_names (rolloutStatus c')"
    by (simp add: half_rolled_def c' target)
  with dpr_batch_keeps_total [OF server _ _ _ second] first second c'' show ?thesis
    by auto
qed

theorem dpr_Initialize_balances_witness:
  "\<exists>c'. dpr_Initialize settings_client example_names (settings_ctl 3 0 0) = ((True, None), c') \<and>
        balanced (world c') example_names (rolloutStatus c')"
proof -
  obtain c' where init: "dpr_Initialize settings_client example_names (settings_ctl 3 0 0) =
      ((True, None), c')"
    by (simp add: dpr_Initialize_def settings_fetch claimDeployment_def patchDeployment_def Let_def)
  have server: "deployment_server (clientEnv settings_client) (\<lambda>w. w)"
    by (simp add: settings_server)
  have "dpr_Initialize settings_client example_names (settings_ctl 3 0 0) = ((True, None), c') \<Longrightarrow>
      balanced (world c') example_names (rolloutStatus c')"
    using dpr_Initialize_balances [OF server, of example_names "settings_ctl 3 0 0" c']
    by (simp add: find_in_set)
  with init show ?thesis by blast
qed

theorem dpr_VerifySpec_verified_witness:
  "\<exists>c'. dpr_VerifySpec settings_client example_names (settings_ctl 5 0 0) = ((True, None), c') \<and>
        RolloutTargetSize (rolloutStatus c') = getDeployReplicaSize (sourceDeploy c')"
proof -
  obtain c' where verified: "dpr_VerifySpec settings_client example_names (settings_ctl 5 0 0) =
      ((True, None), c')"
    by (simp add: dpr_VerifySpec_def settings_fetch calculateRolloutTotalSize_def Let_def
        getDeployReplicaSize_def ComputeSpecHash_def strconv_FormatHex_def format_nat.simps
        dpr_verifyRolloutBatchReplicaValue_def)
  with dpr_VerifySpec_verified [OF verified] show ?thesis
    by (auto simp: Let_def)
qed

end
