(* ===== verification/Deployment_Scale.thy ===== *)
theory Deployment_Scale
  imports Deployment_Rollout
begin

text \<open>
  DeploymentScaleController (deployment_scale_controller.go): a Deployment is scaled in batches.
  The struct keeps a pointer to the fetched Deployment, nil at first.
\<close>

record 'w ds_ctl = "'w ctl" +
  deploy :: "deployment option"

definition fetchDeployment ::
  "'w workload_ctl \<Rightarrow> nsname \<Rightarrow> 'w ds_ctl \<Rightarrow> (string + deployment) \<times> 'w ds_ctl" where
  "fetchDeployment W name c =
     (case envGetDeployment (clientEnv W) name (world c) of
        (Inl err, w) \<Rightarrow>
          (Inl (errText err),
           if errNotFound err then c\<lparr>world := w\<rparr>
           else emit (WarningEvent ''Failed to get the Deployment'' (errText err)) (c\<lparr>world := w\<rparr>))
      | (Inr d, w) \<Rightarrow> (Inr d, c\<lparr>world := w, deploy := Some d\<rparr>))"

text \<open>size, with the Deployment that it read the size from, s.deploy from then on.\<close>

definition dps_size ::
  "'w workload_ctl \<Rightarrow> nsname \<Rightarrow> 'w ds_ctl \<Rightarrow> (string + int32 \<times> deployment) \<times> 'w ds_ctl" where
  "dps_size W name c =
     (case deploy c of
        Some d \<Rightarrow> (Inr (getDeployReplicaSize d, d), c)
      | None \<Rightarrow>
          (case fetchDeployment W name c of
             (Inl err, c1) \<Rightarrow> (Inl err, c1)
           | (Inr d, c1) \<Rightarrow> (Inr (getDeployReplicaSize d, d), c1)))"

definition dps_VerifySpec :: "'w workload_ctl \<Rightarrow> nsname \<Rightarrow> 'w ds_ctl \<Rightarrow> verdict \<times> 'w ds_ctl" where
  "dps_VerifySpec W name c0 =
     (let E = clientEnv W in
      case TargetSize (rolloutSpec W) of
        None \<Rightarrow>
          ((False, Some (''the rollout plan is attempting to scale the deployment '' @ snd name @
                         '' without a target'')), c0)
      | Some target \<Rightarrow>
          let c0 = on_status (\<lambda>r. r\<lparr>RolloutTargetSize := target\<rparr>) c0 in
          case dps_size W name c0 of
            (Inl err, c) \<Rightarrow> ((False, None), verify_failed err (retry E err c))
          | (Inr (originalSize, d), c) \<Rightarrow>
              let c = on_status (\<lambda>r. r\<lparr>RolloutOriginalSize := originalSize\<rparr>) c in
              case verifyBatchesWithScale (envGetValue E) (rolloutSpec W) (sint originalSize)
                     (sint (RolloutTargetSize (rolloutStatus c))) of
                Some err \<Rightarrow> ((False, Some err), verify_failed err c)
              | None \<Rightarrow>
                  if \<not> depPaused (depSpec d) \<and> originalSize \<noteq> depStatusReplicas d then
                    (let err = ''the deployment '' @ depName d @
                               '' is in the middle of scaling, target size = '' @
                               itoa (sint originalSize) @ '', real size = '' @
                               itoa (sint (depStatusReplicas d))
                     in ((False, None), verify_failed err (retry E err c)))
                  else if \<not> depPaused (depSpec d) \<and> depUpdatedReplicas d \<noteq> originalSize then
                    (let err = ''the deployment '' @ depName d @
                               '' is in the middle of updating, target size = '' @
                               itoa (sint originalSize) @ '', updated pod = '' @
                               itoa (sint (depUpdatedReplicas d))
                     in ((False, None), verify_failed err (retry E err c)))
                  else case envGetControllerOf E (depOwners d) of
                    Some owner \<Rightarrow>
                      ((False, Some (''the deployment '' @ depName d @ '' has a controller owner '' @
                                     envOwnerString E owner)), c)
                  | None \<Rightarrow>
                      ((True, None),
                       emit (NormalEvent ''Scale Verified''
                               ''Rollout spec and the deployment resource are verified'') c))"

definition dps_Initialize :: "'w workload_ctl \<Rightarrow> nsname \<Rightarrow> 'w ds_ctl \<Rightarrow> verdict \<times> 'w ds_ctl" where
  "dps_Initialize W name c0 =
     (case fetchDeployment W name c0 of
        (Inl err, c) \<Rightarrow> ((False, None), retry (clientEnv W) err c)
      | (Inr d, c) \<Rightarrow>
          (case claimDeployment W d None c of
             (((_, Some err), d), c) \<Rightarrow> ((False, None), c\<lparr>deploy := Some d\<rparr>)
           | (((claimedBefore, None), d), c) \<Rightarrow>
               let c = c\<lparr>deploy := Some d\<rparr> in
               ((True, None),
                if \<not> claimedBefore
                then emit (NormalEvent ''Scale Initialized'' ''deployment is initialized'') c else c)))"

definition dps_RolloutOneBatchPods ::
  "'w workload_ctl \<Rightarrow> nsname \<Rightarrow> 'w ds_ctl \<Rightarrow> verdict \<times> 'w ds_ctl" where
  "dps_RolloutOneBatchPods W name c0 =
     (case fetchDeployment W name c0 of
        (Inl err, c) \<Rightarrow> ((False, None), retry (clientEnv W) err c)
      | (Inr d, c) \<Rightarrow>
          let current = CurrentBatch (rolloutStatus c);
              newPodTarget = scale_target W (rolloutStatus c) (sint current)
          in case scaleDeployment W d (int32_of newPodTarget) c of
               ((Some err, d), c) \<Rightarrow> ((False, None), c\<lparr>deploy := Some d\<rparr>)
             | ((None, d), c) \<Rightarrow>
                 ((True, None),
                  on_status (\<lambda>r. r\<lparr>UpgradedReplicas := int32_of newPodTarget\<rparr>)
                    (emit (NormalEvent ''Batch Rollout''
                             (''Submitted scale quest for batch '' @ itoa (sint current)))
                      (c\<lparr>deploy := Some d\<rparr>))))"

definition dps_CheckOneBatchPods ::
  "'w workload_ctl \<Rightarrow> nsname \<Rightarrow> 'w ds_ctl \<Rightarrow> (verdict \<times> 'w ds_ctl) option" where
  "dps_CheckOneBatchPods W name c0 =
     (let E = clientEnv W in
      case fetchDeployment W name c0 of
        (Inl err, c) \<Rightarrow> Some ((False, None), retry E err c)
      | (Inr d, c) \<Rightarrow>
          let status = rolloutStatus c;
              current = CurrentBatch status;
              newPodTarget = scale_target W status (sint current);
              readyPodCount = sint (depReadyReplicas d)
          in do {
            currentBatch \<leftarrow> batch_at (rolloutSpec W) current;
            let unavail = unavailable E currentBatch
                            (util_Abs (sint (RolloutTargetSize status - RolloutOriginalSize status)));
            let c = on_status (\<lambda>r. r\<lparr>UpgradedReadyReplicas := int32_of readyPodCount\<rparr>) c;
            if scale_target_reached status unavail readyPodCount newPodTarget
            then Some ((True, None),
                   emit (NormalEvent ''Batch Available''
                           (''Batch '' @ itoa (sint current) @ '' is available'')) c)
            else Some ((False, None), retry E ''the batch is not ready yet'' c)
          })"

definition dps_FinalizeOneBatch ::
  "'w workload_ctl \<Rightarrow> 'w ds_ctl \<Rightarrow> verdict \<times> 'w ds_ctl" where
  "dps_FinalizeOneBatch W c =
     (let status = rolloutStatus c; spec = rolloutSpec W in
      if (case BatchPartition spec of Some p \<Rightarrow> sint p < sint (CurrentBatch status) | None \<Rightarrow> False)
      then ((False, Some ''the current batch value in the status is greater than the batch partition''), c)
      else if RolloutOriginalSize status = RolloutTargetSize status then ((True, None), c)
      else
        let finishedPodCount = sint (UpgradedReplicas status);
            currentBatch = sint (CurrentBatch status);
            preBatchTarget = scale_target W status (i64 (currentBatch - 1));
            curBatchTarget = scale_target W status currentBatch
        in if finishedPodCount < util_Min preBatchTarget curBatchTarget
           then ((False, Some ''the upgraded replica in the status is less than the lower bound''), c)
           else if finishedPodCount > util_Max preBatchTarget curBatchTarget
           then ((False, Some ''the upgraded replica in the status is greater than the upper bound''), c)
           else ((True, None), c))"

definition dps_Finalize :: "'w workload_ctl \<Rightarrow> nsname \<Rightarrow> bool \<Rightarrow> 'w ds_ctl \<Rightarrow> bool \<times> 'w ds_ctl" where
  "dps_Finalize W name succeed c0 =
     (case fetchDeployment W name c0 of
        (Inl err, c) \<Rightarrow> (False, retry (clientEnv W) err c)
      | (Inr d, c) \<Rightarrow>
          (case releaseDeployment W d c of
             (((_, Some err), d), c) \<Rightarrow> (False, c\<lparr>deploy := Some d\<rparr>)
           | (((releasedBefore, None), d), c) \<Rightarrow>
               let c = c\<lparr>deploy := Some d\<rparr> in
               (True,
                if \<not> releasedBefore
                then emit (NormalEvent ''Scale Finalized''
                             (''Scale resource are finalized, succeed := '' @
                              (if succeed then ''true'' else ''false''))) c
                else c)))"

section \<open>DeploymentScaleController as a WorkloadController\<close>

lemma stable_fetchDeployment: "fetchDeployment W name c = (r, c') \<Longrightarrow> rolloutStatus c' = rolloutStatus c"
  by (auto simp: fetchDeployment_def split: prod.splits sum.splits if_splits)

lemma dps_size_status: "dps_size W name c = (r, c') \<Longrightarrow> rolloutStatus c' = rolloutStatus c"
  by (auto simp: dps_size_def dest!: stable_fetchDeployment split: option.splits prod.splits sum.splits)

lemmas stable_ds = stable_fetchDeployment [THEN stable_same_status] dps_size_status [THEN stable_same_status]

lemma stable_deploy [simp]:
  "stable c (d\<lparr>deploy := x\<rparr>) = stable c d" "stable (d\<lparr>deploy := x\<rparr>) e = stable d e"
  by (simp_all add: stable_def status_phase_def status_sizes_def)

definition as_ds :: "'w ctl \<Rightarrow> 'w ds_ctl" where
  "as_ds c = ctl.extend c (ds_ctl.fields None)"

lemma as_ds_frame [simp]:
  "rolloutStatus (as_ds c) = rolloutStatus c" "world (as_ds c) = world c"
  "recorded (as_ds c) = recorded c" "deploy (as_ds c) = None" "status_phase (as_ds c) = status_phase c"
  "stable (as_ds c) d = stable c d" "stable e (as_ds c) = stable e c"
  by (simp_all add: as_ds_def ctl.defs ds_ctl.defs stable_def status_phase_def status_sizes_def)

definition dps_controller :: "'w workload_ctl \<Rightarrow> nsname \<Rightarrow> 'w workload_controller" where
  "dps_controller W name =
     \<lparr>VerifySpec = (\<lambda>c. Some (forget (dps_VerifySpec W name (as_ds c)))),
      Initialize = (\<lambda>c. Some (forget (dps_Initialize W name (as_ds c)))),
      RolloutOneBatchPods = (\<lambda>c. Some (forget (dps_RolloutOneBatchPods W name (as_ds c)))),
      CheckOneBatchPods = (\<lambda>c. map_option forget (dps_CheckOneBatchPods W name (as_ds c))),
      FinalizeOneBatch = (\<lambda>c. Some (forget (dps_FinalizeOneBatch W (as_ds c)))),
      Finalize = (\<lambda>b c. Some (forget (dps_Finalize W name b (as_ds c))))\<rparr>"

lemma dps_VerifySpec_phase: "status_phase (snd (dps_VerifySpec W name c)) = status_phase c"
  by (auto simp: dps_VerifySpec_def Let_def dest!: dps_size_status
      split: prod.splits sum.splits option.splits if_splits intro: status_phase_same)
     (auto simp: status_phase_def phase_def)

lemma dps_Initialize_stable: "stable c (snd (dps_Initialize W name c))"
  by (auto simp: dps_Initialize_def Let_def split: prod.splits sum.splits option.splits
      intro: stable_trans dest!: stable_ds stable_deployment)

lemma dps_RolloutOneBatchPods_stable: "stable c (snd (dps_RolloutOneBatchPods W name c))"
  by (auto simp: dps_RolloutOneBatchPods_def Let_def split: prod.splits sum.splits option.splits
      intro: stable_trans dest!: stable_ds stable_deployment)

lemma dps_CheckOneBatchPods_stable: "dps_CheckOneBatchPods W name c = Some (v, c') \<Longrightarrow> stable c c'"
  by (auto simp: dps_CheckOneBatchPods_def Let_def bind_eq_Some_conv
      split: prod.splits sum.splits if_splits intro: stable_trans dest!: stable_ds)

lemma dps_FinalizeOneBatch_state [simp]: "snd (dps_FinalizeOneBatch W c) = c"
  by (simp add: dps_FinalizeOneBatch_def Let_def)

lemma dps_Finalize_stable: "stable c (snd (dps_Finalize W name b c))"
  by (auto simp: dps_Finalize_def Let_def split: prod.splits sum.splits option.splits
      intro: stable_trans dest!: stable_ds stable_deployment)

lemma dps_CheckOneBatchPods_returns:
  "batch_in_range (rolloutSpec W) (CurrentBatch (rolloutStatus c)) \<Longrightarrow>
   dps_CheckOneBatchPods W name c \<noteq> None"
  by (auto simp: dps_CheckOneBatchPods_def Let_def dest!: stable_fetchDeployment
      split: prod.splits sum.splits)

interpretation dps: workload_contract "dps_controller W name"
  "\<lambda>c. batch_in_range (rolloutSpec W) (CurrentBatch (rolloutStatus c))" for W name
proof (unfold_locales, goal_cases)
  case (1 c v c')
  then show ?case using dps_VerifySpec_phase [of W name "as_ds c"]
    by (auto simp: dps_controller_def forget_eq_iff)
next
  case (2 c v c')
  then show ?case using dps_Initialize_stable [of "as_ds c" W name]
    by (auto simp: dps_controller_def forget_eq_iff)
next
  case (3 c v c')
  then show ?case using dps_RolloutOneBatchPods_stable [of "as_ds c" W name]
    by (auto simp: dps_controller_def forget_eq_iff)
next
  case (4 c v c')
  then show ?case
    by (auto simp: dps_controller_def forget_eq_iff dest!: dps_CheckOneBatchPods_stable)
next
  case (6 b c ok c')
  then show ?case using dps_Finalize_stable [of "as_ds c" W name b]
    by (auto simp: dps_controller_def forget_eq_iff)
next
  case (10 c)
  then show ?case using dps_CheckOneBatchPods_returns [of W "as_ds c" name]
    by (simp add: dps_controller_def)
qed (auto simp: dps_controller_def forget_eq_iff)

section \<open>Scaling up and down\<close>

lemma dps_RolloutOneBatchPods_True:
  "dps_RolloutOneBatchPods W name c = ((True, None), c') \<Longrightarrow>
   UpgradedReplicas (rolloutStatus c') =
     int32_of (scale_target W (rolloutStatus c) (sint (CurrentBatch (rolloutStatus c))))"
  by (auto simp: dps_RolloutOneBatchPods_def Let_def split: prod.splits option.splits sum.splits
      dest!: stable_fetchDeployment)

text \<open>
  Scaling a Deployment up or down in batches: the size recorded for any submitted batch of a
  verified plan lies between the original and the target size, and FinalizeOneBatch accepts it.
\<close>

theorem dps_submitted_batch_is_accepted:
  assumes verified: "verifyBatchesWithScale (envGetValue (clientEnv W)) (rolloutSpec W)
                       (sint (RolloutOriginalSize (rolloutStatus c)))
                       (sint (RolloutTargetSize (rolloutStatus c))) = None"
    and sane: "sane_replicas (envGetValue (clientEnv W)) (rolloutSpec W)"
    and range: "batch_in_range (rolloutSpec W) (CurrentBatch (rolloutStatus c))"
    and partition: "\<not> partition_passed (rolloutSpec W) (CurrentBatch (rolloutStatus c))"
    and submit: "dps_RolloutOneBatchPods W name c = ((True, None), c')"
  shows "dps_FinalizeOneBatch W c' = ((True, None), c') \<and>
         min (sint (RolloutOriginalSize (rolloutStatus c))) (sint (RolloutTargetSize (rolloutStatus c)))
           \<le> sint (UpgradedReplicas (rolloutStatus c')) \<and>
         sint (UpgradedReplicas (rolloutStatus c')) \<le>
           max (sint (RolloutOriginalSize (rolloutStatus c))) (sint (RolloutTargetSize (rolloutStatus c)))"
proof -
  let ?k = "CurrentBatch (rolloutStatus c)"
  have stable: "stable c c'"
    using dps_RolloutOneBatchPods_stable [of c W name] submit by simp
  note sizes = stable_sizes [OF stable] stable_CurrentBatch [OF stable]
  have target: "scale_target W (rolloutStatus c') = scale_target W (rolloutStatus c)"
    by (rule scale_target_status) (simp_all add: sizes)
  note recorded = scale_target_recorded [OF verified sane range]
  have up: "sint (UpgradedReplicas (rolloutStatus c')) = scale_target W (rolloutStatus c) (sint ?k)"
    using dps_RolloutOneBatchPods_True [OF submit] recorded(1) by simp
  have "\<not> partition_passed (rolloutSpec W) (CurrentBatch (rolloutStatus c'))"
    using partition by (simp add: sizes)
  then have "dps_FinalizeOneBatch W c' = ((True, None), c')"
    by (simp add: dps_FinalizeOneBatch_def Let_def up target sizes flip: partition_passed_def)
  then show ?thesis
    using recorded(2,3) up by simp
qed

theorem dps_submitted_batch_is_accepted_witness:
  "let c = as_ds (example_ctl RollingInBatchesState BatchInRollingState 0);
       c' = snd (dps_RolloutOneBatchPods (example_client example_plan) (''default'', ''target'') c)
   in dps_FinalizeOneBatch (example_client example_plan) c' = ((True, None), c') \<and>
      sint (UpgradedReplicas (rolloutStatus c')) \<le> 5"
proof -
  define c where "c = as_ds (example_ctl RollingInBatchesState BatchInRollingState 0)"
  define c' where "c' = snd (dps_RolloutOneBatchPods (example_client example_plan)
    (''default'', ''target'') c)"
  have submitted: "dps_RolloutOneBatchPods (example_client example_plan) (''default'', ''target'') c =
      ((True, None), c')"
    by (simp add: c'_def c_def dps_RolloutOneBatchPods_def fetchDeployment_def scaleDeployment_def
        patchDeployment_def Let_def)
  from dps_submitted_batch_is_accepted [OF _ _ _ _ submitted]
  show ?thesis unfolding Let_def c_def [symmetric] c'_def [symmetric]
    by (simp add: partition_passed_def c_def)
qed

end
