(* ===== verification/Rollout_Webhook.thy ===== *)
theory Rollout_Webhook
  imports Example_Env
begin

text \<open>
  The calls of webhooks, pkg/controller/common/rollout/rollout_webhook.go.  Marshalling the
  payload, strings and a map of strings, does not fail.
\<close>

section \<open>makeHTTPRequest\<close>

definition StatusAccepted :: int where "StatusAccepted = 202"

definition StatusInternalServerError :: int where "StatusInternalServerError = 500"

text \<open>
  The function that is retried.  It assigns the variables \<open>r\<close> and \<open>body\<close> of its caller, \<open>r\<close> also
  when the request fails.  What a failed read leaves in \<open>body\<close> is never looked at.
\<close>

definition http_attempt ::
  "'w env \<Rightarrow> string \<Rightarrow> string \<Rightarrow> rollout_webhook_payload \<Rightarrow> http_vars \<times> 'w \<Rightarrow>
     string option \<times> (http_vars \<times> 'w)" where
  "http_attempt E method url payload s =
     (case s of ((_, body), w) \<Rightarrow>
       (case envHTTPDo E method url payload w of
          (Inl (r, requestErr), w') \<Rightarrow> (Some requestErr, ((r, body), w'))
        | (Inr r, w') \<Rightarrow>
            (case respBody r of
               Inl requestErr \<Rightarrow> (Some requestErr, ((Some r, body), w'))
             | Inr b \<Rightarrow>
                 (if respStatusCode r \<ge> StatusInternalServerError
                  then Some (''internal server error, status code = '' @ itoa (respStatusCode r))
                  else None,
                  ((Some r, b), w')))))"

text \<open>The body, the status and the error; \<open>None\<close> is the panic of reading the status of a nil response.\<close>

definition makeHTTPRequest ::
  "'w env \<Rightarrow> string \<Rightarrow> string \<Rightarrow> rollout_webhook_payload \<Rightarrow> 'w \<Rightarrow>
     ((string \<times> int \<times> string option) \<times> 'w) option" where
  "makeHTTPRequest E webhookEndPoint method payload w =
     (case envParseURL E webhookEndPoint of
        Inl err \<Rightarrow> Some (([], StatusInternalServerError, Some err), w)
      | Inr hook \<Rightarrow>
          (case envNewRequest E method hook of
             Some err \<Rightarrow> Some (([], StatusInternalServerError, Some err), w)
           | None \<Rightarrow>
               (case envRetryOnError E (http_attempt E method hook payload) ((None, []), w) of
                  (Some err, ((Some r, _), w')) \<Rightarrow> Some (([], respStatusCode r, Some err), w')
                | (Some err, ((None, _), w')) \<Rightarrow> Some (([], -1, Some err), w')
                | (None, ((Some r, body), w')) \<Rightarrow> Some ((body, respStatusCode r, None), w')
                | (None, ((None, _), _)) \<Rightarrow> None)))"

section \<open>callWebhook\<close>

definition webhook_payload :: "parent_object \<Rightarrow> string \<Rightarrow> rollout_webhook \<Rightarrow> rollout_webhook_payload" where
  "webhook_payload resource ph rw =
     \<lparr>plName = parName resource, plNamespace = parNamespace resource, plPhase = ph,
      plMetadata = (case whMetadata rw of Some m \<Rightarrow> m | None \<Rightarrow> Map.empty)\<rparr>"

definition callWebhook ::
  "'w env \<Rightarrow> parent_object \<Rightarrow> string \<Rightarrow> rollout_webhook \<Rightarrow> 'w \<Rightarrow> (string option \<times> 'w) option" where
  "callWebhook E resource ph rw w = do {
     let payload = webhook_payload resource ph rw;
     let method = (if length (whMethod rw) = 0 then ''POST'' else whMethod rw);
     ((_, status, err), w) \<leftarrow> makeHTTPRequest E (whURL rw) method payload w;
     Some (case err of
             Some e \<Rightarrow> Some e
           | None \<Rightarrow>
               if length (whExpectedStatus rw) = 0 then
                 if status > StatusAccepted
                 then Some (''we fail the webhook request based on status, http status = '' @ itoa status)
                 else None
               else if \<not> list_ex (\<lambda>es. es = status) (whExpectedStatus rw)
               then Some (''http request to the webhook not accepeted, http status = '' @ itoa status)
               else None, w)
   }"

section \<open>What a webhook's success means\<close>

text \<open>
  client-go's retry.OnError returns what the last attempt returned, in the state it left.
\<close>

definition retry_returns_last :: "'w env \<Rightarrow> bool" where
  "retry_returns_last E \<longleftrightarrow>
     (\<forall>f s e s'. envRetryOnError E f s = (e, s') \<longrightarrow> (\<exists>s0. f s0 = (e, s')))"

lemma http_attempt_None:
  "http_attempt E method url payload s = (None, ((r, body), w)) \<Longrightarrow>
   \<exists>resp. r = Some resp \<and> respStatusCode resp < StatusInternalServerError"
  by (auto simp: http_attempt_def split: prod.splits sum.splits if_splits)

lemma makeHTTPRequest_returns:
  assumes "retry_returns_last E"
  shows "makeHTTPRequest E url method payload w \<noteq> None"
    and "makeHTTPRequest E url method payload w = Some ((body, status, None), w') \<Longrightarrow>
         status < StatusInternalServerError"
proof -
  note last = assms [unfolded retry_returns_last_def, rule_format]
  show "makeHTTPRequest E url method payload w \<noteq> None"
    by (auto simp: makeHTTPRequest_def split: sum.splits option.splits prod.splits
        dest!: last http_attempt_None)
  show "makeHTTPRequest E url method payload w = Some ((body, status, None), w') \<Longrightarrow>
        status < StatusInternalServerError"
    by (auto simp: makeHTTPRequest_def split: sum.splits option.splits prod.splits
        dest!: last http_attempt_None)
qed

lemma callWebhook_returns:
  assumes "retry_returns_last E"
  shows "\<exists>r. callWebhook E resource ph rw w = Some r"
  using makeHTTPRequest_returns(1) [OF assms, of "whURL rw"
      "if length (whMethod rw) = 0 then ''POST'' else whMethod rw" "webhook_payload resource ph rw" w]
  by (auto simp: callWebhook_def Let_def)

text \<open>
  A webhook call never panics, and succeeds exactly when the request, retried as client-go
  does it, was answered below 500 with a status that the hook expects or, where it expects none in
  particular, with one up to 202.
\<close>

theorem callWebhook_success:
  assumes "retry_returns_last E"
  shows "\<exists>err w'. callWebhook E resource ph rw w = Some (err, w') \<and>
           (err = None \<longleftrightarrow>
              (\<exists>body status.
                 makeHTTPRequest E (whURL rw) (if whMethod rw = [] then ''POST'' else whMethod rw)
                   (webhook_payload resource ph rw) w = Some ((body, status, None), w') \<and>
                 status < StatusInternalServerError \<and>
                 (if whExpectedStatus rw = [] then status \<le> StatusAccepted
                  else status \<in> set (whExpectedStatus rw))))"
proof -
  let ?call = "makeHTTPRequest E (whURL rw) (if whMethod rw = [] then ''POST'' else whMethod rw)
                 (webhook_payload resource ph rw) w"
  obtain body status err w' where call: "?call = Some ((body, status, err), w')"
    using makeHTTPRequest_returns(1) [OF assms] by (metis not_None_eq surj_pair)
  then have "err = None \<Longrightarrow> status < StatusInternalServerError"
    using makeHTTPRequest_returns(2) [OF assms] by simp
  with call show ?thesis
    by (auto simp: callWebhook_def Let_def list_ex_iff split: option.splits)
qed

definition example_webhook :: "hook_type \<Rightarrow> int list \<Rightarrow> rollout_webhook" where
  "example_webhook ty expected =
     \<lparr>whType = ty, whName = ''hook'', whURL = ''http://hook'', whMethod = [],
      whExpectedStatus = expected, whMetadata = None\<rparr>"

definition answering_env :: "int \<Rightarrow> example_world env" where
  "answering_env status =
     example_env\<lparr>envHTTPDo := (\<lambda>method url payload w.
       (Inr \<lparr>respStatusCode = status, respBody = Inr []\<rparr>, w))\<rparr>"

lemma answering_retry: "retry_returns_last (answering_env status)"
  by (auto simp: retry_returns_last_def answering_env_def example_env_def)

lemmas answering_defs =
  callWebhook_def makeHTTPRequest_def http_attempt_def answering_env_def example_env_def
  example_webhook_def StatusAccepted_def StatusInternalServerError_def

theorem callWebhook_success_witness:
  "fst (the (callWebhook (answering_env 200) example_parent ''initializing''
               (example_webhook InitializeRolloutHook []) example_start)) = None"
  using callWebhook_success [OF answering_retry, of 200 example_parent "''initializing''"
      "example_webhook InitializeRolloutHook []" example_start]
  by (auto simp: answering_defs)

text \<open>
  The comment of callWebhook speaks of non-2xx statuses; without expected statuses the code also
  fails on those from 203 to 299, such as 204 No Content.
\<close>

lemma callWebhook_fails_on_204:
  "fst (the (callWebhook (answering_env 204) example_parent ''initializing''
               (example_webhook InitializeRolloutHook []) example_start)) \<noteq> None"
  by (simp add: answering_defs)

end
