(* ===== verification/Rollout_Plan.thy ===== *)
theory Rollout_Plan
  imports Deployment_Scale Rollout_Webhook
begin

text \<open>
  The rollout plan controller, pkg/controller/common/rollout/rollout_plan_controller.go: one
  reconcile looks at the state of the rollout, calls one method of the workload controller or the
  webhooks, and moves the state machine.  \<open>None\<close> is a panic.
\<close>

section \<open>The controller\<close>

text \<open>What the controller reads of an unstructured workload.\<close>

record workload_ref =
  wrGroup :: string
  wrKind :: string
  wrNamespace :: string
  wrName :: string

record 'w plan_controller =
  planClient :: "'w workload_ctl"
  targetWorkload :: workload_ref
  sourceWorkload :: "workload_ref option"

definition rolloutReconcileRequeueTime :: int where
  "rolloutReconcileRequeueTime = 5"

text \<open>The status a new controller starts from.\<close>

definition NewRolloutPlanController :: "rollout_status \<Rightarrow> rollout_status" where
  "NewRolloutPlanController status =
     (if length (batch_rolling_state_str (BatchRollingState status)) = 0
      then status\<lparr>BatchRollingState := BatchInitializingState\<rparr> else status)"

definition workload_key :: "workload_ref \<Rightarrow> nsname" where
  "workload_key u = (wrNamespace u, wrName u)"

definition GetWorkloadController ::
  "'w plan_controller \<Rightarrow> string + 'w workload_controller" where
  "GetWorkloadController r =
     (let W = planClient r;
          kind = wrKind (targetWorkload r);
          target = workload_key (targetWorkload r);
          source = (case sourceWorkload r of Some u \<Rightarrow> workload_key u | None \<Rightarrow> ('''', ''''));
          unsupported = Inl (''the workload kind `'' @ kind @ ''` is not supported'');
          deployments =
            (if wrGroup (targetWorkload r) = envAppsGroup (clientEnv W) \<and> kind = ''Deployment''
             then if sourceWorkload r \<noteq> None then Inr (dpr_controller W (source, target))
                  else Inr (dps_controller W target)
             else unsupported)
      in if wrGroup (targetWorkload r) = envKruiseGroup (clientEnv W) \<and> kind = ''CloneSet''
         then if sourceWorkload r \<noteq> None then Inr (csr_controller W target)
              else Inr (css_controller W target)
         else deployments)"

section \<open>Webhooks\<close>

text \<open>
  The loop that the four callers share: the hooks of one type in order, up to the first that
  fails, which is retried in a later reconcile.
\<close>

fun call_hooks ::
  "'w workload_ctl \<Rightarrow> hook_type \<Rightarrow> string \<Rightarrow> string \<Rightarrow> rollout_webhook list \<Rightarrow> 'w ctl \<Rightarrow>
     (string option \<times> 'w ctl) option" where
  "call_hooks W ty ph reason [] c = Some (None, c)"
| "call_hooks W ty ph reason (rw # rws) c =
     (if whType rw = ty then
        (case callWebhook (clientEnv W) (parentController W) ph rw (world c) of
           None \<Rightarrow> None
         | Some (Some err, w) \<Rightarrow> Some (Some err, retry (clientEnv W) reason (c\<lparr>world := w\<rparr>))
         | Some (None, w) \<Rightarrow> call_hooks W ty ph reason rws (c\<lparr>world := w\<rparr>))
      else call_hooks W ty ph reason rws c)"

definition initializeRollout :: "'w workload_ctl \<Rightarrow> 'w ctl \<Rightarrow> (string option \<times> 'w ctl) option" where
  "initializeRollout W c =
     call_hooks W InitializeRolloutHook (rolling_state_str InitializingState)
       ''failed to invoke a webhook'' (RolloutWebhooks (rolloutSpec W)) c"

definition gatherAllWebhooks :: "'w workload_ctl \<Rightarrow> rollout_status \<Rightarrow> rollout_webhook list option" where
  "gatherAllWebhooks W status = do {
     rb \<leftarrow> batch_at (rolloutSpec W) (CurrentBatch status);
     Some (RolloutWebhooks (rolloutSpec W) @ batchRolloutWebhooks rb)
   }"

definition initializeOneBatch :: "'w workload_ctl \<Rightarrow> 'w ctl \<Rightarrow> 'w ctl option" where
  "initializeOneBatch W c = do {
     rolloutHooks \<leftarrow> gatherAllWebhooks W (rolloutStatus c);
     (err, c) \<leftarrow> call_hooks W PreBatchRolloutHook (batch_rolling_state_str BatchInitializingState)
                  ''failed to invoke a webhook'' rolloutHooks c;
     Some (if err \<noteq> None then c else transition (clientEnv W) InitializedOneBatchEvent c)
   }"

definition tryMovingToNextBatch :: "'w workload_ctl \<Rightarrow> 'w ctl \<Rightarrow> 'w ctl" where
  "tryMovingToNextBatch W c =
     (if (case BatchPartition (rolloutSpec W) of
            None \<Rightarrow> True | Some p \<Rightarrow> sint p > sint (CurrentBatch (rolloutStatus c)))
      then transition (clientEnv W) BatchRolloutApprovedEvent c
      else c)"

definition finalizeOneBatch :: "'w workload_ctl \<Rightarrow> 'w ctl \<Rightarrow> 'w ctl option" where
  "finalizeOneBatch W c = do {
     rolloutHooks \<leftarrow> gatherAllWebhooks W (rolloutStatus c);
     (err, c) \<leftarrow> call_hooks W PostBatchRolloutHook (batch_rolling_state_str BatchFinalizingState)
                  ''failed to invoke a webhook'' rolloutHooks c;
     Some
       (if err \<noteq> None then c
        else if sint (CurrentBatch (rolloutStatus c)) = int (length (batches (rolloutSpec W))) - 1
        then (let c = transition (clientEnv W) AllBatchFinishedEvent c in
              emit (NormalEvent ''All batches rolled out''
                     (''upgrade pod = '' @ itoa (sint (UpgradedReplicas (rolloutStatus c))) @
                      '', total ready pod = '' @
                      itoa (sint (UpgradedReadyReplicas (rolloutStatus c))))) c)
        else transition (clientEnv W) FinishedOneBatchEvent
               (emit (NormalEvent ''Batch Finalized''
                       (''Batch '' @ itoa (sint (CurrentBatch (rolloutStatus c))) @
                        '' is finalized and ready to go'')) c))
   }"

definition finalizeRollout :: "'w workload_ctl \<Rightarrow> 'w ctl \<Rightarrow> 'w ctl option" where
  "finalizeRollout W c = do {
     (err, c) \<leftarrow> call_hooks W FinalizeRolloutHook (rolling_state_str (RollingState (rolloutStatus c)))
                  ''failed to invoke a post rollout webhook'' (RolloutWebhooks (rolloutSpec W)) c;
     Some (if err \<noteq> None then c else transition (clientEnv W) RollingFinalizedEvent c)
   }"

section \<open>Reconciling\<close>

text \<open>
  What the controller does with the flag and the error of a method while rolling: fail on an
  error, go on with \<open>next\<close> when the flag is set, and come back later otherwise.
\<close>

definition after_method ::
  "'w env \<Rightarrow> verdict \<Rightarrow> ('w ctl \<Rightarrow> 'w ctl option) \<Rightarrow> 'w ctl \<Rightarrow> 'w ctl option" where
  "after_method E v step c =
     (case snd v of
        Some err \<Rightarrow> Some (failing E err c)
      | None \<Rightarrow> if fst v then step c else Some c)"

definition reconcileBatchInRolling ::
  "'w workload_ctl \<Rightarrow> 'w workload_controller \<Rightarrow> 'w ctl \<Rightarrow> 'w ctl option" where
  "reconcileBatchInRolling W M c =
     (let E = clientEnv W in
      if Paused (rolloutSpec W) then
        Some (on_status (SetConditions (envSetConditions E)
                           (NewPositiveCondition (envNow E (world c)) BatchPaused))
                (emit (NormalEvent ''Rollout paused'' ''Rollout paused'') c))
      else
        (case BatchRollingState (rolloutStatus c) of
           BatchInitializingState \<Rightarrow> initializeOneBatch W c
         | BatchInRollingState \<Rightarrow> do {
             (v, c) \<leftarrow> RolloutOneBatchPods M c;
             after_method E v (\<lambda>c. Some (transition E RolloutOneBatchEvent c)) c
           }
         | BatchVerifyingState \<Rightarrow> do {
             (v, c) \<leftarrow> CheckOneBatchPods M c;
             after_method E v (\<lambda>c. Some (transition E OneBatchAvailableEvent c)) c
           }
         | BatchFinalizingState \<Rightarrow> do {
             (v, c) \<leftarrow> FinalizeOneBatch M c;
             after_method E v (finalizeOneBatch W) c
           }
         | BatchReadyState \<Rightarrow> Some (tryMovingToNextBatch W c)
         | _ \<Rightarrow> None))"

text \<open>The state machine step of Reconcile, once there is a workload controller.\<close>

definition reconcile_state ::
  "'w workload_ctl \<Rightarrow> 'w workload_controller \<Rightarrow> 'w ctl \<Rightarrow> 'w ctl option" where
  "reconcile_state W M c =
     (let E = clientEnv W in
      case RollingState (rolloutStatus c) of
        VerifyingSpecState \<Rightarrow> do {
          ((verified, err), c) \<leftarrow> VerifySpec M c;
          Some (case err of
                  Some e \<Rightarrow> failed E e c
                | None \<Rightarrow> if verified then transition E RollingSpecVerifiedEvent c else c)
        }
      | InitializingState \<Rightarrow> do {
          (err, c) \<leftarrow> initializeRollout W c;
          if err \<noteq> None then Some c
          else do {
            (v, c) \<leftarrow> Initialize M c;
            after_method E v (\<lambda>c. Some (transition E RollingInitializedEvent c)) c
          }
        }
      | RollingInBatchesState \<Rightarrow> reconcileBatchInRolling W M c
      | RolloutFailingState \<Rightarrow> do {
          (succeed, c) \<leftarrow> Finalize M False c;
          if succeed then finalizeRollout W c else Some c
        }
      | RolloutAbandoningState \<Rightarrow> do {
          (succeed, c) \<leftarrow> Finalize M False c;
          if succeed then finalizeRollout W c else Some c
        }
      | RolloutDeletingState \<Rightarrow> do {
          (succeed, c) \<leftarrow> Finalize M False c;
          if succeed then finalizeRollout W c else Some c
        }
      | FinalisingState \<Rightarrow> do {
          (succeed, c) \<leftarrow> Finalize M True c;
          if succeed then finalizeRollout W c else Some c
        }
      | RolloutSucceedState \<Rightarrow> Some c
      | RolloutFailedState \<Rightarrow> Some c
      | _ \<Rightarrow> None)"

text \<open>
  Reconcile returns after how many seconds it wants to be called again, 0 for not at all, by its
  deferred function.
\<close>

definition plan_Reconcile :: "'w plan_controller \<Rightarrow> 'w ctl \<Rightarrow> (int \<times> 'w ctl) option" where
  "plan_Reconcile r c =
     map_option
       (\<lambda>c. (if RollingState (rolloutStatus c) = RolloutFailedState \<or>
                RollingState (rolloutStatus c) = RolloutSucceedState then 0
             else rolloutReconcileRequeueTime, c))
       (case GetWorkloadController r of
          Inl err \<Rightarrow>
            Some (emit (WarningEvent ''Unsupported workload'' err)
                   (failed (clientEnv (planClient r)) err c))
        | Inr M \<Rightarrow> reconcile_state (planClient r) M c)"

section \<open>The abstract plan controller\<close>

text \<open>
  What one reconcile may do to a phase.  Every move is one that the state machine expects; nothing
  here is an illegal transition.
\<close>

inductive reconcile_step :: "rollout_plan \<Rightarrow> phase \<Rightarrow> phase \<Rightarrow> bool" for spec where
  stay: "reconcile_step spec p p"
| unsupported: "reconcile_step spec (r, b, n) (RolloutFailedState, b, n)"
| verified: "batches spec \<noteq> [] \<Longrightarrow>
     reconcile_step spec (VerifyingSpecState, b, n) (InitializingState, b, n)"
| rejected: "reconcile_step spec (VerifyingSpecState, b, n) (RolloutFailedState, b, n)"
| initialized: "reconcile_step spec (InitializingState, b, n)
     (RollingInBatchesState, BatchInitializingState, n)"
| failing: "r = InitializingState \<or> r = RollingInBatchesState \<Longrightarrow>
     reconcile_step spec (r, b, n) (RolloutFailingState, BatchInitializingState, n)"
| batch_initialized: "\<not> Paused spec \<Longrightarrow> batch_in_range spec n \<Longrightarrow>
     reconcile_step spec (RollingInBatchesState, BatchInitializingState, n)
       (RollingInBatchesState, BatchInRollingState, n)"
| batch_rolled: "\<not> Paused spec \<Longrightarrow>
     reconcile_step spec (RollingInBatchesState, BatchInRollingState, n)
       (RollingInBatchesState, BatchVerifyingState, n)"
| batch_available: "\<not> Paused spec \<Longrightarrow>
     reconcile_step spec (RollingInBatchesState, BatchVerifyingState, n)
       (RollingInBatchesState, BatchFinalizingState, n)"
| batch_finished: "\<not> Paused spec \<Longrightarrow> batch_in_range spec n \<Longrightarrow>
     sint n < int (length (batches spec)) - 1 \<Longrightarrow>
     reconcile_step spec (RollingInBatchesState, BatchFinalizingState, n)
       (RollingInBatchesState, BatchReadyState, n)"
| all_finished: "\<not> Paused spec \<Longrightarrow> sint n = int (length (batches spec)) - 1 \<Longrightarrow>
     reconcile_step spec (RollingInBatchesState, BatchFinalizingState, n)
       (FinalisingState, BatchReadyState, n)"
| next_batch: "\<not> Paused spec \<Longrightarrow>
     (case BatchPartition spec of None \<Rightarrow> True | Some p \<Rightarrow> sint n < sint p) \<Longrightarrow>
     reconcile_step spec (RollingInBatchesState, BatchReadyState, n)
       (RollingInBatchesState, BatchInitializingState, n + 1)"
| succeeded: "reconcile_step spec (FinalisingState, b, n) (RolloutSucceedState, b, n)"
| failed: "r = RolloutFailingState \<or> r = RolloutDeletingState \<Longrightarrow>
     reconcile_step spec (r, b, n) (RolloutFailedState, b, n)"
| abandoned: "reconcile_step spec (RolloutAbandoningState, b, n)
     (LocatingTargetAppState, BatchInitializingState, 0)"

lemma transition_phase:
  "phase_step ev p q \<Longrightarrow> status_phase c = p \<Longrightarrow> status_phase (transition E ev c) = q"
  using phase_step_deterministic StateTransition_phase_step
  by (metis (mono_tags, lifting) ctl_frame(5) status_phase_def transition_def)

lemma status_phase_failing [simp]:
  "status_phase (failing E m c) =
     (RolloutFailingState, BatchInitializingState, CurrentBatch (rolloutStatus c))"
  by (simp add: status_phase_def failing_def phase_def)

lemma status_phase_failed [simp]:
  "status_phase (failed E m c) =
     (RolloutFailedState, BatchRollingState (rolloutStatus c), CurrentBatch (rolloutStatus c))"
  by (simp add: status_phase_def failed_def phase_def)

lemma status_phase_eq:
  "status_phase c = (r, b, n) \<longleftrightarrow>
     RollingState (rolloutStatus c) = r \<and> BatchRollingState (rolloutStatus c) = b \<and>
     CurrentBatch (rolloutStatus c) = n"
  by (auto simp: status_phase_def phase_def)

lemma call_hooks_phase: "call_hooks W ty ph m hs c = Some (err, c') \<Longrightarrow> status_phase c' = status_phase c"
  by (induction W ty ph m hs c rule: call_hooks.induct)
     (auto split: if_splits option.splits prod.splits)

lemma stable_phase: "stable c c' \<Longrightarrow> status_phase c' = status_phase c"
  by (simp add: stable_def)

lemma transition_verified:
  "status_phase c = (VerifyingSpecState, b, n) \<Longrightarrow>
   status_phase (transition E RollingSpecVerifiedEvent c) = (InitializingState, b, n)"
  by (rule transition_phase [OF phase_step.verified])

lemma transition_initialized:
  "status_phase c = (InitializingState, b, n) \<Longrightarrow>
   status_phase (transition E RollingInitializedEvent c) =
     (RollingInBatchesState, BatchInitializingState, n)"
  by (rule transition_phase [OF phase_step.initialized])

lemma transition_batch:
  "status_phase c = (RollingInBatchesState, BatchInitializingState, n) \<Longrightarrow>
   status_phase (transition E InitializedOneBatchEvent c) = (RollingInBatchesState, BatchInRollingState, n)"
  "status_phase c = (RollingInBatchesState, BatchInRollingState, n) \<Longrightarrow>
   status_phase (transition E RolloutOneBatchEvent c) = (RollingInBatchesState, BatchVerifyingState, n)"
  "status_phase c = (RollingInBatchesState, BatchVerifyingState, n) \<Longrightarrow>
   status_phase (transition E OneBatchAvailableEvent c) = (RollingInBatchesState, BatchFinalizingState, n)"
  "status_phase c = (RollingInBatchesState, BatchFinalizingState, n) \<Longrightarrow>
   status_phase (transition E FinishedOneBatchEvent c) = (RollingInBatchesState, BatchReadyState, n)"
  "status_phase c = (RollingInBatchesState, BatchFinalizingState, n) \<Longrightarrow>
   status_phase (transition E AllBatchFinishedEvent c) = (FinalisingState, BatchReadyState, n)"
  "status_phase c = (RollingInBatchesState, BatchReadyState, n) \<Longrightarrow>
   status_phase (transition E BatchRolloutApprovedEvent c) =
     (RollingInBatchesState, BatchInitializingState, n + 1)"
  by (rule transition_phase, rule phase_step.intros, assumption)+

lemma transition_finalized:
  "status_phase c = (FinalisingState, b, n) \<Longrightarrow>
   status_phase (transition E RollingFinalizedEvent c) = (RolloutSucceedState, b, n)"
  "status_phase c = (RolloutFailingState, b, n) \<Longrightarrow>
   status_phase (transition E RollingFinalizedEvent c) = (RolloutFailedState, b, n)"
  "status_phase c = (RolloutDeletingState, b, n) \<Longrightarrow>
   status_phase (transition E RollingFinalizedEvent c) = (RolloutFailedState, b, n)"
  "status_phase c = (RolloutAbandoningState, b, n) \<Longrightarrow>
   status_phase (transition E RollingFinalizedEvent c) =
     (LocatingTargetAppState, BatchInitializingState, 0)"
  unfolding RollingFinalizedEvent_def
  by (auto intro: transition_phase [OF phase_step.succeeded] transition_phase [OF phase_step.failed]
      transition_phase [OF phase_step.abandon_reset])

lemmas transition_phases = transition_verified transition_initialized transition_batch transition_finalized

text \<open>Each part of a reconcile, as steps of the abstract controller.\<close>

lemma batch_at_in_rangeD: "batch_at spec i = Some rb \<Longrightarrow> batch_in_range spec i"
  by (auto simp: batch_at_def batch_in_range_def split: if_splits)

lemma gatherAllWebhooks_in_range:
  "gatherAllWebhooks W s = Some hs \<Longrightarrow> batch_in_range (rolloutSpec W) (CurrentBatch s)"
  by (auto simp: gatherAllWebhooks_def bind_eq_Some_conv dest: batch_at_in_rangeD)

lemma phase_CurrentBatch: "status_phase c = (r, b, n) \<Longrightarrow> CurrentBatch (rolloutStatus c) = n"
  by (simp add: status_phase_eq)

lemma initializeOneBatch_step:
  assumes "initializeOneBatch W c = Some c'"
    and "status_phase c = (RollingInBatchesState, BatchInitializingState, n)" "\<not> Paused (rolloutSpec W)"
  shows "reconcile_step (rolloutSpec W) (status_phase c) (status_phase c')"
  using assms
  by (auto simp: initializeOneBatch_def bind_eq_Some_conv transition_phases phase_CurrentBatch
      split: if_splits dest!: call_hooks_phase gatherAllWebhooks_in_range
      intro: reconcile_step.intros)

lemma finalizeOneBatch_step:
  assumes "finalizeOneBatch W c = Some c'"
    and "status_phase c = (RollingInBatchesState, BatchFinalizingState, n)" "\<not> Paused (rolloutSpec W)"
  shows "reconcile_step (rolloutSpec W) (status_phase c) (status_phase c')"
proof -
  from assms(1) obtain hs err c1 where hooks: "gatherAllWebhooks W (rolloutStatus c) = Some hs"
    "call_hooks W PostBatchRolloutHook (batch_rolling_state_str BatchFinalizingState)
       ''failed to invoke a webhook'' hs c = Some (err, c1)"
    by (auto simp: finalizeOneBatch_def bind_eq_Some_conv)
  have range: "batch_in_range (rolloutSpec W) n"
    using gatherAllWebhooks_in_range [OF hooks(1)] assms(2) by (simp add: phase_CurrentBatch)
  have phase: "status_phase c1 = (RollingInBatchesState, BatchFinalizingState, n)"
    using call_hooks_phase [OF hooks(2)] assms(2) by simp
  have before_last: "sint n \<noteq> int (length (batches (rolloutSpec W))) - 1 \<Longrightarrow>
      sint n < int (length (batches (rolloutSpec W))) - 1"
    using range by (simp add: batch_in_range_def)
  show ?thesis
  proof (cases "err = None")
    case True
    then show ?thesis
      using assms hooks phase
        reconcile_step.all_finished [of "rolloutSpec W" n]
        reconcile_step.batch_finished [OF assms(3) range before_last]
      by (auto simp: finalizeOneBatch_def bind_eq_Some_conv Let_def transition_phases
          phase_CurrentBatch split: if_splits)
  next
    case False
    then show ?thesis
      using assms hooks phase
      by (auto simp: finalizeOneBatch_def bind_eq_Some_conv intro: reconcile_step.stay)
  qed
qed

lemma finalizeRollout_step:
  assumes "finalizeRollout W c = Some c'" and "status_phase c = (r, b, n)"
    and "r \<in> {FinalisingState, RolloutFailingState, RolloutDeletingState, RolloutAbandoningState}"
  shows "reconcile_step (rolloutSpec W) (status_phase c) (status_phase c')"
  using assms
  by (auto simp: finalizeRollout_def bind_eq_Some_conv transition_phases
      split: if_splits dest!: call_hooks_phase intro: reconcile_step.intros)

lemma tryMovingToNextBatch_step:
  assumes "status_phase c = (RollingInBatchesState, BatchReadyState, n)" "\<not> Paused (rolloutSpec W)"
  shows "reconcile_step (rolloutSpec W) (status_phase c) (status_phase (tryMovingToNextBatch W c))"
  using assms
  by (auto simp: tryMovingToNextBatch_def transition_phases phase_CurrentBatch
      intro!: reconcile_step.intros split: option.splits)

lemma after_method_step:
  assumes "after_method E v step c = Some c'" and "status_phase c = (r, b, n)"
    and "r = InitializingState \<or> r = RollingInBatchesState"
    and "\<And>c'. step c = Some c' \<Longrightarrow> reconcile_step spec (r, b, n) (status_phase c')"
  shows "reconcile_step spec (r, b, n) (status_phase c')"
  using assms
  by (auto simp: after_method_def phase_CurrentBatch intro: reconcile_step.intros
      split: option.splits if_splits)

locale verifying_contract = workload_contract M pre
  for M :: "'w workload_controller" and pre :: "'w ctl \<Rightarrow> bool" +
  fixes spec :: rollout_plan
  assumes VerifySpec_batches: "VerifySpec M c = Some ((True, None), c') \<Longrightarrow> batches spec \<noteq> []"
begin

lemma reconcileBatchInRolling_step:
  assumes rec: "reconcileBatchInRolling W M c = Some c'" and spec: "rolloutSpec W = spec"
    and rolling: "RollingState (rolloutStatus c) = RollingInBatchesState"
  shows "reconcile_step spec (status_phase c) (status_phase c')"
proof (cases "Paused spec")
  case True
  then have "status_phase c' = status_phase c"
    using rec spec by (auto simp: reconcileBatchInRolling_def status_phase_def Let_def)
  then show ?thesis by (simp add: reconcile_step.stay)
next
  case False
  define n where "n = CurrentBatch (rolloutStatus c)"
  have phase: "status_phase c = (RollingInBatchesState, BatchRollingState (rolloutStatus c), n)"
    using rolling by (simp add: status_phase_eq n_def)
  show ?thesis
  proof (cases "BatchRollingState (rolloutStatus c)")
    case BatchInitializingState
    then show ?thesis
      using initializeOneBatch_step [of W c c' n] rec phase False spec
      by (simp add: reconcileBatchInRolling_def)
  next
    case BatchInRollingState
    then obtain v c1 where m: "RolloutOneBatchPods M c = Some (v, c1)" and
      after: "after_method (clientEnv W) v
         (\<lambda>c. Some (transition (clientEnv W) RolloutOneBatchEvent c)) c1 = Some c'"
      using rec False spec by (auto simp: reconcileBatchInRolling_def Let_def bind_eq_Some_conv)
    have "status_phase c1 = (RollingInBatchesState, BatchInRollingState, n)"
      using RolloutOneBatchPods_stable [OF m] phase BatchInRollingState by (simp add: stable_phase)
    from after_method_step [OF after this] show ?thesis
      using phase BatchInRollingState False \<open>status_phase c1 = _\<close>
      by (simp add: transition_phases reconcile_step.batch_rolled)
  next
    case BatchVerifyingState
    then obtain v c1 where m: "CheckOneBatchPods M c = Some (v, c1)" and
      after: "after_method (clientEnv W) v
         (\<lambda>c. Some (transition (clientEnv W) OneBatchAvailableEvent c)) c1 = Some c'"
      using rec False spec by (auto simp: reconcileBatchInRolling_def Let_def bind_eq_Some_conv)
    have "status_phase c1 = (RollingInBatchesState, BatchVerifyingState, n)"
      using CheckOneBatchPods_stable [OF m] phase BatchVerifyingState by (simp add: stable_phase)
    from after_method_step [OF after this] show ?thesis
      using phase BatchVerifyingState False \<open>status_phase c1 = _\<close>
      by (simp add: transition_phases reconcile_step.batch_available)
  next
    case BatchFinalizingState
    then obtain v c1 where m: "FinalizeOneBatch M c = Some (v, c1)" and
      after: "after_method (clientEnv W) v (finalizeOneBatch W) c1 = Some c'"
      using rec False spec by (auto simp: reconcileBatchInRolling_def Let_def bind_eq_Some_conv)
    have p1: "status_phase c1 = (RollingInBatchesState, BatchFinalizingState, n)"
      using FinalizeOneBatch_stable [OF m] phase BatchFinalizingState by (simp add: stable_phase)
    from after_method_step [OF after this, of spec] show ?thesis
      using phase BatchFinalizingState False finalizeOneBatch_step [OF _ p1] spec p1 by auto
  next
    case BatchReadyState
    then show ?thesis
      using tryMovingToNextBatch_step [of c n W] rec phase False spec
      by (auto simp: reconcileBatchInRolling_def)
  qed (use rec False spec in \<open>simp_all add: reconcileBatchInRolling_def\<close>)
qed

lemma finalizing_step:
  assumes "(Finalize M b c \<bind> (\<lambda>(succeed, c). if succeed then finalizeRollout W c else Some c)) = Some c'"
    and "rolloutSpec W = spec" and "RollingState (rolloutStatus c) \<in>
      {FinalisingState, RolloutFailingState, RolloutDeletingState, RolloutAbandoningState}"
  shows "reconcile_step spec (status_phase c) (status_phase c')"
proof -
  from assms(1) obtain ok c1 where m: "Finalize M b c = Some (ok, c1)"
    and c': "(if ok then finalizeRollout W c1 else Some c1) = Some c'"
    by (auto simp: bind_eq_Some_conv)
  have same: "status_phase c1 = status_phase c"
    using Finalize_stable [OF m] by (rule stable_phase)
  show ?thesis
  proof (cases ok)
    case True
    have "status_phase c1 = (RollingState (rolloutStatus c), BatchRollingState (rolloutStatus c),
            CurrentBatch (rolloutStatus c))"
      using same by (simp add: status_phase_def phase_def)
    from finalizeRollout_step [OF _ this assms(3)] c' True show ?thesis
      using assms(2) same by auto
  next
    case False
    then show ?thesis using c' same by (auto intro: reconcile_step.stay)
  qed
qed

end

section \<open>The invariant, and why no reconcile panics\<close>

text \<open>
  The phases of a rollout whose plan does not change: the shape of reachable phases, batch 0 until
  the rolling starts, a plan with batches from the end of the verification on, and a current
  batch that exists while rolling, with one more after it when it is ready.
\<close>

definition plan_inv :: "rollout_plan \<Rightarrow> phase \<Rightarrow> bool" where
  "plan_inv spec p =
     (case p of (r, b, n) \<Rightarrow>
        phase_ok p \<and>
        (r \<in> {LocatingTargetAppState, VerifyingSpecState, InitializingState} \<longrightarrow> n = 0) \<and>
        (r = InitializingState \<longrightarrow> batches spec \<noteq> []) \<and>
        (r = RollingInBatchesState \<longrightarrow> batch_in_range spec n \<and>
           (b = BatchReadyState \<longrightarrow> sint n < int (length (batches spec)) - 1)))"

lemma batch_in_range_0: "batches spec \<noteq> [] \<Longrightarrow> batch_in_range spec 0"
  by (simp add: batch_in_range_def)

lemma sint_succ: "batch_in_range spec n \<Longrightarrow> sint n < 2 ^ 31 - 1 \<Longrightarrow> sint (n + 1) = sint n + 1"
  using sint_int32_add [of n 1] by (simp add: batch_in_range_def in_i32_def)

lemma next_batch_in_range:
  assumes "batch_in_range spec n" "sint n < int (length (batches spec)) - 1"
    and "length (batches spec) < 2 ^ 31"
  shows "batch_in_range spec (n + 1)"
  using assms sint_succ [OF assms(1)] by (auto simp: batch_in_range_def)

lemma reconcile_step_inv:
  assumes "reconcile_step spec p q" and "plan_inv spec p" and "length (batches spec) < 2 ^ 31"
  shows "plan_inv spec q"
  using assms
proof (induction rule: reconcile_step.induct)
  case (next_batch n)
  then have "batch_in_range spec (n + 1)"
    by (intro next_batch_in_range) (auto simp: plan_inv_def)
  then show ?case by (simp add: plan_inv_def)
next
  case (unsupported r b n)
  then show ?case by (auto simp: plan_inv_def split: rolling_state.splits)
qed (auto simp: plan_inv_def batch_in_range_0 split: rolling_state.splits)

lemma call_hooks_returns:
  assumes "retry_returns_last (clientEnv W)"
  shows "\<exists>r. call_hooks W ty ph m hs c = Some r"
proof (induction hs arbitrary: c)
  case (Cons rw rws)
  then show ?case
    using callWebhook_returns [OF assms, of "parentController W" ph rw "world c"]
    by (auto split: option.splits prod.splits)
qed simp

lemma gatherAllWebhooks_returns:
  "batch_in_range (rolloutSpec W) (CurrentBatch s) \<Longrightarrow> \<exists>hs. gatherAllWebhooks W s = Some hs"
  by (simp add: gatherAllWebhooks_def)

lemma initializeOneBatch_returns:
  assumes "retry_returns_last (clientEnv W)"
    and "batch_in_range (rolloutSpec W) (CurrentBatch (rolloutStatus c))"
  shows "initializeOneBatch W c \<noteq> None"
proof -
  obtain hs where hs: "gatherAllWebhooks W (rolloutStatus c) = Some hs"
    using gatherAllWebhooks_returns [OF assms(2)] by blast
  obtain r where "call_hooks W PreBatchRolloutHook (batch_rolling_state_str BatchInitializingState)
      ''failed to invoke a webhook'' hs c = Some r"
    using call_hooks_returns [OF assms(1)] by blast
  then show ?thesis
    by (cases r) (simp add: initializeOneBatch_def hs)
qed

lemma finalizeOneBatch_returns:
  assumes "retry_returns_last (clientEnv W)"
    and "batch_in_range (rolloutSpec W) (CurrentBatch (rolloutStatus c))"
  shows "finalizeOneBatch W c \<noteq> None"
proof -
  obtain hs where hs: "gatherAllWebhooks W (rolloutStatus c) = Some hs"
    using gatherAllWebhooks_returns [OF assms(2)] by blast
  obtain r where "call_hooks W PostBatchRolloutHook (batch_rolling_state_str BatchFinalizingState)
      ''failed to invoke a webhook'' hs c = Some r"
    using call_hooks_returns [OF assms(1)] by blast
  then show ?thesis
    by (cases r) (simp add: finalizeOneBatch_def hs)
qed

lemma finalizeRollout_returns:
  "retry_returns_last (clientEnv W) \<Longrightarrow> finalizeRollout W c \<noteq> None"
  using call_hooks_returns [of W FinalizeRolloutHook "rolling_state_str (RollingState (rolloutStatus c))"
      "''failed to invoke a post rollout webhook''" "RolloutWebhooks (rolloutSpec W)" c]
  by (auto simp: finalizeRollout_def)

context verifying_contract
begin

text \<open>Every reconcile is a step of the abstract controller.\<close>

lemma reconcile_state_step:
  assumes rec: "reconcile_state W M c = Some c'" and spec: "rolloutSpec W = spec"
  shows "reconcile_step spec (status_phase c) (status_phase c')"
proof -
  define b where "b = BatchRollingState (rolloutStatus c)"
  define n where "n = CurrentBatch (rolloutStatus c)"
  have phase: "status_phase c = (RollingState (rolloutStatus c), b, n)"
    by (simp add: status_phase_eq b_def n_def)
  show ?thesis
  proof (cases "RollingState (rolloutStatus c)")
    case VerifyingSpecState
    then obtain v e c1 where m: "VerifySpec M c = Some ((v, e), c1)" and
      c': "c' = (case e of Some x \<Rightarrow> failed (clientEnv W) x c1
             | None \<Rightarrow> if v then transition (clientEnv W) RollingSpecVerifiedEvent c1 else c1)"
      using rec by (auto simp: reconcile_state_def Let_def bind_eq_Some_conv)
    have p1: "status_phase c1 = (VerifyingSpecState, b, n)"
      using VerifySpec_phase [OF m] phase VerifyingSpecState by simp
    then have "BatchRollingState (rolloutStatus c1) = b" "CurrentBatch (rolloutStatus c1) = n"
      by (simp_all add: status_phase_eq)
    then show ?thesis
      using p1 c' phase VerifyingSpecState VerifySpec_batches [of c c1] m
      by (auto simp: transition_phases intro: reconcile_step.intros split: option.splits if_splits)
  next
    case InitializingState
    then obtain err c1 where hooks: "initializeRollout W c = Some (err, c1)"
      using rec by (auto simp: reconcile_state_def Let_def bind_eq_Some_conv)
    have p1: "status_phase c1 = (InitializingState, b, n)"
      using call_hooks_phase [OF hooks [unfolded initializeRollout_def]] phase InitializingState by simp
    show ?thesis
    proof (cases "err = None")
      case False
      then show ?thesis
        using rec hooks InitializingState p1 phase
        by (auto simp: reconcile_state_def Let_def intro: reconcile_step.stay)
    next
      case True
      then obtain v c2 where m: "Initialize M c1 = Some (v, c2)" and
        after: "after_method (clientEnv W) v
          (\<lambda>c. Some (transition (clientEnv W) RollingInitializedEvent c)) c2 = Some c'"
        using rec hooks InitializingState
        by (auto simp: reconcile_state_def Let_def bind_eq_Some_conv)
      have p2: "status_phase c2 = (InitializingState, b, n)"
        using Initialize_stable [OF m] p1 by (simp add: stable_phase)
      from after_method_step [OF after p2] p2 phase InitializingState show ?thesis
        by (simp add: transition_phases reconcile_step.initialized)
    qed
  next
    case RollingInBatchesState
    then show ?thesis
      using rec reconcileBatchInRolling_step [OF _ spec]
      by (auto simp: reconcile_state_def Let_def)
  next
    case FinalisingState
    then show ?thesis
      using rec finalizing_step [OF _ spec, of True c c'] by (simp add: reconcile_state_def Let_def)
  next
    case RolloutFailingState
    then show ?thesis
      using rec finalizing_step [OF _ spec, of False c c'] by (simp add: reconcile_state_def Let_def)
  next
    case RolloutAbandoningState
    then show ?thesis
      using rec finalizing_step [OF _ spec, of False c c'] by (simp add: reconcile_state_def Let_def)
  next
    case RolloutDeletingState
    then show ?thesis
      using rec finalizing_step [OF _ spec, of False c c'] by (simp add: reconcile_state_def Let_def)
  qed (use rec in \<open>simp_all add: reconcile_state_def Let_def reconcile_step.stay\<close>)
qed

lemma reconcileBatchInRolling_returns:
  assumes "retry_returns_last (clientEnv W)" and "rolloutSpec W = spec" and "pre c"
    and inv: "plan_inv spec (status_phase c)" and rolling: "RollingState (rolloutStatus c) = RollingInBatchesState"
  shows "reconcileBatchInRolling W M c \<noteq> None"
proof -
  have range: "batch_in_range (rolloutSpec W) (CurrentBatch (rolloutStatus c))"
    and ok: "phase_ok (status_phase c)"
    using inv rolling assms(2) by (auto simp: plan_inv_def status_phase_def phase_def)
  obtain rb ck fb where m: "RolloutOneBatchPods M c = Some rb" "CheckOneBatchPods M c = Some ck"
    "FinalizeOneBatch M c = Some fb"
    using RolloutOneBatchPods_returns CheckOneBatchPods_returns FinalizeOneBatch_returns \<open>pre c\<close> by blast
  have "CurrentBatch (rolloutStatus (snd fb)) = CurrentBatch (rolloutStatus c)"
    using FinalizeOneBatch_stable [of c "fst fb" "snd fb"] m(3) by (simp add: stable_CurrentBatch)
  then have fin: "finalizeOneBatch W (snd fb) \<noteq> None"
    using range by (intro finalizeOneBatch_returns [OF assms(1)]) simp
  from ok rolling have "BatchRollingState (rolloutStatus c) \<in> {BatchInitializingState,
      BatchInRollingState, BatchVerifyingState, BatchFinalizingState, BatchReadyState}"
    by (simp add: status_phase_def phase_def)
  then show ?thesis
    using m fin initializeOneBatch_returns [OF assms(1) range]
    by (auto simp: reconcileBatchInRolling_def Let_def after_method_def split: prod.splits option.splits)
qed

lemma reconcile_state_returns:
  assumes "retry_returns_last (clientEnv W)" and "rolloutSpec W = spec"
    and pre: "RollingState (rolloutStatus c) = RollingInBatchesState \<Longrightarrow> pre c"
    and inv: "plan_inv spec (status_phase c)"
    and located: "RollingState (rolloutStatus c) \<noteq> LocatingTargetAppState"
  shows "reconcile_state W M c \<noteq> None"
proof -
  have ok: "phase_ok (status_phase c)"
    using inv by (auto simp: plan_inv_def split: prod.splits)
  obtain vs where vs: "VerifySpec M c = Some vs"
    using VerifySpec_returns by blast
  obtain ir where ir: "initializeRollout W c = Some ir"
    using call_hooks_returns [OF assms(1)] unfolding initializeRollout_def by blast
  obtain ini where ini: "Initialize M (snd ir) = Some ini"
    using Initialize_returns by blast
  obtain f1 f2 where fin: "Finalize M True c = Some f1" "Finalize M False c = Some f2"
    using Finalize_returns by blast
  note final = finalizeRollout_returns [OF assms(1)]
  show ?thesis
    using located ok reconcileBatchInRolling_returns [OF assms(1,2) pre inv] vs ir ini fin final
    by (cases "RollingState (rolloutStatus c)")
       (auto simp: reconcile_state_def Let_def after_method_def status_phase_def phase_def
         split: prod.splits option.splits)
qed

end

section \<open>The four controllers behind the plan controller\<close>

lemma verify_rollout_batches: "verifyBatchesWithRollout gv spec n = None \<Longrightarrow> batches spec \<noteq> []"
  by (auto simp: verifyBatchesWithRollout_def)

lemma verify_scale_batches: "verifyBatchesWithScale gv spec a t = None \<Longrightarrow> batches spec \<noteq> []"
  by (auto simp: verifyBatchesWithScale_def)

lemmas verify_batches = verify_rollout_batches verify_scale_batches

lemma VerifySpec_has_batches:
  "csr_VerifySpec W name c1 = ((True, None), c') \<Longrightarrow> batches (rolloutSpec W) \<noteq> []"
  "css_VerifySpec W name c2 = ((True, None), d') \<Longrightarrow> batches (rolloutSpec W) \<noteq> []"
  "dpr_VerifySpec W names c3 = ((True, None), e') \<Longrightarrow> batches (rolloutSpec W) \<noteq> []"
  "dps_VerifySpec W name c4 = ((True, None), f') \<Longrightarrow> batches (rolloutSpec W) \<noteq> []"
  by (auto simp: csr_VerifySpec_def csr_verifyRolloutBatchReplicaValue_def css_VerifySpec_def
      dpr_VerifySpec_def dpr_verifyRolloutBatchReplicaValue_def dps_VerifySpec_def Let_def
      split: prod.splits sum.splits option.splits if_splits dest: verify_batches)

lemma forgetD: "forget r = (v, c') \<Longrightarrow> \<exists>d. r = (v, d)"
  by (cases r) simp

interpretation csr: verifying_contract "csr_controller W name"
  "\<lambda>c. batch_in_range (rolloutSpec W) (CurrentBatch (rolloutStatus c))" "rolloutSpec W" for W name
  by unfold_locales
     (auto simp: csr_controller_def dest!: forgetD dest: VerifySpec_has_batches(1))

interpretation css: verifying_contract "css_controller W name"
  "\<lambda>c. batch_in_range (rolloutSpec W) (CurrentBatch (rolloutStatus c))" "rolloutSpec W" for W name
  by unfold_locales
     (auto simp: css_controller_def dest!: forgetD dest: VerifySpec_has_batches(2))

interpretation dpr: verifying_contract "dpr_controller W names"
  "\<lambda>c. batch_in_range (rolloutSpec W) (CurrentBatch (rolloutStatus c)) \<and>
       replicas_defaulted (clientEnv W)" "rolloutSpec W" for W names
  by unfold_locales
     (auto simp: dpr_controller_def dest!: forgetD dest: VerifySpec_has_batches(3))

interpretation dps: verifying_contract "dps_controller W name"
  "\<lambda>c. batch_in_range (rolloutSpec W) (CurrentBatch (rolloutStatus c))" "rolloutSpec W" for W name
  by unfold_locales
     (auto simp: dps_controller_def dest!: forgetD dest: VerifySpec_has_batches(4))

lemma GetWorkloadController_one_of:
  "GetWorkloadController r = Inr M \<Longrightarrow>
     (\<exists>name. M = csr_controller (planClient r) name) \<or>
     (\<exists>name. M = css_controller (planClient r) name) \<or>
     (\<exists>names. M = dpr_controller (planClient r) names) \<or>
     (\<exists>name. M = dps_controller (planClient r) name)"
  unfolding GetWorkloadController_def Let_def by (metis Inl_Inr_False sum.inject(2))

lemma GetWorkloadController_cases:
  assumes "GetWorkloadController r = Inr M"
  obtains (csr) name where "M = csr_controller (planClient r) name"
  | (css) name where "M = css_controller (planClient r) name"
  | (dpr) names where "M = dpr_controller (planClient r) names"
  | (dps) name where "M = dps_controller (planClient r) name"
  using GetWorkloadController_one_of [OF assms] by blast

lemma plan_Reconcile_step:
  assumes "plan_Reconcile r c = Some (t, c')"
  shows "reconcile_step (rolloutSpec (planClient r)) (status_phase c) (status_phase c')"
proof (cases "GetWorkloadController r")
  case (Inl err)
  have "status_phase c = (RollingState (rolloutStatus c), BatchRollingState (rolloutStatus c),
          CurrentBatch (rolloutStatus c))" by (simp add: status_phase_def phase_def)
  then show ?thesis
    using assms Inl reconcile_step.unsupported by (auto simp: plan_Reconcile_def)
next
  case (Inr M)
  then have step: "reconcile_state (planClient r) M c = Some c'"
    using assms by (auto simp: plan_Reconcile_def)
  from Inr show ?thesis
    using step csr.reconcile_state_step css.reconcile_state_step dpr.reconcile_state_step
      dps.reconcile_state_step
    by (cases rule: GetWorkloadController_cases) blast+
qed

lemma plan_Reconcile_Some:
  assumes retry: "retry_returns_last (clientEnv (planClient r))"
    and defaulted: "replicas_defaulted (clientEnv (planClient r))"
    and inv: "plan_inv (rolloutSpec (planClient r)) (status_phase c)"
    and located: "RollingState (rolloutStatus c) \<noteq> LocatingTargetAppState"
  shows "\<exists>t c'. plan_Reconcile r c = Some (t, c')"
proof (cases "GetWorkloadController r")
  case (Inr M)
  have range: "RollingState (rolloutStatus c) = RollingInBatchesState \<Longrightarrow>
      batch_in_range (rolloutSpec (planClient r)) (CurrentBatch (rolloutStatus c))"
    using inv by (auto simp: plan_inv_def status_phase_def phase_def)
  from Inr have "reconcile_state (planClient r) M c \<noteq> None"
  proof (cases rule: GetWorkloadController_cases)
    case (csr name)
    then show ?thesis using csr.reconcile_state_returns [OF retry refl range inv located] by simp
  next
    case (css name)
    then show ?thesis using css.reconcile_state_returns [OF retry refl range inv located] by simp
  next
    case (dpr names)
    then show ?thesis
      using dpr.reconcile_state_returns [OF retry refl _ inv located] range defaulted by blast
  next
    case (dps name)
    then show ?thesis using dps.reconcile_state_returns [OF retry refl range inv located] by simp
  qed
  then show ?thesis using Inr by (auto simp: plan_Reconcile_def)
qed (simp add: plan_Reconcile_def)

section \<open>Correctness of the plan controller\<close>

text \<open>
  C1: Reconcile implements the abstract plan controller for every kind of workload: whatever the
  API server, the webhooks and the clock do, a reconcile that returns makes at most one move of
  the abstract step relation, which has no illegal transition, and it asks to be called again
  after five seconds exactly when the rollout has not ended.
\<close>

theorem plan_Reconcile_refines:
  assumes "plan_Reconcile r c = Some (t, c')"
  shows "reconcile_step (rolloutSpec (planClient r)) (status_phase c) (status_phase c') \<and>
         t = (if terminal (RollingState (rolloutStatus c')) then 0 else 5)"
  using plan_Reconcile_step [OF assms] assms
  by (auto simp: plan_Reconcile_def terminal_def rolloutReconcileRequeueTime_def)

text \<open>
  C2: No reconcile panics, and the invariant that makes it so is kept: in a status whose current
  batch exists while it is rolling, and that has left the state that the application controller
  handles, Reconcile returns, and the status it leaves satisfies the invariant again.
\<close>

theorem plan_Reconcile_never_panics:
  assumes "retry_returns_last (clientEnv (planClient r))"
    and "replicas_defaulted (clientEnv (planClient r))"
    and "length (batches (rolloutSpec (planClient r))) < 2 ^ 31"
    and "plan_inv (rolloutSpec (planClient r)) (status_phase c)"
    and "RollingState (rolloutStatus c) \<noteq> LocatingTargetAppState"
  shows "\<exists>t c'. plan_Reconcile r c = Some (t, c') \<and>
                plan_inv (rolloutSpec (planClient r)) (status_phase c')"
  using plan_Reconcile_Some [OF assms(1,2,4,5)] plan_Reconcile_step reconcile_step_inv assms(3,4)
  by blast

lemma reconcile_step_partition:
  assumes "reconcile_step spec (r, b, n) (r', b', n')" and "BatchPartition spec = Some p"
    and "sint n \<le> sint p" "0 \<le> sint p"
  shows "sint n' \<le> sint p"
  using assms
proof (cases rule: reconcile_step.cases)
  case next_batch
  have "- (2 ^ 31) \<le> sint n" "sint n < 2 ^ 31 - 1"
    using next_batch assms(2) sint_in_i32 [of p] sint_in_i32 [of n] by (simp_all add: in_i32_def)
  then have "sint (n + 1) = sint n + 1" using sint_int32_add [of n 1] by (simp add: in_i32_def)
  then show ?thesis using next_batch assms(2) by simp
qed simp_all

text \<open>
  C9: A batch partition that is not negative holds the rollout back in every state: a rollout that has not passed the
  partition never does, so that no more than the batches up to the partition are ever rolled out.  A plan
  that is paused while its batches are rolled changes neither its phase nor the cluster.  The pause holds
  only there: a paused plan is still verified and initialised up to the start of a batch, in no state does it
  come to another batch, except that an abandoned rollout starts over at the first one.
\<close>

theorem plan_Reconcile_respects_partition:
  assumes "plan_Reconcile r c = Some (t, c')"
  shows "(\<forall>p. BatchPartition (rolloutSpec (planClient r)) = Some p \<longrightarrow> 0 \<le> sint p \<longrightarrow>
            sint (CurrentBatch (rolloutStatus c)) \<le> sint p \<longrightarrow>
            sint (CurrentBatch (rolloutStatus c')) \<le> sint p) \<and>
         (Paused (rolloutSpec (planClient r)) \<longrightarrow>
            (RollingState (rolloutStatus c) = RollingInBatchesState \<longrightarrow> (\<exists>M. GetWorkloadController r = Inr M) \<longrightarrow>
               status_phase c' = status_phase c \<and> world c' = world c) \<and>
            (CurrentBatch (rolloutStatus c') = CurrentBatch (rolloutStatus c) \<or>
               RollingState (rolloutStatus c) = RolloutAbandoningState \<and> CurrentBatch (rolloutStatus c') = 0))"
proof -
  let ?spec = "rolloutSpec (planClient r)"
  have step: "reconcile_step ?spec
      (RollingState (rolloutStatus c), BatchRollingState (rolloutStatus c), CurrentBatch (rolloutStatus c))
      (RollingState (rolloutStatus c'), BatchRollingState (rolloutStatus c'), CurrentBatch (rolloutStatus c'))"
    using plan_Reconcile_step [OF assms] by (simp add: status_phase_def phase_def)
  have "status_phase c' = status_phase c \<and> world c' = world c"
    if "Paused ?spec" "RollingState (rolloutStatus c) = RollingInBatchesState" "GetWorkloadController r = Inr M" for M
    using assms that by (auto simp: plan_Reconcile_def reconcile_state_def reconcileBatchInRolling_def
        Let_def status_phase_def)
  moreover have "CurrentBatch (rolloutStatus c') = CurrentBatch (rolloutStatus c) \<or>
      RollingState (rolloutStatus c) = RolloutAbandoningState \<and> CurrentBatch (rolloutStatus c') = 0" if "Paused ?spec"
    using step that by (cases rule: reconcile_step.cases) simp_all
  ultimately show ?thesis using reconcile_step_partition [OF step] by blast
qed

section \<open>A rollout makes progress\<close>

text \<open>
  How far a phase is from the end of the rollout.  Only a move out of a terminal or an abandoned
  rollout, which reconciling does not make, raises it.
\<close>

fun batch_rank :: "batch_rolling_state \<Rightarrow> nat" where
  "batch_rank BatchInitializingState = 5"
| "batch_rank BatchInRollingState = 4"
| "batch_rank BatchVerifyingState = 3"
| "batch_rank BatchFinalizingState = 2"
| "batch_rank _ = 1"

definition rank :: "rollout_plan \<Rightarrow> phase \<Rightarrow> nat" where
  "rank spec p =
     (case p of (r, b, n) \<Rightarrow>
        (case r of
           VerifyingSpecState \<Rightarrow> 5 * length (batches spec) + 5
         | InitializingState \<Rightarrow> 5 * length (batches spec) + 4
         | RollingInBatchesState \<Rightarrow> 5 * nat (int (length (batches spec)) - 1 - sint n) + batch_rank b + 3
         | FinalisingState \<Rightarrow> 2
         | RolloutFailingState \<Rightarrow> 2
         | RolloutAbandoningState \<Rightarrow> 2
         | RolloutDeletingState \<Rightarrow> 2
         | LocatingTargetAppState \<Rightarrow> 1
         | RolloutSucceedState \<Rightarrow> 1
         | _ \<Rightarrow> 0))"

lemma reconcile_step_rank:
  assumes "reconcile_step spec p q" and "plan_inv spec p" and "length (batches spec) < 2 ^ 31"
  shows "q = p \<or> rank spec q < rank spec p"
  using assms
proof (cases rule: reconcile_step.cases)
  case (unsupported r b n)
  then show ?thesis
    using assms by (cases r) (auto simp: rank_def plan_inv_def)
next
  case (initialized b n)
  then have "n = 0" "0 < length (batches spec)"
    using assms by (auto simp: plan_inv_def)
  then show ?thesis
    using initialized by (cases "batches spec") (simp_all add: rank_def)
next
  case (next_batch n)
  then have n: "batch_in_range spec n" "sint n < int (length (batches spec)) - 1"
    using assms by (auto simp: plan_inv_def)
  have "sint n < 2 ^ 31 - 1"
    using n(2) assms(3) by simp
  then show ?thesis
    using next_batch n sint_succ [OF n(1)] by (auto simp: rank_def)
qed (auto simp: rank_def)

text \<open>A run of reconciles of one rollout.\<close>

inductive plan_run :: "'w plan_controller \<Rightarrow> nat \<Rightarrow> 'w ctl \<Rightarrow> 'w ctl \<Rightarrow> bool" for r where
  start: "plan_run r 0 c c"
| same: "plan_run r k c d \<Longrightarrow> plan_Reconcile r d = Some (t, e) \<Longrightarrow>
     status_phase e = status_phase d \<Longrightarrow> plan_run r k c e"
| moved: "plan_run r k c d \<Longrightarrow> plan_Reconcile r d = Some (t, e) \<Longrightarrow>
     status_phase e \<noteq> status_phase d \<Longrightarrow> plan_run r (Suc k) c e"

lemma plan_run_rank:
  assumes "plan_run r k c d" and "plan_inv (rolloutSpec (planClient r)) (status_phase c)"
    and "length (batches (rolloutSpec (planClient r))) < 2 ^ 31"
  shows "plan_inv (rolloutSpec (planClient r)) (status_phase d) \<and>
         k + rank (rolloutSpec (planClient r)) (status_phase d) \<le>
           rank (rolloutSpec (planClient r)) (status_phase c)"
  using assms
proof (induction rule: plan_run.induct)
  case (moved k c d t e)
  note step = plan_Reconcile_step [OF moved.hyps(2)]
  from moved reconcile_step_inv [OF step] reconcile_step_rank [OF step] show ?case by force
qed auto

lemma rank_bound: "plan_inv spec p \<Longrightarrow> rank spec p \<le> 5 * length (batches spec) + 5"
proof -
  assume inv: "plan_inv spec p"
  obtain r b n where p: "p = (r, b, n)" by (cases p)
  have b: "batch_rank b \<le> 5" by (cases b) simp_all
  have "r = RollingInBatchesState \<Longrightarrow>
      5 * nat (int (length (batches spec)) - 1 - sint n) + 5 \<le> 5 * length (batches spec)"
    using inv p by (auto simp: plan_inv_def batch_in_range_def)
  with b show ?thesis
    by (cases r) (auto simp: rank_def p)
qed

text \<open>
  C5: A rollout can not go round in circles: in any run of reconciles, with any answers of the
  cluster, the phase changes at most five times for each batch and five times more.
\<close>

theorem plan_run_bounded:
  assumes "plan_run r k c d" and "plan_inv (rolloutSpec (planClient r)) (status_phase c)"
    and "length (batches (rolloutSpec (planClient r))) < 2 ^ 31"
  shows "k \<le> 5 * length (batches (rolloutSpec (planClient r))) + 5"
  using plan_run_rank [OF assms] rank_bound [OF assms(2)] by simp

section \<open>A rollout that nothing holds back succeeds\<close>

text \<open>
  What it takes for one reconcile to go on: the hooks succeed, the method that the phase calls
  answers true, and neither pause nor partition stops the batch.
\<close>

definition goes_on :: "'w workload_ctl \<Rightarrow> 'w workload_controller \<Rightarrow> 'w ctl \<Rightarrow> bool" where
  "goes_on W M c \<longleftrightarrow>
     (let hooks = (\<lambda>ty ph m hs c c1. call_hooks W ty ph m hs c = Some (None, c1));
          all = RolloutWebhooks (rolloutSpec W) in
      case RollingState (rolloutStatus c) of
        VerifyingSpecState \<Rightarrow> (\<exists>c1. VerifySpec M c = Some ((True, None), c1))
      | InitializingState \<Rightarrow>
          (\<exists>c1 c2. initializeRollout W c = Some (None, c1) \<and> Initialize M c1 = Some ((True, None), c2))
      | RollingInBatchesState \<Rightarrow>
          \<not> Paused (rolloutSpec W) \<and>
          (case BatchRollingState (rolloutStatus c) of
             BatchInitializingState \<Rightarrow>
               (\<exists>hs c1. gatherAllWebhooks W (rolloutStatus c) = Some hs \<and>
                  hooks PreBatchRolloutHook (batch_rolling_state_str BatchInitializingState)
                    ''failed to invoke a webhook'' hs c c1)
           | BatchInRollingState \<Rightarrow> (\<exists>c1. RolloutOneBatchPods M c = Some ((True, None), c1))
           | BatchVerifyingState \<Rightarrow> (\<exists>c1. CheckOneBatchPods M c = Some ((True, None), c1))
           | BatchFinalizingState \<Rightarrow>
               (\<exists>hs c1 c2. FinalizeOneBatch M c = Some ((True, None), c1) \<and>
                  gatherAllWebhooks W (rolloutStatus c1) = Some hs \<and>
                  hooks PostBatchRolloutHook (batch_rolling_state_str BatchFinalizingState)
                    ''failed to invoke a webhook'' hs c1 c2)
           | _ \<Rightarrow> (case BatchPartition (rolloutSpec W) of None \<Rightarrow> True
                 | Some p \<Rightarrow> sint p > sint (CurrentBatch (rolloutStatus c))))
      | FinalisingState \<Rightarrow>
          (\<exists>c1 c2. Finalize M True c = Some (True, c1) \<and>
             hooks FinalizeRolloutHook (rolling_state_str (RollingState (rolloutStatus c1)))
               ''failed to invoke a post rollout webhook'' all c1 c2)
      | _ \<Rightarrow> True)"

text \<open>The states of a rollout that goes well.\<close>

definition on_course :: "rolling_state \<Rightarrow> bool" where
  "on_course r \<longleftrightarrow> r \<in> {VerifyingSpecState, InitializingState, RollingInBatchesState, FinalisingState}"

lemma progressI:
  "X = Some c' \<Longrightarrow> status_phase c' = (r, b, n) \<Longrightarrow> (r, b, n) \<noteq> p \<Longrightarrow>
   on_course r \<or> r = RolloutSucceedState \<Longrightarrow>
   \<exists>c'. X = Some c' \<and> status_phase c' \<noteq> p \<and>
     (on_course (RollingState (rolloutStatus c')) \<or> RollingState (rolloutStatus c') = RolloutSucceedState)"
  using status_phase_eq [of c' r b n] by auto

context verifying_contract
begin

lemma batch_goes_on:
  assumes go: "goes_on W M c" and "RollingState (rolloutStatus c) = RollingInBatchesState"
    and "phase_ok (status_phase c)"
  shows "\<exists>c'. reconcileBatchInRolling W M c = Some c' \<and> status_phase c' \<noteq> status_phase c \<and>
     (on_course (RollingState (rolloutStatus c')) \<or> RollingState (rolloutStatus c') = RolloutSucceedState)"
proof -
  let ?E = "clientEnv W"
  define n where "n = CurrentBatch (rolloutStatus c)"
  have phase: "status_phase c = (RollingInBatchesState, BatchRollingState (rolloutStatus c), n)"
    using assms(2) by (simp add: status_phase_eq n_def)
  have unpaused: "\<not> Paused (rolloutSpec W)"
    using go assms(2) by (simp add: goes_on_def Let_def)
  show ?thesis
  proof (cases "BatchRollingState (rolloutStatus c)")
    case BatchInitializingState
    then obtain hs c1 where hs: "gatherAllWebhooks W (rolloutStatus c) = Some hs" and
      hooks: "call_hooks W PreBatchRolloutHook (batch_rolling_state_str BatchInitializingState)
        ''failed to invoke a webhook'' hs c = Some (None, c1)"
      using go assms(2) by (auto simp: goes_on_def Let_def)
    have "status_phase c1 = (RollingInBatchesState, BatchInitializingState, n)"
      using call_hooks_phase [OF hooks] phase BatchInitializingState by simp
    then show ?thesis
      using hs hooks unpaused BatchInitializingState phase
      by (intro progressI [of _ "transition ?E InitializedOneBatchEvent c1", OF _ transition_batch(1)])
         (auto simp: reconcileBatchInRolling_def initializeOneBatch_def on_course_def)
  next
    case BatchInRollingState
    then obtain c1 where m: "RolloutOneBatchPods M c = Some ((True, None), c1)"
      using go assms(2) by (auto simp: goes_on_def Let_def)
    have "status_phase c1 = (RollingInBatchesState, BatchInRollingState, n)"
      using RolloutOneBatchPods_stable [OF m] phase BatchInRollingState by (simp add: stable_phase)
    then show ?thesis
      using m unpaused BatchInRollingState phase
      by (intro progressI [of _ "transition ?E RolloutOneBatchEvent c1", OF _ transition_batch(2)])
         (auto simp: reconcileBatchInRolling_def after_method_def on_course_def)
  next
    case BatchVerifyingState
    then obtain c1 where m: "CheckOneBatchPods M c = Some ((True, None), c1)"
      using go assms(2) by (auto simp: goes_on_def Let_def)
    have "status_phase c1 = (RollingInBatchesState, BatchVerifyingState, n)"
      using CheckOneBatchPods_stable [OF m] phase BatchVerifyingState by (simp add: stable_phase)
    then show ?thesis
      using m unpaused BatchVerifyingState phase
      by (intro progressI [of _ "transition ?E OneBatchAvailableEvent c1", OF _ transition_batch(3)])
         (auto simp: reconcileBatchInRolling_def after_method_def on_course_def)
  next
    case BatchFinalizingState
    then obtain hs c1 c2 where m: "FinalizeOneBatch M c = Some ((True, None), c1)"
      and hs: "gatherAllWebhooks W (rolloutStatus c1) = Some hs" and
      hooks: "call_hooks W PostBatchRolloutHook (batch_rolling_state_str BatchFinalizingState)
        ''failed to invoke a webhook'' hs c1 = Some (None, c2)"
      using go assms(2) by (auto simp: goes_on_def Let_def)
    have p2: "status_phase c2 = (RollingInBatchesState, BatchFinalizingState, n)"
      using call_hooks_phase [OF hooks] FinalizeOneBatch_stable [OF m] phase BatchFinalizingState
      by (simp add: stable_phase)
    obtain c' where fin: "finalizeOneBatch W c1 = Some c'"
      and c': "status_phase c' = (FinalisingState, BatchReadyState, n) \<or>
               status_phase c' = (RollingInBatchesState, BatchReadyState, n)"
      using hs hooks p2 by (auto simp: finalizeOneBatch_def Let_def transition_phases)
    have rec: "reconcileBatchInRolling W M c = Some c'"
      using m fin unpaused BatchFinalizingState
      by (simp add: reconcileBatchInRolling_def after_method_def)
    from c' show ?thesis
      by (elim disjE; intro progressI [OF rec]) (auto simp: phase BatchFinalizingState on_course_def)
  next
    case BatchReadyState
    have "reconcileBatchInRolling W M c = Some (transition ?E BatchRolloutApprovedEvent c)"
      using go assms(2) BatchReadyState unpaused
      by (auto simp: reconcileBatchInRolling_def tryMovingToNextBatch_def goes_on_def Let_def
          split: option.splits)
    from progressI [OF this transition_batch(6) [of c n]] phase BatchReadyState show ?thesis
      by (simp add: on_course_def)
  qed (use assms(3) phase in simp_all)
qed

lemma reconcile_goes_on:
  assumes go: "goes_on W M c" and course: "on_course (RollingState (rolloutStatus c))"
    and "phase_ok (status_phase c)"
  shows "\<exists>c'. reconcile_state W M c = Some c' \<and> status_phase c' \<noteq> status_phase c \<and>
     (on_course (RollingState (rolloutStatus c')) \<or> RollingState (rolloutStatus c') = RolloutSucceedState)"
proof -
  let ?E = "clientEnv W"
  define b where "b = BatchRollingState (rolloutStatus c)"
  define n where "n = CurrentBatch (rolloutStatus c)"
  have phase: "status_phase c = (RollingState (rolloutStatus c), b, n)"
    by (simp add: status_phase_eq b_def n_def)
  from course consider "RollingState (rolloutStatus c) = VerifyingSpecState"
    | "RollingState (rolloutStatus c) = InitializingState"
    | "RollingState (rolloutStatus c) = RollingInBatchesState"
    | "RollingState (rolloutStatus c) = FinalisingState"
    by (auto simp: on_course_def)
  then show ?thesis
  proof cases
    case 1
    then obtain c1 where m: "VerifySpec M c = Some ((True, None), c1)"
      using go by (auto simp: goes_on_def Let_def)
    have "status_phase c1 = (VerifyingSpecState, b, n)"
      using VerifySpec_phase [OF m] phase 1 by simp
    then show ?thesis
      using m 1 phase
      by (intro progressI [of _ "transition ?E RollingSpecVerifiedEvent c1", OF _ transition_verified])
         (auto simp: reconcile_state_def on_course_def)
  next
    case 2
    then obtain c1 c2 where hooks: "initializeRollout W c = Some (None, c1)"
      and m: "Initialize M c1 = Some ((True, None), c2)"
      using go by (auto simp: goes_on_def Let_def)
    have "status_phase c2 = (InitializingState, b, n)"
      using Initialize_stable [OF m] call_hooks_phase [OF hooks [unfolded initializeRollout_def]] phase 2
      by (simp add: stable_phase)
    then show ?thesis
      using m hooks 2 phase
      by (intro progressI [of _ "transition ?E RollingInitializedEvent c2", OF _ transition_initialized])
         (auto simp: reconcile_state_def after_method_def on_course_def)
  next
    case 3
    then show ?thesis
      using batch_goes_on [OF go _ assms(3)] by (simp add: reconcile_state_def)
  next
    case 4
    then obtain c1 c2 where m: "Finalize M True c = Some (True, c1)" and
      hooks: "call_hooks W FinalizeRolloutHook (rolling_state_str (RollingState (rolloutStatus c1)))
               ''failed to invoke a post rollout webhook'' (RolloutWebhooks (rolloutSpec W)) c1 =
               Some (None, c2)"
      using go by (auto simp: goes_on_def Let_def)
    have "status_phase c2 = (FinalisingState, b, n)"
      using Finalize_stable [OF m] call_hooks_phase [OF hooks] phase 4 by (simp add: stable_phase)
    then show ?thesis
      using m hooks 4 phase
      by (intro progressI [of _ "transition ?E RollingFinalizedEvent c2", OF _ transition_finalized(1)])
         (auto simp: reconcile_state_def finalizeRollout_def)
  qed
qed

end

lemma plan_Reconcile_goes_on:
  assumes M: "GetWorkloadController r = Inr M"
    and go: "goes_on (planClient r) M c" and course: "on_course (RollingState (rolloutStatus c))"
    and inv: "plan_inv (rolloutSpec (planClient r)) (status_phase c)"
  shows "\<exists>t c'. plan_Reconcile r c = Some (t, c') \<and> status_phase c' \<noteq> status_phase c \<and>
     (on_course (RollingState (rolloutStatus c')) \<or> RollingState (rolloutStatus c') = RolloutSucceedState)"
proof -
  have ok: "phase_ok (status_phase c)"
    using inv by (auto simp: plan_inv_def split: prod.splits)
  obtain c' where "reconcile_state (planClient r) M c = Some c'"
    "status_phase c' \<noteq> status_phase c"
    "on_course (RollingState (rolloutStatus c')) \<or> RollingState (rolloutStatus c') = RolloutSucceedState"
    using M go csr.reconcile_goes_on [OF _ course ok] css.reconcile_goes_on [OF _ course ok]
      dpr.reconcile_goes_on [OF _ course ok] dps.reconcile_goes_on [OF _ course ok]
    by (cases rule: GetWorkloadController_cases) blast+
  with M show ?thesis by (auto simp: plan_Reconcile_def)
qed

text \<open>The status after a number of reconciles.\<close>

primrec reconciles :: "'w plan_controller \<Rightarrow> nat \<Rightarrow> 'w ctl \<Rightarrow> 'w ctl option" where
  "reconciles r 0 c = Some c"
| "reconciles r (Suc k) c = Option.bind (plan_Reconcile r c) (\<lambda>(t, c'). reconciles r k c')"

lemma reconciles_success:
  assumes "GetWorkloadController r = Inr M" and "on_course (RollingState (rolloutStatus c))"
    and "plan_inv (rolloutSpec (planClient r)) (status_phase c)"
    and "length (batches (rolloutSpec (planClient r))) < 2 ^ 31"
    and "\<And>k d. reconciles r k c = Some d \<Longrightarrow> on_course (RollingState (rolloutStatus d)) \<Longrightarrow>
           goes_on (planClient r) M d"
  shows "\<exists>k \<le> rank (rolloutSpec (planClient r)) (status_phase c). \<exists>d.
           reconciles r k c = Some d \<and> RollingState (rolloutStatus d) = RolloutSucceedState"
  using assms
proof (induction "rank (rolloutSpec (planClient r)) (status_phase c)" arbitrary: c rule: less_induct)
  case less
  let ?spec = "rolloutSpec (planClient r)"
  have "goes_on (planClient r) M c"
    using less.prems(5) [of 0] less.prems(2) by simp
  then obtain t c' where rec: "plan_Reconcile r c = Some (t, c')" "status_phase c' \<noteq> status_phase c"
    and c': "on_course (RollingState (rolloutStatus c')) \<or>
             RollingState (rolloutStatus c') = RolloutSucceedState"
    using plan_Reconcile_goes_on less.prems(1-3) by blast
  note step = plan_Reconcile_step [OF rec(1)]
  have smaller: "rank ?spec (status_phase c') < rank ?spec (status_phase c)"
    using reconcile_step_rank [OF step less.prems(3,4)] rec(2) by blast
  from c' show ?case
  proof
    assume "RollingState (rolloutStatus c') = RolloutSucceedState"
    then show ?thesis
      using rec(1) smaller by (intro exI [of _ 1]) auto
  next
    assume "on_course (RollingState (rolloutStatus c'))"
    moreover have "reconciles r k c' = Some d \<Longrightarrow> on_course (RollingState (rolloutStatus d)) \<Longrightarrow>
        goes_on (planClient r) M d" for k d
      using less.prems(5) [of "Suc k" d] rec(1) by simp
    ultimately obtain k d where "k \<le> rank ?spec (status_phase c')" "reconciles r k c' = Some d"
      "RollingState (rolloutStatus d) = RolloutSucceedState"
      using less.hyps [OF smaller less.prems(1)] reconcile_step_inv [OF step less.prems(3,4)]
        less.prems(4) by blast
    then show ?thesis
      using rec(1) smaller by (intro exI [of _ "Suc k"]) auto
  qed
qed

text \<open>
  C4: A rollout succeeds when nothing holds it back: if every reconcile on the way finds its
  method and its hooks successful, then after at most five reconciles for each batch and five more
  the rollout is in the state RolloutSucceed.
\<close>

theorem rollout_succeeds:
  assumes "GetWorkloadController r = Inr M" and "on_course (RollingState (rolloutStatus c))"
    and "plan_inv (rolloutSpec (planClient r)) (status_phase c)"
    and "length (batches (rolloutSpec (planClient r))) < 2 ^ 31"
    and "\<forall>k d. reconciles r k c = Some d \<longrightarrow> on_course (RollingState (rolloutStatus d)) \<longrightarrow>
           goes_on (planClient r) M d"
  shows "\<exists>k \<le> 5 * length (batches (rolloutSpec (planClient r))) + 5. \<exists>d.
           reconciles r k c = Some d \<and> RollingState (rolloutStatus d) = RolloutSucceedState"
proof -
  obtain k d where "k \<le> rank (rolloutSpec (planClient r)) (status_phase c)"
    "reconciles r k c = Some d \<and> RollingState (rolloutStatus d) = RolloutSucceedState"
    using reconciles_success [OF assms(1-4)] assms(5) by blast
  moreover from this(1) have "k \<le> 5 * length (batches (rolloutSpec (planClient r))) + 5"
    using rank_bound [OF assms(3)] by linarith
  ultimately show ?thesis by auto
qed

section \<open>Examples\<close>

definition example_ref :: "string \<Rightarrow> string \<Rightarrow> workload_ref" where
  "example_ref grp kind =
     \<lparr>wrGroup = grp, wrKind = kind, wrNamespace = ''default'', wrName = ''app''\<rparr>"

text \<open>A rolling upgrade of a CloneSet.\<close>

definition example_rollout :: "rollout_plan \<Rightarrow> example_world plan_controller" where
  "example_rollout spec =
     \<lparr>planClient = example_client spec, targetWorkload = example_ref ''apps.kruise.io'' ''CloneSet'',
      sourceWorkload = Some (example_ref ''apps.kruise.io'' ''CloneSet'')\<rparr>"

lemma example_rollout_simps [simp]:
  "planClient (example_rollout spec) = example_client spec"
  "GetWorkloadController (example_rollout spec) =
     Inr (csr_controller (example_client spec) (''default'', ''app''))"
  by (simp_all add: example_rollout_def GetWorkloadController_def example_ref_def workload_key_def
      example_env_def)

lemma example_retry: "retry_returns_last example_env"
  by (auto simp: retry_returns_last_def example_env_def)

lemma settings_defaulted: "replicas_defaulted settings_env"
  by (simp add: replicas_defaulted_def)

lemma settings_retry: "retry_returns_last settings_env"
  by (auto simp: retry_returns_last_def settings_env_def)

lemma example_plan_inv:
  "plan_inv example_plan (status_phase (example_ctl RollingInBatchesState BatchReadyState 0))"
  "plan_inv example_plan (status_phase (example_ctl FinalisingState BatchReadyState 1))"
  by (simp_all add: plan_inv_def status_phase_def phase_def)

lemma example_ready_step:
  "\<exists>c'. plan_Reconcile (example_rollout example_plan)
          (example_ctl RollingInBatchesState BatchReadyState 0) = Some (5, c') \<and>
        status_phase c' = (RollingInBatchesState, BatchInitializingState, 1)"
proof -
  have "status_phase (transition example_env BatchRolloutApprovedEvent
          (example_ctl RollingInBatchesState BatchReadyState 0)) =
        (RollingInBatchesState, BatchInitializingState, 0 + 1)"
    by (rule transition_batch(6)) (simp add: status_phase_def phase_def)
  then show ?thesis
    by (auto simp: plan_Reconcile_def reconcile_state_def reconcileBatchInRolling_def
        tryMovingToNextBatch_def rolloutReconcileRequeueTime_def status_phase_eq)
qed

theorem plan_Reconcile_refines_witness:
  "\<exists>t c'. plan_Reconcile (example_rollout example_plan)
            (example_ctl RollingInBatchesState BatchReadyState 0) = Some (t, c') \<and> t = 5 \<and>
          reconcile_step example_plan (RollingInBatchesState, BatchReadyState, 0) (status_phase c')"
proof -
  obtain c' where rec: "plan_Reconcile (example_rollout example_plan)
      (example_ctl RollingInBatchesState BatchReadyState 0) = Some (5, c')"
    using example_ready_step by blast
  from plan_Reconcile_refines [OF rec] rec show ?thesis
    by (auto simp: status_phase_def phase_def)
qed

theorem plan_run_bounded_witness:
  "\<exists>d. plan_run (example_rollout example_plan) 1
          (example_ctl RollingInBatchesState BatchReadyState 0) d \<and> (1 :: nat) \<le> 5 * 2 + 5"
proof -
  obtain c' where rec: "plan_Reconcile (example_rollout example_plan)
      (example_ctl RollingInBatchesState BatchReadyState 0) = Some (5, c')"
    and "status_phase c' = (RollingInBatchesState, BatchInitializingState, 1)"
    using example_ready_step by blast
  then have run: "plan_run (example_rollout example_plan) (Suc 0)
      (example_ctl RollingInBatchesState BatchReadyState 0) c'"
    by (intro plan_run.moved [OF plan_run.start rec]) (simp add: status_phase_def phase_def)
  from plan_run_bounded [OF run] example_plan_inv(1) have "Suc 0 \<le> 5 * 2 + 5" by simp
  with run show ?thesis by auto
qed

definition settings_rollout :: "(nsname \<Rightarrow> int32) plan_controller" where
  "settings_rollout =
     \<lparr>planClient = settings_client, targetWorkload = example_ref ''apps'' ''Deployment'',
      sourceWorkload = Some (example_ref ''apps'' ''Deployment'')\<rparr>"

theorem plan_Reconcile_never_panics_witness:
  "\<exists>t c'. plan_Reconcile settings_rollout (ctl.truncate (settings_ctl 5 0 0)) = Some (t, c') \<and>
          plan_inv example_plan (status_phase c')"
proof -
  have "plan_inv example_plan (status_phase (settings_ctl 5 0 0))"
    by (simp add: plan_inv_def status_phase_def phase_def)
  then show ?thesis
    using plan_Reconcile_never_panics [of settings_rollout "ctl.truncate (settings_ctl 5 0 0)"]
    by (simp add: settings_rollout_def settings_retry settings_defaulted)
qed

theorem plan_Reconcile_respects_partition_witness:
  "let c = example_ctl RollingInBatchesState BatchReadyState 0;
       r = example_rollout (example_plan\<lparr>BatchPartition := Some 0\<rparr>)
   in \<exists>t c'. plan_Reconcile r c = Some (t, c') \<and> sint (CurrentBatch (rolloutStatus c')) \<le> 0"
proof -
  let ?plan = "example_plan\<lparr>BatchPartition := Some 0\<rparr>"
  let ?c = "example_ctl RollingInBatchesState BatchReadyState 0"
  obtain t c' where rec: "plan_Reconcile (example_rollout ?plan) ?c = Some (t, c')"
    by (simp add: plan_Reconcile_def reconcile_state_def reconcileBatchInRolling_def)
  with plan_Reconcile_respects_partition [OF rec] show ?thesis by simp
qed

theorem rollout_succeeds_witness:
  "\<exists>k \<le> 15. \<exists>d. reconciles (example_rollout example_plan) k
     (example_ctl FinalisingState BatchReadyState 1) = Some d \<and>
     RollingState (rolloutStatus d) = RolloutSucceedState"
proof -
  let ?r = "example_rollout example_plan" and ?c = "example_ctl FinalisingState BatchReadyState 1"
  let ?M = "csr_controller (example_client example_plan) (''default'', ''app'')"
  have on: "on_course (RollingState (rolloutStatus ?c))" by (simp add: on_course_def)
  have finalize: "Finalize ?M True ?c = Some (True, ?c)"
    by (simp add: csr_controller_def csr_Finalize_def fetchCloneSet_def as_cs_def ctl.defs cs_ctl.defs)
  have go: "goes_on (planClient ?r) ?M ?c"
    by (simp add: goes_on_def finalize)
  define c' where "c' = transition example_env RollingFinalizedEvent ?c"
  have phase: "status_phase c' = (RolloutSucceedState, BatchReadyState, 1)"
    unfolding c'_def by (rule transition_finalized(1)) (simp add: status_phase_def phase_def)
  have first: "plan_Reconcile ?r ?c = Some (0, c')"
    using phase
    by (simp add: plan_Reconcile_def reconcile_state_def finalize finalizeRollout_def
        flip: c'_def) (simp add: status_phase_eq)
  have stop: "plan_Reconcile ?r c' = Some (0, c')"
    using phase by (simp add: plan_Reconcile_def reconcile_state_def status_phase_eq)
  have "reconciles ?r k c' = Some c'" for k
    by (induction k) (simp_all add: stop)
  then have only: "reconciles ?r k ?c = Some d \<Longrightarrow> d = ?c \<or> d = c'" for k d
    by (cases k) (auto simp: first)
  have off: "\<not> on_course (RollingState (rolloutStatus c'))"
    using phase by (simp add: status_phase_eq on_course_def)
  have "\<forall>k d. reconciles ?r k ?c = Some d \<longrightarrow> on_course (RollingState (rolloutStatus d)) \<longrightarrow>
      goes_on (planClient ?r) ?M d"
    using only go off by metis
  from rollout_succeeds [OF _ on _ _ this] example_plan_inv(2) show ?thesis
    by simp
qed

end
