(* ===== verification/Rollout_Validation.thy ===== *)
theory Rollout_Validation
  imports Batches
begin

text \<open>
  The admission webhook of a rollout plan, pkg/webhook/common/rollout/rollout_plan.go: defaults
  for the batches and the strategy, and the validation.
\<close>

section \<open>Field errors\<close>

text \<open>Errors of apimachinery's package field: kind, path and detail.\<close>

datatype path_elem = Child string | Index nat

type_synonym field_path = "path_elem list"

datatype field_error =
  FieldRequired field_path string
| FieldInvalid field_path string
| FieldNotFound field_path string
| FieldTooLong field_path
| FieldTooMany field_path

section \<open>Defaults\<close>

text \<open>
  \<open>iv\<close> and \<open>fi\<close> are IntOrString.IntValue and intstr.FromInt of apimachinery; \<open>intstr_int_doc\<close> says
  what they do with integers.
\<close>

definition intstr_int_doc :: "(int_or_string \<Rightarrow> int) \<Rightarrow> (int \<Rightarrow> int_or_string) \<Rightarrow> bool" where
  "intstr_int_doc iv fi \<longleftrightarrow>
     (\<forall>v. IosType v = IosInt \<longrightarrow> iv v = sint (IntVal v)) \<and>
     (\<forall>n. fi n = \<lparr>IosType = IosInt, IntVal = int32_of n, StrVal = ''''\<rparr>)"

text \<open>
  One run of the inner loop, whose index goes down to 0; \<open>None\<close> is an index out of range.
\<close>

fun fill_pass ::
  "(int_or_string \<Rightarrow> int) \<Rightarrow> (int \<Rightarrow> int_or_string) \<Rightarrow> nat \<Rightarrow> int \<Rightarrow> rollout_batch list \<Rightarrow>
     (int \<times> rollout_batch list) option" where
  "fill_pass iv fi 0 tot bs = Some (tot, bs)"
| "fill_pass iv fi (Suc i) tot bs =
     (if tot \<le> 0 then Some (tot, bs)
      else if length bs \<le> i then None
      else let replica = iv (batchReplicas (bs ! i)) + 1 in
           fill_pass iv fi i (tot - 1) (bs[i := (bs ! i)\<lparr>batchReplicas := fi replica\<rparr>]))"

text \<open>The outer loop may run for ever; \<open>None\<close> is then that it does not return.\<close>

partial_function (option) FillRolloutBatches ::
  "(int_or_string \<Rightarrow> int) \<Rightarrow> (int \<Rightarrow> int_or_string) \<Rightarrow> rollout_batch list \<Rightarrow> int \<Rightarrow> int \<Rightarrow>
     rollout_batch list option" where
  "FillRolloutBatches iv fi bs totalSize numBatches =
     (if totalSize > 0 then
        Option.bind (fill_pass iv fi (nat numBatches) totalSize bs)
          (\<lambda>r. FillRolloutBatches iv fi (snd r) (fst r) numBatches)
      else Some bs)"

definition zero_batch :: rollout_batch where
  "zero_batch =
     \<lparr>batchReplicas = \<lparr>IosType = IosInt, IntVal = 0, StrVal = ''''\<rparr>, batchMaxUnavailable = None,
      batchInstanceInterval = None, batchRolloutWebhooks = []\<rparr>"

text \<open>Making a slice of a negative length panics.\<close>

definition DefaultRolloutBatches ::
  "(int_or_string \<Rightarrow> int) \<Rightarrow> (int \<Rightarrow> int_or_string) \<Rightarrow> rollout_plan \<Rightarrow> rollout_plan option" where
  "DefaultRolloutBatches iv fi rollout =
     (case (TargetSize rollout, NumBatches rollout, RolloutBatches rollout) of
        (Some t, Some n, None) \<Rightarrow>
          let numBatches = sint n in
          if numBatches < 0 then None
          else do {
            bs \<leftarrow> FillRolloutBatches iv fi (replicate (nat numBatches) zero_batch) (sint t) numBatches;
            Some (rollout\<lparr>RolloutBatches := Some bs\<rparr>)
          }
      | _ \<Rightarrow> Some rollout)"

definition DefaultRolloutPlan :: "rollout_plan \<Rightarrow> rollout_plan" where
  "DefaultRolloutPlan rollout =
     (if length (strategy_str (RolloutStrategy rollout)) = 0
      then rollout\<lparr>RolloutStrategy := IncreaseFirst\<rparr> else rollout)"

section \<open>Validation\<close>

definition validateWebhook :: "rollout_plan \<Rightarrow> field_path \<Rightarrow> field_error list" where
  "validateWebhook rollout rootPath =
     concat (map (\<lambda>(i, rw).
       (if whType rw \<noteq> InitializeRolloutHook \<and> whType rw \<noteq> FinalizeRolloutHook
        then [FieldInvalid (rootPath @ [Child ''rolloutWebhooks'', Index i])
                ''the rollout webhook type can only be initialize or finalize webhook''] else []) @
       (if whMethod rw \<noteq> ''POST'' \<and> whMethod rw \<noteq> ''GET'' \<and> whMethod rw \<noteq> ''PUT''
        then [FieldInvalid (rootPath @ [Child ''rolloutWebhooks'', Index i])
                ''the rollout webhook method can only be Get/PUT/POST''] else []))
       (enumerate 0 (RolloutWebhooks rollout))) @
     concat (map (\<lambda>(i, rb). concat (map (\<lambda>(j, brw).
       (if whType brw \<noteq> PostBatchRolloutHook \<and> whType brw \<noteq> PreBatchRolloutHook
        then [FieldInvalid (rootPath @ [Child ''rolloutBatches'', Index i,
                                        Child ''batchRolloutWebhooks'', Index j])
                ''the batch webhook type can only be pre or post batch webhook''] else []))
       (enumerate 0 (batchRolloutWebhooks rb))))
       (enumerate 0 (batches rollout)))"

definition validateRolloutBatches ::
  "ios_value \<Rightarrow> rollout_plan \<Rightarrow> field_path \<Rightarrow> field_error list" where
  "validateRolloutBatches gv rollout rootPath =
     concat (map (\<lambda>(i, rb).
       let path = rootPath @ [Child ''rolloutBatches'', Index i, Child ''replicas''] in
       case gv (batchReplicas rb) 100 True of
         (_, Some err) \<Rightarrow> [FieldInvalid path (''invalid replica value, err = '' @ err)]
       | (val, None) \<Rightarrow> if val < 0 then [FieldInvalid path ''negative replica value''] else [])
       (enumerate 0 (batches rollout)))"

definition plan_ValidateCreate :: "ios_value \<Rightarrow> rollout_plan \<Rightarrow> field_path \<Rightarrow> field_error list" where
  "plan_ValidateCreate gv rollout rootPath =
     (if RolloutBatches rollout = None
      then [FieldRequired (rootPath @ [Child ''rolloutBatches'']) ''the rollout has to have batches'']
      else []) @
     (if (case BatchPartition rollout of Some p \<Rightarrow> sint p < 0 | None \<Rightarrow> False)
      then [FieldInvalid (rootPath @ [Child ''batchPartition'']) ''the rollout plan has to be positive'']
      else []) @
     (if (case NumBatches rollout of Some n \<Rightarrow> int (length (batches rollout)) \<noteq> sint n | None \<Rightarrow> False)
      then [FieldInvalid (rootPath @ [Child ''numBatches''])
              ''the num batches does not match the rollout batch size'']
      else []) @
     (if RolloutStrategy rollout \<noteq> IncreaseFirst \<and> RolloutStrategy rollout \<noteq> DecreaseFirst
      then [FieldInvalid (rootPath @ [Child ''rolloutStrategy''])
              ''the rolloutStrategy can only be IncreaseFirst or DecreaseFirst'']
      else []) @
     validateWebhook rollout rootPath @ validateRolloutBatches gv rollout rootPath"

definition plan_ValidateUpdate :: "rollout_plan \<Rightarrow> rollout_plan \<Rightarrow> field_path \<Rightarrow> field_error list" where
  "plan_ValidateUpdate new prev rootPath = []"

section \<open>What filling the batches gives\<close>

text \<open>The replicas of a list of batches with integer values.\<close>

definition int_values :: "rollout_batch list \<Rightarrow> int list" where
  "int_values bs = map (\<lambda>rb. sint (IntVal (batchReplicas rb))) bs"

definition all_int :: "rollout_batch list \<Rightarrow> bool" where
  "all_int bs \<longleftrightarrow> (\<forall>rb \<in> set bs. IosType (batchReplicas rb) = IosInt)"

text \<open>
  The distribution: \<open>q\<close> for every batch and one more for the last \<open>r\<close>.  One pass over batches that
  have \<open>q\<close> each either ends with \<open>q + 1\<close> each or with the total used up.
\<close>

definition spread :: "nat \<Rightarrow> int \<Rightarrow> nat \<Rightarrow> int list" where
  "spread n q r = replicate (n - r) q @ replicate r (q + 1)"

lemma length_spread [simp]: "r \<le> n \<Longrightarrow> length (spread n q r) = n"
  by (simp add: spread_def)

lemma sum_spread: "r \<le> n \<Longrightarrow> sum_list (spread n q r) = int n * q + int r"
  by (simp add: spread_def sum_list_replicate algebra_simps of_nat_diff)

lemma spread_full: "spread n q n = spread n (q + 1) 0"
  by (simp add: spread_def)

lemma spread_update:
  assumes "r < n"
  shows "(spread n q r)[n - Suc r := q + 1] = spread n q (Suc r)"
  using assms by (intro nth_equalityI) (auto simp: spread_def nth_list_update nth_append)

lemma spread_nth: "r < n \<Longrightarrow> spread n q r ! (n - Suc r) = q"
  by (simp add: spread_def nth_append)

lemma fill_pass_spread:
  assumes doc: "intstr_int_doc iv fi"
    and "length bs = n" "int_values bs = spread n q r" "all_int bs" "r \<le> n" "i = n - r"
    and "0 \<le> tot" "0 \<le> q" "q + 1 < 2 ^ 31"
  shows "\<exists>bs'. fill_pass iv fi i tot bs = Some (tot - int (min i (nat tot)), bs') \<and>
           length bs' = n \<and> int_values bs' = spread n q (r + min i (nat tot)) \<and> all_int bs' \<and>
           map batchRolloutWebhooks bs' = map batchRolloutWebhooks bs"
  using assms(2-)
proof (induction i arbitrary: bs r tot)
  case (Suc i)
  show ?case
  proof (cases "tot \<le> 0")
    case True
    then have "fill_pass iv fi (Suc i) tot bs = Some (tot, bs)" and "nat tot = 0" by simp_all
    with Suc.prems(1-3) show ?thesis by simp
  next
    case False
    have r: "r < n" "i = n - Suc r" using Suc.prems by auto
    have i: "i < length bs" using Suc.prems r by simp
    have "int_values bs ! i = q"
      using Suc.prems(2) r by (simp add: spread_nth)
    then have val: "sint (IntVal (batchReplicas (bs ! i))) = q"
      using i by (simp add: int_values_def)
    have ty: "IosType (batchReplicas (bs ! i)) = IosInt"
      using Suc.prems(3) i by (auto simp: all_int_def)
    let ?rb = "(bs ! i)\<lparr>batchReplicas := fi (q + 1)\<rparr>" and ?bs = "bs[i := (bs ! i)\<lparr>batchReplicas := fi (q + 1)\<rparr>]"
    have fi: "fi (q + 1) = \<lparr>IosType = IosInt, IntVal = int32_of (q + 1), StrVal = ''''\<rparr>"
      using doc by (simp add: intstr_int_doc_def)
    have small: "sint (int32_of (q + 1)) = q + 1"
      using Suc.prems(7,8) by (intro sint_int32_of) (simp add: in_i32_def)
    have "int_values ?bs = (int_values bs)[i := q + 1]"
      using small by (simp add: int_values_def map_update fi)
    then have vals: "int_values ?bs = spread n q (Suc r)"
      using Suc.prems(2) r by (simp add: spread_update)
    have ints: "all_int ?bs"
      using Suc.prems(3) fi by (auto simp: all_int_def dest: set_update_subset_insert [THEN subsetD])
    have rest: "map batchRolloutWebhooks ?bs = map batchRolloutWebhooks bs"
      using i by (simp add: map_update list_update_same_conv)
    from Suc.IH [of ?bs "Suc r" "tot - 1"] Suc.prems vals ints r False rest
    obtain bs' where IH: "fill_pass iv fi i (tot - 1) ?bs = Some (tot - 1 - int (min i (nat (tot - 1))), bs')"
      "length bs' = n" "int_values bs' = spread n q (Suc r + min i (nat (tot - 1)))" "all_int bs'"
      "map batchRolloutWebhooks bs' = map batchRolloutWebhooks bs"
      by auto
    have "iv (batchReplicas (bs ! i)) = q"
      using doc ty val by (simp add: intstr_int_doc_def)
    then have step: "fill_pass iv fi (Suc i) tot bs = fill_pass iv fi i (tot - 1) ?bs"
      using False i by simp
    have min: "min (Suc i) (nat tot) = Suc (min i (nat (tot - 1)))"
      using False by (simp add: nat_diff_distrib' min_def) linarith
    show ?thesis
      using IH unfolding step min by simp
  qed
qed simp

lemma FillRolloutBatches_stop: "tot \<le> 0 \<Longrightarrow> FillRolloutBatches iv fi bs tot n = Some bs"
  by (subst FillRolloutBatches.simps) simp

lemma FillRolloutBatches_pass:
  "0 < tot \<Longrightarrow> fill_pass iv fi (nat n) tot bs = Some (tot', bs') \<Longrightarrow>
   FillRolloutBatches iv fi bs tot n = FillRolloutBatches iv fi bs' tot' n"
  by (subst FillRolloutBatches.simps) simp

lemma FillRolloutBatches_spread:
  assumes doc: "intstr_int_doc iv fi" and "0 < n"
    and "length bs = n" "int_values bs = spread n q 0" "all_int bs" "0 \<le> tot" "0 \<le> q"
    and "q + tot < 2 ^ 31"
  shows "\<exists>bs'. FillRolloutBatches iv fi bs tot (int n) = Some bs' \<and> length bs' = n \<and>
           int_values bs' = spread n (q + tot div int n) (nat (tot mod int n)) \<and> all_int bs' \<and>
           map batchRolloutWebhooks bs' = map batchRolloutWebhooks bs"
  using assms(3-)
proof (induction "nat tot" arbitrary: bs q tot rule: less_induct)
  case less
  show ?case
  proof (cases "tot = 0")
    case True
    then show ?thesis
      using less.prems by (simp add: FillRolloutBatches_stop)
  next
    case False
    then have tot: "0 < tot" using less.prems by simp
    let ?k = "min n (nat tot)"
    have q: "q + 1 < 2 ^ 31" using less.prems tot by simp
    obtain bs1 where pass: "fill_pass iv fi n tot bs = Some (tot - int ?k, bs1)"
      and bs1: "length bs1 = n" "int_values bs1 = spread n q ?k" "all_int bs1"
      "map batchRolloutWebhooks bs1 = map batchRolloutWebhooks bs"
      using fill_pass_spread [OF doc less.prems(1-3), of n tot] less.prems(4,5) q by auto
    have step: "FillRolloutBatches iv fi bs tot (int n) =
        FillRolloutBatches iv fi bs1 (tot - int ?k) (int n)"
      using FillRolloutBatches_pass [OF tot, of iv fi "int n"] pass by simp
    show ?thesis
    proof (cases "tot < int n")
      case True
      then have "?k = nat tot" "tot div int n = 0" "tot mod int n = tot"
        using tot by simp_all
      then show ?thesis
        using bs1 step by (simp add: FillRolloutBatches_stop)
    next
      case False
      then have k: "?k = n" by simp
      have vals: "int_values bs1 = spread n (q + 1) 0"
        using bs1(2) by (simp add: k spread_full)
      have "tot div int n = (tot - int n) div int n + 1" "tot mod int n = (tot - int n) mod int n"
        using \<open>0 < n\<close> by (simp_all add: div_pos_pos_trivial flip: div_add_self2)
      moreover have "\<exists>bs'. FillRolloutBatches iv fi bs1 (tot - int n) (int n) = Some bs' \<and>
          length bs' = n \<and>
          int_values bs' = spread n (q + 1 + (tot - int n) div int n) (nat ((tot - int n) mod int n)) \<and>
          all_int bs' \<and> map batchRolloutWebhooks bs' = map batchRolloutWebhooks bs1"
        using False \<open>0 < n\<close> less.prems tot
        by (intro less.hyps [OF _ bs1(1) vals bs1(3)]) auto
      ultimately show ?thesis
        using step bs1(4) by (simp add: k algebra_simps)
    qed
  qed
qed

text \<open>
  The number of batches 0 with something to distribute: the inner loop does nothing and the outer
  loop never ends.
\<close>

lemma FillRolloutBatches_diverges:
  assumes "0 < tot" and "n \<le> 0"
  shows "FillRolloutBatches iv fi bs tot n = None"
proof -
  have "\<not> (0 < tot \<and> n \<le> 0)" if "FillRolloutBatches iv fi bs tot n = Some r" for r
    by (rule FillRolloutBatches.raw_induct
          [where P = "\<lambda>iv fi bs tot n r. \<not> (0 < tot \<and> n \<le> 0)", OF _ that])
       (auto simp: bind_eq_Some_conv split: if_splits)
  with assms show ?thesis by (cases "FillRolloutBatches iv fi bs tot n") auto
qed

section \<open>Filled plans\<close>

lemma int_batch_values:
  assumes "intstr_doc gv" and "all_int bs"
  shows "rb \<in> set bs \<Longrightarrow> batch_value gv d rb = sint (IntVal (batchReplicas rb))"
    and "prefix_sum gv d bs = sum_list (int_values bs)"
proof -
  show val: "rb \<in> set bs \<Longrightarrow> batch_value gv d rb = sint (IntVal (batchReplicas rb))" for rb
    using assms by (auto simp: intstr_doc_def all_int_def batch_value_def)
  have "map (batch_value gv d) bs = int_values bs"
    using val by (simp add: int_values_def)
  then show "prefix_sum gv d bs = sum_list (int_values bs)"
    by (simp add: prefix_sum_def)
qed

lemma int_batches_verified:
  assumes doc: "intstr_doc gv" and p: "RolloutBatches p = Some bs" and "bs \<noteq> []" "all_int bs"
    and nonneg: "\<forall>v \<in> set (int_values bs). 0 \<le> v" and sum: "sum_list (int_values bs) = sint t"
    and last: "0 < last (int_values bs)"
  shows "verifyBatchesWithRollout gv p t = None"
proof -
  have bs: "batches p = bs" using p by (simp add: batches_def)
  have split: "int_values bs = int_values (butlast bs) @ [sint (IntVal (batchReplicas (last bs)))]"
    using \<open>bs \<noteq> []\<close> by (metis append_butlast_last_id int_values_def list.map(1,2) map_append)
  have ints: "all_int (butlast bs)" "IosType (batchReplicas (last bs)) = IosInt"
    using \<open>all_int bs\<close> \<open>bs \<noteq> []\<close> by (auto simp: all_int_def dest: in_set_butlastD)
  note prefix = int_batch_values [OF doc ints(1)]
  let ?s = "sum_list (int_values (butlast bs))"
  have s: "0 \<le> ?s" "?s + sint (IntVal (batchReplicas (last bs))) = sint t"
    "0 < sint (IntVal (batchReplicas (last bs)))"
    using nonneg sum last unfolding split by (auto intro: sum_list_nonneg)
  have "\<forall>rb \<in> set (butlast bs). 0 \<le> batch_value gv (sint t) rb"
    using nonneg prefix(1) by (auto simp: int_values_def dest: in_set_butlastD)
  then have fold: "foldl (\<lambda>x rb. i64 (x + batch_value gv (sint t) rb)) 0 (butlast bs) = ?s"
    using foldl_add_i64 [of "butlast bs" gv "sint t" 0] s prefix(2) sint_in_i32 [of t]
    by (simp add: in_i32_def)
  have "i64 (sint t) = sint t"
    by (intro i64_id in_i32_in_i64 sint_in_i32)
  then show ?thesis
    using fold s ints(2) \<open>bs \<noteq> []\<close> by (simp add: verifyBatchesWithRollout_def bs Let_def)
qed

lemma zero_batches:
  "int_values (replicate n zero_batch) = spread n 0 0" "all_int (replicate n zero_batch)"
  by (auto simp: int_values_def zero_batch_def spread_def all_int_def)

lemma DefaultRolloutBatches_filled:
  assumes doc: "intstr_int_doc iv fi" and t: "TargetSize p = Some t" "0 \<le> sint t"
    and n: "NumBatches p = Some n" "0 < sint n" and "RolloutBatches p = None"
  shows "\<exists>bs. DefaultRolloutBatches iv fi p = Some (p\<lparr>RolloutBatches := Some bs\<rparr>) \<and>
           length bs = nat (sint n) \<and> all_int bs \<and>
           int_values bs = spread (nat (sint n)) (sint t div sint n) (nat (sint t mod sint n)) \<and>
           map batchRolloutWebhooks bs = replicate (nat (sint n)) []"
proof -
  have "sint t < 2 ^ 31" using sint_in_i32 [of t] by (simp add: in_i32_def)
  then obtain bs where "FillRolloutBatches iv fi (replicate (nat (sint n)) zero_batch) (sint t) (sint n) = Some bs"
    "length bs = nat (sint n)" "all_int bs"
    "int_values bs = spread (nat (sint n)) (sint t div sint n) (nat (sint t mod sint n))"
    "map batchRolloutWebhooks bs = map batchRolloutWebhooks (replicate (nat (sint n)) zero_batch)"
    using FillRolloutBatches_spread [OF doc, of "nat (sint n)" "replicate (nat (sint n)) zero_batch" 0 "sint t"]
      zero_batches t(2) n(2) by auto
  then show ?thesis
    using assms(2-) by (intro exI [of _ bs]) (simp add: DefaultRolloutBatches_def zero_batch_def)
qed

lemma spread_props:
  assumes "0 < n" "0 \<le> t"
  defines "xs \<equiv> spread n (t div int n) (nat (t mod int n))"
  shows "length xs = n" "sum_list xs = t" "set xs \<subseteq> {t div int n, t div int n + 1}"
    "sorted xs" "0 < t \<Longrightarrow> 0 < last xs"
proof -
  have r: "nat (t mod int n) < n" using assms(1) by (simp add: nat_less_iff)
  then show "length xs = n" by (simp add: xs_def)
  show "sum_list xs = t"
    using r assms(1,2) by (simp add: xs_def sum_spread)
  show "set xs \<subseteq> {t div int n, t div int n + 1}"
    by (auto simp: xs_def spread_def)
  show "sorted xs"
    by (auto simp: xs_def spread_def sorted_append sorted_replicate)
  have q: "0 \<le> t div int n" using assms by (simp add: pos_imp_zdiv_nonneg_iff)
  show "0 < last xs" if "0 < t"
  proof (cases "t mod int n = 0")
    case True
    then have "int n * (t div int n) = t" by auto
    then have "0 < int n * (t div int n)" using that by simp
    then have "0 < t div int n" by (rule zero_less_mult_pos) (use assms(1) in simp)
    with True show ?thesis using assms(1) by (simp add: xs_def spread_def)
  next
    case False
    have "0 \<le> t mod int n" using assms(1) by simp
    with False have "0 < nat (t mod int n)" by linarith
    then show ?thesis using q by (simp add: xs_def spread_def)
  qed
qed

text \<open>
  The batches that the webhook fills in are what a user would write: as many as asked for, in
  ascending order, differing by at most one replica, adding up to the target size, and, when
  there is a replica to roll out, accepted by the verification of the workload controllers.
\<close>

theorem filled_batches_are_verified:
  assumes doc: "intstr_int_doc iv fi" and gv: "intstr_doc gv"
    and t: "TargetSize p = Some t" "0 < sint t"
    and n: "NumBatches p = Some n" "0 < sint n" and none: "RolloutBatches p = None"
  shows "\<exists>bs. DefaultRolloutBatches iv fi p = Some (p\<lparr>RolloutBatches := Some bs\<rparr>) \<and>
           int (length bs) = sint n \<and> sum_list (int_values bs) = sint t \<and> sorted (int_values bs) \<and>
           set (int_values bs) \<subseteq> {sint t div sint n, sint t div sint n + 1} \<and>
           verifyBatchesWithRollout gv (p\<lparr>RolloutBatches := Some bs\<rparr>) t = None"
proof -
  obtain bs where bs: "DefaultRolloutBatches iv fi p = Some (p\<lparr>RolloutBatches := Some bs\<rparr>)"
    "length bs = nat (sint n)" "all_int bs"
    "int_values bs = spread (nat (sint n)) (sint t div int (nat (sint n))) (nat (sint t mod int (nat (sint n))))"
    using DefaultRolloutBatches_filled [OF doc t(1) _ n none] t(2) n(2) by auto
  have pos: "0 < nat (sint n)" "0 \<le> sint t" using n(2) t(2) by simp_all
  note props = spread_props [OF pos, folded bs(4)]
  have "0 \<le> sint t div sint n" using n(2) t(2) by (simp add: pos_imp_zdiv_nonneg_iff)
  then have "\<forall>v \<in> set (int_values bs). 0 \<le> v" using props(3) n(2) by auto
  moreover have "bs \<noteq> []" using bs(2) n(2) by auto
  ultimately have "verifyBatchesWithRollout gv (p\<lparr>RolloutBatches := Some bs\<rparr>) t = None"
    using props bs(3) t(2) by (intro int_batches_verified [OF gv]) auto
  with bs(1,2) props n(2) show ?thesis by auto
qed

text \<open>
  C11: Exactly two plans make the defaulting webhook fail to return: a negative number of batches
  panics, and no batches for a positive target size loops for ever.
\<close>

theorem DefaultRolloutBatches_stuck:
  assumes doc: "intstr_int_doc iv fi"
  shows "DefaultRolloutBatches iv fi p = None \<longleftrightarrow>
         (\<exists>t n. TargetSize p = Some t \<and> NumBatches p = Some n \<and> RolloutBatches p = None \<and>
                (sint n < 0 \<or> sint n = 0 \<and> 0 < sint t))"
proof (cases "TargetSize p = None \<or> NumBatches p = None \<or> RolloutBatches p \<noteq> None")
  case True
  then show ?thesis
    by (auto simp: DefaultRolloutBatches_def split: option.splits)
next
  case False
  then obtain t n where p: "TargetSize p = Some t" "NumBatches p = Some n" "RolloutBatches p = None"
    by auto
  consider "sint n < 0" | "sint n = 0" | "0 < sint n" by linarith
  then show ?thesis
  proof cases
    case 1
    with p show ?thesis by (simp add: DefaultRolloutBatches_def)
  next
    case 2
    then show ?thesis
      using p FillRolloutBatches_diverges [of "sint t" 0 iv fi "[]"]
        FillRolloutBatches_stop [of "sint t" iv fi "[]" 0]
      by (cases "0 < sint t") (auto simp: DefaultRolloutBatches_def)
  next
    case 3
    then show ?thesis
    proof (cases "0 \<le> sint t")
      case True
      with DefaultRolloutBatches_filled [OF doc p(1) _ p(2) 3 p(3)] 3 p show ?thesis by auto
    next
      case False
      with 3 p show ?thesis
        by (auto simp: DefaultRolloutBatches_def FillRolloutBatches_stop)
    qed
  qed
qed

section \<open>What validation accepts\<close>

lemma concat_map_enumerate_Nil:
  "concat (map f (enumerate k xs)) = [] \<longleftrightarrow> (\<forall>i < length xs. f (k + i, xs ! i) = [])"
proof (induction xs arbitrary: k)
  case (Cons x xs)
  then show ?case by (auto simp: less_Suc_eq_0_disj)
qed simp

lemma replicas_errors_Nil:
  "(case x of (_, Some err) \<Rightarrow> [FieldInvalid path (m @ err)]
    | (v, None) \<Rightarrow> if v < 0 then [FieldInvalid path d] else []) = [] \<longleftrightarrow>
   snd x = None \<and> 0 \<le> (fst x :: int)"
  by (cases x; cases "snd x") auto

definition valid_hook :: "rollout_webhook \<Rightarrow> bool" where
  "valid_hook rw \<longleftrightarrow> whType rw \<in> {InitializeRolloutHook, FinalizeRolloutHook} \<and>
                   whMethod rw \<in> {''POST'', ''GET'', ''PUT''}"

definition valid_batch :: "ios_value \<Rightarrow> rollout_batch \<Rightarrow> bool" where
  "valid_batch gv rb \<longleftrightarrow>
     (\<forall>h \<in> set (batchRolloutWebhooks rb). whType h \<in> {PostBatchRolloutHook, PreBatchRolloutHook}) \<and>
     snd (gv (batchReplicas rb) 100 True) = None \<and> 0 \<le> fst (gv (batchReplicas rb) 100 True)"

text \<open>
  The validation accepts a plan exactly when it has batches, as many as it announces, a
  partition that is not negative, one of the two strategies, plan hooks of the two outer types
  with one of three methods, and batches whose hooks have the two inner types and whose replicas
  are well formed and not negative.
\<close>

theorem plan_ValidateCreate_accepts:
  "plan_ValidateCreate gv p path = [] \<longleftrightarrow>
     RolloutBatches p \<noteq> None \<and>
     (case BatchPartition p of None \<Rightarrow> True | Some i \<Rightarrow> 0 \<le> sint i) \<and>
     (case NumBatches p of None \<Rightarrow> True | Some n \<Rightarrow> sint n = int (length (batches p))) \<and>
     RolloutStrategy p \<in> {IncreaseFirst, DecreaseFirst} \<and>
     list_all valid_hook (RolloutWebhooks p) \<and> list_all (valid_batch gv) (batches p)"
proof -
  have hooks: "validateWebhook p path = [] \<longleftrightarrow>
      (\<forall>h \<in> set (RolloutWebhooks p). valid_hook h) \<and>
      (\<forall>rb \<in> set (batches p). \<forall>h \<in> set (batchRolloutWebhooks rb).
         whType h \<in> {PostBatchRolloutHook, PreBatchRolloutHook})"
    by (simp only: validateWebhook_def append_is_Nil_conv concat_map_enumerate_Nil prod.case
        all_set_conv_all_nth) (auto simp: valid_hook_def)
  have vals: "validateRolloutBatches gv p path = [] \<longleftrightarrow>
      (\<forall>rb \<in> set (batches p). snd (gv (batchReplicas rb) 100 True) = None \<and>
         0 \<le> fst (gv (batchReplicas rb) 100 True))"
    by (simp only: validateRolloutBatches_def concat_map_enumerate_Nil prod.case
        all_set_conv_all_nth Let_def replicas_errors_Nil)
  show ?thesis
    unfolding plan_ValidateCreate_def append_is_Nil_conv hooks vals
    by (auto simp: valid_batch_def list_all_iff split: option.splits)
qed

text \<open>
  A validated plan whose percentages are at most 100 is one whose batch values are sane at every
  size, which is what the theorems on batches assume.
\<close>

lemma validated_plan_sane:
  assumes "plan_ValidateCreate gv p path = []" and "intstr_doc gv" and "length (batches p) < 2 ^ 30"
    and "\<forall>rb \<in> set (batches p). IosType (batchReplicas rb) = IosString \<longrightarrow> batch_value gv 100 rb \<le> 100"
  shows "sane_replicas gv p"
proof -
  have "validateRolloutBatches gv p path = []"
    using assms(1) by (simp add: plan_ValidateCreate_def)
  then have "\<forall>rb \<in> set (batches p). 0 \<le> batch_value gv 100 rb"
    by (simp only: validateRolloutBatches_def concat_map_enumerate_Nil prod.case
        all_set_conv_all_nth Let_def replicas_errors_Nil) (simp add: batch_value_def)
  with assms(4) show ?thesis
    by (intro intstr_doc_sane [OF assms(2,3)]) simp
qed

text \<open>
  What the webhook lets through, the workload controllers roll out in order: on a validated
  plan with percentages up to 100 that the controller verified, the targets of the batches only
  grow, stay within the size, and end at it.
\<close>

theorem admitted_plan_rolls_out:
  assumes "plan_ValidateCreate gv p path = []" and "intstr_doc gv" and "length (batches p) < 2 ^ 30"
    and "\<forall>rb \<in> set (batches p). IosType (batchReplicas rb) = IosString \<longrightarrow> batch_value gv 100 rb \<le> 100"
    and "verifyBatchesWithRollout gv p n = None" and "0 \<le> sint n"
    and "0 \<le> i" and "i \<le> j" and "j < int (length (batches p))"
  defines "T \<equiv> calculateNewBatchTarget gv p 0 (sint n)"
  shows "0 \<le> T i \<and> T i \<le> T j \<and> T j \<le> sint n \<and> T (int (length (batches p)) - 1) = sint n"
proof -
  have "-1 \<le> i" using assms(7) by simp
  from rollout_targets_monotone [OF assms(5) validated_plan_sane [OF assms(1-4)] assms(6) this assms(8,9)]
  show ?thesis by (simp add: T_def)
qed

section \<open>Examples\<close>

definition example_iv :: "int_or_string \<Rightarrow> int" where
  "example_iv v = (case IosType v of IosInt \<Rightarrow> sint (IntVal v) | IosString \<Rightarrow> fst (strconv_Atoi (StrVal v)))"

definition example_fi :: "int \<Rightarrow> int_or_string" where
  "example_fi n = \<lparr>IosType = IosInt, IntVal = int32_of n, StrVal = ''''\<rparr>"

lemma example_int_doc: "intstr_int_doc example_iv example_fi"
  by (simp add: intstr_int_doc_def example_iv_def example_fi_def)

definition unfilled_plan :: "int32 \<Rightarrow> int32 \<Rightarrow> rollout_plan" where
  "unfilled_plan t n =
     \<lparr>RolloutStrategy = IncreaseFirst, TargetSize = Some t, NumBatches = Some n, RolloutBatches = None,
      BatchPartition = None, Paused = False, RolloutWebhooks = []\<rparr>"

theorem filled_batches_are_verified_witness:
  "\<exists>bs. DefaultRolloutBatches example_iv example_fi (unfilled_plan 5 2) =
          Some ((unfilled_plan 5 2)\<lparr>RolloutBatches := Some bs\<rparr>) \<and> sum_list (int_values bs) = 5"
proof -
  have "TargetSize (unfilled_plan 5 2) = Some 5" "0 < sint (5 :: int32)"
    "NumBatches (unfilled_plan 5 2) = Some 2" "0 < sint (2 :: int32)"
    "RolloutBatches (unfilled_plan 5 2) = None"
    by (simp_all add: unfilled_plan_def)
  from filled_batches_are_verified [OF example_int_doc example_ios_value_doc this]
  show ?thesis by auto
qed

theorem DefaultRolloutBatches_stuck_witness:
  "DefaultRolloutBatches example_iv example_fi (unfilled_plan 5 0) = None \<and>
   DefaultRolloutBatches example_iv example_fi (unfilled_plan 5 2) \<noteq> None"
  using DefaultRolloutBatches_stuck [OF example_int_doc, of "unfilled_plan 5 0"]
    DefaultRolloutBatches_stuck [OF example_int_doc, of "unfilled_plan 5 2"]
  by (simp add: unfilled_plan_def)

theorem admitted_plan_rolls_out_witness:
  "calculateNewBatchTarget example_ios_value (plan_of [int_batch 2, int_batch 3]) 0 5 0 \<le>
   calculateNewBatchTarget example_ios_value (plan_of [int_batch 2, int_batch 3]) 0 5 1"
proof -
  have "plan_ValidateCreate example_ios_value (plan_of [int_batch 2, int_batch 3]) [] = []"
    by (simp add: plan_ValidateCreate_def plan_of_def validateWebhook_def validateRolloutBatches_def
        batches_def int_batch_def example_ios_value_def)
  from admitted_plan_rolls_out [OF this example_ios_value_doc _ _ example_verified(2), of 0 1]
  show ?thesis by simp
qed

end
