(* ===== verification/K8s_Objects.thy ===== *)
theory K8s_Objects
  imports Workloads
begin

text \<open>
  Kubernetes objects as the application controllers handle them: an unstructured object with the
  metadata that the code reads, a reference to one, and a resource tracker, the record of what an
  application revision has put into the cluster (apis/core.oam.dev/v1beta1/core_types.go).  Then
  the operations on labels and annotations of pkg/oam/util/helper.go and the keys of
  pkg/oam/labels.go.

  A Go map is \<open>None\<close> when it is nil.  \<open>uRest\<close> stands for the rest of an object's content.
\<close>

section \<open>Objects\<close>

type_synonym string_map = "(string \<rightharpoonup> string) option"

record unstructured =
  uAPIVersion :: string
  uKind :: string
  uNamespace :: string
  uName :: string
  uGenerateName :: string
  uUID :: string
  uLabels :: string_map
  uAnnotations :: string_map
  uOwnerReferences :: "owner_ref list"
  uRest :: string

record typed_reference =
  refAPIVersion :: string
  refKind :: string
  refName :: string
  refNamespace :: string

record resource_tracker =
  rtName :: string
  rtUID :: string
  rtLabels :: string_map
  rtTrackedResources :: "typed_reference list option"

definition object_ref :: "unstructured \<Rightarrow> typed_reference" where
  "object_ref u = \<lparr>refAPIVersion = uAPIVersion u, refKind = uKind u, refName = uName u,
                   refNamespace = uNamespace u\<rparr>"

text \<open>The resources of a tracker, as ranging over the possibly nil slice sees them.\<close>

definition tracked :: "resource_tracker \<Rightarrow> typed_reference list" where
  "tracked rt = (case rtTrackedResources rt of None \<Rightarrow> [] | Some rs \<Rightarrow> rs)"

text \<open>Reading a possibly nil map gives the empty string for an absent key.\<close>

definition map_get :: "string_map \<Rightarrow> string \<Rightarrow> string" where
  "map_get m k = (case m of None \<Rightarrow> '''' | Some f \<Rightarrow> (case f k of None \<Rightarrow> '''' | Some v \<Rightarrow> v))"

definition map_lookup :: "string_map \<Rightarrow> string \<Rightarrow> string option" where
  "map_lookup m k = (case m of None \<Rightarrow> None | Some f \<Rightarrow> f k)"

lemma map_lookup_simps [simp]: "map_lookup None k = None" "map_lookup (Some f) k = f k"
  by (simp_all add: map_lookup_def)

lemma map_get_lookup: "map_get m k = (case map_lookup m k of None \<Rightarrow> '''' | Some v \<Rightarrow> v)"
  by (simp add: map_get_def map_lookup_def split: option.splits)

section \<open>Keys\<close>

definition LabelAppName :: string where "LabelAppName = ''app.oam.dev/name''"
definition LabelAppRevision :: string where "LabelAppRevision = ''app.oam.dev/appRevision''"
definition LabelAppComponent :: string where "LabelAppComponent = ''app.oam.dev/component''"
definition LabelAppComponentRevision :: string where
  "LabelAppComponentRevision = ''app.oam.dev/revision''"
definition LabelOAMResourceType :: string where
  "LabelOAMResourceType = ''app.oam.dev/resourceType''"
definition LabelAppRevisionHash :: string where
  "LabelAppRevisionHash = ''app.oam.dev/app-revision-hash''"
definition LabelAppNamespace :: string where "LabelAppNamespace = ''app.oam.dev/namesapce''"
definition WorkloadTypeLabel :: string where "WorkloadTypeLabel = ''workload.oam.dev/type''"
definition TraitTypeLabel :: string where "TraitTypeLabel = ''trait.oam.dev/type''"
definition ResourceTypeTrait :: string where "ResourceTypeTrait = ''TRAIT''"
definition ResourceTypeWorkload :: string where "ResourceTypeWorkload = ''WORKLOAD''"
definition AnnotationLastAppliedConfig :: string where
  "AnnotationLastAppliedConfig = ''app.oam.dev/last-applied-configuration''"
definition AnnotationAppRollout :: string where
  "AnnotationAppRollout = ''app.oam.dev/rollout-template''"
definition AnnotationInplaceUpgrade :: string where
  "AnnotationInplaceUpgrade = ''app.oam.dev/inplace-upgrade''"
definition AnnotationRollingComponent :: string where
  "AnnotationRollingComponent = ''app.oam.dev/rolling-components''"
definition AnnotationKubeVelaVersion :: string where
  "AnnotationKubeVelaVersion = ''oam.dev/kubevela-version''"
definition AnnotationFilterAnnotationKeys :: string where
  "AnnotationFilterAnnotationKeys = ''filter.oam.dev/annotation-keys''"
definition AnnotationFilterLabelKeys :: string where
  "AnnotationFilterLabelKeys = ''filter.oam.dev/label-keys''"

lemmas oam_keys =
  LabelAppName_def LabelAppRevision_def LabelAppComponent_def LabelAppComponentRevision_def
  LabelOAMResourceType_def LabelAppRevisionHash_def LabelAppNamespace_def WorkloadTypeLabel_def
  TraitTypeLabel_def AnnotationLastAppliedConfig_def AnnotationAppRollout_def
  AnnotationInplaceUpgrade_def AnnotationRollingComponent_def AnnotationKubeVelaVersion_def
  AnnotationFilterAnnotationKeys_def AnnotationFilterLabelKeys_def

section \<open>Labels and annotations\<close>

definition MergeMapOverrideWithDst :: "string_map \<Rightarrow> string_map \<Rightarrow> string_map" where
  "MergeMapOverrideWithDst src dst =
     (if src = None \<and> dst = None then None
      else Some ((case src of None \<Rightarrow> Map.empty | Some s \<Rightarrow> s) ++
                 (case dst of None \<Rightarrow> Map.empty | Some d \<Rightarrow> d)))"

text \<open>Deleting keys; deleting from a nil map does nothing.\<close>

definition map_delete :: "string list \<Rightarrow> string_map \<Rightarrow> string_map" where
  "map_delete ks m = map_option (\<lambda>f. foldl (\<lambda>f k. f(k := None)) f ks) m"

definition AddLabels :: "unstructured \<Rightarrow> string_map \<Rightarrow> unstructured" where
  "AddLabels u labels = u\<lparr>uLabels := MergeMapOverrideWithDst (uLabels u) labels\<rparr>"

definition AddAnnotations :: "unstructured \<Rightarrow> string_map \<Rightarrow> unstructured" where
  "AddAnnotations u annos = u\<lparr>uAnnotations := MergeMapOverrideWithDst (uAnnotations u) annos\<rparr>"

definition RemoveLabels :: "unstructured \<Rightarrow> string list \<Rightarrow> unstructured" where
  "RemoveLabels u keys = u\<lparr>uLabels := map_delete keys (uLabels u)\<rparr>"

definition RemoveAnnotations :: "unstructured \<Rightarrow> string list \<Rightarrow> unstructured" where
  "RemoveAnnotations u keys = u\<lparr>uAnnotations := map_delete keys (uAnnotations u)\<rparr>"

definition PassLabel :: "unstructured \<Rightarrow> unstructured \<Rightarrow> unstructured" where
  "PassLabel parentObj childObj =
     childObj\<lparr>uLabels := MergeMapOverrideWithDst (uLabels parentObj) (uLabels childObj)\<rparr>"

definition PassLabelAndAnnotation :: "unstructured \<Rightarrow> unstructured \<Rightarrow> unstructured" where
  "PassLabelAndAnnotation parentObj childObj =
     childObj\<lparr>uLabels := MergeMapOverrideWithDst (uLabels childObj) (uLabels parentObj),
              uAnnotations := MergeMapOverrideWithDst (uAnnotations childObj) (uAnnotations parentObj)\<rparr>"

lemma MergeMap_lookup [simp]:
  "map_lookup (MergeMapOverrideWithDst src dst) k =
     (case map_lookup dst k of Some v \<Rightarrow> Some v | None \<Rightarrow> map_lookup src k)"
  by (cases src; cases dst) (auto simp: MergeMapOverrideWithDst_def map_add_def split: option.splits)

lemma MergeMap_None [simp]:
  "MergeMapOverrideWithDst None None = None" "MergeMapOverrideWithDst None (Some d) = Some d"
  "MergeMapOverrideWithDst (Some s) None = Some s"
  "MergeMapOverrideWithDst (Some s) (Some d) = Some (s ++ d)"
  by (simp_all add: MergeMapOverrideWithDst_def)

lemma MergeMap_assoc:
  "MergeMapOverrideWithDst (MergeMapOverrideWithDst a b) c =
   MergeMapOverrideWithDst a (MergeMapOverrideWithDst b c)"
  by (cases a; cases b; cases c) simp_all

lemma foldl_delete: "foldl (\<lambda>f k. f(k := None)) f ks x = (if x \<in> set ks then None else f x)"
  by (induction ks arbitrary: f) auto

lemma map_delete_lookup [simp]:
  "map_lookup (map_delete ks m) k = (if k \<in> set ks then None else map_lookup m k)"
  by (cases m) (auto simp: map_delete_def foldl_delete)

lemma map_delete_None [simp]: "map_delete ks None = None"
  by (simp add: map_delete_def)

section \<open>The API server and the libraries\<close>

text \<open>
  What the application controllers take from outside the repository.  A call of the API client
  gives the error, or the object as the server answers it, and the next state of the world.
  \<open>kPatch\<close> sends a patch for the given object, \<open>kMergePatch\<close> the difference of two objects with a
  field owner.  \<open>kRetryTracker\<close> is client-go's retry.RetryOnConflict around an operation on a
  tracker.  \<open>kGroup\<close> is the group of GroupVersionKind of an API version, \<open>kMarshal\<close> json.Marshal;
  \<open>kSchemeNew\<close> looks a kind up in client-go's scheme; the two three-way merges get the original,
  the modified and the current configuration.
\<close>

datatype scheme_result = Registered string | NotRegistered | SchemeError string

datatype patch_type = MergePatchType | StrategicMergePatchType

type_synonym patch = "patch_type \<times> string"

record 'w kube =
  kGet :: "string \<Rightarrow> string \<Rightarrow> nsname \<Rightarrow> 'w \<Rightarrow> (api_error + unstructured) \<times> 'w"
  kCreate :: "unstructured \<Rightarrow> 'w \<Rightarrow> (api_error option \<times> unstructured) \<times> 'w"
  kPatch :: "unstructured \<Rightarrow> patch \<Rightarrow> 'w \<Rightarrow> (api_error option \<times> unstructured) \<times> 'w"
  kMergePatch ::
    "unstructured \<Rightarrow> unstructured \<Rightarrow> string \<Rightarrow> 'w \<Rightarrow> (api_error option \<times> unstructured) \<times> 'w"
  kDelete :: "typed_reference \<Rightarrow> 'w \<Rightarrow> api_error option \<times> 'w"
  kGetTracker :: "string \<Rightarrow> 'w \<Rightarrow> (api_error + resource_tracker) \<times> 'w"
  kCreateTracker :: "resource_tracker \<Rightarrow> 'w \<Rightarrow> (api_error option \<times> resource_tracker) \<times> 'w"
  kUpdateTrackerStatus :: "resource_tracker \<Rightarrow> 'w \<Rightarrow> api_error option \<times> 'w"
  kDeleteTracker :: "resource_tracker \<Rightarrow> 'w \<Rightarrow> api_error option \<times> 'w"
  kRetryTracker :: "('w \<Rightarrow> api_error option \<times> 'w) \<Rightarrow> 'w \<Rightarrow> api_error option \<times> 'w"
  kGetControllerOf :: "owner_ref list \<Rightarrow> owner_ref option"
  kGroup :: "string \<Rightarrow> string"
  kMarshal :: "unstructured \<Rightarrow> string + string"
  kSchemeNew :: "string \<Rightarrow> string \<Rightarrow> scheme_result"
  kThreeWayJSON :: "string option \<Rightarrow> string \<Rightarrow> string \<Rightarrow> string + string"
  kPatchMeta :: "string \<Rightarrow> string + string"
  kThreeWayStrategic :: "string option \<Rightarrow> string \<Rightarrow> string \<Rightarrow> string \<Rightarrow> string + string"

text \<open>errors.Wrap and errors.WithMessage of github.com/pkg/errors put a message in front.\<close>

definition errors_Wrap :: "string \<Rightarrow> string \<Rightarrow> string" where
  "errors_Wrap err msg = msg @ '': '' @ err"

text \<open>What metav1.GetControllerOf is documented to return: the first controller.\<close>

definition controller_of_doc :: "(owner_ref list \<Rightarrow> owner_ref option) \<Rightarrow> bool" where
  "controller_of_doc f \<longleftrightarrow> (\<forall>os. f os = find (\<lambda>r. orController r = Some True) os)"


section \<open>An example\<close>

text \<open>
  A small API server that stores objects and trackers and never fails, serialises an object to its
  content, and knows no kind.
\<close>

record kube_world =
  kwObjects :: "typed_reference \<rightharpoonup> unstructured"
  kwTrackers :: "string \<rightharpoonup> resource_tracker"

definition not_found :: api_error where
  "not_found = \<lparr>errNotFound = True, errText = ''not found''\<rparr>"

definition kw_store :: "unstructured \<Rightarrow> kube_world \<Rightarrow> kube_world" where
  "kw_store u w = w\<lparr>kwObjects := (kwObjects w)(object_ref u \<mapsto> u)\<rparr>"

definition kw_patch :: "unstructured \<Rightarrow> kube_world \<Rightarrow> (api_error option \<times> unstructured) \<times> kube_world" where
  "kw_patch u w = (case kwObjects w (object_ref u) of
      None \<Rightarrow> ((Some not_found, u), w) | Some _ \<Rightarrow> ((None, u), kw_store u w))"

definition example_kube :: "kube_world kube" where
  "example_kube =
     \<lparr>kGet = (\<lambda>v k n w. (case kwObjects w \<lparr>refAPIVersion = v, refKind = k, refName = snd n, refNamespace = fst n\<rparr> of
                None \<Rightarrow> Inl not_found | Some u \<Rightarrow> Inr u, w)),
      kCreate = (\<lambda>u w. ((None, u), kw_store u w)),
      kPatch = (\<lambda>u p w. kw_patch u w),
      kMergePatch = (\<lambda>old new owner w. kw_patch new w),
      kDelete = (\<lambda>r w. case kwObjects w r of None \<Rightarrow> (Some not_found, w)
                | Some _ \<Rightarrow> (None, w\<lparr>kwObjects := (kwObjects w)(r := None)\<rparr>)),
      kGetTracker = (\<lambda>n w. (case kwTrackers w n of None \<Rightarrow> Inl not_found
                | Some rt \<Rightarrow> Inr (rt\<lparr>rtName := n\<rparr>), w)),
      kCreateTracker = (\<lambda>t w. ((None, t\<lparr>rtUID := rtName t\<rparr>),
                w\<lparr>kwTrackers := (kwTrackers w)(rtName t \<mapsto> t\<lparr>rtUID := rtName t\<rparr>)\<rparr>)),
      kUpdateTrackerStatus = (\<lambda>t w. (None, w\<lparr>kwTrackers := (kwTrackers w)(rtName t \<mapsto> t)\<rparr>)),
      kDeleteTracker = (\<lambda>t w. (None, w\<lparr>kwTrackers := (kwTrackers w)(rtName t := None)\<rparr>)),
      kRetryTracker = (\<lambda>f. f),
      kGetControllerOf = find (\<lambda>r. orController r = Some True),
      kGroup = (\<lambda>v. hd (strings_Split v CHR ''/'')),
      kMarshal = (\<lambda>u. Inr (uRest u)),
      kSchemeNew = (\<lambda>v k. NotRegistered),
      kThreeWayJSON = (\<lambda>original modified current. Inr modified),
      kPatchMeta = (\<lambda>t. Inr t),
      kThreeWayStrategic = (\<lambda>original modified current m. Inr modified)\<rparr>"

definition example_object :: "string \<Rightarrow> string \<Rightarrow> string \<Rightarrow> unstructured" where
  "example_object version kind name =
     \<lparr>uAPIVersion = version, uKind = kind, uNamespace = ''default'', uName = name, uGenerateName = '''',
      uUID = name, uLabels = None, uAnnotations = None, uOwnerReferences = [], uRest = name\<rparr>"

lemma example_controller_doc: "controller_of_doc (kGetControllerOf example_kube)"
  by (simp add: controller_of_doc_def example_kube_def)

lemma example_object_simps [simp]:
  "uAPIVersion (example_object v k n) = v" "uKind (example_object v k n) = k"
  "uNamespace (example_object v k n) = ''default''" "uName (example_object v k n) = n"
  "uAnnotations (example_object v k n) = None" "uOwnerReferences (example_object v k n) = []"
  "uLabels (example_object v k n) = None" "uRest (example_object v k n) = n"
  by (simp_all add: example_object_def)

end
