(* ===== verification/Names.thy ===== *)
theory Names
  imports Prelude
begin

text \<open>
  The naming rules for revisions and resource trackers: pkg/controller/utils/utils.go,
  pkg/oam/util/helper.go and dispatch/name.go of the application controller.  A slice expression
  is kept as \<open>take\<close>; the slices are never out of range, because Split returns at least one part.
\<close>

section \<open>Revisions\<close>

definition ConstructRevisionName :: "string \<Rightarrow> int \<Rightarrow> string" where
  "ConstructRevisionName componentName revision =
     strings_Join [componentName, CHR ''v'' # itoa revision] CHR ''-''"

definition ExtractComponentName :: "string \<Rightarrow> string" where
  "ExtractComponentName revisionName =
     (let splits = strings_Split revisionName CHR ''-'' in
      strings_Join (take (length splits - 1) splits) CHR ''-'')"

definition ExtractRevision :: "string \<Rightarrow> int \<times> string option" where
  "ExtractRevision revisionName =
     (let splits = strings_Split revisionName CHR ''-'' in
      strconv_Atoi (strings_TrimPrefix (splits ! (length splits - 1)) ''v''))"

definition ErrBadRevisionName :: string where
  "ErrBadRevisionName = ''bad revision name''"

text \<open>The delimiter that the callers give is one character.\<close>

definition ExtractRevisionNum :: "string \<Rightarrow> char \<Rightarrow> int \<times> string option" where
  "ExtractRevisionNum appRevision delimiter =
     (let splits = strings_Split appRevision delimiter in
      if length splits = 1 then (0, Some ErrBadRevisionName)
      else if \<not> strings_HasPrefix (splits ! (length splits - 1)) ''v''
      then (0, Some ErrBadRevisionName)
      else strconv_Atoi (strings_TrimPrefix (splits ! (length splits - 1)) ''v''))"

text \<open>
  The part of an Application that GetAppNextRevision reads: its name and the revision number of
  status.latestRevision.  The argument is a pointer.
\<close>

definition GetAppNextRevision :: "(string \<times> int option) option \<Rightarrow> string \<times> int" where
  "GetAppNextRevision app =
     (case app of
        None \<Rightarrow> ('''', 0)
      | Some (name, latest) \<Rightarrow>
          let nextRevision = (case latest of None \<Rightarrow> 1 | Some r \<Rightarrow> i64 (r + 1))
          in (ConstructRevisionName name nextRevision, nextRevision))"

section \<open>Resource trackers\<close>

definition ConstructResourceTrackerName :: "string \<Rightarrow> string \<Rightarrow> string" where
  "ConstructResourceTrackerName appRevName ns = appRevName @ CHR ''-'' # ns"

definition ExtractAppName :: "string \<Rightarrow> string \<Rightarrow> string" where
  "ExtractAppName resourceTrackerName ns =
     (let splits = strings_Split (strings_TrimSuffix resourceTrackerName (CHR ''-'' # ns)) CHR ''-'' in
      strings_Join (take (length splits - 1) splits) CHR ''-'')"

definition ExtractAppRevisionName :: "string \<Rightarrow> string \<Rightarrow> string" where
  "ExtractAppRevisionName resourceTrackerName ns = strings_TrimSuffix resourceTrackerName (CHR ''-'' # ns)"

section \<open>Reading back what was constructed\<close>

lemma revision_splits:
  "0 \<le> r \<Longrightarrow> strings_Split (ConstructRevisionName n r) CHR ''-'' =
     strings_Split n CHR ''-'' @ [CHR ''v'' # itoa r]"
  using strings_Split_app [of "CHR ''-''" "CHR ''v'' # itoa r" n] minus_notin_itoa [of r]
  by (simp add: ConstructRevisionName_def)

lemma last_part: "(xs @ [x]) ! (length (xs @ [x]) - 1) = x"
  by simp

lemma TrimPrefix_v [simp]: "strings_TrimPrefix (CHR ''v'' # s) ''v'' = s"
  by (simp add: strings_TrimPrefix_def)

lemma ExtractComponentName_Construct: "0 \<le> r \<Longrightarrow> ExtractComponentName (ConstructRevisionName n r) = n"
  by (simp add: ExtractComponentName_def revision_splits)

lemma ExtractRevisionNum_Construct:
  "0 \<le> r \<Longrightarrow> r < 2 ^ 63 \<Longrightarrow> ExtractRevisionNum (ConstructRevisionName n r) CHR ''-'' = (r, None)"
  using strconv_Atoi_itoa [of r]
  by (simp add: ExtractRevisionNum_def revision_splits in_i64_def nth_append)

text \<open>
  Revision names are a faithful encoding: from the name constructed for a component and a
  revision number, whatever hyphens and digits the component's name has, all three extractors
  read back what it was made of.
\<close>

theorem revision_name_roundtrip:
  assumes "0 \<le> r" and "r < 2 ^ 63"
  shows "ExtractComponentName (ConstructRevisionName n r) = n \<and>
         ExtractRevision (ConstructRevisionName n r) = (r, None) \<and>
         ExtractRevisionNum (ConstructRevisionName n r) CHR ''-'' = (r, None)"
proof -
  have "strconv_Atoi (itoa r) = (r, None)"
    using assms by (intro strconv_Atoi_itoa) (simp add: in_i64_def)
  then show ?thesis
    using assms(1) ExtractRevisionNum_Construct [OF assms] ExtractComponentName_Construct [OF assms(1)]
    by (simp add: ExtractRevision_def revision_splits nth_append)
qed

theorem revision_name_roundtrip_witness:
  "ExtractComponentName (ConstructRevisionName ''web-v1'' 12) = ''web-v1''"
proof -
  have "0 \<le> (12 :: int)" "(12 :: int) < 2 ^ 63" by simp_all
  from revision_name_roundtrip [OF this] show ?thesis by blast
qed

text \<open>
  A resource tracker's name determines, within its namespace, the application and the
  application revision it was made for.
\<close>

theorem tracker_name_roundtrip:
  assumes "0 \<le> r"
  shows "ExtractAppName (ConstructResourceTrackerName (ConstructRevisionName app r) ns) ns = app \<and>
         ExtractAppRevisionName (ConstructResourceTrackerName (ConstructRevisionName app r) ns) ns =
           ConstructRevisionName app r"
  using assms
  by (simp add: ExtractAppName_def ExtractAppRevisionName_def ConstructResourceTrackerName_def
      revision_splits)

theorem tracker_name_roundtrip_witness:
  "ExtractAppName (ConstructResourceTrackerName (ConstructRevisionName ''app'' 3) ''a-b'') ''a-b'' = ''app''"
proof -
  have "0 \<le> (3 :: int)" by simp
  from tracker_name_roundtrip [OF this] show ?thesis by blast
qed

text \<open>
  The names of resource trackers, which have no namespace, are not distinct for revisions of
  different namespaces.
\<close>

lemma tracker_name_collision:
  "ConstructResourceTrackerName ''app-v1'' ''dev-v1-prod'' =
   ConstructResourceTrackerName ''app-v1-dev-v1'' ''prod''"
  by (simp add: ConstructResourceTrackerName_def)

lemma GetAppNextRevision_next:
  "0 \<le> r \<Longrightarrow> r < 2 ^ 63 - 1 \<Longrightarrow>
   GetAppNextRevision (Some (n, Some r)) = (ConstructRevisionName n (r + 1), r + 1)"
  by (simp add: GetAppNextRevision_def i64_id in_i64_def Let_def)

text \<open>
  The revision that follows an application's latest one is named so that the application and
  a number one higher, 1 for the first, are read back from it.
\<close>

theorem next_revision_follows:
  assumes "case latest of None \<Rightarrow> True | Some r \<Rightarrow> 0 \<le> r \<and> r < 2 ^ 63 - 1"
  shows "let (name, rev) = GetAppNextRevision (Some (app, latest))
         in ExtractComponentName name = app \<and> ExtractRevisionNum name CHR ''-'' = (rev, None) \<and>
            rev = (case latest of None \<Rightarrow> 1 | Some r \<Rightarrow> r + 1)"
proof (cases latest)
  case None
  then show ?thesis
    using ExtractRevisionNum_Construct [of 1 app] ExtractComponentName_Construct [of 1 app]
    by (simp add: GetAppNextRevision_def)
next
  case (Some r)
  with assms have r: "0 \<le> r" "r < 2 ^ 63 - 1" by simp_all
  then have "0 \<le> r + 1" "r + 1 < 2 ^ 63" by simp_all
  from GetAppNextRevision_next [OF r] ExtractRevisionNum_Construct [OF this]
    ExtractComponentName_Construct [OF this(1)]
  show ?thesis by (simp add: Some)
qed

theorem next_revision_follows_witness:
  "ExtractRevisionNum (fst (GetAppNextRevision (Some (''web'', Some 9)))) CHR ''-'' = (10, None)"
proof -
  have "case Some (9 :: int) of None \<Rightarrow> True | Some r \<Rightarrow> 0 \<le> r \<and> r < 2 ^ 63 - 1" by simp
  from next_revision_follows [OF this, of "''web''"] show ?thesis
    by (auto simp: Let_def split: prod.splits)
qed

end
