(* ===== verification/App_Revision.thy ===== *)
theory App_Revision
  imports K8s_Objects Names
begin

text \<open>
  Application revisions (apis/core.oam.dev/v1beta1/applicationrevision_types.go) and what
  pkg/oam/util/helper.go reads out of them: the component manifests
  (apis/types/componentmanifest.go) behind the raw application configuration and components.

  A raw extension is its text; the decoders of encoding/json and RawExtension.MarshalJSON are
  parameters.  Of the snapshots in a revision, those that no modelled code reads are left out.
\<close>

section \<open>Types\<close>

type_synonym raw_extension = string

record object_reference =
  objKind :: string
  objName :: string
  objAPIVersion :: string

record app_config_component =
  accComponentName :: string
  accRevisionName :: string
  accTraits :: "raw_extension list"
  accScopes :: "object_reference list"

record component =
  compName :: string
  compLabels :: string_map
  compWorkload :: raw_extension
  compHelm :: "(raw_extension \<times> raw_extension) option"

record trait_definition =
  WorkloadRefPath :: string

record app_revision =
  revName :: string
  revNamespace :: string
  revLabels :: string_map
  revAnnotations :: string_map
  revOwnerReferences :: "owner_ref list"
  revApplicationConfiguration :: raw_extension
  revComponents :: "raw_extension list"
  revTraitDefinitions :: "string \<rightharpoonup> trait_definition"

record component_manifest =
  cmName :: string
  cmRevisionName :: string
  cmRevisionHash :: string
  cmStandardWorkload :: "unstructured option"
  cmTraits :: "unstructured list"
  cmScopes :: "object_reference list"
  cmPackagedWorkloadResources :: "unstructured list"
  cmInsertConfigNotReady :: bool

record decoders =
  dMarshalRaw :: "raw_extension \<Rightarrow> string + string"
  dUnmarshalAppConfig :: "string \<Rightarrow> string + app_config_component list"
  dUnmarshalComponent :: "string \<Rightarrow> string + component"
  dUnmarshalObject :: "string \<Rightarrow> string + unstructured"

definition LabelComponentRevisionHash :: string where
  "LabelComponentRevisionHash = ''app.oam.dev/component-revision-hash''"

section \<open>Decoding\<close>

fun bind_result :: "'e + 'a \<Rightarrow> ('a \<Rightarrow> 'e + 'b) \<Rightarrow> 'e + 'b" where
  "bind_result (Inl e) f = Inl e"
| "bind_result (Inr x) f = f x"

lemma bind_result_Inr: "bind_result r f = Inr y \<longleftrightarrow> (\<exists>x. r = Inr x \<and> f x = Inr y)"
  by (cases r) auto

lemma bind_result_cong [fundef_cong]:
  "r = r' \<Longrightarrow> (\<And>x. r' = Inr x \<Longrightarrow> f x = g x) \<Longrightarrow> bind_result r f = bind_result r' g"
  by (cases r') auto

fun map_result :: "('a \<Rightarrow> 'e + 'b) \<Rightarrow> 'a list \<Rightarrow> 'e + 'b list" where
  "map_result f [] = Inr []"
| "map_result f (x # xs) = bind_result (f x) (\<lambda>y. bind_result (map_result f xs) (\<lambda>ys. Inr (y # ys)))"

lemma map_result_Inr:
  "map_result f xs = Inr ys \<Longrightarrow> length ys = length xs \<and> (\<forall>i < length xs. f (xs ! i) = Inr (ys ! i))"
  by (induction xs arbitrary: ys) (auto simp: bind_result_Inr less_Suc_eq_0_disj)

definition RawExtension2Unstructured :: "decoders \<Rightarrow> raw_extension \<Rightarrow> string + unstructured" where
  "RawExtension2Unstructured D raw = dUnmarshalObject D raw"

definition RawExtension2AppConfig ::
  "decoders \<Rightarrow> raw_extension \<Rightarrow> string + app_config_component list" where
  "RawExtension2AppConfig D raw = bind_result (dMarshalRaw D raw) (dUnmarshalAppConfig D)"

definition RawExtension2Component :: "decoders \<Rightarrow> raw_extension \<Rightarrow> string + component" where
  "RawExtension2Component D raw = bind_result (dMarshalRaw D raw) (dUnmarshalComponent D)"

text \<open>The loop over the components of the revision.\<close>

fun find_component ::
  "decoders \<Rightarrow> component_manifest \<Rightarrow> raw_extension list \<Rightarrow> string + component_manifest" where
  "find_component D cm [] = Inr cm"
| "find_component D cm (compRaw # comps) =
     bind_result (RawExtension2Component D compRaw) (\<lambda>comp.
       let cm = cm\<lparr>cmRevisionHash := map_get (compLabels comp) LabelComponentRevisionHash\<rparr> in
       if compName comp = cmName cm then
         bind_result (RawExtension2Unstructured D (compWorkload comp)) (\<lambda>wl.
           let cm = cm\<lparr>cmStandardWorkload := Some wl\<rparr> in
           case compHelm comp of
             None \<Rightarrow> Inr cm
           | Some (release, repository) \<Rightarrow>
               bind_result (RawExtension2Unstructured D release) (\<lambda>rls.
               bind_result (RawExtension2Unstructured D repository) (\<lambda>repo.
                 Inr (cm\<lparr>cmPackagedWorkloadResources := [rls, repo]\<rparr>))))
       else find_component D cm comps)"

definition component_manifest_of ::
  "decoders \<Rightarrow> raw_extension list \<Rightarrow> app_config_component \<Rightarrow> string + component_manifest" where
  "component_manifest_of D comps acc =
     (let cm = \<lparr>cmName = accComponentName acc, cmRevisionName = accRevisionName acc,
                cmRevisionHash = '''', cmStandardWorkload = None, cmTraits = [], cmScopes = [],
                cmPackagedWorkloadResources = [], cmInsertConfigNotReady = False\<rparr>
      in if accRevisionName acc = ''--'' then Inr cm
         else
           let cm = (if accComponentName acc = '''' \<and> accRevisionName acc \<noteq> ''''
                     then cm\<lparr>cmName := ExtractComponentName (accRevisionName acc)\<rparr> else cm)
           in bind_result (find_component D cm comps) (\<lambda>cm.
              bind_result (map_result (RawExtension2Unstructured D) (accTraits acc)) (\<lambda>ts.
                Inr (cm\<lparr>cmTraits := ts, cmScopes := accScopes acc\<rparr>))))"

definition AppConfig2ComponentManifests ::
  "decoders \<Rightarrow> raw_extension \<Rightarrow> raw_extension list \<Rightarrow> string + component_manifest list" where
  "AppConfig2ComponentManifests D acRaw comps =
     bind_result (RawExtension2AppConfig D acRaw) (map_result (component_manifest_of D comps))"

section \<open>Names are kept\<close>

lemma find_component_names:
  "find_component D cm comps = Inr cm' \<Longrightarrow>
   cmName cm' = cmName cm \<and> cmRevisionName cm' = cmRevisionName cm \<and>
   cmInsertConfigNotReady cm' = cmInsertConfigNotReady cm"
proof (induction comps arbitrary: cm)
  case (Cons c comps)
  from Cons.prems obtain comp where "RawExtension2Component D c = Inr comp" by (auto simp: bind_result_Inr)
  with Cons.prems show ?case
    by (auto simp: bind_result_Inr Let_def dest!: Cons.IH split: if_splits option.splits)
qed simp

lemma component_manifest_names:
  "component_manifest_of D comps acc = Inr cm \<Longrightarrow>
   cmRevisionName cm = accRevisionName acc \<and>
   (accComponentName acc \<noteq> '''' \<longrightarrow> cmName cm = accComponentName acc) \<and> \<not> cmInsertConfigNotReady cm"
  by (auto simp: component_manifest_of_def Let_def bind_result_Inr dest!: find_component_names split: if_splits)

text \<open>One manifest for each component of the configuration, in its order.\<close>

lemma manifests_of_config:
  "AppConfig2ComponentManifests D acRaw comps = Inr cms \<Longrightarrow>
   \<exists>accs. RawExtension2AppConfig D acRaw = Inr accs \<and> map cmRevisionName cms = map accRevisionName accs"
  by (auto simp: AppConfig2ComponentManifests_def bind_result_Inr list_eq_iff_nth_eq [of "map _ _"]
      dest!: map_result_Inr) (metis component_manifest_names)


section \<open>Saving manifests in a revision\<close>

text \<open>
  componentManifests2AppConfig of application/revision.go.  An encoder is json.Marshal inside
  MustJSONMarshal: \<open>None\<close> is its panic.  The workload of a manifest may be a nil pointer.
\<close>

record encoders =
  eObject :: "unstructured option \<Rightarrow> raw_extension option"
  eComponent :: "component \<Rightarrow> raw_extension option"
  eAppConfig :: "app_config_component list \<Rightarrow> raw_extension option"

definition HelmReleaseKind :: string where "HelmReleaseKind = ''HelmRelease''"
definition HelmRepositoryKind :: string where "HelmRepositoryKind = ''HelmRepository''"

text \<open>The release and the repository are the last of their kinds among the resources.\<close>

fun helm_of ::
  "encoders \<Rightarrow> unstructured list \<Rightarrow> raw_extension \<times> raw_extension \<Rightarrow> (raw_extension \<times> raw_extension) option" where
  "helm_of E [] helm = Some helm"
| "helm_of E (helmResource # rs) helm = do {
     release \<leftarrow> (if uKind helmResource = HelmReleaseKind then eObject E (Some helmResource) else Some (fst helm));
     repository \<leftarrow> (if uKind helmResource = HelmRepositoryKind then eObject E (Some helmResource) else Some (snd helm));
     helm_of E rs (release, repository)
   }"

definition component_of :: "encoders \<Rightarrow> component_manifest \<Rightarrow> component option" where
  "component_of E cm =
     (if cmInsertConfigNotReady cm
      then Some \<lparr>compName = cmName cm, compLabels = None, compWorkload = '''', compHelm = None\<rparr>
      else do {
        wl \<leftarrow> eObject E (cmStandardWorkload cm);
        helm \<leftarrow> (if length (cmPackagedWorkloadResources cm) > 0
                 then map_option Some (helm_of E (cmPackagedWorkloadResources cm) ('''', ''''))
                 else Some None);
        Some \<lparr>compName = cmName cm,
              compLabels = MergeMapOverrideWithDst None (Some [LabelComponentRevisionHash \<mapsto> cmRevisionHash cm]),
              compWorkload = wl, compHelm = helm\<rparr>
      })"

definition acc_of :: "encoders \<Rightarrow> component_manifest \<Rightarrow> app_config_component option" where
  "acc_of E cm =
     (if cmInsertConfigNotReady cm
      then Some \<lparr>accComponentName = cmName cm, accRevisionName = ''--'', accTraits = [], accScopes = []\<rparr>
      else do {
        ts \<leftarrow> those (map (\<lambda>t. eObject E (Some t)) (cmTraits cm));
        Some \<lparr>accComponentName = cmName cm, accRevisionName = cmRevisionName cm, accTraits = ts,
              accScopes = cmScopes cm\<rparr>
      })"

definition componentManifests2AppConfig ::
  "encoders \<Rightarrow> component_manifest list \<Rightarrow> (raw_extension \<times> raw_extension list) option" where
  "componentManifests2AppConfig E cms = do {
     accs \<leftarrow> those (map (acc_of E) cms);
     comps \<leftarrow> those (map (component_of E) cms);
     raws \<leftarrow> those (map (eComponent E) comps);
     acRaw \<leftarrow> eAppConfig E accs;
     Some (acRaw, raws)
   }"

text \<open>The decoders read what the encoders write.\<close>

definition codec_doc :: "encoders \<Rightarrow> decoders \<Rightarrow> bool" where
  "codec_doc E D \<longleftrightarrow>
     (\<forall>u r. eObject E (Some u) = Some r \<longrightarrow> dUnmarshalObject D r = Inr u) \<and>
     (\<forall>c r. eComponent E c = Some r \<longrightarrow> RawExtension2Component D r = Inr c) \<and>
     (\<forall>accs r. eAppConfig E accs = Some r \<longrightarrow> RawExtension2AppConfig D r = Inr accs)"

lemma codec_docD:
  "codec_doc E D \<Longrightarrow> eObject E (Some u) = Some r \<Longrightarrow> RawExtension2Unstructured D r = Inr u"
  "codec_doc E D \<Longrightarrow> eComponent E c = Some r \<Longrightarrow> RawExtension2Component D r = Inr c"
  "codec_doc E D \<Longrightarrow> eAppConfig E accs = Some r \<Longrightarrow> RawExtension2AppConfig D r = Inr accs"
  by (simp_all add: codec_doc_def RawExtension2Unstructured_def)

lemma those_Some: "those xs = Some ys \<longleftrightarrow> xs = map Some ys"
  by (induction xs arbitrary: ys) (auto split: option.splits simp: Cons_eq_map_conv)

lemma those_map_Some:
  "those (map f xs) = Some ys \<longleftrightarrow> length ys = length xs \<and> (\<forall>i < length xs. f (xs ! i) = Some (ys ! i))"
  by (auto simp: those_Some list_eq_iff_nth_eq)

lemma those_Cons:
  "those (x # xs) = Some ys \<longleftrightarrow> (\<exists>y zs. x = Some y \<and> those xs = Some zs \<and> ys = y # zs)"
  by (auto split: option.splits)

lemma map_result_those:
  assumes "\<And>x y. f x = Some y \<Longrightarrow> g y = Inr x"
  shows "those (map f xs) = Some ys \<Longrightarrow> map_result g ys = Inr xs"
proof (induction xs arbitrary: ys)
  case (Cons x xs)
  then show ?case by (auto simp: those_Cons assms simp del: those.simps)
qed simp

text \<open>
  What comes back of a manifest: all of it, except that one whose configuration was not ready comes
  back without its contents and without the mark.  A manifest is complete when it has a name, a
  workload, and no packaged resources or a release and a repository.
\<close>

definition restored :: "component_manifest \<Rightarrow> component_manifest" where
  "restored cm =
     (if cmInsertConfigNotReady cm
      then \<lparr>cmName = cmName cm, cmRevisionName = ''--'', cmRevisionHash = '''', cmStandardWorkload = None,
            cmTraits = [], cmScopes = [], cmPackagedWorkloadResources = [], cmInsertConfigNotReady = False\<rparr>
      else cm)"

definition complete_manifest :: "component_manifest \<Rightarrow> bool" where
  "complete_manifest cm \<longleftrightarrow> cmName cm \<noteq> '''' \<and> (\<not> cmInsertConfigNotReady cm \<longrightarrow>
     cmRevisionName cm \<noteq> ''--'' \<and> cmStandardWorkload cm \<noteq> None \<and>
     (cmPackagedWorkloadResources cm = [] \<or>
      (\<exists>rls repo. cmPackagedWorkloadResources cm = [rls, repo] \<and> uKind rls = HelmReleaseKind \<and>
                  uKind repo = HelmRepositoryKind)))"

text \<open>Searching the saved components for the one with the name of the manifest.\<close>

lemma find_component_saved:
  assumes doc: "codec_doc E D"
  shows "those (map (component_of E) cms) = Some comps \<Longrightarrow> those (map (eComponent E) comps) = Some raws \<Longrightarrow>
     distinct (map cmName cms) \<Longrightarrow> cm \<in> set cms \<Longrightarrow> cmName x = cmName cm \<Longrightarrow>
     \<exists>c r. component_of E cm = Some c \<and> eComponent E c = Some r \<and>
       find_component D x raws = find_component D x [r]"
proof (induction cms arbitrary: comps raws x)
  case (Cons m cms)
  obtain c cs where c: "component_of E m = Some c" "those (map (component_of E) cms) = Some cs" "comps = c # cs"
    using Cons.prems(1) by (auto simp: those_Cons simp del: those.simps)
  obtain r rs where r: "eComponent E c = Some r" "those (map (eComponent E) cs) = Some rs" "raws = r # rs"
    using Cons.prems(2) c by (auto simp: those_Cons simp del: those.simps)
  have dec: "RawExtension2Component D r = Inr c" by (rule codec_docD(2) [OF doc r(1)])
  have name: "compName c = cmName m"
    using c(1) by (auto simp: component_of_def bind_eq_Some_conv split: if_splits)
  show ?case
  proof (cases "cm = m")
    case True
    then have "find_component D x raws = find_component D x [r]"
      using dec name Cons.prems(5) r(3) by (simp add: Let_def)
    with c r True show ?thesis by blast
  next
    case False
    with Cons.prems have cm: "cm \<in> set cms" "cmName m \<noteq> cmName cm" by auto
    let ?x = "x\<lparr>cmRevisionHash := map_get (compLabels c) LabelComponentRevisionHash\<rparr>"
    have "find_component D x raws = find_component D ?x rs"
      using dec name cm Cons.prems(5) r(3) by (simp add: Let_def)
    moreover have "cmName ?x = cmName cm" using Cons.prems(5) by simp
    with Cons.IH [OF c(2) r(2) _ cm(1), of ?x] Cons.prems(3) obtain c' r' where
      "component_of E cm = Some c'" "eComponent E c' = Some r'" "find_component D ?x rs = find_component D ?x [r']"
      by auto
    moreover have "find_component D ?x [r'] = find_component D x [r']" if "eComponent E c' = Some r'" "component_of E cm = Some c'" for c' r'
      using codec_docD(2) [OF doc that(1)] that(2) Cons.prems(5)
      by (auto simp: Let_def component_of_def bind_eq_Some_conv split: if_splits)
    ultimately show ?thesis by metis
  qed
qed simp


lemma manifest_restored:
  assumes doc: "codec_doc E D" and cm: "cm \<in> set cms" and d: "distinct (map cmName cms)"
    and comps: "those (map (component_of E) cms) = Some comps" "those (map (eComponent E) comps) = Some raws"
    and acc: "acc_of E cm = Some acc" and complete: "complete_manifest cm"
  shows "component_manifest_of D raws acc = Inr (restored cm)"
proof (cases "cmInsertConfigNotReady cm")
  case True
  with acc have "acc = \<lparr>accComponentName = cmName cm, accRevisionName = ''--'', accTraits = [], accScopes = []\<rparr>"
    by (simp add: acc_of_def)
  with True show ?thesis by (simp add: component_manifest_of_def restored_def)
next
  case False
  let ?x = "\<lparr>cmName = cmName cm, cmRevisionName = cmRevisionName cm, cmRevisionHash = '''',
             cmStandardWorkload = None, cmTraits = [], cmScopes = [], cmPackagedWorkloadResources = [],
             cmInsertConfigNotReady = False\<rparr>"
  obtain ts where ts: "those (map (\<lambda>t. eObject E (Some t)) (cmTraits cm)) = Some ts"
    and acc': "acc = \<lparr>accComponentName = cmName cm, accRevisionName = cmRevisionName cm, accTraits = ts,
                    accScopes = cmScopes cm\<rparr>"
    using acc False by (auto simp: acc_of_def bind_eq_Some_conv)
  have traits: "map_result (RawExtension2Unstructured D) ts = Inr (cmTraits cm)"
    by (rule map_result_those [OF _ ts]) (rule codec_docD(1) [OF doc])
  have "cmName ?x = cmName cm" by simp
  from find_component_saved [OF doc comps d cm this] obtain c r where
    c: "component_of E cm = Some c" "eComponent E c = Some r"
    and find: "find_component D ?x raws = find_component D ?x [r]" by blast
  from complete False obtain wl where wl: "cmStandardWorkload cm = Some wl" by (auto simp: complete_manifest_def)
  from c(1) wl False obtain w helm where w: "eObject E (Some wl) = Some w"
    and helm: "(if cmPackagedWorkloadResources cm \<noteq> []
                then map_option Some (helm_of E (cmPackagedWorkloadResources cm) ('''', '''')) else Some None) = Some helm"
    and c': "c = \<lparr>compName = cmName cm, compLabels = Some [LabelComponentRevisionHash \<mapsto> cmRevisionHash cm],
                  compWorkload = w, compHelm = helm\<rparr>"
    by (auto simp: component_of_def bind_eq_Some_conv)
  have dec: "RawExtension2Component D r = Inr c" "RawExtension2Unstructured D w = Inr wl"
    by (rule codec_docD(2) [OF doc c(2)], rule codec_docD(1) [OF doc w])
  have "find_component D ?x [r] = Inr (cm\<lparr>cmTraits := [], cmScopes := []\<rparr>)"
  proof (cases "cmPackagedWorkloadResources cm")
    case Nil
    with helm dec wl False show ?thesis by (simp add: c' map_get_def)
  next
    case (Cons a as)
    with complete False obtain rls repo where pk: "cmPackagedWorkloadResources cm = [rls, repo]"
      "uKind rls = HelmReleaseKind" "uKind repo = HelmRepositoryKind"
      by (auto simp: complete_manifest_def)
    then obtain a b where "eObject E (Some rls) = Some a" "eObject E (Some repo) = Some b" "helm = Some (a, b)"
      using helm by (auto simp: bind_eq_Some_conv HelmReleaseKind_def HelmRepositoryKind_def)
    with codec_docD(1) [OF doc] dec wl False pk show ?thesis by (simp add: c' map_get_def)
  qed
  with find traits complete False show ?thesis
    by (simp add: component_manifest_of_def acc' restored_def complete_manifest_def)
qed

text \<open>
  C20: Saving the component manifests of an application in its revision and reading them back gives
  the same manifests in the same order: names, revision names and hashes, workloads, traits,
  scopes and Helm resources.  Only a component that was not ready comes back empty, and no longer
  marked as not ready.
\<close>

theorem saved_manifests_roundtrip:
  assumes doc: "codec_doc E D" and saved: "componentManifests2AppConfig E cms = Some (acRaw, raws)"
    and names: "distinct (map cmName cms)" and complete: "list_all complete_manifest cms"
  shows "AppConfig2ComponentManifests D acRaw raws = Inr (map restored cms)"
proof -
  from saved obtain accs comps where
    accs: "those (map (acc_of E) cms) = Some accs" "eAppConfig E accs = Some acRaw"
    and comps: "those (map (component_of E) cms) = Some comps" "those (map (eComponent E) comps) = Some raws"
    by (auto simp: componentManifests2AppConfig_def bind_eq_Some_conv)
  have "component_manifest_of D raws acc = Inr (restored cm)"
    if "cm \<in> set cms" "acc_of E cm = Some acc" for cm acc
    using that complete by (intro manifest_restored [OF doc that(1) names comps that(2)]) (simp add: list_all_iff)
  moreover have "\<forall>cms'. set cms' \<subseteq> set cms \<longrightarrow> (\<forall>accs. those (map (acc_of E) cms') = Some accs \<longrightarrow>
      map_result (component_manifest_of D raws) accs = Inr (map restored cms'))"
  proof (intro allI impI)
    fix cms' accs
    show "set cms' \<subseteq> set cms \<Longrightarrow> those (map (acc_of E) cms') = Some accs \<Longrightarrow>
      map_result (component_manifest_of D raws) accs = Inr (map restored cms')"
      by (induction cms' arbitrary: accs) (auto simp: those_Cons calculation simp del: those.simps(2))
  qed
  ultimately have "map_result (component_manifest_of D raws) accs = Inr (map restored cms)"
    using accs(1) by blast
  with codec_docD(3) [OF doc accs(2)] show ?thesis by (simp add: AppConfig2ComponentManifests_def)
qed

definition plain_manifest :: "string \<Rightarrow> component_manifest" where
  "plain_manifest n =
     \<lparr>cmName = n, cmRevisionName = n @ ''-v1'', cmRevisionHash = ''h'',
      cmStandardWorkload = Some (example_object ''v1'' ''Pod'' n), cmTraits = [], cmScopes = [],
      cmPackagedWorkloadResources = [], cmInsertConfigNotReady = False\<rparr>"

definition plain_component :: component where
  "plain_component = \<lparr>compName = ''web'', compLabels = Some [LabelComponentRevisionHash \<mapsto> ''h''],
                      compWorkload = ''wl'', compHelm = None\<rparr>"

definition plain_acc :: app_config_component where
  "plain_acc = \<lparr>accComponentName = ''web'', accRevisionName = ''web-v1'', accTraits = [], accScopes = []\<rparr>"

definition plain_encoders :: encoders where
  "plain_encoders =
     \<lparr>eObject = (\<lambda>u. if u = Some (example_object ''v1'' ''Pod'' ''web'') then Some ''wl'' else None),
      eComponent = (\<lambda>c. if c = plain_component then Some ''comp'' else None),
      eAppConfig = (\<lambda>accs. if accs = [plain_acc] then Some ''ac'' else None)\<rparr>"

definition plain_decoders :: decoders where
  "plain_decoders =
     \<lparr>dMarshalRaw = Inr, dUnmarshalAppConfig = (\<lambda>r. Inr [plain_acc]),
      dUnmarshalComponent = (\<lambda>r. Inr plain_component),
      dUnmarshalObject = (\<lambda>r. Inr (example_object ''v1'' ''Pod'' ''web''))\<rparr>"

theorem saved_manifests_roundtrip_witness:
  "AppConfig2ComponentManifests plain_decoders ''ac'' [''comp''] = Inr [plain_manifest ''web'']"
proof -
  have doc: "codec_doc plain_encoders plain_decoders"
    by (auto simp: codec_doc_def plain_encoders_def plain_decoders_def RawExtension2Component_def
        RawExtension2AppConfig_def split: if_splits)
  have "component_of plain_encoders (plain_manifest ''web'') = Some plain_component"
    by (simp add: component_of_def plain_manifest_def plain_encoders_def plain_component_def)
  moreover have "acc_of plain_encoders (plain_manifest ''web'') = Some plain_acc"
    by (simp add: acc_of_def plain_manifest_def plain_acc_def)
  ultimately have saved: "componentManifests2AppConfig plain_encoders [plain_manifest ''web''] = Some (''ac'', [''comp''])"
    by (simp add: componentManifests2AppConfig_def) (simp add: plain_encoders_def)
  have "distinct (map cmName [plain_manifest ''web''])" "list_all complete_manifest [plain_manifest ''web'']"
    by (simp_all add: complete_manifest_def plain_manifest_def)
  from saved_manifests_roundtrip [OF doc saved this] show ?thesis
    by (simp add: restored_def plain_manifest_def)
qed

end
