(* ===== verification/Apply.thy ===== *)
theory Apply
  imports K8s_Objects
begin

text \<open>
  The applicator of pkg/utils/apply (apply.go and patch.go): create an object, or patch the
  existing one with a three-way merge whose third party is kept in an annotation.  The objects
  that are applied have metadata, as every caller's do.  An operation returns the object as it is in
  memory afterwards, since it works on a pointer; an error is its text.
\<close>

section \<open>The annotation with the last applied configuration\<close>

definition getOriginalConfiguration :: "unstructured \<Rightarrow> string option" where
  "getOriginalConfiguration u = map_lookup (uAnnotations u) AnnotationLastAppliedConfig"

text \<open>
  The serialised object, or the error of json.Marshal, and the object as it is left.  \<open>annots\<close> is
  the map that the object's annotations give, with the key deleted.
\<close>

definition getModifiedConfiguration ::
  "'w kube \<Rightarrow> unstructured \<Rightarrow> bool \<Rightarrow> (string + string) \<times> unstructured" where
  "getModifiedConfiguration K u updateAnnotation =
     (let annots = (case uAnnotations u of None \<Rightarrow> Map.empty | Some m \<Rightarrow> m);
          original = map_get (Some annots) AnnotationLastAppliedConfig;
          annots = annots(AnnotationLastAppliedConfig := None);
          u = u\<lparr>uAnnotations := (if annots = Map.empty then None else Some annots)\<rparr>
      in case kMarshal K u of
           Inl err \<Rightarrow> (Inl err, u)
         | Inr modified \<Rightarrow>
             if updateAnnotation then
               (let annots = annots(AnnotationLastAppliedConfig \<mapsto> modified);
                    u = u\<lparr>uAnnotations := Some annots\<rparr>
                in case kMarshal K u of
                     Inl err \<Rightarrow> (Inl err, u)
                   | Inr modified \<Rightarrow>
                       (Inr modified,
                        u\<lparr>uAnnotations := Some (annots(AnnotationLastAppliedConfig \<mapsto> original))\<rparr>))
             else (Inr modified,
                   u\<lparr>uAnnotations := Some (annots(AnnotationLastAppliedConfig \<mapsto> original))\<rparr>))"

definition addLastAppliedConfigAnnotation ::
  "'w kube \<Rightarrow> unstructured \<Rightarrow> string option \<times> unstructured" where
  "addLastAppliedConfigAnnotation K obj =
     (case getModifiedConfiguration K obj False of
        (Inl err, obj) \<Rightarrow> (Some err, obj)
      | (Inr config, obj) \<Rightarrow>
          (None, obj\<lparr>uAnnotations := Some ((case uAnnotations obj of None \<Rightarrow> Map.empty | Some m \<Rightarrow> m)
                      (AnnotationLastAppliedConfig \<mapsto> config))\<rparr>))"

text \<open>The patch, or the error, and the modified object as it is left.\<close>

definition threeWayMergePatch ::
  "'w kube \<Rightarrow> unstructured \<Rightarrow> unstructured \<Rightarrow> (string + patch) \<times> unstructured" where
  "threeWayMergePatch K currentObj modifiedObj =
     (case kMarshal K currentObj of
        Inl err \<Rightarrow> (Inl err, modifiedObj)
      | Inr current \<Rightarrow>
          (let original = getOriginalConfiguration currentObj in
           case getModifiedConfiguration K modifiedObj True of
             (Inl err, modifiedObj) \<Rightarrow> (Inl err, modifiedObj)
           | (Inr modified, modifiedObj) \<Rightarrow>
               (case kSchemeNew K (uAPIVersion currentObj) (uKind currentObj) of
                  NotRegistered \<Rightarrow>
                    (case kThreeWayJSON K original modified current of
                       Inl err \<Rightarrow> (Inl err, modifiedObj)
                     | Inr patchData \<Rightarrow> (Inr (MergePatchType, patchData), modifiedObj))
                | SchemeError err \<Rightarrow> (Inl err, modifiedObj)
                | Registered versionedObject \<Rightarrow>
                    (case kPatchMeta K versionedObject of
                       Inl err \<Rightarrow> (Inl err, modifiedObj)
                     | Inr lookupPatchMeta \<Rightarrow>
                         (case kThreeWayStrategic K original modified current lookupPatchMeta of
                            Inl err \<Rightarrow> (Inl err, modifiedObj)
                          | Inr patchData \<Rightarrow> (Inr (StrategicMergePatchType, patchData), modifiedObj))))))"

section \<open>Apply options\<close>

text \<open>An option looks at the existing object, when there is one, and at the desired one.\<close>

type_synonym apply_option = "unstructured option \<Rightarrow> unstructured \<Rightarrow> string option"

definition MustBeControllableBy :: "'w kube \<Rightarrow> string \<Rightarrow> apply_option" where
  "MustBeControllableBy K u existing desired =
     (case existing of
        None \<Rightarrow> None
      | Some e \<Rightarrow>
          (case kGetControllerOf K (uOwnerReferences e) of
             None \<Rightarrow> None
           | Some c \<Rightarrow>
               if orUID c \<noteq> u then Some (''existing object is not controlled by UID '' @ u) else None))"

definition MustBeControllableByAny :: "'w kube \<Rightarrow> string list \<Rightarrow> apply_option" where
  "MustBeControllableByAny K ctrlUIDs existing desired =
     (case existing of
        None \<Rightarrow> None
      | Some e \<Rightarrow>
          if length ctrlUIDs = 0 then None
          else (case kGetControllerOf K (uOwnerReferences e) of
                  None \<Rightarrow> None
                | Some c \<Rightarrow>
                    if length (map_get (uAnnotations e) AnnotationKubeVelaVersion) = 0 then None
                    else if orUID c \<in> set ctrlUIDs then None
                    else Some (''existing object is not controlled by any of UID '' @ concat ctrlUIDs)))"

fun executeApplyOptions ::
  "unstructured option \<Rightarrow> unstructured \<Rightarrow> apply_option list \<Rightarrow> string option" where
  "executeApplyOptions existing desired [] = None"
| "executeApplyOptions existing desired (f # fs) =
     (case f existing desired of
        Some err \<Rightarrow> Some (errors_Wrap err ''cannot apply ApplyOption'')
      | None \<Rightarrow> executeApplyOptions existing desired fs)"

section \<open>Apply\<close>

definition applyCreate ::
  "'w kube \<Rightarrow> unstructured \<Rightarrow> apply_option list \<Rightarrow> 'w \<Rightarrow>
     ((string + unstructured option) \<times> unstructured) \<times> 'w" where
  "applyCreate K desired ao w =
     (case executeApplyOptions None desired ao of
        Some err \<Rightarrow> ((Inl err, desired), w)
      | None \<Rightarrow>
          (case addLastAppliedConfigAnnotation K desired of
             (Some err, desired) \<Rightarrow> ((Inl err, desired), w)
           | (None, desired) \<Rightarrow>
               (case kCreate K desired w of
                  ((Some err, desired), w) \<Rightarrow>
                    ((Inl (errors_Wrap (errText err) ''cannot create object''), desired), w)
                | ((None, desired), w) \<Rightarrow> ((Inr None, desired), w))))"

definition createOrGetExisting ::
  "'w kube \<Rightarrow> unstructured \<Rightarrow> apply_option list \<Rightarrow> 'w \<Rightarrow>
     ((string + unstructured option) \<times> unstructured) \<times> 'w" where
  "createOrGetExisting K desired ao w =
     (if uName desired = '''' \<and> uGenerateName desired \<noteq> '''' then applyCreate K desired ao w
      else (case kGet K (uAPIVersion desired) (uKind desired) (uNamespace desired, uName desired) w of
              (Inl err, w) \<Rightarrow>
                if errNotFound err then applyCreate K desired ao w
                else ((Inl (errors_Wrap (errText err) ''cannot get object''), desired), w)
            | (Inr existing, w) \<Rightarrow> ((Inr (Some existing), desired), w)))"

definition Apply ::
  "'w kube \<Rightarrow> unstructured \<Rightarrow> apply_option list \<Rightarrow> 'w \<Rightarrow> (string option \<times> unstructured) \<times> 'w" where
  "Apply K desired ao w =
     (case createOrGetExisting K desired ao w of
        ((Inl err, desired), w) \<Rightarrow> ((Some err, desired), w)
      | ((Inr None, desired), w) \<Rightarrow> ((None, desired), w)
      | ((Inr (Some existing), desired), w) \<Rightarrow>
          (case executeApplyOptions (Some existing) desired ao of
             Some err \<Rightarrow> ((Some err, desired), w)
           | None \<Rightarrow>
               (case threeWayMergePatch K existing desired of
                  (Inl err, desired) \<Rightarrow>
                    ((Some (errors_Wrap err ''cannot calculate patch by computing a three way diff''),
                      desired), w)
                | (Inr patch, desired) \<Rightarrow>
                    (case kPatch K desired patch w of
                       ((Some err, desired), w) \<Rightarrow>
                         ((Some (errors_Wrap (errText err) ''cannot patch object''), desired), w)
                     | ((None, desired), w) \<Rightarrow> ((None, desired), w)))))"

section \<open>What is recorded\<close>

definition annotations_of :: "unstructured \<Rightarrow> (string \<rightharpoonup> string)" where
  "annotations_of u = (case uAnnotations u of None \<Rightarrow> Map.empty | Some m \<Rightarrow> m)"

text \<open>The object whose serialisation is recorded: without the record itself.\<close>

definition without_last_applied :: "unstructured \<Rightarrow> unstructured" where
  "without_last_applied u =
     (let annots = (annotations_of u)(AnnotationLastAppliedConfig := None)
      in u\<lparr>uAnnotations := (if annots = Map.empty then None else Some annots)\<rparr>)"

lemma annotations_of_upd [simp]:
  "annotations_of (u\<lparr>uAnnotations := m\<rparr>) = (case m of None \<Rightarrow> Map.empty | Some f \<Rightarrow> f)"
  by (simp add: annotations_of_def)

lemma map_get_annotations [simp]:
  "map_get (Some (annotations_of u)) k = map_get (uAnnotations u) k"
  by (simp add: annotations_of_def map_get_def split: option.splits)

lemma getModifiedConfiguration_plain:
  "fst (getModifiedConfiguration K u False) = kMarshal K (without_last_applied u)"
  by (simp add: getModifiedConfiguration_def without_last_applied_def Let_def flip: annotations_of_def
      split: sum.splits)

lemma upd_after_empty: "f(k := None) = Map.empty \<Longrightarrow> \<forall>v. f(k \<mapsto> v) = [k \<mapsto> v]"
  by (metis fun_upd_upd)

lemma getModifiedConfiguration_left:
  "getModifiedConfiguration K u b = (Inr s, v) \<Longrightarrow>
   v = u\<lparr>uAnnotations := Some ((annotations_of u)
           (AnnotationLastAppliedConfig \<mapsto> map_get (uAnnotations u) AnnotationLastAppliedConfig))\<rparr>"
  by (auto simp: getModifiedConfiguration_def Let_def simp flip: annotations_of_def
      dest: upd_after_empty split: sum.splits if_splits)

lemma addLastApplied_ok:
  assumes "addLastAppliedConfigAnnotation K u = (None, v)"
  obtains config where "kMarshal K (without_last_applied u) = Inr config"
    and "v = u\<lparr>uAnnotations := Some ((annotations_of u)(AnnotationLastAppliedConfig \<mapsto> config))\<rparr>"
proof -
  obtain config x where x: "getModifiedConfiguration K u False = (Inr config, x)"
    using assms by (auto simp: addLastAppliedConfigAnnotation_def split: prod.splits sum.splits)
  with getModifiedConfiguration_plain [of K u] have "kMarshal K (without_last_applied u) = Inr config"
    by simp
  moreover from assms x getModifiedConfiguration_left [OF x]
  have "v = u\<lparr>uAnnotations := Some ((annotations_of u)(AnnotationLastAppliedConfig \<mapsto> config))\<rparr>"
    by (simp add: addLastAppliedConfigAnnotation_def)
  ultimately show thesis by (rule that)
qed

lemma without_last_applied_again:
  "without_last_applied (u\<lparr>uAnnotations := Some ((annotations_of u)(AnnotationLastAppliedConfig := x))\<rparr>) =
   without_last_applied u"
  by (simp add: without_last_applied_def Let_def)

text \<open>
  What creation records is what the next update reads back.  The object that is sent carries
  in its annotation the serialisation of the desired object without that annotation; nothing else
  of the object is changed; and computing the configuration of the sent object again gives the
  same text, so that records do not nest.
\<close>

theorem last_applied_roundtrip:
  assumes "addLastAppliedConfigAnnotation K desired = (None, sent)"
  shows "\<exists>config. kMarshal K (without_last_applied desired) = Inr config \<and>
           getOriginalConfiguration sent = Some config \<and>
           fst (getModifiedConfiguration K sent False) = Inr config \<and>
           without_last_applied sent = without_last_applied desired"
  using assms
proof (rule addLastApplied_ok)
  fix config
  assume m: "kMarshal K (without_last_applied desired) = Inr config"
    and sent: "sent = desired\<lparr>uAnnotations := Some ((annotations_of desired)(AnnotationLastAppliedConfig \<mapsto> config))\<rparr>"
  from sent have "without_last_applied sent = without_last_applied desired"
    by (simp only: without_last_applied_again)
  with m sent show ?thesis
    by (intro exI [of _ config]) (simp add: getModifiedConfiguration_plain getOriginalConfiguration_def)
qed

text \<open>
  Serialising an object for a patch does not put its annotations back: an object that had no
  record is left with an empty one, which reads as a configuration that is not absent.
\<close>

theorem annotations_not_restored:
  assumes "getModifiedConfiguration K u b = (Inr s, v)" and "getOriginalConfiguration u = None"
  shows "getOriginalConfiguration v = Some '''' \<and> v \<noteq> u \<and>
         (case uAnnotations u of None \<Rightarrow> uAnnotations v = Some [AnnotationLastAppliedConfig \<mapsto> '''']
          | Some m \<Rightarrow> uAnnotations v = Some (m(AnnotationLastAppliedConfig \<mapsto> '''')))"
proof -
  have "map_get (uAnnotations u) AnnotationLastAppliedConfig = ''''"
    using assms(2) by (simp add: getOriginalConfiguration_def map_get_lookup)
  with getModifiedConfiguration_left [OF assms(1)]
  have v: "v = u\<lparr>uAnnotations := Some ((annotations_of u)(AnnotationLastAppliedConfig \<mapsto> ''''))\<rparr>" by simp
  then have o1: "getOriginalConfiguration v = Some ''''" by (simp add: getOriginalConfiguration_def)
  with assms(2) have "v \<noteq> u" by auto
  with v o1 show ?thesis by (simp add: annotations_of_def split: option.splits)
qed

section \<open>Whose objects are written\<close>

definition may_control :: "'w kube \<Rightarrow> string list \<Rightarrow> unstructured \<Rightarrow> bool" where
  "may_control K uids e \<longleftrightarrow>
     uids = [] \<or> map_get (uAnnotations e) AnnotationKubeVelaVersion = '''' \<or>
     (case kGetControllerOf K (uOwnerReferences e) of None \<Rightarrow> True | Some c \<Rightarrow> orUID c \<in> set uids)"

lemma MustBeControllableByAny_accepts:
  "MustBeControllableByAny K uids (Some e) desired = None \<longleftrightarrow> may_control K uids e"
  by (auto simp: MustBeControllableByAny_def may_control_def split: option.splits)

lemma executeApplyOptions_None: "executeApplyOptions e d ao = None \<longleftrightarrow> (\<forall>f \<in> set ao. f e d = None)"
  by (induction ao) (auto split: option.splits)

lemma Apply_existing:
  assumes "kGet K (uAPIVersion desired) (uKind desired) (uNamespace desired, uName desired) w = (Inr e, w1)"
    and "uName desired \<noteq> ''''"
  shows "Apply K desired ao w =
     (case executeApplyOptions (Some e) desired ao of
        Some err \<Rightarrow> ((Some err, desired), w1)
      | None \<Rightarrow>
          (case threeWayMergePatch K e desired of
             (Inl err, d) \<Rightarrow>
               ((Some (errors_Wrap err ''cannot calculate patch by computing a three way diff''), d), w1)
           | (Inr patch, d) \<Rightarrow>
               (case kPatch K d patch w1 of
                  ((Some err, d), w) \<Rightarrow> ((Some (errors_Wrap (errText err) ''cannot patch object''), d), w)
                | ((None, d), w) \<Rightarrow> ((None, d), w))))"
  using assms by (simp add: Apply_def createOrGetExisting_def)

text \<open>
  C12: With the option that its controller has one of the given identities, at least one, Apply does not touch an
  existing object that somebody else controls and that carries the annotation of the KubeVela version:
  it is refused, and the only call to the API server was the one that read it.  An object without the
  annotation, as legacy clusters have it, is not protected: the option alone then lets everything pass,
  whoever controls the object, and it is patched as without the option.
\<close>

theorem Apply_refuses_foreign:
  assumes "kGet K (uAPIVersion desired) (uKind desired) (uNamespace desired, uName desired) w = (Inr e, w1)"
    and "uName desired \<noteq> ''''" and "uids \<noteq> []"
    and "kGetControllerOf K (uOwnerReferences e) = Some owner" "orUID owner \<notin> set uids"
  shows "(map_get (uAnnotations e) AnnotationKubeVelaVersion \<noteq> '''' \<and> MustBeControllableByAny K uids \<in> set ao \<longrightarrow>
            (\<exists>err. Apply K desired ao w = ((Some err, desired), w1))) \<and>
         (map_get (uAnnotations e) AnnotationKubeVelaVersion = '''' \<longrightarrow>
            Apply K desired [MustBeControllableByAny K uids] w = Apply K desired [] w)"
proof -
  have control: "may_control K uids e \<longleftrightarrow> map_get (uAnnotations e) AnnotationKubeVelaVersion = ''''"
    using assms(3-5) by (simp add: may_control_def)
  have "\<exists>err. Apply K desired ao w = ((Some err, desired), w1)"
    if "\<not> may_control K uids e" "MustBeControllableByAny K uids \<in> set ao"
  proof -
    from that have "executeApplyOptions (Some e) desired ao \<noteq> None"
      using MustBeControllableByAny_accepts [of K uids e desired] executeApplyOptions_None [of "Some e" desired ao]
      by metis
    then obtain err where "executeApplyOptions (Some e) desired ao = Some err" by auto
    then show ?thesis by (simp add: Apply_existing [OF assms(1,2)])
  qed
  moreover have "Apply K desired [MustBeControllableByAny K uids] w = Apply K desired [] w" if "may_control K uids e"
    using that MustBeControllableByAny_accepts [of K uids e desired] by (simp add: Apply_existing [OF assms(1,2)])
  ultimately show ?thesis unfolding control by blast
qed


section \<open>Examples\<close>

theorem last_applied_roundtrip_witness:
  "getOriginalConfiguration (snd (addLastAppliedConfigAnnotation example_kube
     (example_object ''v1'' ''Service'' ''web''))) = Some ''web''"
proof -
  let ?d = "example_object ''v1'' ''Service'' ''web''"
  have "addLastAppliedConfigAnnotation example_kube ?d =
      (None, ?d\<lparr>uAnnotations := Some [AnnotationLastAppliedConfig \<mapsto> ''web'']\<rparr>)"
    by (simp add: addLastAppliedConfigAnnotation_def getModifiedConfiguration_def Let_def example_kube_def)
  from last_applied_roundtrip [OF this] this show ?thesis
    by (auto simp: example_kube_def without_last_applied_def Let_def)
qed

theorem annotations_not_restored_witness:
  "uAnnotations (snd (getModifiedConfiguration example_kube (example_object ''v1'' ''Service'' ''web'') True)) =
   Some [AnnotationLastAppliedConfig \<mapsto> '''']"
proof -
  let ?u = "example_object ''v1'' ''Service'' ''web''"
  have "getModifiedConfiguration example_kube ?u True =
      (Inr ''web'', ?u\<lparr>uAnnotations := Some [AnnotationLastAppliedConfig \<mapsto> '''']\<rparr>)"
    by (simp add: getModifiedConfiguration_def Let_def example_kube_def map_get_def)
  moreover have "getOriginalConfiguration ?u = None" by (simp add: getOriginalConfiguration_def)
  ultimately show ?thesis using annotations_not_restored by fastforce
qed

definition foreign_object :: unstructured where
  "foreign_object = (example_object ''v1'' ''Service'' ''web'')
     \<lparr>uAnnotations := Some [AnnotationKubeVelaVersion \<mapsto> ''1.0''],
      uOwnerReferences := [\<lparr>orAPIVersion = ''v1'', orKind = ''App'', orName = ''other'', orUID = ''other'',
                            orController = Some True, orBlockOwnerDeletion = None\<rparr>]\<rparr>"

theorem Apply_refuses_foreign_witness:
  "let w = \<lparr>kwObjects = [object_ref foreign_object \<mapsto> foreign_object], kwTrackers = Map.empty\<rparr>;
       r = Apply example_kube (example_object ''v1'' ''Service'' ''web'')
             [MustBeControllableByAny example_kube [''mine'']] w
   in fst (fst r) \<noteq> None \<and> snd r = w"
proof -
  let ?w = "\<lparr>kwObjects = [object_ref foreign_object \<mapsto> foreign_object], kwTrackers = Map.empty\<rparr>"
  let ?d = "example_object ''v1'' ''Service'' ''web''" and ?owner = "hd (uOwnerReferences foreign_object)"
  have get: "kGet example_kube (uAPIVersion ?d) (uKind ?d) (uNamespace ?d, uName ?d) ?w = (Inr foreign_object, ?w)"
    by (simp add: example_kube_def object_ref_def foreign_object_def)
  have owner: "kGetControllerOf example_kube (uOwnerReferences foreign_object) = Some ?owner" "orUID ?owner \<notin> set [''mine'']"
    by (simp_all add: foreign_object_def example_kube_def)
  have "map_get (uAnnotations foreign_object) AnnotationKubeVelaVersion \<noteq> ''''"
    by (simp add: foreign_object_def map_get_def)
  with Apply_refuses_foreign [OF get _ _ owner, of "[MustBeControllableByAny example_kube [''mine'']]"]
  have "\<exists>err. Apply example_kube ?d [MustBeControllableByAny example_kube [''mine'']] ?w = ((Some err, ?d), ?w)"
    by simp
  then show ?thesis by auto
qed

end
