(* ===== verification/Dispatch.thy ===== *)
theory Dispatch
  imports App_Revision Apply
begin

text \<open>
  The dispatcher of the application controller (application/dispatch): dispatch.go applies the
  manifests of an application revision and records them in the revision's resource tracker, gc.go
  deletes what an older tracker has and the newer one has not.

  The struct AppManifestsDispatcher is a record; a method gives the dispatcher as it is afterwards
  where it changes it, and the next world.
\<close>

section \<open>Garbage collection\<close>

record gc_handler =
  gcNamespace :: string
  gcOldRT :: "resource_tracker option"
  gcNewRT :: "resource_tracker option"

definition NewGCHandler :: "string \<Rightarrow> gc_handler" where
  "NewGCHandler ns = \<lparr>gcNamespace = ns, gcOldRT = None, gcNewRT = None\<rparr>"

text \<open>The two trackers are set by GarbageCollect before it validates them.\<close>

definition gc_validate :: "string \<Rightarrow> resource_tracker \<Rightarrow> resource_tracker \<Rightarrow> string option" where
  "gc_validate ns oldRT newRT =
     (if strings_HasSuffix (rtName oldRT) ns \<and> strings_HasSuffix (rtName newRT) ns \<and>
         ExtractAppName (rtName oldRT) ns = ExtractAppName (rtName newRT) ns
      then None
      else Some ''two resource trackers must come from the same application'')"

fun is_tracked :: "typed_reference \<Rightarrow> typed_reference list \<Rightarrow> bool" where
  "is_tracked r [] = False"
| "is_tracked r (t # ts) =
     (if refAPIVersion t = refAPIVersion r \<and> refKind t = refKind r \<and> refName t = refName r \<and>
         refNamespace t = refNamespace r
      then True else is_tracked r ts)"

definition ignore_NotFound :: "api_error option \<Rightarrow> api_error option" where
  "ignore_NotFound err =
     (case err of Some e \<Rightarrow> if errNotFound e then None else Some e | None \<Rightarrow> None)"

fun gc_resources ::
  "'w kube \<Rightarrow> typed_reference list \<Rightarrow> typed_reference list \<Rightarrow> 'w \<Rightarrow> string option \<times> 'w" where
  "gc_resources K [] new w = (None, w)"
| "gc_resources K (oldRsc # old) new w =
     (if is_tracked oldRsc new then gc_resources K old new w
      else (case kDelete K oldRsc w of
              (err, w) \<Rightarrow>
                (case ignore_NotFound err of
                   Some e \<Rightarrow> (Some (errors_Wrap (errText e) (''cannot delete resource '' @ refName oldRsc)), w)
                 | None \<Rightarrow> gc_resources K old new w)))"

definition GarbageCollect ::
  "'w kube \<Rightarrow> gc_handler \<Rightarrow> resource_tracker \<Rightarrow> resource_tracker \<Rightarrow> 'w \<Rightarrow> string option \<times> 'w" where
  "GarbageCollect K h oldRT newRT w =
     (case gc_validate (gcNamespace h) oldRT newRT of
        Some err \<Rightarrow> (Some err, w)
      | None \<Rightarrow>
          (case gc_resources K (tracked oldRT) (tracked newRT) w of
             (Some err, w) \<Rightarrow> (Some err, w)
           | (None, w) \<Rightarrow>
               (case kDeleteTracker K oldRT w of
                  (err, w) \<Rightarrow>
                    (case ignore_NotFound err of
                       Some e \<Rightarrow>
                         (Some (errors_Wrap (errText e) (''cannot delete resource tracker '' @ rtName oldRT)), w)
                     | None \<Rightarrow> (None, w)))))"

section \<open>The dispatcher\<close>

record dispatcher =
  dGC :: gc_handler
  dAppRev :: "app_revision option"
  dPreviousRT :: "resource_tracker option"
  dSkipGC :: bool
  dAppRevName :: string
  dNamespace :: string
  dCurrentRTName :: string
  dCurrentRT :: "resource_tracker option"

text \<open>Reading the namespace of a nil revision panics.\<close>

definition NewAppManifestsDispatcher :: "app_revision option \<Rightarrow> dispatcher option" where
  "NewAppManifestsDispatcher appRev =
     (case appRev of
        None \<Rightarrow> None
      | Some appRevision \<Rightarrow>
          Some \<lparr>dGC = NewGCHandler (revNamespace appRevision), dAppRev = Some appRevision, dPreviousRT = None,
                dSkipGC = False, dAppRevName = '''', dNamespace = '''', dCurrentRTName = '''',
                dCurrentRT = None\<rparr>)"

definition EndAndGC :: "resource_tracker option \<Rightarrow> dispatcher \<Rightarrow> dispatcher" where
  "EndAndGC rt a =
     (case rt of None \<Rightarrow> a | Some r \<Rightarrow> a\<lparr>dPreviousRT := Some r, dSkipGC := False\<rparr>)"

definition StartAndSkipGC :: "resource_tracker option \<Rightarrow> dispatcher \<Rightarrow> dispatcher" where
  "StartAndSkipGC rt a =
     (case rt of None \<Rightarrow> a | Some r \<Rightarrow> a\<lparr>dPreviousRT := Some r, dSkipGC := True\<rparr>)"

text \<open>Whether there is a previous tracker under another name than the current one.\<close>

definition upgrades :: "dispatcher \<Rightarrow> bool" where
  "upgrades a \<longleftrightarrow> (case dPreviousRT a of None \<Rightarrow> False | Some r \<Rightarrow> rtName r \<noteq> dCurrentRTName a)"

definition validateAndComplete ::
  "'w kube \<Rightarrow> dispatcher \<Rightarrow> 'w \<Rightarrow> (string option \<times> dispatcher) \<times> 'w" where
  "validateAndComplete K a w =
     (case dAppRev a of
        None \<Rightarrow> ((Some ''given application revision is nil'', a), w)
      | Some ar \<Rightarrow>
          if revName ar = '''' \<or> revNamespace ar = ''''
          then ((Some ''given application revision has no name or namespace'', a), w)
          else
            let a = a\<lparr>dAppRevName := revName ar, dNamespace := revNamespace ar,
                      dCurrentRTName := ConstructResourceTrackerName (revName ar) (revNamespace ar)\<rparr>
            in case dPreviousRT a of
                 None \<Rightarrow> ((None, a), w)
               | Some prev \<Rightarrow>
                   if rtName prev \<noteq> dCurrentRTName a then
                     (case kGetTracker K (rtName prev) w of
                        (Inl err, w) \<Rightarrow>
                          ((Some (''given resource tracker '' @ rtName prev @ '' does not exist''), a), w)
                      | (Inr gotPreviousRT, w) \<Rightarrow> ((None, a\<lparr>dPreviousRT := Some gotPreviousRT\<rparr>), w))
                   else ((None, a), w))"

definition createOrGetResourceTracker ::
  "'w kube \<Rightarrow> dispatcher \<Rightarrow> 'w \<Rightarrow> (string option \<times> dispatcher) \<times> 'w" where
  "createOrGetResourceTracker K a w =
     (case kGetTracker K (dCurrentRTName a) w of
        (Inr rt, w) \<Rightarrow> ((None, a\<lparr>dCurrentRT := Some rt\<rparr>), w)
      | (Inl err, w) \<Rightarrow>
          if \<not> errNotFound err
          then ((Some (errors_Wrap (errText err) ''cannot get resource tracker''), a), w)
          else
            let rt = \<lparr>rtName = dCurrentRTName a, rtUID = '''',
                      rtLabels = Some [LabelAppName \<mapsto> ExtractAppName (dCurrentRTName a) (dNamespace a),
                                       LabelAppNamespace \<mapsto> dNamespace a],
                      rtTrackedResources = None\<rparr>
            in case kCreateTracker K rt w of
                 ((Some err, rt), w) \<Rightarrow>
                   ((Some (errors_Wrap (errText err) ''cannot create resource tracker''), a), w)
               | ((None, rt), w) \<Rightarrow> ((None, a\<lparr>dCurrentRT := Some rt\<rparr>), w))"

definition setOrOverrideControllerOwner :: "unstructured \<Rightarrow> owner_ref \<Rightarrow> unstructured" where
  "setOrOverrideControllerOwner obj controllerOwner =
     obj\<lparr>uOwnerReferences := controllerOwner #
       map (\<lambda>owner. if orController owner = Some True \<and> orUID owner \<noteq> orUID controllerOwner
                    then owner\<lparr>orController := Some False\<rparr> else owner) (uOwnerReferences obj)\<rparr>"

fun track_refs :: "typed_reference list \<Rightarrow> typed_reference list \<Rightarrow> typed_reference list" where
  "track_refs ts [] = ts"
| "track_refs ts (r # rs) = track_refs (if is_tracked r ts then ts else ts @ [r]) rs"

definition updateResourceTrackerStatus ::
  "'w kube \<Rightarrow> dispatcher \<Rightarrow> resource_tracker \<Rightarrow> unstructured list \<Rightarrow> 'w \<Rightarrow>
     (string option \<times> dispatcher) \<times> 'w" where
  "updateResourceTrackerStatus K a currentRT appliedManifests w =
     (let sts = Some (track_refs (tracked currentRT) (map object_ref appliedManifests));
          a = a\<lparr>dCurrentRT := Some (currentRT\<lparr>rtTrackedResources := sts\<rparr>)\<rparr>
      in case kRetryTracker K (\<lambda>w.
                case kGetTracker K (dCurrentRTName a) w of
                  (Inl err, w) \<Rightarrow> (Some err, w)
                | (Inr copyRT, w) \<Rightarrow> kUpdateTrackerStatus K (copyRT\<lparr>rtTrackedResources := sts\<rparr>) w) w of
           (Some err, w) \<Rightarrow>
             ((Some (errors_Wrap (errText err) ''cannot update resource tracker status''), a), w)
         | (None, w) \<Rightarrow> ((None, a), w))"

text \<open>The loop over the manifests; the objects are pointers, so it gives them back.\<close>

fun applyManifests ::
  "'w kube \<Rightarrow> owner_ref \<Rightarrow> apply_option list \<Rightarrow> unstructured list \<Rightarrow> 'w \<Rightarrow>
     (string + unstructured list) \<times> 'w" where
  "applyManifests K ownerRef ao [] w = (Inr [], w)"
| "applyManifests K ownerRef ao (rsc # manifests) w =
     (case Apply K (setOrOverrideControllerOwner rsc ownerRef) ao w of
        ((Some err, rsc), w) \<Rightarrow>
          (Inl (errors_Wrap err (''cannot apply manifest, name: '' @ uName rsc @ '' apiVersion: '' @
                                 uAPIVersion rsc @ '' kind: '' @ uKind rsc)), w)
      | ((None, rsc), w) \<Rightarrow>
          (case applyManifests K ownerRef ao manifests w of
             (Inl err, w) \<Rightarrow> (Inl err, w)
           | (Inr rscs, w) \<Rightarrow> (Inr (rsc # rscs), w)))"

definition ResourceTrackerKind :: string where
  "ResourceTrackerKind = ''ResourceTracker''"

definition tracker_owner :: "resource_tracker \<Rightarrow> owner_ref" where
  "tracker_owner rt =
     \<lparr>orAPIVersion = SchemeGroupVersion, orKind = ResourceTrackerKind, orName = rtName rt,
      orUID = rtUID rt, orController = Some True, orBlockOwnerDeletion = Some True\<rparr>"

text \<open>\<open>None\<close> is the panic of reading the UID of a nil tracker.\<close>

definition applyAndRecordManifests ::
  "'w kube \<Rightarrow> dispatcher \<Rightarrow> unstructured list \<Rightarrow> 'w \<Rightarrow> ((string option \<times> dispatcher) \<times> 'w) option" where
  "applyAndRecordManifests K a manifests w =
     (case dCurrentRT a of
        None \<Rightarrow> None
      | Some currentRT \<Rightarrow>
          let ctrlUIDs = [rtUID currentRT] @
                (case dPreviousRT a of Some prev \<Rightarrow> if upgrades a then [rtUID prev] else [] | None \<Rightarrow> []);
              applyOpts = [MustBeControllableByAny K ctrlUIDs]
          in Some (case applyManifests K (tracker_owner currentRT) applyOpts manifests w of
                     (Inl err, w) \<Rightarrow> ((Some err, a), w)
                   | (Inr rscs, w) \<Rightarrow> updateResourceTrackerStatus K a currentRT rscs w))"

definition dispatch_gc ::
  "'w kube \<Rightarrow> dispatcher \<Rightarrow> 'w \<Rightarrow> ((string + resource_tracker) \<times> 'w) option" where
  "dispatch_gc K a w =
     (case dCurrentRT a of
        None \<Rightarrow> None
      | Some currentRT \<Rightarrow>
          (case dPreviousRT a of
             Some prev \<Rightarrow>
               if \<not> dSkipGC a \<and> upgrades a then
                 Some (case GarbageCollect K (dGC a) prev currentRT w of
                         (Some err, w) \<Rightarrow>
                           (Inl (errors_Wrap err (''cannot do GC based on resource trackers '' @
                                  rtName prev @ '' and '' @ dCurrentRTName a)), w)
                       | (None, w) \<Rightarrow> (Inr currentRT, w))
               else Some (Inr currentRT, w)
           | None \<Rightarrow> Some (Inr currentRT, w)))"

text \<open>The manifests that Dispatch gets are not used by its callers afterwards.\<close>

definition Dispatch ::
  "'w kube \<Rightarrow> dispatcher \<Rightarrow> unstructured list \<Rightarrow> 'w \<Rightarrow> ((string + resource_tracker) \<times> 'w) option" where
  "Dispatch K a manifests w =
     (case validateAndComplete K a w of
        ((Some err, a), w) \<Rightarrow> Some (Inl err, w)
      | ((None, a), w) \<Rightarrow>
          (case createOrGetResourceTracker K a w of
             ((Some err, a), w) \<Rightarrow> Some (Inl err, w)
           | ((None, a), w) \<Rightarrow>
               (case applyAndRecordManifests K a manifests w of
                  None \<Rightarrow> None
                | Some ((Some err, a), w) \<Rightarrow> Some (Inl err, w)
                | Some ((None, a), w) \<Rightarrow> dispatch_gc K a w)))"


section \<open>Dispatch does not panic\<close>

lemma createOrGet_current:
  assumes "createOrGetResourceTracker K a w = ((None, a'), w')"
  shows "dCurrentRT a' \<noteq> None"
proof -
  have "case createOrGetResourceTracker K a w of ((err, b), v) \<Rightarrow> err = None \<longrightarrow> dCurrentRT b \<noteq> None"
    by (simp add: createOrGetResourceTracker_def Let_def split: prod.split sum.split option.split)
  with assms show ?thesis by simp
qed

lemma updateResourceTrackerStatus_current:
  "case updateResourceTrackerStatus K a rt ms w of ((err, b), v) \<Rightarrow> dCurrentRT b \<noteq> None"
  by (simp add: updateResourceTrackerStatus_def Let_def split: prod.split option.split)

lemma applyAndRecord_current:
  assumes "applyAndRecordManifests K a ms w = Some ((err, a'), w')"
  shows "dCurrentRT a' \<noteq> None"
proof -
  obtain rt where rt: "dCurrentRT a = Some rt"
    using assms by (cases "dCurrentRT a") (auto simp: applyAndRecordManifests_def)
  define ao where "ao = [MustBeControllableByAny K (rtUID rt #
      (case dPreviousRT a of Some prev \<Rightarrow> if upgrades a then [rtUID prev] else [] | None \<Rightarrow> []))]"
  obtain res w1 where all: "applyManifests K (tracker_owner rt) ao ms w = (res, w1)" by fastforce
  have step: "(case res of Inl e \<Rightarrow> ((Some e, a), w1)
       | Inr rs \<Rightarrow> updateResourceTrackerStatus K a rt rs w1) = ((err, a'), w')"
    using assms rt all by (simp add: applyAndRecordManifests_def Let_def flip: ao_def)
  show ?thesis
  proof (cases res)
    case (Inr rs)
    with step updateResourceTrackerStatus_current [of K a rt rs w1] show ?thesis by simp
  qed (use step rt in auto)
qed

lemma dispatch_gc_returns: "dCurrentRT a \<noteq> None \<Longrightarrow> dispatch_gc K a w \<noteq> None"
  by (auto simp: dispatch_gc_def split: option.splits)

lemma Dispatch_returns: "Dispatch K a ms w \<noteq> None"
proof -
  obtain e1 a1 w1 where v: "validateAndComplete K a w = ((e1, a1), w1)" by (metis prod.exhaust)
  obtain e2 a2 w2 where c: "createOrGetResourceTracker K a1 w1 = ((e2, a2), w2)" by (metis prod.exhaust)
  show ?thesis
  proof (cases "e1 = None \<and> e2 = None")
    case True
    with createOrGet_current c have "dCurrentRT a2 \<noteq> None" by metis
    then obtain rt where rt: "dCurrentRT a2 = Some rt" by blast
    have "applyAndRecordManifests K a2 ms w2 \<noteq> None"
      unfolding applyAndRecordManifests_def rt option.case Let_def by (rule option.discI) (rule refl)
    then obtain e3 a3 w3 where ap: "applyAndRecordManifests K a2 ms w2 = Some ((e3, a3), w3)"
      by (metis option.exhaust prod.exhaust)
    have "dispatch_gc K a3 w3 \<noteq> None"
      by (rule dispatch_gc_returns [OF applyAndRecord_current [OF ap]])
    with True v c ap show ?thesis by (cases e3) (simp_all add: Dispatch_def)
  next
    case False
    with v c show ?thesis by (cases e1; cases e2) (simp_all add: Dispatch_def)
  qed
qed

section \<open>What the API server promises\<close>

text \<open>
  A view of the world: the objects there are, and the trackers by their names.  The server answers
  truthfully and does what it acknowledges; nobody else changes the objects meanwhile.
  RetryOnConflict runs the operation one or more times and returns what the last run returned.
\<close>

type_synonym 'w view = "('w \<Rightarrow> typed_reference set) \<times> ('w \<Rightarrow> string \<rightharpoonup> resource_tracker)"

definition same_view :: "'w view \<Rightarrow> 'w \<Rightarrow> 'w \<Rightarrow> bool" where
  "same_view V w w' \<longleftrightarrow> fst V w' = fst V w \<and> snd V w' = snd V w"

definition get_doc :: "'w kube \<Rightarrow> 'w view \<Rightarrow> bool" where
  "get_doc K V \<longleftrightarrow> (\<forall>v k n w. same_view V w (snd (kGet K v k n w)) \<and>
     (\<forall>e. fst (kGet K v k n w) = Inr e \<longrightarrow>
        \<lparr>refAPIVersion = v, refKind = k, refName = snd n, refNamespace = fst n\<rparr> \<in> fst V w))"

definition get_tracker_doc :: "'w kube \<Rightarrow> 'w view \<Rightarrow> bool" where
  "get_tracker_doc K V \<longleftrightarrow> (\<forall>n w. same_view V w (snd (kGetTracker K n w)) \<and>
     (\<forall>rt. fst (kGetTracker K n w) = Inr rt \<longrightarrow> snd V w n = Some rt \<and> rtName rt = n) \<and>
     (\<forall>e. fst (kGetTracker K n w) = Inl e \<and> errNotFound e \<longrightarrow> snd V w n = None))"

definition create_doc :: "'w kube \<Rightarrow> 'w view \<Rightarrow> bool" where
  "create_doc K V \<longleftrightarrow> (\<forall>u w err u' w'. kCreate K u w = ((err, u'), w') \<longrightarrow> snd V w' = snd V w \<and>
     (err \<noteq> None \<longrightarrow> fst V w' = fst V w) \<and>
     (err = None \<and> uName u \<noteq> '''' \<longrightarrow> fst V w' = insert (object_ref u) (fst V w) \<and> object_ref u' = object_ref u))"

definition patch_doc :: "'w kube \<Rightarrow> 'w view \<Rightarrow> bool" where
  "patch_doc K V \<longleftrightarrow> (\<forall>u p w. same_view V w (snd (kPatch K u p w)) \<and>
     (fst (fst (kPatch K u p w)) = None \<longrightarrow> object_ref (snd (fst (kPatch K u p w))) = object_ref u))"

definition create_tracker_doc :: "'w kube \<Rightarrow> 'w view \<Rightarrow> bool" where
  "create_tracker_doc K V \<longleftrightarrow> (\<forall>t w err t' w'. kCreateTracker K t w = ((err, t'), w') \<longrightarrow>
     fst V w' = fst V w \<and> (err \<noteq> None \<longrightarrow> snd V w' = snd V w) \<and>
     (err = None \<longrightarrow> rtName t' = rtName t \<and> tracked t' = tracked t \<and> snd V w' = (snd V w)(rtName t \<mapsto> t')))"

definition update_tracker_doc :: "'w kube \<Rightarrow> 'w view \<Rightarrow> bool" where
  "update_tracker_doc K V \<longleftrightarrow> (\<forall>t w err w'. kUpdateTrackerStatus K t w = (err, w') \<longrightarrow>
     fst V w' = fst V w \<and> (err \<noteq> None \<longrightarrow> snd V w' = snd V w) \<and>
     (err = None \<longrightarrow> snd V w' = (snd V w)(rtName t \<mapsto> t)))"

definition delete_doc :: "'w kube \<Rightarrow> 'w view \<Rightarrow> bool" where
  "delete_doc K V \<longleftrightarrow> (\<forall>r w err w'. kDelete K r w = (err, w') \<longrightarrow> snd V w' = snd V w \<and>
     (err = None \<longrightarrow> fst V w' = fst V w - {r}) \<and>
     (\<forall>e. err = Some e \<longrightarrow> fst V w' = fst V w \<and> (errNotFound e \<longrightarrow> r \<notin> fst V w)))"

definition delete_tracker_doc :: "'w kube \<Rightarrow> 'w view \<Rightarrow> bool" where
  "delete_tracker_doc K V \<longleftrightarrow> (\<forall>t w err w'. kDeleteTracker K t w = (err, w') \<longrightarrow> fst V w' = fst V w \<and>
     (err = None \<longrightarrow> snd V w' = (snd V w)(rtName t := None)) \<and>
     (\<forall>e. err = Some e \<longrightarrow> snd V w' = snd V w \<and> (errNotFound e \<longrightarrow> snd V w (rtName t) = None)))"

definition retry_doc :: "'w kube \<Rightarrow> bool" where
  "retry_doc K \<longleftrightarrow> (\<forall>f w P. P w \<and> (\<forall>v. P v \<longrightarrow> P (snd (f v))) \<longrightarrow>
     P (snd (kRetryTracker K f w)) \<and>
     (fst (kRetryTracker K f w) = None \<longrightarrow> (\<exists>v. P v \<and> f v = (None, snd (kRetryTracker K f w)))))"

definition server_doc :: "'w kube \<Rightarrow> 'w view \<Rightarrow> bool" where
  "server_doc K V \<longleftrightarrow> get_doc K V \<and> get_tracker_doc K V \<and> create_doc K V \<and> patch_doc K V \<and>
     create_tracker_doc K V \<and> update_tracker_doc K V \<and> delete_doc K V \<and> delete_tracker_doc K V \<and>
     retry_doc K"

lemma server_docD:
  assumes "server_doc K V"
  shows "get_doc K V" "get_tracker_doc K V" "create_doc K V" "patch_doc K V" "create_tracker_doc K V"
    "update_tracker_doc K V" "delete_doc K V" "delete_tracker_doc K V" "retry_doc K"
  using assms by (simp_all add: server_doc_def)

lemma same_view_refl [simp]: "same_view V w w"
  by (simp add: same_view_def)

lemma same_view_trans [trans]: "same_view V a b \<Longrightarrow> same_view V b c \<Longrightarrow> same_view V a c"
  by (simp add: same_view_def)

lemma kGet_doc: "get_doc K V \<Longrightarrow> kGet K v k n w = (r, w') \<Longrightarrow> same_view V w w'"
  unfolding get_doc_def by (metis snd_conv)

lemma kGet_found:
  "get_doc K V \<Longrightarrow> kGet K v k n w = (Inr e, w') \<Longrightarrow>
   \<lparr>refAPIVersion = v, refKind = k, refName = snd n, refNamespace = fst n\<rparr> \<in> fst V w"
  unfolding get_doc_def by (metis fst_conv)

lemma kGetTracker_doc: "get_tracker_doc K V \<Longrightarrow> kGetTracker K n w = (r, w') \<Longrightarrow> same_view V w w'"
  unfolding get_tracker_doc_def by (metis snd_conv)

lemma kGetTracker_found:
  "get_tracker_doc K V \<Longrightarrow> kGetTracker K n w = (Inr rt, w') \<Longrightarrow> snd V w n = Some rt \<and> rtName rt = n"
  unfolding get_tracker_doc_def by (metis fst_conv)

lemma kGetTracker_NotFound:
  "get_tracker_doc K V \<Longrightarrow> kGetTracker K n w = (Inl e, w') \<Longrightarrow> errNotFound e \<Longrightarrow> snd V w n = None"
  unfolding get_tracker_doc_def by (metis fst_conv)

lemma kCreate_doc:
  "create_doc K V \<Longrightarrow> kCreate K u w = ((err, u'), w') \<Longrightarrow> snd V w' = snd V w \<and>
     (err \<noteq> None \<longrightarrow> fst V w' = fst V w) \<and>
     (err = None \<and> uName u \<noteq> '''' \<longrightarrow> fst V w' = insert (object_ref u) (fst V w) \<and> object_ref u' = object_ref u)"
  unfolding create_doc_def by blast

lemma kPatch_doc:
  "patch_doc K V \<Longrightarrow> kPatch K u p w = ((err, u'), w') \<Longrightarrow> same_view V w w'"
  "patch_doc K V \<Longrightarrow> kPatch K u p w = ((None, u'), w') \<Longrightarrow> object_ref u' = object_ref u"
  unfolding patch_doc_def by (metis snd_conv) (metis fst_conv snd_conv)

lemma kCreateTracker_doc:
  "create_tracker_doc K V \<Longrightarrow> kCreateTracker K t w = ((err, t'), w') \<Longrightarrow>
     fst V w' = fst V w \<and> (err \<noteq> None \<longrightarrow> snd V w' = snd V w) \<and>
     (err = None \<longrightarrow> rtName t' = rtName t \<and> tracked t' = tracked t \<and> snd V w' = (snd V w)(rtName t \<mapsto> t'))"
  unfolding create_tracker_doc_def by blast

lemma kUpdateTracker_doc:
  "update_tracker_doc K V \<Longrightarrow> kUpdateTrackerStatus K t w = (err, w') \<Longrightarrow>
     fst V w' = fst V w \<and> (err \<noteq> None \<longrightarrow> snd V w' = snd V w) \<and>
     (err = None \<longrightarrow> snd V w' = (snd V w)(rtName t \<mapsto> t))"
  unfolding update_tracker_doc_def by blast

lemma kDelete_doc:
  "delete_doc K V \<Longrightarrow> kDelete K r w = (err, w') \<Longrightarrow> snd V w' = snd V w \<and>
     (err = None \<longrightarrow> fst V w' = fst V w - {r}) \<and>
     (\<forall>e. err = Some e \<longrightarrow> fst V w' = fst V w \<and> (errNotFound e \<longrightarrow> r \<notin> fst V w))"
  unfolding delete_doc_def by blast

lemma kDeleteTracker_doc:
  "delete_tracker_doc K V \<Longrightarrow> kDeleteTracker K t w = (err, w') \<Longrightarrow> fst V w' = fst V w \<and>
     (err = None \<longrightarrow> snd V w' = (snd V w)(rtName t := None)) \<and>
     (\<forall>e. err = Some e \<longrightarrow> snd V w' = snd V w \<and> (errNotFound e \<longrightarrow> snd V w (rtName t) = None))"
  unfolding delete_tracker_doc_def by blast

section \<open>Garbage collection deletes the difference\<close>

lemma is_tracked_set [simp]: "is_tracked r ts \<longleftrightarrow> r \<in> set ts"
  by (induction ts) auto

lemma kDelete_ignoring:
  assumes "delete_doc K V" and "kDelete K r w = (err, w')"
  shows "if ignore_NotFound err = None then fst V w' = fst V w - {r} else fst V w' = fst V w"
  using kDelete_doc [OF assms] by (cases err) (auto simp: ignore_NotFound_def)

lemma kDeleteTracker_ignoring:
  assumes "delete_tracker_doc K V" and "kDeleteTracker K t w = (err, w')"
  shows "snd V w' = (if ignore_NotFound err = None then (snd V w)(rtName t := None) else snd V w)"
  using kDeleteTracker_doc [OF assms] by (cases err) (auto simp: ignore_NotFound_def)

lemma gc_resources_deletes:
  assumes doc: "delete_doc K V"
  shows "gc_resources K old new w = (err, w') \<Longrightarrow>
         snd V w' = snd V w \<and> fst V w' \<subseteq> fst V w \<and> fst V w - (set old - set new) \<subseteq> fst V w' \<and>
         (err = None \<longrightarrow> fst V w' = fst V w - (set old - set new))"
proof (induction old arbitrary: w)
  case (Cons r old)
  show ?case
  proof (cases "r \<in> set new")
    case True
    then have "set (r # old) - set new = set old - set new" by auto
    with Cons.IH [of w] Cons.prems True show ?thesis by simp
  next
    case False
    obtain e w1 where del: "kDelete K r w = (e, w1)" by fastforce
    note step = kDelete_ignoring [OF doc del]
    have trk: "snd V w1 = snd V w" using kDelete_doc [OF doc del] by blast
    show ?thesis
    proof (cases "ignore_NotFound e")
      case None
      with Cons.prems False del have "gc_resources K old new w1 = (err, w')" by simp
      from Cons.IH [OF this] step trk None False show ?thesis by auto
    next
      case (Some x)
      with Cons.prems False del have "err \<noteq> None" "w' = w1" by auto
      with step trk Some show ?thesis by auto
    qed
  qed
qed auto

lemma GarbageCollect_doc:
  assumes "delete_doc K V" and "delete_tracker_doc K V" and gc: "GarbageCollect K h oldRT newRT w = (err, w')"
  shows "fst V w - (set (tracked oldRT) - set (tracked newRT)) \<subseteq> fst V w' \<and> fst V w' \<subseteq> fst V w \<and>
         (if err = None then fst V w' = fst V w - (set (tracked oldRT) - set (tracked newRT)) \<and> snd V w' = (snd V w)(rtName oldRT := None)
          else snd V w' = snd V w) \<and>
         (gc_validate (gcNamespace h) oldRT newRT \<noteq> None \<longrightarrow> w' = w)"
proof (cases "gc_validate (gcNamespace h) oldRT newRT")
  case (Some e)
  with gc show ?thesis by (auto simp: GarbageCollect_def)
next
  case None
  obtain e1 w1 where res: "gc_resources K (tracked oldRT) (tracked newRT) w = (e1, w1)" by fastforce
  note d1 = gc_resources_deletes [OF assms(1) res]
  show ?thesis
  proof (cases e1)
    case (Some x)
    with gc None res d1 show ?thesis by (auto simp: GarbageCollect_def)
  next
    case e1: None
    obtain e2 w2 where del: "kDeleteTracker K oldRT w1 = (e2, w2)" by fastforce
    have w': "w' = w2" "err = None \<longleftrightarrow> ignore_NotFound e2 = None"
      using gc None res e1 del by (auto simp: GarbageCollect_def split: option.splits)
    have "fst V w2 = fst V w1" using kDeleteTracker_doc [OF assms(2) del] by blast
    with kDeleteTracker_ignoring [OF assms(2) del] d1 e1 None w' show ?thesis by auto
  qed
qed

text \<open>
  C13: Garbage collection deletes what the old tracker has and the new one has not, and then the old
  tracker.  When it fails, it has deleted nothing but such resources and has kept the trackers, so
  that it can be run again; and it refuses trackers of different applications before it deletes
  anything.
\<close>

theorem GarbageCollect_deletes_difference:
  assumes "delete_doc K V" and "delete_tracker_doc K V" and gc: "GarbageCollect K h oldRT newRT w = (err, w')"
  defines "gone \<equiv> set (tracked oldRT) - set (tracked newRT)"
  shows "fst V w - gone \<subseteq> fst V w' \<and> fst V w' \<subseteq> fst V w \<and>
         (if err = None then fst V w' = fst V w - gone \<and> snd V w' = (snd V w)(rtName oldRT := None)
          else snd V w' = snd V w) \<and>
         (gc_validate (gcNamespace h) oldRT newRT \<noteq> None \<longrightarrow> w' = w)"
  unfolding gone_def by (rule GarbageCollect_doc [OF assms(1-3)])

section \<open>Applying a manifest\<close>

lemma getModifiedConfiguration_frame:
  "object_ref (snd (getModifiedConfiguration K u b)) = object_ref u \<and>
   uName (snd (getModifiedConfiguration K u b)) = uName u"
  by (simp add: getModifiedConfiguration_def Let_def object_ref_def split: sum.splits)

lemma addLastApplied_frame:
  "addLastAppliedConfigAnnotation K u = (err, v) \<Longrightarrow> object_ref v = object_ref u \<and> uName v = uName u"
  using getModifiedConfiguration_frame [of K u False]
  by (auto simp: addLastAppliedConfigAnnotation_def object_ref_def split: prod.splits sum.splits)

lemma threeWayMergePatch_left:
  "snd (threeWayMergePatch K cur u) =
   (case kMarshal K cur of Inl _ \<Rightarrow> u | Inr _ \<Rightarrow> snd (getModifiedConfiguration K u True))"
proof (cases "kMarshal K cur")
  case (Inr current)
  obtain m x where m: "getModifiedConfiguration K u True = (m, x)" by fastforce
  show ?thesis
  proof (cases m)
    case (Inr modified)
    show ?thesis
    proof (cases "kSchemeNew K (uAPIVersion cur) (uKind cur)")
      case (Registered vo)
      show ?thesis
        unfolding threeWayMergePatch_def Let_def m \<open>m = Inr modified\<close> \<open>kMarshal K cur = Inr current\<close>
          sum.case prod.case Registered scheme_result.case
        by (cases "kPatchMeta K vo") (auto split: sum.splits)
    qed (auto simp: threeWayMergePatch_def m Inr \<open>kMarshal K cur = Inr current\<close> split: sum.splits)
  qed (simp add: threeWayMergePatch_def m \<open>kMarshal K cur = Inr current\<close>)
qed (simp add: threeWayMergePatch_def)

lemma threeWayMergePatch_frame:
  "threeWayMergePatch K cur u = (r, v) \<Longrightarrow> object_ref v = object_ref u \<and> uName v = uName u"
  using threeWayMergePatch_left [of K cur u] getModifiedConfiguration_frame [of K u True]
  by (simp split: sum.splits)

definition applied :: "'w view \<Rightarrow> typed_reference \<Rightarrow> 'w \<Rightarrow> 'w \<Rightarrow> string option \<Rightarrow> bool" where
  "applied V r w w' err \<longleftrightarrow> snd V w' = snd V w \<and>
     (if err = None then fst V w' = insert r (fst V w) else fst V w' = fst V w)"

lemma applyCreate_doc:
  assumes "create_doc K V" and "uName d \<noteq> ''''" and "applyCreate K d ao w = ((r, d'), w')"
  shows "applied V (object_ref d) w w' (case r of Inl e \<Rightarrow> Some e | Inr _ \<Rightarrow> None) \<and>
         (\<forall>x. r = Inr x \<longrightarrow> x = None \<and> object_ref d' = object_ref d)"
proof (cases "executeApplyOptions None d ao")
  case opts: None
  obtain err v where add: "addLastAppliedConfigAnnotation K d = (err, v)" by fastforce
  note v = addLastApplied_frame [OF add]
  show ?thesis
  proof (cases err)
    case None
    obtain e u w1 where c: "kCreate K v w = ((e, u), w1)" by (metis prod.exhaust)
    have res: "r = (case e of None \<Rightarrow> Inr None | Some x \<Rightarrow> Inl (errors_Wrap (errText x) ''cannot create object''))"
      "d' = u" "w' = w1"
      using assms(3) opts add None c by (auto simp: applyCreate_def split: option.splits)
    have name: "uName v \<noteq> ''''" using v assms(2) by simp
    note post = kCreate_doc [OF assms(1) c]
    show ?thesis
    proof (cases e)
      case None
      with post name v have "fst V w1 = insert (object_ref d) (fst V w) \<and> object_ref u = object_ref d"
        by simp
      with post None res show ?thesis by (simp add: applied_def)
    qed (use post res in \<open>simp add: applied_def\<close>)
  qed (use assms(3) opts add in \<open>auto simp: applyCreate_def applied_def\<close>)
qed (use assms(3) in \<open>auto simp: applyCreate_def applied_def\<close>)

lemma Apply_doc:
  assumes doc: "server_doc K V" and name: "uName d \<noteq> ''''" and ap: "Apply K d ao w = ((err, d'), w')"
  shows "applied V (object_ref d) w w' err \<and> (err = None \<longrightarrow> object_ref d' = object_ref d)"
proof -
  obtain r w1 where get: "kGet K (uAPIVersion d) (uKind d) (uNamespace d, uName d) w = (r, w1)" by fastforce
  note w1 = kGet_doc [OF server_docD(1) [OF doc] get, unfolded same_view_def]
  show ?thesis
  proof (cases r)
    case (Inl e)
    show ?thesis
    proof (cases "errNotFound e")
      case True
      obtain r2 d2 w2 where c: "applyCreate K d ao w1 = ((r2, d2), w2)" by (metis prod.exhaust)
      from applyCreate_doc [OF server_docD(3) [OF doc] name c] ap get Inl True name c w1
      show ?thesis
        by (cases r2) (auto simp: Apply_def createOrGetExisting_def applied_def)
    qed (use ap get Inl name w1 in \<open>auto simp: Apply_def createOrGetExisting_def applied_def\<close>)
  next
    case (Inr e)
    have "object_ref d \<in> fst V w"
      using kGet_found [OF server_docD(1) [OF doc]] get Inr by (fastforce simp: object_ref_def)
    then have same: "applied V (object_ref d) w w1 x" for x using w1 by (auto simp: applied_def)
    obtain p v where three: "threeWayMergePatch K e d = (p, v)" by fastforce
    note v = threeWayMergePatch_frame [OF three]
    have ap': "executeApplyOptions (Some e) d ao = None \<Longrightarrow> p = Inr q \<Longrightarrow>
        (case kPatch K v q w1 of
           ((Some err, d), w) \<Rightarrow> ((Some (errors_Wrap (errText err) ''cannot patch object''), d), w)
         | ((None, d), w) \<Rightarrow> ((None, d), w)) = ((err, d'), w')" for q
      using ap get Inr three name by (simp add: Apply_existing)
    show ?thesis
    proof (cases "executeApplyOptions (Some e) d ao = None \<and> (\<exists>q. p = Inr q)")
      case True
      then obtain q where q: "executeApplyOptions (Some e) d ao = None" "p = Inr q" by blast
      obtain x u w2 where patch: "kPatch K v q w1 = ((x, u), w2)" by (metis prod.exhaust)
      have "applied V (object_ref d) w w2 y" for y
        using same [of y] kPatch_doc(1) [OF server_docD(4) [OF doc] patch]
        by (simp add: applied_def same_view_def)
      then show ?thesis
        using ap' [OF q] patch kPatch_doc(2) [OF server_docD(4) [OF doc], of v q w1 u w2] v
        by (cases x) auto
    next
      case False
      then consider x where "executeApplyOptions (Some e) d ao = Some x"
        | q where "executeApplyOptions (Some e) d ao = None" "p = Inl q"
        by (cases "executeApplyOptions (Some e) d ao"; cases p) auto
      then have "\<exists>x u. Apply K d ao w = ((Some x, u), w1)"
        using get Inr three name by cases (simp_all add: Apply_existing)
      with ap have "err \<noteq> None \<and> w' = w1" by auto
      with same show ?thesis by blast
    qed
  qed
qed

lemma setOwner_frame [simp]:
  "object_ref (setOrOverrideControllerOwner u r) = object_ref u"
  "uName (setOrOverrideControllerOwner u r) = uName u"
  by (simp_all add: setOrOverrideControllerOwner_def object_ref_def)

lemma applyManifests_doc:
  assumes doc: "server_doc K V"
  shows "\<forall>m \<in> set ms. uName m \<noteq> '''' \<Longrightarrow> applyManifests K r ao ms w = (res, w') \<Longrightarrow>
     snd V w' = snd V w \<and> fst V w \<subseteq> fst V w' \<and>
     (\<forall>rs. res = Inr rs \<longrightarrow> map object_ref rs = map object_ref ms \<and>
        fst V w' = fst V w \<union> object_ref ` set ms)"
proof (induction ms arbitrary: w res w')
  case (Cons m ms)
  obtain err m' w1 where ap: "Apply K (setOrOverrideControllerOwner m r) ao w = ((err, m'), w1)"
    by (metis prod.exhaust)
  have name: "uName (setOrOverrideControllerOwner m r) \<noteq> ''''" using Cons.prems(1) by simp
  note step = Apply_doc [OF doc name ap, simplified]
  show ?case
  proof (cases err)
    case None
    obtain res1 w2 where rest: "applyManifests K r ao ms w1 = (res1, w2)" by fastforce
    have "\<forall>m \<in> set ms. uName m \<noteq> ''''" using Cons.prems(1) by simp
    note IH = Cons.IH [OF this rest]
    from IH step None Cons.prems(2) ap rest show ?thesis
      by (cases res1) (auto simp: applied_def)
  next
    case (Some e)
    with step Cons.prems(2) ap show ?thesis by (auto simp: applied_def)
  qed
qed auto

section \<open>Recording\<close>

lemma track_refs_set: "set (track_refs ts rs) = set ts \<union> set rs"
  by (induction ts rs rule: track_refs.induct) auto

lemma track_refs_distinct: "distinct ts \<Longrightarrow> distinct (track_refs ts rs)"
  by (induction ts rs rule: track_refs.induct) auto

lemma tracked_upd [simp]: "tracked (rt\<lparr>rtTrackedResources := Some ts\<rparr>) = ts"
  by (simp add: tracked_def)

lemma updateResourceTrackerStatus_doc:
  assumes doc: "server_doc K V" and rt: "snd V w (dCurrentRTName a) = Some rt0"
    and upd: "updateResourceTrackerStatus K a rt ms w = ((err, a'), w')"
  shows "fst V w' = fst V w \<and> (\<forall>n. n \<noteq> dCurrentRTName a \<longrightarrow> snd V w' n = snd V w n) \<and>
         a' = a\<lparr>dCurrentRT := Some (rt\<lparr>rtTrackedResources :=
                   Some (track_refs (tracked rt) (map object_ref ms))\<rparr>)\<rparr> \<and>
         (err = None \<longrightarrow> (\<exists>rt'. snd V w' (dCurrentRTName a) = Some rt' \<and>
            tracked rt' = track_refs (tracked rt) (map object_ref ms)))"
proof -
  let ?ts = "track_refs (tracked rt) (map object_ref ms)" and ?n = "dCurrentRTName a"
  define f where "f = (\<lambda>w. case kGetTracker K ?n w of
                  (Inl err, w) \<Rightarrow> (Some err, w)
                | (Inr copyRT, w) \<Rightarrow> kUpdateTrackerStatus K (copyRT\<lparr>rtTrackedResources := Some ?ts\<rparr>) w)"
  define P where "P v \<longleftrightarrow> fst V v = fst V w \<and> (\<forall>n. n \<noteq> ?n \<longrightarrow> snd V v n = snd V w n)" for v
  have one: "P (snd (f v)) \<and> (fst (f v) = None \<longrightarrow>
      (\<exists>rt'. snd V (snd (f v)) ?n = Some rt' \<and> tracked rt' = ?ts))" if "P v" for v
  proof -
    obtain r v1 where get: "kGetTracker K ?n v = (r, v1)" by fastforce
    have v1: "P v1"
      using that kGetTracker_doc [OF server_docD(2) [OF doc] get] by (simp add: P_def same_view_def)
    show ?thesis
    proof (cases r)
      case (Inl e)
      with get v1 show ?thesis by (simp add: f_def)
    next
      case (Inr copy)
      obtain e v2 where u: "kUpdateTrackerStatus K (copy\<lparr>rtTrackedResources := Some ?ts\<rparr>) v1 = (e, v2)"
        by fastforce
      have "rtName copy = ?n"
        using kGetTracker_found [OF server_docD(2) [OF doc]] get Inr by blast
      with kUpdateTracker_doc [OF server_docD(6) [OF doc] u] v1 get Inr u
      show ?thesis by (cases e) (auto simp: f_def P_def)
    qed
  qed
  obtain e w1 where retry: "kRetryTracker K f w = (e, w1)" by fastforce
  have "P w" by (simp add: P_def)
  with one have "P (snd (kRetryTracker K f w)) \<and>
     (fst (kRetryTracker K f w) = None \<longrightarrow> (\<exists>v. P v \<and> f v = (None, snd (kRetryTracker K f w))))"
    using server_docD(9) [OF doc] unfolding retry_doc_def by blast
  then have "P w1" and "e = None \<Longrightarrow> \<exists>v. P v \<and> f v = (None, w1)" by (simp_all add: retry)
  moreover from this(2) one have "e = None \<Longrightarrow> \<exists>rt'. snd V w1 ?n = Some rt' \<and> tracked rt' = ?ts"
    by (metis fst_conv snd_conv)
  moreover have "w' = w1" "a' = a\<lparr>dCurrentRT := Some (rt\<lparr>rtTrackedResources := Some ?ts\<rparr>)\<rparr>" "err = None \<longleftrightarrow> e = None"
    using upd retry by (auto simp: updateResourceTrackerStatus_def Let_def simp flip: f_def split: option.splits)
  ultimately show ?thesis by (simp add: P_def)
qed


section \<open>Dispatching delivers\<close>

text \<open>What garbage collection may delete: the resources of the previous tracker as it is stored.\<close>

definition gc_candidates :: "'w view \<Rightarrow> dispatcher \<Rightarrow> 'w \<Rightarrow> typed_reference set" where
  "gc_candidates V a w =
     (if dSkipGC a then {}
      else case dPreviousRT a of
             None \<Rightarrow> {}
           | Some prev \<Rightarrow> (case snd V w (rtName prev) of None \<Rightarrow> {} | Some rt \<Rightarrow> set (tracked rt)))"

lemma validateAndComplete_doc:
  assumes doc: "server_doc K V" and rev: "dAppRev a = Some ar"
    and v: "validateAndComplete K a w = ((err, a'), w')"
  shows "same_view V w w' \<and> dSkipGC a' = dSkipGC a \<and>
         (err = None \<longrightarrow> dCurrentRTName a' = ConstructResourceTrackerName (revName ar) (revNamespace ar) \<and>
            (case dPreviousRT a of None \<Rightarrow> dPreviousRT a' = None
             | Some prev \<Rightarrow> if rtName prev = dCurrentRTName a' then dPreviousRT a' = Some prev
                 else \<exists>rt. dPreviousRT a' = Some rt \<and> snd V w (rtName prev) = Some rt \<and> rtName rt = rtName prev))"
proof (cases "dPreviousRT a")
  case None
  with v rev show ?thesis by (auto simp: validateAndComplete_def Let_def split: if_splits)
next
  case (Some prev)
  obtain r w1 where get: "kGetTracker K (rtName prev) w = (r, w1)" by fastforce
  have "same_view V w w1" by (rule kGetTracker_doc [OF server_docD(2) [OF doc] get])
  moreover have "r = Inr rt \<Longrightarrow> snd V w (rtName prev) = Some rt \<and> rtName rt = rtName prev" for rt
    using kGetTracker_found [OF server_docD(2) [OF doc]] get by blast
  ultimately show ?thesis
    using v rev Some get
    by (cases r) (auto simp: validateAndComplete_def Let_def split: if_splits)
qed

lemma createOrGet_doc:
  assumes doc: "server_doc K V" and c: "createOrGetResourceTracker K a w = ((err, a'), w')"
  shows "fst V w' = fst V w \<and> (\<forall>n. n \<noteq> dCurrentRTName a \<longrightarrow> snd V w' n = snd V w n) \<and>
         (err = None \<longrightarrow> (\<exists>rt. a' = a\<lparr>dCurrentRT := Some rt\<rparr> \<and> rtName rt = dCurrentRTName a \<and>
            snd V w' (dCurrentRTName a) = Some rt \<and>
            (\<forall>old. snd V w (dCurrentRTName a) = Some old \<longrightarrow> set (tracked old) \<subseteq> set (tracked rt))))"
proof -
  obtain r w1 where get: "kGetTracker K (dCurrentRTName a) w = (r, w1)" by fastforce
  note w1 = kGetTracker_doc [OF server_docD(2) [OF doc] get, unfolded same_view_def]
  show ?thesis
  proof (cases r)
    case (Inr rt)
    then have "snd V w (dCurrentRTName a) = Some rt \<and> rtName rt = dCurrentRTName a"
      using kGetTracker_found [OF server_docD(2) [OF doc]] get by blast
    with c get Inr w1 show ?thesis by (auto simp: createOrGetResourceTracker_def)
  next
    case (Inl e)
    show ?thesis
    proof (cases "errNotFound e")
      case False
      with c get Inl w1 show ?thesis by (auto simp: createOrGetResourceTracker_def)
    next
      case True
      let ?rt = "\<lparr>rtName = dCurrentRTName a, rtUID = '''',
                  rtLabels = Some [LabelAppName \<mapsto> ExtractAppName (dCurrentRTName a) (dNamespace a),
                                   LabelAppNamespace \<mapsto> dNamespace a],
                  rtTrackedResources = None\<rparr>"
      obtain x t w2 where cr: "kCreateTracker K ?rt w1 = ((x, t), w2)" by (metis prod.exhaust)
      note post = kCreateTracker_doc [OF server_docD(5) [OF doc] cr]
      have res: "w' = w2" "err = None \<longleftrightarrow> x = None" "x = None \<Longrightarrow> a' = a\<lparr>dCurrentRT := Some t\<rparr>"
        using c get Inl True cr by (auto simp: createOrGetResourceTracker_def Let_def split: option.splits)
      have absent: "snd V w (dCurrentRTName a) = None"
        using kGetTracker_NotFound [OF server_docD(2) [OF doc], of "dCurrentRTName a" w e w1] get Inl True
        by simp
      show ?thesis using post res w1 absent by (cases x) auto
    qed
  qed
qed

lemma applyAndRecord_doc:
  assumes doc: "server_doc K V" and rt: "dCurrentRT a = Some rt" "snd V w (dCurrentRTName a) = Some rt"
    and names: "\<forall>m \<in> set ms. uName m \<noteq> ''''"
    and ap: "applyAndRecordManifests K a ms w = Some ((err, a'), w')"
  shows "fst V w \<subseteq> fst V w' \<and> (\<forall>n. n \<noteq> dCurrentRTName a \<longrightarrow> snd V w' n = snd V w n) \<and>
         (err = None \<longrightarrow> fst V w' = fst V w \<union> object_ref ` set ms \<and>
            (\<exists>rt' rt''. a' = a\<lparr>dCurrentRT := Some rt'\<rparr> \<and> rtName rt' = rtName rt \<and>
               set (tracked rt') = set (tracked rt) \<union> object_ref ` set ms \<and>
               (distinct (tracked rt) \<longrightarrow> distinct (tracked rt')) \<and>
               snd V w' (dCurrentRTName a) = Some rt'' \<and> tracked rt'' = tracked rt'))"
proof -
  define ao where "ao = [MustBeControllableByAny K (rtUID rt #
      (case dPreviousRT a of Some prev \<Rightarrow> if upgrades a then [rtUID prev] else [] | None \<Rightarrow> []))]"
  obtain res w1 where all: "applyManifests K (tracker_owner rt) ao ms w = (res, w1)" by fastforce
  note w1 = applyManifests_doc [OF doc names all]
  have step: "(case res of Inl e \<Rightarrow> ((Some e, a), w1)
       | Inr rs \<Rightarrow> updateResourceTrackerStatus K a rt rs w1) = ((err, a'), w')"
    using ap rt all by (simp add: applyAndRecordManifests_def Let_def flip: ao_def)
  show ?thesis
  proof (cases res)
    case (Inl e)
    with step w1 show ?thesis by auto
  next
    case (Inr rs)
    with step have upd: "updateResourceTrackerStatus K a rt rs w1 = ((err, a'), w')" by simp
    have stored: "snd V w1 (dCurrentRTName a) = Some rt" using w1 rt by simp
    from w1 Inr have refs: "map object_ref rs = map object_ref ms"
      and w1': "fst V w1 = fst V w \<union> object_ref ` set ms" "snd V w1 = snd V w" by auto
    note u = updateResourceTrackerStatus_doc [OF doc stored upd, unfolded refs]
    then show ?thesis
      using w1' track_refs_set [of "tracked rt" "map object_ref ms"]
        track_refs_distinct [of "tracked rt" "map object_ref ms"]
      by auto
  qed
qed

text \<open>The dispatcher when garbage collection is due: recorded, and with the previous tracker as stored.\<close>

definition recorded_ok ::
  "'w view \<Rightarrow> dispatcher \<Rightarrow> app_revision \<Rightarrow> unstructured list \<Rightarrow> 'w \<Rightarrow> dispatcher \<Rightarrow> resource_tracker \<Rightarrow> 'w \<Rightarrow> bool"
  where
  "recorded_ok V a ar ms w a' rt w' \<longleftrightarrow>
     dCurrentRT a' = Some rt \<and> dCurrentRTName a' = rtName rt \<and> dSkipGC a' = dSkipGC a \<and>
     rtName rt = ConstructResourceTrackerName (revName ar) (revNamespace ar) \<and>
     object_ref ` set ms \<subseteq> set (tracked rt) \<and>
     map_option tracked (snd V w' (rtName rt)) = Some (tracked rt) \<and>
     fst V w' = fst V w \<union> object_ref ` set ms \<and>
     (if upgrades a' \<and> \<not> dSkipGC a'
      then \<exists>prev. dPreviousRT a' = Some prev \<and> gc_candidates V a w = set (tracked prev)
      else gc_candidates V a w \<subseteq> set (tracked rt))"

lemma candidates_after_validation:
  assumes v: "case dPreviousRT a of None \<Rightarrow> dPreviousRT a1 = None
      | Some prev \<Rightarrow> if rtName prev = dCurrentRTName a1 then dPreviousRT a1 = Some prev
          else \<exists>rt. dPreviousRT a1 = Some rt \<and> snd V w (rtName prev) = Some rt \<and> rtName rt = rtName prev"
    and "dPreviousRT a' = dPreviousRT a1" "dCurrentRTName a' = dCurrentRTName a1" "dSkipGC a' = dSkipGC a"
    and "\<And>old. snd V w (dCurrentRTName a1) = Some old \<Longrightarrow> set (tracked old) \<subseteq> T"
  shows "if upgrades a' \<and> \<not> dSkipGC a'
         then \<exists>prev. dPreviousRT a' = Some prev \<and> gc_candidates V a w = set (tracked prev)
         else gc_candidates V a w \<subseteq> T"
proof (cases "dPreviousRT a")
  case None
  with v assms(2) show ?thesis by (simp add: upgrades_def gc_candidates_def)
next
  case (Some p)
  show ?thesis
  proof (cases "rtName p = dCurrentRTName a1")
    case True
    with v Some have "dPreviousRT a' = Some p" using assms(2) by simp
    then have "\<not> upgrades a'" using True assms(3) by (simp add: upgrades_def)
    moreover have "gc_candidates V a w \<subseteq> T"
      using assms(5) Some True by (auto simp: gc_candidates_def split: option.splits)
    ultimately show ?thesis by simp
  next
    case False
    with v Some obtain rt where rt: "dPreviousRT a' = Some rt" "snd V w (rtName p) = Some rt"
      "rtName rt = rtName p" using assms(2) by auto
    then have "upgrades a'" using False assms(3) by (simp add: upgrades_def)
    with rt Some assms(4) show ?thesis by (simp add: gc_candidates_def)
  qed
qed

lemma Dispatch_phases:
  assumes doc: "server_doc K V" and rev: "dAppRev a = Some ar" and names: "\<forall>m \<in> set ms. uName m \<noteq> ''''"
  shows "(\<exists>err w'. Dispatch K a ms w = Some (Inl err, w') \<and> fst V w \<subseteq> fst V w') \<or>
         (\<exists>a' rt w'. Dispatch K a ms w = dispatch_gc K a' w' \<and> recorded_ok V a ar ms w a' rt w')"
proof -
  obtain e1 a1 w1 where v: "validateAndComplete K a w = ((e1, a1), w1)" by (metis prod.exhaust)
  note v1 = validateAndComplete_doc [OF doc rev v, unfolded same_view_def]
  obtain e2 a2 w2 where c: "createOrGetResourceTracker K a1 w1 = ((e2, a2), w2)" by (metis prod.exhaust)
  note c1 = createOrGet_doc [OF doc c]
  show ?thesis
  proof (cases "e1 = None \<and> e2 = None")
    case False
    with v c v1 c1 show ?thesis by (cases e1; cases e2) (auto simp: Dispatch_def)
  next
    case True
    with c1 obtain rt where rt: "a2 = a1\<lparr>dCurrentRT := Some rt\<rparr>" "rtName rt = dCurrentRTName a1"
      "snd V w2 (dCurrentRTName a1) = Some rt"
      "\<And>old. snd V w1 (dCurrentRTName a1) = Some old \<Longrightarrow> set (tracked old) \<subseteq> set (tracked rt)"
      by auto
    have "applyAndRecordManifests K a2 ms w2 \<noteq> None"
      by (simp add: applyAndRecordManifests_def rt(1) Let_def)
    then obtain e3 a3 w3 where ap: "applyAndRecordManifests K a2 ms w2 = Some ((e3, a3), w3)"
      by (metis option.exhaust prod.exhaust)
    have cur: "dCurrentRT a2 = Some rt" "snd V w2 (dCurrentRTName a2) = Some rt" using rt by simp_all
    note ap1 = applyAndRecord_doc [OF doc cur names ap]
    show ?thesis
    proof (cases e3)
      case (Some e)
      with v c True ap ap1 c1 v1 show ?thesis by (auto simp: Dispatch_def)
    next
      case e3: None
      with ap1 obtain rt' rt'' where rt': "a3 = a2\<lparr>dCurrentRT := Some rt'\<rparr>" "rtName rt' = rtName rt"
        "set (tracked rt') = set (tracked rt) \<union> object_ref ` set ms"
        "snd V w3 (dCurrentRTName a2) = Some rt''" "tracked rt'' = tracked rt'"
        "fst V w3 = fst V w2 \<union> object_ref ` set ms"
        by auto
      have cand: "if upgrades a3 \<and> \<not> dSkipGC a3
         then \<exists>prev. dPreviousRT a3 = Some prev \<and> gc_candidates V a w = set (tracked prev)
         else gc_candidates V a w \<subseteq> set (tracked rt')"
        using v1 True rt rt'(1,3) by (intro candidates_after_validation [where ?a1.0 = a1]) auto
      have "recorded_ok V a ar ms w a3 rt' w3"
        unfolding recorded_ok_def by (intro conjI cand) (use v1 c1 True rt rt' in simp_all)
      moreover have "Dispatch K a ms w = dispatch_gc K a3 w3"
        using v c True ap e3 by (simp add: Dispatch_def)
      ultimately show ?thesis by blast
    qed
  qed
qed

lemma dispatch_gc_doc:
  assumes doc: "server_doc K V" and ok: "recorded_ok V a ar ms w a' rt w1"
  shows "case dispatch_gc K a' w1 of
           None \<Rightarrow> False
         | Some (Inl err, w') \<Rightarrow> fst V w - gc_candidates V a w \<subseteq> fst V w'
         | Some (Inr rt', w') \<Rightarrow> rt' = rt \<and>
             map_option tracked (snd V w' (rtName rt)) = Some (tracked rt) \<and>
             fst V w' = (fst V w \<union> object_ref ` set ms) - (gc_candidates V a w - set (tracked rt))"
proof (cases "upgrades a' \<and> \<not> dSkipGC a'")
  case False
  then have "gc_candidates V a w \<subseteq> set (tracked rt)" using ok by (simp add: recorded_ok_def)
  moreover have "dispatch_gc K a' w1 = Some (Inr rt, w1)"
    using False ok by (auto simp: dispatch_gc_def recorded_ok_def split: option.splits)
  ultimately show ?thesis using ok by (auto simp: recorded_ok_def)
next
  case True
  with ok obtain prev where prev: "dPreviousRT a' = Some prev" "gc_candidates V a w = set (tracked prev)"
    by (auto simp: recorded_ok_def)
  have "rtName prev \<noteq> rtName rt" using True prev ok by (simp add: upgrades_def recorded_ok_def)
  moreover obtain e w2 where gc: "GarbageCollect K (dGC a') prev rt w1 = (e, w2)" by fastforce
  note GarbageCollect_doc [OF server_docD(7,8) [OF doc] gc]
  moreover have "dispatch_gc K a' w1 = Some (case e of
      Some err \<Rightarrow> (Inl (errors_Wrap err (''cannot do GC based on resource trackers '' @
                       rtName prev @ '' and '' @ dCurrentRTName a')), w2)
    | None \<Rightarrow> (Inr rt, w2))"
    using True prev ok gc by (cases e) (simp_all add: dispatch_gc_def recorded_ok_def)
  ultimately show ?thesis using prev ok by (cases e) (auto simp: recorded_ok_def)
qed

text \<open>
  C14: Dispatching delivers and loses nothing.  Dispatch does not panic.  When it succeeds, every
  manifest is in the cluster and recorded in the tracker of the application revision, in the
  answer as in the API server; what has disappeared from the cluster is exactly what the previous
  tracker had and the new one has not, and nothing at all when garbage collection is skipped.
  When it fails, nothing but such resources of the previous tracker has been deleted.
\<close>

theorem Dispatch_delivers:
  assumes doc: "server_doc K V" and rev: "dAppRev a = Some ar" and names: "\<forall>m \<in> set ms. uName m \<noteq> ''''"
  shows "case Dispatch K a ms w of
           None \<Rightarrow> False
         | Some (Inl err, w') \<Rightarrow> fst V w - gc_candidates V a w \<subseteq> fst V w'
         | Some (Inr rt, w') \<Rightarrow>
             rtName rt = ConstructResourceTrackerName (revName ar) (revNamespace ar) \<and>
             object_ref ` set ms \<subseteq> set (tracked rt) \<and>
             map_option tracked (snd V w' (rtName rt)) = Some (tracked rt) \<and>
             fst V w' = (fst V w \<union> object_ref ` set ms) - (gc_candidates V a w - set (tracked rt))"
  using Dispatch_phases [OF doc rev names, of w]
proof (elim disjE exE conjE)
  fix a' rt w1
  assume D: "Dispatch K a ms w = dispatch_gc K a' w1" and ok: "recorded_ok V a ar ms w a' rt w1"
  from dispatch_gc_doc [OF doc ok] ok show ?thesis
    by (auto simp: D recorded_ok_def split: option.splits sum.splits)
qed auto


section \<open>Examples\<close>

definition example_view :: "kube_world view" where
  "example_view = ((\<lambda>w. {r. kwObjects w r \<noteq> None}),
                   (\<lambda>w n. map_option (\<lambda>rt. rt\<lparr>rtName := n\<rparr>) (kwTrackers w n)))"

lemma example_server: "server_doc example_kube example_view"
proof -
  have "get_doc example_kube example_view" "get_tracker_doc example_kube example_view"
    by (auto simp: get_doc_def get_tracker_doc_def same_view_def example_view_def example_kube_def not_found_def
        split: option.splits)
  moreover have "create_doc example_kube example_view" "patch_doc example_kube example_view"
    by (auto simp: create_doc_def patch_doc_def same_view_def example_view_def example_kube_def kw_patch_def
        kw_store_def object_ref_def split: option.splits)
  moreover have "create_tracker_doc example_kube example_view" "update_tracker_doc example_kube example_view"
    by (auto simp: create_tracker_doc_def update_tracker_doc_def example_view_def example_kube_def tracked_def)
  moreover have "delete_doc example_kube example_view" "delete_tracker_doc example_kube example_view"
    by (auto simp: delete_doc_def delete_tracker_doc_def example_view_def example_kube_def not_found_def
        split: option.splits if_splits)
  moreover have "retry_doc example_kube"
    by (auto simp: retry_doc_def example_kube_def) (metis prod.collapse)
  ultimately show ?thesis by (simp add: server_doc_def)
qed

definition example_revision :: "string \<Rightarrow> app_revision" where
  "example_revision name =
     \<lparr>revName = name, revNamespace = ''default'', revLabels = None, revAnnotations = None,
      revOwnerReferences = [], revApplicationConfiguration = '''', revComponents = [],
      revTraitDefinitions = Map.empty\<rparr>"

definition example_tracker :: "string \<Rightarrow> typed_reference list \<Rightarrow> resource_tracker" where
  "example_tracker name rs = \<lparr>rtName = name, rtUID = name, rtLabels = None, rtTrackedResources = Some rs\<rparr>"

theorem GarbageCollect_deletes_difference_witness:
  "let a = example_object ''v1'' ''Service'' ''a''; b = example_object ''v1'' ''Service'' ''b'';
       w = \<lparr>kwObjects = [object_ref a \<mapsto> a, object_ref b \<mapsto> b], kwTrackers = Map.empty\<rparr>;
       (err, w') = GarbageCollect example_kube (NewGCHandler ''default'')
         (example_tracker ''app-v1-default'' [object_ref a, object_ref b])
         (example_tracker ''app-v2-default'' [object_ref b]) w
   in err = None \<longrightarrow> fst example_view w' = fst example_view w - {object_ref a}"
proof -
  let ?a = "example_object ''v1'' ''Service'' ''a''" and ?b = "example_object ''v1'' ''Service'' ''b''"
  let ?w = "\<lparr>kwObjects = [object_ref ?a \<mapsto> ?a, object_ref ?b \<mapsto> ?b], kwTrackers = Map.empty\<rparr>"
  let ?old = "example_tracker ''app-v1-default'' [object_ref ?a, object_ref ?b]"
  let ?new = "example_tracker ''app-v2-default'' [object_ref ?b]"
  obtain err w' where gc: "GarbageCollect example_kube (NewGCHandler ''default'') ?old ?new ?w = (err, w')"
    by fastforce
  have "object_ref ?a \<noteq> object_ref ?b" by (simp add: object_ref_def)
  then have "set (tracked ?old) - set (tracked ?new) = {object_ref ?a}"
    by (auto simp: example_tracker_def tracked_def)
  with GarbageCollect_deletes_difference [OF server_docD(7,8) [OF example_server] gc] gc
  show ?thesis by (simp add: Let_def)
qed

theorem Dispatch_delivers_witness:
  "let m = example_object ''v1'' ''Service'' ''a'';
       a = the (NewAppManifestsDispatcher (Some (example_revision ''app-v1'')))
   in case Dispatch example_kube a [m] \<lparr>kwObjects = Map.empty, kwTrackers = Map.empty\<rparr> of
        Some (Inr rt, w') \<Rightarrow> rtName rt = ''app-v1-default'' \<and> fst example_view w' = {object_ref m}
      | Some (Inl err, w') \<Rightarrow> True
      | None \<Rightarrow> False"
proof -
  let ?m = "example_object ''v1'' ''Service'' ''a''"
  let ?a = "the (NewAppManifestsDispatcher (Some (example_revision ''app-v1'')))"
  let ?w = "\<lparr>kwObjects = Map.empty, kwTrackers = Map.empty\<rparr> :: kube_world"
  have rev: "dAppRev ?a = Some (example_revision ''app-v1'')" and names: "\<forall>m \<in> set [?m]. uName m \<noteq> ''''"
    by (simp_all add: NewAppManifestsDispatcher_def)
  have "gc_candidates example_view ?a ?w = {}" "fst example_view ?w = {}"
    by (simp_all add: gc_candidates_def NewAppManifestsDispatcher_def example_view_def)
  moreover have "ConstructResourceTrackerName (revName (example_revision ''app-v1'')) (revNamespace (example_revision ''app-v1'')) =
      ''app-v1-default''"
    by (simp add: ConstructResourceTrackerName_def example_revision_def)
  ultimately show ?thesis
    using Dispatch_delivers [OF example_server rev names, of ?w]
    by (simp add: Let_def split: option.splits prod.splits sum.splits)
qed

end
