(* ===== verification/App_Validation.thy ===== *)
theory App_Validation
  imports Rollout_Validation App_Revision
begin

text \<open>
  AppRollout (apis/core.oam.dev/v1beta1/approllout_types.go) and its admission webhooks,
  pkg/webhook/core.oam.dev/v1alpha2/applicationrollout: common.go, mutating_handler.go,
  validating_handler.go and validation.go.

  A Go map is an association list without duplicate keys, in the order in which a range over it
  happens to go; \<open>None\<close> where the code tests for nil.
\<close>

section \<open>AppRollout\<close>

record app_rollout_spec =
  TargetAppRevisionName :: string
  SourceAppRevisionName :: string
  ComponentList :: "string list"
  RolloutPlan :: rollout_plan
  RevertOnDelete :: bool

record app_rollout_status =
  RolloutStatus :: rollout_status
  LastUpgradedTargetAppRevision :: string
  LastSourceAppRevision :: string

text \<open>\<open>arDeleting\<close> is that the deletion timestamp is set.\<close>

record app_rollout =
  arName :: string
  arNamespace :: string
  arUID :: string
  arFinalizers :: "string list"
  arDeleting :: bool
  arSpec :: app_rollout_spec
  arStatus :: app_rollout_status

section \<open>Common components\<close>

text \<open>\<open>targetComponents\<close> is a set, its membership test the lookup in the map.\<close>

definition FindCommonComponentWithManifest ::
  "(string \<times> unstructured) list \<Rightarrow> (string \<times> unstructured) list option \<Rightarrow> string list" where
  "FindCommonComponentWithManifest target source =
     (case source of
        None \<Rightarrow> map fst target
      | Some src \<Rightarrow>
          (let targetComponents = set (map fst target)
           in filter (\<lambda>comp. comp \<in> targetComponents) (map fst src)))"

definition FindCommonComponent ::
  "component_manifest list \<Rightarrow> component_manifest list option \<Rightarrow> string list" where
  "FindCommonComponent targetApp sourceApp =
     (case sourceApp of
        None \<Rightarrow> map (\<lambda>comp. ExtractComponentName (cmRevisionName comp)) targetApp
      | Some src \<Rightarrow>
          (let targetComponents = set (map (\<lambda>comp. ExtractComponentName (cmRevisionName comp)) targetApp)
           in filter (\<lambda>revisionName. revisionName \<in> targetComponents)
                (map (\<lambda>comp. ExtractComponentName (cmRevisionName comp)) src)))"

section \<open>Outside the repository\<close>

text \<open>
  apimachinery's ValidateObjectMeta, the client, the JSON decoders, the intstr functions,
  slice.ContainsString of kubectl, Semantic.DeepEqual, and json.Marshal of an AppRollout.
\<close>

record 'w admission =
  vaObjectMeta :: "app_rollout \<Rightarrow> field_error list"
  vaGetRevision :: "nsname \<Rightarrow> 'w \<Rightarrow> (api_error + app_revision) \<times> 'w"
  vaDecoders :: decoders
  vaGetValue :: ios_value
  vaIntValue :: "int_or_string \<Rightarrow> int"
  vaFromInt :: "int \<Rightarrow> int_or_string"
  vaContains :: "string list \<Rightarrow> string \<Rightarrow> bool"
  vaPlanEqual :: "rollout_plan \<Rightarrow> rollout_plan \<Rightarrow> bool"
  vaMarshal :: "app_rollout \<Rightarrow> string + string"

definition contains_doc :: "(string list \<Rightarrow> string \<Rightarrow> bool) \<Rightarrow> bool" where
  "contains_doc f \<longleftrightarrow> (\<forall>xs x. f xs x \<longleftrightarrow> x \<in> set xs)"

section \<open>Validation\<close>

text \<open>\<open>None\<close> is the panic of reading the first element of an empty list.\<close>

definition validateComponent ::
  "(string list \<Rightarrow> string \<Rightarrow> bool) \<Rightarrow> string list \<Rightarrow> component_manifest list \<Rightarrow>
     component_manifest list option \<Rightarrow> field_path \<Rightarrow> field_error list option" where
  "validateComponent contains componentList targetApp sourceApp path =
     (if length componentList > 1 then Some [FieldTooLong path]
      else
        let commons = FindCommonComponent targetApp sourceApp;
            check_type = (\<lambda>commonComponentName.
              if length commonComponentName = 0 then
                (case componentList of
                   [] \<Rightarrow> None
                 | c # _ \<Rightarrow> Some [FieldInvalid path
                              ''the common component have different types in the application''])
              else Some [])
        in case componentList of
             [] \<Rightarrow> if length commons \<noteq> 1 then Some [FieldTooMany path] else check_type (commons ! 0)
           | c # _ \<Rightarrow>
               if \<not> contains commons c
               then Some [FieldInvalid path ''it is not a common component in the application'']
               else check_type c)"

text \<open>The revision that a failed Get leaves in memory.\<close>

definition zero_revision :: app_revision where
  "zero_revision = \<lparr>revName = '''', revNamespace = '''', revLabels = None, revAnnotations = None,
     revOwnerReferences = [], revApplicationConfiguration = '''', revComponents = [],
     revTraitDefinitions = Map.empty\<rparr>"

definition revision_manifests ::
  "'w admission \<Rightarrow> app_revision \<Rightarrow> string + component_manifest list" where
  "revision_manifests A r =
     AppConfig2ComponentManifests (vaDecoders A) (revApplicationConfiguration r) (revComponents r)"

text \<open>The part for a rollout that is not being deleted; the target has been found.\<close>

definition validateRevisions ::
  "'w admission \<Rightarrow> app_rollout \<Rightarrow> app_revision \<Rightarrow> 'w \<Rightarrow> field_error list option \<times> 'w" where
  "validateRevisions A appRollout targetAppRevision w =
     (let fldPath = [Child ''spec''];
          sourceAppName = SourceAppRevisionName (arSpec appRollout);
          (sourceErrs, sourceAppRevision, w) =
            (if sourceAppName \<noteq> '''' then
               (case vaGetRevision A (arNamespace appRollout, sourceAppName) w of
                  (Inl err, w) \<Rightarrow>
                    ([FieldNotFound (fldPath @ [Child ''sourceAppRevisionName'']) sourceAppName],
                     Some zero_revision, w)
                | (Inr r, w) \<Rightarrow> ([], Some r, w))
             else ([], None, w));
          (targetErrs, targetComps) =
            (case revision_manifests A targetAppRevision of
               Inl err \<Rightarrow> ([FieldInvalid (fldPath @ [Child ''TargetAppRevisionName''])
                             (''the targeted app revision is corrupted,  err = '' @ err)], [])
             | Inr cms \<Rightarrow> ([], cms));
          (corruptErrs, sourceComps) =
            (case sourceAppRevision of
               None \<Rightarrow> ([], None)
             | Some r \<Rightarrow>
                 (case revision_manifests A r of
                    Inl err \<Rightarrow> ([FieldInvalid (fldPath @ [Child ''SourceAppRevisionName''])
                                  (''the source app revision is corrupted,  err = '' @ err)], None)
                  | Inr cms \<Rightarrow> ([], Some cms)))
      in (case validateComponent (vaContains A) (ComponentList (arSpec appRollout)) targetComps
                 sourceComps (fldPath @ [Child ''componentList'']) of
            None \<Rightarrow> None
          | Some errs \<Rightarrow> Some (sourceErrs @ targetErrs @ corruptErrs @ errs), w))"

definition ar_ValidateCreate ::
  "'w admission \<Rightarrow> app_rollout \<Rightarrow> 'w \<Rightarrow> field_error list option \<times> 'w" where
  "ar_ValidateCreate A appRollout w =
     (let allErrs = vaObjectMeta A appRollout;
          fldPath = [Child ''spec''];
          targetAppName = TargetAppRevisionName (arSpec appRollout);
          plan_errs = plan_ValidateCreate (vaGetValue A) (RolloutPlan (arSpec appRollout))
                        (fldPath @ [Child ''rolloutPlan''])
      in if length targetAppName = 0
         then (Some (allErrs @ [FieldRequired (fldPath @ [Child ''targetApplicationName''])
                                  ''target application name cannot be empty'']), w)
         else if \<not> arDeleting appRollout then
           (case vaGetRevision A (arNamespace appRollout, targetAppName) w of
              (Inl err, w) \<Rightarrow>
                (Some (allErrs @ [FieldNotFound (fldPath @ [Child ''targetAppRevisionName'']) targetAppName]), w)
            | (Inr targetAppRevision, w) \<Rightarrow>
                (case validateRevisions A appRollout targetAppRevision w of
                   (None, w) \<Rightarrow> (None, w)
                 | (Some errs, w) \<Rightarrow> (Some (allErrs @ errs @ plan_errs), w)))
         else (Some (allErrs @ plan_errs), w))"

definition ar_ValidateUpdate ::
  "'w admission \<Rightarrow> app_rollout \<Rightarrow> app_rollout \<Rightarrow> 'w \<Rightarrow> field_error list option \<times> 'w" where
  "ar_ValidateUpdate A new old w =
     (case ar_ValidateCreate A new w of
        (None, w) \<Rightarrow> (None, w)
      | (Some errList, w) \<Rightarrow>
          let fldPath = [Child ''spec'', Child ''rolloutPlan''];
              oldState = RollingState (RolloutStatus (arStatus old));
              oldPlan = RolloutPlan (arSpec old); newPlan = RolloutPlan (arSpec new)
          in if errList \<noteq> [] then (Some errList, w)
             else if (oldState = RolloutSucceedState \<or> oldState = RolloutFailedState) \<and>
                     SourceAppRevisionName (arSpec old) = SourceAppRevisionName (arSpec new) \<and>
                     TargetAppRevisionName (arSpec old) = TargetAppRevisionName (arSpec new) \<and>
                     \<not> vaPlanEqual A oldPlan newPlan
             then (case (TargetSize oldPlan, TargetSize newPlan) of
                     (Some m, Some n) \<Rightarrow>
                       if m \<noteq> n then (Some errList, w)
                       else (Some (errList @ [FieldInvalid fldPath ''a successful or failed rollout cannot be modified without changing the target or the source'']), w)
                   | _ \<Rightarrow> (Some (errList @ [FieldInvalid fldPath ''a successful or failed rollout cannot be modified without changing the target or the source'']), w))
             else (Some (plan_ValidateUpdate newPlan oldPlan fldPath), w))"

section \<open>The handlers\<close>

text \<open>
  A request carries what the decoder makes of the object and of the old object.  A response is an
  error with its HTTP status, the admission, or the patch to the marshalled object.
\<close>

datatype admission_operation = CreateOperation | UpdateOperation | OtherOperation string

record admission_request =
  reqOperation :: admission_operation
  reqObject :: "string + app_rollout"
  reqOldObject :: "string + app_rollout"

datatype admission_response =
  Errored int string | ErroredFields int "field_error list" | Allowed | PatchTo string

definition DefaultAppRollout :: "'w admission \<Rightarrow> app_rollout \<Rightarrow> app_rollout option" where
  "DefaultAppRollout A obj = do {
     plan \<leftarrow> (if SourceAppRevisionName (arSpec obj) \<noteq> ''''
             then DefaultRolloutBatches (vaIntValue A) (vaFromInt A) (RolloutPlan (arSpec obj))
             else Some (RolloutPlan (arSpec obj)));
     Some (obj\<lparr>arSpec := (arSpec obj)\<lparr>RolloutPlan := DefaultRolloutPlan plan\<rparr>\<rparr>)
   }"

definition mutating_Handle :: "'w admission \<Rightarrow> admission_request \<Rightarrow> admission_response option" where
  "mutating_Handle A req =
     (case reqObject req of
        Inl err \<Rightarrow> Some (Errored 400 err)
      | Inr obj \<Rightarrow>
          (case DefaultAppRollout A obj of
             None \<Rightarrow> None
           | Some obj \<Rightarrow>
               (case vaMarshal A obj of
                  Inl err \<Rightarrow> Some (Errored 500 err)
                | Inr marshalled \<Rightarrow> Some (PatchTo marshalled))))"

definition verdict_of :: "field_error list option \<times> 'w \<Rightarrow> admission_response option \<times> 'w" where
  "verdict_of r =
     (case r of
        (None, w) \<Rightarrow> (None, w)
      | (Some errs, w) \<Rightarrow> (Some (if errs \<noteq> [] then ErroredFields 422 errs else Allowed), w))"

definition validating_Handle ::
  "'w admission \<Rightarrow> admission_request \<Rightarrow> 'w \<Rightarrow> admission_response option \<times> 'w" where
  "validating_Handle A req w =
     (case reqObject req of
        Inl err \<Rightarrow> (Some (Errored 400 err), w)
      | Inr obj \<Rightarrow>
          if arDeleting obj then (Some Allowed, w)
          else (case reqOperation req of
                  CreateOperation \<Rightarrow> verdict_of (ar_ValidateCreate A obj w)
                | UpdateOperation \<Rightarrow>
                    (case reqOldObject req of
                       Inl err \<Rightarrow> (Some (Errored 400 err), w)
                     | Inr oldObj \<Rightarrow> verdict_of (ar_ValidateUpdate A obj oldObj w))
                | OtherOperation op \<Rightarrow> (Some Allowed, w)))"


section \<open>Which component lists are accepted\<close>

definition component_names :: "component_manifest list \<Rightarrow> string list" where
  "component_names cms = map (\<lambda>cm. ExtractComponentName (cmRevisionName cm)) cms"

lemma FindCommonComponent_set:
  "set (FindCommonComponent target source) =
   set (component_names target) \<inter> (case source of None \<Rightarrow> UNIV | Some s \<Rightarrow> set (component_names s))"
  by (auto simp: FindCommonComponent_def component_names_def split: option.splits)

lemma FindCommonComponentWithManifest_set:
  "set (FindCommonComponentWithManifest target source) =
   set (map fst target) \<inter> (case source of None \<Rightarrow> UNIV | Some s \<Rightarrow> set (map fst s))"
  by (auto simp: FindCommonComponentWithManifest_def split: option.splits)

lemma validateComponent_exact:
  assumes "contains_doc contains"
  shows "validateComponent contains cs target source path = Some [] \<longleftrightarrow>
           (case cs of
              [] \<Rightarrow> \<exists>n. FindCommonComponent target source = [n] \<and> n \<noteq> ''''
            | [c] \<Rightarrow> c \<noteq> '''' \<and> c \<in> set (component_names target) \<and>
                (case source of None \<Rightarrow> True | Some s \<Rightarrow> c \<in> set (component_names s))
            | _ \<Rightarrow> False)"
    and "validateComponent contains cs target source path = None \<longleftrightarrow>
           cs = [] \<and> FindCommonComponent target source = ['''']"
proof -
  have "contains (FindCommonComponent target source) c \<longleftrightarrow> c \<in> set (component_names target) \<and>
      (case source of None \<Rightarrow> True | Some s \<Rightarrow> c \<in> set (component_names s))" for c
    using assms by (auto simp: contains_doc_def FindCommonComponent_set split: option.splits)
  then show "validateComponent contains cs target source path = Some [] \<longleftrightarrow>
           (case cs of
              [] \<Rightarrow> \<exists>n. FindCommonComponent target source = [n] \<and> n \<noteq> ''''
            | [c] \<Rightarrow> c \<noteq> '''' \<and> c \<in> set (component_names target) \<and>
                (case source of None \<Rightarrow> True | Some s \<Rightarrow> c \<in> set (component_names s))
            | _ \<Rightarrow> False)"
    "validateComponent contains cs target source path = None \<longleftrightarrow>
           cs = [] \<and> FindCommonComponent target source = ['''']"
    by (auto simp: validateComponent_def Let_def length_Suc_conv split: list.splits)
qed

text \<open>
  The webhook accepts a component list exactly when it names one component that both revisions
  have, or is empty while they have exactly one component in common; in both cases its name must
  not be empty.  Nothing else about the components is looked at, their workload types included.
  With an empty list and one common component whose name is empty, as a revision name without a
  hyphen gives it, the webhook panics.
\<close>

theorem validateComponent_accepts:
  assumes "contains_doc contains"
  shows "(validateComponent contains cs target source path = Some [] \<longleftrightarrow>
           (case cs of
              [] \<Rightarrow> \<exists>n. FindCommonComponent target source = [n] \<and> n \<noteq> ''''
            | [c] \<Rightarrow> c \<noteq> '''' \<and> c \<in> set (component_names target) \<and>
                (case source of None \<Rightarrow> True | Some s \<Rightarrow> c \<in> set (component_names s))
            | _ \<Rightarrow> False)) \<and>
         (validateComponent contains cs target source path = None \<longleftrightarrow>
           cs = [] \<and> FindCommonComponent target source = [''''])"
  by (intro conjI validateComponent_exact [OF assms])

section \<open>Which updates are accepted\<close>

lemma ar_ValidateCreate_cases:
  "ar_ValidateUpdate A new old w =
     (case ar_ValidateCreate A new w of
        (None, w) \<Rightarrow> (None, w)
      | (Some errs, w) \<Rightarrow>
          (Some (if errs \<noteq> [] then errs
                 else if terminal (RollingState (RolloutStatus (arStatus old))) \<and>
                   SourceAppRevisionName (arSpec old) = SourceAppRevisionName (arSpec new) \<and>
                   TargetAppRevisionName (arSpec old) = TargetAppRevisionName (arSpec new) \<and>
                   \<not> vaPlanEqual A (RolloutPlan (arSpec old)) (RolloutPlan (arSpec new)) \<and>
                   \<not> (\<exists>m n. TargetSize (RolloutPlan (arSpec old)) = Some m \<and>
                         TargetSize (RolloutPlan (arSpec new)) = Some n \<and> m \<noteq> n)
                 then [FieldInvalid [Child ''spec'', Child ''rolloutPlan''] ''a successful or failed rollout cannot be modified without changing the target or the source'']
                 else []), w))"
  by (auto simp: ar_ValidateUpdate_def Let_def terminal_def plan_ValidateUpdate_def
      split: prod.splits option.splits)

text \<open>What a plan, its revisions and its component list must be like, and what may change when a rollout has ended.\<close>

definition valid_plan :: "ios_value \<Rightarrow> rollout_plan \<Rightarrow> bool" where
  "valid_plan gv p \<longleftrightarrow>
     RolloutBatches p \<noteq> None \<and>
     (case BatchPartition p of None \<Rightarrow> True | Some i \<Rightarrow> 0 \<le> sint i) \<and>
     (case NumBatches p of None \<Rightarrow> True | Some n \<Rightarrow> sint n = int (length (batches p))) \<and>
     RolloutStrategy p \<in> {IncreaseFirst, DecreaseFirst} \<and>
     list_all valid_hook (RolloutWebhooks p) \<and> list_all (valid_batch gv) (batches p)"

definition components_at :: "'w admission \<Rightarrow> nsname \<Rightarrow> 'w \<Rightarrow> (component_manifest list \<times> 'w) option" where
  "components_at A n w =
     (case vaGetRevision A n w of
        (Inl err, w) \<Rightarrow> None
      | (Inr r, w) \<Rightarrow> (case revision_manifests A r of Inl err \<Rightarrow> None | Inr cms \<Rightarrow> Some (cms, w)))"

definition one_component :: "string list \<Rightarrow> component_manifest list \<Rightarrow> component_manifest list option \<Rightarrow> bool" where
  "one_component cs target source \<longleftrightarrow>
     (case cs of
        [] \<Rightarrow> \<exists>n. FindCommonComponent target source = [n] \<and> n \<noteq> ''''
      | [c] \<Rightarrow> c \<noteq> '''' \<and> c \<in> set (component_names target) \<and>
          (case source of None \<Rightarrow> True | Some s \<Rightarrow> c \<in> set (component_names s))
      | _ \<Rightarrow> False)"

definition admissible_rollout :: "'w admission \<Rightarrow> app_rollout \<Rightarrow> 'w \<Rightarrow> bool" where
  "admissible_rollout A ar w \<longleftrightarrow>
     vaObjectMeta A ar = [] \<and> valid_plan (vaGetValue A) (RolloutPlan (arSpec ar)) \<and>
     TargetAppRevisionName (arSpec ar) \<noteq> '''' \<and>
     (\<exists>target w1. components_at A (arNamespace ar, TargetAppRevisionName (arSpec ar)) w = Some (target, w1) \<and>
        (if SourceAppRevisionName (arSpec ar) = '''' then one_component (ComponentList (arSpec ar)) target None
         else \<exists>source w2. components_at A (arNamespace ar, SourceAppRevisionName (arSpec ar)) w1 = Some (source, w2) \<and>
                one_component (ComponentList (arSpec ar)) target (Some source)))"

definition may_update :: "'w admission \<Rightarrow> app_rollout \<Rightarrow> app_rollout \<Rightarrow> bool" where
  "may_update A old new \<longleftrightarrow>
     \<not> terminal (RollingState (RolloutStatus (arStatus old))) \<or>
     SourceAppRevisionName (arSpec old) \<noteq> SourceAppRevisionName (arSpec new) \<or>
     TargetAppRevisionName (arSpec old) \<noteq> TargetAppRevisionName (arSpec new) \<or>
     vaPlanEqual A (RolloutPlan (arSpec old)) (RolloutPlan (arSpec new)) \<or>
     (\<exists>m n. TargetSize (RolloutPlan (arSpec old)) = Some m \<and>
            TargetSize (RolloutPlan (arSpec new)) = Some n \<and> m \<noteq> n)"

lemma validateRevisions_accepts:
  assumes "contains_doc (vaContains A)"
  shows "fst (validateRevisions A ar r w) = Some [] \<longleftrightarrow>
    (\<exists>target. revision_manifests A r = Inr target \<and>
       (if SourceAppRevisionName (arSpec ar) = '''' then one_component (ComponentList (arSpec ar)) target None
        else \<exists>source w2. components_at A (arNamespace ar, SourceAppRevisionName (arSpec ar)) w = Some (source, w2) \<and>
               one_component (ComponentList (arSpec ar)) target (Some source)))"
proof -
  note comp = validateComponent_exact(1) [OF assms, folded one_component_def]
  have app: "(case v of None \<Rightarrow> None | Some errs \<Rightarrow> Some (xs @ ys @ zs @ errs)) = Some [] \<longleftrightarrow>
      xs = [] \<and> ys = [] \<and> zs = [] \<and> v = Some []" for v and xs ys zs :: "field_error list"
    by (cases v) auto
  show ?thesis
  proof (cases "SourceAppRevisionName (arSpec ar) = ''''")
    case True
    then show ?thesis
      by (cases "revision_manifests A r") (simp_all add: validateRevisions_def Let_def app comp)
  next
    case False
    obtain x w2 where get: "vaGetRevision A (arNamespace ar, SourceAppRevisionName (arSpec ar)) w = (x, w2)" by fastforce
    show ?thesis
    proof (cases x)
      case (Inl err)
      with False get show ?thesis
        by (cases "revision_manifests A r"; cases "revision_manifests A zero_revision")
           (simp_all add: validateRevisions_def components_at_def Let_def app comp)
    next
      case (Inr q)
      with False get show ?thesis
        by (cases "revision_manifests A r"; cases "revision_manifests A q")
           (simp_all add: validateRevisions_def components_at_def Let_def app comp)
    qed
  qed
qed

lemma ar_ValidateCreate_accepts:
  assumes "contains_doc (vaContains A)" and "\<not> arDeleting ar"
  shows "fst (ar_ValidateCreate A ar w) = Some [] \<longleftrightarrow> admissible_rollout A ar w"
proof -
  have plan: "plan_ValidateCreate (vaGetValue A) p path = [] \<longleftrightarrow> valid_plan (vaGetValue A) p" for p path
    by (simp add: plan_ValidateCreate_accepts valid_plan_def)
  obtain x w1 where get: "vaGetRevision A (arNamespace ar, TargetAppRevisionName (arSpec ar)) w = (x, w1)" by fastforce
  show ?thesis
  proof (cases x)
    case (Inl err)
    with get assms(2) show ?thesis by (simp add: ar_ValidateCreate_def admissible_rollout_def components_at_def Let_def)
  next
    case (Inr r)
    obtain v w2 where v: "validateRevisions A ar r w1 = (v, w2)" by fastforce
    from Inr get assms(2) v have "fst (ar_ValidateCreate A ar w) = Some [] \<longleftrightarrow>
        TargetAppRevisionName (arSpec ar) \<noteq> '''' \<and> vaObjectMeta A ar = [] \<and> v = Some [] \<and>
        valid_plan (vaGetValue A) (RolloutPlan (arSpec ar))"
      by (cases v) (auto simp: ar_ValidateCreate_def Let_def plan)
    moreover have "v = Some [] \<longleftrightarrow> fst (validateRevisions A ar r w1) = Some []" using v by simp
    ultimately show ?thesis
      using Inr get unfolding validateRevisions_accepts [OF assms(1)] admissible_rollout_def
      by (cases "revision_manifests A r") (auto simp: components_at_def)
  qed
qed

lemma ar_ValidateUpdate_accepts:
  "fst (ar_ValidateUpdate A new old w) = Some [] \<longleftrightarrow> fst (ar_ValidateCreate A new w) = Some [] \<and> may_update A old new"
  by (cases "ar_ValidateCreate A new w") (auto simp: ar_ValidateCreate_cases may_update_def split: option.splits)

text \<open>
  C21: The webhook admits exactly the right AppRollouts.  A request to create or update one that is not being
  deleted is allowed exactly if its metadata and plan are valid, its target revision and, if it
  names one, its source revision are found and can be decoded, its component list determines one
  component with a name that both revisions have, and, for an update of a rollout that has ended, the
  update changes a revision, changes one given target size into another, or leaves the plan as it is.
  Any request for an object that is being deleted is allowed.
\<close>

theorem rollout_admission_is_exact:
  assumes "contains_doc (vaContains A)" and "reqObject req = Inr new"
    and "reqOperation req = CreateOperation \<or> reqOperation req = UpdateOperation \<and> reqOldObject req = Inr old"
  shows "fst (validating_Handle A req w) = Some Allowed \<longleftrightarrow>
    arDeleting new \<or>
    admissible_rollout A new w \<and> (reqOperation req = UpdateOperation \<longrightarrow> may_update A old new)"
proof (cases "arDeleting new")
  case False
  have verdict: "fst (verdict_of r) = Some Allowed \<longleftrightarrow> fst r = Some []" for r :: "field_error list option \<times> 'a"
    by (cases r) (auto simp: verdict_of_def split: option.splits)
  from False assms(2,3) show ?thesis
    by (auto simp: validating_Handle_def verdict ar_ValidateUpdate_accepts ar_ValidateCreate_accepts [OF assms(1) False])
qed (use assms(2) in \<open>simp add: validating_Handle_def\<close>)

section \<open>Examples\<close>

definition example_manifest :: "string \<Rightarrow> component_manifest" where
  "example_manifest rn =
     \<lparr>cmName = ExtractComponentName rn, cmRevisionName = rn, cmRevisionHash = '''',
      cmStandardWorkload = None, cmTraits = [], cmScopes = [], cmPackagedWorkloadResources = [],
      cmInsertConfigNotReady = False\<rparr>"

theorem validateComponent_accepts_witness:
  "validateComponent (\<lambda>xs x. x \<in> set xs) [''web''] [example_manifest ''web-v2'']
     (Some [example_manifest ''web-v1'']) [] = Some [] \<and>
   validateComponent (\<lambda>xs x. x \<in> set xs) [] [example_manifest ''web''] None [] = None"
proof -
  have doc: "contains_doc (\<lambda>xs x. x \<in> set xs)" by (simp add: contains_doc_def)
  have "ExtractComponentName ''web-v2'' = ''web''" "ExtractComponentName ''web-v1'' = ''web''"
    "ExtractComponentName ''web'' = ''''"
    by (simp_all add: ExtractComponentName_def)
  then show ?thesis
    using validateComponent_accepts [OF doc, of "[''web'']" "[example_manifest ''web-v2'']" "Some [example_manifest ''web-v1'']" "[]"]
      validateComponent_accepts [OF doc, of "[]" "[example_manifest ''web'']" None "[]"]
    by (simp add: component_names_def example_manifest_def FindCommonComponent_def)
qed

end
