(* ===== verification/Assemble.thy ===== *)
theory Assemble
  imports App_Revision "HOL-Library.AList" "HOL-Library.Multiset"
begin

text \<open>
  Assembling the manifests of an application revision: application/assemble/assemble.go and the
  workload options of options.go.

  A Go map whose order of iteration matters is an association list without duplicate keys; the order
  that a range takes is the parameter \<open>asOrder\<close>.  An option works on a pointer to the workload and
  gives it back; none reads the component definition, which is left out.
\<close>

section \<open>Strings\<close>

text \<open>strings.TrimSpace and strings.ToLower on ASCII text, strings.Contains.\<close>

definition is_space :: "char \<Rightarrow> bool" where
  "is_space c \<longleftrightarrow> (of_char c :: nat) \<in> {9, 10, 11, 12, 13, 32}"

definition strings_TrimSpace :: "string \<Rightarrow> string" where
  "strings_TrimSpace s = rev (dropWhile is_space (rev (dropWhile is_space s)))"

definition strings_ToLower :: "string \<Rightarrow> string" where
  "strings_ToLower s = map (\<lambda>c. let k = (of_char c :: nat) in
                              if 65 \<le> k \<and> k \<le> 90 then char_of (k + 32) else c) s"

definition strings_Contains :: "string \<Rightarrow> string \<Rightarrow> bool" where
  "strings_Contains s t \<longleftrightarrow> sublist t s"

section \<open>Outside the repository\<close>

text \<open>
  fieldpath.Pave with SetBool and SetValue, unstructured.NestedString (\<open>None\<close> for an error or an
  absent field), the hash of a trait (json, spew, fnv and SafeEncodeString), the order of a range over a
  map, and the group of GroupVersionKind.
\<close>

record 'w assembler =
  asKube :: "'w kube"
  asDecoders :: decoders
  asSetBool :: "string \<Rightarrow> bool \<Rightarrow> unstructured \<Rightarrow> string + unstructured"
  asSetReference :: "string \<Rightarrow> object_reference \<Rightarrow> unstructured \<Rightarrow> string + unstructured"
  asNestedString :: "unstructured \<Rightarrow> string list \<Rightarrow> string option"
  asTraitHash :: "unstructured \<Rightarrow> string"
  asOrder :: "string list \<Rightarrow> string list"
  asKruiseGroup :: string
  asAppsGroup :: string

section \<open>Workload options\<close>

type_synonym 'w workload_option =
  "unstructured \<Rightarrow> unstructured list \<Rightarrow> 'w \<Rightarrow> (string + unstructured) \<times> 'w"

definition CloneSetKind :: string where "CloneSetKind = ''CloneSet''"
definition StatefulSetKind :: string where "StatefulSetKind = ''StatefulSet''"
definition DeploymentKind :: string where "DeploymentKind = ''Deployment''"

definition PrepareWorkloadForRollout :: "'w assembler \<Rightarrow> 'w workload_option" where
  "PrepareWorkloadForRollout A assembledWorkload resources w =
     (let gr = kGroup (asKube A) (uAPIVersion assembledWorkload);
          kind = uKind assembledWorkload;
          unknown = Inl (''we do not know how to prepare `'' @ uName assembledWorkload @
                      ''` as it has an unknown type '' @ uAPIVersion assembledWorkload @ '', Kind='' @ kind)
      in (if gr = asKruiseGroup A then
            (if kind = CloneSetKind
             then asSetBool A ''spec.updateStrategy.paused'' True assembledWorkload
             else if kind = StatefulSetKind
             then asSetBool A ''spec.updateStrategy.rollingUpdate.paused'' True assembledWorkload
             else unknown)
          else if gr = asAppsGroup A \<and> kind = DeploymentKind
          then asSetBool A ''spec.paused'' True assembledWorkload
          else unknown, w))"

definition HelmChartNamePath :: "string list" where
  "HelmChartNamePath = [''spec'', ''chart'', ''spec'', ''chart'']"

definition helm_workload_name :: "string \<Rightarrow> string \<Rightarrow> string" where
  "helm_workload_name rlsName chartName =
     (if strings_Contains rlsName chartName then rlsName
      else let name = rlsName @ CHR ''-'' # chartName in
           if length name > 63 then strings_TrimSuffix (take 63 name) ''-'' else name)"

definition managed_by_helm :: "string \<Rightarrow> string \<Rightarrow> unstructured \<Rightarrow> bool" where
  "managed_by_helm rlsName ns u \<longleftrightarrow>
     uAnnotations u \<noteq> None \<and> uLabels u \<noteq> None \<and>
     map_get (uAnnotations u) ''meta.helm.sh/release-name'' = rlsName \<and>
     map_get (uAnnotations u) ''meta.helm.sh/release-namespace'' = ns \<and>
     map_get (uLabels u) ''app.kubernetes.io/managed-by'' = ''Helm''"

definition discoverHelmModuleWorkload :: "'w assembler \<Rightarrow> 'w workload_option" where
  "discoverHelmModuleWorkload A assembledWorkload helmResources w =
     (if length helmResources = 0 then (Inr assembledWorkload, w)
      else if length (uAPIVersion assembledWorkload) = 0 \<and> length (uKind assembledWorkload) = 0
      then (Inr assembledWorkload, w)
      else let ns = uNamespace assembledWorkload in
        (case find (\<lambda>v. uKind v = HelmReleaseKind) helmResources of
           None \<Rightarrow> (Inl ''cannot get helm release'', w)
         | Some rls \<Rightarrow>
             (case asNestedString A rls HelmChartNamePath of
                None \<Rightarrow> (Inl ''cannot get helm chart name'', w)
              | Some chartName \<Rightarrow>
                  (let rlsName = uName rls; name = helm_workload_name rlsName chartName in
                   case kGet (asKube A) (uAPIVersion assembledWorkload) (uKind assembledWorkload) (ns, name) w of
                     (Inl err, w) \<Rightarrow> (Inl (errText err), w)
                   | (Inr workloadByHelm, w) \<Rightarrow>
                       if managed_by_helm rlsName ns workloadByHelm
                       then (Inr (assembledWorkload\<lparr>uName := name\<rparr>), w)
                       else (Inl (''the workload is found but not match with helm info(meta.helm.sh/release-name: '' @
                                rlsName @ '', meta.helm.sh/namespace: '' @ ns @
                                '', app.kubernetes.io/managed-by: Helm)''), w)))))"

section \<open>AppManifests\<close>

record 'w app_manifests =
  amAppRevision :: app_revision
  amWorkloadOptions :: "'w workload_option list"
  amComponentManifests :: "component_manifest list"
  amAppName :: string
  amAppNamespace :: string
  amAppLabels :: string_map
  amAppAnnotations :: string_map
  amAppOwnerRef :: "owner_ref option"
  amAssembledWorkloads :: "(string \<times> unstructured) list"
  amAssembledTraits :: "string \<rightharpoonup> unstructured list"
  amReferencedScopes :: "object_reference \<rightharpoonup> object_reference list"
  amFinalized :: bool
  amErr :: "string option"

definition NewAppManifests :: "app_revision \<Rightarrow> 'w app_manifests" where
  "NewAppManifests appRevision =
     \<lparr>amAppRevision = appRevision, amWorkloadOptions = [], amComponentManifests = [], amAppName = '''',
      amAppNamespace = '''', amAppLabels = None, amAppAnnotations = None, amAppOwnerRef = None,
      amAssembledWorkloads = [], amAssembledTraits = Map.empty, amReferencedScopes = Map.empty,
      amFinalized = False, amErr = None\<rparr>"

definition WithWorkloadOption :: "'w workload_option \<Rightarrow> 'w app_manifests \<Rightarrow> 'w app_manifests" where
  "WithWorkloadOption wo am = am\<lparr>amWorkloadOptions := amWorkloadOptions am @ [wo]\<rparr>"

text \<open>The error of reading the components is dropped.\<close>

definition am_complete :: "'w assembler \<Rightarrow> 'w app_manifests \<Rightarrow> 'w app_manifests" where
  "am_complete A am =
     (let r = amAppRevision am in
      am\<lparr>amComponentManifests :=
           (if length (amComponentManifests am) = 0
            then (case AppConfig2ComponentManifests (asDecoders A) (revApplicationConfiguration r) (revComponents r) of
                    Inl err \<Rightarrow> [] | Inr cms \<Rightarrow> cms)
            else amComponentManifests am),
         amAppNamespace := revNamespace r, amAppLabels := revLabels r,
         amAppName := map_get (revLabels r) LabelAppName, amAppAnnotations := revAnnotations r,
         amAppOwnerRef := kGetControllerOf (asKube A) (revOwnerReferences r),
         amAssembledWorkloads := [], amAssembledTraits := Map.empty, amReferencedScopes := Map.empty\<rparr>)"

definition am_validate :: "'w app_manifests \<Rightarrow> string option" where
  "am_validate am =
     (if amAppOwnerRef am = None then Some ''AppRevision must have an Application as owner''
      else if length (map_get (revLabels (amAppRevision am)) LabelAppName) = 0
      then Some ''AppRevision must have app name in the label''
      else if length (map_get (revLabels (amAppRevision am)) LabelAppRevisionHash) = 0
      then Some ''AppRevision must have revision hash in the label''
      else None)"

definition checkAutoDetectComponent :: "unstructured option \<Rightarrow> bool" where
  "checkAutoDetectComponent wl =
     (case wl of None \<Rightarrow> True | Some u \<Rightarrow> length (uAPIVersion u) = 0 \<and> length (uKind u) = 0)"

definition generateAndFilterCommonLabels :: "'w app_manifests \<Rightarrow> string \<Rightarrow> string \<Rightarrow> string_map" where
  "generateAndFilterCommonLabels am componentName compRevisionName =
     (let labels = Some [LabelAppName \<mapsto> amAppName am, LabelAppRevision \<mapsto> revName (amAppRevision am),
                         LabelAppRevisionHash \<mapsto> map_get (revLabels (amAppRevision am)) LabelAppRevisionHash,
                         LabelAppComponent \<mapsto> componentName, LabelAppComponentRevision \<mapsto> compRevisionName];
          finalLabels = MergeMapOverrideWithDst labels (amAppLabels am)
      in case map_lookup (amAppAnnotations am) AnnotationFilterLabelKeys of
           None \<Rightarrow> finalLabels
         | Some filterLabels \<Rightarrow>
             map_delete (map strings_TrimSpace (strings_Split filterLabels CHR '','')) finalLabels)"

definition DefaultFilterAnnots :: "string list" where
  "DefaultFilterAnnots =
     [AnnotationAppRollout, AnnotationRollingComponent, AnnotationInplaceUpgrade,
      AnnotationFilterLabelKeys, AnnotationFilterAnnotationKeys]"

definition filterAndSetAnnotations :: "'w app_manifests \<Rightarrow> unstructured \<Rightarrow> unstructured" where
  "filterAndSetAnnotations am obj =
     (let allFilterAnnotation = DefaultFilterAnnots @
            (case map_lookup (amAppAnnotations am) AnnotationFilterAnnotationKeys of
               None \<Rightarrow> [] | Some passed \<Rightarrow> strings_Split passed CHR '','')
      in RemoveAnnotations (AddAnnotations obj (amAppAnnotations am)) allFilterAnnotation)"

definition setNamespace :: "'w app_manifests \<Rightarrow> unstructured \<Rightarrow> unstructured" where
  "setNamespace am obj = (if length (uNamespace obj) = 0 then obj\<lparr>uNamespace := amAppNamespace am\<rparr> else obj)"

definition setWorkloadLabels :: "unstructured \<Rightarrow> string_map \<Rightarrow> unstructured" where
  "setWorkloadLabels wl commonLabels =
     AddLabels (AddLabels wl (Some [LabelOAMResourceType \<mapsto> ResourceTypeWorkload])) commonLabels"

definition setTraitLabels :: "unstructured \<Rightarrow> string_map \<Rightarrow> unstructured" where
  "setTraitLabels trait commonLabels =
     AddLabels (AddLabels trait (Some [LabelOAMResourceType \<mapsto> ResourceTypeTrait])) commonLabels"

fun apply_options ::
  "string \<Rightarrow> 'w workload_option list \<Rightarrow> unstructured \<Rightarrow> unstructured list \<Rightarrow> 'w \<Rightarrow> (string + unstructured) \<times> 'w"
  where
  "apply_options componentName [] wl resources w = (Inr wl, w)"
| "apply_options componentName (wo # wos) wl resources w =
     (case wo wl resources w of
        (Inl err, w) \<Rightarrow> (Inl (errors_Wrap err (''cannot apply workload option for component '' @ componentName)), w)
      | (Inr wl, w) \<Rightarrow> apply_options componentName wos wl resources w)"

definition assembleWorkload ::
  "'w app_manifests \<Rightarrow> string \<Rightarrow> unstructured \<Rightarrow> string_map \<Rightarrow> unstructured list \<Rightarrow> 'w \<Rightarrow>
     (string + unstructured) \<times> 'w" where
  "assembleWorkload am componentName wl labels resources w =
     (let wl = wl\<lparr>uName := componentName\<rparr>;
          wl = setWorkloadLabels wl labels;
          wl = filterAndSetAnnotations am wl;
          wl = setNamespace am wl
      in apply_options componentName (amWorkloadOptions am) wl resources w)"

definition TraitPrefixKey :: string where "TraitPrefixKey = ''trait''"
definition Dummy :: string where "Dummy = ''dummy''"

definition GenTraitName :: "string \<Rightarrow> string \<Rightarrow> string \<Rightarrow> string" where
  "GenTraitName componentName hash traitType =
     (let traitMiddleName = (if traitType \<noteq> '''' \<and> traitType \<noteq> Dummy then strings_ToLower traitType
                             else TraitPrefixKey)
      in componentName @ CHR ''-'' # traitMiddleName @ CHR ''-'' # hash)"

definition assembleTrait ::
  "'w assembler \<Rightarrow> 'w app_manifests \<Rightarrow> unstructured \<Rightarrow> string \<Rightarrow> string_map \<Rightarrow> unstructured" where
  "assembleTrait A am trait componentName labels =
     (let traitType = map_get (uLabels trait) TraitTypeLabel;
          trait = (if length (uName trait) = 0
                   then trait\<lparr>uName := GenTraitName componentName (asTraitHash A trait) traitType\<rparr> else trait);
          trait = setTraitLabels trait labels;
          trait = filterAndSetAnnotations am trait
      in setNamespace am trait)"

text \<open>An absent definition reads as one without a path.\<close>

definition setWorkloadRefToTrait ::
  "'w assembler \<Rightarrow> 'w app_manifests \<Rightarrow> object_reference \<Rightarrow> unstructured \<Rightarrow> string + unstructured" where
  "setWorkloadRefToTrait A am wlRef trait =
     (let traitType = map_get (uLabels trait) TraitTypeLabel;
          workloadRefPath = (case revTraitDefinitions (amAppRevision am) traitType of
                               None \<Rightarrow> '''' | Some d \<Rightarrow> WorkloadRefPath d)
      in if length workloadRefPath \<noteq> 0 then asSetReference A workloadRefPath wlRef trait else Inr trait)"

fun assemble_traits ::
  "'w assembler \<Rightarrow> 'w app_manifests \<Rightarrow> object_reference \<Rightarrow> string \<Rightarrow> string_map \<Rightarrow> unstructured list \<Rightarrow>
     string + unstructured list" where
  "assemble_traits A am workloadRef componentName labels [] = Inr []"
| "assemble_traits A am workloadRef componentName labels (t # ts) =
     (let trait = assembleTrait A am t componentName labels in
      case setWorkloadRefToTrait A am workloadRef trait of
        Inl err \<Rightarrow> Inl (errors_Wrap err (''cannot set workload reference to trait '' @ uName trait))
      | Inr trait \<Rightarrow>
          (case assemble_traits A am workloadRef componentName labels ts of
             Inl err \<Rightarrow> Inl err
           | Inr traits \<Rightarrow> Inr (trait # traits)))"

definition finalizeAssemble :: "string option \<Rightarrow> 'w app_manifests \<Rightarrow> 'w app_manifests" where
  "finalizeAssemble err am =
     am\<lparr>amFinalized := True,
        amErr := (case err of None \<Rightarrow> amErr am
          | Some e \<Rightarrow> Some (errors_Wrap e (''cannot assemble manifests for application '' @ amAppName am)))\<rparr>"

text \<open>The loop over the components: the error, and the maps as they are then.\<close>

fun assemble_components ::
  "'w assembler \<Rightarrow> component_manifest list \<Rightarrow> 'w app_manifests \<Rightarrow> 'w \<Rightarrow>
     (string option \<times> 'w app_manifests) \<times> 'w" where
  "assemble_components A [] am w = ((None, am), w)"
| "assemble_components A (cm # comps) am w =
     (if cmInsertConfigNotReady cm then assemble_components A comps am w
      else if checkAutoDetectComponent (cmStandardWorkload cm) then assemble_components A comps am w
      else
        let componentName = cmName cm;
            commonLabels = generateAndFilterCommonLabels am componentName (cmRevisionName cm)
        in case assembleWorkload am componentName (the (cmStandardWorkload cm)) commonLabels
                  (cmPackagedWorkloadResources cm) w of
             (Inl err, w) \<Rightarrow> ((Some err, am), w)
           | (Inr wl, w) \<Rightarrow>
               (let am = am\<lparr>amAssembledWorkloads := AList.update componentName wl (amAssembledWorkloads am)\<rparr>;
                    workloadRef = \<lparr>objKind = uKind wl, objName = uName wl, objAPIVersion = uAPIVersion wl\<rparr>
                in case assemble_traits A am workloadRef componentName commonLabels (cmTraits cm) of
                     Inl err \<Rightarrow> ((Some err, am), w)
                   | Inr traits \<Rightarrow>
                       assemble_components A comps
                         (am\<lparr>amAssembledTraits := (amAssembledTraits am)(componentName \<mapsto> traits),
                             amReferencedScopes := (amReferencedScopes am)(workloadRef \<mapsto> cmScopes cm)\<rparr>) w))"

definition assemble :: "'w assembler \<Rightarrow> 'w app_manifests \<Rightarrow> 'w \<Rightarrow> 'w app_manifests \<times> 'w" where
  "assemble A am w =
     (let am = am_complete A am in
      case am_validate am of
        Some err \<Rightarrow> (finalizeAssemble (Some err) am, w)
      | None \<Rightarrow>
          (case assemble_components A (amComponentManifests am) am w of
             ((err, am), w) \<Rightarrow> (finalizeAssemble err am, w)))"

definition assembled :: "'w assembler \<Rightarrow> 'w app_manifests \<Rightarrow> 'w \<Rightarrow> 'w app_manifests \<times> 'w" where
  "assembled A am w = (if \<not> amFinalized am then assemble A am w else (am, w))"

definition AssembledManifests ::
  "'w assembler \<Rightarrow> 'w app_manifests \<Rightarrow> 'w \<Rightarrow> ((string + unstructured list) \<times> 'w app_manifests) \<times> 'w" where
  "AssembledManifests A am w =
     (case assembled A am w of
        (am, w) \<Rightarrow>
          (((case amErr am of
              Some err \<Rightarrow> Inl err
            | None \<Rightarrow> Inr (concat (map (\<lambda>componentName.
                (case map_of (amAssembledWorkloads am) componentName of None \<Rightarrow> [] | Some wl \<Rightarrow> [wl]) @
                (case amAssembledTraits am componentName of None \<Rightarrow> [] | Some ts \<Rightarrow> ts))
                (asOrder A (map fst (amAssembledWorkloads am)))))), am), w))"

definition GroupAssembledManifests ::
  "'w assembler \<Rightarrow> 'w app_manifests \<Rightarrow> 'w \<Rightarrow>
     ((string + (string \<times> unstructured) list \<times> (string \<rightharpoonup> unstructured list) \<times>
        (object_reference \<rightharpoonup> object_reference list)) \<times> 'w app_manifests) \<times> 'w" where
  "GroupAssembledManifests A am w =
     (case assembled A am w of
        (am, w) \<Rightarrow>
          (((case amErr am of
              Some err \<Rightarrow> Inl err
            | None \<Rightarrow> Inr (amAssembledWorkloads am, amAssembledTraits am, amReferencedScopes am)), am), w))"

definition ReferencedScopes ::
  "'w assembler \<Rightarrow> 'w app_manifests \<Rightarrow> 'w \<Rightarrow>
     ((string + (object_reference \<rightharpoonup> object_reference list)) \<times> 'w app_manifests) \<times> 'w" where
  "ReferencedScopes A am w =
     (case assembled A am w of
        (am, w) \<Rightarrow>
          (((case amErr am of Some err \<Rightarrow> Inl err | None \<Rightarrow> Inr (amReferencedScopes am)), am), w))"


section \<open>What every assembled object carries\<close>

text \<open>
  The application's labels, except those that the application asks to filter, a namespace, and none
  of the annotations that steer the application controller.
\<close>

definition filtered_labels :: "app_revision \<Rightarrow> string list" where
  "filtered_labels r =
     (case map_lookup (revAnnotations r) AnnotationFilterLabelKeys of
        None \<Rightarrow> [] | Some s \<Rightarrow> map strings_TrimSpace (strings_Split s CHR '',''))"

definition carries :: "app_revision \<Rightarrow> unstructured \<Rightarrow> bool" where
  "carries r m \<longleftrightarrow>
     (\<forall>k \<in> set DefaultFilterAnnots. map_lookup (uAnnotations m) k = None) \<and>
     (revNamespace r \<noteq> '''' \<longrightarrow> uNamespace m \<noteq> '''') \<and>
     (\<forall>k v. map_lookup (revLabels r) k = Some v \<and> k \<notin> set (filtered_labels r) \<longrightarrow>
        map_lookup (uLabels m) k = Some v)"

definition same_meta :: "unstructured \<Rightarrow> unstructured \<Rightarrow> bool" where
  "same_meta u v \<longleftrightarrow> uLabels v = uLabels u \<and> uAnnotations v = uAnnotations u \<and> uNamespace v = uNamespace u"

definition option_keeps_meta :: "'w workload_option \<Rightarrow> bool" where
  "option_keeps_meta wo \<longleftrightarrow> (\<forall>u rs w v w'. wo u rs w = (Inr v, w') \<longrightarrow> same_meta u v)"

definition fields_doc :: "'w assembler \<Rightarrow> bool" where
  "fields_doc A \<longleftrightarrow>
     (\<forall>p b u v. asSetBool A p b u = Inr v \<longrightarrow> same_meta u v \<and> uName v = uName u \<and> uKind v = uKind u \<and>
        uAPIVersion v = uAPIVersion u) \<and>
     (\<forall>p x u v. asSetReference A p x u = Inr v \<longrightarrow> same_meta u v)"

lemma same_meta_refl [simp]: "same_meta u u"
  by (simp add: same_meta_def)

lemma same_meta_trans: "same_meta a b \<Longrightarrow> same_meta b c \<Longrightarrow> same_meta a c"
  by (simp add: same_meta_def)

lemma carries_same_meta: "same_meta u v \<Longrightarrow> carries r u \<Longrightarrow> carries r v"
  by (simp add: same_meta_def carries_def)

definition prepared :: "app_revision \<Rightarrow> 'w app_manifests \<Rightarrow> bool" where
  "prepared r am \<longleftrightarrow> amAppRevision am = r \<and> amAppLabels am = revLabels r \<and>
     amAppAnnotations am = revAnnotations r \<and> amAppNamespace am = revNamespace r"

lemma common_labels_lookup:
  assumes "prepared r am" and "map_lookup (revLabels r) k = Some v" and "k \<notin> set (filtered_labels r)"
  shows "map_lookup (generateAndFilterCommonLabels am n rn) k = Some v"
proof -
  have "map_lookup (MergeMapOverrideWithDst x (amAppLabels am)) k = Some v" for x
    using assms by (simp add: prepared_def)
  then show ?thesis
    using assms by (auto simp: generateAndFilterCommonLabels_def Let_def filtered_labels_def prepared_def
        split: option.splits)
qed

lemma filterAndSet_annotations:
  "k \<in> set DefaultFilterAnnots \<Longrightarrow> map_lookup (uAnnotations (filterAndSetAnnotations am u)) k = None"
  by (simp add: filterAndSetAnnotations_def RemoveAnnotations_def Let_def)

lemma filterAndSet_frame [simp]:
  "uLabels (filterAndSetAnnotations am u) = uLabels u" "uNamespace (filterAndSetAnnotations am u) = uNamespace u"
  "uName (filterAndSetAnnotations am u) = uName u" "uAPIVersion (filterAndSetAnnotations am u) = uAPIVersion u"
  "uKind (filterAndSetAnnotations am u) = uKind u"
  by (simp_all add: filterAndSetAnnotations_def RemoveAnnotations_def AddAnnotations_def Let_def)

lemma setNamespace_frame [simp]:
  "uLabels (setNamespace am u) = uLabels u" "uAnnotations (setNamespace am u) = uAnnotations u"
  "uName (setNamespace am u) = uName u" "uAPIVersion (setNamespace am u) = uAPIVersion u"
  "uKind (setNamespace am u) = uKind u"
  by (simp_all add: setNamespace_def)

lemma setLabels_frame [simp]:
  "uName (setWorkloadLabels u l) = uName u" "uAPIVersion (setWorkloadLabels u l) = uAPIVersion u"
  "uKind (setWorkloadLabels u l) = uKind u"
  "map_lookup l k = Some v \<Longrightarrow> map_lookup (uLabels (setWorkloadLabels u l)) k = Some v"
  "map_lookup l k = Some v \<Longrightarrow> map_lookup (uLabels (setTraitLabels u l)) k = Some v"
  by (simp_all add: setWorkloadLabels_def setTraitLabels_def AddLabels_def)

lemma dressed_carries:
  assumes "prepared r am"
    and "\<And>k v. map_lookup (generateAndFilterCommonLabels am n rn) k = Some v \<Longrightarrow> map_lookup (uLabels u) k = Some v"
  shows "carries r (setNamespace am (filterAndSetAnnotations am u))"
  unfolding carries_def
proof (intro conjI ballI allI impI)
  show "map_lookup (uAnnotations (setNamespace am (filterAndSetAnnotations am u))) k = None"
    if "k \<in> set DefaultFilterAnnots" for k
    using filterAndSet_annotations [OF that] by simp
  show "uNamespace (setNamespace am (filterAndSetAnnotations am u)) \<noteq> ''''" if "revNamespace r \<noteq> ''''"
    using that assms(1) by (simp add: setNamespace_def prepared_def)
  show "map_lookup (uLabels (setNamespace am (filterAndSetAnnotations am u))) k = Some v"
    if "map_lookup (revLabels r) k = Some v \<and> k \<notin> set (filtered_labels r)" for k v
    using assms(2) [OF common_labels_lookup [OF assms(1)]] that by simp
qed

lemma apply_options_meta:
  "\<forall>wo \<in> set wos. option_keeps_meta wo \<Longrightarrow> apply_options n wos wl rs w = (Inr wl', w') \<Longrightarrow> same_meta wl wl'"
proof (induction wos arbitrary: wl w)
  case (Cons wo wos)
  from Cons.prems(2) obtain u v where u: "wo wl rs w = (Inr u, v)" "apply_options n wos u rs v = (Inr wl', w')"
    by (auto split: prod.splits sum.splits)
  moreover have "option_keeps_meta wo" using Cons.prems(1) by simp
  ultimately have "same_meta wl u" unfolding option_keeps_meta_def by blast
  moreover have "same_meta u wl'" using Cons.IH [OF _ \<open>apply_options n wos u rs v = _\<close>] Cons.prems(1) by simp
  ultimately show ?case by (rule same_meta_trans)
qed simp

lemma assembleWorkload_carries:
  assumes "prepared r am" and "\<forall>wo \<in> set (amWorkloadOptions am). option_keeps_meta wo"
    and "assembleWorkload am n wl (generateAndFilterCommonLabels am n rn) rs w = (Inr wl', w')"
  shows "carries r wl'"
proof -
  let ?u = "setWorkloadLabels (wl\<lparr>uName := n\<rparr>) (generateAndFilterCommonLabels am n rn)"
  have "apply_options n (amWorkloadOptions am) (setNamespace am (filterAndSetAnnotations am ?u)) rs w = (Inr wl', w')"
    using assms(3) by (simp add: assembleWorkload_def Let_def)
  from apply_options_meta [OF assms(2) this] show ?thesis
    by (rule carries_same_meta) (rule dressed_carries [OF assms(1), of n rn], simp)
qed

lemma assemble_traits_carry:
  assumes "prepared r am" and doc: "fields_doc A"
  shows "assemble_traits A am ref n (generateAndFilterCommonLabels am n rn) ts = Inr ts' \<Longrightarrow>
         \<forall>t \<in> set ts'. carries r t"
proof (induction ts arbitrary: ts')
  case (Cons t ts)
  let ?t = "assembleTrait A am t n (generateAndFilterCommonLabels am n rn)"
  from Cons.prems obtain t' rest where t: "setWorkloadRefToTrait A am ref ?t = Inr t'"
    "assemble_traits A am ref n (generateAndFilterCommonLabels am n rn) ts = Inr rest" "ts' = t' # rest"
    by (auto simp: Let_def split: sum.splits)
  have "carries r ?t"
    unfolding assembleTrait_def Let_def by (rule dressed_carries [OF assms(1), of n rn]) simp
  moreover have "same_meta ?t t'"
    using t(1) doc by (auto simp: setWorkloadRefToTrait_def Let_def fields_doc_def split: if_splits)
  ultimately show ?case using Cons.IH [OF t(2)] t(3) by (auto intro: carries_same_meta)
qed simp

definition all_carry :: "app_revision \<Rightarrow> 'w app_manifests \<Rightarrow> bool" where
  "all_carry r am \<longleftrightarrow>
     (\<forall>n u. map_of (amAssembledWorkloads am) n = Some u \<longrightarrow> carries r u) \<and>
     (\<forall>n ts. amAssembledTraits am n = Some ts \<longrightarrow> (\<forall>t \<in> set ts. carries r t))"

lemma assemble_components_carry:
  assumes doc: "fields_doc A"
  shows "assemble_components A cms am w = ((err, am'), w') \<Longrightarrow> prepared r am \<Longrightarrow> all_carry r am \<Longrightarrow>
     \<forall>wo \<in> set (amWorkloadOptions am). option_keeps_meta wo \<Longrightarrow> err = None \<Longrightarrow> all_carry r am' \<and> amErr am' = amErr am"
proof (induction cms arbitrary: am w)
  case (Cons cm cms)
  show ?case
  proof (cases "cmInsertConfigNotReady cm \<or> checkAutoDetectComponent (cmStandardWorkload cm)")
    case True
    then have "assemble_components A (cm # cms) am w = assemble_components A cms am w" by auto
    with Cons.prems show ?thesis by (intro Cons.IH [of am w]) simp_all
  next
    case False
    let ?n = "cmName cm" and ?ls = "generateAndFilterCommonLabels am (cmName cm) (cmRevisionName cm)"
    obtain res w1 where wl: "assembleWorkload am ?n (the (cmStandardWorkload cm)) ?ls (cmPackagedWorkloadResources cm) w = (res, w1)"
      by fastforce
    with Cons.prems(1,5) False obtain u where u: "res = Inr u" by (cases res) (auto simp: Let_def)
    let ?am = "am\<lparr>amAssembledWorkloads := AList.update ?n u (amAssembledWorkloads am)\<rparr>"
    let ?ref = "\<lparr>objKind = uKind u, objName = uName u, objAPIVersion = uAPIVersion u\<rparr>"
    obtain tres where ts: "assemble_traits A ?am ?ref ?n ?ls (cmTraits cm) = tres" by blast
    with Cons.prems(1,5) False wl u obtain traits where traits: "tres = Inr traits" by (cases tres) (auto simp: Let_def)
    let ?am' = "?am\<lparr>amAssembledTraits := (amAssembledTraits am)(?n \<mapsto> traits),
                    amReferencedScopes := (amReferencedScopes am)(?ref \<mapsto> cmScopes cm)\<rparr>"
    have step: "assemble_components A cms ?am' w1 = ((err, am'), w')"
      using Cons.prems(1) False wl u ts traits by (simp add: Let_def)
    have prep: "prepared r ?am" "prepared r ?am'" using Cons.prems(2) by (simp_all add: prepared_def)
    have labels: "?ls = generateAndFilterCommonLabels ?am ?n (cmRevisionName cm)"
      by (simp add: generateAndFilterCommonLabels_def)
    have "carries r u"
      using assembleWorkload_carries [OF Cons.prems(2,4)] wl u by blast
    moreover have "\<forall>t \<in> set traits. carries r t"
      using assemble_traits_carry [OF prep(1) doc] ts traits labels by metis
    ultimately have "all_carry r ?am'"
      using Cons.prems(3) by (auto simp: all_carry_def update_conv')
    with Cons.IH [OF step prep(2)] Cons.prems(4,5) show ?thesis by simp
  qed
qed simp

lemma assembled_carry:
  assumes doc: "fields_doc A" and "\<not> amFinalized am" and "\<forall>wo \<in> set (amWorkloadOptions am). option_keeps_meta wo"
    and as: "assembled A am w = (am', w')" and "amErr am' = None"
  shows "all_carry (amAppRevision am) am'"
proof -
  let ?r = "amAppRevision am" and ?am = "am_complete A am"
  obtain err am1 w1 where c: "assemble_components A (amComponentManifests ?am) ?am w = ((err, am1), w1)"
    by (metis prod.exhaust)
  have "prepared ?r ?am" "all_carry ?r ?am" "amWorkloadOptions ?am = amWorkloadOptions am"
    by (simp_all add: prepared_def all_carry_def am_complete_def Let_def)
  moreover have "err = None" "am' = finalizeAssemble None am1"
    using as assms(2,5) c
    by (auto simp: assembled_def assemble_def Let_def finalizeAssemble_def split: option.splits)
  ultimately have "all_carry ?r am1"
    using assemble_components_carry [OF doc c] assms(3) by simp
  with \<open>am' = _\<close> show ?thesis by (simp add: finalizeAssemble_def all_carry_def)
qed

text \<open>
  C16: Whatever the options do to a workload's content, every assembled workload and trait carries
  the labels of the application revision that are not filtered out, lives in a namespace when the
  revision does, and has none of the annotations by which the application controller is steered.
\<close>

theorem assembled_objects_carry:
  assumes "fields_doc A" and "\<not> amFinalized am" and "\<forall>wo \<in> set (amWorkloadOptions am). option_keeps_meta wo"
    and "AssembledManifests A am w = ((Inr ms, am'), w')"
  shows "list_all (carries (amAppRevision am)) ms"
proof -
  obtain am1 w1 where as: "assembled A am w = (am1, w1)" by fastforce
  with assms(4) have err: "amErr am1 = None"
    and ms: "ms = concat (map (\<lambda>n.
                (case map_of (amAssembledWorkloads am1) n of None \<Rightarrow> [] | Some wl \<Rightarrow> [wl]) @
                (case amAssembledTraits am1 n of None \<Rightarrow> [] | Some ts \<Rightarrow> ts))
                (asOrder A (map fst (amAssembledWorkloads am1))))"
    by (auto simp: AssembledManifests_def split: option.splits)
  from assembled_carry [OF assms(1-3) as err]
  have "carries (amAppRevision am) u" if "map_of (amAssembledWorkloads am1) n = Some u" for n u
    using that by (simp add: all_carry_def)
  moreover from assembled_carry [OF assms(1-3) as err]
  have "carries (amAppRevision am) t" if "amAssembledTraits am1 n = Some ts" "t \<in> set ts" for n ts t
    using that unfolding all_carry_def by metis
  ultimately show ?thesis
    unfolding list_all_iff ms by (force split: option.splits)
qed

section \<open>The order of the manifests\<close>

text \<open>
  The manifests come component by component, each workload directly before its traits, but the
  components come in whatever order the range over the map takes.
\<close>

lemma AssembledManifests_blocks:
  assumes "amFinalized am"
  shows "case amErr am of
           Some err \<Rightarrow> fst (fst (AssembledManifests A am w)) = Inl err
         | None \<Rightarrow> fst (fst (AssembledManifests (A\<lparr>asOrder := ord\<rparr>) am w)) =
             Inr (concat (map (\<lambda>n. (case map_of (amAssembledWorkloads am) n of None \<Rightarrow> [] | Some wl \<Rightarrow> [wl]) @
                               (case amAssembledTraits am n of None \<Rightarrow> [] | Some ts \<Rightarrow> ts))
               (ord (map fst (amAssembledWorkloads am)))))"
  using assms by (auto simp: AssembledManifests_def assembled_def split: option.splits)


section \<open>Which workloads are assembled\<close>

definition assembles :: "component_manifest \<Rightarrow> bool" where
  "assembles cm \<longleftrightarrow> \<not> cmInsertConfigNotReady cm \<and> \<not> checkAutoDetectComponent (cmStandardWorkload cm)"

definition assembled_names :: "component_manifest list \<Rightarrow> string set" where
  "assembled_names cms = cmName ` {cm \<in> set cms. assembles cm}"

lemma assembled_names_simps [simp]:
  "assembled_names [] = {}"
  "assembled_names (cm # cms) = (if assembles cm then insert (cmName cm) (assembled_names cms) else assembled_names cms)"
  by (auto simp: assembled_names_def)

abbreviation workload_names :: "'w app_manifests \<Rightarrow> string set" where
  "workload_names am \<equiv> fst ` set (amAssembledWorkloads am)"

lemma assemble_components_names:
  assumes "assemble_components A cms am w = ((err, am'), w')"
    and "distinct (map fst (amAssembledWorkloads am))"
  shows "distinct (map fst (amAssembledWorkloads am')) \<and> amErr am' = amErr am \<and>
         (err = None \<longrightarrow> workload_names am' = workload_names am \<union> assembled_names cms)"
  using assms
proof (induction cms arbitrary: am w)
  case (Cons cm cms)
  show ?case
  proof (cases "assembles cm")
    case False
    with Cons.prems have "assemble_components A cms am w = ((err, am'), w')"
      by (auto simp: assembles_def split: if_splits)
    from Cons.IH [OF this Cons.prems(2)] False show ?thesis by simp
  next
    case True
    let ?labels = "generateAndFilterCommonLabels am (cmName cm) (cmRevisionName cm)"
    obtain r w1 where wl: "assembleWorkload am (cmName cm) (the (cmStandardWorkload cm)) ?labels
        (cmPackagedWorkloadResources cm) w = (r, w1)" by fastforce
    have step: "assemble_components A (cm # cms) am w =
        (case assembleWorkload am (cmName cm) (the (cmStandardWorkload cm)) ?labels (cmPackagedWorkloadResources cm) w of
             (Inl err, w) \<Rightarrow> ((Some err, am), w)
           | (Inr wl, w) \<Rightarrow>
               (let am = am\<lparr>amAssembledWorkloads := AList.update (cmName cm) wl (amAssembledWorkloads am)\<rparr>;
                    workloadRef = \<lparr>objKind = uKind wl, objName = uName wl, objAPIVersion = uAPIVersion wl\<rparr>
                in case assemble_traits A am workloadRef (cmName cm) ?labels (cmTraits cm) of
                     Inl err \<Rightarrow> ((Some err, am), w)
                   | Inr traits \<Rightarrow>
                       assemble_components A cms
                         (am\<lparr>amAssembledTraits := (amAssembledTraits am)(cmName cm \<mapsto> traits),
                             amReferencedScopes := (amReferencedScopes am)(workloadRef \<mapsto> cmScopes cm)\<rparr>) w))"
      using True by (simp add: assembles_def Let_def)
    show ?thesis
    proof (cases r)
      case (Inl e)
      with Cons.prems step wl show ?thesis by auto
    next
      case (Inr u)
      let ?am = "am\<lparr>amAssembledWorkloads := AList.update (cmName cm) u (amAssembledWorkloads am)\<rparr>"
      let ?ref = "\<lparr>objKind = uKind u, objName = uName u, objAPIVersion = uAPIVersion u\<rparr>"
      have d: "distinct (map fst (amAssembledWorkloads ?am))"
        using distinct_update [OF Cons.prems(2)] by simp
      have names: "workload_names ?am = insert (cmName cm) (workload_names am)"
        by (simp add: dom_update)
      show ?thesis
      proof (cases "assemble_traits A ?am ?ref (cmName cm) ?labels (cmTraits cm)")
        case (Inl e)
        with Cons.prems step wl \<open>r = Inr u\<close> d show ?thesis by auto
      next
        case (Inr traits)
        with Cons.prems(1) step wl \<open>r = Inr u\<close>
        have "assemble_components A cms
            (?am\<lparr>amAssembledTraits := (amAssembledTraits ?am)(cmName cm \<mapsto> traits),
                 amReferencedScopes := (amReferencedScopes ?am)(?ref \<mapsto> cmScopes cm)\<rparr>) w1 = ((err, am'), w')"
          by (simp add: Let_def)
        from Cons.IH [OF this] d names True show ?thesis by auto
      qed
    qed
  qed
qed simp

lemma assembled_workload_names:
  assumes "assembled A am w = (am', w')" and "\<not> amFinalized am"
  shows "amFinalized am' \<and> distinct (map fst (amAssembledWorkloads am')) \<and>
         (amErr am' = None \<longrightarrow> workload_names am' = assembled_names (amComponentManifests (am_complete A am)))"
proof -
  let ?am = "am_complete A am"
  have start: "amAssembledWorkloads ?am = []" by (simp add: am_complete_def Let_def)
  show ?thesis
  proof (cases "am_validate ?am")
    case (Some e)
    with assms start show ?thesis by (auto simp: assembled_def assemble_def Let_def finalizeAssemble_def)
  next
    case None
    obtain err am1 w1 where run: "assemble_components A (amComponentManifests ?am) ?am w = ((err, am1), w1)"
      by (metis prod.exhaust)
    with assms None have "am' = finalizeAssemble err am1" by (simp add: assembled_def assemble_def Let_def)
    with assemble_components_names [OF run] start show ?thesis
      by (auto simp: finalizeAssemble_def split: option.splits)
  qed
qed


section \<open>An example\<close>

definition example_assembler :: "kube_world assembler" where
  "example_assembler =
     \<lparr>asKube = example_kube, asDecoders = plain_decoders, asSetBool = (\<lambda>p b u. Inr u),
      asSetReference = (\<lambda>p r u. Inr u), asNestedString = (\<lambda>u p. None), asTraitHash = (\<lambda>u. ''hash''),
      asOrder = (\<lambda>ks. ks), asKruiseGroup = ''apps.kruise.io'', asAppsGroup = ''apps''\<rparr>"

definition app_owner :: owner_ref where
  "app_owner = \<lparr>orAPIVersion = SchemeGroupVersion, orKind = ''Application'', orName = ''app'', orUID = ''app'',
                orController = Some True, orBlockOwnerDeletion = None\<rparr>"

definition labelled_revision :: app_revision where
  "labelled_revision =
     \<lparr>revName = ''app-v1'', revNamespace = ''default'',
      revLabels = Some [LabelAppName \<mapsto> ''app'', LabelAppRevisionHash \<mapsto> ''h''],
      revAnnotations = Some [AnnotationAppRollout \<mapsto> ''true''],
      revOwnerReferences = [app_owner], revApplicationConfiguration = ''ac'', revComponents = [''comp''],
      revTraitDefinitions = Map.empty\<rparr>"

lemma plain_components:
  "AppConfig2ComponentManifests plain_decoders ''ac'' [''comp''] = Inr [plain_manifest ''web'']"
  by (simp add: AppConfig2ComponentManifests_def RawExtension2AppConfig_def RawExtension2Component_def
      RawExtension2Unstructured_def component_manifest_of_def plain_decoders_def plain_acc_def
      plain_component_def plain_manifest_def map_get_def Let_def)

lemma example_assembled:
  "\<exists>am u. assembled example_assembler (NewAppManifests labelled_revision) w = (am, w) \<and> amErr am = None \<and>
     amAssembledWorkloads am = [(''web'', u)] \<and> amAssembledTraits am = [''web'' \<mapsto> []]"
proof -
  have keys: "LabelAppName \<noteq> LabelAppRevisionHash" by (simp add: oam_keys)
  let ?am = "am_complete example_assembler (NewAppManifests labelled_revision)"
  have "amComponentManifests ?am = [plain_manifest ''web'']"
    using plain_components
    by (simp add: am_complete_def NewAppManifests_def labelled_revision_def example_assembler_def)
  moreover have "am_validate ?am = None"
    using keys
    by (simp add: am_validate_def am_complete_def NewAppManifests_def labelled_revision_def example_assembler_def
        example_kube_def app_owner_def map_get_def)
  moreover have "amWorkloadOptions ?am = []" "amErr ?am = None" "amAssembledWorkloads ?am = []" "amAssembledTraits ?am = Map.empty"
    by (simp_all add: am_complete_def NewAppManifests_def Let_def)
  ultimately show ?thesis
    by (simp add: assembled_def assemble_def NewAppManifests_def plain_manifest_def checkAutoDetectComponent_def
        assembleWorkload_def finalizeAssemble_def Let_def)
qed

theorem assembled_objects_carry_witness:
  "\<exists>ms. fst (fst (AssembledManifests example_assembler (NewAppManifests labelled_revision)
          \<lparr>kwObjects = Map.empty, kwTrackers = Map.empty\<rparr>)) = Inr ms \<and> length ms = 1 \<and>
        list_all (carries labelled_revision) ms"
proof -
  let ?w = "\<lparr>kwObjects = Map.empty, kwTrackers = Map.empty\<rparr> :: kube_world"
  let ?am = "NewAppManifests labelled_revision :: kube_world app_manifests"
  have doc: "fields_doc example_assembler" by (simp add: fields_doc_def example_assembler_def)
  have am: "\<not> amFinalized ?am" "\<forall>wo \<in> set (amWorkloadOptions ?am). option_keeps_meta wo"
    "amAppRevision ?am = labelled_revision"
    by (simp_all add: NewAppManifests_def)
  obtain am' u where "assembled example_assembler ?am ?w = (am', ?w)" "amErr am' = None"
    "amAssembledWorkloads am' = [(''web'', u)]" "amAssembledTraits am' = [''web'' \<mapsto> []]"
    using example_assembled by blast
  then have "AssembledManifests example_assembler ?am ?w = ((Inr [u], am'), ?w)"
    by (simp add: AssembledManifests_def example_assembler_def)
  from assembled_objects_carry [OF doc am(1,2) this] this am(3) show ?thesis by simp
qed

end
