(* ===== verification/App_Rollout.thy ===== *)
theory App_Rollout
  imports Rollout_Plan App_Validation Assemble Dispatch
begin

text \<open>
  The AppRollout controller, pkg/controller/core.oam.dev/v1alpha2/applicationrollout: helper.go,
  rollout_handler.go and applicationrollout_controller.go.  It finds the workload to roll out
  between two application revisions, dispatches their manifests, and hands the workload with the
  plan to the plan controller.

  \<open>None\<close> is a panic, here the dereference of a missing map entry.  A method of rolloutHandler gives
  its error and the handler as it is afterwards, the world and the recorded events among it.
\<close>

section \<open>Outside the repository\<close>

text \<open>
  Besides the environments of the plan controller and of the assembly: the typed API client, the
  finalizer helpers of crossplane-runtime and retry.RetryOnConflict.
\<close>

record 'w reconciler =
  rcEnv :: "'w env"
  rcAssembler :: "'w assembler"
  rcGetRevision :: "nsname \<Rightarrow> 'w \<Rightarrow> (api_error + app_revision) \<times> 'w"
  rcGetRollout :: "nsname \<Rightarrow> 'w \<Rightarrow> (api_error + app_rollout) \<times> 'w"
  rcUpdateRollout :: "app_rollout \<Rightarrow> 'w \<Rightarrow> (api_error option \<times> app_rollout) \<times> 'w"
  rcUpdateRolloutStatus :: "app_rollout \<Rightarrow> 'w \<Rightarrow> (api_error option \<times> app_rollout) \<times> 'w"
  rcRetryRollout :: "(app_rollout \<times> 'w \<Rightarrow> api_error option \<times> app_rollout \<times> 'w) \<Rightarrow>
     app_rollout \<times> 'w \<Rightarrow> api_error option \<times> app_rollout \<times> 'w"
  rcFinalizerExists :: "string list \<Rightarrow> string \<Rightarrow> bool"
  rcAddFinalizer :: "string list \<Rightarrow> string \<Rightarrow> string list"
  rcRemoveFinalizer :: "string list \<Rightarrow> string \<Rightarrow> string list"

abbreviation rcKube :: "'w reconciler \<Rightarrow> 'w kube" where
  "rcKube R \<equiv> asKube (rcAssembler R)"

section \<open>Helpers\<close>

definition rolloutWorkloadName :: "'w assembler \<Rightarrow> 'w workload_option" where
  "rolloutWorkloadName A u resources w =
     (if kGroup (asKube A) (uAPIVersion u) = asKruiseGroup A \<and>
         (uKind u = CloneSetKind \<or> uKind u = StatefulSetKind)
      then (Inr u, w)
      else (Inr (u\<lparr>uName := map_get (uLabels u) LabelAppComponentRevision\<rparr>), w))"

text \<open>Only called with a workload; the test for nil is at the callers.\<close>

definition disableControllerOwner :: "unstructured \<Rightarrow> unstructured" where
  "disableControllerOwner workload =
     workload\<lparr>uOwnerReferences := map (\<lambda>ref.
       if orController ref = Some True then ref\<lparr>orController := Some False\<rparr> else ref)
       (uOwnerReferences workload)\<rparr>"

definition enableControllerOwner :: "unstructured \<Rightarrow> unstructured" where
  "enableControllerOwner workload =
     workload\<lparr>uOwnerReferences := map (\<lambda>owner.
       if orKind owner = ResourceTrackerKind \<and> orController owner = Some False
       then owner\<lparr>orController := Some True\<rparr> else owner)
       (uOwnerReferences workload)\<rparr>"

abbreviation arState :: "app_rollout \<Rightarrow> rolling_state" where
  "arState ar \<equiv> RollingState (RolloutStatus (arStatus ar))"

definition handleRollingTerminated :: "app_rollout \<Rightarrow> bool" where
  "handleRollingTerminated appRollout =
     (if arState appRollout = RolloutSucceedState \<or> arState appRollout = RolloutFailedState then
        (if LastUpgradedTargetAppRevision (arStatus appRollout) = TargetAppRevisionName (arSpec appRollout) \<and>
            LastSourceAppRevision (arStatus appRollout) = SourceAppRevisionName (arSpec appRollout)
         then (case TargetSize (RolloutPlan (arSpec appRollout)) of
                 Some n \<Rightarrow> RolloutTargetSize (RolloutStatus (arStatus appRollout)) = n
               | None \<Rightarrow> True)
         else False)
      else False)"

definition isRolloutModified :: "app_rollout \<Rightarrow> bool" where
  "isRolloutModified appRollout \<longleftrightarrow>
     arState appRollout \<noteq> RolloutDeletingState \<and>
     ((LastUpgradedTargetAppRevision (arStatus appRollout) \<noteq> '''' \<and>
       LastUpgradedTargetAppRevision (arStatus appRollout) \<noteq> TargetAppRevisionName (arSpec appRollout)) \<or>
      (LastSourceAppRevision (arStatus appRollout) \<noteq> '''' \<and>
       LastSourceAppRevision (arStatus appRollout) \<noteq> SourceAppRevisionName (arSpec appRollout)) \<or>
      (case TargetSize (RolloutPlan (arSpec appRollout)) of
         None \<Rightarrow> False
       | Some n \<Rightarrow> RolloutTargetSize (RolloutStatus (arStatus appRollout)) \<noteq> -1 \<and>
                   RolloutTargetSize (RolloutStatus (arStatus appRollout)) \<noteq> n))"

section \<open>rolloutHandler\<close>

record 'w rollout_handler =
  hAppRollout :: app_rollout
  hSourceRevName :: string
  hTargetRevName :: string
  hSourceAppRevision :: "app_revision option"
  hTargetAppRevision :: "app_revision option"
  hSourceWorkloads :: "(string \<times> unstructured) list option"
  hTargetWorkloads :: "(string \<times> unstructured) list"
  hTargetManifests :: "unstructured list"
  hSourceManifests :: "unstructured list"
  hNeedRollComponent :: string
  hWorld :: 'w
  hRecorded :: "rec_event list"

definition new_handler :: "app_rollout \<Rightarrow> rec_event list \<Rightarrow> 'w \<Rightarrow> 'w rollout_handler" where
  "new_handler ar es w =
     \<lparr>hAppRollout = ar, hSourceRevName = '''', hTargetRevName = '''', hSourceAppRevision = None,
      hTargetAppRevision = None, hSourceWorkloads = None, hTargetWorkloads = [], hTargetManifests = [],
      hSourceManifests = [], hNeedRollComponent = '''', hWorld = w, hRecorded = es\<rparr>"

type_synonym 'h outcome = "(string option \<times> 'h) option"

text \<open>The idiom \<open>if err := step(); err != nil { return err }\<close>.\<close>

definition and_then :: "'h outcome \<Rightarrow> ('h \<Rightarrow> 'h outcome) \<Rightarrow> 'h outcome" where
  "and_then m f =
     (case m of None \<Rightarrow> None | Some (Some err, h) \<Rightarrow> Some (Some err, h) | Some (None, h) \<Rightarrow> f h)"

definition on_rollout_status ::
  "(rollout_status \<Rightarrow> rollout_status) \<Rightarrow> app_rollout \<Rightarrow> app_rollout" where
  "on_rollout_status f ar =
     ar\<lparr>arStatus := (arStatus ar)\<lparr>RolloutStatus := f (RolloutStatus (arStatus ar))\<rparr>\<rparr>"

definition ar_transition :: "'w env \<Rightarrow> rollout_event \<Rightarrow> 'w \<Rightarrow> app_rollout \<Rightarrow> app_rollout" where
  "ar_transition E ev w ar = on_rollout_status (StateTransition (envSetConditions E) (envNow E w) ev) ar"

definition prepareTarget :: "'w reconciler \<Rightarrow> 'w rollout_handler \<Rightarrow> 'w rollout_handler outcome" where
  "prepareTarget R h =
     (let A = rcAssembler R in
      case rcGetRevision R (arNamespace (hAppRollout h), hTargetRevName h) (hWorld h) of
        (Inl err, w) \<Rightarrow> Some (Some (errText err), h\<lparr>hTargetAppRevision := Some zero_revision, hWorld := w\<rparr>)
      | (Inr r, w) \<Rightarrow>
          (let h = h\<lparr>hTargetAppRevision := Some r, hWorld := w\<rparr>;
               targetAssemble = WithWorkloadOption (PrepareWorkloadForRollout A)
                 (WithWorkloadOption (rolloutWorkloadName A) (NewAppManifests r))
           in case AssembledManifests A targetAssemble w of
                ((Inl err, am), w) \<Rightarrow> Some (Some err, h\<lparr>hTargetManifests := [], hWorld := w\<rparr>)
              | ((Inr ms, am), w) \<Rightarrow>
                  (let h = h\<lparr>hTargetManifests := ms, hWorld := w\<rparr> in
                   case GroupAssembledManifests A am w of
                     ((Inl err, am), w) \<Rightarrow> Some (Some err, h\<lparr>hTargetWorkloads := [], hWorld := w\<rparr>)
                   | ((Inr (wls, _, _), am), w) \<Rightarrow>
                       Some (None, h\<lparr>hTargetWorkloads := wls, hWorld := w\<rparr>))))"

definition prepareSource :: "'w reconciler \<Rightarrow> 'w rollout_handler \<Rightarrow> 'w rollout_handler outcome" where
  "prepareSource R h =
     (let A = rcAssembler R in
      if length (hSourceRevName h) = 0 then Some (None, h)
      else case rcGetRevision R (arNamespace (hAppRollout h), hSourceRevName h) (hWorld h) of
        (Inl err, w) \<Rightarrow> Some (Some (errText err), h\<lparr>hSourceAppRevision := Some zero_revision, hWorld := w\<rparr>)
      | (Inr r, w) \<Rightarrow>
          (let h = h\<lparr>hSourceAppRevision := Some r, hWorld := w\<rparr>;
               sourceAssemble = WithWorkloadOption (rolloutWorkloadName A)
                 (WithWorkloadOption (PrepareWorkloadForRollout A) (NewAppManifests r))
           in case GroupAssembledManifests A sourceAssemble w of
                ((Inl err, am), w) \<Rightarrow> Some (Some err, h\<lparr>hSourceWorkloads := None, hWorld := w\<rparr>)
              | ((Inr (wls, _, _), am), w) \<Rightarrow>
                  (let h = h\<lparr>hSourceWorkloads := Some wls, hWorld := w\<rparr> in
                   case AssembledManifests A am w of
                     ((Inl err, am), w) \<Rightarrow> Some (Some err, h\<lparr>hSourceManifests := [], hWorld := w\<rparr>)
                   | ((Inr ms, am), w) \<Rightarrow> Some (None, h\<lparr>hSourceManifests := ms, hWorld := w\<rparr>))))"

definition prepareRollout :: "'w reconciler \<Rightarrow> 'w rollout_handler \<Rightarrow> 'w rollout_handler outcome" where
  "prepareRollout R h = and_then (prepareTarget R h) (prepareSource R)"

definition determineRolloutComponent :: "'w rollout_handler \<Rightarrow> 'w rollout_handler outcome" where
  "determineRolloutComponent h =
     (let componentList = ComponentList (arSpec (hAppRollout h)) in
      case componentList of
        [] \<Rightarrow>
          (let commons = FindCommonComponentWithManifest (hTargetWorkloads h) (hSourceWorkloads h) in
           if length commons \<noteq> 1
           then Some (Some (''cannot find a default component, too many common components: '' @
                        strings_Join commons CHR '' ''), h)
           else Some (None, h\<lparr>hNeedRollComponent := commons ! 0\<rparr>))
      | c # _ \<Rightarrow> Some (None, h\<lparr>hNeedRollComponent := c\<rparr>))"

text \<open>oamutil.GetObjectGivenGVKAndName of pkg/oam/util/helper.go.\<close>

definition GetObjectGivenGVKAndName ::
  "'w kube \<Rightarrow> string \<Rightarrow> string \<Rightarrow> string \<Rightarrow> string \<Rightarrow> 'w \<Rightarrow> (string + unstructured) \<times> 'w" where
  "GetObjectGivenGVKAndName K apiVersion kind namespace name w =
     (case kGet K apiVersion kind (namespace, name) w of
        (Inl err, w) \<Rightarrow>
          (Inl (errors_Wrap (errText err)
                  (''failed to get obj '' @ name @ '' with gvk '' @ apiVersion @ '', Kind='' @ kind)), w)
      | (Inr obj, w) \<Rightarrow> (Inr obj, w))"

definition extractWorkload :: "'w kube \<Rightarrow> unstructured \<Rightarrow> 'w \<Rightarrow> (string + unstructured) \<times> 'w" where
  "extractWorkload K workload w =
     GetObjectGivenGVKAndName K (uAPIVersion workload) (uKind workload) (uNamespace workload) (uName workload) w"

text \<open>The dereferences of the two maps; a range over a nil map finds nothing.\<close>

definition target_workload :: "'w rollout_handler \<Rightarrow> unstructured option" where
  "target_workload h = map_of (hTargetWorkloads h) (hNeedRollComponent h)"

definition source_workload :: "'w rollout_handler \<Rightarrow> unstructured option" where
  "source_workload h =
     (case hSourceWorkloads h of None \<Rightarrow> None | Some wls \<Rightarrow> map_of wls (hNeedRollComponent h))"

definition fetchSourceAndTargetWorkload ::
  "'w reconciler \<Rightarrow> 'w rollout_handler \<Rightarrow>
     ((string + unstructured option \<times> unstructured) \<times> 'w rollout_handler) option" where
  "fetchSourceAndTargetWorkload R h =
     (let fetch_target = (\<lambda>source h. do {
            t \<leftarrow> target_workload h;
            Some (case extractWorkload (rcKube R) t (hWorld h) of
                    (Inl err, w) \<Rightarrow> (Inl err, h\<lparr>hWorld := w\<rparr>)
                  | (Inr wl, w) \<Rightarrow> (Inr (source, wl), h\<lparr>hWorld := w\<rparr>))
          })
      in if length (hSourceRevName h) = 0 then fetch_target None h
         else do {
           s \<leftarrow> source_workload h;
           (case extractWorkload (rcKube R) s (hWorld h) of
              (Inl err, w) \<Rightarrow> Some (Inl err, h\<lparr>hWorld := w\<rparr>)
            | (Inr wl, w) \<Rightarrow> fetch_target (Some wl) (h\<lparr>hWorld := w\<rparr>))
         })"

definition handleRolloutModified :: "'w reconciler \<Rightarrow> 'w rollout_handler \<Rightarrow> 'w rollout_handler" where
  "handleRolloutModified R h =
     (let ar = hAppRollout h; spec = arSpec ar; st = arStatus ar;
          h = h\<lparr>hRecorded := hRecorded h @ [NormalEvent ''Rollout Restarted''
                 ''rollout target changed, restart the rollout'']\<rparr>;
          h = (if arState ar \<noteq> RolloutSucceedState \<and> arState ar \<noteq> RolloutFailedState
               then h\<lparr>hTargetRevName := LastUpgradedTargetAppRevision st,
                      hSourceRevName := LastSourceAppRevision st\<rparr>
               else h\<lparr>hTargetRevName := TargetAppRevisionName spec,
                      hSourceRevName := SourceAppRevisionName spec,
                      hAppRollout := ar\<lparr>arStatus :=
                        st\<lparr>LastUpgradedTargetAppRevision := TargetAppRevisionName spec,
                           LastSourceAppRevision := SourceAppRevisionName spec\<rparr>\<rparr>\<rparr>)
      in h\<lparr>hAppRollout := ar_transition (rcEnv R) RollingModifiedEvent (hWorld h) (hAppRollout h)\<rparr>)"

text \<open>
  What the two template functions end with: when a resource tracker controls the workload in the
  cluster, it stops doing so.
\<close>

definition release_workload ::
  "'w reconciler \<Rightarrow> unstructured option \<Rightarrow> 'w rollout_handler \<Rightarrow> 'w rollout_handler outcome" where
  "release_workload R assembledWorkload h = do {
     t \<leftarrow> assembledWorkload;
     (case extractWorkload (rcKube R) t (hWorld h) of
        (Inl err, w) \<Rightarrow> Some (Some err, h\<lparr>hWorld := w\<rparr>)
      | (Inr workload, w) \<Rightarrow>
          (case kGetControllerOf (rcKube R) (uOwnerReferences workload) of
             None \<Rightarrow> Some (None, h\<lparr>hWorld := w\<rparr>)
           | Some ref \<Rightarrow>
               if orKind ref = ResourceTrackerKind then
                 (case kMergePatch (rcKube R) workload (disableControllerOwner workload)
                         (arUID (hAppRollout h)) w of
                    ((Some err, _), w) \<Rightarrow> Some (Some (errText err), h\<lparr>hWorld := w\<rparr>)
                  | ((None, _), w) \<Rightarrow> Some (None, h\<lparr>hWorld := w\<rparr>))
               else Some (None, h\<lparr>hWorld := w\<rparr>)))
   }"

text \<open>With the modes, such as StartAndSkipGC, that are set on the dispatcher.\<close>

definition dispatch_manifests ::
  "'w reconciler \<Rightarrow> app_revision option \<Rightarrow> (dispatcher \<Rightarrow> dispatcher) \<Rightarrow> unstructured list \<Rightarrow>
     'w rollout_handler \<Rightarrow> 'w rollout_handler outcome" where
  "dispatch_manifests R revision modes manifests h = do {
     d \<leftarrow> NewAppManifestsDispatcher revision;
     (res, w) \<leftarrow> Dispatch (rcKube R) (modes d) manifests (hWorld h);
     Some (case res of Inl err \<Rightarrow> Some err | Inr _ \<Rightarrow> None, h\<lparr>hWorld := w\<rparr>)
   }"

definition templateTargetManifest :: "'w reconciler \<Rightarrow> 'w rollout_handler \<Rightarrow> 'w rollout_handler outcome" where
  "templateTargetManifest R h =
     (let rest = (\<lambda>rt h. and_then (dispatch_manifests R (hTargetAppRevision h) (StartAndSkipGC rt) (hTargetManifests h) h)
                           (\<lambda>h. release_workload R (target_workload h) h))
      in if hSourceAppRevision h \<noteq> None then
           (case kGetTracker (rcKube R)
                   (ConstructResourceTrackerName (SourceAppRevisionName (arSpec (hAppRollout h)))
                      (arNamespace (hAppRollout h))) (hWorld h) of
              (Inl err, w) \<Rightarrow> Some (Some (errText err), h\<lparr>hWorld := w\<rparr>)
            | (Inr rt, w) \<Rightarrow> rest (Some rt) (h\<lparr>hWorld := w\<rparr>))
         else rest None h)"

definition templateSourceManifest :: "'w reconciler \<Rightarrow> 'w rollout_handler \<Rightarrow> 'w rollout_handler outcome" where
  "templateSourceManifest R h =
     (if hSourceAppRevision h = None then Some (None, h)
      else and_then (dispatch_manifests R (hSourceAppRevision h) id (hSourceManifests h) h)
             (\<lambda>h. release_workload R (source_workload h) h))"

definition finalizeRollingSucceeded :: "'w reconciler \<Rightarrow> 'w rollout_handler \<Rightarrow> 'w rollout_handler outcome" where
  "finalizeRollingSucceeded R h = do {
     t \<leftarrow> target_workload h;
     (case extractWorkload (rcKube R) t (hWorld h) of
        (Inl err, w) \<Rightarrow> Some (Some err, h\<lparr>hWorld := w\<rparr>)
      | (Inr workload, w) \<Rightarrow>
          (case kMergePatch (rcKube R) workload (enableControllerOwner workload) (arUID (hAppRollout h)) w of
             ((Some err, _), w) \<Rightarrow> Some (Some (errText err), h\<lparr>hWorld := w\<rparr>)
           | ((None, _), w) \<Rightarrow>
               (case hSourceAppRevision h of
                  None \<Rightarrow> Some (None, h\<lparr>hWorld := w\<rparr>)
                | Some source \<Rightarrow>
                    (case kGetTracker (rcKube R)
                            (ConstructResourceTrackerName (revName source) (revNamespace source)) w of
                       (Inl err, w) \<Rightarrow>
                         Some (if errNotFound err then None else Some (errText err), h\<lparr>hWorld := w\<rparr>)
                     | (Inr oldRT, w) \<Rightarrow> do {
                         d \<leftarrow> NewAppManifestsDispatcher (hTargetAppRevision h);
                         (res, w) \<leftarrow> Dispatch (rcKube R) (EndAndGC (Some oldRT) d) [] w;
                         Some (case res of Inl err \<Rightarrow> Some err | Inr _ \<Rightarrow> None, h\<lparr>hWorld := w\<rparr>)
                       }))))
   }"


section \<open>DoReconcile\<close>

text \<open>The seconds after which to come back, 0 for never, and the error.\<close>

type_synonym reconcile_result = "int \<times> string option"

definition workload_ref_of :: "'w reconciler \<Rightarrow> unstructured \<Rightarrow> workload_ref" where
  "workload_ref_of R u =
     \<lparr>wrGroup = kGroup (rcKube R) (uAPIVersion u), wrKind = uKind u, wrNamespace = uNamespace u,
      wrName = uName u\<rparr>"

definition plan_controller_of ::
  "'w reconciler \<Rightarrow> app_rollout \<Rightarrow> unstructured option \<Rightarrow> unstructured \<Rightarrow> 'w plan_controller" where
  "plan_controller_of R ar source target =
     \<lparr>planClient = \<lparr>clientEnv = rcEnv R,
        parentController = \<lparr>parName = arName ar, parNamespace = arNamespace ar, parUID = arUID ar\<rparr>,
        rolloutSpec = RolloutPlan (arSpec ar)\<rparr>,
      targetWorkload = workload_ref_of R target,
      sourceWorkload = map_option (workload_ref_of R) source\<rparr>"

text \<open>The last part: reconciling the plan, and what is done with the outcome.\<close>

definition reconcile_plan ::
  "'w reconciler \<Rightarrow> unstructured option \<Rightarrow> unstructured \<Rightarrow> 'w rollout_handler \<Rightarrow>
     (reconcile_result \<times> 'w rollout_handler) option" where
  "reconcile_plan R source target h =
     (let ar = hAppRollout h in do {
        (result, c) \<leftarrow> plan_Reconcile (plan_controller_of R ar source target)
          \<lparr>world = hWorld h, rolloutStatus = NewRolloutPlanController (RolloutStatus (arStatus ar)),
           recorded = hRecorded h\<rparr>;
        let status = rolloutStatus c;
        let ar = on_rollout_status (\<lambda>_. status) ar;
        let ar = (if RollingState status \<noteq> RolloutAbandoningState
                  then ar\<lparr>arStatus := (arStatus ar)
                         \<lparr>LastUpgradedTargetAppRevision := TargetAppRevisionName (arSpec ar),
                          LastSourceAppRevision := SourceAppRevisionName (arSpec ar)\<rparr>\<rparr>
                  else ar);
        let h = h\<lparr>hAppRollout := ar, hWorld := world c, hRecorded := recorded c\<rparr>;
        (if RollingState status = RolloutSucceedState
         then (case finalizeRollingSucceeded R h of
                 None \<Rightarrow> None
               | Some (Some err, h) \<Rightarrow> Some ((0, Some err), h)
               | Some (None, h) \<Rightarrow> Some ((result, None), h))
         else Some ((result, None), h))
      })"

definition rollout_both ::
  "'w reconciler \<Rightarrow> 'w rollout_handler \<Rightarrow> (reconcile_result \<times> 'w rollout_handler) option" where
  "rollout_both R h =
     (case fetchSourceAndTargetWorkload R h of
        None \<Rightarrow> None
      | Some (Inl err, h) \<Rightarrow> Some ((0, Some err), h)
      | Some (Inr (source, target), h) \<Rightarrow> reconcile_plan R source target h)"

text \<open>From the switch over the state on; the handler is prepared.\<close>

definition reconcile_prepared ::
  "'w reconciler \<Rightarrow> 'w rollout_handler \<Rightarrow> (reconcile_result \<times> 'w rollout_handler) option" where
  "reconcile_prepared R h =
     (let located = (\<lambda>ev h. h\<lparr>hAppRollout := ar_transition (rcEnv R) ev (hWorld h) (hAppRollout h)\<rparr>) in
      case arState (hAppRollout h) of
        RolloutDeletingState \<Rightarrow>
          if hSourceAppRevision h = None \<and> hTargetAppRevision h = None
          then Some ((0, None), located RollingFinalizedEvent h)
          else rollout_both R h
      | LocatingTargetAppState \<Rightarrow>
          (case and_then (templateSourceManifest R h) (templateTargetManifest R) of
             None \<Rightarrow> None
           | Some (Some err, h) \<Rightarrow> Some ((0, Some err), h)
           | Some (None, h) \<Rightarrow> Some ((3, None), located AppLocatedEvent h))
      | _ \<Rightarrow> rollout_both R h)"

definition choose_revisions :: "'w reconciler \<Rightarrow> 'w rollout_handler \<Rightarrow> 'w rollout_handler" where
  "choose_revisions R h =
     (if isRolloutModified (hAppRollout h) then handleRolloutModified R h
      else h\<lparr>hSourceRevName := SourceAppRevisionName (arSpec (hAppRollout h)),
             hTargetRevName := TargetAppRevisionName (arSpec (hAppRollout h))\<rparr>)"

definition reset_if_fresh :: "app_rollout \<Rightarrow> app_rollout" where
  "reset_if_fresh ar =
     (if length (rolling_state_str (arState ar)) = 0 then on_rollout_status ResetStatus ar else ar)"

definition DoReconcile ::
  "'w reconciler \<Rightarrow> app_rollout \<Rightarrow> rec_event list \<Rightarrow> 'w \<Rightarrow>
     (reconcile_result \<times> 'w rollout_handler) option" where
  "DoReconcile R appRollout es w =
     (let ar = reset_if_fresh appRollout; h = new_handler ar es w in
      if handleRollingTerminated ar then Some ((0, None), h)
      else (case and_then (prepareRollout R (choose_revisions R h)) determineRolloutComponent of
              None \<Rightarrow> None
            | Some (Some err, h) \<Rightarrow> Some ((0, Some err), h)
            | Some (None, h) \<Rightarrow> reconcile_prepared R h))"

section \<open>Reconcile\<close>

definition appRolloutFinalizer :: string where
  "appRolloutFinalizer = ''finalizers.approllout.oam.dev''"

definition errUpdateAppRollout :: string where
  "errUpdateAppRollout = ''failed to update the app rollout''"

text \<open>Whether the reconcile ends here, the error, and the object, the world and the events.\<close>

definition handleFinalizer ::
  "'w reconciler \<Rightarrow> app_rollout \<Rightarrow> rec_event list \<Rightarrow> 'w \<Rightarrow>
     (bool \<times> string option) \<times> app_rollout \<times> 'w \<times> rec_event list" where
  "handleFinalizer R ar es w =
     (let update = (\<lambda>ar. case rcUpdateRollout R ar w of
            ((err, ar), w) \<Rightarrow>
              ((True, map_option (\<lambda>e. errors_Wrap (errText e) errUpdateAppRollout) err), ar, w, es));
          present = rcFinalizerExists R (arFinalizers ar) appRolloutFinalizer
      in if \<not> arDeleting ar then
           (if \<not> present
            then update (ar\<lparr>arFinalizers := rcAddFinalizer R (arFinalizers ar) appRolloutFinalizer\<rparr>)
            else ((False, None), ar, w, es))
         else if present then
           (if arState ar = RolloutSucceedState \<or> arState ar = RolloutFailedState
            then update (ar\<lparr>arFinalizers := rcRemoveFinalizer R (arFinalizers ar) appRolloutFinalizer\<rparr>)
            else ((False, None), ar_transition (rcEnv R) RollingDeletedEvent w ar, w,
                  es @ [NormalEvent ''Rollout '' ''rollout target deleted, release the resources'']))
         else ((False, None), ar, w, es))"

definition updateStatus :: "'w reconciler \<Rightarrow> app_rollout \<Rightarrow> 'w \<Rightarrow> string option \<times> app_rollout \<times> 'w" where
  "updateStatus R appRollout w =
     (let status = arStatus appRollout in
      case rcRetryRollout R (\<lambda>(ar, w).
             case rcGetRollout R (arNamespace ar, arName ar) w of
               (Inl err, w) \<Rightarrow> (Some err, ar, w)
             | (Inr ar, w) \<Rightarrow>
                 (case rcUpdateRolloutStatus R (ar\<lparr>arStatus := status\<rparr>) w of
                    ((err, ar), w) \<Rightarrow> (err, ar, w))) (appRollout, w) of
        (err, ar, w) \<Rightarrow> (map_option errText err, ar, w))"

definition ar_Reconcile ::
  "'w reconciler \<Rightarrow> nsname \<Rightarrow> 'w \<Rightarrow> (reconcile_result \<times> 'w \<times> rec_event list) option" where
  "ar_Reconcile R req w =
     (case rcGetRollout R req w of
        (Inl err, w) \<Rightarrow> Some ((0, if errNotFound err then None else Some (errText err)), w, [])
      | (Inr appRollout, w) \<Rightarrow>
          (case handleFinalizer R appRollout [] w of
             ((doneReconcile, retErr), appRollout, w, es) \<Rightarrow>
               if doneReconcile then Some ((0, retErr), w, es)
               else (case DoReconcile R appRollout es w of
                       None \<Rightarrow> None
                     | Some ((requeue, Some err), h) \<Rightarrow> Some ((0, Some err), hWorld h, hRecorded h)
                     | Some ((requeue, None), h) \<Rightarrow>
                         (case updateStatus R (hAppRollout h) (hWorld h) of
                            (err, ar, w) \<Rightarrow> Some ((requeue, err), w, hRecorded h)))))"


section \<open>What the steps leave alone\<close>

text \<open>Everything but the status of the object is read only; most steps do not touch the status either.\<close>

definition keeps :: "('e \<times> 'w rollout_handler) option \<Rightarrow> 'w rollout_handler \<Rightarrow> bool" where
  "keeps m h \<longleftrightarrow> (\<forall>e h'. m = Some (e, h') \<longrightarrow> hAppRollout h' = hAppRollout h)"

lemma keepsD: "keeps m h \<Longrightarrow> m = Some (e, h') \<Longrightarrow> hAppRollout h' = hAppRollout h"
  by (simp add: keeps_def)

lemma keeps_same [simp]:
  "keeps None h" "keeps (Some (e, h')) h \<longleftrightarrow> hAppRollout h' = hAppRollout h"
  by (auto simp: keeps_def)

lemma keeps_and_then:
  assumes "keeps m h" and "\<And>h'. hAppRollout h' = hAppRollout h \<Longrightarrow> keeps (f h') h'"
  shows "keeps (and_then m f) h"
proof (cases m)
  case (Some p)
  obtain e h' where p: "p = (e, h')" by fastforce
  with Some assms(1) have eq: "hAppRollout h' = hAppRollout h" by simp
  from assms(2) [OF eq] have "keeps (f h') h" unfolding keeps_def eq .
  moreover have "and_then m f = (case e of None \<Rightarrow> f h' | Some err \<Rightarrow> Some (Some err, h'))"
    using Some p by (simp add: and_then_def split: option.split)
  ultimately show ?thesis using eq by (cases e) simp_all
qed (simp add: and_then_def)

lemma keeps_case:
  "(\<And>a b. p = (a, b) \<Longrightarrow> keeps (f a b) h) \<Longrightarrow> keeps (case p of (a, b) \<Rightarrow> f a b) h"
  "(\<And>a. s = Inl a \<Longrightarrow> keeps (g a) h) \<Longrightarrow> (\<And>b. s = Inr b \<Longrightarrow> keeps (k b) h) \<Longrightarrow>
     keeps (case s of Inl a \<Rightarrow> g a | Inr b \<Rightarrow> k b) h"
  "(q = None \<Longrightarrow> keeps l h) \<Longrightarrow> (\<And>x. q = Some x \<Longrightarrow> keeps (m x) h) \<Longrightarrow>
     keeps (case q of None \<Rightarrow> l | Some x \<Rightarrow> m x) h"
  "(c \<Longrightarrow> keeps t h) \<Longrightarrow> (\<not> c \<Longrightarrow> keeps e h) \<Longrightarrow> keeps (if c then t else e) h"
  "(\<And>x. q = Some x \<Longrightarrow> keeps (m x) h) \<Longrightarrow> keeps (Option.bind q m) h"
  by ((cases p; simp), (cases s; simp), (cases q; simp), (cases c; simp), (cases q; simp))

lemma keeps_result: "hAppRollout h' = hAppRollout h \<Longrightarrow> keeps (Some (e, h')) h"
  by simp

lemmas keeps_intros = keeps_case keeps_result

lemma keeps_prepareTarget: "keeps (prepareTarget R h) h"
  unfolding prepareTarget_def Let_def by (intro keeps_intros) simp_all

lemma keeps_prepareSource: "keeps (prepareSource R h) h"
  unfolding prepareSource_def Let_def by (intro keeps_intros) simp_all

lemma keeps_prepareRollout: "keeps (prepareRollout R h) h"
  unfolding prepareRollout_def by (intro keeps_and_then keeps_prepareTarget keeps_prepareSource)

lemma keeps_determine: "keeps (determineRolloutComponent h) h"
  by (simp add: determineRolloutComponent_def Let_def split: list.split)

lemma keeps_release: "keeps (release_workload R t h) h"
  unfolding release_workload_def by (intro keeps_intros) simp_all

lemma keeps_dispatch: "keeps (dispatch_manifests R r rt ms h) h"
  unfolding dispatch_manifests_def by (intro keeps_intros) simp_all

lemma keeps_templateSource: "keeps (templateSourceManifest R h) h"
  by (auto simp: templateSourceManifest_def intro!: keeps_and_then keeps_dispatch keeps_release)

lemma keeps_templateTarget: "keeps (templateTargetManifest R h) h"
proof -
  have rest: "keeps (and_then (dispatch_manifests R (hTargetAppRevision h') rt (hTargetManifests h') h')
                     (\<lambda>h. release_workload R (target_workload h) h)) h'" for rt h'
    by (intro keeps_and_then keeps_dispatch keeps_release)
  then have rest': "keeps (and_then (dispatch_manifests R (hTargetAppRevision h') rt (hTargetManifests h') h')
                     (\<lambda>h. release_workload R (target_workload h) h)) h" if "hAppRollout h' = hAppRollout h" for rt h'
    using that rest [of h' rt] by (simp add: keeps_def)
  show ?thesis
    unfolding templateTargetManifest_def Let_def by (intro keeps_intros rest rest') simp_all
qed

lemma keeps_finalize: "keeps (finalizeRollingSucceeded R h) h"
  unfolding finalizeRollingSucceeded_def by (intro keeps_intros) simp_all

lemma keeps_fetch: "keeps (fetchSourceAndTargetWorkload R h) h"
  unfolding fetchSourceAndTargetWorkload_def Let_def
  by (intro keeps_intros; simp split: prod.split sum.split; intro keeps_intros; simp split: prod.split sum.split)


section \<open>DoReconcile moves the plan machine\<close>

definition arphase :: "app_rollout \<Rightarrow> phase" where
  "arphase ar = phase (RolloutStatus (arStatus ar))"

definition only_status :: "app_rollout \<Rightarrow> app_rollout \<Rightarrow> bool" where
  "only_status ar ar' \<longleftrightarrow> ar'\<lparr>arStatus := arStatus ar\<rparr> = ar"

lemma only_status_refl [simp]: "only_status ar ar"
  by (simp add: only_status_def)

lemma only_status_upd [simp]: "only_status ar (ar'\<lparr>arStatus := s\<rparr>) \<longleftrightarrow> only_status ar ar'"
  by (simp add: only_status_def)

lemma only_status_on [simp]:
  "only_status ar (on_rollout_status f ar') \<longleftrightarrow> only_status ar ar'"
  "only_status ar (ar_transition E ev w ar') \<longleftrightarrow> only_status ar ar'"
  by (simp_all add: on_rollout_status_def ar_transition_def)

lemma only_status_fields:
  assumes "only_status ar ar'"
  shows "arSpec ar' = arSpec ar" "arFinalizers ar' = arFinalizers ar" "arName ar' = arName ar"
    "arNamespace ar' = arNamespace ar" "arDeleting ar' = arDeleting ar"
proof -
  have eq: "ar'\<lparr>arStatus := arStatus ar\<rparr> = ar" using assms by (simp add: only_status_def)
  show "arSpec ar' = arSpec ar" "arFinalizers ar' = arFinalizers ar" "arName ar' = arName ar"
    "arNamespace ar' = arNamespace ar" "arDeleting ar' = arDeleting ar"
    using arg_cong [OF eq, of arSpec] arg_cong [OF eq, of arFinalizers] arg_cong [OF eq, of arName]
      arg_cong [OF eq, of arNamespace] arg_cong [OF eq, of arDeleting] by simp_all
qed

lemma only_status_trans: "only_status a b \<Longrightarrow> only_status b c \<Longrightarrow> only_status a c"
proof -
  assume ab: "only_status a b" and bc: "only_status b c"
  have "c\<lparr>arStatus := arStatus a\<rparr> = (c\<lparr>arStatus := arStatus b\<rparr>)\<lparr>arStatus := arStatus a\<rparr>" by simp
  also have "\<dots> = b\<lparr>arStatus := arStatus a\<rparr>" using bc by (simp only: only_status_def)
  also have "\<dots> = a" using ab by (simp only: only_status_def)
  finally show "only_status a c" by (simp only: only_status_def)
qed

lemma arphase_simps [simp]:
  "arphase (on_rollout_status f ar) = phase (f (RolloutStatus (arStatus ar)))"
  "arphase (ar\<lparr>arStatus := (arStatus ar)\<lparr>LastUpgradedTargetAppRevision := t, LastSourceAppRevision := s\<rparr>\<rparr>) = arphase ar"
  by (simp_all add: arphase_def on_rollout_status_def)

lemma ar_transition_phase: "phase_step ev (arphase ar) (arphase (ar_transition E ev w ar))"
  by (simp add: ar_transition_def) (simp add: arphase_def StateTransition_phase_step)

text \<open>
  What one reconcile does to the phase after a possible modification: nothing, the move from
  locating to verifying, or a move of the plan controller.
\<close>

inductive rollout_move :: "rollout_plan \<Rightarrow> phase \<Rightarrow> phase \<Rightarrow> bool" for spec where
  unchanged: "rollout_move spec p p"
| locate: "rollout_move spec (LocatingTargetAppState, b, n) (VerifyingSpecState, b, n)"
| plan_move: "fst p \<noteq> LocatingTargetAppState \<Longrightarrow> reconcile_step spec p q \<Longrightarrow> rollout_move spec p q"

inductive_simps rollout_move_locating [simp]: "rollout_move spec (LocatingTargetAppState, b, n) q"

lemma rollout_move_inv:
  "rollout_move spec p q \<Longrightarrow> plan_inv spec p \<Longrightarrow> length (batches spec) < 2 ^ 31 \<Longrightarrow> plan_inv spec q"
proof (induction rule: rollout_move.induct)
  case (plan_move p q)
  from reconcile_step_inv [OF plan_move(2)] plan_move(3,4) show ?case by blast
qed (simp_all add: plan_inv_def)

lemma choose_revisions_moves:
  fixes R :: "'w reconciler" and h
  defines "ar' \<equiv> hAppRollout (choose_revisions R h)"
  shows "only_status (hAppRollout h) ar'"
    and "if isRolloutModified (hAppRollout h) then phase_step RollingModifiedEvent (arphase (hAppRollout h)) (arphase ar')
         else ar' = hAppRollout h"
proof -
  let ?ar = "hAppRollout h"
  have "\<exists>b. ar' = ar_transition (rcEnv R) RollingModifiedEvent (hWorld h) b \<and> arphase b = arphase ?ar \<and> only_status ?ar b"
    if "isRolloutModified ?ar"
    using that unfolding ar'_def by (simp add: choose_revisions_def handleRolloutModified_def Let_def) auto
  then show "only_status ?ar ar'"
    and "if isRolloutModified ?ar then phase_step RollingModifiedEvent (arphase ?ar) (arphase ar') else ar' = ?ar"
    using ar_transition_phase by (force simp: ar'_def choose_revisions_def, metis ar'_def choose_revisions_def
        rollout_handler.select_convs(1) rollout_handler.surjective rollout_handler.update_convs(2,3))
qed

lemma NewRolloutPlanController_ok: "phase_ok (phase s) \<Longrightarrow> NewRolloutPlanController s = s"
  by (auto simp: NewRolloutPlanController_def phase_def split: rolling_state.splits
      elim!: batch_rolling_state_str.elims)

text \<open>What comes out of the plan controller is stored; revisions are recorded unless it is abandoning.\<close>

lemma reconcile_plan_result:
  assumes "reconcile_plan R source target h = Some (r, h')"
  obtains res c ar' where
    "plan_Reconcile (plan_controller_of R (hAppRollout h) source target)
       \<lparr>world = hWorld h, rolloutStatus = NewRolloutPlanController (RolloutStatus (arStatus (hAppRollout h))),
        recorded = hRecorded h\<rparr> = Some (res, c)"
    "ar' = on_rollout_status (\<lambda>_. rolloutStatus c) (hAppRollout h)"
    "hAppRollout h' = (if RollingState (rolloutStatus c) \<noteq> RolloutAbandoningState
       then ar'\<lparr>arStatus := (arStatus ar')\<lparr>LastUpgradedTargetAppRevision := TargetAppRevisionName (arSpec ar'),
                                          LastSourceAppRevision := SourceAppRevisionName (arSpec ar')\<rparr>\<rparr>
       else ar')"
proof -
  obtain res c where plan: "plan_Reconcile (plan_controller_of R (hAppRollout h) source target)
       \<lparr>world = hWorld h, rolloutStatus = NewRolloutPlanController (RolloutStatus (arStatus (hAppRollout h))),
        recorded = hRecorded h\<rparr> = Some (res, c)"
    using assms unfolding reconcile_plan_def Let_def by (auto simp: bind_eq_Some_conv)
  define b where "b = on_rollout_status (\<lambda>_. rolloutStatus c) (hAppRollout h)"
  define b' where "b' = (if RollingState (rolloutStatus c) \<noteq> RolloutAbandoningState
      then b\<lparr>arStatus := (arStatus b)\<lparr>LastUpgradedTargetAppRevision := TargetAppRevisionName (arSpec b),
                                     LastSourceAppRevision := SourceAppRevisionName (arSpec b)\<rparr>\<rparr> else b)"
  define h1 where "h1 = h\<lparr>hAppRollout := b', hWorld := world c, hRecorded := recorded c\<rparr>"
  have "(if RollingState (rolloutStatus c) = RolloutSucceedState
         then (case finalizeRollingSucceeded R h1 of
                 None \<Rightarrow> None
               | Some (Some err, h) \<Rightarrow> Some ((0, Some err), h)
               | Some (None, h) \<Rightarrow> Some ((res, None), h))
         else Some ((res, None), h1)) = Some (r, h')"
    using assms plan unfolding reconcile_plan_def Let_def h1_def b'_def b_def by simp
  with keepsD [OF keeps_finalize, of R h1] have "hAppRollout h' = b'"
    by (auto simp: h1_def split: if_splits option.splits prod.splits)
  with plan show thesis unfolding b'_def using that b_def by blast
qed

lemma reconcile_plan_moves:
  assumes "reconcile_plan R source target h = Some (r, h')" and "phase_ok (arphase (hAppRollout h))"
  shows "only_status (hAppRollout h) (hAppRollout h') \<and>
         reconcile_step (RolloutPlan (arSpec (hAppRollout h))) (arphase (hAppRollout h)) (arphase (hAppRollout h'))"
proof -
  let ?ar = "hAppRollout h"
  have new: "NewRolloutPlanController (RolloutStatus (arStatus ?ar)) = RolloutStatus (arStatus ?ar)"
    using assms(2) by (intro NewRolloutPlanController_ok) (simp add: arphase_def)
  from assms(1) obtain res c ar' where plan: "plan_Reconcile (plan_controller_of R ?ar source target)
       \<lparr>world = hWorld h, rolloutStatus = NewRolloutPlanController (RolloutStatus (arStatus ?ar)),
        recorded = hRecorded h\<rparr> = Some (res, c)"
    and ar': "ar' = on_rollout_status (\<lambda>_. rolloutStatus c) ?ar"
    and out: "hAppRollout h' = (if RollingState (rolloutStatus c) \<noteq> RolloutAbandoningState
       then ar'\<lparr>arStatus := (arStatus ar')\<lparr>LastUpgradedTargetAppRevision := TargetAppRevisionName (arSpec ar'),
                                          LastSourceAppRevision := SourceAppRevisionName (arSpec ar')\<rparr>\<rparr>
       else ar')" by (rule reconcile_plan_result)
  have "arphase (hAppRollout h') = status_phase c" "only_status ?ar (hAppRollout h')"
    by (simp_all add: out ar' status_phase_def)
  then show ?thesis
    using plan_Reconcile_step [OF plan] by (simp add: new plan_controller_of_def status_phase_def arphase_def)
qed

lemma rollout_both_moves:
  assumes "rollout_both R h = Some (r, h')" and "phase_ok (arphase (hAppRollout h))"
    and "arState (hAppRollout h) \<noteq> LocatingTargetAppState"
  shows "only_status (hAppRollout h) (hAppRollout h') \<and>
         rollout_move (RolloutPlan (arSpec (hAppRollout h))) (arphase (hAppRollout h)) (arphase (hAppRollout h'))"
proof -
  obtain f h1 where fetch: "fetchSourceAndTargetWorkload R h = Some (f, h1)"
    using assms(1) by (auto simp: rollout_both_def split: option.splits)
  have ar: "hAppRollout h1 = hAppRollout h" by (rule keepsD [OF keeps_fetch fetch])
  show ?thesis
  proof (cases f)
    case (Inl e)
    with assms(1) fetch ar show ?thesis by (auto simp: rollout_both_def intro: rollout_move.intros)
  next
    case (Inr st)
    then obtain s t where "f = Inr (s, t)" by (cases st) auto
    with assms(1) fetch have "reconcile_plan R s t h1 = Some (r, h')" by (simp add: rollout_both_def)
    from reconcile_plan_moves [OF this] assms(2,3) ar show ?thesis
      by (auto intro!: plan_move simp: arphase_def phase_def)
  qed
qed

lemma reconcile_prepared_moves:
  assumes "reconcile_prepared R h = Some (r, h')" and "phase_ok (arphase (hAppRollout h))"
    and "hTargetAppRevision h \<noteq> None"
  shows "only_status (hAppRollout h) (hAppRollout h') \<and>
         rollout_move (RolloutPlan (arSpec (hAppRollout h))) (arphase (hAppRollout h)) (arphase (hAppRollout h'))"
proof (cases "arState (hAppRollout h) = LocatingTargetAppState")
  case True
  let ?m = "and_then (templateSourceManifest R h) (templateTargetManifest R)"
  obtain e h1 where m: "?m = Some (e, h1)"
    using assms(1) True by (auto simp: reconcile_prepared_def Let_def split: option.splits)
  have keep: "hAppRollout h1 = hAppRollout h"
    by (rule keepsD [OF _ m]) (intro keeps_and_then keeps_templateSource keeps_templateTarget)
  show ?thesis
  proof (cases e)
    case (Some err)
    with assms(1) True m keep show ?thesis
      by (auto simp: reconcile_prepared_def Let_def intro: rollout_move.intros)
  next
    case None
    with assms(1) True m have "hAppRollout h' = ar_transition (rcEnv R) AppLocatedEvent (hWorld h1) (hAppRollout h1)"
      by (auto simp: reconcile_prepared_def Let_def)
    moreover have "arphase (ar_transition (rcEnv R) AppLocatedEvent (hWorld h1) (hAppRollout h1)) =
        (VerifyingSpecState, snd (arphase (hAppRollout h)))"
      using keep True by (simp add: ar_transition_def StateTransition_def arphase_def phase_def on_rollout_status_def)
    moreover have "arphase (hAppRollout h) = (LocatingTargetAppState, snd (arphase (hAppRollout h)))"
      using True by (simp add: arphase_def phase_def)
    ultimately show ?thesis using keep by (metis locate only_status_on(2) only_status_refl prod.collapse)
  qed
next
  case False
  with assms(1,3) have "rollout_both R h = Some (r, h')"
    by (auto simp: reconcile_prepared_def Let_def split: rolling_state.splits)
  from rollout_both_moves [OF this assms(2) False] show ?thesis .
qed

lemma prepareTarget_revision: "prepareTarget R h = Some (e, h') \<Longrightarrow> hTargetAppRevision h' \<noteq> None"
proof -
  have "case prepareTarget R h of None \<Rightarrow> True | Some (e, h') \<Rightarrow> hTargetAppRevision h' \<noteq> None"
    by (simp add: prepareTarget_def Let_def split: prod.split sum.split)
  then show "prepareTarget R h = Some (e, h') \<Longrightarrow> hTargetAppRevision h' \<noteq> None" by simp
qed


lemma and_then_Some:
  "and_then m f = Some (None, h') \<longleftrightarrow> (\<exists>h. m = Some (None, h) \<and> f h = Some (None, h'))"
  by (auto simp: and_then_def split: option.splits prod.splits)

lemma prepareSource_target:
  assumes "prepareSource R h = Some (e, h')"
  shows "hTargetAppRevision h' = hTargetAppRevision h"
proof -
  have "case prepareSource R h of None \<Rightarrow> True | Some (e, h') \<Rightarrow> hTargetAppRevision h' = hTargetAppRevision h"
    by (simp add: prepareSource_def Let_def split: prod.split sum.split)
  with assms show ?thesis by simp
qed

lemma determine_target:
  "determineRolloutComponent h = Some (e, h') \<Longrightarrow> hTargetAppRevision h' = hTargetAppRevision h"
  by (auto simp: determineRolloutComponent_def Let_def split: list.splits if_splits)

definition prepare_all :: "'w reconciler \<Rightarrow> 'w rollout_handler \<Rightarrow> 'w rollout_handler outcome" where
  "prepare_all R h = and_then (prepareRollout R (choose_revisions R h)) determineRolloutComponent"

lemma prepare_all_keeps:
  "prepare_all R h = Some (e, h') \<Longrightarrow> hAppRollout h' = hAppRollout (choose_revisions R h)"
  unfolding prepare_all_def
  by (erule keepsD [rotated]) (intro keeps_and_then keeps_prepareRollout keeps_determine)

lemma prepare_all_target: "prepare_all R h = Some (None, h') \<Longrightarrow> hTargetAppRevision h' \<noteq> None"
  unfolding prepare_all_def prepareRollout_def and_then_Some
  using prepareTarget_revision prepareSource_target determine_target by metis

lemma DoReconcile_prepared:
  "DoReconcile R appRollout es w =
     (let h = new_handler (reset_if_fresh appRollout) es w in
      if handleRollingTerminated (reset_if_fresh appRollout) then Some ((0, None), h)
      else (case prepare_all R h of
              None \<Rightarrow> None
            | Some (Some err, h) \<Rightarrow> Some ((0, Some err), h)
            | Some (None, h) \<Rightarrow> reconcile_prepared R h))"
  by (simp add: DoReconcile_def prepare_all_def Let_def)

lemma only_status_reset [simp]: "only_status ar (reset_if_fresh ar)"
  by (simp add: reset_if_fresh_def)

lemma new_handler_ar [simp]: "hAppRollout (new_handler ar es w) = ar" "hWorld (new_handler ar es w) = w"
  by (simp_all add: new_handler_def)

text \<open>The phase from which the plan machine starts, after a possible modification.\<close>

definition modified_phase :: "app_rollout \<Rightarrow> phase \<Rightarrow> bool" where
  "modified_phase ar p \<longleftrightarrow>
     p = arphase ar \<or> (isRolloutModified ar \<and> \<not> handleRollingTerminated ar \<and>
                      phase_step RollingModifiedEvent (arphase ar) p)"

lemma modified_phase_ok:
  assumes "modified_phase ar p" and "plan_inv spec (arphase ar)"
  shows "plan_inv spec p"
proof (cases "p = arphase ar")
  case False
  with assms(1) have mod: "isRolloutModified ar" "phase_step RollingModifiedEvent (arphase ar) p"
    by (auto simp: modified_phase_def)
  obtain r b n where r: "arphase ar = (r, b, n)" by (cases "arphase ar")
  with mod(1) have "r \<noteq> RolloutDeletingState" by (auto simp: isRolloutModified_def arphase_def phase_def)
  with mod(2) assms(2) show ?thesis unfolding r by (auto simp: plan_inv_def)
qed (use assms in simp)

end
