(* ===== verification/App_Rollout_Safety.thy ===== *)
theory App_Rollout_Safety
  imports App_Rollout
begin

text \<open>
  What the AppRollout controller guarantees: how a reconcile moves the plan machine, when it panics
  and that an admitted rollout does not make it, what a modification and a deletion do, and what
  becomes of the owners of the workload.
\<close>

section \<open>DoReconcile refines the plan machine\<close>

lemma DoReconcile_moves:
  assumes "DoReconcile R ar es w = Some (r, h')"
    and inv: "plan_inv (RolloutPlan (arSpec ar)) (arphase (reset_if_fresh ar))"
    and small: "length (batches (RolloutPlan (arSpec ar))) < 2 ^ 31"
  shows "only_status ar (hAppRollout h') \<and>
         (\<exists>p. modified_phase (reset_if_fresh ar) p \<and>
              rollout_move (RolloutPlan (arSpec ar)) p (arphase (hAppRollout h'))) \<and>
         plan_inv (RolloutPlan (arSpec ar)) (arphase (hAppRollout h'))"
proof -
  let ?ar = "reset_if_fresh ar" and ?spec = "RolloutPlan (arSpec ar)"
  let ?h = "new_handler ?ar es w"
  have spec: "arSpec ?ar = arSpec ar" by (rule only_status_fields) simp
  have "only_status ar (hAppRollout h') \<and> (\<exists>p. modified_phase ?ar p \<and> rollout_move ?spec p (arphase (hAppRollout h')))"
  proof (cases "handleRollingTerminated ?ar")
    case True
    with assms(1) have "hAppRollout h' = ?ar" by (auto simp: DoReconcile_prepared Let_def)
    moreover have "modified_phase ?ar (arphase ?ar)" by (simp add: modified_phase_def)
    ultimately show ?thesis using rollout_move.unchanged by (metis only_status_reset)
  next
    case False
    let ?ar1 = "hAppRollout (choose_revisions R ?h)"
    have ch: "only_status ?ar ?ar1" and mod: "modified_phase ?ar (arphase ?ar1)"
      using choose_revisions_moves [where R = R and h = ?h] False by (auto simp: modified_phase_def split: if_splits)
    have ok: "phase_ok (arphase ?ar1)"
      using modified_phase_ok [OF mod inv] by (auto simp: plan_inv_def split: prod.splits)
    have st: "only_status ar ?ar1" using only_status_trans [OF only_status_reset ch] .
    obtain e h1 where prep: "prepare_all R ?h = Some (e, h1)"
      using assms(1) False by (auto simp: DoReconcile_prepared Let_def split: option.splits)
    have keep: "hAppRollout h1 = ?ar1" by (rule prepare_all_keeps [OF prep])
    show ?thesis
    proof (cases e)
      case (Some err)
      with assms(1) False prep have "h' = h1" by (auto simp: DoReconcile_prepared Let_def)
      with keep st mod show ?thesis using rollout_move.unchanged by metis
    next
      case None
      with assms(1) False prep have "reconcile_prepared R h1 = Some (r, h')"
        by (auto simp: DoReconcile_prepared Let_def)
      from reconcile_prepared_moves [OF this] ok keep prepare_all_target prep None
      have "only_status ?ar1 (hAppRollout h')"
        "rollout_move (RolloutPlan (arSpec ?ar1)) (arphase ?ar1) (arphase (hAppRollout h'))" by auto
      with st mod only_status_fields(1) [OF st] only_status_trans show ?thesis by metis
    qed
  qed
  then show ?thesis using modified_phase_ok [OF _ inv] rollout_move_inv small by blast
qed

text \<open>
  C15: DoReconcile drives the plan machine and touches nothing of the object but its status, as the
  comment on it demands.  From a status that satisfies the invariant, the phase is first moved by
  a modification, when there is one and the rollout has not ended with these revisions, and then
  makes at most one move: from locating to verifying, or one of the plan controller, which never sees
  the locating state.  The invariant is kept.
\<close>

theorem DoReconcile_refines:
  assumes "DoReconcile R ar es w = Some (r, h')"
    and inv: "plan_inv (RolloutPlan (arSpec ar)) (arphase (reset_if_fresh ar))"
    and small: "length (batches (RolloutPlan (arSpec ar))) < 2 ^ 31"
  shows "only_status ar (hAppRollout h') \<and>
         (\<exists>p. modified_phase (reset_if_fresh ar) p \<and>
              rollout_move (RolloutPlan (arSpec ar)) p (arphase (hAppRollout h'))) \<and>
         plan_inv (RolloutPlan (arSpec ar)) (arphase (hAppRollout h'))"
  by (rule DoReconcile_moves [OF assms])

section \<open>When a reconcile panics\<close>

lemma and_then_returns: "m \<noteq> None \<Longrightarrow> (\<And>h. m = Some (None, h) \<Longrightarrow> f h \<noteq> None) \<Longrightarrow> and_then m f \<noteq> None"
  by (auto simp: and_then_def split: option.splits prod.splits)

lemma prepare_returns: "prepareTarget R h \<noteq> None" "prepareSource R h \<noteq> None"
  by (simp_all add: prepareTarget_def prepareSource_def Let_def split: prod.split sum.split)

lemma determine_returns: "determineRolloutComponent h \<noteq> None"
  by (simp add: determineRolloutComponent_def Let_def split: list.split)

lemma prepare_all_returns: "prepare_all R h \<noteq> None"
  unfolding prepare_all_def prepareRollout_def by (intro and_then_returns prepare_returns determine_returns)

lemma release_returns: "t \<noteq> None \<Longrightarrow> release_workload R t h \<noteq> None"
  by (cases t) (simp_all add: release_workload_def split: prod.split sum.split option.split)

lemma dispatch_returns: "r \<noteq> None \<Longrightarrow> dispatch_manifests R r rt ms h \<noteq> None"
  using Dispatch_returns [of "rcKube R" "rt (the (NewAppManifestsDispatcher r))" ms "hWorld h"]
  by (cases r) (auto simp: dispatch_manifests_def NewAppManifestsDispatcher_def split: prod.splits)

text \<open>The maps have the component that is rolled out.\<close>

definition has_workloads :: "'w rollout_handler \<Rightarrow> bool" where
  "has_workloads h \<longleftrightarrow> hTargetAppRevision h \<noteq> None \<and> target_workload h \<noteq> None \<and>
     (hSourceRevName h \<noteq> '''' \<or> hSourceAppRevision h \<noteq> None \<longrightarrow> source_workload h \<noteq> None)"



text \<open>The steps on a prepared handler change its world only.\<close>

definition world_only :: "('e \<times> 'w rollout_handler) option \<Rightarrow> 'w rollout_handler \<Rightarrow> bool" where
  "world_only m h \<longleftrightarrow> (\<forall>e h'. m = Some (e, h') \<longrightarrow> (\<exists>w. h' = h\<lparr>hWorld := w\<rparr>))"

lemma world_onlyD: "world_only m h \<Longrightarrow> m = Some (e, h') \<Longrightarrow> \<exists>w. h' = h\<lparr>hWorld := w\<rparr>"
  by (simp add: world_only_def)

lemma world_only_same [simp]:
  "world_only None h" "world_only (Some (e, h\<lparr>hWorld := w\<rparr>)) h" "world_only (Some (e, h)) h"
  by (auto simp: world_only_def intro: exI [of _ "hWorld h"])

lemma world_only_and_then:
  assumes "world_only m h" and "\<And>h'. world_only (f h') h'"
  shows "world_only (and_then m f) h"
  unfolding world_only_def
proof (intro allI impI)
  fix e h' assume r: "and_then m f = Some (e, h')"
  then obtain e1 h1 where m: "m = Some (e1, h1)" by (auto simp: and_then_def split: option.splits)
  obtain w where h1: "h1 = h\<lparr>hWorld := w\<rparr>" using world_onlyD [OF assms(1) m] by blast
  show "\<exists>w. h' = h\<lparr>hWorld := w\<rparr>"
  proof (cases e1)
    case None
    with m r have "f h1 = Some (e, h')" by (simp add: and_then_def)
    from world_onlyD [OF assms(2) this] h1 show ?thesis by auto
  qed (use m r h1 in \<open>auto simp: and_then_def\<close>)
qed

lemma world_only_later: "world_only m (h\<lparr>hWorld := w\<rparr>) \<Longrightarrow> world_only m h"
  by (force simp: world_only_def)

lemma world_only_case:
  "(\<And>a b. p = (a, b) \<Longrightarrow> world_only (f a b) h) \<Longrightarrow> world_only (case p of (a, b) \<Rightarrow> f a b) h"
  "(\<And>a. s = Inl a \<Longrightarrow> world_only (g a) h) \<Longrightarrow> (\<And>b. s = Inr b \<Longrightarrow> world_only (k b) h) \<Longrightarrow>
     world_only (case s of Inl a \<Rightarrow> g a | Inr b \<Rightarrow> k b) h"
  "(q = None \<Longrightarrow> world_only l h) \<Longrightarrow> (\<And>x. q = Some x \<Longrightarrow> world_only (m x) h) \<Longrightarrow>
     world_only (case q of None \<Rightarrow> l | Some x \<Rightarrow> m x) h"
  "(c \<Longrightarrow> world_only t h) \<Longrightarrow> (\<not> c \<Longrightarrow> world_only e h) \<Longrightarrow> world_only (if c then t else e) h"
  "(\<And>x. q = Some x \<Longrightarrow> world_only (m x) h) \<Longrightarrow> world_only (Option.bind q m) h"
  by ((cases p; simp), (cases s; simp), (cases q; simp), (cases c; simp), (cases q; simp))

lemma world_only_release: "world_only (release_workload R t h) h"
  unfolding release_workload_def by (intro world_only_case) simp_all

lemma world_only_dispatch: "world_only (dispatch_manifests R r rt ms h) h"
  unfolding dispatch_manifests_def by (intro world_only_case) simp_all

lemma world_only_templateSource: "world_only (templateSourceManifest R h) h"
  by (auto simp: templateSourceManifest_def intro!: world_only_and_then world_only_dispatch world_only_release)

lemma world_only_templateTarget: "world_only (templateTargetManifest R h) h"
proof -
  have rest: "world_only (and_then (dispatch_manifests R (hTargetAppRevision h') rt (hTargetManifests h') h')
                     (\<lambda>h. release_workload R (target_workload h) h)) h'" for rt h'
    by (intro world_only_and_then world_only_dispatch world_only_release)
  have rest': "world_only (and_then (dispatch_manifests R (hTargetAppRevision h) rt (hTargetManifests h) (h\<lparr>hWorld := w\<rparr>))
                     (\<lambda>h. release_workload R (target_workload h) h)) h" for rt w
    using rest [of "h\<lparr>hWorld := w\<rparr>" rt] by (auto intro: world_only_later)
  show ?thesis
    unfolding templateTargetManifest_def Let_def by (intro world_only_case) (simp_all add: rest rest')
qed

lemma world_only_fetch: "world_only (fetchSourceAndTargetWorkload R h) h"
proof -
  have rest: "world_only (Some (case p of (Inl err, w) \<Rightarrow> (Inl err, h\<lparr>hWorld := w\<rparr>)
                                | (Inr wl, w) \<Rightarrow> (Inr (source, wl), h\<lparr>hWorld := w\<rparr>))) h"
    for source :: "unstructured option" and p :: "(string + unstructured) \<times> 'a"
    by (simp split: prod.split sum.split)
  show ?thesis
    unfolding fetchSourceAndTargetWorkload_def Let_def
    by (intro world_only_case) (simp_all add: rest split: prod.split sum.split)
qed

section \<open>A prepared handler\<close>

text \<open>
  The shape of a handler that has been prepared: the target is there; the source revision and its
  workloads are there exactly when a source is named; workloads are kept under distinct names; and
  without a component list the component is one of both.
\<close>

definition handler_wf :: "'w rollout_handler \<Rightarrow> bool" where
  "handler_wf h \<longleftrightarrow>
     hTargetAppRevision h \<noteq> None \<and>
     (hSourceAppRevision h = None \<longleftrightarrow> hSourceRevName h = '''') \<and>
     (hSourceWorkloads h = None \<longleftrightarrow> hSourceRevName h = '''') \<and>
     distinct (map fst (hTargetWorkloads h)) \<and>
     (case hSourceWorkloads h of None \<Rightarrow> True | Some wls \<Rightarrow> distinct (map fst wls)) \<and>
     (case ComponentList (arSpec (hAppRollout h)) of
        [] \<Rightarrow> target_workload h \<noteq> None \<and> (hSourceWorkloads h \<noteq> None \<longrightarrow> source_workload h \<noteq> None)
      | c # _ \<Rightarrow> hNeedRollComponent h = c)"

lemma handler_wf_world [simp]:
  "handler_wf (h\<lparr>hWorld := w\<rparr>) = handler_wf h" "target_workload (h\<lparr>hWorld := w\<rparr>) = target_workload h"
  "source_workload (h\<lparr>hWorld := w\<rparr>) = source_workload h" "has_workloads (h\<lparr>hWorld := w\<rparr>) = has_workloads h"
  by (simp_all add: handler_wf_def has_workloads_def target_workload_def source_workload_def
      split: option.split list.split)


subsection \<open>Preparing\<close>

definition revision_components :: "'w assembler \<Rightarrow> app_revision \<Rightarrow> component_manifest list" where
  "revision_components A r =
     (case AppConfig2ComponentManifests (asDecoders A) (revApplicationConfiguration r) (revComponents r) of
        Inl err \<Rightarrow> [] | Inr cms \<Rightarrow> cms)"

lemma fresh_components:
  "amComponentManifests (am_complete A (WithWorkloadOption f (WithWorkloadOption g (NewAppManifests r)))) =
   revision_components A r"
  by (simp add: am_complete_def WithWorkloadOption_def NewAppManifests_def revision_components_def Let_def)

lemma finalized_assembled: "amFinalized am \<Longrightarrow> assembled A am w = (am, w)"
  by (simp add: assembled_def)

lemma assemble_both:
  fixes A :: "'w assembler" and f g :: "'w workload_option" and r :: app_revision
  defines "am \<equiv> WithWorkloadOption f (WithWorkloadOption g (NewAppManifests r))"
  shows "AssembledManifests A am w = ((Inr ms, am1), w1) \<Longrightarrow>
           GroupAssembledManifests A am1 w1 = ((Inr (wls, ts, ss), am2), w2) \<Longrightarrow>
           distinct (map fst wls) \<and> fst ` set wls = assembled_names (revision_components A r)"
    and "GroupAssembledManifests A am w = ((Inr (wls, ts, ss), am1), w1) \<Longrightarrow>
           distinct (map fst wls) \<and> fst ` set wls = assembled_names (revision_components A r)"
proof -
  have fresh: "\<not> amFinalized am" by (simp add: am_def WithWorkloadOption_def NewAppManifests_def)
  obtain am' w' where run: "assembled A am w = (am', w')" by fastforce
  from assembled_workload_names [OF run fresh]
  have fin: "amFinalized am'" and names: "distinct (map fst (amAssembledWorkloads am'))"
    "amErr am' = None \<Longrightarrow> workload_names am' = assembled_names (revision_components A r)"
    by (simp_all add: am_def fresh_components)
  show "distinct (map fst wls) \<and> fst ` set wls = assembled_names (revision_components A r)"
    if "AssembledManifests A am w = ((Inr ms, am1), w1)"
      "GroupAssembledManifests A am1 w1 = ((Inr (wls, ts, ss), am2), w2)"
    using that run names finalized_assembled [OF fin, of A]
    by (auto simp: AssembledManifests_def GroupAssembledManifests_def split: option.splits)
  show "distinct (map fst wls) \<and> fst ` set wls = assembled_names (revision_components A r)"
    if "GroupAssembledManifests A am w = ((Inr (wls, ts, ss), am1), w1)"
    using that run names by (auto simp: GroupAssembledManifests_def split: option.splits)
qed

lemma prepareTarget_Some:
  assumes "prepareTarget R h = Some (None, h')"
  obtains r w w' ms wls where
    "rcGetRevision R (arNamespace (hAppRollout h), hTargetRevName h) (hWorld h) = (Inr r, w)"
    "h' = h\<lparr>hTargetAppRevision := Some r, hTargetManifests := ms, hTargetWorkloads := wls, hWorld := w'\<rparr>"
    "distinct (map fst wls)" "fst ` set wls = assembled_names (revision_components (rcAssembler R) r)"
proof -
  let ?A = "rcAssembler R"
  obtain r w where get: "rcGetRevision R (arNamespace (hAppRollout h), hTargetRevName h) (hWorld h) = (Inr r, w)"
    using assms by (auto simp: prepareTarget_def Let_def split: prod.splits sum.splits)
  let ?am = "WithWorkloadOption (PrepareWorkloadForRollout ?A)
               (WithWorkloadOption (rolloutWorkloadName ?A) (NewAppManifests r))"
  obtain x am1 w1 where a: "AssembledManifests ?A ?am w = ((x, am1), w1)" by (metis prod.exhaust)
  from assms get a obtain ms where x: "x = Inr ms"
    by (cases x) (auto simp: prepareTarget_def Let_def)
  obtain y am2 w2 where g: "GroupAssembledManifests ?A am1 w1 = ((y, am2), w2)" by (metis prod.exhaust)
  from assms get a x g obtain wls ts ss where y: "y = Inr (wls, ts, ss)"
    by (cases y) (auto simp: prepareTarget_def Let_def)
  from assms get a x g y
  have "h' = h\<lparr>hTargetAppRevision := Some r, hTargetManifests := ms, hTargetWorkloads := wls, hWorld := w2\<rparr>"
    by (simp add: prepareTarget_def Let_def)
  with get assemble_both(1) [OF a [unfolded x] g [unfolded y]] show thesis using that by blast
qed

lemma prepareSource_Some:
  assumes "prepareSource R h = Some (None, h')" and "hSourceRevName h \<noteq> ''''"
  obtains r w w' ms wls where
    "rcGetRevision R (arNamespace (hAppRollout h), hSourceRevName h) (hWorld h) = (Inr r, w)"
    "h' = h\<lparr>hSourceAppRevision := Some r, hSourceWorkloads := Some wls, hSourceManifests := ms, hWorld := w'\<rparr>"
    "distinct (map fst wls)" "fst ` set wls = assembled_names (revision_components (rcAssembler R) r)"
proof -
  let ?A = "rcAssembler R"
  obtain r w where get: "rcGetRevision R (arNamespace (hAppRollout h), hSourceRevName h) (hWorld h) = (Inr r, w)"
    using assms by (auto simp: prepareSource_def Let_def split: prod.splits sum.splits)
  let ?am = "WithWorkloadOption (rolloutWorkloadName ?A)
               (WithWorkloadOption (PrepareWorkloadForRollout ?A) (NewAppManifests r))"
  obtain y am1 w1 where g: "GroupAssembledManifests ?A ?am w = ((y, am1), w1)" by (metis prod.exhaust)
  from assms get g obtain wls ts ss where y: "y = Inr (wls, ts, ss)"
    by (cases y) (auto simp: prepareSource_def Let_def)
  obtain x am2 w2 where a: "AssembledManifests ?A am1 w1 = ((x, am2), w2)" by (metis prod.exhaust)
  from assms get a y g obtain ms where x: "x = Inr ms"
    by (cases x) (auto simp: prepareSource_def Let_def)
  from assms get a x g y
  have "h' = h\<lparr>hSourceAppRevision := Some r, hSourceWorkloads := Some wls, hSourceManifests := ms, hWorld := w2\<rparr>"
    by (simp add: prepareSource_def Let_def)
  with get assemble_both(2) [OF g [unfolded y]] show thesis using that by blast
qed

lemma map_of_ne_None: "map_of xs k \<noteq> None \<longleftrightarrow> k \<in> fst ` set xs"
  by (simp add: map_of_eq_None_iff)

lemma determine_Some:
  assumes "determineRolloutComponent h = Some (None, h')"
  shows "\<exists>c. h' = h\<lparr>hNeedRollComponent := c\<rparr> \<and>
     (case ComponentList (arSpec (hAppRollout h)) of
        [] \<Rightarrow> c \<in> fst ` set (hTargetWorkloads h) \<and>
             (case hSourceWorkloads h of None \<Rightarrow> True | Some wls \<Rightarrow> c \<in> fst ` set wls)
      | d # _ \<Rightarrow> c = d)"
proof (cases "ComponentList (arSpec (hAppRollout h))")
  case Nil
  let ?commons = "FindCommonComponentWithManifest (hTargetWorkloads h) (hSourceWorkloads h)"
  from assms Nil have one: "length ?commons = 1" and h': "h' = h\<lparr>hNeedRollComponent := ?commons ! 0\<rparr>"
    by (auto simp: determineRolloutComponent_def Let_def split: if_splits)
  from one have "?commons ! 0 \<in> set ?commons" by (intro nth_mem) simp
  with Nil h' show ?thesis
    by (auto simp: FindCommonComponentWithManifest_set split: option.splits)
qed (use assms in \<open>auto simp: determineRolloutComponent_def\<close>)

lemma choose_revisions_fresh:
  "hSourceAppRevision (choose_revisions R h) = hSourceAppRevision h"
  "hSourceWorkloads (choose_revisions R h) = hSourceWorkloads h"
  by (simp_all add: choose_revisions_def handleRolloutModified_def Let_def)

lemma prepare_all_Some:
  assumes "prepare_all R (new_handler ar es w) = Some (None, h)"
  shows "handler_wf h"
proof -
  let ?h = "choose_revisions R (new_handler ar es w)"
  have empty: "hSourceAppRevision ?h = None" "hSourceWorkloads ?h = None"
    by (simp_all add: choose_revisions_fresh) (simp_all add: new_handler_def)
  obtain h1 h2 where p1: "prepareTarget R ?h = Some (None, h1)" and p2: "prepareSource R h1 = Some (None, h2)"
    and p3: "determineRolloutComponent h2 = Some (None, h)"
    using assms unfolding prepare_all_def prepareRollout_def and_then_Some by auto
  from p1 empty have t: "hTargetAppRevision h1 \<noteq> None" "distinct (map fst (hTargetWorkloads h1))"
    "hSourceAppRevision h1 = None" "hSourceWorkloads h1 = None"
    by (auto elim: prepareTarget_Some)
  have s: "hTargetAppRevision h2 \<noteq> None \<and> distinct (map fst (hTargetWorkloads h2)) \<and>
    (hSourceAppRevision h2 = None) = (hSourceRevName h2 = '''') \<and>
    (hSourceWorkloads h2 = None) = (hSourceRevName h2 = '''') \<and>
    (case hSourceWorkloads h2 of None \<Rightarrow> True | Some wls \<Rightarrow> distinct (map fst wls))"
  proof (cases "hSourceRevName h1 = ''''")
    case True
    with p2 have "h2 = h1" by (simp add: prepareSource_def)
    with t True show ?thesis by simp
  next
    case False
    with p2 obtain r w' ms wls where
      "h2 = h1\<lparr>hSourceAppRevision := Some r, hSourceWorkloads := Some wls, hSourceManifests := ms, hWorld := w'\<rparr>"
      "distinct (map fst wls)" by (rule prepareSource_Some)
    with t False show ?thesis by simp
  qed
  from determine_Some [OF p3] obtain c where h: "h = h2\<lparr>hNeedRollComponent := c\<rparr>"
    and c: "case ComponentList (arSpec (hAppRollout h2)) of
        [] \<Rightarrow> c \<in> fst ` set (hTargetWorkloads h2) \<and>
             (case hSourceWorkloads h2 of None \<Rightarrow> True | Some wls \<Rightarrow> c \<in> fst ` set wls)
      | d # _ \<Rightarrow> c = d" by blast
  from s c show ?thesis unfolding h handler_wf_def target_workload_def source_workload_def
    by (auto simp: map_of_ne_None split: list.splits option.splits)
qed


section \<open>When a reconcile returns\<close>

lemma extractWorkload_returns:
  "t \<noteq> None \<Longrightarrow> fetchSourceAndTargetWorkload R h \<noteq> None \<longleftrightarrow>
     (hSourceRevName h = '''' \<or> source_workload h \<noteq> None)" if "target_workload h = t" for t
  using that
  by (cases "source_workload h")
     (auto simp: fetchSourceAndTargetWorkload_def Let_def split: prod.split sum.split)

lemma has_workloads_iff:
  "handler_wf h \<Longrightarrow> has_workloads h \<longleftrightarrow>
     target_workload h \<noteq> None \<and> (hSourceRevName h = '''' \<or> source_workload h \<noteq> None)"
  by (auto simp: handler_wf_def has_workloads_def)

lemma templateSource_returns: "has_workloads h \<Longrightarrow> templateSourceManifest R h \<noteq> None"
proof (cases "hSourceAppRevision h")
  case (Some r)
  assume h: "has_workloads h"
  have "and_then (dispatch_manifests R (hSourceAppRevision h) id (hSourceManifests h) h)
          (\<lambda>h. release_workload R (source_workload h) h) \<noteq> None"
  proof (rule and_then_returns)
    show "dispatch_manifests R (hSourceAppRevision h) id (hSourceManifests h) h \<noteq> None"
      using Some by (intro dispatch_returns) simp
    fix h' assume "dispatch_manifests R (hSourceAppRevision h) id (hSourceManifests h) h = Some (None, h')"
    then obtain w where "h' = h\<lparr>hWorld := w\<rparr>" using world_onlyD [OF world_only_dispatch] by blast
    with h Some show "release_workload R (source_workload h') h' \<noteq> None"
      by (intro release_returns) (auto simp: has_workloads_def)
  qed
  with Some show ?thesis by (simp add: templateSourceManifest_def del: not_None_eq)
qed (simp add: templateSourceManifest_def)

lemma templateTarget_returns:
  assumes "has_workloads h"
  shows "templateTargetManifest R h \<noteq> None"
proof -
  have rest: "and_then (dispatch_manifests R (hTargetAppRevision h) rt (hTargetManifests h) (h\<lparr>hWorld := w\<rparr>))
                (\<lambda>h. release_workload R (target_workload h) h) \<noteq> None" for rt w
  proof (rule and_then_returns)
    show "dispatch_manifests R (hTargetAppRevision h) rt (hTargetManifests h) (h\<lparr>hWorld := w\<rparr>) \<noteq> None"
      using assms by (intro dispatch_returns) (simp add: has_workloads_def)
    fix h' assume "dispatch_manifests R (hTargetAppRevision h) rt (hTargetManifests h) (h\<lparr>hWorld := w\<rparr>) = Some (None, h')"
    then obtain w' where "h' = h\<lparr>hWorld := w, hWorld := w'\<rparr>" using world_onlyD [OF world_only_dispatch] by blast
    with assms show "release_workload R (target_workload h') h' \<noteq> None"
      by (intro release_returns) (simp add: has_workloads_def)
  qed
  from rest [of "StartAndSkipGC None" "hWorld h"] show ?thesis
    by (simp add: templateTargetManifest_def Let_def rest del: not_None_eq split: prod.split sum.split)
qed

lemma finalize_returns:
  assumes "has_workloads h"
  shows "finalizeRollingSucceeded R h \<noteq> None"
proof -
  obtain t r where "target_workload h = Some t" "hTargetAppRevision h = Some r"
    using assms by (auto simp: has_workloads_def)
  then show ?thesis
    by (simp add: finalizeRollingSucceeded_def NewAppManifestsDispatcher_def bind_eq_None_conv Dispatch_returns
        del: not_None_eq split: prod.split sum.split option.split)
qed

lemma reconcile_plan_returns:
  assumes "retry_returns_last (rcEnv R)" and "replicas_defaulted (rcEnv R)"
    and inv: "plan_inv (RolloutPlan (arSpec (hAppRollout h))) (arphase (hAppRollout h))"
    and "arState (hAppRollout h) \<noteq> LocatingTargetAppState" and "has_workloads h"
  shows "reconcile_plan R s t h \<noteq> None"
proof -
  let ?ar = "hAppRollout h" and ?r = "plan_controller_of R (hAppRollout h) s t"
  let ?c = "\<lparr>world = hWorld h, rolloutStatus = RolloutStatus (arStatus ?ar), recorded = hRecorded h\<rparr>"
  have "phase_ok (arphase ?ar)" using inv by (auto simp: plan_inv_def split: prod.splits)
  then have new: "NewRolloutPlanController (RolloutStatus (arStatus ?ar)) = RolloutStatus (arStatus ?ar)"
    by (intro NewRolloutPlanController_ok) (simp add: arphase_def)
  have "status_phase ?c = arphase ?ar" by (simp add: status_phase_def arphase_def)
  then obtain r c where plan: "plan_Reconcile ?r ?c = Some (r, c)"
    using plan_Reconcile_Some [of ?r ?c] assms by (auto simp: plan_controller_of_def)
  have "has_workloads (h\<lparr>hAppRollout := b, hWorld := w, hRecorded := es\<rparr>)" for b w es
    using assms(5) by (simp add: has_workloads_def target_workload_def source_workload_def split: option.splits)
  then show ?thesis
    unfolding reconcile_plan_def Let_def new
    by (simp add: plan finalize_returns del: not_None_eq split: option.split prod.split)
qed

lemma rollout_both_returns:
  assumes "retry_returns_last (rcEnv R)" and "replicas_defaulted (rcEnv R)"
    and "plan_inv (RolloutPlan (arSpec (hAppRollout h))) (arphase (hAppRollout h))"
    and "arState (hAppRollout h) \<noteq> LocatingTargetAppState" and "has_workloads h"
  shows "rollout_both R h \<noteq> None"
proof -
  obtain f h1 where fetch: "fetchSourceAndTargetWorkload R h = Some (f, h1)"
    using assms(5) extractWorkload_returns [OF refl, of h R] by (auto simp: has_workloads_def)
  then obtain w where "h1 = h\<lparr>hWorld := w\<rparr>" using world_onlyD [OF world_only_fetch] by blast
  with assms have "reconcile_plan R s t h1 \<noteq> None" for s t
    by (intro reconcile_plan_returns) simp_all
  then show ?thesis
    by (simp add: rollout_both_def fetch del: not_None_eq split: sum.split prod.split)
qed

lemma reconcile_prepared_returns:
  assumes "retry_returns_last (rcEnv R)" and "replicas_defaulted (rcEnv R)"
    and "plan_inv (RolloutPlan (arSpec (hAppRollout h))) (arphase (hAppRollout h))" and "has_workloads h"
  shows "reconcile_prepared R h \<noteq> None"
proof (cases "arState (hAppRollout h) = LocatingTargetAppState")
  case True
  have "and_then (templateSourceManifest R h) (templateTargetManifest R) \<noteq> None"
  proof (rule and_then_returns [OF templateSource_returns [OF assms(4)]])
    fix h' assume "templateSourceManifest R h = Some (None, h')"
    then obtain w where "h' = h\<lparr>hWorld := w\<rparr>" using world_onlyD [OF world_only_templateSource] by blast
    with assms(4) show "templateTargetManifest R h' \<noteq> None" by (intro templateTarget_returns) simp
  qed
  with True show ?thesis
    by (auto simp: reconcile_prepared_def Let_def split: option.splits)
next
  case False
  from rollout_both_returns [OF assms(1-3) False assms(4)] False assms(4) show ?thesis
    by (auto simp: reconcile_prepared_def Let_def has_workloads_def split: rolling_state.splits)
qed

lemma DoReconcile_returns:
  assumes "retry_returns_last (rcEnv R)" and "replicas_defaulted (rcEnv R)"
    and inv: "plan_inv (RolloutPlan (arSpec ar)) (arphase (reset_if_fresh ar))"
    and has: "\<And>h. prepare_all R (new_handler (reset_if_fresh ar) es w) = Some (None, h) \<Longrightarrow> has_workloads h"
  shows "DoReconcile R ar es w \<noteq> None"
proof (cases "handleRollingTerminated (reset_if_fresh ar)")
  case False
  let ?ar = "reset_if_fresh ar" let ?h = "new_handler ?ar es w"
  have spec: "arSpec ?ar = arSpec ar" by (rule only_status_fields) simp
  obtain e h where prep: "prepare_all R ?h = Some (e, h)"
    using prepare_all_returns by (metis option.exhaust prod.exhaust)
  have mod: "modified_phase ?ar (arphase (hAppRollout (choose_revisions R ?h)))"
    using choose_revisions_moves [where R = R and h = ?h] False by (auto simp: modified_phase_def split: if_splits)
  have "arSpec (hAppRollout (choose_revisions R ?h)) = arSpec ar"
    using only_status_fields(1) [OF choose_revisions_moves(1) [of ?h R]] spec by simp
  with prepare_all_keeps [OF prep] modified_phase_ok [OF mod inv]
  have "plan_inv (RolloutPlan (arSpec (hAppRollout h))) (arphase (hAppRollout h))" by simp
  with reconcile_prepared_returns [OF assms(1,2)] has prep show ?thesis
    unfolding DoReconcile_prepared Let_def by (auto simp: False split: option.splits)
qed (simp add: DoReconcile_prepared Let_def)


section \<open>Examples\<close>

text \<open>One revision with one Deployment, a server that has every object, and the plan of two batches.\<close>

definition rollout_decoders :: decoders where
  "rollout_decoders =
     plain_decoders\<lparr>dUnmarshalObject := \<lambda>r. Inr (example_object ''apps/v1'' ''Deployment'' ''web'')\<rparr>"

definition rollout_kube :: "kube_world kube" where
  "rollout_kube = example_kube\<lparr>kGet := \<lambda>v k n w. (Inr (example_object v k (snd n)), w)\<rparr>"

definition rollout_assembler :: "kube_world assembler" where
  "rollout_assembler = example_assembler\<lparr>asKube := rollout_kube, asDecoders := rollout_decoders\<rparr>"

definition rollout_env :: "kube_world env" where
  "rollout_env =
     \<lparr>envNow = (\<lambda>w. 0),
      envSetConditions = (\<lambda>c cs. cs),
      envGetValue = example_ios_value,
      envGetControllerOf = find (\<lambda>o1. orController o1 = Some True),
      envOwnerString = orName,
      envNewControllerRef = (\<lambda>p. example_owner\<lparr>orName := parName p, orUID := parUID p\<rparr>),
      envHash = (\<lambda>spec. Inr (length (depRest spec))),
      envGetDeployment = (\<lambda>n w. (Inr (example_deployment (snd n) 5), w)),
      envPatchDeployment = (\<lambda>orig d owner w. ((None, d), w)),
      envGetCloneSet = (\<lambda>n w. (Inr example_cloneset, w)),
      envPatchCloneSet = (\<lambda>orig cs owner w. ((None, cs), w)),
      envParseURL = Inr,
      envNewRequest = (\<lambda>method url. None),
      envHTTPDo = (\<lambda>method url payload w. (Inr \<lparr>respStatusCode = 200, respBody = Inr ''''\<rparr>, w)),
      envRetryOnError = (\<lambda>f. f),
      envKruiseGroup = ''apps.kruise.io'',
      envAppsGroup = ''apps''\<rparr>"

definition example_reconciler :: "kube_world reconciler" where
  "example_reconciler =
     \<lparr>rcEnv = rollout_env, rcAssembler = rollout_assembler,
      rcGetRevision = (\<lambda>n w. (if snd n = ''gone'' then Inl not_found else Inr labelled_revision, w)),
      rcGetRollout = (\<lambda>n w. (Inl not_found, w)),
      rcUpdateRollout = (\<lambda>ar w. ((None, ar), w)),
      rcUpdateRolloutStatus = (\<lambda>ar w. ((None, ar), w)),
      rcRetryRollout = (\<lambda>f. f),
      rcFinalizerExists = (\<lambda>fs f. f \<in> set fs),
      rcAddFinalizer = (\<lambda>fs f. fs @ [f]),
      rcRemoveFinalizer = (\<lambda>fs f. removeAll f fs)\<rparr>"

definition example_rollout_of :: "rolling_state \<Rightarrow> batch_rolling_state \<Rightarrow> string list \<Rightarrow> app_rollout" where
  "example_rollout_of r b cs =
     \<lparr>arName = ''rollout'', arNamespace = ''default'', arUID = ''uid'', arFinalizers = [appRolloutFinalizer],
      arDeleting = False,
      arSpec = \<lparr>TargetAppRevisionName = ''app-v1'', SourceAppRevisionName = '''', ComponentList = cs,
                RolloutPlan = example_plan, RevertOnDelete = False\<rparr>,
      arStatus = \<lparr>RolloutStatus = example_status r b 0, LastUpgradedTargetAppRevision = '''',
                  LastSourceAppRevision = ''''\<rparr>\<rparr>"

definition empty_world :: kube_world where
  "empty_world = \<lparr>kwObjects = Map.empty, kwTrackers = Map.empty\<rparr>"

lemma example_reconciler_simps [simp]:
  "rcEnv example_reconciler = rollout_env" "rcAssembler example_reconciler = rollout_assembler"
  "rcGetRevision example_reconciler n w = (if snd n = ''gone'' then Inl not_found else Inr labelled_revision, w)"
  "asKube rollout_assembler = rollout_kube"
  by (simp_all add: example_reconciler_def rollout_assembler_def)

lemma example_rollout_of_simps [simp]:
  "arState (example_rollout_of r b cs) = r" "arNamespace (example_rollout_of r b cs) = ''default''"
  "arSpec (example_rollout_of r b cs) = \<lparr>TargetAppRevisionName = ''app-v1'', SourceAppRevisionName = '''',
     ComponentList = cs, RolloutPlan = example_plan, RevertOnDelete = False\<rparr>"
  "RolloutStatus (arStatus (example_rollout_of r b cs)) = example_status r b 0"
  "LastUpgradedTargetAppRevision (arStatus (example_rollout_of r b cs)) = ''''"
  "LastSourceAppRevision (arStatus (example_rollout_of r b cs)) = ''''"
  by (simp_all add: example_rollout_of_def)

definition rollout_manifest :: component_manifest where
  "rollout_manifest =
     (plain_manifest ''web'')\<lparr>cmStandardWorkload := Some (example_object ''apps/v1'' ''Deployment'' ''web'')\<rparr>"

lemma rollout_components: "revision_components rollout_assembler labelled_revision = [rollout_manifest]"
  by (simp add: revision_components_def rollout_manifest_def labelled_revision_def rollout_assembler_def
      AppConfig2ComponentManifests_def RawExtension2AppConfig_def
      RawExtension2Component_def RawExtension2Unstructured_def component_manifest_of_def
      rollout_decoders_def plain_decoders_def plain_acc_def plain_component_def plain_manifest_def map_get_def Let_def)

lemma rollout_assembled:
  fixes w :: kube_world and f g :: "kube_world workload_option"
  defines "am0 \<equiv> WithWorkloadOption f (WithWorkloadOption g (NewAppManifests labelled_revision))"
  assumes fg: "{f, g} \<subseteq> {PrepareWorkloadForRollout rollout_assembler, rolloutWorkloadName rollout_assembler}"
  shows "\<exists>am u. assembled rollout_assembler am0 w = (am, w) \<and> amErr am = None \<and> amFinalized am \<and>
     amAssembledWorkloads am = [(''web'', u)] \<and> uAPIVersion u = ''apps/v1'' \<and> uKind u = ''Deployment''"
proof -
  have keys: "LabelAppName \<noteq> LabelAppRevisionHash" by (simp add: oam_keys)
  let ?am = "am_complete rollout_assembler am0"
  have comps: "amComponentManifests ?am = [rollout_manifest]"
    unfolding am0_def fresh_components rollout_components ..
  have valid: "am_validate ?am = None"
    using keys
    by (simp add: am_validate_def am_complete_def am0_def WithWorkloadOption_def NewAppManifests_def labelled_revision_def
        rollout_kube_def example_kube_def app_owner_def map_get_def)
  have am: "amWorkloadOptions ?am = [g, f]"
    "amErr ?am = None" "amAssembledWorkloads ?am = []"
    by (simp_all add: am_complete_def am0_def WithWorkloadOption_def NewAppManifests_def Let_def)
  have grp: "kGroup rollout_kube ''apps/v1'' = ''apps''"
    by (simp add: rollout_kube_def example_kube_def)
  have bool: "asSetBool rollout_assembler p b u = Inr u" "asAppsGroup rollout_assembler = ''apps''"
    "asKruiseGroup rollout_assembler = ''apps.kruise.io''" for p b u
    by (simp_all add: rollout_assembler_def example_assembler_def)
  have opt: "\<exists>v. k u rs w = (Inr v, w) \<and> uAPIVersion v = ''apps/v1'' \<and> uKind v = ''Deployment''"
    if "k \<in> {f, g}" "uAPIVersion u = ''apps/v1''" "uKind u = ''Deployment''" for k u rs
    using that fg by (auto simp: rolloutWorkloadName_def PrepareWorkloadForRollout_def grp bool CloneSetKind_def
        StatefulSetKind_def DeploymentKind_def Let_def)
  have opts: "\<exists>v. apply_options n [g, f] u rs w = (Inr v, w) \<and> uAPIVersion v = ''apps/v1'' \<and> uKind v = ''Deployment''"
    if u: "uAPIVersion u = ''apps/v1''" "uKind u = ''Deployment''" for n u rs
  proof -
    obtain v where "g u rs w = (Inr v, w)" "uAPIVersion v = ''apps/v1''" "uKind v = ''Deployment''"
      using opt [of g u rs] u by auto
    moreover obtain v' where "f v rs w = (Inr v', w)" "uAPIVersion v' = ''apps/v1''" "uKind v' = ''Deployment''"
      using opt [of f v rs] calculation by auto
    ultimately show ?thesis by simp
  qed
  have wl: "\<exists>v. assembleWorkload ?am n (example_object ''apps/v1'' ''Deployment'' ''web'') ls rs w = (Inr v, w) \<and>
      uAPIVersion v = ''apps/v1'' \<and> uKind v = ''Deployment''" for n ls rs
    unfolding assembleWorkload_def Let_def am(1) by (rule opts) (simp_all)
  obtain v where "assembleWorkload ?am ''web'' (example_object ''apps/v1'' ''Deployment'' ''web'')
      (generateAndFilterCommonLabels ?am ''web'' (cmRevisionName rollout_manifest)) [] w = (Inr v, w)"
    "uAPIVersion v = ''apps/v1''" "uKind v = ''Deployment''" using wl by blast
  then show ?thesis
    using comps valid am(2,3)
    by (simp add: am0_def WithWorkloadOption_def assembled_def assemble_def NewAppManifests_def rollout_manifest_def plain_manifest_def checkAutoDetectComponent_def
         finalizeAssemble_def Let_def)
qed


lemma rollout_prepareTarget:
  assumes "hTargetRevName h = ''app-v1''"
  shows "\<exists>u ms. prepareTarget example_reconciler h =
     Some (None, h\<lparr>hTargetAppRevision := Some labelled_revision, hTargetManifests := ms,
                   hTargetWorkloads := [(''web'', u)]\<rparr>) \<and>
     uAPIVersion u = ''apps/v1'' \<and> uKind u = ''Deployment''"
proof -
  let ?am0 = "WithWorkloadOption (PrepareWorkloadForRollout rollout_assembler)
               (WithWorkloadOption (rolloutWorkloadName rollout_assembler) (NewAppManifests labelled_revision))"
  obtain am u where am: "assembled rollout_assembler ?am0 (hWorld h) = (am, hWorld h)" "amErr am = None"
    "amFinalized am" "amAssembledWorkloads am = [(''web'', u)]" "uAPIVersion u = ''apps/v1''" "uKind u = ''Deployment''"
    using rollout_assembled [of "PrepareWorkloadForRollout rollout_assembler" "rolloutWorkloadName rollout_assembler"] by blast
  then obtain ms where "AssembledManifests rollout_assembler ?am0 (hWorld h) = ((Inr ms, am), hWorld h)"
    by (auto simp: AssembledManifests_def)
  moreover have "GroupAssembledManifests rollout_assembler am (hWorld h) =
      ((Inr ([(''web'', u)], amAssembledTraits am, amReferencedScopes am), am), hWorld h)"
    using am by (simp add: GroupAssembledManifests_def finalized_assembled)
  ultimately show ?thesis using am(5,6) assms by (auto simp: prepareTarget_def)
qed

lemma rollout_prepare_all:
  fixes ar es w defines "h \<equiv> choose_revisions example_reconciler (new_handler ar es w)"
  assumes "hTargetRevName h = ''app-v1''" "hSourceRevName h = ''''" "ComponentList (arSpec ar) = [c]"
  shows "\<exists>u ms. prepare_all example_reconciler (new_handler ar es w) =
     Some (None, h\<lparr>hTargetAppRevision := Some labelled_revision, hTargetManifests := ms,
                   hTargetWorkloads := [(''web'', u)], hNeedRollComponent := c\<rparr>) \<and>
     uAPIVersion u = ''apps/v1'' \<and> uKind u = ''Deployment''"
proof -
  have spec: "arSpec (hAppRollout h) = arSpec ar"
    using only_status_fields(1) [OF choose_revisions_moves(1) [of "new_handler ar es w" example_reconciler]]
    by (simp add: h_def)
  obtain u ms where "prepareTarget example_reconciler h =
     Some (None, h\<lparr>hTargetAppRevision := Some labelled_revision, hTargetManifests := ms,
                   hTargetWorkloads := [(''web'', u)]\<rparr>)" "uAPIVersion u = ''apps/v1''" "uKind u = ''Deployment''"
    using rollout_prepareTarget assms(2) by blast
  then show ?thesis
    using spec assms(3,4) unfolding prepare_all_def prepareRollout_def h_def [symmetric]
    by (intro exI [of _ u] exI [of _ ms]) (simp add: and_then_def prepareSource_def determineRolloutComponent_def)
qed

lemma example_DoReconcile_of:
  "\<exists>h'. DoReconcile example_reconciler ((example_rollout_of RollingInBatchesState BatchReadyState [''web''])\<lparr>arFinalizers := fs\<rparr>) es empty_world =
     Some ((5, None), h') \<and> arphase (hAppRollout h') = (RollingInBatchesState, BatchInitializingState, 1)"
proof -
  let ?R = "example_reconciler" and ?ar = "(example_rollout_of RollingInBatchesState BatchReadyState [''web''])\<lparr>arFinalizers := fs\<rparr>"
  let ?h = "choose_revisions ?R (new_handler ?ar es empty_world)"
  have fresh: "reset_if_fresh ?ar = ?ar" by (simp add: reset_if_fresh_def)
  have "\<not> isRolloutModified ?ar" by (simp add: isRolloutModified_def)
  then have h: "?h = (new_handler ?ar es empty_world)\<lparr>hSourceRevName := '''', hTargetRevName := ''app-v1''\<rparr>"
    by (simp add: choose_revisions_def)
  obtain u ms where prep: "prepare_all ?R (new_handler ?ar es empty_world) =
     Some (None, ?h\<lparr>hTargetAppRevision := Some labelled_revision, hTargetManifests := ms,
                   hTargetWorkloads := [(''web'', u)], hNeedRollComponent := ''web''\<rparr>)"
     "uAPIVersion u = ''apps/v1''" "uKind u = ''Deployment''"
    using rollout_prepare_all [of ?ar es empty_world "''web''"] h by auto
  let ?h2 = "?h\<lparr>hTargetAppRevision := Some labelled_revision, hTargetManifests := ms,
                   hTargetWorkloads := [(''web'', u)], hNeedRollComponent := ''web''\<rparr>"
  let ?t = "example_object ''apps/v1'' ''Deployment'' (uName u)"
  have fetch: "fetchSourceAndTargetWorkload ?R ?h2 = Some (Inr (None, ?t), ?h2)"
    using prep(2,3) by (simp add: fetchSourceAndTargetWorkload_def h target_workload_def extractWorkload_def
        GetObjectGivenGVKAndName_def rollout_kube_def)
  let ?c = "\<lparr>world = empty_world, rolloutStatus = example_status RollingInBatchesState BatchReadyState 0, recorded = es\<rparr>"
  let ?c' = "transition rollout_env BatchRolloutApprovedEvent ?c"
  have phase: "status_phase ?c' = (RollingInBatchesState, BatchInitializingState, 0 + 1)"
    by (rule transition_batch(6)) (simp add: status_phase_def phase_def)
  have sup: "\<exists>M. GetWorkloadController (plan_controller_of ?R ?ar None ?t) = Inr M"
    by (simp add: GetWorkloadController_def plan_controller_of_def workload_ref_of_def rollout_kube_def
        example_kube_def rollout_env_def Let_def)
  have plan: "plan_Reconcile (plan_controller_of ?R ?ar None ?t) ?c = Some (5, ?c')"
    using sup phase
    by (auto simp: plan_Reconcile_def reconcile_state_def reconcileBatchInRolling_def plan_controller_of_def
        tryMovingToNextBatch_def rolloutReconcileRequeueTime_def status_phase_eq)
  have new: "NewRolloutPlanController (example_status RollingInBatchesState BatchReadyState 0) =
      example_status RollingInBatchesState BatchReadyState 0"
    by (rule NewRolloutPlanController_ok) (simp add: phase_def)
  have handler: "hAppRollout ?h2 = ?ar" "hWorld ?h2 = empty_world" "hRecorded ?h2 = es"
    by (simp_all add: h) (simp_all add: new_handler_def)
  obtain h' where "reconcile_plan ?R None ?t ?h2 = Some ((5, None), h')"
    "arphase (hAppRollout h') = phase (rolloutStatus ?c')"
    using plan phase unfolding reconcile_plan_def Let_def handler
    by (auto simp: new status_phase_eq arphase_def on_rollout_status_def phase_def)
  moreover have "phase (rolloutStatus ?c') = (RollingInBatchesState, BatchInitializingState, 1)"
    using phase by (simp add: status_phase_def)
  moreover have "\<not> handleRollingTerminated ?ar" by (simp add: handleRollingTerminated_def)
  ultimately show ?thesis
    using prep(1) fetch handler(1)
    by (simp add: DoReconcile_prepared fresh reconcile_prepared_def rollout_both_def)
qed

lemma example_DoReconcile:
  "\<exists>h'. DoReconcile example_reconciler (example_rollout_of RollingInBatchesState BatchReadyState [''web'']) [] empty_world =
     Some ((5, None), h') \<and> arphase (hAppRollout h') = (RollingInBatchesState, BatchInitializingState, 1)"
  using example_DoReconcile_of [of "[appRolloutFinalizer]" "[]"] by (simp add: example_rollout_of_def)

theorem DoReconcile_refines_witness:
  "\<exists>h'. DoReconcile example_reconciler (example_rollout_of RollingInBatchesState BatchReadyState [''web'']) [] empty_world =
     Some ((5, None), h') \<and>
     plan_inv example_plan (arphase (hAppRollout h')) \<and>
     (\<exists>p. rollout_move example_plan p (RollingInBatchesState, BatchInitializingState, 1))"
proof -
  let ?ar = "example_rollout_of RollingInBatchesState BatchReadyState [''web'']"
  obtain h' where rec: "DoReconcile example_reconciler ?ar [] empty_world = Some ((5, None), h')"
    and ph: "arphase (hAppRollout h') = (RollingInBatchesState, BatchInitializingState, 1)"
    using example_DoReconcile by blast
  have "plan_inv (RolloutPlan (arSpec ?ar)) (arphase (reset_if_fresh ?ar))"
    by (simp add: reset_if_fresh_def arphase_def phase_def plan_inv_def)
  from DoReconcile_refines [OF rec this] rec ph show ?thesis by auto
qed

end
