(* ===== verification/App_Rollout_Properties.thy ===== *)
theory App_Rollout_Properties
  imports App_Rollout_Safety
begin

text \<open>
  What the AppRollout controller promises to its users: admission by the webhook and the controller
  fit together, and what a modification, a deletion and the end of a rollout do.  The examples are
  a server that has every object and one revision with one Deployment.
\<close>

section \<open>An admitted rollout does not make the controller panic\<close>

text \<open>
  Revisions are immutable, so that every read that finds one finds the same.  The components of a
  revision have their revision's name from their own, and a workload.
\<close>

definition immutable_revisions ::
  "(nsname \<Rightarrow> 'w \<Rightarrow> (api_error + app_revision) \<times> 'w) \<Rightarrow> (nsname \<Rightarrow> app_revision) \<Rightarrow> bool" where
  "immutable_revisions get revs \<longleftrightarrow> (\<forall>n w r w'. get n w = (Inr r, w') \<longrightarrow> r = revs n)"

lemma immutable_revisionsD: "immutable_revisions get revs \<Longrightarrow> get n w = (Inr r, w') \<Longrightarrow> r = revs n"
  unfolding immutable_revisions_def by blast

definition named_components :: "component_manifest list \<Rightarrow> bool" where
  "named_components cms \<longleftrightarrow>
     (\<forall>cm \<in> set cms. assembles cm \<and> (\<exists>k \<ge> 0. cmRevisionName cm = ConstructRevisionName (cmName cm) k))"

lemma named_components_names:
  "named_components cms \<Longrightarrow> assembled_names cms = set (component_names cms)"
  by (force simp: named_components_def assembled_names_def component_names_def ExtractComponentName_Construct)

lemma admitted_components:
  assumes "fst (ar_ValidateCreate A ar w) = Some []" and "\<not> arDeleting ar"
    and doc: "contains_doc (vaContains A)" and revs: "immutable_revisions (vaGetRevision A) revs"
  shows "\<exists>tc. revision_manifests A (revs (arNamespace ar, TargetAppRevisionName (arSpec ar))) = Inr tc \<and>
    (\<exists>sc. (if SourceAppRevisionName (arSpec ar) = '''' then sc = None
           else \<exists>cs. revision_manifests A (revs (arNamespace ar, SourceAppRevisionName (arSpec ar))) = Inr cs \<and>
                     sc = Some cs) \<and>
          validateComponent (vaContains A) (ComponentList (arSpec ar)) tc sc [Child ''spec'', Child ''componentList''] = Some [])"
proof -
  let ?ns = "arNamespace ar" and ?t = "TargetAppRevisionName (arSpec ar)" and ?s = "SourceAppRevisionName (arSpec ar)"
  have t: "?t \<noteq> ''''" using assms(1) by (auto simp: ar_ValidateCreate_def Let_def split: if_splits)
  obtain tr w1 where get: "vaGetRevision A (?ns, ?t) w = (Inr tr, w1)"
    using assms(1,2) t by (auto simp: ar_ValidateCreate_def Let_def split: prod.splits sum.splits)
  have tr: "tr = revs (?ns, ?t)" by (rule immutable_revisionsD [OF revs get])
  have ok: "fst (validateRevisions A ar tr w1) = Some []"
    using assms(1,2) t get by (auto simp: ar_ValidateCreate_def Let_def split: prod.splits option.splits)
  show ?thesis
  proof (cases "?s = ''''")
    case True
    from ok True show ?thesis unfolding tr [symmetric]
      by (auto simp: validateRevisions_def Let_def split: sum.splits option.splits)
  next
    case False
    obtain x w2 where src: "vaGetRevision A (?ns, ?s) w1 = (x, w2)" by fastforce
    from ok False src obtain sr where x: "x = Inr sr"
      by (cases x) (auto simp: validateRevisions_def Let_def split: sum.splits option.splits)
    have sr: "sr = revs (?ns, ?s)" by (rule immutable_revisionsD [OF revs src [unfolded x]])
    from ok False src x show ?thesis unfolding tr [symmetric] sr [symmetric]
      by (auto simp: validateRevisions_def Let_def split: sum.splits option.splits)
  qed
qed

lemma choose_revisions_spec:
  assumes "\<not> isRolloutModified ar \<or> terminal (arState ar)"
  shows "hTargetRevName (choose_revisions R (new_handler ar es w)) = TargetAppRevisionName (arSpec ar)"
    and "hSourceRevName (choose_revisions R (new_handler ar es w)) = SourceAppRevisionName (arSpec ar)"
    and "hSourceWorkloads (choose_revisions R (new_handler ar es w)) = None"
  using assms
  by (auto simp: choose_revisions_def handleRolloutModified_def Let_def terminal_def new_handler_def)

text \<open>The revisions of the specification are prepared, unless the rollout is modified before it has ended.\<close>

lemma prepare_all_workloads:
  assumes "prepare_all R (new_handler ar es w) = Some (None, h)"
    and "immutable_revisions (rcGetRevision R) revs"
    and "\<not> isRolloutModified ar \<or> terminal (arState ar)"
  shows "fst ` set (hTargetWorkloads h) =
           assembled_names (revision_components (rcAssembler R) (revs (arNamespace ar, TargetAppRevisionName (arSpec ar))))"
    and "case hSourceWorkloads h of None \<Rightarrow> True | Some wls \<Rightarrow> fst ` set wls =
           assembled_names (revision_components (rcAssembler R) (revs (arNamespace ar, SourceAppRevisionName (arSpec ar))))"
    and "arSpec (hAppRollout h) = arSpec ar" and "hSourceRevName h = SourceAppRevisionName (arSpec ar)"
proof -
  let ?h = "choose_revisions R (new_handler ar es w)"
  note c = choose_revisions_spec [OF assms(3), of R es w]
  have "only_status ar (hAppRollout ?h)" using choose_revisions_moves(1) [of "new_handler ar es w" R] by simp
  note spec = only_status_fields(1,4) [OF this]
  obtain h1 h2 where p1: "prepareTarget R ?h = Some (None, h1)" and p2: "prepareSource R h1 = Some (None, h2)"
    and p3: "determineRolloutComponent h2 = Some (None, h)"
    using assms(1) unfolding prepare_all_def prepareRollout_def and_then_Some by auto
  from determine_Some [OF p3] obtain n where h: "h = h2\<lparr>hNeedRollComponent := n\<rparr>" by blast
  from p1 obtain r w' w'' ms wls where
    t: "rcGetRevision R (arNamespace (hAppRollout ?h), hTargetRevName ?h) (hWorld ?h) = (Inr r, w')"
    "h1 = ?h\<lparr>hTargetAppRevision := Some r, hTargetManifests := ms, hTargetWorkloads := wls, hWorld := w''\<rparr>"
    "distinct (map fst wls)" "fst ` set wls = assembled_names (revision_components (rcAssembler R) r)"
    by (rule prepareTarget_Some)
  have h1: "fst ` set (hTargetWorkloads h1) =
      assembled_names (revision_components (rcAssembler R) (revs (arNamespace ar, TargetAppRevisionName (arSpec ar))))"
    "hSourceRevName h1 = SourceAppRevisionName (arSpec ar)" "arSpec (hAppRollout h1) = arSpec ar"
    "arNamespace (hAppRollout h1) = arNamespace ar" "hSourceWorkloads h1 = None"
    using immutable_revisionsD [OF assms(2) t(1)] t(2,4) c spec by simp_all
  have "fst ` set (hTargetWorkloads h2) =
      assembled_names (revision_components (rcAssembler R) (revs (arNamespace ar, TargetAppRevisionName (arSpec ar)))) \<and>
    arSpec (hAppRollout h2) = arSpec ar \<and> hSourceRevName h2 = SourceAppRevisionName (arSpec ar) \<and> (case hSourceWorkloads h2 of None \<Rightarrow> True | Some wls \<Rightarrow> fst ` set wls =
      assembled_names (revision_components (rcAssembler R) (revs (arNamespace ar, SourceAppRevisionName (arSpec ar)))))"
  proof (cases "hSourceRevName h1 = ''''")
    case True
    with p2 have "h2 = h1" by (simp add: prepareSource_def)
    with h1 show ?thesis by simp
  next
    case False
    with p2 obtain sr v v' sms swls where
      s: "rcGetRevision R (arNamespace (hAppRollout h1), hSourceRevName h1) (hWorld h1) = (Inr sr, v)"
      "h2 = h1\<lparr>hSourceAppRevision := Some sr, hSourceWorkloads := Some swls, hSourceManifests := sms, hWorld := v'\<rparr>"
      "distinct (map fst swls)" "fst ` set swls = assembled_names (revision_components (rcAssembler R) sr)"
      by (rule prepareSource_Some)
    with immutable_revisionsD [OF assms(2) s(1)] h1 show ?thesis by simp
  qed
  with h show "fst ` set (hTargetWorkloads h) =
           assembled_names (revision_components (rcAssembler R) (revs (arNamespace ar, TargetAppRevisionName (arSpec ar))))"
    "case hSourceWorkloads h of None \<Rightarrow> True | Some wls \<Rightarrow> fst ` set wls =
           assembled_names (revision_components (rcAssembler R) (revs (arNamespace ar, SourceAppRevisionName (arSpec ar))))"
    "arSpec (hAppRollout h) = arSpec ar" "hSourceRevName h = SourceAppRevisionName (arSpec ar)"
    by simp_all
qed

lemma reset_if_fresh_same [simp]:
  "arSpec (reset_if_fresh ar) = arSpec ar" "arNamespace (reset_if_fresh ar) = arNamespace ar"
  by (simp_all add: reset_if_fresh_def on_rollout_status_def)

text \<open>
  C22: The admission of the webhook and the controller fit together: when the webhook has accepted
  an AppRollout, and both read the same immutable revisions, whose components have revision names made
  from their own names and a workload each, then no reconcile of an object with this specification panics,
  in any state of the rollout that keeps the invariant of the plan controller (the current batch exists while
  batches are rolled), restarts after its end included; the server defaults the replicas of a Deployment and a
  retried call gives its last outcome.  The exception is an object whose revisions
  or size differ from those it last rolled while its rollout has not ended: it goes on with other revisions
  than the webhook has seen.
\<close>

theorem admitted_rollout_never_panics:
  assumes "fst (ar_ValidateCreate A admitted w0) = Some []" and "\<not> arDeleting admitted"
    and "contains_doc (vaContains A)" and "immutable_revisions (vaGetRevision A) revs"
    and "immutable_revisions (rcGetRevision R) revs" and "vaDecoders A = asDecoders (rcAssembler R)"
    and "arSpec ar = arSpec admitted" and "arNamespace ar = arNamespace admitted"
    and "named_components (revision_components (rcAssembler R) (revs (arNamespace ar, TargetAppRevisionName (arSpec ar))))"
    and "named_components (revision_components (rcAssembler R) (revs (arNamespace ar, SourceAppRevisionName (arSpec ar))))"
    and "retry_returns_last (rcEnv R)" and "replicas_defaulted (rcEnv R)"
    and "plan_inv (RolloutPlan (arSpec ar)) (arphase (reset_if_fresh ar))"
    and "\<not> isRolloutModified (reset_if_fresh ar) \<or> terminal (arState (reset_if_fresh ar))"
  shows "DoReconcile R ar es w \<noteq> None"
proof (rule DoReconcile_returns [OF assms(11-13)])
  fix h assume prep: "prepare_all R (new_handler (reset_if_fresh ar) es w) = Some (None, h)"
  note wf = prepare_all_Some [OF prep]
  note names = prepare_all_workloads [OF prep assms(5,14), unfolded reset_if_fresh_same]
  show "has_workloads h"
  proof (cases "ComponentList (arSpec ar)")
    case Nil
    with wf names(3) show ?thesis by (auto simp: has_workloads_iff) (auto simp: handler_wf_def)
  next
    case (Cons c cs)
    from wf names(3) Cons have need: "hNeedRollComponent h = c" by (simp add: handler_wf_def)
    have same: "revision_manifests A r = Inr cms \<Longrightarrow> revision_components (rcAssembler R) r = cms" for r cms
      using assms(6) by (simp add: revision_manifests_def revision_components_def)
    obtain tc sc where tc: "revision_manifests A (revs (arNamespace ar, TargetAppRevisionName (arSpec ar))) = Inr tc"
      and sc: "if SourceAppRevisionName (arSpec ar) = '''' then sc = None
        else \<exists>cs. revision_manifests A (revs (arNamespace ar, SourceAppRevisionName (arSpec ar))) = Inr cs \<and> sc = Some cs"
      and "validateComponent (vaContains A) (ComponentList (arSpec ar)) tc sc [Child ''spec'', Child ''componentList''] = Some []"
      using admitted_components [OF assms(1-4), folded assms(7,8)] by blast
    with validateComponent_exact(1) [OF assms(3)] Cons
    have c: "c \<in> set (component_names tc)" "case sc of None \<Rightarrow> True | Some s \<Rightarrow> c \<in> set (component_names s)"
      by (auto split: list.splits)
    have "target_workload h \<noteq> None"
      using names(1) c(1) named_components_names [OF assms(9)] same [OF tc]
      by (simp add: target_workload_def need map_of_ne_None del: not_None_eq)
    moreover have "source_workload h \<noteq> None" if "hSourceRevName h \<noteq> ''''"
    proof -
      from that wf obtain wls where wls: "hSourceWorkloads h = Some wls" by (auto simp: handler_wf_def)
      from that names(4) sc obtain ss where ss: "revision_manifests A (revs (arNamespace ar, SourceAppRevisionName (arSpec ar))) = Inr ss"
        "sc = Some ss" by auto
      from names(2) c(2) named_components_names [OF assms(10)] same [OF ss(1)] ss(2) wls show ?thesis
        by (simp add: source_workload_def need map_of_ne_None del: not_None_eq)
    qed
    ultimately show ?thesis using has_workloads_iff [OF wf] by blast
  qed
qed


definition rollout_admission :: "kube_world admission" where
  "rollout_admission =
     \<lparr>vaObjectMeta = (\<lambda>ar. []), vaGetRevision = rcGetRevision example_reconciler, vaDecoders = rollout_decoders,
      vaGetValue = example_ios_value, vaIntValue = (\<lambda>v. sint (IntVal v)),
      vaFromInt = (\<lambda>n. \<lparr>IosType = IosInt, IntVal = int32_of n, StrVal = ''''\<rparr>),
      vaContains = (\<lambda>xs x. x \<in> set xs), vaPlanEqual = (=), vaMarshal = (\<lambda>ar. Inr (arName ar))\<rparr>"

lemma example_revisions_immutable: "immutable_revisions (rcGetRevision example_reconciler) (\<lambda>n. labelled_revision)"
  by (simp add: immutable_revisions_def)

lemma rollout_decoders_same: "asDecoders rollout_assembler = rollout_decoders"
  by (simp add: rollout_assembler_def)

lemma rollout_manifest_named: "named_components [rollout_manifest]"
proof -
  have "itoa 1 = ''1''" by code_simp
  then have "cmRevisionName rollout_manifest = ConstructRevisionName (cmName rollout_manifest) 1"
    by (simp add: rollout_manifest_def plain_manifest_def ConstructRevisionName_def)
  moreover have "assembles rollout_manifest"
    by (simp add: assembles_def rollout_manifest_def plain_manifest_def checkAutoDetectComponent_def)
  ultimately show ?thesis by (auto simp: named_components_def intro: exI [of _ 1])
qed

lemma example_admitted:
  "fst (ar_ValidateCreate rollout_admission (example_rollout_of r b [''web'']) w) = Some []"
proof -
  let ?A = "rollout_admission" and ?ar = "example_rollout_of r b [''web'']"
  have plan: "plan_ValidateCreate example_ios_value example_plan p = []" for p
    by (simp add: example_plan_def plan_ValidateCreate_def plan_of_def validateWebhook_def validateRolloutBatches_def
        batches_def int_batch_def example_ios_value_def)
  have comps: "revision_manifests ?A labelled_revision = Inr [rollout_manifest]"
    by (simp add: revision_manifests_def rollout_admission_def rollout_manifest_def labelled_revision_def
      AppConfig2ComponentManifests_def RawExtension2AppConfig_def
      RawExtension2Component_def RawExtension2Unstructured_def component_manifest_of_def
      rollout_decoders_def plain_decoders_def plain_acc_def plain_component_def plain_manifest_def map_get_def Let_def)
  have "component_names [rollout_manifest] = [''web'']"
    by (simp add: component_names_def rollout_manifest_def plain_manifest_def ExtractComponentName_def)
  then have "validateComponent (vaContains ?A) [''web''] [rollout_manifest] None p = Some []" for p
    by (subst validateComponent_exact(1)) (simp_all add: contains_doc_def rollout_admission_def)
  moreover have "arDeleting ?ar = False" by (simp add: example_rollout_of_def)
  moreover have "vaGetRevision ?A n v = (if snd n = ''gone'' then Inl not_found else Inr labelled_revision, v)"
    "vaObjectMeta ?A x = []" "vaGetValue ?A = example_ios_value" for n v x
    by (simp_all add: rollout_admission_def)
  ultimately show ?thesis
    using comps plan by (simp add: ar_ValidateCreate_def validateRevisions_def Let_def)
qed

definition changed_rollout :: "rolling_state \<Rightarrow> app_rollout" where
  "changed_rollout r =
     (let ar = example_rollout_of r BatchReadyState [''web'']
      in ar\<lparr>arSpec := (arSpec ar)\<lparr>RolloutPlan := example_plan\<lparr>BatchPartition := Some 0\<rparr>\<rparr>\<rparr>)"

theorem rollout_admission_is_exact_witness:
  "let update = (\<lambda>r. \<lparr>reqOperation = UpdateOperation, reqObject = Inr (example_rollout_of r BatchReadyState [''web'']),
                      reqOldObject = Inr (changed_rollout r)\<rparr>)
   in fst (validating_Handle rollout_admission (update RollingInBatchesState) empty_world) = Some Allowed \<and>
      fst (validating_Handle rollout_admission (update RolloutSucceedState) empty_world) \<noteq> Some Allowed"
proof -
  have doc: "contains_doc (vaContains rollout_admission)" by (simp add: contains_doc_def rollout_admission_def)
  have live: "\<not> arDeleting (example_rollout_of r BatchReadyState [''web''])" for r by (simp add: example_rollout_of_def)
  have ok: "admissible_rollout rollout_admission (example_rollout_of r BatchReadyState [''web'']) empty_world" for r
    using example_admitted ar_ValidateCreate_accepts [OF doc live] by blast
  have plans: "example_plan\<lparr>BatchPartition := Some 0\<rparr> \<noteq> example_plan" "TargetSize example_plan = None"
    by (simp_all add: example_plan_def plan_of_def)
  have "may_update rollout_admission (changed_rollout r) (example_rollout_of r BatchReadyState [''web'']) \<longleftrightarrow> \<not> terminal r" for r
    using plans by (auto simp: may_update_def changed_rollout_def rollout_admission_def Let_def)
  moreover have "fst (validating_Handle rollout_admission \<lparr>reqOperation = UpdateOperation,
        reqObject = Inr (example_rollout_of r BatchReadyState [''web'']), reqOldObject = Inr (changed_rollout r)\<rparr> empty_world) = Some Allowed \<longleftrightarrow>
      may_update rollout_admission (changed_rollout r) (example_rollout_of r BatchReadyState [''web''])" for r
    using rollout_admission_is_exact [OF doc, of "\<lparr>reqOperation = UpdateOperation,
        reqObject = Inr (example_rollout_of r BatchReadyState [''web'']), reqOldObject = Inr (changed_rollout r)\<rparr>" _ _ empty_world] ok [of r] live [of r]
    by simp
  ultimately show ?thesis by (simp add: terminal_def)
qed

theorem admitted_rollout_never_panics_witness:
  "DoReconcile example_reconciler (example_rollout_of RollingInBatchesState BatchReadyState [''web'']) [] empty_world \<noteq> None"
proof (rule admitted_rollout_never_panics [OF example_admitted, where w0 = empty_world and revs = "\<lambda>n. labelled_revision"])
  let ?ar = "example_rollout_of RollingInBatchesState BatchReadyState [''web'']"
  show "contains_doc (vaContains rollout_admission)" by (simp add: contains_doc_def rollout_admission_def)
  show "immutable_revisions (vaGetRevision rollout_admission) (\<lambda>n. labelled_revision)"
    using example_revisions_immutable by (simp add: rollout_admission_def)
  show "vaDecoders rollout_admission = asDecoders (rcAssembler example_reconciler)"
    by (simp add: rollout_admission_def rollout_decoders_same)
  show "retry_returns_last (rcEnv example_reconciler)" "replicas_defaulted (rcEnv example_reconciler)"
    by (auto simp: retry_returns_last_def replicas_defaulted_def rollout_env_def example_deployment_def)
  show "plan_inv (RolloutPlan (arSpec ?ar)) (arphase (reset_if_fresh ?ar))"
    by (simp add: reset_if_fresh_def arphase_def phase_def plan_inv_def)
  show "\<not> isRolloutModified (reset_if_fresh ?ar) \<or> terminal (arState (reset_if_fresh ?ar))"
    by (simp add: reset_if_fresh_def isRolloutModified_def)
qed (simp_all add: example_revisions_immutable rollout_components rollout_manifest_named, simp add: example_rollout_of_def)


section \<open>Modified while rolling\<close>

lemma reset_nonempty: "rolling_state_str (arState ar) \<noteq> '''' \<Longrightarrow> reset_if_fresh ar = ar"
  by (simp add: reset_if_fresh_def)

lemma terminated_terminal: "handleRollingTerminated ar \<Longrightarrow> terminal (arState ar)"
  by (auto simp: handleRollingTerminated_def terminal_def split: if_splits)

lemma choose_revisions_modified:
  assumes "isRolloutModified (hAppRollout h)" and "\<not> terminal (arState (hAppRollout h))"
  shows "hTargetRevName (choose_revisions R h) = LastUpgradedTargetAppRevision (arStatus (hAppRollout h))"
    and "hSourceRevName (choose_revisions R h) = LastSourceAppRevision (arStatus (hAppRollout h))"
    and "arState (hAppRollout (choose_revisions R h)) = RolloutAbandoningState"
    and "LastUpgradedTargetAppRevision (arStatus (hAppRollout (choose_revisions R h))) = LastUpgradedTargetAppRevision (arStatus (hAppRollout h))"
    and "LastSourceAppRevision (arStatus (hAppRollout (choose_revisions R h))) = LastSourceAppRevision (arStatus (hAppRollout h))"
  using assms
  by (auto simp: choose_revisions_def handleRolloutModified_def Let_def terminal_def isRolloutModified_def
      ar_transition_def on_rollout_status_def StateTransition_def)

text \<open>
  A rollout whose target is changed while it rolls goes on with the revisions that it was
  rolling, but with the new component list: when the old target has no such component, and there is no
  old source, the reconcile panics, and so will every later one, since nothing is stored.
\<close>

theorem modified_component_panics:
  assumes "isRolloutModified ar" and "\<not> terminal (arState ar)" and "rolling_state_str (arState ar) \<noteq> ''''"
    and "ComponentList (arSpec ar) = c # cs" and "LastSourceAppRevision (arStatus ar) = ''''"
    and "immutable_revisions (rcGetRevision R) revs"
    and "c \<notin> assembled_names (revision_components (rcAssembler R)
               (revs (arNamespace ar, LastUpgradedTargetAppRevision (arStatus ar))))"
    and "prepareRollout R (choose_revisions R (new_handler ar es w)) = Some (None, h)"
  shows "DoReconcile R ar es w = None"
proof -
  let ?h = "choose_revisions R (new_handler ar es w)"
  have ar: "hAppRollout (new_handler ar es w) = ar" by simp
  note ch = choose_revisions_modified [of "new_handler ar es w" R, unfolded ar, OF assms(1,2)]
  have same: "only_status ar (hAppRollout ?h)" using choose_revisions_moves(1) [of "new_handler ar es w" R] by simp
  obtain h1 where p1: "prepareTarget R ?h = Some (None, h1)" and p2: "prepareSource R h1 = Some (None, h)"
    using assms(8) unfolding prepareRollout_def and_then_Some by auto
  from p1 obtain r w' w'' ms wls where
    t: "rcGetRevision R (arNamespace (hAppRollout ?h), hTargetRevName ?h) (hWorld ?h) = (Inr r, w')"
    "h1 = ?h\<lparr>hTargetAppRevision := Some r, hTargetManifests := ms, hTargetWorkloads := wls, hWorld := w''\<rparr>"
    "distinct (map fst wls)" "fst ` set wls = assembled_names (revision_components (rcAssembler R) r)"
    by (rule prepareTarget_Some)
  have "c \<notin> fst ` set wls"
    using assms(7) immutable_revisionsD [OF assms(6) t(1)] t(4) ch(1) only_status_fields(4) [OF same] by simp
  moreover have "h = h1" using p2 t(2) ch(2) assms(5) by (simp add: prepareSource_def)
  moreover have comp: "ComponentList (arSpec (hAppRollout ?h)) = c # cs"
    using assms(4) only_status_fields(1) [OF same] by simp
  ultimately have prep: "prepare_all R (new_handler ar es w) = Some (None, h\<lparr>hNeedRollComponent := c\<rparr>)"
    and none: "target_workload (h\<lparr>hNeedRollComponent := c\<rparr>) = None"
    using assms(8) t(2)
    by (simp_all add: prepare_all_def and_then_def determineRolloutComponent_def target_workload_def map_of_eq_None_iff)
  have "arState (hAppRollout h) = RolloutAbandoningState" "hSourceRevName h = ''''"
    using \<open>h = h1\<close> t(2) ch(2,3) assms(5) by simp_all
  moreover have "\<not> handleRollingTerminated ar" using assms(2) terminated_terminal by blast
  ultimately show ?thesis
    using prep none
    by (simp add: DoReconcile_prepared reset_nonempty [OF assms(3)] reconcile_prepared_def rollout_both_def
        fetchSourceAndTargetWorkload_def)
qed

lemma reconcile_plan_last:
  fixes R :: "'w reconciler"
  assumes "reconcile_plan R s t h = Some (r, h')"
  shows "if arState (hAppRollout h') = RolloutAbandoningState
         then LastUpgradedTargetAppRevision (arStatus (hAppRollout h')) = LastUpgradedTargetAppRevision (arStatus (hAppRollout h)) \<and>
              LastSourceAppRevision (arStatus (hAppRollout h')) = LastSourceAppRevision (arStatus (hAppRollout h))
         else LastUpgradedTargetAppRevision (arStatus (hAppRollout h')) = TargetAppRevisionName (arSpec (hAppRollout h)) \<and>
              LastSourceAppRevision (arStatus (hAppRollout h')) = SourceAppRevisionName (arSpec (hAppRollout h))"
proof -
  from assms obtain res and c :: "'w ctl" and ar' where "ar' = on_rollout_status (\<lambda>_. rolloutStatus c) (hAppRollout h)"
    and "hAppRollout h' = (if RollingState (rolloutStatus c) \<noteq> RolloutAbandoningState
       then ar'\<lparr>arStatus := (arStatus ar')\<lparr>LastUpgradedTargetAppRevision := TargetAppRevisionName (arSpec ar'),
                                          LastSourceAppRevision := SourceAppRevisionName (arSpec ar')\<rparr>\<rparr>
       else ar')" by (rule reconcile_plan_result)
  then show ?thesis by (simp add: on_rollout_status_def)
qed



lemma DoReconcile_plan_part:
  assumes "DoReconcile R ar es w = Some ((t, None), h')" and "rolling_state_str (arState ar) \<noteq> ''''"
    and "\<not> handleRollingTerminated ar"
    and "arState (hAppRollout (choose_revisions R (new_handler ar es w))) \<notin> {RolloutDeletingState, LocatingTargetAppState}"
  obtains src trg h1 h2 where "prepare_all R (new_handler ar es w) = Some (None, h1)"
    "fetchSourceAndTargetWorkload R h1 = Some (Inr (src, trg), h2)" "reconcile_plan R src trg h2 = Some ((t, None), h')"
    "hAppRollout h2 = hAppRollout (choose_revisions R (new_handler ar es w))"
proof -
  have fresh: "reset_if_fresh ar = ar" by (rule reset_nonempty [OF assms(2)])
  obtain h1 where prep: "prepare_all R (new_handler ar es w) = Some (None, h1)" and rec: "reconcile_prepared R h1 = Some ((t, None), h')"
    using assms(1,3) by (auto simp: DoReconcile_prepared fresh Let_def split: option.splits)
  have keep: "hAppRollout h1 = hAppRollout (choose_revisions R (new_handler ar es w))"
    by (rule prepare_all_keeps [OF prep])
  with rec assms(4) have "rollout_both R h1 = Some ((t, None), h')"
    by (auto simp: reconcile_prepared_def Let_def split: rolling_state.splits)
  then obtain src trg h2 where fetch: "fetchSourceAndTargetWorkload R h1 = Some (Inr (src, trg), h2)"
    and "reconcile_plan R src trg h2 = Some ((t, None), h')"
    by (auto simp: rollout_both_def split: option.splits sum.splits)
  moreover have "hAppRollout h2 = hAppRollout h1" by (rule keepsD [OF keeps_fetch fetch])
  ultimately show thesis using that prep keep by metis
qed

text \<open>Which revisions are read, and that they are those that are rolled.\<close>

lemma prepare_all_revisions:
  fixes R :: "'w reconciler"
  assumes "prepare_all R (new_handler ar es w) = Some (None, h)"
  defines "c \<equiv> choose_revisions R (new_handler ar es w)"
  shows "hTargetRevName h = hTargetRevName c" and "hSourceRevName h = hSourceRevName c"
    and "\<exists>r v. rcGetRevision R (arNamespace ar, hTargetRevName c) w = (Inr r, v) \<and> hTargetAppRevision h = Some r \<and>
           fst ` set (hTargetWorkloads h) = assembled_names (revision_components (rcAssembler R) r)"
    and "if hSourceRevName c = '''' then hSourceAppRevision h = None \<and> hSourceWorkloads h = None
         else \<exists>r u v wls. rcGetRevision R (arNamespace ar, hSourceRevName c) u = (Inr r, v) \<and> hSourceAppRevision h = Some r \<and>
           hSourceWorkloads h = Some wls \<and> fst ` set wls = assembled_names (revision_components (rcAssembler R) r)"
proof -
  have c: "hSourceAppRevision c = None" "hSourceWorkloads c = None" "hWorld c = w"
    unfolding c_def by (auto simp: choose_revisions_def handleRolloutModified_def Let_def new_handler_def)
  have ns: "arNamespace (hAppRollout c) = arNamespace ar"
    using only_status_fields(4) [OF choose_revisions_moves(1) [of "new_handler ar es w" R]] by (simp add: c_def)
  obtain h1 h2 where p1: "prepareTarget R c = Some (None, h1)" and p2: "prepareSource R h1 = Some (None, h2)"
    and p3: "determineRolloutComponent h2 = Some (None, h)"
    using assms(1) unfolding prepare_all_def prepareRollout_def and_then_Some c_def by auto
  from determine_Some [OF p3] obtain n where h: "h = h2\<lparr>hNeedRollComponent := n\<rparr>" by blast
  from p1 obtain r v v' ms wls where t: "rcGetRevision R (arNamespace ar, hTargetRevName c) w = (Inr r, v)"
    "h1 = c\<lparr>hTargetAppRevision := Some r, hTargetManifests := ms, hTargetWorkloads := wls, hWorld := v'\<rparr>"
    "fst ` set wls = assembled_names (revision_components (rcAssembler R) r)"
    by (rule prepareTarget_Some) (simp add: ns c(3))
  have "hTargetRevName h = hTargetRevName c \<and> hSourceRevName h = hSourceRevName c \<and>
      (\<exists>r v. rcGetRevision R (arNamespace ar, hTargetRevName c) w = (Inr r, v) \<and> hTargetAppRevision h = Some r \<and>
         fst ` set (hTargetWorkloads h) = assembled_names (revision_components (rcAssembler R) r)) \<and>
      (if hSourceRevName c = '''' then hSourceAppRevision h = None \<and> hSourceWorkloads h = None
       else \<exists>r u v wls. rcGetRevision R (arNamespace ar, hSourceRevName c) u = (Inr r, v) \<and> hSourceAppRevision h = Some r \<and>
         hSourceWorkloads h = Some wls \<and> fst ` set wls = assembled_names (revision_components (rcAssembler R) r))"
  proof (cases "hSourceRevName h1 = []")
    case True
    with p2 have "h2 = h1" by (simp add: prepareSource_def)
    with True h t c show ?thesis by simp
  next
    case False
    with p2 obtain q u u' sms swls where
      s: "rcGetRevision R (arNamespace (hAppRollout h1), hSourceRevName h1) (hWorld h1) = (Inr q, u)"
      "h2 = h1\<lparr>hSourceAppRevision := Some q, hSourceWorkloads := Some swls, hSourceManifests := sms, hWorld := u'\<rparr>"
      "fst ` set swls = assembled_names (revision_components (rcAssembler R) q)"
      by (rule prepareSource_Some)
    with False h t ns show ?thesis by auto
  qed
  then show "hTargetRevName h = hTargetRevName c" "hSourceRevName h = hSourceRevName c"
    "\<exists>r v. rcGetRevision R (arNamespace ar, hTargetRevName c) w = (Inr r, v) \<and> hTargetAppRevision h = Some r \<and>
       fst ` set (hTargetWorkloads h) = assembled_names (revision_components (rcAssembler R) r)"
    "if hSourceRevName c = '''' then hSourceAppRevision h = None \<and> hSourceWorkloads h = None
     else \<exists>r u v wls. rcGetRevision R (arNamespace ar, hSourceRevName c) u = (Inr r, v) \<and> hSourceAppRevision h = Some r \<and>
       hSourceWorkloads h = Some wls \<and> fst ` set wls = assembled_names (revision_components (rcAssembler R) r)"
    by blast+
qed

lemma world_only_finalize: "world_only (finalizeRollingSucceeded R h) h"
  unfolding finalizeRollingSucceeded_def by (intro world_only_case) simp_all

lemma reconcile_plan_handler:
  assumes "reconcile_plan R s t h = Some (r, h')"
  shows "hTargetAppRevision h' = hTargetAppRevision h \<and> hTargetWorkloads h' = hTargetWorkloads h \<and>
    hSourceAppRevision h' = hSourceAppRevision h \<and> hSourceWorkloads h' = hSourceWorkloads h"
  using assms
  by (auto simp: reconcile_plan_def Let_def bind_eq_Some_conv split: if_splits option.splits
      dest!: world_onlyD [OF world_only_finalize])

text \<open>
  C23: A rollout that is modified while it rolls is abandoned first, with the revisions that it was
  rolling: the reconcile reads and assembles those that the status recorded last, the target and, if there
  was one, the source, and not those of the new specification.  After a reconcile without an error the
  rollout either is still abandoning, with those revisions still recorded, or it starts over, with the new
  revisions recorded, so that it is not modified any more; or it has failed.
\<close>

theorem modification_abandons_first:
  assumes "DoReconcile R ar es w = Some ((t, None), h')" and "isRolloutModified ar"
    and "\<not> terminal (arState ar)" and "rolling_state_str (arState ar) \<noteq> ''''"
    and "phase_ok (arphase ar)"
  shows "let ar' = hAppRollout h'; target = LastUpgradedTargetAppRevision (arStatus ar); source = LastSourceAppRevision (arStatus ar)
         in (\<exists>r v. rcGetRevision R (arNamespace ar, target) w = (Inr r, v) \<and> hTargetAppRevision h' = Some r \<and>
               fst ` set (hTargetWorkloads h') = assembled_names (revision_components (rcAssembler R) r)) \<and>
            (if source = '''' then hSourceAppRevision h' = None \<and> hSourceWorkloads h' = None
             else \<exists>r u v wls. rcGetRevision R (arNamespace ar, source) u = (Inr r, v) \<and> hSourceAppRevision h' = Some r \<and>
               hSourceWorkloads h' = Some wls \<and> fst ` set wls = assembled_names (revision_components (rcAssembler R) r)) \<and>
            (arState ar' = RolloutAbandoningState \<and>
               LastUpgradedTargetAppRevision (arStatus ar') = target \<and> LastSourceAppRevision (arStatus ar') = source \<or>
             arState ar' \<in> {LocatingTargetAppState, RolloutFailedState} \<and>
               LastUpgradedTargetAppRevision (arStatus ar') = TargetAppRevisionName (arSpec ar) \<and>
               LastSourceAppRevision (arStatus ar') = SourceAppRevisionName (arSpec ar))"
proof -
  let ?h = "choose_revisions R (new_handler ar es w)"
  have ar: "hAppRollout (new_handler ar es w) = ar" by simp
  note ch = choose_revisions_modified [of "new_handler ar es w" R, unfolded ar, OF assms(2,3)]
  have same: "only_status ar (hAppRollout ?h)" using choose_revisions_moves(1) [of "new_handler ar es w" R] by simp
  obtain r b n where "arphase ar = (r, b, n)" by (cases "arphase ar")
  have mod: "phase_step RollingModifiedEvent (arphase ar) (arphase (hAppRollout ?h))"
    using choose_revisions_moves(2) [of "new_handler ar es w" R] assms(2) by simp
  have ph: "arphase (hAppRollout ?h) = (RolloutAbandoningState, BatchInitializingState, n)"
    using mod \<open>arphase ar = (r, b, n)\<close> ch(3) assms(3) by (auto simp: arphase_def phase_def)
  have "\<not> handleRollingTerminated ar" using assms(3) terminated_terminal by blast
  with assms(1,4) obtain src trg h1 h2 where prep: "prepare_all R (new_handler ar es w) = Some (None, h1)"
    and fetch: "fetchSourceAndTargetWorkload R h1 = Some (Inr (src, trg), h2)"
    and rec: "reconcile_plan R src trg h2 = Some ((t, None), h')" and h2: "hAppRollout h2 = hAppRollout ?h"
    by (rule DoReconcile_plan_part) (simp add: ch(3))
  from world_onlyD [OF world_only_fetch fetch] reconcile_plan_handler [OF rec]
  have kept: "hTargetAppRevision h' = hTargetAppRevision h1" "hTargetWorkloads h' = hTargetWorkloads h1"
    "hSourceAppRevision h' = hSourceAppRevision h1" "hSourceWorkloads h' = hSourceWorkloads h1" by auto
  note read = prepare_all_revisions(3,4) [OF prep, unfolded ch(1,2), folded kept]
  have "phase_ok (arphase (hAppRollout h2))" by (simp add: h2 ph)
  from reconcile_plan_moves [OF rec this]
  have step: "reconcile_step (RolloutPlan (arSpec (hAppRollout h2))) (RolloutAbandoningState, BatchInitializingState, n)
      (arphase (hAppRollout h'))" by (simp add: h2 ph)
  then have "arState (hAppRollout h') \<in> {RolloutAbandoningState, LocatingTargetAppState, RolloutFailedState}"
    by (cases rule: reconcile_step.cases) (auto simp: arphase_def phase_def)
  with reconcile_plan_last [OF rec] ch(4,5) only_status_fields(1) [OF same]
  have "arState (hAppRollout h') = RolloutAbandoningState \<and>
      LastUpgradedTargetAppRevision (arStatus (hAppRollout h')) = LastUpgradedTargetAppRevision (arStatus ar) \<and>
      LastSourceAppRevision (arStatus (hAppRollout h')) = LastSourceAppRevision (arStatus ar) \<or>
    arState (hAppRollout h') \<in> {LocatingTargetAppState, RolloutFailedState} \<and>
      LastUpgradedTargetAppRevision (arStatus (hAppRollout h')) = TargetAppRevisionName (arSpec ar) \<and>
      LastSourceAppRevision (arStatus (hAppRollout h')) = SourceAppRevisionName (arSpec ar)"
    by (auto simp: h2 split: if_splits)
  with read show ?thesis unfolding Let_def by blast
qed

section \<open>Deletion\<close>

text \<open>
  A rollout that is deleted before it has ended, and whose target revision is gone, is never
  released: the reconcile ends with the error of reading the revision, and writes nothing, so that
  the finalizer stays.  The branch of DoReconcile for an application that is gone is not reached.
\<close>

theorem deletion_needs_the_target:
  assumes "rcGetRollout R req w = (Inr ar, w1)" and "arDeleting ar"
    and "rcFinalizerExists R (arFinalizers ar) appRolloutFinalizer" and "\<not> terminal (arState ar)"
    and "rcGetRevision R (arNamespace ar, TargetAppRevisionName (arSpec ar)) w1 = (Inl err, w2)"
  shows "\<exists>es. ar_Reconcile R req w = Some ((0, Some (errText err)), w2, es)"
proof -
  let ?ar = "ar_transition (rcEnv R) RollingDeletedEvent w1 ar"
  have state: "arState ?ar = RolloutDeletingState"
    using assms(4) by (simp add: ar_transition_def on_rollout_status_def StateTransition_def terminal_def)
  have same: "only_status ar ?ar" by simp
  obtain es where fin: "handleFinalizer R ar [] w1 = ((False, None), ?ar, w1, es)"
    using assms(2-4) by (auto simp: handleFinalizer_def terminal_def Let_def)
  have fresh: "reset_if_fresh ?ar = ?ar" by (rule reset_nonempty) (simp add: state)
  let ?h = "choose_revisions R (new_handler ?ar es w1)"
  have nm: "\<not> isRolloutModified ?ar" "\<not> handleRollingTerminated ?ar"
    using state by (simp_all add: isRolloutModified_def handleRollingTerminated_def)
  then have h: "hTargetRevName ?h = TargetAppRevisionName (arSpec ar)" "hAppRollout ?h = ?ar" "hWorld ?h = w1"
    using only_status_fields(1) [OF same] by (simp_all add: choose_revisions_def new_handler_def)
  have "prepareTarget R ?h = Some (Some (errText err), ?h\<lparr>hTargetAppRevision := Some zero_revision, hWorld := w2\<rparr>)"
    using assms(5) by (simp add: prepareTarget_def h only_status_fields(4) [OF same])
  then have "DoReconcile R ?ar es w1 =
      Some ((0, Some (errText err)), ?h\<lparr>hTargetAppRevision := Some zero_revision, hWorld := w2\<rparr>)"
    using nm by (simp add: DoReconcile_prepared fresh prepare_all_def prepareRollout_def and_then_def)
  with assms(1) fin show ?thesis by (simp add: ar_Reconcile_def)
qed

section \<open>Ended rollouts\<close>

text \<open>
  A scale that has ended, and that is then given a source while its target stays, is not restarted:
  a reconcile without an error records the source and leaves the rollout ended, so that from then on
  it is done with these revisions, which have not been rolled.
\<close>

theorem added_source_is_swallowed:
  assumes "DoReconcile R ar es w = Some ((t, None), h')" and "terminal (arState ar)" and "phase_ok (arphase ar)"
    and "LastUpgradedTargetAppRevision (arStatus ar) = TargetAppRevisionName (arSpec ar)"
    and "LastSourceAppRevision (arStatus ar) = ''''" and "SourceAppRevisionName (arSpec ar) \<noteq> ''''"
    and "TargetSize (RolloutPlan (arSpec ar)) = None"
  shows "terminal (arState (hAppRollout h')) \<and> handleRollingTerminated (hAppRollout h')"
proof -
  let ?h = "choose_revisions R (new_handler ar es w)"
  have str: "rolling_state_str (arState ar) \<noteq> ''''" using assms(2) by (auto simp: terminal_def)
  have mod: "\<not> isRolloutModified ar" and fresh: "\<not> handleRollingTerminated ar"
    using assms(4-7) by (simp_all add: isRolloutModified_def handleRollingTerminated_def)
  have h: "hAppRollout ?h = ar" using mod by (simp add: choose_revisions_def)
  have "arState (hAppRollout ?h) \<notin> {RolloutDeletingState, LocatingTargetAppState}"
    using assms(2) by (auto simp: h)
  with assms(1) str fresh obtain src trg h2 where rec: "reconcile_plan R src trg h2 = Some ((t, None), h')"
    and h2: "hAppRollout h2 = hAppRollout ?h"
    by (rule DoReconcile_plan_part)
  from reconcile_plan_moves [OF rec] assms(3)
  have same: "only_status ar (hAppRollout h')"
    and step: "reconcile_step (RolloutPlan (arSpec ar)) (arphase ar) (arphase (hAppRollout h'))"
    by (simp_all add: h2 h)
  from step assms(2) have ended: "terminal (arState (hAppRollout h'))"
    by (cases rule: reconcile_step.cases) (auto simp: arphase_def phase_def)
  moreover have "handleRollingTerminated (hAppRollout h')"
    using ended reconcile_plan_last [OF rec] assms(7) only_status_fields(1) [OF same]
    by (auto simp: handleRollingTerminated_def h2 h terminal_def split: if_splits)
  ultimately show ?thesis ..
qed

section \<open>Owners\<close>

text \<open>
  Taking the workload from its resource tracker and giving it back is a round trip: while the
  rollout has it, no owner controls it, and afterwards all owners are as they were.
\<close>

theorem controller_owner_roundtrip:
  assumes "controller_of_doc get"
    and "\<forall>r \<in> set (uOwnerReferences u). orController r = Some True \<longrightarrow> orKind r = ResourceTrackerKind"
    and "\<forall>r \<in> set (uOwnerReferences u). orKind r = ResourceTrackerKind \<longrightarrow> orController r \<noteq> Some False"
  shows "get (uOwnerReferences (disableControllerOwner u)) = None \<and>
         enableControllerOwner (disableControllerOwner u) = u"
proof -
  have "map (\<lambda>r. if orKind r = ResourceTrackerKind \<and> orController r = Some False then r\<lparr>orController := Some True\<rparr> else r)
      (map (\<lambda>r. if orController r = Some True then r\<lparr>orController := Some False\<rparr> else r) (uOwnerReferences u)) = uOwnerReferences u"
    unfolding map_map by (rule map_idI) (use assms(2,3) in \<open>auto simp: comp_def\<close>)
  then show ?thesis
    using assms(1) by (auto simp: disableControllerOwner_def enableControllerOwner_def controller_of_doc_def find_None_iff)
qed

section \<open>More examples\<close>

lemma example_reconcile:
  fixes ar es w
  defines "h0 \<equiv> choose_revisions example_reconciler (new_handler ar es w)"
  assumes "rolling_state_str (arState ar) \<noteq> ''''" and "\<not> handleRollingTerminated ar"
    and "hTargetRevName h0 = ''app-v1''" and "hSourceRevName h0 = ''''" and "ComponentList (arSpec ar) = [''web'']"
    and "arState (hAppRollout h0) \<notin> {RolloutDeletingState, LocatingTargetAppState}"
    and plan: "\<And>n. \<exists>c'. plan_Reconcile (plan_controller_of example_reconciler (hAppRollout h0) None
          (example_object ''apps/v1'' ''Deployment'' n))
        \<lparr>world = hWorld h0, rolloutStatus = NewRolloutPlanController (RolloutStatus (arStatus (hAppRollout h0))),
         recorded = hRecorded h0\<rparr> = Some (k, c') \<and> RollingState (rolloutStatus c') \<noteq> RolloutSucceedState"
  shows "\<exists>h'. DoReconcile example_reconciler ar es w = Some ((k, None), h')"
proof -
  obtain u ms where prep: "prepare_all example_reconciler (new_handler ar es w) =
     Some (None, h0\<lparr>hTargetAppRevision := Some labelled_revision, hTargetManifests := ms,
                   hTargetWorkloads := [(''web'', u)], hNeedRollComponent := ''web''\<rparr>)"
     "uAPIVersion u = ''apps/v1''" "uKind u = ''Deployment''"
    using rollout_prepare_all [of ar es w "''web''"] assms(4-6) unfolding h0_def by blast
  let ?h = "h0\<lparr>hTargetAppRevision := Some labelled_revision, hTargetManifests := ms,
                   hTargetWorkloads := [(''web'', u)], hNeedRollComponent := ''web''\<rparr>"
  let ?t = "example_object ''apps/v1'' ''Deployment'' (uName u)"
  have fetch: "fetchSourceAndTargetWorkload example_reconciler ?h = Some (Inr (None, ?t), ?h)"
    using prep(2,3) assms(5) by (simp add: fetchSourceAndTargetWorkload_def target_workload_def extractWorkload_def
        GetObjectGivenGVKAndName_def rollout_kube_def)
  obtain c' where "plan_Reconcile (plan_controller_of example_reconciler (hAppRollout h0) None ?t)
        \<lparr>world = hWorld h0, rolloutStatus = NewRolloutPlanController (RolloutStatus (arStatus (hAppRollout h0))),
         recorded = hRecorded h0\<rparr> = Some (k, c')" "RollingState (rolloutStatus c') \<noteq> RolloutSucceedState"
    using plan by blast
  then obtain h' where "reconcile_plan example_reconciler None ?t ?h = Some ((k, None), h')"
    unfolding reconcile_plan_def Let_def by simp
  with fetch have "rollout_both example_reconciler ?h = Some ((k, None), h')" by (simp add: rollout_both_def)
  moreover have "reconcile_prepared example_reconciler ?h = rollout_both example_reconciler ?h"
    using assms(7) by (auto simp: reconcile_prepared_def Let_def split: rolling_state.split)
  ultimately show ?thesis
    using prep(1) assms(3) by (simp add: DoReconcile_prepared reset_nonempty [OF assms(2)])
qed

lemma example_plan_supported:
  "GetWorkloadController (plan_controller_of example_reconciler ar None (example_object ''apps/v1'' ''Deployment'' n)) =
     Inr (dps_controller (planClient (plan_controller_of example_reconciler ar None (example_object ''apps/v1'' ''Deployment'' n))) (''default'', n))"
  by (simp add: GetWorkloadController_def plan_controller_of_def workload_ref_of_def rollout_kube_def
        example_kube_def rollout_env_def workload_key_def Let_def)

definition modified_rollout :: "rolling_state \<Rightarrow> string list \<Rightarrow> app_rollout" where
  "modified_rollout r cs =
     (let ar = example_rollout_of r BatchReadyState cs
      in ar\<lparr>arSpec := (arSpec ar)\<lparr>TargetAppRevisionName := ''app-v2''\<rparr>,
            arStatus := (arStatus ar)\<lparr>LastUpgradedTargetAppRevision := ''app-v1''\<rparr>\<rparr>)"

lemma modified_rollout_simps [simp]:
  "arState (modified_rollout r cs) = r" "arNamespace (modified_rollout r cs) = ''default''"
  "TargetAppRevisionName (arSpec (modified_rollout r cs)) = ''app-v2''"
  "SourceAppRevisionName (arSpec (modified_rollout r cs)) = ''''"
  "ComponentList (arSpec (modified_rollout r cs)) = cs" "RolloutPlan (arSpec (modified_rollout r cs)) = example_plan"
  "LastUpgradedTargetAppRevision (arStatus (modified_rollout r cs)) = ''app-v1''"
  "LastSourceAppRevision (arStatus (modified_rollout r cs)) = ''''"
  "RolloutStatus (arStatus (modified_rollout r cs)) = example_status r BatchReadyState 0"
  by (simp_all add: modified_rollout_def Let_def)

lemma modified_rollout_modified: "r \<noteq> RolloutDeletingState \<Longrightarrow> isRolloutModified (modified_rollout r cs)"
  by (simp add: isRolloutModified_def)

theorem modified_component_panics_witness:
  "DoReconcile example_reconciler (modified_rollout RollingInBatchesState [''db'']) [] empty_world = None"
proof -
  let ?R = "example_reconciler" and ?ar = "modified_rollout RollingInBatchesState [''db'']"
  let ?h = "choose_revisions ?R (new_handler ?ar [] empty_world)"
  have mod: "isRolloutModified ?ar" by (simp add: modified_rollout_modified)
  have ch: "hTargetRevName ?h = ''app-v1''" "hSourceRevName ?h = ''''"
    using choose_revisions_modified(1,2) [of "new_handler ?ar [] empty_world" ?R] mod by simp_all
  obtain h1 where "prepareTarget ?R ?h = Some (None, h1)" "hSourceRevName h1 = ''''"
    using rollout_prepareTarget [OF ch(1)] ch(2) by fastforce
  then have "prepareRollout ?R ?h = Some (None, h1)"
    by (simp add: prepareRollout_def and_then_def prepareSource_def)
  moreover have "cmName rollout_manifest = ''web''" by (simp add: rollout_manifest_def plain_manifest_def)
  ultimately show ?thesis
    using modified_component_panics [OF mod, where R = ?R and revs = "\<lambda>n. labelled_revision"]
      example_revisions_immutable by (simp add: rollout_components)
qed

lemma example_abandoning:
  "\<exists>h'. DoReconcile example_reconciler (modified_rollout RollingInBatchesState [''web'']) [] empty_world = Some ((5, None), h')"
proof (rule example_reconcile)
  let ?R = "example_reconciler" and ?ar = "modified_rollout RollingInBatchesState [''web'']"
  let ?h = "choose_revisions ?R (new_handler ?ar [] empty_world)"
  have mod: "isRolloutModified ?ar" by (simp add: modified_rollout_modified)
  note ch = choose_revisions_modified [of "new_handler ?ar [] empty_world" ?R]
  show "hTargetRevName ?h = ''app-v1''" "hSourceRevName ?h = ''''"
    "arState (hAppRollout ?h) \<notin> {RolloutDeletingState, LocatingTargetAppState}"
    using ch(1-3) mod by simp_all
  fix n
  let ?P = "plan_controller_of ?R (hAppRollout ?h) None (example_object ''apps/v1'' ''Deployment'' n)"
  let ?c = "\<lparr>world = hWorld ?h, rolloutStatus = RolloutStatus (arStatus (hAppRollout ?h)), recorded = hRecorded ?h\<rparr>"
  have same: "only_status ?ar (hAppRollout ?h)"
    using choose_revisions_moves(1) [of "new_handler ?ar [] empty_world" ?R] by simp
  have mod_step: "phase_step RollingModifiedEvent (arphase ?ar) (arphase (hAppRollout ?h))"
    using choose_revisions_moves(2) [of "new_handler ?ar [] empty_world" ?R] mod by simp
  have ph: "arphase (hAppRollout ?h) = (RolloutAbandoningState, BatchInitializingState, 0)"
    using mod_step ch(3) mod by (auto simp: arphase_def phase_def)
  then have new: "NewRolloutPlanController (RolloutStatus (arStatus (hAppRollout ?h))) = RolloutStatus (arStatus (hAppRollout ?h))"
    by (intro NewRolloutPlanController_ok) (simp add: arphase_def)
  have fin: "\<exists>es. Finalize (dps_controller (planClient ?P) m) False ?c = Some (True, ?c\<lparr>recorded := es\<rparr>)" for m
    by (auto simp: dps_controller_def dps_Finalize_def fetchDeployment_def releaseDeployment_def plan_controller_of_def
        rollout_env_def as_ds_def ctl.defs ds_ctl.defs forget_def)
  have "\<exists>c'. reconcile_state (planClient ?P) (dps_controller (planClient ?P) m) ?c = Some c' \<and>
      RollingState (rolloutStatus c') = LocatingTargetAppState" for m
  proof -
    obtain es where es: "Finalize (dps_controller (planClient ?P) m) False ?c = Some (True, ?c\<lparr>recorded := es\<rparr>)"
      using fin by blast
    have "status_phase (transition rollout_env RollingFinalizedEvent (?c\<lparr>recorded := es\<rparr>)) =
        (LocatingTargetAppState, BatchInitializingState, 0)"
      by (rule transition_finalized(4)) (use ph in \<open>simp add: status_phase_def arphase_def\<close>)
    moreover have "finalizeRollout (planClient ?P) (?c\<lparr>recorded := es\<rparr>) =
        Some (transition rollout_env RollingFinalizedEvent (?c\<lparr>recorded := es\<rparr>))"
      using only_status_fields(1) [OF same] by (simp add: finalizeRollout_def plan_controller_of_def)
    ultimately show ?thesis
      using es ph by (simp add: reconcile_state_def status_phase_def phase_def arphase_def)
  qed
  then show "\<exists>c'. plan_Reconcile ?P \<lparr>world = hWorld ?h, rolloutStatus = NewRolloutPlanController (RolloutStatus (arStatus (hAppRollout ?h))),
         recorded = hRecorded ?h\<rparr> = Some (5, c') \<and> RollingState (rolloutStatus c') \<noteq> RolloutSucceedState"
    unfolding new plan_Reconcile_def example_plan_supported by (fastforce simp: rolloutReconcileRequeueTime_def)
qed (simp_all add: handleRollingTerminated_def)


theorem modification_abandons_first_witness:
  "\<exists>t h'. DoReconcile example_reconciler (modified_rollout RollingInBatchesState [''web'']) [] empty_world = Some ((t, None), h') \<and>
     hTargetAppRevision h' = Some labelled_revision \<and> hSourceAppRevision h' = None \<and>
     (arState (hAppRollout h') = LocatingTargetAppState \<longrightarrow>
        LastUpgradedTargetAppRevision (arStatus (hAppRollout h')) = ''app-v2'')"
proof -
  let ?ar = "modified_rollout RollingInBatchesState [''web'']"
  obtain h' where rec: "DoReconcile example_reconciler ?ar [] empty_world = Some ((5, None), h')"
    using example_abandoning by blast
  have "isRolloutModified ?ar" "\<not> terminal (arState ?ar)" "rolling_state_str (arState ?ar) \<noteq> ''''" "phase_ok (arphase ?ar)"
    by (simp_all add: modified_rollout_modified arphase_def phase_def)
  from modification_abandons_first [OF rec this] rec show ?thesis by (auto simp: Let_def)
qed

definition deleted_rollout :: app_rollout where
  "deleted_rollout =
     (let ar = example_rollout_of RollingInBatchesState BatchReadyState [''web'']
      in ar\<lparr>arDeleting := True, arSpec := (arSpec ar)\<lparr>TargetAppRevisionName := ''gone''\<rparr>\<rparr>)"

theorem deletion_needs_the_target_witness:
  "\<exists>es. ar_Reconcile (example_reconciler\<lparr>rcGetRollout := \<lambda>n w. (Inr deleted_rollout, w)\<rparr>) (''default'', ''rollout'') empty_world =
     Some ((0, Some ''not found''), empty_world, es)"
proof -
  let ?R = "example_reconciler\<lparr>rcGetRollout := \<lambda>n w. (Inr deleted_rollout, w)\<rparr>"
  have "rcGetRollout ?R (''default'', ''rollout'') empty_world = (Inr deleted_rollout, empty_world)" by simp
  moreover have "arDeleting deleted_rollout" by (simp add: deleted_rollout_def Let_def)
  moreover have "rcFinalizerExists ?R (arFinalizers deleted_rollout) appRolloutFinalizer"
    by (simp add: deleted_rollout_def example_rollout_of_def example_reconciler_def Let_def)
  moreover have "\<not> terminal (arState deleted_rollout)" by (simp add: deleted_rollout_def Let_def)
  moreover have "rcGetRevision ?R (arNamespace deleted_rollout, TargetAppRevisionName (arSpec deleted_rollout)) empty_world =
      (Inl not_found, empty_world)"
    by (simp add: deleted_rollout_def Let_def)
  ultimately have "\<exists>es. ar_Reconcile ?R (''default'', ''rollout'') empty_world = Some ((0, Some (errText not_found)), empty_world, es)"
    by (rule deletion_needs_the_target)
  then show ?thesis by (simp add: not_found_def)
qed

theorem controller_owner_roundtrip_witness:
  "let u = (example_object ''apps/v1'' ''Deployment'' ''web'')\<lparr>uOwnerReferences :=
             [app_owner\<lparr>orKind := ResourceTrackerKind\<rparr>, app_owner\<lparr>orController := None\<rparr>]\<rparr>
   in enableControllerOwner (disableControllerOwner u) = u \<and> disableControllerOwner u \<noteq> u"
proof -
  let ?u = "(example_object ''apps/v1'' ''Deployment'' ''web'')\<lparr>uOwnerReferences :=
             [app_owner\<lparr>orKind := ResourceTrackerKind\<rparr>, app_owner\<lparr>orController := None\<rparr>]\<rparr>"
  have "enableControllerOwner (disableControllerOwner ?u) = ?u"
    using controller_owner_roundtrip [OF example_controller_doc, of ?u] by (simp add: app_owner_def)
  moreover have "uOwnerReferences (disableControllerOwner ?u) \<noteq> uOwnerReferences ?u"
    by (simp add: disableControllerOwner_def app_owner_def)
  ultimately show ?thesis unfolding Let_def by metis
qed

lemma rollout_prepareSource:
  assumes "hSourceRevName h = ''app-v0''"
  shows "\<exists>u ms. prepareSource example_reconciler h =
     Some (None, h\<lparr>hSourceAppRevision := Some labelled_revision, hSourceWorkloads := Some [(''web'', u)],
                   hSourceManifests := ms\<rparr>)"
proof -
  let ?am0 = "WithWorkloadOption (rolloutWorkloadName rollout_assembler)
               (WithWorkloadOption (PrepareWorkloadForRollout rollout_assembler) (NewAppManifests labelled_revision))"
  obtain am u where am: "assembled rollout_assembler ?am0 (hWorld h) = (am, hWorld h)" "amErr am = None"
    "amFinalized am" "amAssembledWorkloads am = [(''web'', u)]"
    using rollout_assembled [of "rolloutWorkloadName rollout_assembler" "PrepareWorkloadForRollout rollout_assembler"] by blast
  have "GroupAssembledManifests rollout_assembler ?am0 (hWorld h) =
      ((Inr ([(''web'', u)], amAssembledTraits am, amReferencedScopes am), am), hWorld h)"
    using am by (simp add: GroupAssembledManifests_def)
  moreover obtain ms where "AssembledManifests rollout_assembler am (hWorld h) = ((Inr ms, am), hWorld h)"
    using am finalized_assembled [OF am(3), of rollout_assembler] by (auto simp: AssembledManifests_def)
  ultimately show ?thesis using assms by (auto simp: prepareSource_def)
qed

definition sourced_rollout :: app_rollout where
  "sourced_rollout =
     (let ar = example_rollout_of RolloutFailedState BatchReadyState [''web'']
      in ar\<lparr>arSpec := (arSpec ar)\<lparr>SourceAppRevisionName := ''app-v0''\<rparr>,
            arStatus := (arStatus ar)\<lparr>LastUpgradedTargetAppRevision := ''app-v1''\<rparr>\<rparr>)"

theorem added_source_is_swallowed_witness:
  "\<exists>h'. DoReconcile example_reconciler sourced_rollout [] empty_world = Some ((0, None), h') \<and>
        handleRollingTerminated (hAppRollout h')"
proof -
  let ?R = "example_reconciler" and ?ar = "sourced_rollout"
  have ar: "arState ?ar = RolloutFailedState" "SourceAppRevisionName (arSpec ?ar) = ''app-v0''"
    "TargetAppRevisionName (arSpec ?ar) = ''app-v1''" "LastUpgradedTargetAppRevision (arStatus ?ar) = ''app-v1''"
    "LastSourceAppRevision (arStatus ?ar) = ''''" "RolloutPlan (arSpec ?ar) = example_plan"
    "ComponentList (arSpec ?ar) = [''web'']" "RolloutStatus (arStatus ?ar) = example_status RolloutFailedState BatchReadyState 0"
    by (simp_all add: sourced_rollout_def Let_def)
  let ?h = "choose_revisions ?R (new_handler ?ar [] empty_world)"
  have "\<not> isRolloutModified ?ar" by (simp add: isRolloutModified_def ar)
  then have ch: "hTargetRevName ?h = ''app-v1''" "hSourceRevName ?h = ''app-v0''" "hAppRollout ?h = ?ar"
    by (simp_all add: choose_revisions_def ar)
  obtain u ms where p1: "prepareTarget ?R ?h =
     Some (None, ?h\<lparr>hTargetAppRevision := Some labelled_revision, hTargetManifests := ms,
                   hTargetWorkloads := [(''web'', u)]\<rparr>)" "uAPIVersion u = ''apps/v1''" "uKind u = ''Deployment''"
    using rollout_prepareTarget [OF ch(1)] by blast
  let ?h1 = "?h\<lparr>hTargetAppRevision := Some labelled_revision, hTargetManifests := ms, hTargetWorkloads := [(''web'', u)]\<rparr>"
  have "hSourceRevName ?h1 = ''app-v0''" using ch(2) by simp
  then obtain v ns where p2: "prepareSource ?R ?h1 =
     Some (None, ?h1\<lparr>hSourceAppRevision := Some labelled_revision, hSourceWorkloads := Some [(''web'', v)],
                   hSourceManifests := ns\<rparr>)"
    using rollout_prepareSource by blast
  let ?h2 = "?h1\<lparr>hSourceAppRevision := Some labelled_revision, hSourceWorkloads := Some [(''web'', v)],
                   hSourceManifests := ns, hNeedRollComponent := ''web''\<rparr>"
  have prep: "prepare_all ?R (new_handler ?ar [] empty_world) = Some (None, ?h2)"
    using p1(1) p2 ch(3)
    by (simp add: prepare_all_def prepareRollout_def and_then_def determineRolloutComponent_def ar)
  have fetch: "\<exists>s t. fetchSourceAndTargetWorkload ?R ?h2 = Some (Inr (s, t), ?h2)"
    using ch(2) by (simp add: fetchSourceAndTargetWorkload_def target_workload_def source_workload_def extractWorkload_def
        GetObjectGivenGVKAndName_def rollout_kube_def)
  obtain s t where st: "fetchSourceAndTargetWorkload ?R ?h2 = Some (Inr (s, t), ?h2)" using fetch by blast
  have new: "NewRolloutPlanController (RolloutStatus (arStatus ?ar)) = RolloutStatus (arStatus ?ar)"
    by (rule NewRolloutPlanController_ok) (simp add: phase_def ar)
  have "\<exists>c. plan_Reconcile P \<lparr>world = x, rolloutStatus = RolloutStatus (arStatus ?ar), recorded = es\<rparr> = Some (0, c) \<and>
      RollingState (rolloutStatus c) = RolloutFailedState" for P :: "kube_world plan_controller" and x es
    by (cases "GetWorkloadController P") (simp_all add: plan_Reconcile_def reconcile_state_def ar failed_def)
  then obtain c where "plan_Reconcile (plan_controller_of ?R ?ar s t)
      \<lparr>world = hWorld ?h2, rolloutStatus = RolloutStatus (arStatus ?ar), recorded = hRecorded ?h2\<rparr> = Some (0, c)"
      "RollingState (rolloutStatus c) = RolloutFailedState" by blast
  then obtain h' where "reconcile_plan ?R s t ?h2 = Some ((0, None), h')"
    using ch(3) by (simp add: reconcile_plan_def new Let_def)
  then have "reconcile_prepared ?R ?h2 = Some ((0, None), h')"
    using st ch(3) by (simp add: reconcile_prepared_def rollout_both_def ar)
  moreover have "reset_if_fresh ?ar = ?ar" "\<not> handleRollingTerminated ?ar"
    by (simp_all add: reset_if_fresh_def handleRollingTerminated_def ar)
  ultimately have rec: "DoReconcile ?R ?ar [] empty_world = Some ((0, None), h')"
    using prep by (simp add: DoReconcile_prepared)
  have "terminal (arState ?ar)" "phase_ok (arphase ?ar)" by (simp_all add: ar arphase_def phase_def)
  from added_source_is_swallowed [OF rec this] rec show ?thesis by (simp add: ar)
qed

end
