(* ===== verification/Application.thy ===== *)
theory Application
  imports App_Rollout
begin

text \<open>
  Applications and what their controller keeps: the types of apis/core.oam.dev/v1beta1/
  application_types.go and apis/core.oam.dev/common/types.go that the controller reads and writes, the
  appfile that an application is parsed into, and the client of the controller.

  Specifications of definitions, and the contents of an application's components, are only hashed,
  compared and rendered; they stand for themselves as texts.
\<close>

section \<open>Applications\<close>

datatype app_phase =
  NoPhase | ApplicationRollingOut | ApplicationRendering | ApplicationRunningWorkflow
| ApplicationRunning | ApplicationHealthChecking

datatype step_phase =
  WorkflowStepPhaseSucceeded | WorkflowStepPhaseFailed | WorkflowStepPhaseStopped | WorkflowStepPhaseRunning

record latest_revision =
  latestName :: string
  latestNumber :: int
  latestHash :: string

record workflow_step =
  wsName :: string
  wsType :: string

record step_status =
  ssName :: string
  ssType :: string
  ssPhase :: step_phase
  ssAPIVersion :: string
  ssKind :: string
  ssRefName :: string
  ssUID :: string

record app_condition =
  acdType :: string
  acdStatus :: bool
  acdReason :: string
  acdMessage :: string
  acdTime :: int

record trait_status =
  tsType :: string
  tsHealthy :: bool
  tsMessage :: string

record component_status =
  svName :: string
  svDefinition :: "string \<times> string"
  svHealthy :: bool
  svMessage :: string
  svTraits :: "trait_status list"
  svScopes :: "object_reference list"

text \<open>
  The specification: the names of the components, the steps of the workflow when there is one, the
  rollout plan when there is one, and the rest as text.
\<close>

record app_spec =
  appComponents :: "string list"
  appWorkflow :: "workflow_step list option"
  appRolloutPlan :: "rollout_plan option"
  appRest :: string

record app_status =
  apConditions :: "app_condition list"
  apRollout :: app_rollout_status
  apPhase :: app_phase
  apServices :: "component_status list"
  apWorkflow :: "step_status list option"
  apLatestRevision :: "latest_revision option"

record application =
  appName :: string
  appNamespace :: string
  appUID :: string
  appLabels :: string_map
  appAnnotations :: string_map
  appFinalizers :: "string list"
  appDeleting :: bool
  appSpec :: app_spec
  appStatus :: app_status

section \<open>Revisions\<close>

text \<open>
  An ApplicationRevision with its snapshots: the application's specification and the specifications of
  the definitions.  A Go map is an association list without duplicate keys, in the order in which
  a range over it happens to go.
\<close>

type_synonym spec_map = "(string \<times> string) list"

record revision_object =
  roRevision :: app_revision
  roAppSpec :: app_spec
  roWorkloadDefinitions :: spec_map
  roComponentDefinitions :: spec_map
  roTraitDefinitions :: spec_map
  roScopeDefinitions :: spec_map
  roResourcesConfigMap :: string
  roResourceVersion :: string

record controller_revision =
  crName :: string
  crNamespace :: string
  crOwnerReferences :: "owner_ref list"
  crLabels :: string_map
  crRevision :: int
  crData :: raw_extension

record config_map =
  cfName :: string
  cfNamespace :: string
  cfOwner :: string
  cfResources :: string

text \<open>What is hashed of a revision: four maps and the hash of the application's specification.\<close>

record revision_hashes =
  ApplicationSpecHash :: string
  WorkloadDefinitionHash :: "string \<rightharpoonup> string"
  ComponentDefinitionHash :: "string \<rightharpoonup> string"
  TraitDefinitionHash :: "string \<rightharpoonup> string"
  ScopeDefinitionHash :: "string \<rightharpoonup> string"

section \<open>The appfile\<close>

text \<open>
  pkg/appfile parses an application into workloads with traits and renders them with CUE; both are
  parameters here, and so are the three evaluations of a workload or trait (context, health, status).
\<close>

record trait_snapshot =
  tdName :: string
  tdSpec :: string
  tdDefinition :: trait_definition

record 'w evaluations =
  evContext :: "'w \<Rightarrow> string option \<times> 'w"
  evHealth :: "'w \<Rightarrow> (string + bool) \<times> 'w"
  evStatus :: "'w \<Rightarrow> (string + string) \<times> 'w"

record 'w app_trait =
  atName :: string
  atTraitDefinition :: "trait_snapshot option"
  atEvaluations :: "'w evaluations"

record 'w app_workload =
  awName :: string
  awReference :: "string \<times> string"
  awComponentDefinition :: "(string \<times> string) option"
  awWorkloadDefinition :: "(string \<times> string) option"
  awTraits :: "'w app_trait option list"
  awScopes :: "object_reference list"
  awConfigNotReady :: bool
  awIsSecretProducer :: bool
  awOutputSecretNames :: "string + string"
  awTerraform :: bool
  awEvaluations :: "'w evaluations"

record 'w appfile =
  afName :: string
  afNamespace :: string
  afRevisionName :: string
  afWorkloads :: "'w app_workload option list"

section \<open>The client\<close>

text \<open>
  The API client for the kinds of this controller; List takes a namespace, or \<open>None\<close> for all, and
  the labels to match.  Of crossplane the condition of ReconcileError and two reasons.
  hashstructure.Hash, Semantic.DeepEqual, json.Marshal of a workflow context and
  Unmarshal of a message, and sort.Sort: given the keys that Less compares, the order of the indexes
  in which it leaves the elements.
\<close>

record object_condition =
  ocType :: string
  ocStatus :: string
  ocReason :: string
  ocMessage :: string

record workflow_context =
  wcAppName :: string
  wcAppRevision :: string
  wcWorkflowIndex :: int
  wcResourceConfigMap :: string

record 'w app_client =
  apReconciler :: "'w reconciler"
  apEncoders :: encoders
  apNow :: "'w \<Rightarrow> int"
  apVelaVersion :: string
  apReconcileError :: "string \<Rightarrow> int \<Rightarrow> app_condition"
  apReasonReconcileError :: string
  apReasonAvailable :: string
  apSetConditions :: "app_condition \<Rightarrow> app_condition list \<Rightarrow> app_condition list"
  apGetApp :: "nsname \<Rightarrow> 'w \<Rightarrow> (api_error + application) \<times> 'w"
  apUpdateApp :: "application \<Rightarrow> 'w \<Rightarrow> (api_error option \<times> application) \<times> 'w"
  apPatchStatus :: "application \<Rightarrow> 'w \<Rightarrow> (api_error option \<times> application) \<times> 'w"
  apGetRevision :: "nsname \<Rightarrow> 'w \<Rightarrow> (api_error + revision_object) \<times> 'w"
  apCreateRevision :: "revision_object \<Rightarrow> 'w \<Rightarrow> (api_error option \<times> revision_object) \<times> 'w"
  apUpdateRevision :: "revision_object \<Rightarrow> 'w \<Rightarrow> (api_error option \<times> revision_object) \<times> 'w"
  apDeleteRevision :: "revision_object \<Rightarrow> 'w \<Rightarrow> api_error option \<times> 'w"
  apListRevisions :: "string option \<Rightarrow> (string \<times> string) list \<Rightarrow> 'w \<Rightarrow> (api_error + revision_object list) \<times> 'w"
  apListHistory :: "string option \<Rightarrow> (string \<times> string) list \<Rightarrow> 'w \<Rightarrow> (api_error + controller_revision list) \<times> 'w"
  apCreateHistory :: "controller_revision \<Rightarrow> 'w \<Rightarrow> api_error option \<times> 'w"
  apDeleteHistory :: "controller_revision \<Rightarrow> 'w \<Rightarrow> api_error option \<times> 'w"
  apListTrackers :: "string option \<Rightarrow> (string \<times> string) list \<Rightarrow> 'w \<Rightarrow> (api_error + resource_tracker list) \<times> 'w"
  apListDeployments :: "string option \<Rightarrow> 'w \<Rightarrow> (api_error + string list list) \<times> 'w"
  apGetConfigMap :: "nsname \<Rightarrow> 'w \<Rightarrow> api_error option \<times> 'w"
  apCreateConfigMap :: "config_map \<Rightarrow> 'w \<Rightarrow> api_error option \<times> 'w"
  apGetConfiguration :: "nsname \<Rightarrow> 'w \<Rightarrow> (api_error + bool \<times> string) \<times> 'w"
  apHashAppSpec :: "app_spec \<Rightarrow> string + nat"
  apHashSpec :: "string \<Rightarrow> string + nat"
  apHashObject :: "unstructured \<Rightarrow> string + nat"
  apHashComponent :: "string \<times> string list \<Rightarrow> string + nat"
  apHashRevision :: "revision_hashes \<Rightarrow> string + nat"
  apZeroSpec :: string
  apEqualSpec :: "string \<Rightarrow> string \<Rightarrow> bool"
  apEqualAppSpec :: "app_spec \<Rightarrow> app_spec \<Rightarrow> bool"
  apSort :: "int list \<Rightarrow> nat list"
  apOrder :: "string list \<Rightarrow> string list"
  apRevisionLimit :: int
  apMarshalContext :: "workflow_context \<Rightarrow> string + string"
  apConditionsOf :: "unstructured \<Rightarrow> string + (string + object_condition) list option"
  apGeneration :: "unstructured \<Rightarrow> int"
  apObservedGeneration :: "string \<Rightarrow> string + int"
  apGenerateAppFile :: "application \<Rightarrow> 'w \<Rightarrow> (string + 'w appfile) \<times> 'w"
  apGenerateManifests :: "'w appfile \<Rightarrow> 'w \<Rightarrow> (string + component_manifest list) \<times> 'w"
  apGenerateWorkflow :: "'w appfile \<Rightarrow> 'w \<Rightarrow> (string + unstructured list \<times> unstructured list) \<times> 'w"

abbreviation apKube :: "'w app_client \<Rightarrow> 'w kube" where
  "apKube C \<equiv> rcKube (apReconciler C)"

abbreviation apDecoders :: "'w app_client \<Rightarrow> decoders" where
  "apDecoders C \<equiv> asDecoders (rcAssembler (apReconciler C))"

text \<open>utils.ComputeSpecHash: the hash in hexadecimal digits.\<close>

definition spec_hash :: "string + nat \<Rightarrow> string + string" where
  "spec_hash r = (case r of Inl err \<Rightarrow> Inl err | Inr h \<Rightarrow> Inr (strconv_FormatHex h))"

text \<open>sort.Sort gives a permutation in which the keys do not decrease.\<close>

definition sort_doc :: "(int list \<Rightarrow> nat list) \<Rightarrow> bool" where
  "sort_doc f \<longleftrightarrow> (\<forall>ks. mset (f ks) = mset [0..<length ks] \<and> sorted (map ((!) ks) (f ks)))"

definition sort_by :: "(int list \<Rightarrow> nat list) \<Rightarrow> ('a \<Rightarrow> int) \<Rightarrow> 'a list \<Rightarrow> 'a list" where
  "sort_by f key xs = map ((!) xs) (f (map key xs))"

lemma sort_by_mset: "sort_doc f \<Longrightarrow> mset (sort_by f key xs) = mset xs"
proof -
  assume "sort_doc f"
  then have "mset (f (map key xs)) = mset [0..<length xs]" by (auto simp: sort_doc_def)
  then have "mset (sort_by f key xs) = mset (map ((!) xs) [0..<length xs])"
    unfolding sort_by_def by (metis mset_map)
  then show ?thesis by (simp add: map_nth)
qed

lemma sort_by_sorted: "sort_doc f \<Longrightarrow> sorted (map key (sort_by f key xs))"
proof -
  assume doc: "sort_doc f"
  then have "mset (f (map key xs)) = mset [0..<length (map key xs)]" unfolding sort_doc_def by blast
  then have "set (f (map key xs)) = {..<length xs}"
    by (metis atLeast0LessThan atLeastLessThan_upt length_map mset_eq_setD)
  then have "map key (sort_by f key xs) = map ((!) (map key xs)) (f (map key xs))"
    by (auto simp: sort_by_def)
  with doc show ?thesis by (simp add: sort_doc_def)
qed

lemma sort_key_doc: "sort_doc (\<lambda>ks. sort_key ((!) ks) [0..<length ks])"
  by (simp add: sort_doc_def)

section \<open>The handler\<close>

record app_handler =
  ahApp :: application
  ahCurrentAppRev :: "revision_object option"
  ahLatestAppRev :: "revision_object option"
  ahIsNewRevision :: bool
  ahCurrentRevHash :: string

definition LabelControllerRevisionComponent :: string where
  "LabelControllerRevisionComponent = ''controller.oam.dev/component''"
definition AnnotationAppRevisionOnly :: string where
  "AnnotationAppRevisionOnly = ''app.oam.dev/revision-only''"
definition AnnotationWorkflowContext :: string where
  "AnnotationWorkflowContext = ''app.oam.dev/workflow-context''"

definition ApplicationKind :: string where "ApplicationKind = ''Application''"

definition app_owner_ref :: "application \<Rightarrow> owner_ref" where
  "app_owner_ref app =
     \<lparr>orAPIVersion = SchemeGroupVersion, orKind = ApplicationKind, orName = appName app, orUID = appUID app,
      orController = Some True, orBlockOwnerDeletion = None\<rparr>"

text \<open>Whether another controller releases the application.\<close>

definition appWillRollout :: "application \<Rightarrow> bool" where
  "appWillRollout app \<longleftrightarrow>
     length (map_get (appAnnotations app) AnnotationAppRollout) \<noteq> 0 \<or> appRolloutPlan (appSpec app) \<noteq> None"

end
