(* ===== verification/App_History.thy ===== *)
theory App_History
  imports Application
begin

text \<open>
  The history of an application, application/revision.go: when its specification makes a new
  revision, the revisions of its components, and the deletion of old revisions; with
  CheckAppDeploymentUsingAppRevision of controller/utils.  componentManifests2AppConfig is in
  App_Revision.

  \<open>None\<close> is a panic: of the JSON encoder, or of a nil pointer.
\<close>

section \<open>The current revision\<close>

text \<open>Snapshots are collected in maps: a later definition of the same name replaces an earlier one.\<close>

definition snapshot :: "(string \<times> string) option \<Rightarrow> spec_map \<Rightarrow> spec_map" where
  "snapshot d m = (case d of None \<Rightarrow> m | Some (name, spec) \<Rightarrow> AList.update name spec m)"

fun gather_traits :: "'w app_trait option list \<Rightarrow> revision_object \<Rightarrow> revision_object" where
  "gather_traits [] r = r"
| "gather_traits (None # ts) r = gather_traits ts r"
| "gather_traits (Some t # ts) r =
     gather_traits ts
       (case atTraitDefinition t of
          None \<Rightarrow> r
        | Some td \<Rightarrow>
            r\<lparr>roTraitDefinitions := AList.update (tdName td) (tdSpec td) (roTraitDefinitions r),
              roRevision := (roRevision r)\<lparr>revTraitDefinitions :=
                (revTraitDefinitions (roRevision r))(tdName td \<mapsto> tdDefinition td)\<rparr>\<rparr>)"

fun gather_workloads :: "'w app_workload option list \<Rightarrow> revision_object \<Rightarrow> revision_object" where
  "gather_workloads [] r = r"
| "gather_workloads (None # ws) r = gather_workloads ws r"
| "gather_workloads (Some w # ws) r =
     gather_workloads ws
       (gather_traits (awTraits w)
         (r\<lparr>roComponentDefinitions := snapshot (awComponentDefinition w) (roComponentDefinitions r),
            roWorkloadDefinitions := snapshot (awWorkloadDefinition w) (roWorkloadDefinitions r)\<rparr>))"

definition hash_map :: "(string \<Rightarrow> string + nat) \<Rightarrow> spec_map \<Rightarrow> string + (string \<rightharpoonup> string)" where
  "hash_map f m =
     bind_result (map_result (\<lambda>(key, spec). bind_result (spec_hash (f spec)) (\<lambda>h. Inr (key, h))) m)
       (\<lambda>hs. Inr (map_of hs))"

definition ComputeAppRevisionHash :: "'w app_client \<Rightarrow> revision_object \<Rightarrow> string + string" where
  "ComputeAppRevisionHash C r =
     bind_result (spec_hash (apHashAppSpec C (roAppSpec r))) (\<lambda>app.
     bind_result (hash_map (apHashSpec C) (roWorkloadDefinitions r)) (\<lambda>wds.
     bind_result (hash_map (apHashSpec C) (roComponentDefinitions r)) (\<lambda>cds.
     bind_result (hash_map (apHashSpec C) (roTraitDefinitions r)) (\<lambda>tds.
     bind_result (hash_map (apHashSpec C) (roScopeDefinitions r)) (\<lambda>sds.
       spec_hash (apHashRevision C
         \<lparr>ApplicationSpecHash = app, WorkloadDefinitionHash = wds, ComponentDefinitionHash = cds,
          TraitDefinitionHash = tds, ScopeDefinitionHash = sds\<rparr>))))))"

definition empty_revision :: "app_spec \<Rightarrow> revision_object" where
  "empty_revision spec =
     \<lparr>roRevision = zero_revision, roAppSpec = spec, roWorkloadDefinitions = [], roComponentDefinitions = [],
      roTraitDefinitions = [], roScopeDefinitions = [], roResourcesConfigMap = '''', roResourceVersion = ''''\<rparr>"

text \<open>The rollout plan is not part of a revision.\<close>

definition gatherRevisionSpec ::
  "'w app_client \<Rightarrow> application \<Rightarrow> 'w appfile \<Rightarrow> string + revision_object \<times> string" where
  "gatherRevisionSpec C app af =
     (let appRev = gather_workloads (afWorkloads af) (empty_revision ((appSpec app)\<lparr>appRolloutPlan := None\<rparr>))
      in case ComputeAppRevisionHash C appRev of
           Inl err \<Rightarrow> Inl (errors_Wrap err ''failed to compute app revision hash'')
         | Inr appRevisionHash \<Rightarrow> Inr (appRev, appRevisionHash))"

definition getLatestAppRevision ::
  "'w app_client \<Rightarrow> app_handler \<Rightarrow> 'w \<Rightarrow> (string option \<times> app_handler) \<times> 'w" where
  "getLatestAppRevision C h w =
     (case apLatestRevision (appStatus (ahApp h)) of
        None \<Rightarrow> ((None, h), w)
      | Some l \<Rightarrow>
          if length (latestName l) = 0 then ((None, h), w)
          else (case apGetRevision C (appNamespace (ahApp h), latestName l) w of
                  (Inl err, w) \<Rightarrow>
                    ((Some (errors_Wrap (errText err) (''fail to get latest app revision '' @ latestName l)), h), w)
                | (Inr r, w) \<Rightarrow> ((None, h\<lparr>ahLatestAppRev := Some r\<rparr>), w)))"

text \<open>An absent definition reads as the zero specification.\<close>

definition equal_specs :: "'w app_client \<Rightarrow> spec_map \<Rightarrow> spec_map \<Rightarrow> bool" where
  "equal_specs C old new \<longleftrightarrow>
     (\<forall>(key, spec) \<in> set new.
        apEqualSpec C (case map_of old key of None \<Rightarrow> apZeroSpec C | Some s \<Rightarrow> s) spec)"

definition DeepEqualRevision :: "'w app_client \<Rightarrow> revision_object \<Rightarrow> revision_object \<Rightarrow> bool" where
  "DeepEqualRevision C old new =
     (if length (roWorkloadDefinitions old) \<noteq> length (roWorkloadDefinitions new) then False
      else if length (roTraitDefinitions old) \<noteq> length (roTraitDefinitions new) then False
      else if length (roComponentDefinitions old) \<noteq> length (roComponentDefinitions new) then False
      else if length (roScopeDefinitions old) \<noteq> length (roScopeDefinitions new) then False
      else if \<not> equal_specs C (roWorkloadDefinitions old) (roWorkloadDefinitions new) then False
      else if \<not> equal_specs C (roComponentDefinitions old) (roComponentDefinitions new) then False
      else if \<not> equal_specs C (roTraitDefinitions old) (roTraitDefinitions new) then False
      else if \<not> equal_specs C (roScopeDefinitions old) (roScopeDefinitions new) then False
      else apEqualAppSpec C (roAppSpec old) (roAppSpec new))"

definition currentAppRevIsNew :: "'w app_client \<Rightarrow> app_handler \<Rightarrow> bool option" where
  "currentAppRevIsNew C h =
     (case apLatestRevision (appStatus (ahApp h)) of
        None \<Rightarrow> Some True
      | Some l \<Rightarrow>
          if latestHash l \<noteq> ahCurrentRevHash h then Some True
          else do {
            old \<leftarrow> ahLatestAppRev h;
            new \<leftarrow> ahCurrentAppRev h;
            Some (\<not> DeepEqualRevision C old new)
          })"

definition set_revision_name :: "string \<Rightarrow> revision_object \<Rightarrow> revision_object" where
  "set_revision_name n r = r\<lparr>roRevision := (roRevision r)\<lparr>revName := n\<rparr>\<rparr>"

definition prepareCurrentAppRevision ::
  "'w app_client \<Rightarrow> app_handler \<Rightarrow> 'w appfile \<Rightarrow> 'w \<Rightarrow>
     ((string option \<times> app_handler \<times> 'w appfile) \<times> 'w) option" where
  "prepareCurrentAppRevision C h af w =
     (case gatherRevisionSpec C (ahApp h) af of
        Inl err \<Rightarrow> Some ((Some err, h, af), w)
      | Inr (appRev, appRevisionHash) \<Rightarrow>
          (let h = h\<lparr>ahCurrentAppRev := Some appRev, ahCurrentRevHash := appRevisionHash\<rparr> in
           case getLatestAppRevision C h w of
             ((Some err, h), w) \<Rightarrow> Some ((Some err, h, af), w)
           | ((None, h), w) \<Rightarrow> do {
               isNew \<leftarrow> currentAppRevIsNew C h;
               let h = h\<lparr>ahIsNewRevision := isNew\<rparr>;
               current \<leftarrow> (if isNew
                 then map_option (set_revision_name (fst (GetAppNextRevision
                        (Some (appName (ahApp h), map_option latestNumber (apLatestRevision (appStatus (ahApp h)))))))) (ahCurrentAppRev h)
                 else ahLatestAppRev h);
               Some ((None, h\<lparr>ahCurrentAppRev := Some current\<rparr>,
                      af\<lparr>afRevisionName := revName (roRevision current)\<rparr>), w)
             }))"

section \<open>Component revisions\<close>

definition computeComponentRevisionHash :: "'w app_client \<Rightarrow> component_manifest \<Rightarrow> string + string" where
  "computeComponentRevisionHash C cm =
     bind_result (case cmStandardWorkload cm of
                    None \<Rightarrow> Inr ''''
                  | Some wl \<Rightarrow> spec_hash (apHashObject C (RemoveLabels wl [LabelAppRevision]))) (\<lambda>wl.
     bind_result (map_result (\<lambda>v. spec_hash (apHashObject C v)) (cmPackagedWorkloadResources cm)) (\<lambda>rs.
       spec_hash (apHashComponent C (wl, rs))))"

definition componentManifest2Component :: "encoders \<Rightarrow> component_manifest \<Rightarrow> component option" where
  "componentManifest2Component E cm = do {
     wl \<leftarrow> eObject E (map_option (\<lambda>wl. RemoveLabels wl [LabelAppRevision]) (cmStandardWorkload cm));
     helm \<leftarrow> (if length (cmPackagedWorkloadResources cm) > 0
              then map_option Some (helm_of E (cmPackagedWorkloadResources cm) ('''', ''''))
              else Some None);
     Some \<lparr>compName = cmName cm, compLabels = None, compWorkload = wl, compHelm = helm\<rparr>
   }"

text \<open>
  The loop over the recorded revisions of the component: an error, or the greatest number seen and
  the name of the revision that is identical, at which the loop stops.
\<close>

fun find_identical ::
  "'w app_client \<Rightarrow> component_manifest \<Rightarrow> controller_revision list \<Rightarrow> int \<Rightarrow>
     (string + int \<times> string option) option" where
  "find_identical C cm [] maxRevisionNum = Some (Inr (maxRevisionNum, None))"
| "find_identical C cm (existingCR # crs) maxRevisionNum =
     (let maxRevisionNum = (if crRevision existingCR > maxRevisionNum then crRevision existingCR else maxRevisionNum) in
      if map_get (crLabels existingCR) LabelComponentRevisionHash = cmRevisionHash cm then
        (case RawExtension2Component (apDecoders C) (crData existingCR) of
           Inl err \<Rightarrow> Some (Inl err)
         | Inr existingComp \<Rightarrow>
             (case componentManifest2Component (apEncoders C) cm of
                None \<Rightarrow> None
              | Some currentComp \<Rightarrow>
                  if existingComp = currentComp then Some (Inr (maxRevisionNum, Some (crName existingCR)))
                  else find_identical C cm crs maxRevisionNum))
      else find_identical C cm crs maxRevisionNum)"

definition controllerRevisionOf :: "'w app_client \<Rightarrow> application \<Rightarrow> component_manifest \<Rightarrow> controller_revision option" where
  "controllerRevisionOf C app cm = do {
     comp \<leftarrow> componentManifest2Component (apEncoders C) cm;
     raw \<leftarrow> eComponent (apEncoders C) comp;
     Some \<lparr>crName = cmRevisionName cm, crNamespace = appNamespace app,
           crOwnerReferences = [app_owner_ref app],
           crLabels = Some [LabelControllerRevisionComponent \<mapsto> cmName cm, LabelComponentRevisionHash \<mapsto> cmRevisionHash cm],
           crRevision = fst (ExtractRevision (cmRevisionName cm)), crData = raw\<rparr>
   }"

definition createControllerRevision ::
  "'w app_client \<Rightarrow> application \<Rightarrow> component_manifest \<Rightarrow> 'w \<Rightarrow> (api_error option \<times> 'w) option" where
  "createControllerRevision C app cm w = do {
     cr \<leftarrow> controllerRevisionOf C app cm;
     Some (apCreateHistory C cr w)
   }"

text \<open>One manifest; the error, and the manifest as it is then.\<close>

definition handleComponentRevision ::
  "'w app_client \<Rightarrow> application \<Rightarrow> component_manifest \<Rightarrow> 'w \<Rightarrow> ((string option \<times> component_manifest) \<times> 'w) option" where
  "handleComponentRevision C app cm w =
     (if cmInsertConfigNotReady cm then Some ((None, cm), w)
      else
        case computeComponentRevisionHash C cm of
          Inl err \<Rightarrow> Some ((Some err, cm), w)
        | Inr hash \<Rightarrow>
            (let cm = cm\<lparr>cmRevisionHash := hash\<rparr> in
             case apListHistory C (Some (appNamespace app)) [(LabelControllerRevisionComponent, cmName cm)] w of
               (Inl err, w) \<Rightarrow> Some ((Some (errText err), cm), w)
             | (Inr crs, w) \<Rightarrow> do {
                 r \<leftarrow> find_identical C cm crs 0;
                 (case r of
                    Inl err \<Rightarrow> Some ((Some err, cm), w)
                  | Inr (maxRevisionNum, Some name) \<Rightarrow> Some ((None, cm\<lparr>cmRevisionName := name\<rparr>), w)
                  | Inr (maxRevisionNum, None) \<Rightarrow> do {
                      let cm = cm\<lparr>cmRevisionName := ConstructRevisionName (cmName cm) (i64 (maxRevisionNum + 1))\<rparr>;
                      (err, w) \<leftarrow> createControllerRevision C app cm w;
                      Some ((map_option errText err, cm), w)
                    })
               }))"

fun handleComponentsRevision ::
  "'w app_client \<Rightarrow> application \<Rightarrow> component_manifest list \<Rightarrow> 'w \<Rightarrow>
     ((string option \<times> component_manifest list) \<times> 'w) option" where
  "handleComponentsRevision C app [] w = Some ((None, []), w)"
| "handleComponentsRevision C app (cm # cms) w =
     (case handleComponentRevision C app cm w of
        None \<Rightarrow> None
      | Some ((Some err, cm), w) \<Rightarrow> Some ((Some err, cm # cms), w)
      | Some ((None, cm), w) \<Rightarrow>
          (case handleComponentsRevision C app cms w of
             None \<Rightarrow> None
           | Some ((err, cms), w) \<Rightarrow> Some ((err, cm # cms), w)))"

section \<open>Recording the revision\<close>

definition finalized_revision ::
  "'w app_client \<Rightarrow> app_handler \<Rightarrow> component_manifest list \<Rightarrow> revision_object \<Rightarrow> revision_object option" where
  "finalized_revision C h comps appRev = do {
     (ac, cs) \<leftarrow> componentManifests2AppConfig (apEncoders C) comps;
     Some (appRev\<lparr>roResourcesConfigMap := revName (roRevision appRev),
       roRevision := (roRevision appRev)\<lparr>
         revNamespace := appNamespace (ahApp h),
         revAnnotations := appAnnotations (ahApp h),
         revLabels := MergeMapOverrideWithDst (appLabels (ahApp h))
           (Some [LabelAppName \<mapsto> appName (ahApp h), LabelAppRevisionHash \<mapsto> ahCurrentRevHash h]),
         revOwnerReferences := [app_owner_ref (ahApp h)],
         revApplicationConfiguration := ac,
         revComponents := cs\<rparr>\<rparr>)
   }"

definition finalizeAndApplyAppRevision ::
  "'w app_client \<Rightarrow> app_handler \<Rightarrow> component_manifest list \<Rightarrow> 'w \<Rightarrow>
     ((string option \<times> app_handler) \<times> 'w) option" where
  "finalizeAndApplyAppRevision C h comps w = do {
     current \<leftarrow> ahCurrentAppRev h;
     appRev \<leftarrow> finalized_revision C h comps current;
     let h = h\<lparr>ahCurrentAppRev := Some appRev\<rparr>;
     (case apGetRevision C (revNamespace (roRevision appRev), revName (roRevision appRev)) w of
        (Inl err, w) \<Rightarrow>
          if errNotFound err then
            (case apCreateRevision C appRev w of
               ((err, appRev), w) \<Rightarrow> Some ((map_option errText err, h\<lparr>ahCurrentAppRev := Some appRev\<rparr>), w))
          else Some ((Some (errText err), h), w)
      | (Inr gotAppRev, w) \<Rightarrow>
          (case apUpdateRevision C (appRev\<lparr>roResourceVersion := roResourceVersion gotAppRev\<rparr>) w of
             ((err, appRev), w) \<Rightarrow> Some ((map_option errText err, h\<lparr>ahCurrentAppRev := Some appRev\<rparr>), w)))
   }"

text \<open>A patch leaves in memory what the server answers, or what was sent.\<close>

definition updateAppLatestRevisionStatus ::
  "'w app_client \<Rightarrow> app_handler \<Rightarrow> 'w \<Rightarrow> ((string option \<times> app_handler) \<times> 'w) option" where
  "updateAppLatestRevisionStatus C h w =
     (if \<not> ahIsNewRevision h then Some ((None, h), w)
      else do {
        current \<leftarrow> ahCurrentAppRev h;
        let revName = revName (roRevision current);
        let revNum = fst (ExtractRevisionNum revName CHR ''-'');
        let app = (ahApp h)\<lparr>appStatus := (appStatus (ahApp h))\<lparr>apLatestRevision :=
          Some \<lparr>latestName = revName, latestNumber = revNum, latestHash = ahCurrentRevHash h\<rparr>\<rparr>\<rparr>;
        (case apPatchStatus C app w of
           ((err, app), w) \<Rightarrow> Some ((map_option errText err, h\<lparr>ahApp := app\<rparr>), w))
      })"

section \<open>Deleting old revisions\<close>

text \<open>utils.CheckAppDeploymentUsingAppRevision.\<close>

definition CheckAppDeploymentUsingAppRevision ::
  "'w app_client \<Rightarrow> string \<Rightarrow> string \<Rightarrow> 'w \<Rightarrow> (string + string list) \<times> 'w" where
  "CheckAppDeploymentUsingAppRevision C appNs name w =
     (case apListDeployments C (Some appNs) w of
        (Inl err, w) \<Rightarrow> (Inl (errText err), w)
      | (Inr ads, w) \<Rightarrow>
          if length ads = 0 then (Inr [], w)
          else (case apListRevisions C (Some appNs) [(LabelAppName, name)] w of
                  (Inl err, w) \<Rightarrow> (Inl (errText err), w)
                | (Inr relatedRevs, w) \<Rightarrow>
                    if length relatedRevs = 0 then (Inr [], w)
                    else let revs = filter (\<lambda>n. length n \<noteq> 0) (map (\<lambda>r. revName (roRevision r)) relatedRevs)
                         in (Inr (concat (map (filter (\<lambda>n. length n \<noteq> 0 \<and> n \<in> set revs)) ads)), w)))"

text \<open>Sets of names are lists without duplicates.\<close>

definition gatherUsingAppRevision ::
  "'w app_client \<Rightarrow> application \<Rightarrow> 'w \<Rightarrow> (string + string list) \<times> 'w" where
  "gatherUsingAppRevision C app w =
     (let ns = appNamespace app;
          latest = (case apLatestRevision (appStatus app) of
                      None \<Rightarrow> [] | Some l \<Rightarrow> if length (latestName l) \<noteq> 0 then [latestName l] else [])
      in case apListTrackers C None [(LabelAppName, appName app), (LabelAppNamespace, ns)] w of
           (Inl err, w) \<Rightarrow> (Inl (errText err), w)
         | (Inr rts, w) \<Rightarrow>
             (case CheckAppDeploymentUsingAppRevision C ns (appName app) w of
                (Inl err, w) \<Rightarrow> (Inl err, w)
              | (Inr deployed, w) \<Rightarrow>
                  (Inr (remdups (latest @ map (\<lambda>rt. ExtractAppRevisionName (rtName rt) ns) rts @ deployed)), w)))"

text \<open>The deletion loop of both kinds of history.\<close>

fun kill_oldest ::
  "('r \<Rightarrow> 'w \<Rightarrow> api_error option \<times> 'w) \<Rightarrow> ('r \<Rightarrow> bool) \<Rightarrow> int \<Rightarrow> 'r list \<Rightarrow> 'w \<Rightarrow> string option \<times> 'w" where
  "kill_oldest delete inUse needKill [] w = (None, w)"
| "kill_oldest delete inUse needKill (r # rs) w =
     (if needKill \<le> 0 then (None, w)
      else if inUse r then kill_oldest delete inUse needKill rs w
      else (case delete r w of
              (Some err, w) \<Rightarrow>
                if \<not> errNotFound err then (Some (errText err), w)
                else kill_oldest delete inUse (needKill - 1) rs w
            | (None, w) \<Rightarrow> kill_oldest delete inUse (needKill - 1) rs w))"

definition revision_number :: "string \<Rightarrow> int" where
  "revision_number n = fst (ExtractRevisionNum n CHR ''-'')"

definition cleanUpApplicationRevision :: "'w app_client \<Rightarrow> application \<Rightarrow> 'w \<Rightarrow> string option \<times> 'w" where
  "cleanUpApplicationRevision C app w =
     (case apListRevisions C (Some (appNamespace app)) [(LabelAppName, appName app)] w of
        (Inl err, w) \<Rightarrow> (Some (errText err), w)
      | (Inr items, w) \<Rightarrow>
          (case gatherUsingAppRevision C app w of
             (Inl err, w) \<Rightarrow> (Some err, w)
           | (Inr appRevisionInUse, w) \<Rightarrow>
               (let needKill = int (length items) - apRevisionLimit C - int (length appRevisionInUse) in
                if needKill \<le> 0 then (None, w)
                else kill_oldest (apDeleteRevision C) (\<lambda>r. revName (roRevision r) \<in> set appRevisionInUse) needKill
                       (sort_by (apSort C) (\<lambda>r. revision_number (revName (roRevision r))) items) w)))"

text \<open>The component revisions that the revisions in use refer to, as pairs.\<close>

fun components_in_use ::
  "'w app_client \<Rightarrow> string \<Rightarrow> string list \<Rightarrow> 'w \<Rightarrow> (string + (string \<times> string) list) \<times> 'w" where
  "components_in_use C ns [] w = (Inr [], w)"
| "components_in_use C ns (n # names) w =
     (case apGetRevision C (ns, n) w of
        (Inl err, w) \<Rightarrow> (Inl (errText err), w)
      | (Inr r, w) \<Rightarrow>
          (case AppConfig2ComponentManifests (apDecoders C) (revApplicationConfiguration (roRevision r))
                  (revComponents (roRevision r)) of
             Inl err \<Rightarrow> (Inl err, w)
           | Inr comps \<Rightarrow>
               (case components_in_use C ns names w of
                  (Inl err, w) \<Rightarrow> (Inl err, w)
                | (Inr used, w) \<Rightarrow>
                    (Inr (remdups (map (\<lambda>cm. (cmName cm, cmRevisionName cm)) comps @ used)), w))))"

fun clean_components ::
  "'w app_client \<Rightarrow> string \<Rightarrow> (string \<times> string) list \<Rightarrow> component_manifest list \<Rightarrow> 'w \<Rightarrow> string option \<times> 'w" where
  "clean_components C ns used [] w = (None, w)"
| "clean_components C ns used (curComp # comps) w =
     (case apListHistory C (Some ns) [(LabelControllerRevisionComponent, cmName curComp)] w of
        (Inl err, w) \<Rightarrow> (Some (errText err), w)
      | (Inr items, w) \<Rightarrow>
          (let inUse = map snd (filter (\<lambda>p. fst p = cmName curComp) used);
               needKill = int (length items) - apRevisionLimit C - int (length inUse)
           in if needKill < 1 then clean_components C ns used comps w
              else (case kill_oldest (apDeleteHistory C) (\<lambda>r. crName r \<in> set inUse) needKill
                           (sort_by (apSort C) (\<lambda>r. revision_number (crName r)) items) w of
                      (Some err, w) \<Rightarrow> (Some err, w)
                    | (None, w) \<Rightarrow> clean_components C ns used comps w)))"

definition cleanUpComponentRevision :: "'w app_client \<Rightarrow> app_handler \<Rightarrow> 'w \<Rightarrow> (string option \<times> 'w) option" where
  "cleanUpComponentRevision C h w =
     (let app = ahApp h in
      case gatherUsingAppRevision C app w of
        (Inl err, w) \<Rightarrow> Some (Some err, w)
      | (Inr appRevInUse, w) \<Rightarrow>
          (case components_in_use C (appNamespace app) (apOrder C appRevInUse) w of
             (Inl err, w) \<Rightarrow> Some (Some err, w)
           | (Inr used, w) \<Rightarrow> do {
               current \<leftarrow> ahCurrentAppRev h;
               Some (case AppConfig2ComponentManifests (apDecoders C) (revApplicationConfiguration (roRevision current))
                             (revComponents (roRevision current)) of
                       Inl err \<Rightarrow> (Some err, w)
                     | Inr comps \<Rightarrow> clean_components C (appNamespace app) used comps w)
             }))"

text \<open>garbageCollection of application/apply.go.\<close>

definition garbageCollection :: "'w app_client \<Rightarrow> app_handler \<Rightarrow> 'w \<Rightarrow> (string option \<times> 'w) option" where
  "garbageCollection C h w =
     (case cleanUpApplicationRevision C (ahApp h) w of
        (Some err, w) \<Rightarrow> Some (Some err, w)
      | (None, w) \<Rightarrow> cleanUpComponentRevision C h w)"

end
