(* ===== verification/Example_Client.thy ===== *)
theory Example_Client
  imports App_History App_Rollout_Safety
begin

text \<open>A client of the application controller, for the examples.\<close>

text \<open>
  A server with some revisions of an application and the history of its component; the names of the
  component revisions that are not deleted stand with the trackers.
\<close>

definition stripped_object :: unstructured where
  "stripped_object = (example_object ''v1'' ''Pod'' ''web'')\<lparr>uLabels := Some Map.empty\<rparr>"

definition labelled_manifest :: "string \<Rightarrow> component_manifest" where
  "labelled_manifest v = (plain_manifest ''web'')\<lparr>cmStandardWorkload :=
     Some ((example_object ''v1'' ''Pod'' ''web'')\<lparr>uLabels := Some [LabelAppRevision \<mapsto> v]\<rparr>)\<rparr>"

definition web_component :: component where
  "web_component = plain_component\<lparr>compLabels := None, compWorkload := ''stripped''\<rparr>"

definition history_encoders :: encoders where
  "history_encoders =
     plain_encoders\<lparr>eObject := \<lambda>u. if u = Some stripped_object then Some ''stripped'' else eObject plain_encoders u,
       eComponent := \<lambda>c. if c = web_component then Some ''web'' else eComponent plain_encoders c\<rparr>"

definition history_decoders :: decoders where
  "history_decoders =
     plain_decoders\<lparr>dUnmarshalComponent := \<lambda>r. if r = ''web'' then Inr web_component else dUnmarshalComponent plain_decoders r,
       dUnmarshalObject := \<lambda>r. if r = ''stripped'' then Inr stripped_object else dUnmarshalObject plain_decoders r\<rparr>"

definition history_client :: "revision_object list \<Rightarrow> controller_revision list \<Rightarrow> kube_world app_client" where
  "history_client revs crs =
     \<lparr>apReconciler = example_reconciler\<lparr>rcAssembler := rollout_assembler\<lparr>asDecoders := history_decoders\<rparr>\<rparr>,
      apEncoders = history_encoders, apNow = (\<lambda>w. 0),
      apVelaVersion = ''UNKNOWN'',
      apReconcileError = (\<lambda>err t. \<lparr>acdType = ''Synced'', acdStatus = False, acdReason = ''ReconcileError'',
        acdMessage = err, acdTime = t\<rparr>),
      apReasonReconcileError = ''ReconcileError'', apReasonAvailable = ''Available'',
      apSetConditions = (\<lambda>c cs. filter (\<lambda>d. acdType d \<noteq> acdType c) cs @ [c]),
      apGetApp = (\<lambda>n w. (Inl not_found, w)),
      apUpdateApp = (\<lambda>a w. ((None, a), w)), apPatchStatus = (\<lambda>a w. ((None, a), w)),
      apGetRevision = (\<lambda>n w. (case find (\<lambda>r. revName (roRevision r) = snd n) revs of
          None \<Rightarrow> Inl not_found | Some r \<Rightarrow> Inr r, w)),
      apCreateRevision = (\<lambda>r w. ((None, r), w)), apUpdateRevision = (\<lambda>r w. ((None, r), w)),
      apDeleteRevision = (\<lambda>r w. (None, w)),
      apListRevisions = (\<lambda>n l w. (Inr revs, w)),
      apListHistory = (\<lambda>n l w. (Inr (filter (\<lambda>r. kwTrackers w (crName r) \<noteq> None \<and>
          (\<forall>(k, v) \<in> set l. map_get (crLabels r) k = v)) crs), w)),
      apCreateHistory = (\<lambda>r w. (None, w)),
      apDeleteHistory = (\<lambda>r w. (None, w\<lparr>kwTrackers := (kwTrackers w)(crName r := None)\<rparr>)),
      apListTrackers = (\<lambda>n l w. (Inr [], w)), apListDeployments = (\<lambda>n w. (Inr [], w)),
      apGetConfigMap = (\<lambda>n w. (Some not_found, w)), apCreateConfigMap = (\<lambda>c w. (None, w)),
      apGetConfiguration = (\<lambda>n w. (Inr (True, ''''), w)),
      apHashAppSpec = (\<lambda>s. Inr (length (appRest s))), apHashSpec = (\<lambda>s. Inr (length s)),
      apHashObject = (\<lambda>u. Inr (length (uName u))), apHashComponent = (\<lambda>p. Inr (length (fst p))),
      apHashRevision = (\<lambda>r. Inr (length (ApplicationSpecHash r))),
      apZeroSpec = '''', apEqualSpec = (=), apEqualAppSpec = (=),
      apSort = (\<lambda>ks. sort_key ((!) ks) [0..<length ks]), apOrder = (\<lambda>xs. xs), apRevisionLimit = 1,
      apMarshalContext = (\<lambda>c. Inr (wcAppName c)), apConditionsOf = (\<lambda>u. Inr None),
      apGeneration = (\<lambda>u. 1), apObservedGeneration = (\<lambda>m. Inr 1),
      apGenerateAppFile = (\<lambda>a w. (Inl ''no appfile'', w)),
      apGenerateManifests = (\<lambda>f w. (Inr [], w)), apGenerateWorkflow = (\<lambda>f w. (Inr ([], []), w))\<rparr>"

lemma history_client_simps [simp]:
  "apReconciler (history_client revs crs) =
     example_reconciler\<lparr>rcAssembler := rollout_assembler\<lparr>asDecoders := history_decoders\<rparr>\<rparr>"
  "apEncoders (history_client revs crs) = history_encoders"
  "apRevisionLimit (history_client revs crs) = 1"
  "apDeleteRevision (history_client revs crs) = (\<lambda>r w. (None, w))"
  "apDeleteHistory (history_client revs crs) = (\<lambda>r w. (None, w\<lparr>kwTrackers := (kwTrackers w)(crName r := None)\<rparr>))"
  "apCreateHistory (history_client revs crs) = (\<lambda>r w. (None, w))"
  "apOrder (history_client revs crs) xs = xs"
  by (simp_all add: history_client_def)

definition history_app :: "string \<Rightarrow> application" where
  "history_app n =
     \<lparr>appName = ''app'', appNamespace = ''default'', appUID = ''uid'', appLabels = None, appAnnotations = None,
      appFinalizers = [], appDeleting = False,
      appSpec = \<lparr>appComponents = [''web''], appWorkflow = None, appRolloutPlan = None, appRest = ''spec''\<rparr>,
      appStatus = \<lparr>apConditions = [], apRollout = arStatus (example_rollout_of RollingInBatchesState BatchReadyState []),
        apPhase = NoPhase, apServices = [], apWorkflow = None,
        apLatestRevision = Some \<lparr>latestName = n, latestNumber = 4, latestHash = ''4''\<rparr>\<rparr>\<rparr>"

definition history_revision :: "string \<Rightarrow> revision_object" where
  "history_revision n =
     (empty_revision (appSpec (history_app n)))\<lparr>roRevision := labelled_revision\<lparr>revName := n\<rparr>\<rparr>"

end
