(* ===== verification/App_History_Properties.thy ===== *)
theory App_History_Properties
  imports Example_Client
begin

text \<open>
  What the history of an application guarantees: which revisions are deleted, when a specification
  makes a new revision, and how component revisions are reused.
\<close>

section \<open>The deletion loop\<close>

text \<open>
  The loop deletes, one after the other, the first revisions that are not in use.  The reference is
  a plain loop that stops at the first error.
\<close>

fun delete_all :: "('r \<Rightarrow> 'w \<Rightarrow> api_error option \<times> 'w) \<Rightarrow> 'r list \<Rightarrow> 'w \<Rightarrow> string option \<times> 'w" where
  "delete_all delete [] w = (None, w)"
| "delete_all delete (r # rs) w =
     (case delete r w of
        (Some err, w) \<Rightarrow> if errNotFound err then delete_all delete rs w else (Some (errText err), w)
      | (None, w) \<Rightarrow> delete_all delete rs w)"

definition victims :: "('r \<Rightarrow> bool) \<Rightarrow> int \<Rightarrow> 'r list \<Rightarrow> 'r list" where
  "victims inUse k rs = take (nat k) (filter (\<lambda>r. \<not> inUse r) rs)"

lemma victims_simps [simp]:
  "victims inUse k [] = []"
  "k \<le> 0 \<Longrightarrow> victims inUse k rs = []"
  "inUse r \<Longrightarrow> victims inUse k (r # rs) = victims inUse k rs"
  "\<not> inUse r \<Longrightarrow> 0 < k \<Longrightarrow> victims inUse k (r # rs) = r # victims inUse (k - 1) rs"
  by (auto simp: victims_def nat_diff_distrib take_Cons' )

lemma kill_oldest_delete_all:
  "kill_oldest delete inUse k rs w = delete_all delete (victims inUse k rs) w"
  by (induction rs arbitrary: k w) (auto split: prod.splits option.splits)

text \<open>The loop over a sorted list leaves no older revision that is not in use.\<close>

lemma victims_subset: "mset (victims inUse k rs) \<subseteq># mset rs"
proof -
  have "mset (victims inUse k rs) \<subseteq># mset (filter (\<lambda>r. \<not> inUse r) rs)"
    unfolding victims_def by (metis append_take_drop_id mset_append mset_subset_eq_add_left)
  also have "\<dots> \<subseteq># mset rs" by simp
  finally show ?thesis .
qed

lemma victims_unused: "r \<in> set (victims inUse k rs) \<Longrightarrow> \<not> inUse r"
  unfolding victims_def by (auto dest: in_set_takeD)

lemma length_victims: "length (victims inUse k rs) = min (nat k) (length (filter (\<lambda>r. \<not> inUse r) rs))"
  by (simp add: victims_def min.commute)

lemma victims_oldest:
  fixes key :: "'r \<Rightarrow> int"
  assumes sorted: "sorted (map key rs)" and v: "v \<in> set (victims inUse k rs)"
    and r: "r \<in># mset rs - mset (victims inUse k rs)" "\<not> inUse r"
  shows "key v \<le> key r"
proof -
  let ?us = "filter (\<lambda>r. \<not> inUse r) rs" and ?n = "nat k"
  have "mset rs = mset ?us + mset (filter inUse rs)" by (induction rs) auto
  then have "mset rs - mset (take ?n ?us) = mset (drop ?n ?us) + mset (filter inUse rs)"
    by (metis add_diff_cancel_left' append_take_drop_id group_cancel.add1 mset_append)
  with r have "r \<in> set (drop ?n ?us)" by (auto simp: victims_def)
  moreover have "sorted (map key (take ?n ?us @ drop ?n ?us))"
    using sorted by (simp add: sorted_filter)
  ultimately show ?thesis using v by (auto simp: victims_def sorted_append simp del: append_take_drop_id)
qed

section \<open>Cleaning up application revisions\<close>

lemma kept_revisions:
  fixes limit :: int and n :: nat and inUse :: "'r \<Rightarrow> bool"
  assumes "sorted (map key rs)" "mset rs = mset items"
  defines "vs \<equiv> victims inUse (int (length items) - limit - int n) rs"
  shows "mset vs \<subseteq># mset items" "\<forall>v\<in>set vs. \<not> inUse v"
    "\<forall>v\<in>set vs. \<forall>r \<in># mset items - mset vs. \<not> inUse r \<longrightarrow> key v \<le> (key r :: int)"
    "length vs = min (nat (int (length items) - limit - int n)) (length (filter (\<lambda>r. \<not> inUse r) items))"
    "min (int (length items)) (limit + int n) \<le> int (length items) - int (length vs)"
proof -
  have filter: "length (filter (\<lambda>r. \<not> inUse r) rs) = length (filter (\<lambda>r. \<not> inUse r) items)"
    by (metis assms(2) mset_filter size_mset)
  show "mset vs \<subseteq># mset items" using victims_subset [of inUse _ rs] by (simp add: vs_def assms(2))
  show "\<forall>v\<in>set vs. \<not> inUse v" unfolding vs_def by (intro ballI) (rule victims_unused)
  show "\<forall>v\<in>set vs. \<forall>r \<in># mset items - mset vs. \<not> inUse r \<longrightarrow> key v \<le> key r"
    using victims_oldest [OF assms(1)] by (simp add: vs_def assms(2) [symmetric])
  show "length vs = min (nat (int (length items) - limit - int n)) (length (filter (\<lambda>r. \<not> inUse r) items))"
    by (simp add: vs_def length_victims filter)
  then have "length vs \<le> nat (int (length items) - limit - int n)" by simp
  then show "min (int (length items)) (limit + int n) \<le> int (length items) - int (length vs)"
    by (cases "0 \<le> int (length items) - limit - int n") (auto simp: nat_le_eq_zle)
qed

text \<open>
  Cleaning up the revisions of an application deletes, in this order and until the first failure,
  revisions of the application that are not in use, none of which is newer than an unused revision that
  stays.  It deletes as many as exceed the limit and the number of names in use, if so many are
  unused, so that at least the limit and as many as are in use remain.
\<close>

theorem cleanUpApplicationRevision_oldest_first:
  assumes sort: "sort_doc (apSort C)"
    and list: "apListRevisions C (Some (appNamespace app)) [(LabelAppName, appName app)] w = (Inr items, w1)"
    and gather: "gatherUsingAppRevision C app w1 = (Inr used, w2)"
  shows "\<exists>vs. cleanUpApplicationRevision C app w = delete_all (apDeleteRevision C) vs w2 \<and>
           mset vs \<subseteq># mset items \<and>
           (\<forall>v\<in>set vs. revName (roRevision v) \<notin> set used) \<and>
           (\<forall>v\<in>set vs. \<forall>r \<in># mset items - mset vs. revName (roRevision r) \<notin> set used \<longrightarrow>
              revision_number (revName (roRevision v)) \<le> revision_number (revName (roRevision r))) \<and>
           length vs = min (nat (int (length items) - apRevisionLimit C - int (length used)))
             (length (filter (\<lambda>r. revName (roRevision r) \<notin> set used) items)) \<and>
           min (int (length items)) (apRevisionLimit C + int (length used)) \<le> int (length items) - int (length vs)"
proof -
  let ?key = "\<lambda>r. revision_number (revName (roRevision r))"
  let ?inUse = "\<lambda>r. revName (roRevision r) \<in> set used"
  let ?k = "int (length items) - apRevisionLimit C - int (length used)"
  let ?vs = "victims ?inUse ?k (sort_by (apSort C) ?key items)"
  have "cleanUpApplicationRevision C app w = delete_all (apDeleteRevision C) ?vs w2"
    by (simp add: cleanUpApplicationRevision_def list gather kill_oldest_delete_all)
  moreover note kept_revisions [OF sort_by_sorted [OF sort, of ?key items] sort_by_mset [OF sort, of ?key items],
      where limit = "apRevisionLimit C" and n = "length used" and inUse = ?inUse]
  ultimately show ?thesis by (intro exI [of _ ?vs] conjI)
qed

section \<open>When a specification makes a new revision\<close>

text \<open>The reference: two revisions hold the same specifications.\<close>

definition same_map :: "spec_map \<Rightarrow> spec_map \<Rightarrow> bool" where
  "same_map a b \<longleftrightarrow> map_of a = map_of b"

definition same_snapshots :: "revision_object \<Rightarrow> revision_object \<Rightarrow> bool" where
  "same_snapshots r s \<longleftrightarrow>
     roAppSpec r = roAppSpec s \<and>
     same_map (roWorkloadDefinitions r) (roWorkloadDefinitions s) \<and>
     same_map (roComponentDefinitions r) (roComponentDefinitions s) \<and>
     same_map (roTraitDefinitions r) (roTraitDefinitions s) \<and>
     same_map (roScopeDefinitions r) (roScopeDefinitions s)"

text \<open>Maps have each key once; no definition has the zero specification.\<close>

definition proper_map :: "string \<Rightarrow> spec_map \<Rightarrow> bool" where
  "proper_map zero m \<longleftrightarrow> distinct (map fst m) \<and> zero \<notin> snd ` set m"

definition proper_snapshots :: "string \<Rightarrow> revision_object \<Rightarrow> bool" where
  "proper_snapshots zero r \<longleftrightarrow>
     proper_map zero (roWorkloadDefinitions r) \<and> proper_map zero (roComponentDefinitions r) \<and>
     proper_map zero (roTraitDefinitions r) \<and> proper_map zero (roScopeDefinitions r)"

text \<open>Semantic.DeepEqual on texts is equality.\<close>

definition exact_equality :: "'w app_client \<Rightarrow> bool" where
  "exact_equality C \<longleftrightarrow> apEqualSpec C = (=) \<and> apEqualAppSpec C = (=)"

lemma proper_map_Nil [simp]: "proper_map z []"
  by (simp add: proper_map_def)

lemma same_map_set: "distinct (map fst a) \<Longrightarrow> distinct (map fst b) \<Longrightarrow> same_map a b \<longleftrightarrow> set a = set b"
  by (metis same_map_def map_of_eq_Some_iff map_of_inject_set)

lemma proper_map_card: "proper_map z m \<Longrightarrow> card (set m) = length m"
  by (metis distinct_card distinct_map proper_map_def)

lemma same_map_length: "proper_map z a \<Longrightarrow> proper_map z b \<Longrightarrow> same_map a b \<Longrightarrow> length a = length b"
  by (metis proper_map_card proper_map_def same_map_set)

lemma equal_specs_subset:
  assumes "exact_equality C" "proper_map (apZeroSpec C) old" "proper_map (apZeroSpec C) new"
  shows "equal_specs C old new \<longleftrightarrow> set new \<subseteq> set old"
proof -
  have "(case map_of old key of None \<Rightarrow> apZeroSpec C | Some s \<Rightarrow> s) = spec \<longleftrightarrow> (key, spec) \<in> set old"
    if "(key, spec) \<in> set new" for key spec
  proof -
    from that assms(3) have "spec \<noteq> apZeroSpec C" by (auto simp: proper_map_def image_iff)
    moreover have "map_of old key = Some spec \<longleftrightarrow> (key, spec) \<in> set old"
      using assms(2) by (simp add: proper_map_def)
    ultimately show ?thesis by (auto split: option.splits dest: map_of_SomeD simp: map_of_eq_None_iff image_iff)
  qed
  with assms(1) show ?thesis by (fastforce simp: equal_specs_def exact_equality_def)
qed

lemma equal_specs_same:
  assumes "exact_equality C" "proper_map (apZeroSpec C) old" "proper_map (apZeroSpec C) new"
  shows "length old = length new \<and> equal_specs C old new \<longleftrightarrow> same_map old new"
proof -
  have "same_map old new \<longleftrightarrow> set old = set new"
    using assms by (simp add: same_map_set proper_map_def)
  moreover have "card (set old) = length old" "card (set new) = length new" using assms proper_map_card by blast+
  ultimately show ?thesis
    unfolding equal_specs_subset [OF assms] by (metis List.finite_set card_subset_eq subset_refl)
qed

lemma DeepEqualRevision_iff:
  assumes exact: "exact_equality C"
    and proper: "proper_snapshots (apZeroSpec C) old" "proper_snapshots (apZeroSpec C) new"
  shows "DeepEqualRevision C old new \<longleftrightarrow> same_snapshots old new"
proof -
  note same = equal_specs_same [OF exact, symmetric]
  have "same_map (f old) (f new) \<longleftrightarrow> length (f old) = length (f new) \<and> equal_specs C (f old) (f new)"
    if "f \<in> {roWorkloadDefinitions, roComponentDefinitions, roTraitDefinitions, roScopeDefinitions}" for f
    using that proper by (intro same) (auto simp: proper_snapshots_def)
  with exact show ?thesis by (auto simp: DeepEqualRevision_def same_snapshots_def exact_equality_def)
qed

text \<open>The hash is one of the specifications: it does not depend on the order of a map.\<close>

lemma map_result_hashes:
  "map_result (\<lambda>(key, spec). bind_result (spec_hash (f spec)) (\<lambda>h. Inr (key, h))) m = Inr hs \<Longrightarrow>
     map_of hs = (\<lambda>k. map_option (\<lambda>s. projr (spec_hash (f s))) (map_of m k))"
  by (induction m arbitrary: hs) (auto simp: bind_result_Inr fun_eq_iff)

lemma hash_map_same:
  assumes "same_map a b" "hash_map f a = Inr x" "hash_map f b = Inr y"
  shows "x = y"
proof -
  have "x = (\<lambda>k. map_option (\<lambda>s. projr (spec_hash (f s))) (map_of m k))" if "hash_map f m = Inr x" for m x
    using that by (auto simp: hash_map_def bind_result_Inr dest!: map_result_hashes)
  from this [OF assms(2)] this [OF assms(3)] assms(1) show ?thesis by (simp add: same_map_def)
qed

lemma ComputeAppRevisionHash_same:
  assumes "same_snapshots r s" "ComputeAppRevisionHash C r = Inr x" "ComputeAppRevisionHash C s = Inr y"
  shows "x = y"
  using assms unfolding ComputeAppRevisionHash_def same_snapshots_def bind_result_Inr
  by (metis hash_map_same sum.inject(2))

text \<open>
  C18: The recorded hash is only a short cut: when it is the hash of the latest revision, the
  application gets a new revision exactly when its specification or that of a definition it uses
  differs from the latest revision.
\<close>

theorem currentAppRevIsNew_iff:
  assumes latest: "apLatestRevision (appStatus (ahApp h)) = Some l"
    and revs: "ahLatestAppRev h = Some old" "ahCurrentAppRev h = Some new"
    and recorded: "ComputeAppRevisionHash C old = Inr (latestHash l)"
    and current: "ComputeAppRevisionHash C new = Inr (ahCurrentRevHash h)"
    and exact: "exact_equality C"
    and proper: "proper_snapshots (apZeroSpec C) old" "proper_snapshots (apZeroSpec C) new"
  shows "currentAppRevIsNew C h = Some (\<not> same_snapshots old new)"
proof (cases "same_snapshots old new")
  case True
  then have "latestHash l = ahCurrentRevHash h" by (rule ComputeAppRevisionHash_same [OF _ recorded current])
  with True show ?thesis
    by (simp add: currentAppRevIsNew_def latest revs DeepEqualRevision_iff [OF exact proper])
next
  case False
  then show ?thesis
    by (simp add: currentAppRevIsNew_def latest revs DeepEqualRevision_iff [OF exact proper])
qed

text \<open>A prepared handler has the snapshots of the appfile, in maps without duplicate keys.\<close>

definition distinct_snapshots :: "revision_object \<Rightarrow> bool" where
  "distinct_snapshots r \<longleftrightarrow>
     distinct (map fst (roWorkloadDefinitions r)) \<and> distinct (map fst (roComponentDefinitions r)) \<and>
     distinct (map fst (roTraitDefinitions r)) \<and> distinct (map fst (roScopeDefinitions r))"

lemma snapshot_distinct: "distinct (map fst m) \<Longrightarrow> distinct (map fst (snapshot d m))"
  by (auto simp: snapshot_def distinct_update split: option.splits)

lemma gather_traits_snapshots:
  "distinct_snapshots r \<Longrightarrow> distinct_snapshots (gather_traits ts r)"
  "roAppSpec (gather_traits ts r) = roAppSpec r"
  by (induction ts r rule: gather_traits.induct)
     (auto simp: distinct_snapshots_def distinct_update split: option.splits)

lemma definitions_distinct:
  "distinct_snapshots r \<Longrightarrow>
     distinct_snapshots (r\<lparr>roComponentDefinitions := snapshot c (roComponentDefinitions r),
                         roWorkloadDefinitions := snapshot d (roWorkloadDefinitions r)\<rparr>)"
  by (simp add: distinct_snapshots_def snapshot_distinct)

lemma gather_workloads_snapshots:
  "distinct_snapshots r \<Longrightarrow> distinct_snapshots (gather_workloads ws r)"
  "roAppSpec (gather_workloads ws r) = roAppSpec r"
  by (induction ws r rule: gather_workloads.induct)
     (simp_all add: gather_traits_snapshots definitions_distinct)

lemma gatherRevisionSpec_Inr:
  assumes "gatherRevisionSpec C app af = Inr (r, hash)"
  shows "ComputeAppRevisionHash C r = Inr hash" "distinct_snapshots r"
    "roAppSpec r = (appSpec app)\<lparr>appRolloutPlan := None\<rparr>"
  using assms gather_workloads_snapshots [where ws = "afWorkloads af" and r = "empty_revision ((appSpec app)\<lparr>appRolloutPlan := None\<rparr>)"]
  by (auto simp: gatherRevisionSpec_def Let_def empty_revision_def distinct_snapshots_def split: sum.splits)

lemma equal_specs_of_same:
  assumes "exact_equality C" "same_map old new" "distinct (map fst new)"
  shows "equal_specs C old new"
proof -
  have "map_of old k = Some s" if "(k, s) \<in> set new" for k s
    using assms(2,3) that by (simp add: same_map_def)
  with assms(1) show ?thesis by (fastforce simp: equal_specs_def exact_equality_def)
qed

lemma same_length:
  assumes "same_map a b" "distinct (map fst a)" "distinct (map fst b)"
  shows "length a = length b"
proof -
  have "set a = set b" using assms by (simp add: same_map_set)
  with assms(2,3) show ?thesis by (metis distinct_card distinct_map)
qed

lemma DeepEqualRevision_of_same:
  assumes "exact_equality C" "same_snapshots old new" "distinct_snapshots old" "distinct_snapshots new"
  shows "DeepEqualRevision C old new"
proof -
  have "length (f old) = length (f new) \<and> equal_specs C (f old) (f new)"
    if "f \<in> {roWorkloadDefinitions, roComponentDefinitions, roTraitDefinitions, roScopeDefinitions}" for f
    using that assms(2-) same_length equal_specs_of_same [OF assms(1)]
    by (auto simp: same_snapshots_def distinct_snapshots_def)
  with assms show ?thesis by (auto simp: DeepEqualRevision_def same_snapshots_def exact_equality_def)
qed

definition new_app_handler :: "application \<Rightarrow> app_handler" where
  "new_app_handler app =
     \<lparr>ahApp = app, ahCurrentAppRev = None, ahLatestAppRev = None, ahIsNewRevision = False, ahCurrentRevHash = ''''\<rparr>"

text \<open>
  Once a revision was made for an application and recorded in its status, the same specification
  makes no further revision, whatever its rollout plan: the next reconcile takes the recorded
  revision as it is stored and passes its name to the appfile.
\<close>

theorem unchanged_application_keeps_revision:
  fixes C :: "'w app_client"
  assumes exact: "exact_equality C"
    and made: "gatherRevisionSpec C app af = Inr (r, hash)"
    and spec: "(appSpec app')\<lparr>appRolloutPlan := None\<rparr> = (appSpec app)\<lparr>appRolloutPlan := None\<rparr>"
    and parsed: "afWorkloads af' = afWorkloads af"
    and status: "apLatestRevision (appStatus app') = Some \<lparr>latestName = n, latestNumber = k, latestHash = hash\<rparr>" "n \<noteq> ''''"
    and stored: "apGetRevision C (appNamespace app', n) w = (Inr s, w')" "same_snapshots s r" "distinct_snapshots s"
  shows "prepareCurrentAppRevision C (new_app_handler app') af' w =
           Some ((None, \<lparr>ahApp = app', ahCurrentAppRev = Some s, ahLatestAppRev = Some s, ahIsNewRevision = False,
                         ahCurrentRevHash = hash\<rparr>, af'\<lparr>afRevisionName := revName (roRevision s)\<rparr>), w')"
proof -
  have "gatherRevisionSpec C app' af' = Inr (r, hash)"
    using made by (simp add: gatherRevisionSpec_def spec parsed)
  moreover have "DeepEqualRevision C s r"
    by (rule DeepEqualRevision_of_same [OF exact stored(2,3) gatherRevisionSpec_Inr(2) [OF made]])
  ultimately show ?thesis
    using status stored(1)
    by (simp add: prepareCurrentAppRevision_def new_app_handler_def getLatestAppRevision_def currentAppRevIsNew_def Let_def)
qed

section \<open>The history of a component\<close>

lemma ExtractRevision_Construct:
  "0 \<le> r \<Longrightarrow> r < 2 ^ 63 \<Longrightarrow> ExtractRevision (ConstructRevisionName n r) = (r, None)"
  using strconv_Atoi_itoa [of r] by (simp add: ExtractRevision_def revision_splits in_i64_def nth_append)

lemma ConstructRevisionName_inject:
  "0 \<le> r \<Longrightarrow> 0 \<le> s \<Longrightarrow> r < 2 ^ 63 \<Longrightarrow> s < 2 ^ 63 \<Longrightarrow> ConstructRevisionName n r = ConstructRevisionName n s \<Longrightarrow> r = s"
  by (metis ExtractRevision_Construct fst_conv)

text \<open>
  The loop over the recorded revisions: a revision it finds has the hash and the contents of the
  manifest; otherwise it has the greatest number.
\<close>

definition identical :: "'w app_client \<Rightarrow> component_manifest \<Rightarrow> controller_revision \<Rightarrow> bool" where
  "identical C cm cr \<longleftrightarrow>
     map_get (crLabels cr) LabelComponentRevisionHash = cmRevisionHash cm \<and>
     (\<exists>comp. componentManifest2Component (apEncoders C) cm = Some comp \<and>
        RawExtension2Component (apDecoders C) (crData cr) = Inr comp)"

lemma find_identical_found:
  "find_identical C cm crs m = Some (Inr (k, Some n)) \<Longrightarrow> \<exists>cr \<in> set crs. identical C cm cr \<and> n = crName cr"
  by (induction C cm crs m rule: find_identical.induct)
     (auto simp: Let_def identical_def split: if_splits sum.splits option.splits)

lemma find_identical_none:
  "find_identical C cm crs m = Some (Inr (k, None)) \<Longrightarrow>
     m \<le> k \<and> (k = m \<or> k \<in> crRevision ` set crs) \<and> (\<forall>cr \<in> set crs. crRevision cr \<le> k \<and> \<not> identical C cm cr)"
proof (induction crs arbitrary: m)
  case (Cons cr crs)
  let ?m = "if crRevision cr > m then crRevision cr else m"
  from Cons.prems have rest: "find_identical C cm crs ?m = Some (Inr (k, None))" and "\<not> identical C cm cr"
    by (auto simp: Let_def identical_def split: if_splits sum.splits option.splits)
  with Cons.IH [OF rest] show ?case by (auto split: if_splits)
qed simp

text \<open>
  The history of a component as the controller writes it: each name is made of the component and the
  number, and no number is used twice.
\<close>

definition history_ok :: "string \<Rightarrow> controller_revision list \<Rightarrow> bool" where
  "history_ok n crs \<longleftrightarrow>
     (\<forall>cr \<in> set crs. 1 \<le> crRevision cr \<and> crRevision cr < 2 ^ 63 - 1 \<and> crName cr = ConstructRevisionName n (crRevision cr)) \<and>
     distinct (map crRevision crs)"

lemma history_ok_names:
  assumes "history_ok n crs"
  shows "distinct (map crName crs)"
proof -
  have "map crName crs = map (ConstructRevisionName n) (map crRevision crs)"
    using assms by (simp add: history_ok_def)
  moreover have "inj_on (ConstructRevisionName n) (crRevision ` set crs)"
  proof (rule inj_onI)
    fix r s
    assume "r \<in> crRevision ` set crs" "s \<in> crRevision ` set crs"
      and eq: "ConstructRevisionName n r = ConstructRevisionName n s"
    with assms have "0 \<le> r" "0 \<le> s" "r < 2 ^ 63" "s < 2 ^ 63" by (auto simp: history_ok_def)
    from ConstructRevisionName_inject [OF this eq] show "r = s" .
  qed
  ultimately show ?thesis using assms by (simp only: history_ok_def distinct_map [of "ConstructRevisionName n"] set_map)
qed

lemma controllerRevisionOf_Some:
  assumes "controllerRevisionOf C app cm = Some cr"
  obtains comp where "componentManifest2Component (apEncoders C) cm = Some comp" "eComponent (apEncoders C) comp = Some (crData cr)"
    "crName cr = cmRevisionName cm" "crRevision cr = fst (ExtractRevision (cmRevisionName cm))"
    "map_get (crLabels cr) LabelComponentRevisionHash = cmRevisionHash cm"
    "map_get (crLabels cr) LabelControllerRevisionComponent = cmName cm"
  using assms
  by (auto simp: controllerRevisionOf_def bind_eq_Some_conv map_get_def LabelControllerRevisionComponent_def
      LabelComponentRevisionHash_def)

lemma identical_created:
  assumes "codec_doc (apEncoders C) (apDecoders C)" "controllerRevisionOf C app cm = Some cr"
  shows "identical C cm cr"
  using assms by (auto elim!: controllerRevisionOf_Some simp: identical_def dest: codec_docD(2))

lemma identical_hash_name [simp]:
  "componentManifest2Component E (cm\<lparr>cmRevisionHash := h, cmRevisionName := n\<rparr>) = componentManifest2Component E cm"
  "componentManifest2Component E (cm\<lparr>cmRevisionName := n\<rparr>) = componentManifest2Component E cm"
  "componentManifest2Component E (cm\<lparr>cmRevisionHash := h\<rparr>) = componentManifest2Component E cm"
  by (simp_all add: componentManifest2Component_def)

text \<open>
  C19: Handling a component whose history is well formed either takes the name of a recorded
  revision with the same hash and contents and records nothing; or tries to record one revision with
  the contents of the manifest under a number greater than all before, and the history with it is
  well formed again; or fails on a revision that cannot be decoded.
\<close>

theorem component_history_invariant:
  fixes C :: "'w app_client"
  assumes doc: "codec_doc (apEncoders C) (apDecoders C)"
    and ready: "\<not> cmInsertConfigNotReady cm" "computeComponentRevisionHash C cm = Inr hash"
    and list: "apListHistory C (Some (appNamespace app)) [(LabelControllerRevisionComponent, cmName cm)] w = (Inr crs, w1)"
    and ok: "history_ok (cmName cm) crs" "\<forall>cr \<in> set crs. crRevision cr < 2 ^ 63 - 2"
    and run: "handleComponentRevision C app cm w = Some ((e, cm'), w2)"
  shows "(\<exists>cr \<in> set crs. e = None \<and> w2 = w1 \<and> identical C cm' cr \<and>
            cm' = cm\<lparr>cmRevisionHash := hash, cmRevisionName := crName cr\<rparr>) \<or>
         (\<exists>cr. e = map_option errText (fst (apCreateHistory C cr w1)) \<and> w2 = snd (apCreateHistory C cr w1) \<and>
            identical C cm' cr \<and> cm' = cm\<lparr>cmRevisionHash := hash, cmRevisionName := crName cr\<rparr> \<and>
            (\<forall>x \<in> set crs. \<not> identical C cm' x \<and> crRevision x < crRevision cr) \<and> history_ok (cmName cm) (crs @ [cr])) \<or>
         (e \<noteq> None \<and> w2 = w1 \<and> cm' = cm\<lparr>cmRevisionHash := hash\<rparr>)"
proof -
  let ?cm = "cm\<lparr>cmRevisionHash := hash\<rparr>"
  have name: "identical C (x\<lparr>cmRevisionName := n\<rparr>) = identical C x" for x n by (simp add: identical_def fun_eq_iff)
  from run ready list obtain r where r: "find_identical C ?cm crs 0 = Some r"
    by (auto simp: handleComponentRevision_def Let_def bind_eq_Some_conv)
  consider err where "r = Inl err" | k n where "r = Inr (k, Some n)" | k where "r = Inr (k, None)"
    by (metis sum.exhaust surj_pair option.exhaust)
  then show ?thesis
  proof cases
    case 1
    with run ready list r show ?thesis by (auto simp: handleComponentRevision_def Let_def)
  next
    case 2
    with run ready list r have "e = None" "w2 = w1" "cm' = ?cm\<lparr>cmRevisionName := n\<rparr>"
      by (auto simp: handleComponentRevision_def Let_def)
    moreover from r 2 obtain cr where "cr \<in> set crs" "identical C ?cm cr" "n = crName cr"
      by (auto dest: find_identical_found)
    ultimately show ?thesis by (auto simp: name)
  next
    case 3
    let ?new = "?cm\<lparr>cmRevisionName := ConstructRevisionName (cmName cm) (k + 1)\<rparr>"
    from find_identical_none [OF r [unfolded 3]] ok have k: "0 \<le> k" "k < 2 ^ 63 - 2"
      "\<forall>x \<in> set crs. crRevision x \<le> k \<and> \<not> identical C ?cm x" by auto
    then have i64: "i64 (k + 1) = k + 1" by (simp add: i64_id in_i64_def)
    from run ready list r 3 i64 obtain cr where cr: "controllerRevisionOf C app ?new = Some cr"
      and out: "e = map_option errText (fst (apCreateHistory C cr w1))" "w2 = snd (apCreateHistory C cr w1)" "cm' = ?new"
      by (auto simp: handleComponentRevision_def createControllerRevision_def Let_def bind_eq_Some_conv case_prod_unfold)
    from cr k have number: "crName cr = ConstructRevisionName (cmName cm) (k + 1)" "crRevision cr = k + 1"
      by (auto elim!: controllerRevisionOf_Some simp: ExtractRevision_Construct)
    with k ok have "history_ok (cmName cm) (crs @ [cr])" by (force simp: history_ok_def)
    with out number k identical_created [OF doc cr] show ?thesis by (auto simp: name)
  qed
qed

text \<open>Manifests with the same contents: the label with the application revision does not count.\<close>

definition same_content :: "component_manifest \<Rightarrow> component_manifest \<Rightarrow> bool" where
  "same_content cm cm' \<longleftrightarrow>
     cmName cm = cmName cm' \<and> cmPackagedWorkloadResources cm = cmPackagedWorkloadResources cm' \<and>
     map_option (\<lambda>u. RemoveLabels u [LabelAppRevision]) (cmStandardWorkload cm) =
     map_option (\<lambda>u. RemoveLabels u [LabelAppRevision]) (cmStandardWorkload cm')"

lemma same_content_component:
  "same_content cm cm' \<Longrightarrow> componentManifest2Component E cm = componentManifest2Component E cm'"
  by (simp add: same_content_def componentManifest2Component_def)

lemma same_content_hash:
  "same_content cm cm' \<Longrightarrow> computeComponentRevisionHash C cm = computeComponentRevisionHash C cm'"
  unfolding same_content_def computeComponentRevisionHash_def
  by (cases "cmStandardWorkload cm"; cases "cmStandardWorkload cm'") simp_all

lemma find_identical_returns:
  assumes "\<forall>x \<in> set crs. \<exists>c. RawExtension2Component (apDecoders C) (crData x) = Inr c"
    and "componentManifest2Component (apEncoders C) cm = Some cmp"
  shows "\<exists>k r. find_identical C cm crs m = Some (Inr (k, r))"
  using assms by (induction C cm crs m rule: find_identical.induct) (auto simp: Let_def)

text \<open>
  A component that was recorded is not recorded again: when its history has a revision made of
  the same contents, a later reconcile, of any application revision, creates nothing and gives
  the component the name of a revision with exactly its contents.
\<close>

theorem component_revision_reused:
  fixes C :: "'w app_client"
  assumes doc: "codec_doc (apEncoders C) (apDecoders C)"
    and recorded: "computeComponentRevisionHash C cm = Inr hash"
      "controllerRevisionOf C app (cm\<lparr>cmRevisionHash := hash, cmRevisionName := n\<rparr>) = Some cr"
    and same: "same_content cm cm'" "\<not> cmInsertConfigNotReady cm'"
    and list: "apListHistory C (Some (appNamespace app')) [(LabelControllerRevisionComponent, cmName cm')] w = (Inr crs, w')"
    and crs: "cr \<in> set crs" "\<forall>x \<in> set crs. \<exists>c. RawExtension2Component (apDecoders C) (crData x) = Inr c"
  shows "\<exists>x \<in> set crs. RawExtension2Component (apDecoders C) (crData x) = RawExtension2Component (apDecoders C) (crData cr) \<and>
           handleComponentRevision C app' cm' w =
             Some ((None, cm'\<lparr>cmRevisionHash := hash, cmRevisionName := crName x\<rparr>), w')"
proof -
  let ?cm = "cm'\<lparr>cmRevisionHash := hash\<rparr>"
  have hash: "computeComponentRevisionHash C cm' = Inr hash"
    using same_content_hash [OF same(1)] recorded(1) by metis
  have "identical C (cm\<lparr>cmRevisionHash := hash, cmRevisionName := n\<rparr>) cr"
    by (rule identical_created [OF doc recorded(2)])
  then obtain cmp where cmp: "componentManifest2Component (apEncoders C) cm' = Some cmp"
    "RawExtension2Component (apDecoders C) (crData cr) = Inr cmp" and same: "identical C ?cm cr"
    using same_content_component [OF same(1), of "apEncoders C"] by (auto simp: identical_def)
  from find_identical_returns [OF crs(2), of "?cm" cmp 0] cmp obtain k r where
    find: "find_identical C ?cm crs 0 = Some (Inr (k, r))" by auto
  with same crs(1) obtain name where r: "r = Some name" by (cases r) (auto dest: find_identical_none)
  from find_identical_found [OF find [unfolded r]] obtain x where
    x: "x \<in> set crs" "identical C ?cm x" "name = crName x" by blast
  with cmp have "RawExtension2Component (apDecoders C) (crData x) = Inr cmp" by (auto simp: identical_def)
  moreover have "handleComponentRevision C app' cm' w = Some ((None, ?cm\<lparr>cmRevisionName := name\<rparr>), w')"
    using assms(5) hash list find r by (simp add: handleComponentRevision_def Let_def)
  ultimately show ?thesis using x cmp by auto
qed

section \<open>Cleaning up component revisions\<close>

lemma delete_all_keeps:
  assumes "\<And>r w. r \<in> set rs \<Longrightarrow> P w \<Longrightarrow> P (snd (delete r w))"
  shows "P w \<Longrightarrow> P (snd (delete_all delete rs w))"
  using assms
proof (induction rs arbitrary: w)
  case (Cons r rs)
  from Cons.prems have "P (snd (delete r w))" by simp
  with Cons.IH Cons.prems(2) show ?case by (auto split: prod.splits option.splits)
qed simp

text \<open>Reading does not change the world.\<close>

definition reads_only :: "'w app_client \<Rightarrow> bool" where
  "reads_only C \<longleftrightarrow>
     (\<forall>n w. snd (apGetRevision C n w) = w) \<and> (\<forall>n l w. snd (apListRevisions C n l w) = w) \<and>
     (\<forall>n l w. snd (apListHistory C n l w) = w) \<and> (\<forall>n l w. snd (apListTrackers C n l w) = w) \<and>
     (\<forall>n w. snd (apListDeployments C n w) = w)"

lemma apGetRevision_world: "reads_only C \<Longrightarrow> apGetRevision C n w = (a, b) \<Longrightarrow> b = w"
  by (metis reads_only_def snd_conv)

lemma components_in_use_world: "reads_only C \<Longrightarrow> components_in_use C ns names w = (a, b) \<Longrightarrow> b = w"
  by (induction names arbitrary: a b) (auto split: prod.splits sum.splits dest!: apGetRevision_world)

lemma components_in_use_has:
  assumes reads: "reads_only C" and n: "n \<in> set names"
    and get: "apGetRevision C (ns, n) w = (Inr r, w)"
    and comps: "AppConfig2ComponentManifests (apDecoders C) (revApplicationConfiguration (roRevision r)) (revComponents (roRevision r)) = Inr cms"
    and cm: "cm \<in> set cms"
  shows "components_in_use C ns names w = (Inr used, w') \<Longrightarrow> w' = w \<and> (cmName cm, cmRevisionName cm) \<in> set used"
  using n
proof (induction names arbitrary: used w')
  case (Cons m names)
  note reads' = components_in_use_world [OF reads] and same = apGetRevision_world [OF reads]
  show ?case
  proof (cases "m = n")
    case True
    with Cons.prems get comps cm show ?thesis by (force split: prod.splits sum.splits dest: reads')
  next
    case False
    with Cons.prems(2) have "n \<in> set names" by simp
    with Cons.IH Cons.prems(1) show ?thesis by (fastforce split: prod.splits sum.splits dest: same)
  qed
qed simp

lemma victims_listed:
  assumes "sort_doc f" "r \<in> set (victims inUse k (sort_by f key items))"
  shows "r \<in> set items"
proof -
  have "set (sort_by f key items) = set items" by (rule mset_eq_setD [OF sort_by_mset [OF assms(1)]])
  with assms(2) show ?thesis by (metis victims_subset in_multiset_in_set mset_subset_eqD)
qed

lemma clean_components_keeps:
  assumes reads: "reads_only C" and used: "(c, n) \<in> set used"
    and delete: "\<And>r w. crName r \<noteq> n \<Longrightarrow> P w \<Longrightarrow> P (snd (apDeleteHistory C r w))"
    and labelled: "\<And>d w items r. apListHistory C (Some ns) [(LabelControllerRevisionComponent, d)] w = (Inr items, w) \<Longrightarrow>
       r \<in> set items \<Longrightarrow> crName r = n \<Longrightarrow> d = c"
    and sort: "sort_doc (apSort C)"
  shows "P w \<Longrightarrow> P (snd (clean_components C ns used comps w))"
proof (induction comps arbitrary: w)
  case (Cons cm comps)
  obtain l where l: "apListHistory C (Some ns) [(LabelControllerRevisionComponent, cmName cm)] w = (l, w)"
    using reads by (metis reads_only_def prod.exhaust_sel)
  show ?case
  proof (cases l)
    case (Inl err)
    with l Cons.prems show ?thesis by simp
  next
    case (Inr items)
    let ?inUse = "map snd (filter (\<lambda>p. fst p = cmName cm) used)"
    let ?k = "int (length items) - apRevisionLimit C - int (length ?inUse)"
    let ?vs = "victims (\<lambda>r. crName r \<in> set ?inUse) ?k (sort_by (apSort C) (\<lambda>r. revision_number (crName r)) items)"
    have spared: "crName r \<noteq> n" if "r \<in> set ?vs" for r
    proof
      assume "crName r = n"
      moreover from that have "r \<in> set items" by (rule victims_listed [OF sort])
      ultimately have "cmName cm = c" using labelled [OF l [unfolded Inr]] \<open>crName r = n\<close> by simp
      with used \<open>crName r = n\<close> have "crName r \<in> set ?inUse" by force
      moreover have "crName r \<notin> set ?inUse" by (rule victims_unused [OF that])
      ultimately show False by simp
    qed
    have "P (snd (delete_all (apDeleteHistory C) ?vs w))"
      by (rule delete_all_keeps [OF delete [OF spared] Cons.prems])
    with Cons l Inr show ?thesis
      by (auto simp: Let_def kill_oldest_delete_all split: prod.splits option.splits)
  qed
qed simp

text \<open>
  C17: Cleaning up the component revisions never deletes one that a revision in use refers to:
  what holds of it, and is kept by every deletion of another component revision, still holds at
  the end.  This needs that no other component's history lists it.
\<close>

theorem component_revision_in_use_kept:
  fixes C :: "'w app_client" and P :: "'w \<Rightarrow> bool"
  assumes docs: "reads_only C" "sort_doc (apSort C)" "\<And>xs. set (apOrder C xs) = set xs"
    and using_it: "gatherUsingAppRevision C (ahApp h) w = (Inr names, w)" "n \<in> set names"
      "apGetRevision C (appNamespace (ahApp h), n) w = (Inr r, w)"
      "AppConfig2ComponentManifests (apDecoders C) (revApplicationConfiguration (roRevision r)) (revComponents (roRevision r)) = Inr cms"
      "cm \<in> set cms"
    and delete: "\<And>r w. crName r \<noteq> cmRevisionName cm \<Longrightarrow> P w \<Longrightarrow> P (snd (apDeleteHistory C r w))"
    and labelled: "\<And>d w items r.
       apListHistory C (Some (appNamespace (ahApp h))) [(LabelControllerRevisionComponent, d)] w = (Inr items, w) \<Longrightarrow>
       r \<in> set items \<Longrightarrow> crName r = cmRevisionName cm \<Longrightarrow> d = cmName cm"
    and run: "cleanUpComponentRevision C h w = Some (e, w')" "P w"
  shows "P w'"
proof -
  have n: "n \<in> set (apOrder C names)" using docs(3) using_it(2) by simp
  note used = components_in_use_has [OF docs(1) n using_it(3-5)]
  have keeps: "P (snd (clean_components C (appNamespace (ahApp h)) used comps w))"
    if "(cmName cm, cmRevisionName cm) \<in> set used" for used comps
    by (rule clean_components_keeps [where P = P, OF docs(1) that delete labelled docs(2) run(2)])
  show ?thesis
  proof (cases "components_in_use C (appNamespace (ahApp h)) (apOrder C names) w")
    case (Pair u v)
    show ?thesis
    proof (cases u)
      case (Inl err)
      with Pair Inl run using_it(1) components_in_use_world [OF docs(1) Pair] show ?thesis by (auto simp: cleanUpComponentRevision_def)
    next
      case (Inr used)
      with Pair used have "v = w" "(cmName cm, cmRevisionName cm) \<in> set used" by auto
      moreover from run(1) using_it(1) Pair Inr \<open>v = w\<close>
      have "w' = w \<or> (\<exists>comps. w' = snd (clean_components C (appNamespace (ahApp h)) used comps w))"
        by (auto simp: cleanUpComponentRevision_def bind_eq_Some_conv Let_def split: sum.splits) (metis obj_sumE snd_conv)
      ultimately show ?thesis using run(2) keeps by auto
    qed
  qed
qed

section \<open>Examples\<close>

lemma history_client_docs:
  "codec_doc history_encoders history_decoders" "sort_doc (apSort (history_client revs crs))"
  "reads_only (history_client revs crs)" "exact_equality (history_client revs crs)"
  by (auto simp: history_client_def reads_only_def exact_equality_def sort_key_doc codec_doc_def history_encoders_def
      history_decoders_def plain_encoders_def plain_decoders_def RawExtension2Component_def RawExtension2AppConfig_def
      web_component_def plain_component_def split: if_splits)

text \<open>Four revisions with a limit of one: two are deleted.\<close>

theorem cleanUpApplicationRevision_oldest_first_witness:
  "\<exists>vs. cleanUpApplicationRevision (history_client (map history_revision [''app-v4'', ''app-v1'', ''app-v3'', ''app-v2'']) [])
           (history_app ''app-v4'') empty_world = delete_all (\<lambda>r w. (None, w)) vs empty_world \<and>
        length vs = 2 \<and> history_revision ''app-v4'' \<notin> set vs"
proof -
  let ?revs = "map history_revision [''app-v4'', ''app-v1'', ''app-v3'', ''app-v2'']"
  let ?C = "history_client ?revs []" and ?app = "history_app ''app-v4''"
  have list: "apListRevisions ?C (Some (appNamespace ?app)) [(LabelAppName, appName ?app)] empty_world = (Inr ?revs, empty_world)"
    by (simp add: history_client_def)
  have gather: "gatherUsingAppRevision ?C ?app empty_world = (Inr [''app-v4''], empty_world)"
    by (simp add: gatherUsingAppRevision_def CheckAppDeploymentUsingAppRevision_def history_client_def history_app_def)
  have [simp]: "revName (roRevision (history_revision n)) = n" for n by (simp add: history_revision_def)
  from cleanUpApplicationRevision_oldest_first [OF history_client_docs(2) list gather] obtain vs where
    vs: "cleanUpApplicationRevision ?C ?app empty_world = delete_all (apDeleteRevision ?C) vs empty_world"
      "\<forall>v \<in> set vs. revName (roRevision v) \<notin> set [''app-v4'']"
      "length vs = min (nat (int (length ?revs) - apRevisionLimit ?C - int (length [''app-v4''])))
         (length (filter (\<lambda>r. revName (roRevision r) \<notin> set [''app-v4'']) ?revs))" by blast
  from vs(3) have "length vs = 2" by simp
  from vs(2) have "history_revision ''app-v4'' \<notin> set vs" by (auto dest: bspec [where x = "history_revision ''app-v4''"])
  with vs(1) \<open>length vs = 2\<close> show ?thesis unfolding history_client_simps by blast
qed

text \<open>The history of a component: the example revisions \<open>web-v1\<close> to \<open>web-v3\<close>.\<close>

definition history_cr :: "int \<Rightarrow> controller_revision" where
  "history_cr k =
     \<lparr>crName = ConstructRevisionName ''web'' k, crNamespace = ''default'', crOwnerReferences = [],
      crLabels = Some [LabelControllerRevisionComponent \<mapsto> ''web'', LabelComponentRevisionHash \<mapsto> ''1''],
      crRevision = k, crData = (if k = 2 then ''web'' else ''other'')\<rparr>"

definition full_world :: kube_world where
  "full_world = empty_world\<lparr>kwTrackers := \<lambda>n. Some undefined\<rparr>"

lemma history_cr_simps [simp]:
  "map_get (crLabels (history_cr k)) LabelControllerRevisionComponent = ''web''"
  "map_get (crLabels (history_cr k)) LabelComponentRevisionHash = ''1''"
  "crRevision (history_cr k) = k" "crName (history_cr k) = ConstructRevisionName ''web'' k"
  by (simp_all add: history_cr_def map_get_def LabelControllerRevisionComponent_def LabelComponentRevisionHash_def)

lemma history_list:
  "apListHistory (history_client revs (map history_cr ks)) n [(LabelControllerRevisionComponent, c)] w =
     (Inr (if c = ''web'' then filter (\<lambda>r. kwTrackers w (crName r) \<noteq> None) (map history_cr ks) else []), w)"
  by (auto simp: history_client_def filter_map o_def)

lemma digit_char_1: "digit_char (Suc 0) = CHR ''1''"
  by code_simp

lemma stripped:
  "RemoveLabels ((example_object ''v1'' ''Pod'' ''web'')\<lparr>uLabels := Some [LabelAppRevision \<mapsto> v]\<rparr>) [LabelAppRevision] =
     stripped_object"
  by (simp add: RemoveLabels_def stripped_object_def map_delete_def fun_eq_iff)

lemma history_manifest:
  "computeComponentRevisionHash (history_client revs crs) (labelled_manifest ''app-v4'') = Inr ''1''"
  "componentManifest2Component history_encoders (labelled_manifest ''app-v4'') = Some web_component"
proof -
  have [simp]: "length (uName stripped_object) = 3" by (simp add: stripped_object_def example_object_def)
  have [simp]: "strconv_FormatHex 3 = ''3''" "strconv_FormatHex (Suc 0) = ''1''" by code_simp+
  show "computeComponentRevisionHash (history_client revs crs) (labelled_manifest ''app-v4'') = Inr ''1''"
    by (simp add: computeComponentRevisionHash_def labelled_manifest_def stripped spec_hash_def history_client_def)
       (simp add: plain_manifest_def)
  show "componentManifest2Component history_encoders (labelled_manifest ''app-v4'') = Some web_component"
    by (simp add: componentManifest2Component_def labelled_manifest_def stripped history_encoders_def)
       (simp add: plain_manifest_def web_component_def plain_component_def)
qed

lemma history_component:
  "RawExtension2Component history_decoders (crData (history_cr k)) = Inr (if k = 2 then web_component else plain_component)"
  by (simp add: history_cr_def history_decoders_def plain_decoders_def RawExtension2Component_def)

text \<open>The hashes of the example are equal, but the specifications are not.\<close>

lemma history_hash: "ComputeAppRevisionHash (history_client revs crs) (empty_revision spec\<lparr>roRevision := r\<rparr>) = Inr ''1''"
  if "length (appRest spec) = 4"
  using that
  by (simp add: ComputeAppRevisionHash_def hash_map_def spec_hash_def history_client_def empty_revision_def
      strconv_FormatHex_def format_nat.simps digit_char_1)

theorem currentAppRevIsNew_iff_witness:
  "currentAppRevIsNew (history_client [] [])
     ((new_app_handler ((history_app ''app-v4'')\<lparr>appStatus := (appStatus (history_app ''''))\<lparr>apLatestRevision :=
          Some \<lparr>latestName = ''app-v4'', latestNumber = 4, latestHash = ''1''\<rparr>\<rparr>\<rparr>))\<lparr>
        ahLatestAppRev := Some (empty_revision ((appSpec (history_app ''''))\<lparr>appRest := ''cpes''\<rparr>)),
        ahCurrentAppRev := Some (empty_revision (appSpec (history_app ''''))), ahCurrentRevHash := ''1''\<rparr>) = Some True"
proof -
  let ?spec = "appSpec (history_app '''')"
  let ?l = "\<lparr>latestName = ''app-v4'', latestNumber = 4, latestHash = ''1''\<rparr>"
  let ?app = "(history_app ''app-v4'')\<lparr>appStatus := (appStatus (history_app ''''))\<lparr>apLatestRevision := Some ?l\<rparr>\<rparr>"
  let ?old = "empty_revision (?spec\<lparr>appRest := ''cpes''\<rparr>)" and ?new = "empty_revision ?spec"
  let ?h = "(new_app_handler ?app)\<lparr>ahLatestAppRev := Some ?old, ahCurrentAppRev := Some ?new, ahCurrentRevHash := ''1''\<rparr>"
  have "apLatestRevision (appStatus (ahApp ?h)) = Some ?l" by (simp add: new_app_handler_def)
  moreover have "ahLatestAppRev ?h = Some ?old" "ahCurrentAppRev ?h = Some ?new" by simp_all
  moreover have "ComputeAppRevisionHash (history_client [] []) ?old = Inr (latestHash ?l)"
    "ComputeAppRevisionHash (history_client [] []) ?new = Inr (ahCurrentRevHash ?h)"
    using history_hash [where r = zero_revision] by (simp_all add: empty_revision_def history_app_def)
  moreover have "proper_snapshots z (empty_revision s)" for z s by (simp add: proper_snapshots_def empty_revision_def)
  ultimately have "currentAppRevIsNew (history_client [] []) ?h = Some (\<not> same_snapshots ?old ?new)"
    using history_client_docs(4) by (intro currentAppRevIsNew_iff) assumption+
  then show ?thesis
    by (simp add: same_snapshots_def empty_revision_def history_app_def)
qed

theorem unchanged_application_keeps_revision_witness:
  "\<exists>h af. prepareCurrentAppRevision (history_client [history_revision ''app-v4''] [])
       (new_app_handler ((history_app ''app-v4'')\<lparr>appSpec := (appSpec (history_app ''''))\<lparr>appRolloutPlan := Some example_plan\<rparr>,
          appStatus := (appStatus (history_app ''''))\<lparr>apLatestRevision := Some \<lparr>latestName = ''app-v4'', latestNumber = 4, latestHash = ''1''\<rparr>\<rparr>\<rparr>))
       \<lparr>afName = ''app'', afNamespace = ''default'', afRevisionName = '''', afWorkloads = []\<rparr> empty_world =
     Some ((None, h, af), empty_world) \<and> \<not> ahIsNewRevision h \<and> afRevisionName af = ''app-v4''"
proof -
  let ?C = "history_client [history_revision ''app-v4''] []"
  let ?app = "(history_app ''app-v4'')\<lparr>appSpec := (appSpec (history_app ''''))\<lparr>appRolloutPlan := Some example_plan\<rparr>,
          appStatus := (appStatus (history_app ''''))\<lparr>apLatestRevision := Some \<lparr>latestName = ''app-v4'', latestNumber = 4, latestHash = ''1''\<rparr>\<rparr>\<rparr>"
  let ?af = "\<lparr>afName = ''app'', afNamespace = ''default'', afRevisionName = '''', afWorkloads = []\<rparr> :: kube_world appfile"
  let ?r = "empty_revision (appSpec (history_app ''''))"
  have made: "gatherRevisionSpec ?C (history_app '''') ?af = Inr (?r, ''1'')"
    using history_hash [where r = zero_revision] by (simp add: gatherRevisionSpec_def history_app_def empty_revision_def)
  have "(appSpec ?app)\<lparr>appRolloutPlan := None\<rparr> = (appSpec (history_app ''''))\<lparr>appRolloutPlan := None\<rparr>"
    "apLatestRevision (appStatus ?app) = Some \<lparr>latestName = ''app-v4'', latestNumber = 4, latestHash = ''1''\<rparr>"
    "apGetRevision ?C (appNamespace ?app, ''app-v4'') empty_world = (Inr (history_revision ''app-v4''), empty_world)"
    "same_snapshots (history_revision ''app-v4'') ?r" "distinct_snapshots (history_revision ''app-v4'')"
    by (simp_all add: history_client_def history_revision_def same_snapshots_def same_map_def distinct_snapshots_def
        empty_revision_def history_app_def)
  from unchanged_application_keeps_revision [OF history_client_docs(4) made this(1) refl this(2) _ this(3-5)]
  show ?thesis by (simp add: history_revision_def)
qed

lemma history_new:
  "\<exists>cr. controllerRevisionOf (history_client revs crs) app ((labelled_manifest ''app-v4'')\<lparr>cmRevisionHash := h, cmRevisionName := n\<rparr>) = Some cr \<and>
    crName cr = n \<and> map_get (crLabels cr) LabelControllerRevisionComponent = ''web'' \<and> crData cr = ''web''"
proof -
  have "cmName (labelled_manifest ''app-v4'') = ''web''" by (simp add: labelled_manifest_def plain_manifest_def)
  with history_manifest(2) show ?thesis
    by (simp add: controllerRevisionOf_def history_encoders_def map_get_def LabelControllerRevisionComponent_def
      LabelComponentRevisionHash_def)
qed

theorem component_history_invariant_witness:
  "\<exists>cr. cmRevisionName (snd (fst (the (handleComponentRevision (history_client [] [history_cr 1]) (history_app ''app-v4'')
           (labelled_manifest ''app-v4'') full_world)))) = crName cr \<and>
        1 < crRevision cr \<and> history_ok ''web'' [history_cr 1, cr]"
proof -
  let ?C = "history_client [] (map history_cr [1])" and ?app = "history_app ''app-v4''" and ?cm = "labelled_manifest ''app-v4''"
  have ready: "\<not> cmInsertConfigNotReady ?cm" "cmName ?cm = ''web''" by (simp_all add: labelled_manifest_def plain_manifest_def)
  have list: "apListHistory ?C (Some (appNamespace ?app)) [(LabelControllerRevisionComponent, cmName ?cm)] full_world =
      (Inr [history_cr 1], full_world)"
    unfolding history_list ready by (simp add: full_world_def)
  have ok: "history_ok (cmName ?cm) [history_cr 1]" "\<forall>cr \<in> set [history_cr 1]. crRevision cr < 2 ^ 63 - 2"
    by (simp_all add: history_ok_def ready)
  have other: "\<not> identical ?C (?cm\<lparr>cmRevisionHash := h, cmRevisionName := n\<rparr>) (history_cr 1)" for h n
    by (simp add: identical_def history_component history_manifest web_component_def plain_component_def)
  have find: "find_identical ?C (?cm\<lparr>cmRevisionHash := ''1''\<rparr>) [history_cr 1] 0 = Some (Inr (1, None))"
    by (simp add: history_component history_manifest web_component_def plain_component_def)
  let ?new = "?cm\<lparr>cmRevisionHash := ''1'', cmRevisionName := ConstructRevisionName ''web'' (i64 (1 + 1))\<rparr>"
  obtain cr where cr: "controllerRevisionOf ?C ?app ?new = Some cr"
    using history_new by blast
  have run: "handleComponentRevision ?C ?app ?cm full_world = Some ((None, ?new), full_world)"
    using list ready find cr
    by (simp add: handleComponentRevision_def history_manifest createControllerRevision_def Let_def del: find_identical.simps)
  show ?thesis
    using component_history_invariant [OF _ ready(1) history_manifest(1) list ok run] history_client_docs(1) other run
    by (auto simp: ready dest!: arg_cong [of _ _ cmRevisionName])
qed

text \<open>The same component, rendered for the next revision of the application.\<close>

theorem component_revision_reused_witness:
  "\<exists>cr. controllerRevisionOf (history_client [] []) (history_app '''')
          ((labelled_manifest ''app-v4'')\<lparr>cmRevisionHash := ''1'', cmRevisionName := ''web-v7''\<rparr>) = Some cr \<and>
        handleComponentRevision (history_client [] [cr]) (history_app '''') (labelled_manifest ''app-v5'') full_world =
          Some ((None, (labelled_manifest ''app-v5'')\<lparr>cmRevisionHash := ''1'', cmRevisionName := ''web-v7''\<rparr>), full_world)"
proof -
  let ?cm = "(labelled_manifest ''app-v4'')\<lparr>cmRevisionHash := ''1'', cmRevisionName := ''web-v7''\<rparr>"
  have indep: "controllerRevisionOf (history_client revs crs) app cm = controllerRevisionOf (history_client [] []) app cm"
    for revs crs app cm by (simp add: controllerRevisionOf_def)
  obtain cr where cr: "controllerRevisionOf (history_client [] []) (history_app '''') ?cm = Some cr" "crName cr = ''web-v7''"
    "map_get (crLabels cr) LabelControllerRevisionComponent = ''web''" "crData cr = ''web''"
    using history_new by blast
  let ?C = "history_client [] [cr]"
  have same: "same_content (labelled_manifest ''app-v4'') (labelled_manifest ''app-v5'')" "\<not> cmInsertConfigNotReady (labelled_manifest ''app-v5'')"
    "cmName (labelled_manifest ''app-v5'') = ''web''"
    by (simp_all add: same_content_def labelled_manifest_def stripped) (simp_all add: plain_manifest_def)
  have "apListHistory ?C (Some (appNamespace (history_app ''''))) [(LabelControllerRevisionComponent, cmName (labelled_manifest ''app-v5''))] full_world =
      (Inr [cr], full_world)"
    using cr same by (simp add: history_client_def full_world_def)
  moreover have "\<forall>x \<in> set [cr]. \<exists>c. RawExtension2Component (apDecoders ?C) (crData x) = Inr c"
    using cr by (simp add: history_decoders_def RawExtension2Component_def plain_decoders_def)
  moreover have "controllerRevisionOf ?C (history_app '''') ?cm = Some cr"
    unfolding indep [of "[]" "[cr]"] by (rule cr(1))
  moreover have "codec_doc (apEncoders ?C) (apDecoders ?C)" using history_client_docs(1) by simp
  moreover have "cr \<in> set [cr]" by simp
  ultimately have "\<exists>x \<in> set [cr]. RawExtension2Component (apDecoders ?C) (crData x) = RawExtension2Component (apDecoders ?C) (crData cr) \<and>
      handleComponentRevision ?C (history_app '''') (labelled_manifest ''app-v5'') full_world =
        Some ((None, (labelled_manifest ''app-v5'')\<lparr>cmRevisionHash := ''1'', cmRevisionName := crName x\<rparr>), full_world)"
    using history_manifest(1) same(1,2) by (intro component_revision_reused)
  with cr show ?thesis by auto
qed

text \<open>The revision of the component that the latest revision uses is kept, although it is the oldest.\<close>

lemma history_components:
  "AppConfig2ComponentManifests history_decoders ''ac'' [''comp''] = Inr [plain_manifest ''web'']"
  by (simp add: AppConfig2ComponentManifests_def RawExtension2AppConfig_def RawExtension2Component_def
      RawExtension2Unstructured_def component_manifest_of_def history_decoders_def plain_decoders_def plain_acc_def
      plain_component_def plain_manifest_def map_get_def Let_def)

theorem component_revision_in_use_kept_witness:
  "\<exists>e w. cleanUpComponentRevision (history_client [history_revision ''app-v4''] (map history_cr [1, 2, 3]))
       ((new_app_handler (history_app ''app-v4''))\<lparr>ahCurrentAppRev := Some (history_revision ''app-v4'')\<rparr>) full_world = Some (e, w) \<and>
     kwTrackers w ''web-v1'' \<noteq> None"
proof -
  let ?C = "history_client [history_revision ''app-v4''] (map history_cr [1, 2, 3])"
  let ?h = "(new_app_handler (history_app ''app-v4''))\<lparr>ahCurrentAppRev := Some (history_revision ''app-v4'')\<rparr>"
  let ?cm = "plain_manifest ''web''" and ?P = "\<lambda>w. kwTrackers w ''web-v1'' \<noteq> None"
  have h [simp]: "ahApp ?h = history_app ''app-v4''" "ahCurrentAppRev ?h = Some (history_revision ''app-v4'')"
    by (simp_all add: new_app_handler_def)
  have gather: "gatherUsingAppRevision ?C (ahApp ?h) full_world = (Inr [''app-v4''], full_world)"
    by (simp add: gatherUsingAppRevision_def CheckAppDeploymentUsingAppRevision_def history_client_def history_app_def new_app_handler_def)
  have get: "apGetRevision ?C (appNamespace (ahApp ?h), ''app-v4'') full_world = (Inr (history_revision ''app-v4''), full_world)"
    by (simp add: history_client_def history_revision_def)
  have comps: "AppConfig2ComponentManifests (apDecoders ?C) (revApplicationConfiguration (roRevision (history_revision ''app-v4'')))
      (revComponents (roRevision (history_revision ''app-v4''))) = Inr [?cm]"
    using history_components by (simp add: history_revision_def labelled_revision_def)
  have cm: "cmName ?cm = ''web''" "cmRevisionName ?cm = ''web-v1''" by (simp_all add: plain_manifest_def)
  have use: "components_in_use ?C (appNamespace (ahApp ?h)) [''app-v4''] full_world = (Inr [(''web'', ''web-v1'')], full_world)"
    using get comps cm by simp
  have "cleanUpComponentRevision ?C ?h full_world =
      Some (clean_components ?C (appNamespace (ahApp ?h)) [(''web'', ''web-v1'')] [?cm] full_world)"
    using gather use comps by (simp add: cleanUpComponentRevision_def Let_def del: components_in_use.simps clean_components.simps)
  moreover obtain e w where "clean_components ?C (appNamespace (ahApp ?h)) [(''web'', ''web-v1'')] [?cm] full_world = (e, w)"
    by fastforce
  ultimately have run: "cleanUpComponentRevision ?C ?h full_world = Some (e, w)" by simp
  have delete: "?P (snd (apDeleteHistory ?C r v))" if "crName r \<noteq> cmRevisionName ?cm" "?P v" for r v
    using that cm by simp
  have labelled: "d = cmName ?cm" if "apListHistory ?C (Some (appNamespace (ahApp ?h))) [(LabelControllerRevisionComponent, d)] v = (Inr items, v)"
    "r \<in> set items" "crName r = cmRevisionName ?cm" for d v items r
    using that(1,2) unfolding history_list cm by (auto split: if_splits)
  have "?P w"
    by (rule component_revision_in_use_kept [where P = ?P, OF history_client_docs(3,2) _ gather _ get comps _ delete labelled run])
       (simp_all add: full_world_def)
  with run show ?thesis by blast
qed

end
