(* ===== verification/Workflow.thy ===== *)
theory Workflow
  imports Example_Client
begin

text \<open>
  The workflow of an application, pkg/workflow/workflow.go: its steps are objects that are applied one
  after the other, each when the one before reports success; with
  GetUnstructuredObjectStatusCondition of controller/utils.

  \<open>None\<close> is the panic of an index out of range.
\<close>

section \<open>The status of a step\<close>

definition CondTypeWorkflowFinish :: string where "CondTypeWorkflowFinish = ''workflow-progress''"
definition CondReasonSucceeded :: string where "CondReasonSucceeded = ''Succeeded''"
definition CondReasonStopped :: string where "CondReasonStopped = ''Stopped''"
definition CondReasonFailed :: string where "CondReasonFailed = ''Failed''"
definition CondStatusTrue :: string where "CondStatusTrue = ''True''"

lemmas cond_reasons = CondReasonSucceeded_def CondReasonStopped_def CondReasonFailed_def

fun find_condition :: "(string + object_condition) list \<Rightarrow> string \<Rightarrow> string + object_condition option" where
  "find_condition [] ty = Inr None"
| "find_condition (Inl err # cs) ty = Inl err"
| "find_condition (Inr condObj # cs) ty =
     (if ocType condObj \<noteq> ty then find_condition cs ty else Inr (Some condObj))"

definition GetUnstructuredObjectStatusCondition ::
  "'w app_client \<Rightarrow> unstructured \<Rightarrow> string \<Rightarrow> string + object_condition option" where
  "GetUnstructuredObjectStatusCondition C obj ty =
     (case apConditionsOf C obj of
        Inl err \<Rightarrow> Inl err
      | Inr None \<Rightarrow> Inr None
      | Inr (Some cs) \<Rightarrow> find_condition cs ty)"

definition parseGeneration :: "'w app_client \<Rightarrow> string \<Rightarrow> string + int" where
  "parseGeneration C message = apObservedGeneration C message"

definition syncWorkflowStatus :: "'w app_client \<Rightarrow> workflow_step \<Rightarrow> unstructured \<Rightarrow> string + step_status" where
  "syncWorkflowStatus C step obj =
     (let status = (\<lambda>phase. \<lparr>ssName = wsName step, ssType = wsType step, ssPhase = phase,
            ssAPIVersion = uAPIVersion obj, ssKind = uKind obj, ssRefName = uName obj, ssUID = uUID obj\<rparr>)
      in case GetUnstructuredObjectStatusCondition C obj CondTypeWorkflowFinish of
           Inl err \<Rightarrow> Inl err
         | Inr None \<Rightarrow> Inr (status WorkflowStepPhaseRunning)
         | Inr (Some cond) \<Rightarrow>
             if ocStatus cond \<noteq> CondStatusTrue then Inr (status WorkflowStepPhaseRunning)
             else if ocReason cond = CondReasonSucceeded then
               (case parseGeneration C (ocMessage cond) of
                  Inl err \<Rightarrow> Inl err
                | Inr observedG \<Rightarrow>
                    Inr (status (if observedG \<noteq> apGeneration C obj then WorkflowStepPhaseRunning
                                 else WorkflowStepPhaseSucceeded)))
             else if ocReason cond = CondReasonFailed then Inr (status WorkflowStepPhaseFailed)
             else if ocReason cond = CondReasonStopped then Inr (status WorkflowStepPhaseStopped)
             else Inr (status WorkflowStepPhaseRunning))"

section \<open>Execution\<close>

definition addWorkflowContextToAnnotation ::
  "'w app_client \<Rightarrow> unstructured \<Rightarrow> workflow_context \<Rightarrow> string + unstructured" where
  "addWorkflowContextToAnnotation C obj wc =
     (case apMarshalContext C wc of
        Inl err \<Rightarrow> Inl err
      | Inr b \<Rightarrow> Inr (obj\<lparr>uAnnotations :=
          MergeMapOverrideWithDst (Some [AnnotationWorkflowContext \<mapsto> b]) (uAnnotations obj)\<rparr>))"

definition applyWorkflowStep ::
  "'w app_client \<Rightarrow> unstructured \<Rightarrow> workflow_context \<Rightarrow> 'w \<Rightarrow> (string option \<times> unstructured) \<times> 'w" where
  "applyWorkflowStep C obj wctx w =
     (case addWorkflowContextToAnnotation C obj wctx of
        Inl err \<Rightarrow> ((Some err, obj), w)
      | Inr obj \<Rightarrow> Apply (apKube C) obj [] w)"

text \<open>The object of a step, as it is handed to the applicator.\<close>

definition step_object :: "application \<Rightarrow> workflow_step \<Rightarrow> unstructured \<Rightarrow> unstructured" where
  "step_object app step obj =
     obj\<lparr>uName := wsName step, uNamespace := appNamespace app,
         uOwnerReferences := [(app_owner_ref app)\<lparr>orBlockOwnerDeletion := Some True\<rparr>]\<rparr>"

definition step_context :: "application \<Rightarrow> string \<Rightarrow> nat \<Rightarrow> workflow_context" where
  "step_context app rv i =
     \<lparr>wcAppName = appName app, wcAppRevision = rv, wcWorkflowIndex = int i, wcResourceConfigMap = rv\<rparr>"

definition add_step_status :: "step_status \<Rightarrow> application \<Rightarrow> application" where
  "add_step_status st app =
     app\<lparr>appStatus := (appStatus app)\<lparr>apWorkflow := map_option (\<lambda>sts. sts @ [st]) (apWorkflow (appStatus app))\<rparr>\<rparr>"

text \<open>The loop from step \<open>i\<close> on: whether the workflow is done, the error, and the application.\<close>

fun execute_steps ::
  "'w app_client \<Rightarrow> string \<Rightarrow> unstructured list \<Rightarrow> nat \<Rightarrow> workflow_step list \<Rightarrow> application \<Rightarrow> 'w \<Rightarrow>
     (((bool \<times> string option) \<times> application) \<times> 'w) option" where
  "execute_steps C rv objects i [] app w = Some (((True, None), app), w)"
| "execute_steps C rv objects i (step # steps) app w =
     (if \<not> i < length objects then None
      else
        case applyWorkflowStep C (step_object app step (objects ! i)) (step_context app rv i) w of
          ((Some err, obj), w) \<Rightarrow> Some (((False, Some err), app), w)
        | ((None, obj), w) \<Rightarrow>
            (case syncWorkflowStatus C step obj of
               Inl err \<Rightarrow> Some (((False, Some err), app), w)
             | Inr status \<Rightarrow>
                 (let app = add_step_status status app in
                  case ssPhase status of
                    WorkflowStepPhaseSucceeded \<Rightarrow> execute_steps C rv objects (Suc i) steps app w
                  | WorkflowStepPhaseRunning \<Rightarrow> Some (((False, None), app), w)
                  | _ \<Rightarrow> Some (((True, None), app), w))))"

definition ExecuteSteps ::
  "'w app_client \<Rightarrow> application \<Rightarrow> string \<Rightarrow> unstructured list \<Rightarrow> 'w \<Rightarrow>
     (((bool \<times> string option) \<times> application) \<times> 'w) option" where
  "ExecuteSteps C app rv objects w =
     (case appWorkflow (appSpec app) of
        None \<Rightarrow> Some (((True, None), app), w)
      | Some steps \<Rightarrow>
          if length steps = 0 then Some (((True, None), app), w)
          else execute_steps C rv objects 0 steps
                 (app\<lparr>appStatus := (appStatus app)\<lparr>apPhase := ApplicationRunningWorkflow, apWorkflow := Some []\<rparr>\<rparr>) w)"

section \<open>What a status says\<close>

lemma find_condition_Some:
  "find_condition cs t = Inr (Some c) \<Longrightarrow> Inr c \<in> set cs \<and> ocType c = t"
  by (induction cs t rule: find_condition.induct) (auto split: if_splits)

lemma syncWorkflowStatus_names:
  "syncWorkflowStatus C step obj = Inr st \<Longrightarrow> ssName st = wsName step \<and> ssType st = wsType step \<and> ssUID st = uUID obj"
  by (auto simp: syncWorkflowStatus_def Let_def split: sum.splits option.splits if_splits)

text \<open>
  The abstract workflow: the statuses of the steps that were taken, whether it is done, and the error.
  A step succeeds and the next is taken, or the workflow waits, ends or fails there.
\<close>

inductive workflow_run :: "workflow_step list \<Rightarrow> step_status list \<Rightarrow> bool \<Rightarrow> string option \<Rightarrow> bool" where
  finished: "workflow_run [] [] True None"
| succeeds: "ssPhase st = WorkflowStepPhaseSucceeded \<Longrightarrow> ssName st = wsName s \<Longrightarrow> workflow_run steps sts d e \<Longrightarrow>
    workflow_run (s # steps) (st # sts) d e"
| waits: "ssPhase st = WorkflowStepPhaseRunning \<Longrightarrow> ssName st = wsName s \<Longrightarrow> workflow_run (s # steps) [st] False None"
| ends: "ssPhase st \<in> {WorkflowStepPhaseFailed, WorkflowStepPhaseStopped} \<Longrightarrow> ssName st = wsName s \<Longrightarrow>
    workflow_run (s # steps) [st] True None"
| fails: "workflow_run (s # steps) [] False (Some err)"

inductive_cases workflow_run_NilE: "workflow_run [] sts d e"

lemma execute_steps_runs:
  "execute_steps C rv objects i steps app w = Some (((d, e), app'), w') \<Longrightarrow> apWorkflow (appStatus app) = Some past \<Longrightarrow>
   \<exists>sts. apWorkflow (appStatus app') = Some (past @ sts) \<and> workflow_run steps sts d e \<and>
     apPhase (appStatus app') = apPhase (appStatus app)"
proof (induction steps arbitrary: i app w past)
  case Nil
  then show ?case by (auto intro: workflow_run.finished)
next
  case (Cons step steps)
  obtain r obj v where a: "applyWorkflowStep C (step_object app step (objects ! i)) (step_context app rv i) w = ((r, obj), v)"
    by (metis surj_pair)
  from Cons.prems(1) have i: "i < length objects" by (simp split: if_splits)
  show ?case
  proof (cases r)
    case (Some err)
    with Cons.prems a i show ?thesis by (auto intro: workflow_run.fails)
  next
    case None
    show ?thesis
    proof (cases "syncWorkflowStatus C step obj")
      case (Inl err)
      with None Cons.prems a i show ?thesis by (auto intro: workflow_run.fails)
    next
      case (Inr st)
      from syncWorkflowStatus_names [OF this] have name: "ssName st = wsName step" by simp
      let ?app = "add_step_status st app"
      have acc: "apWorkflow (appStatus ?app) = Some (past @ [st])" "apPhase (appStatus ?app) = apPhase (appStatus app)"
        using Cons.prems(2) by (simp_all add: add_step_status_def)
      show ?thesis
      proof (cases "ssPhase st")
        case WorkflowStepPhaseSucceeded
        with None Inr Cons.prems(1) a i have "execute_steps C rv objects (Suc i) steps ?app v = Some (((d, e), app'), w')"
          by (simp add: Let_def)
        from Cons.IH [OF this acc(1)] acc(2) show ?thesis
          using workflow_run.succeeds [OF WorkflowStepPhaseSucceeded name] by auto
      qed (use None Inr Cons.prems a i acc name in \<open>auto simp: Let_def intro: workflow_run.intros\<close>)
    qed
  qed
qed

lemma workflow_run_shape:
  assumes "workflow_run steps sts d e"
  shows "length sts \<le> length steps" "\<forall>k < length sts. ssName (sts ! k) = wsName (steps ! k)"
    "\<forall>k. Suc k < length sts \<longrightarrow> ssPhase (sts ! k) = WorkflowStepPhaseSucceeded"
    "e \<noteq> None \<Longrightarrow> \<not> d \<and> length sts < length steps \<and> (\<forall>st \<in> set sts. ssPhase st = WorkflowStepPhaseSucceeded)"
    "e = None \<Longrightarrow> \<not> d \<longleftrightarrow> sts \<noteq> [] \<and> ssPhase (last sts) = WorkflowStepPhaseRunning"
    "e = None \<Longrightarrow> d \<longleftrightarrow> length sts = length steps \<and> (\<forall>st \<in> set sts. ssPhase st = WorkflowStepPhaseSucceeded) \<or>
       sts \<noteq> [] \<and> ssPhase (last sts) \<in> {WorkflowStepPhaseFailed, WorkflowStepPhaseStopped}"
  using assms by (induction rule: workflow_run.induct) (auto simp: nth_Cons split: nat.splits)

lemma step_status_same [simp]:
  "step_object (add_step_status st app) s obj = step_object app s obj"
  "step_context (add_step_status st app) rv i = step_context app rv i"
  by (simp_all add: add_step_status_def step_object_def step_context_def app_owner_ref_def)

lemma execute_steps_returns:
  "i + length steps \<le> length objects \<Longrightarrow> execute_steps C rv objects i steps app w \<noteq> None"
  by (induction steps arbitrary: i app w)
     (auto simp: Let_def split: prod.splits option.splits sum.splits step_phase.splits)

text \<open>What is never changed by applying the steps that are reached is not changed at all.\<close>

lemma execute_steps_keeps:
  assumes "\<And>k v. k < length sts \<or> k = length sts \<and> e \<noteq> None \<Longrightarrow> k < length steps \<Longrightarrow> P v \<Longrightarrow>
      P (snd (applyWorkflowStep C (step_object app (steps ! k) (objects ! (i + k))) (step_context app rv (i + k)) v))"
    and "execute_steps C rv objects i steps app w = Some (((d, e), app'), w')" "P w"
    and "apWorkflow (appStatus app) = Some past" "apWorkflow (appStatus app') = Some (past @ sts)"
  shows "P w'"
  using assms
proof (induction steps arbitrary: i app w past sts)
  case (Cons step steps)
  obtain r obj v where a: "applyWorkflowStep C (step_object app step (objects ! i)) (step_context app rv i) w = ((r, obj), v)"
    by (metis surj_pair)
  from Cons.prems(2) have i: "i < length objects" by (simp split: if_splits)
  from execute_steps_runs [OF Cons.prems(2,4)] Cons.prems(5) have run: "workflow_run (step # steps) sts d e" by simp
  have "0 < length sts \<or> 0 = length sts \<and> e \<noteq> None" using run by (auto elim: workflow_run.cases)
  then have "P (snd (applyWorkflowStep C (step_object app step (objects ! i)) (step_context app rv i) w))"
    using Cons.prems(1) [of 0 w] Cons.prems(3) by simp
  with a have Pv: "P v" by simp
  show ?case
  proof (cases "r = None \<and> (\<exists>st. syncWorkflowStatus C step obj = Inr st \<and> ssPhase st = WorkflowStepPhaseSucceeded)")
    case True
    then obtain st where st: "r = None" "syncWorkflowStatus C step obj = Inr st" "ssPhase st = WorkflowStepPhaseSucceeded"
      by blast
    let ?app = "add_step_status st app"
    from st a i Cons.prems(2) have rest: "execute_steps C rv objects (Suc i) steps ?app v = Some (((d, e), app'), w')"
      by (simp add: Let_def)
    have acc: "apWorkflow (appStatus ?app) = Some (past @ [st])" using Cons.prems(4) by (simp add: add_step_status_def)
    from execute_steps_runs [OF rest acc] Cons.prems(5) obtain sts' where sts: "sts = st # sts'" by auto
    show ?thesis
    proof (rule Cons.IH [OF _ rest Pv acc])
      show "apWorkflow (appStatus app') = Some ((past @ [st]) @ sts')" using Cons.prems(5) sts by simp
      show "P (snd (applyWorkflowStep C (step_object ?app (steps ! k) (objects ! (Suc i + k))) (step_context ?app rv (Suc i + k)) u))"
        if "k < length sts' \<or> k = length sts' \<and> e \<noteq> None" "k < length steps" "P u" for k u
        using Cons.prems(1) [of "Suc k" u] that sts by auto
    qed
  next
    case False
    with Cons.prems(2) a i Pv show ?thesis
      by (auto simp: Let_def split: option.splits sum.splits step_phase.splits)
  qed
qed simp

section \<open>The workflow of an application\<close>

text \<open>
  C28: With an object for each step, executing the workflow returns.  Its status lists a prefix of the
  steps in their order, all but the last of which have succeeded.  Without an error the workflow is
  done when all steps have succeeded or the last one listed has failed or stopped, and is taken up
  again when that one is still running; with an error all steps listed have succeeded and there
  are more.  So done does not mean that the steps have succeeded, as the comment of the interface in
  interface.go has it: a step that fails or stops ends the workflow as done, with the later steps
  not executed.
\<close>

theorem workflow_in_order:
  assumes steps: "appWorkflow (appSpec app) = Some steps" "steps \<noteq> []" "length steps \<le> length objects"
  shows "\<exists>d e app' w' sts.
           ExecuteSteps C app rv objects w = Some (((d, e), app'), w') \<and>
           apWorkflow (appStatus app') = Some sts \<and> apPhase (appStatus app') = ApplicationRunningWorkflow \<and>
           length sts \<le> length steps \<and> (\<forall>k < length sts. ssName (sts ! k) = wsName (steps ! k)) \<and>
           (\<forall>k. Suc k < length sts \<longrightarrow> ssPhase (sts ! k) = WorkflowStepPhaseSucceeded) \<and>
           (e = None \<longrightarrow>
              (d \<longleftrightarrow> length sts = length steps \<and> (\<forall>st \<in> set sts. ssPhase st = WorkflowStepPhaseSucceeded) \<or>
                 sts \<noteq> [] \<and> ssPhase (last sts) \<in> {WorkflowStepPhaseFailed, WorkflowStepPhaseStopped}) \<and>
              (\<not> d \<longleftrightarrow> sts \<noteq> [] \<and> ssPhase (last sts) = WorkflowStepPhaseRunning)) \<and>
           (e \<noteq> None \<longrightarrow> \<not> d \<and> length sts < length steps \<and> (\<forall>st \<in> set sts. ssPhase st = WorkflowStepPhaseSucceeded))"
proof -
  let ?app = "app\<lparr>appStatus := (appStatus app)\<lparr>apPhase := ApplicationRunningWorkflow, apWorkflow := Some []\<rparr>\<rparr>"
  have start: "ExecuteSteps C app rv objects w = execute_steps C rv objects 0 steps ?app w"
    using steps by (simp add: ExecuteSteps_def)
  have "execute_steps C rv objects 0 steps ?app w \<noteq> None"
    by (rule execute_steps_returns) (use steps in simp)
  then obtain d e app' w' where run: "execute_steps C rv objects 0 steps ?app w = Some (((d, e), app'), w')"
    by (metis option.exhaust surj_pair)
  from execute_steps_runs [OF run, of "[]"] obtain sts where
    sts: "apWorkflow (appStatus app') = Some sts" "workflow_run steps sts d e" "apPhase (appStatus app') = ApplicationRunningWorkflow"
    by auto
  show ?thesis
    by (rule exI [of _ d], rule exI [of _ e], rule exI [of _ app'], rule exI [of _ w'], rule exI [of _ sts])
      (intro conjI impI; use run start sts workflow_run_shape [OF sts(2)] in simp)
qed

text \<open>
  C29: A step is not applied before all steps before it have succeeded: whatever is kept by applying
  the objects of the steps that the status lists, and of the step that failed with an error, is
  kept by executing the workflow.
\<close>

theorem workflow_waits_for_success:
  fixes P :: "'w \<Rightarrow> bool"
  assumes steps: "appWorkflow (appSpec app) = Some steps" "steps \<noteq> []"
    and run: "ExecuteSteps C app rv objects w = Some (((d, e), app'), w')" "apWorkflow (appStatus app') = Some sts"
    and keeps: "\<And>k v. k < length sts \<or> k = length sts \<and> e \<noteq> None \<Longrightarrow> k < length steps \<Longrightarrow> P v \<Longrightarrow>
      P (snd (applyWorkflowStep C (step_object app (steps ! k) (objects ! k)) (step_context app rv k) v))"
    and start: "P w"
  shows "P w' \<and> (\<forall>k. Suc k < length sts \<longrightarrow> ssPhase (sts ! k) = WorkflowStepPhaseSucceeded)"
proof -
  let ?app = "app\<lparr>appStatus := (appStatus app)\<lparr>apPhase := ApplicationRunningWorkflow, apWorkflow := Some []\<rparr>\<rparr>"
  have exec: "execute_steps C rv objects 0 steps ?app w = Some (((d, e), app'), w')"
    using steps run by (simp add: ExecuteSteps_def)
  have same: "step_object ?app s obj = step_object app s obj" "step_context ?app rv k = step_context app rv k" for s obj k
    by (simp_all add: step_object_def step_context_def app_owner_ref_def)
  have "P w'"
    by (rule execute_steps_keeps [where P = P and sts = sts and past = "[]", OF _ exec start]) (use run keeps in \<open>simp_all add: same\<close>)
  moreover from execute_steps_runs [OF exec, of "[]"] run have "workflow_run steps sts d e" by auto
  ultimately show ?thesis using workflow_run_shape(3) by blast
qed

text \<open>
  A step counts as succeeded only on a progress condition that is true, gives the reason, and
  was observed at the generation that the object has now; a condition of an older generation leaves
  the step running.
\<close>

theorem step_succeeded_iff:
  assumes "syncWorkflowStatus C step obj = Inr st"
  shows "ssPhase st = WorkflowStepPhaseSucceeded \<longleftrightarrow>
         (\<exists>c. GetUnstructuredObjectStatusCondition C obj CondTypeWorkflowFinish = Inr (Some c) \<and>
            ocStatus c = CondStatusTrue \<and> ocReason c = CondReasonSucceeded \<and>
            parseGeneration C (ocMessage c) = Inr (apGeneration C obj))"
  using assms by (auto simp: syncWorkflowStatus_def Let_def cond_reasons split: sum.splits option.splits if_splits)

section \<open>Examples\<close>

text \<open>A server on which every object is new, and a workflow of two steps without conditions.\<close>

definition workflow_client :: "(unstructured \<Rightarrow> (string + object_condition) list option) \<Rightarrow> kube_world app_client" where
  "workflow_client conds =
     (history_client [] [])\<lparr>apReconciler := example_reconciler\<lparr>rcAssembler :=
         rollout_assembler\<lparr>asKube := example_kube\<lparr>kGet := \<lambda>v k n w. (Inl not_found, w)\<rparr>\<rparr>\<rparr>,
       apConditionsOf := \<lambda>u. Inr (conds u)\<rparr>"

definition workflow_app :: application where
  "workflow_app = (history_app ''app-v4'')\<lparr>appSpec := (appSpec (history_app ''app-v4''))\<lparr>appWorkflow :=
     Some [\<lparr>wsName = ''first'', wsType = ''job''\<rparr>, \<lparr>wsName = ''second'', wsType = ''job''\<rparr>]\<rparr>\<rparr>"

abbreviation workflow_objects :: "unstructured list" where
  "workflow_objects \<equiv> [example_object ''v1'' ''Job'' '''', example_object ''v1'' ''Job'' '''']"

definition progress :: "string \<Rightarrow> (string + object_condition) list option" where
  "progress r = Some [Inr \<lparr>ocType = CondTypeWorkflowFinish, ocStatus = CondStatusTrue, ocReason = r, ocMessage = ''1''\<rparr>]"

lemma workflow_app_steps:
  "appWorkflow (appSpec workflow_app) = Some [\<lparr>wsName = ''first'', wsType = ''job''\<rparr>, \<lparr>wsName = ''second'', wsType = ''job''\<rparr>]"
  "appNamespace workflow_app = ''default''"
  by (simp_all add: workflow_app_def history_app_def)

lemma workflow_apply:
  "\<exists>u. applyWorkflowStep (workflow_client conds) (step_object workflow_app s (example_object v k '''')) ctx w = ((None, u), kw_store u w) \<and>
     object_ref u = \<lparr>refAPIVersion = v, refKind = k, refName = wsName s, refNamespace = ''default''\<rparr>"
  by (simp add: applyWorkflowStep_def addWorkflowContextToAnnotation_def workflow_client_def history_client_def
      step_object_def workflow_app_steps Apply_def createOrGetExisting_def applyCreate_def addLastAppliedConfigAnnotation_def
      getModifiedConfiguration_def example_kube_def example_object_def object_ref_def not_found_def Let_def)

theorem workflow_in_order_witness:
  "\<exists>d e app' w' sts. ExecuteSteps (workflow_client (\<lambda>u. progress CondReasonSucceeded)) workflow_app ''app-v4'' workflow_objects empty_world =
       Some (((d, e), app'), w') \<and> apWorkflow (appStatus app') = Some sts \<and> length sts \<le> 2"
proof -
  have "appWorkflow (appSpec workflow_app) = Some [\<lparr>wsName = ''first'', wsType = ''job''\<rparr>, \<lparr>wsName = ''second'', wsType = ''job''\<rparr>]"
    by (rule workflow_app_steps)
  from workflow_in_order [OF this, of workflow_objects "workflow_client (\<lambda>u. progress CondReasonSucceeded)" "''app-v4''" empty_world]
  show ?thesis by auto
qed

theorem step_succeeded_iff_witness:
  "\<exists>st. syncWorkflowStatus (workflow_client (\<lambda>u. progress CondReasonSucceeded)) \<lparr>wsName = ''first'', wsType = ''job''\<rparr>
      (example_object ''v1'' ''Job'' '''') = Inr st \<and> ssPhase st = WorkflowStepPhaseSucceeded"
proof -
  let ?C = "workflow_client (\<lambda>u. progress CondReasonSucceeded)" and ?o = "example_object ''v1'' ''Job'' ''''"
  have cond: "GetUnstructuredObjectStatusCondition ?C ?o CondTypeWorkflowFinish =
      Inr (Some \<lparr>ocType = CondTypeWorkflowFinish, ocStatus = CondStatusTrue, ocReason = CondReasonSucceeded, ocMessage = ''1''\<rparr>)"
    by (simp add: GetUnstructuredObjectStatusCondition_def workflow_client_def progress_def)
  moreover have gen: "parseGeneration ?C m = Inr 1" "apGeneration ?C u = 1" for m u
    by (simp_all add: parseGeneration_def workflow_client_def history_client_def)
  ultimately obtain st where st: "syncWorkflowStatus ?C \<lparr>wsName = ''first'', wsType = ''job''\<rparr> ?o = Inr st"
    by (simp add: syncWorkflowStatus_def)
  from step_succeeded_iff [OF st] cond gen st show ?thesis by auto
qed

text \<open>The first step has no condition yet, so the second one is not created.\<close>

theorem workflow_waits_for_success_witness:
  "\<exists>d e app' w. ExecuteSteps (workflow_client (\<lambda>u. None)) workflow_app ''app-v4'' workflow_objects empty_world = Some (((d, e), app'), w) \<and>
     kwObjects w \<lparr>refAPIVersion = ''v1'', refKind = ''Job'', refName = ''second'', refNamespace = ''default''\<rparr> = None"
proof -
  let ?C = "workflow_client (\<lambda>u. None)" and ?second = "\<lparr>refAPIVersion = ''v1'', refKind = ''Job'', refName = ''second'', refNamespace = ''default''\<rparr>"
  let ?P = "\<lambda>w. kwObjects w ?second = None"
  have sync: "\<exists>st. syncWorkflowStatus ?C s u = Inr st \<and> ssPhase st = WorkflowStepPhaseRunning" for s u
    by (simp add: syncWorkflowStatus_def GetUnstructuredObjectStatusCondition_def workflow_client_def)
  let ?app = "workflow_app\<lparr>appStatus := (appStatus workflow_app)\<lparr>apPhase := ApplicationRunningWorkflow, apWorkflow := Some []\<rparr>\<rparr>"
  have same: "step_object ?app s obj = step_object workflow_app s obj" for s obj
    by (simp add: step_object_def app_owner_ref_def)
  obtain u where u: "applyWorkflowStep ?C (step_object workflow_app \<lparr>wsName = ''first'', wsType = ''job''\<rparr> (example_object ''v1'' ''Job'' ''''))
      (step_context ?app ''app-v4'' 0) empty_world = ((None, u), kw_store u empty_world)"
    using workflow_apply by blast
  from sync obtain st where "syncWorkflowStatus ?C \<lparr>wsName = ''first'', wsType = ''job''\<rparr> u = Inr st" "ssPhase st = WorkflowStepPhaseRunning"
    by blast
  with u have run: "ExecuteSteps ?C workflow_app ''app-v4'' workflow_objects empty_world =
      Some (((False, None), add_step_status st ?app), kw_store u empty_world)"
    by (simp add: ExecuteSteps_def workflow_app_steps same)
  have sts: "apWorkflow (appStatus (add_step_status st ?app)) = Some [st]" by (simp add: add_step_status_def)
  have keeps: "?P (snd (applyWorkflowStep ?C (step_object workflow_app ([\<lparr>wsName = ''first'', wsType = ''job''\<rparr>, \<lparr>wsName = ''second'', wsType = ''job''\<rparr>] ! k)
      (workflow_objects ! k)) (step_context workflow_app ''app-v4'' k) v))"
    if "k < length [st] \<or> k = length [st] \<and> (None :: string option) \<noteq> None" "?P v" for k v
    using that workflow_apply [of "\<lambda>u. None" "\<lparr>wsName = ''first'', wsType = ''job''\<rparr>" "''v1''" "''Job''" "step_context workflow_app ''app-v4'' k" v]
    by (auto simp: kw_store_def)
  have "?P (kw_store u empty_world) \<and> (\<forall>k. Suc k < length [st] \<longrightarrow> ssPhase ([st] ! k) = WorkflowStepPhaseSucceeded)"
    by (rule workflow_waits_for_success [where P = ?P, OF workflow_app_steps(1) _ run sts])
       (use keeps in \<open>auto simp: empty_world_def\<close>)
  with run show ?thesis by blast
qed

end
