(* ===== verification/App_Controller.thy ===== *)
theory App_Controller
  imports App_History Workflow
begin

text \<open>
  The controller of applications, application/application_controller.go and apply.go: finalizers,
  applying the manifests or saving them in a config map, the health of the components, the rollout
  that an application carries itself, and Reconcile.

  \<open>None\<close> is a panic.  The local variables of Reconcile are the fields of the record \<open>app_run\<close>; a
  block of Reconcile is a function on it that gives the result when Reconcile returns there.
\<close>

section \<open>Applying the manifests\<close>

definition ConfigMapKeyResources :: string where "ConfigMapKeyResources = ''resources''"

text \<open>util.MustJSONMarshal panics where json.Marshal fails.\<close>

fun marshal_all :: "'w kube \<Rightarrow> unstructured list \<Rightarrow> string option" where
  "marshal_all K [] = Some ''''"
| "marshal_all K (u # us) =
     (case kMarshal K u of
        Inl err \<Rightarrow> None
      | Inr s \<Rightarrow> map_option (\<lambda>t. s @ t) (marshal_all K us))"

definition resource_named :: "string \<Rightarrow> string \<Rightarrow> unstructured \<Rightarrow> unstructured" where
  "resource_named name ns u = u\<lparr>uName := name, uNamespace := ns\<rparr>"

text \<open>The workloads of the components that are ready; a component without one panics.\<close>

definition config_workloads :: "string \<Rightarrow> component_manifest list \<Rightarrow> unstructured list option" where
  "config_workloads ns comps =
     those (map (\<lambda>c. map_option (resource_named (cmName c) ns) (cmStandardWorkload c))
       (filter (\<lambda>c. \<not> cmInsertConfigNotReady c) comps))"

definition config_traits :: "string \<Rightarrow> component_manifest list \<Rightarrow> unstructured list" where
  "config_traits ns comps =
     concat (map (\<lambda>c. map (resource_named (cmName c) ns) (cmTraits c)) (filter (\<lambda>c. \<not> cmInsertConfigNotReady c) comps))"

definition createResourcesConfigMap ::
  "'w app_client \<Rightarrow> app_revision \<Rightarrow> component_manifest list \<Rightarrow> unstructured list \<Rightarrow> 'w \<Rightarrow> (string option \<times> 'w) option" where
  "createResourcesConfigMap C appRev comps policies w = do {
     workloads \<leftarrow> config_workloads (revNamespace appRev) comps;
     buf \<leftarrow> marshal_all (apKube C) (workloads @ config_traits (revNamespace appRev) comps @ policies);
     let cm = \<lparr>cfName = revName appRev, cfNamespace = revNamespace appRev, cfOwner = revName appRev, cfResources = buf\<rparr>;
     Some (case apGetConfigMap C (revNamespace appRev, revName appRev) w of
             (None, w) \<Rightarrow> (None, w)
           | (Some err, w) \<Rightarrow>
               if \<not> errNotFound err then (Some (errText err), w)
               else (case apCreateConfigMap C cm w of (err, w) \<Rightarrow> (map_option errText err, w)))
   }"

definition latest_tracker :: "application \<Rightarrow> resource_tracker option" where
  "latest_tracker app =
     map_option (\<lambda>l. \<lparr>rtName = ConstructResourceTrackerName (latestName l) (appNamespace app), rtUID = '''',
                     rtLabels = None, rtTrackedResources = None\<rparr>) (apLatestRevision (appStatus app))"

text \<open>
  The dispatch of the packaged resources.  What a dispatch changes in the dispatcher is set anew by
  the next one, so each starts from the same.
\<close>

fun dispatch_packaged ::
  "'w app_client \<Rightarrow> dispatcher \<Rightarrow> component_manifest list \<Rightarrow> 'w \<Rightarrow> (string option \<times> 'w) option" where
  "dispatch_packaged C d [] w = Some (None, w)"
| "dispatch_packaged C d (c # comps) w =
     (if length (cmPackagedWorkloadResources c) \<noteq> 0 then
        (case Dispatch (apKube C) d (cmPackagedWorkloadResources c) w of
           None \<Rightarrow> None
         | Some (Inl err, w) \<Rightarrow> Some (Some (errors_Wrap err ''cannot dispatch packaged workload resources''), w)
         | Some (Inr rt, w) \<Rightarrow> dispatch_packaged C d comps w)
      else dispatch_packaged C d comps w)"

definition only_revision :: "application \<Rightarrow> bool" where
  "only_revision app \<longleftrightarrow>
     (case appWorkflow (appSpec app) of None \<Rightarrow> False | Some steps \<Rightarrow> length steps > 0) \<or>
     map_get (appAnnotations app) AnnotationAppRevisionOnly = ''true''"

definition applyAppManifests ::
  "'w app_client \<Rightarrow> app_handler \<Rightarrow> component_manifest list \<Rightarrow> unstructured list \<Rightarrow> 'w \<Rightarrow> (string option \<times> 'w) option" where
  "applyAppManifests C h comps policies w =
     (if only_revision (ahApp h) then do {
        appRev \<leftarrow> ahCurrentAppRev h;
        createResourcesConfigMap C (roRevision appRev) comps policies w
      }
      else if appWillRollout (ahApp h) then Some (None, w)
      else do {
        let latestTracker = latest_tracker (ahApp h);
        d \<leftarrow> NewAppManifestsDispatcher (map_option roRevision (ahCurrentAppRev h));
        let d = StartAndSkipGC latestTracker d;
        appRev \<leftarrow> ahCurrentAppRev h;
        (err, w) \<leftarrow> dispatch_packaged C d comps w;
        (case err of
           Some err \<Rightarrow> Some (Some err, w)
         | None \<Rightarrow>
             (let A = rcAssembler (apReconciler C);
                  a = WithWorkloadOption (discoverHelmModuleWorkload A) (NewAppManifests (roRevision appRev))
              in case AssembledManifests A a w of
                   ((Inl err, a), w) \<Rightarrow> Some (Some (errors_Wrap err ''cannot assemble application manifests''), w)
                 | ((Inr manifests, a), w) \<Rightarrow>
                     (case Dispatch (apKube C) (EndAndGC latestTracker d) manifests w of
                        None \<Rightarrow> None
                      | Some (Inl err, w) \<Rightarrow> Some (Some (errors_Wrap err ''cannot dispatch application manifests''), w)
                      | Some (Inr rt, w) \<Rightarrow> Some (None, w))))
      })"

section \<open>Health\<close>

definition generateScopeReference :: "object_reference list \<Rightarrow> object_reference list" where
  "generateScopeReference scopes =
     map (\<lambda>scope. \<lparr>objKind = objKind scope, objName = objName scope, objAPIVersion = objAPIVersion scope\<rparr>) scopes"

definition component_error :: "'w appfile \<Rightarrow> 'w app_workload \<Rightarrow> string \<Rightarrow> string \<Rightarrow> string" where
  "component_error af wl what err = errors_Wrap err (''app='' @ afName af @ '', comp='' @ awName wl @ '', '' @ what)"

text \<open>The traits of a component: their statuses, and whether all are healthy; a nil trait panics.\<close>

fun trait_statuses ::
  "'w appfile \<Rightarrow> 'w app_workload \<Rightarrow> 'w app_trait option list \<Rightarrow> 'w \<Rightarrow> ((string + trait_status list \<times> bool) \<times> 'w) option" where
  "trait_statuses af wl [] w = Some (Inr ([], True), w)"
| "trait_statuses af wl (None # trs) w = None"
| "trait_statuses af wl (Some tr # trs) w =
     (let E = atEvaluations tr; failed = (\<lambda>what err. component_error af wl (''trait='' @ atName tr @ '', '' @ what) err) in
      case evContext E w of
        (Some err, w) \<Rightarrow> Some (Inl (failed ''evaluate context error'' err), w)
      | (None, w) \<Rightarrow>
          (case evHealth E w of
             (Inl err, w) \<Rightarrow> Some (Inl (failed ''check health error'' err), w)
           | (Inr traitHealth, w) \<Rightarrow>
               (case evStatus E w of
                  (Inl err, w) \<Rightarrow> Some (Inl (failed ''evaluate status message error'' err), w)
                | (Inr message, w) \<Rightarrow>
                    (case trait_statuses af wl trs w of
                       None \<Rightarrow> None
                     | Some (Inl err, w) \<Rightarrow> Some (Inl err, w)
                     | Some (Inr (sts, healthy), w) \<Rightarrow>
                         Some (Inr (\<lparr>tsType = atName tr, tsHealthy = traitHealth, tsMessage = message\<rparr> # sts,
                                    traitHealth \<and> healthy), w)))))"

text \<open>The workload itself: whether it is healthy, and its message.\<close>

definition workload_status ::
  "'w app_client \<Rightarrow> application \<Rightarrow> 'w appfile \<Rightarrow> 'w app_workload \<Rightarrow> 'w \<Rightarrow> (string + bool \<times> string) \<times> 'w" where
  "workload_status C app af wl w =
     (if awTerraform wl then
        (case apGetConfiguration C (appNamespace app, awName wl) w of
           (Inl err, w) \<Rightarrow> (Inl (component_error af wl ''check health error'' (errText err)), w)
         | (Inr (available, message), w) \<Rightarrow> (Inr (available, message), w))
      else
        (case evContext (awEvaluations wl) w of
           (Some err, w) \<Rightarrow> (Inl (component_error af wl ''evaluate context error'' err), w)
         | (None, w) \<Rightarrow>
             (case evHealth (awEvaluations wl) w of
                (Inl err, w) \<Rightarrow> (Inl (component_error af wl ''check health error'' err), w)
              | (Inr workloadHealth, w) \<Rightarrow>
                  (case evStatus (awEvaluations wl) w of
                     (Inl err, w) \<Rightarrow> (Inl (component_error af wl ''evaluate workload status message error'' err), w)
                   | (Inr message, w) \<Rightarrow> (Inr (workloadHealth, message), w)))))"

text \<open>
  One component: its status, and whether it and its traits are healthy.  A component that produces
  secrets puts them into a context that is nil.
\<close>

definition component_health ::
  "'w app_client \<Rightarrow> application \<Rightarrow> 'w appfile \<Rightarrow> 'w app_workload option \<Rightarrow> 'w \<Rightarrow>
     ((string + component_status \<times> bool) \<times> 'w) option" where
  "component_health C app af wl w =
     (case wl of
        None \<Rightarrow> None
      | Some wl \<Rightarrow>
          (let status = \<lparr>svName = awName wl, svDefinition = awReference wl, svHealthy = True, svMessage = '''',
                         svTraits = [], svScopes = []\<rparr>
           in if awConfigNotReady wl then
                Some (Inr (status\<lparr>svHealthy := False, svMessage := ''secrets or configs not ready''\<rparr>, False), w)
              else if awIsSecretProducer wl then
                (case awOutputSecretNames wl of
                   Inl err \<Rightarrow> Some (Inl (component_error af wl ''setting outputSecretName error'' err), w)
                 | Inr outputSecretName \<Rightarrow> None)
              else
                (case workload_status C app af wl w of
                   (Inl err, w) \<Rightarrow> Some (Inl err, w)
                 | (Inr (healthy, message), w) \<Rightarrow>
                     (case trait_statuses af wl (awTraits wl) w of
                        None \<Rightarrow> None
                      | Some (Inl err, w) \<Rightarrow> Some (Inl err, w)
                      | Some (Inr (sts, traits), w) \<Rightarrow>
                          Some (Inr (status\<lparr>svHealthy := healthy, svMessage := message, svTraits := sts,
                                       svScopes := generateScopeReference (awScopes wl)\<rparr>, healthy \<and> traits), w)))))"

fun component_statuses ::
  "'w app_client \<Rightarrow> application \<Rightarrow> 'w appfile \<Rightarrow> 'w app_workload option list \<Rightarrow> 'w \<Rightarrow>
     ((string + component_status list \<times> bool) \<times> 'w) option" where
  "component_statuses C app af [] w = Some (Inr ([], True), w)"
| "component_statuses C app af (wl # wls) w =
     (case component_health C app af wl w of
        None \<Rightarrow> None
      | Some (Inl err, w) \<Rightarrow> Some (Inl err, w)
      | Some (Inr (status, healthy), w) \<Rightarrow>
          (case component_statuses C app af wls w of
             None \<Rightarrow> None
           | Some (Inl err, w) \<Rightarrow> Some (Inl err, w)
           | Some (Inr (sts, rest), w) \<Rightarrow> Some (Inr (status # sts, healthy \<and> rest), w)))"

definition aggregateHealthStatus ::
  "'w app_client \<Rightarrow> application \<Rightarrow> 'w appfile \<Rightarrow> 'w \<Rightarrow> ((string + component_status list \<times> bool) \<times> 'w) option" where
  "aggregateHealthStatus C app af w = component_statuses C app af (afWorkloads af) w"

section \<open>The rollout of an application\<close>

text \<open>The result, the handler with the status written back, the events and the world.\<close>

definition embedded_rollout :: "application \<Rightarrow> string \<Rightarrow> rollout_plan \<Rightarrow> app_rollout" where
  "embedded_rollout app targetRevision plan =
     (let target = fst (ExtractRevisionNum targetRevision CHR ''-'');
          srcRevision = (if target > 1 then ConstructRevisionName (appName app) (i64 (target - 1)) else '''')
      in \<lparr>arName = appName app, arNamespace = appNamespace app, arUID = appUID app, arFinalizers = [], arDeleting = False,
          arSpec = \<lparr>TargetAppRevisionName = targetRevision, SourceAppRevisionName = srcRevision,
                    ComponentList = appComponents (appSpec app), RolloutPlan = plan, RevertOnDelete = False\<rparr>,
          arStatus = apRollout (appStatus app)\<rparr>)"

definition handleRollout ::
  "'w app_client \<Rightarrow> application \<Rightarrow> rec_event list \<Rightarrow> 'w \<Rightarrow> ((reconcile_result \<times> application) \<times> rec_event list \<times> 'w) option" where
  "handleRollout C app es w = do {
     l \<leftarrow> apLatestRevision (appStatus app);
     plan \<leftarrow> appRolloutPlan (appSpec app);
     ((requeue, err), h) \<leftarrow> DoReconcile (apReconciler C) (embedded_rollout app (latestName l) plan) es w;
     Some (case err of
             Some err \<Rightarrow> (((0, Some err), app), hRecorded h, hWorld h)
           | None \<Rightarrow>
               (((requeue, None), app\<lparr>appStatus := (appStatus app)\<lparr>apRollout := arStatus (hAppRollout h)\<rparr>\<rparr>),
                hRecorded h, hWorld h))
   }"

section \<open>Conditions and the end of a reconcile\<close>

definition patchStatus :: "'w app_client \<Rightarrow> application \<Rightarrow> 'w \<Rightarrow> (api_error option \<times> application) \<times> 'w" where
  "patchStatus C app w = apPatchStatus C app w"

definition errorCondition :: "'w app_client \<Rightarrow> string \<Rightarrow> string \<Rightarrow> 'w \<Rightarrow> app_condition" where
  "errorCondition C tpy err w =
     \<lparr>acdType = tpy, acdStatus = False, acdReason = apReasonReconcileError C, acdMessage = err, acdTime = apNow C w\<rparr>"

definition readyCondition :: "'w app_client \<Rightarrow> string \<Rightarrow> 'w \<Rightarrow> app_condition" where
  "readyCondition C tpy w =
     \<lparr>acdType = tpy, acdStatus = True, acdReason = apReasonAvailable C, acdMessage = '''', acdTime = apNow C w\<rparr>"

definition set_condition :: "'w app_client \<Rightarrow> app_condition \<Rightarrow> application \<Rightarrow> application" where
  "set_condition C c app = app\<lparr>appStatus := (appStatus app)\<lparr>apConditions := apSetConditions C c (apConditions (appStatus app))\<rparr>\<rparr>"

definition set_app_phase :: "app_phase \<Rightarrow> application \<Rightarrow> application" where
  "set_app_phase p app = app\<lparr>appStatus := (appStatus app)\<lparr>apPhase := p\<rparr>\<rparr>"

definition endWithNegativeCondition ::
  "'w app_client \<Rightarrow> application \<Rightarrow> app_condition \<Rightarrow> 'w \<Rightarrow> (reconcile_result \<times> application) \<times> 'w" where
  "endWithNegativeCondition C app condition w =
     (case patchStatus C (set_condition C condition app) w of
        ((Some err, app), w) \<Rightarrow> (((0, Some (errors_Wrap (errText err) ''cannot update application status'')), app), w)
      | ((None, app), w) \<Rightarrow> (((0, Some ''object level reconcile error''), app), w))"

section \<open>Finalizers\<close>

definition errUpdateApplicationFinalizer :: string where
  "errUpdateApplicationFinalizer = ''cannot update application finalizer''"
definition legacyResourceTrackerFinalizer :: string where
  "legacyResourceTrackerFinalizer = ''resourceTracker.finalizer.core.oam.dev''"
definition resourceTrackerFinalizer :: string where
  "resourceTrackerFinalizer = ''app.oam.dev/resource-tracker-finalizer''"
definition onlyRevisionFinalizer :: string where
  "onlyRevisionFinalizer = ''app.oam.dev/only-revision-finalizer''"

definition update_finalizers ::
  "'w app_client \<Rightarrow> application \<Rightarrow> string list \<Rightarrow> 'w \<Rightarrow> (bool \<times> string option) \<times> application \<times> 'w" where
  "update_finalizers C app fs w =
     (case apUpdateApp C (app\<lparr>appFinalizers := fs\<rparr>) w of
        ((err, app), w) \<Rightarrow>
          ((True, map_option (\<lambda>e. errors_Wrap (errText e) errUpdateApplicationFinalizer) err), app, w))"

definition named_tracker :: "string \<Rightarrow> resource_tracker" where
  "named_tracker n = \<lparr>rtName = n, rtUID = '''', rtLabels = None, rtTrackedResources = None\<rparr>"

text \<open>Deletes trackers, until an error other than that one is gone.\<close>

fun delete_trackers :: "'w app_client \<Rightarrow> resource_tracker list \<Rightarrow> 'w \<Rightarrow> string option \<times> 'w" where
  "delete_trackers C [] w = (None, w)"
| "delete_trackers C (rt # rts) w =
     (case kDeleteTracker (apKube C) rt w of
        (err, w) \<Rightarrow>
          (case ignore_NotFound err of
             Some e \<Rightarrow> (Some (errors_Wrap (errText e) ''cannot remove finalizer''), w)
           | None \<Rightarrow> delete_trackers C rts w))"

text \<open>Whether the reconcile ends here, the error, and the application.\<close>

definition handleFinalizers ::
  "'w app_client \<Rightarrow> application \<Rightarrow> 'w \<Rightarrow> (bool \<times> string option) \<times> application \<times> 'w" where
  "handleFinalizers C app w =
     (let R = apReconciler C; fs = appFinalizers app; exists = rcFinalizerExists R fs;
          add = (\<lambda>f. update_finalizers C app (rcAddFinalizer R fs f) w);
          release = (\<lambda>f rts. case delete_trackers C rts w of
              (Some err, w) \<Rightarrow> ((True, Some err), app, w)
            | (None, w) \<Rightarrow> update_finalizers C app (rcRemoveFinalizer R fs f) w)
      in if \<not> appDeleting app then
           (if \<not> exists resourceTrackerFinalizer then add resourceTrackerFinalizer
            else if appWillRollout app \<and> \<not> exists onlyRevisionFinalizer then add onlyRevisionFinalizer
            else ((False, None), app, w))
         else if exists legacyResourceTrackerFinalizer then
           release legacyResourceTrackerFinalizer [named_tracker (appNamespace app @ CHR ''-'' # appName app)]
         else if exists resourceTrackerFinalizer then
           release resourceTrackerFinalizer
             (case apLatestRevision (appStatus app) of
                None \<Rightarrow> []
              | Some l \<Rightarrow> if length (latestName l) \<noteq> 0
                          then [named_tracker (ConstructResourceTrackerName (latestName l) (appNamespace app))] else [])
         else if exists onlyRevisionFinalizer then
           (case apListTrackers C None [(LabelAppName, appName app), (LabelAppNamespace, appNamespace app)] w of
              (Inl err, w) \<Rightarrow> ((True, Some (errors_Wrap (errText err) ''cannot remove finalizer'')), app, w)
            | (Inr rts, w) \<Rightarrow>
                (case delete_trackers C rts w of
                   (Some err, w) \<Rightarrow> ((True, Some err), app, w)
                 | (None, w) \<Rightarrow> update_finalizers C app (rcRemoveFinalizer R fs onlyRevisionFinalizer) w))
         else ((False, None), app, w))"

section \<open>Reconcile\<close>

record 'w app_run =
  runHandler :: app_handler
  runEvents :: "rec_event list"
  runWorld :: 'w
  runAppfile :: "'w appfile"
  runComps :: "component_manifest list"
  runPolicies :: "unstructured list"
  runSteps :: "unstructured list"

abbreviation runApp :: "'w app_run \<Rightarrow> application" where "runApp s \<equiv> ahApp (runHandler s)"

type_synonym 'w stage = "'w app_run \<Rightarrow> (reconcile_result option \<times> 'w app_run) option"

definition next_stage :: "'w stage \<Rightarrow> 'w stage \<Rightarrow> 'w stage" where
  "next_stage f g s =
     (case f s of None \<Rightarrow> None | Some (Some res, s) \<Rightarrow> Some (Some res, s) | Some (None, s) \<Rightarrow> g s)"

definition on_app :: "(application \<Rightarrow> application) \<Rightarrow> 'w app_run \<Rightarrow> 'w app_run" where
  "on_app f s = s\<lparr>runHandler := (runHandler s)\<lparr>ahApp := f (runApp s)\<rparr>\<rparr>"

definition record_event :: "rec_event \<Rightarrow> 'w app_run \<Rightarrow> 'w app_run" where
  "record_event e s = s\<lparr>runEvents := runEvents s @ [e]\<rparr>"

definition end_negative :: "'w app_client \<Rightarrow> app_condition \<Rightarrow> 'w stage" where
  "end_negative C c s =
     (case endWithNegativeCondition C (runApp s) c (runWorld s) of
        ((res, app), w) \<Rightarrow> Some (Some res, (on_app (\<lambda>_. app) s)\<lparr>runWorld := w\<rparr>))"

text \<open>The idioms of a failed block: an event and a condition, or the condition ReconcileError.\<close>

definition failed_stage :: "'w app_client \<Rightarrow> string \<Rightarrow> string \<Rightarrow> string \<Rightarrow> 'w stage" where
  "failed_stage C reason tpy err s =
     end_negative C (errorCondition C tpy err (runWorld s)) (record_event (WarningEvent reason err) s)"

definition reconcile_error :: "'w app_client \<Rightarrow> string \<Rightarrow> 'w stage" where
  "reconcile_error C err s = end_negative C (apReconcileError C err (apNow C (runWorld s))) s"

definition ready_stage :: "'w app_client \<Rightarrow> string \<Rightarrow> rec_event \<Rightarrow> 'w stage" where
  "ready_stage C tpy e s =
     Some (None, record_event e (on_app (set_condition C (readyCondition C tpy (runWorld s))) s))"

definition stage_parse :: "'w app_client \<Rightarrow> 'w stage" where
  "stage_parse C s =
     (let s = on_app (set_app_phase ApplicationRendering) s in
      case apGenerateAppFile C (runApp s) (runWorld s) of
        (Inl err, w) \<Rightarrow> failed_stage C ''FailedParse'' ''Parsed'' err (s\<lparr>runWorld := w\<rparr>)
      | (Inr af, w) \<Rightarrow>
          ready_stage C ''Parsed'' (NormalEvent ''Parsed'' ''Parsed successfully'') (s\<lparr>runWorld := w, runAppfile := af\<rparr>))"

definition stage_prepare :: "'w app_client \<Rightarrow> 'w stage" where
  "stage_prepare C s =
     (case prepareCurrentAppRevision C (runHandler s) (runAppfile s) (runWorld s) of
        None \<Rightarrow> None
      | Some ((err, h, af), w) \<Rightarrow>
          (let s = s\<lparr>runHandler := h, runAppfile := af, runWorld := w\<rparr> in
           case err of
             Some err \<Rightarrow> failed_stage C ''FailedRevision'' ''Revision'' err s
           | None \<Rightarrow> Some (None, s)))"

definition stage_render :: "'w app_client \<Rightarrow> 'w stage" where
  "stage_render C s =
     (case apGenerateManifests C (runAppfile s) (runWorld s) of
        (Inl err, w) \<Rightarrow> failed_stage C ''FailedRender'' ''Render'' err (s\<lparr>runWorld := w\<rparr>)
      | (Inr comps, w) \<Rightarrow>
          (case handleComponentsRevision C (runApp s) comps w of
             None \<Rightarrow> None
           | Some ((err, comps), w) \<Rightarrow>
               (let s = s\<lparr>runComps := comps, runWorld := w\<rparr> in
                case err of
                  Some err \<Rightarrow> failed_stage C ''FailedRevision'' ''Render'' err s
                | None \<Rightarrow> Some (None, s))))"

definition stage_record :: "'w app_client \<Rightarrow> 'w stage" where
  "stage_record C s =
     (case finalizeAndApplyAppRevision C (runHandler s) (runComps s) (runWorld s) of
        None \<Rightarrow> None
      | Some ((err, h), w) \<Rightarrow>
          (let s = s\<lparr>runHandler := h, runWorld := w\<rparr> in
           case err of
             Some err \<Rightarrow> failed_stage C ''FailedRevision'' ''Revision'' err s
           | None \<Rightarrow> ready_stage C ''Revision'' (NormalEvent ''Revisioned'' ''Revisioned successfully'') s))"

definition stage_policies :: "'w app_client \<Rightarrow> 'w stage" where
  "stage_policies C s =
     (case apGenerateWorkflow C (runAppfile s) (runWorld s) of
        (Inl err, w) \<Rightarrow> failed_stage C ''FailedRender'' ''Render'' err (s\<lparr>runWorld := w\<rparr>)
      | (Inr (policies, wfSteps), w) \<Rightarrow>
          ready_stage C ''Render'' (NormalEvent ''Rendered'' ''Rendered successfully'')
            (s\<lparr>runPolicies := policies, runSteps := wfSteps, runWorld := w\<rparr>))"

definition stage_apply :: "'w app_client \<Rightarrow> 'w stage" where
  "stage_apply C s =
     (case applyAppManifests C (runHandler s) (runComps s) (runPolicies s) (runWorld s) of
        None \<Rightarrow> None
      | Some (Some err, w) \<Rightarrow> failed_stage C ''FailedApply'' ''Applied'' err (s\<lparr>runWorld := w\<rparr>)
      | Some (None, w) \<Rightarrow>
          (case updateAppLatestRevisionStatus C (runHandler s) w of
             None \<Rightarrow> None
           | Some ((err, h), w) \<Rightarrow>
               (let s = s\<lparr>runHandler := h, runWorld := w\<rparr> in
                case err of
                  Some err \<Rightarrow> reconcile_error C err s
                | None \<Rightarrow> ready_stage C ''Applied'' (NormalEvent ''Applied'' ''Applied successfully'') s)))"

definition WorkflowReconcileWaitTime :: int where "WorkflowReconcileWaitTime = 3"

definition stage_workflow :: "'w app_client \<Rightarrow> 'w stage" where
  "stage_workflow C s = do {
     current \<leftarrow> ahCurrentAppRev (runHandler s);
     (((done, err), app), w) \<leftarrow> ExecuteSteps C (runApp s) (revName (roRevision current)) (runSteps s) (runWorld s);
     let s = (on_app (\<lambda>_. app) s)\<lparr>runWorld := w\<rparr>;
     (case err of
        Some err \<Rightarrow> failed_stage C ''FailedWorkflow'' ''Workflow'' err s
      | None \<Rightarrow>
          if \<not> done then
            (case patchStatus C (runApp s) (runWorld s) of
               ((err, app), w) \<Rightarrow>
                 Some (Some (WorkflowReconcileWaitTime, map_option errText err), (on_app (\<lambda>_. app) s)\<lparr>runWorld := w\<rparr>))
          else Some (None, s))
   }"

definition stage_rollout :: "'w app_client \<Rightarrow> 'w stage" where
  "stage_rollout C s =
     (if appRolloutPlan (appSpec (runApp s)) = None then Some (None, s)
      else do {
        (((requeue, err), app), es, w) \<leftarrow> handleRollout C (runApp s) (runEvents s) (runWorld s);
        let s = (on_app (\<lambda>_. app) s)\<lparr>runEvents := es, runWorld := w\<rparr>;
        (case err of
           Some err \<Rightarrow> failed_stage C ''FailedRollout'' ''Rollout'' err s
         | None \<Rightarrow>
             if requeue > 0 then
               (let s = on_app (set_app_phase ApplicationRollingOut) s in
                case patchStatus C (runApp s) (runWorld s) of
                  ((Some err, app), w) \<Rightarrow> reconcile_error C (errText err) ((on_app (\<lambda>_. app) s)\<lparr>runWorld := w\<rparr>)
                | ((None, app), w) \<Rightarrow> Some (Some (requeue, None), (on_app (\<lambda>_. app) s)\<lparr>runWorld := w\<rparr>))
             else
               Some (None, on_app (set_condition C (readyCondition C ''Rollout'' (runWorld s)))
                 (record_event (NormalEvent ''Rollout'' ''Rollout successfully'') s)))
      })"

definition stage_health :: "'w app_client \<Rightarrow> 'w stage" where
  "stage_health C s =
     (let s = on_app (set_app_phase ApplicationHealthChecking) s in
      case aggregateHealthStatus C (runApp s) (runAppfile s) (runWorld s) of
        None \<Rightarrow> None
      | Some (Inl err, w) \<Rightarrow> failed_stage C ''FailedHealthCheck'' ''HealthCheck'' err (s\<lparr>runWorld := w\<rparr>)
      | Some (Inr (appCompStatus, healthy), w) \<Rightarrow>
          (let s = (on_app (\<lambda>app. app\<lparr>appStatus := (appStatus app)\<lparr>apServices := appCompStatus\<rparr>\<rparr>) s)\<lparr>runWorld := w\<rparr> in
           if \<not> healthy then
             (case patchStatus C (runApp s) (runWorld s) of
                ((Some err, app), w) \<Rightarrow> reconcile_error C (errText err) ((on_app (\<lambda>_. app) s)\<lparr>runWorld := w\<rparr>)
              | ((None, app), w) \<Rightarrow>
                  (let s = (on_app (\<lambda>_. app) s)\<lparr>runWorld := w\<rparr>
                   in end_negative C (errorCondition C ''HealthCheck'' ''not healthy'' (runWorld s)) s))
           else
             Some (None, on_app (set_app_phase ApplicationRunning)
               (record_event (NormalEvent ''HealthChecked'' ''Health checked healthy'')
                 (on_app (set_condition C (readyCondition C ''HealthCheck'' (runWorld s))) s)))))"

definition stage_collect :: "'w app_client \<Rightarrow> 'w stage" where
  "stage_collect C s =
     (case garbageCollection C (runHandler s) (runWorld s) of
        None \<Rightarrow> None
      | Some (Some err, w) \<Rightarrow>
          reconcile_error C err (record_event (WarningEvent ''FailedGC'' err) (s\<lparr>runWorld := w\<rparr>))
      | Some (None, w) \<Rightarrow>
          (let s = record_event (NormalEvent ''Deployed'' ''Deployed successfully'') (s\<lparr>runWorld := w\<rparr>) in
           case patchStatus C (runApp s) (runWorld s) of
             ((Some err, app), w) \<Rightarrow> reconcile_error C (errText err) ((on_app (\<lambda>_. app) s)\<lparr>runWorld := w\<rparr>)
           | ((None, app), w) \<Rightarrow> Some (Some (0, None), (on_app (\<lambda>_. app) s)\<lparr>runWorld := w\<rparr>)))"

definition reconcile_stages :: "'w app_client \<Rightarrow> 'w stage" where
  "reconcile_stages C =
     next_stage (stage_parse C) (next_stage (stage_prepare C) (next_stage (stage_render C)
       (next_stage (stage_record C) (next_stage (stage_policies C) (next_stage (stage_apply C)
         (next_stage (stage_workflow C) (next_stage (stage_rollout C) (next_stage (stage_health C)
           (stage_collect C)))))))))"

definition versioned :: "'w app_client \<Rightarrow> application \<Rightarrow> application" where
  "versioned C app =
     (if length (map_get (appAnnotations app) AnnotationKubeVelaVersion) = 0
      then app\<lparr>appAnnotations := MergeMapOverrideWithDst (appAnnotations app)
                 (Some [AnnotationKubeVelaVersion \<mapsto> apVelaVersion C])\<rparr>
      else app)"

definition start_run :: "application \<Rightarrow> 'w \<Rightarrow> 'w app_run" where
  "start_run app w =
     \<lparr>runHandler = \<lparr>ahApp = app, ahCurrentAppRev = None, ahLatestAppRev = None, ahIsNewRevision = False, ahCurrentRevHash = ''''\<rparr>,
      runEvents = [], runWorld = w,
      runAppfile = \<lparr>afName = '''', afNamespace = '''', afRevisionName = '''', afWorkloads = []\<rparr>,
      runComps = [], runPolicies = [], runSteps = []\<rparr>"

text \<open>The result, and the state at the end; no state when the application could not be read.\<close>

definition app_Reconcile :: "'w app_client \<Rightarrow> nsname \<Rightarrow> 'w \<Rightarrow> (reconcile_result \<times> ('w app_run option) \<times> 'w) option" where
  "app_Reconcile C req w =
     (case apGetApp C req w of
        (Inl err, w) \<Rightarrow> Some ((0, if errNotFound err then None else Some (errText err)), None, w)
      | (Inr app, w) \<Rightarrow>
          (case handleFinalizers C (versioned C app) w of
             ((endReconcile, err), app, w) \<Rightarrow>
               (let s = start_run app w in
                if endReconcile then
                  (case err of
                     Some err \<Rightarrow>
                       (case reconcile_error C err s of
                          Some (Some res, s) \<Rightarrow> Some (res, Some s, runWorld s)
                        | _ \<Rightarrow> None)
                   | None \<Rightarrow> Some ((0, None), Some s, w))
                else
                  (case reconcile_stages C s of
                     Some (Some res, s) \<Rightarrow> Some (res, Some s, runWorld s)
                   | _ \<Rightarrow> None))))"

lemmas stage_defs = stage_parse_def stage_prepare_def stage_render_def stage_record_def stage_policies_def stage_apply_def
  stage_workflow_def stage_rollout_def stage_health_def stage_collect_def

end
