(* ===== verification/App_Controller_Stages.thy ===== *)
theory App_Controller_Stages
  imports App_Controller App_History_Properties
begin

text \<open>
  The stages of a reconcile of an application: what each leaves of the application, when a stage that
  was given a failure ends, and the health of the components.
\<close>

section \<open>Health\<close>

definition all_healthy :: "component_status list \<Rightarrow> bool" where
  "all_healthy sts \<longleftrightarrow> (\<forall>st \<in> set sts. svHealthy st \<and> (\<forall>t \<in> set (svTraits st). tsHealthy t))"

text \<open>A component that is ready and produces secrets under names that can be read.\<close>

definition secret_producer :: "'w app_workload \<Rightarrow> bool" where
  "secret_producer wl \<longleftrightarrow> \<not> awConfigNotReady wl \<and> awIsSecretProducer wl \<and> (\<exists>n. awOutputSecretNames wl = Inr n)"

lemma trait_statuses_healthy:
  "trait_statuses af wl trs w = Some (Inr (sts, h), w') \<Longrightarrow>
     h = (\<forall>t \<in> set sts. tsHealthy t) \<and> map Some (map tsType sts) = map (map_option atName) trs"
  by (induction af wl trs w arbitrary: sts h rule: trait_statuses.induct)
     (auto simp: Let_def split: prod.splits option.splits sum.splits)

lemma component_health_healthy:
  assumes "component_health C app af wl w = Some (Inr (st, h), w')"
  shows "h = (svHealthy st \<and> (\<forall>t \<in> set (svTraits st). tsHealthy t))"
    and "\<exists>x. wl = Some x \<and> svName st = awName x \<and> \<not> secret_producer x"
  using assms
  by (auto simp: component_health_def secret_producer_def Let_def dest!: trait_statuses_healthy
      split: prod.splits option.splits sum.splits if_splits)

lemma component_statuses_healthy:
  "component_statuses C app af wls w = Some (Inr (sts, h), w') \<Longrightarrow>
     h = all_healthy sts \<and> map Some (map svName sts) = map (map_option awName) wls \<and>
     (\<forall>x. Some x \<in> set wls \<longrightarrow> \<not> secret_producer x)"
proof (induction C app af wls w arbitrary: sts h rule: component_statuses.induct)
  case (2 C app af wl wls w)
  from 2(2) obtain st a v rest b where
    one: "component_health C app af wl w = Some (Inr (st, a), v)"
    and more: "component_statuses C app af wls v = Some (Inr (rest, b), w')" "sts = st # rest" "h = (a \<and> b)"
    by (auto split: option.splits prod.splits sum.splits)
  from 2(1) [OF one refl refl refl more(1)] component_health_healthy [OF one] more(2,3) show ?case
    by (auto simp: all_healthy_def)
qed (simp add: all_healthy_def)

section \<open>Stages\<close>

text \<open>The merge patch of the status leaves in memory what was sent.\<close>

definition patch_echoes :: "'w app_client \<Rightarrow> bool" where
  "patch_echoes C \<longleftrightarrow> (\<forall>app w. snd (fst (apPatchStatus C app w)) = app)"

lemma patch_echoesD: "patch_echoes C \<Longrightarrow> apPatchStatus C app w = ((e, app'), w') \<Longrightarrow> app' = app"
  by (metis fst_conv snd_conv patch_echoes_def)

definition stage_keeps ::
  "'w stage \<Rightarrow> (application \<Rightarrow> 'a) \<Rightarrow> bool" where
  "stage_keeps f p \<longleftrightarrow> (\<forall>s r s'. f s = Some (r, s') \<longrightarrow> p (runApp s') = p (runApp s))"

lemma stage_keepsD: "stage_keeps f p \<Longrightarrow> f s = Some (r, s') \<Longrightarrow> p (runApp s') = p (runApp s)"
  by (simp add: stage_keeps_def)

lemma next_stage_keeps: "stage_keeps f p \<Longrightarrow> stage_keeps g p \<Longrightarrow> stage_keeps (next_stage f g) p"
  unfolding stage_keeps_def next_stage_def by (auto split: option.splits)

text \<open>What only two stages change: the specification, and two parts of the status.\<close>

definition app_frame :: "application \<Rightarrow> (app_spec \<times> string \<times> string \<times> string) \<times> app_rollout_status \<times> latest_revision option" where
  "app_frame app = ((appSpec app, appName app, appNamespace app, appUID app), apRollout (appStatus app), apLatestRevision (appStatus app))"

lemma app_frame_simps [simp]:
  "app_frame (set_condition C c app) = app_frame app"
  "app_frame (set_app_phase p app) = app_frame app"
  "app_frame (app\<lparr>appStatus := (appStatus app)\<lparr>apServices := v\<rparr>\<rparr>) = app_frame app"
  "app_frame (app\<lparr>appStatus := (appStatus app)\<lparr>apWorkflow := x\<rparr>\<rparr>) = app_frame app"
  "app_frame (app\<lparr>appStatus := (appStatus app)\<lparr>apPhase := p, apWorkflow := x\<rparr>\<rparr>) = app_frame app"
  "app_frame (add_step_status st app) = app_frame app"
  by (simp_all add: app_frame_def set_condition_def set_app_phase_def add_step_status_def)

lemma run_app_simps [simp]:
  "runApp (on_app f s) = f (runApp s)" "runApp (record_event e s) = runApp s"
  "runWorld (on_app f s) = runWorld s" "runWorld (record_event e s) = runWorld s"
  "runHandler (record_event e s) = runHandler s" "runAppfile (record_event e s) = runAppfile s"
  "runAppfile (on_app f s) = runAppfile s"
  by (simp_all add: on_app_def record_event_def)

lemma endWithNegativeCondition_frame:
  "patch_echoes C \<Longrightarrow> endWithNegativeCondition C app c w = ((res, app'), w') \<Longrightarrow>
     app' = set_condition C c app \<and> fst res = 0 \<and> snd res \<noteq> None"
  by (auto simp: endWithNegativeCondition_def patchStatus_def split: prod.splits option.splits dest: patch_echoesD)

lemma end_negative_ends:
  assumes "patch_echoes C" "end_negative C c s = Some (r, s')"
  shows "\<exists>err. r = Some (0, Some err)" "runApp s' = set_condition C c (runApp s)"
  using assms(2) endWithNegativeCondition_frame [OF assms(1)]
  by (auto simp: end_negative_def split: prod.splits)

lemma failed_stage_ends:
  assumes "patch_echoes C" "failed_stage C reason tpy err s = Some (r, s')"
  shows "\<exists>err. r = Some (0, Some err)" "app_frame (runApp s') = app_frame (runApp s)"
  using end_negative_ends [OF assms(1) assms(2) [unfolded failed_stage_def]] by simp_all

lemma reconcile_error_ends:
  assumes "patch_echoes C" "reconcile_error C err s = Some (r, s')"
  shows "\<exists>err. r = Some (0, Some err)" "app_frame (runApp s') = app_frame (runApp s)"
  using end_negative_ends [OF assms(1) assms(2) [unfolded reconcile_error_def]] by simp_all

text \<open>A stage that goes on, or ends without an error, did not fail.\<close>

lemma fails:
  assumes "patch_echoes C"
  shows "failed_stage C reason tpy err s = Some (Some (k, None), s') \<longleftrightarrow> False"
    "failed_stage C reason tpy err s = Some (None, s') \<longleftrightarrow> False"
    "reconcile_error C err s = Some (Some (k, None), s') \<longleftrightarrow> False"
    "reconcile_error C err s = Some (None, s') \<longleftrightarrow> False"
    "end_negative C c s = Some (Some (k, None), s') \<longleftrightarrow> False"
    "end_negative C c s = Some (None, s') \<longleftrightarrow> False"
  using failed_stage_ends(1) [OF assms] reconcile_error_ends(1) [OF assms] end_negative_ends(1) [OF assms] by blast+

text \<open>The frame of an outcome, so that the cases of a stage are split in the goal.\<close>

definition framed :: "(application \<Rightarrow> 'a) \<Rightarrow> 'a \<Rightarrow> ('r \<times> 'w app_run) option \<Rightarrow> bool" where
  "framed p x m \<longleftrightarrow> (\<forall>r s'. m = Some (r, s') \<longrightarrow> p (runApp s') = x)"

lemma framed_simps [simp]: "framed p x None" "framed p x (Some (r, s')) \<longleftrightarrow> p (runApp s') = x"
  by (simp_all add: framed_def)

lemma stage_keeps_framed: "stage_keeps f p \<longleftrightarrow> (\<forall>s. framed p (p (runApp s)) (f s))"
  by (auto simp: stage_keeps_def framed_def)

lemma framed_failed:
  assumes "patch_echoes C" "app_frame (runApp s) = x"
  shows "framed app_frame x (failed_stage C reason tpy err s)" "framed app_frame x (reconcile_error C err s)"
    "framed app_frame x (end_negative C c s)"
  using assms(2) failed_stage_ends(2) [OF assms(1)] reconcile_error_ends(2) [OF assms(1)] end_negative_ends(2) [OF assms(1)]
  unfolding framed_def by auto

lemma framed_ready [simp]: "framed app_frame x (ready_stage C tpy e s) \<longleftrightarrow> app_frame (runApp s) = x"
  by (simp add: ready_stage_def)

lemma stage_parse_frame: "patch_echoes C \<Longrightarrow> stage_keeps (stage_parse C) app_frame"
  by (simp add: stage_keeps_framed stage_parse_def Let_def framed_failed split: prod.split sum.split)

lemma prepareCurrentAppRevision_app:
  "prepareCurrentAppRevision C h af w = Some ((e, h', af'), w') \<Longrightarrow> ahApp h' = ahApp h"
  by (auto simp: prepareCurrentAppRevision_def getLatestAppRevision_def Let_def bind_eq_Some_conv
      split: sum.splits prod.splits option.splits if_splits)

lemma stage_prepare_frame: "patch_echoes C \<Longrightarrow> stage_keeps (stage_prepare C) app_frame"
  by (auto simp: stage_keeps_framed stage_prepare_def Let_def framed_failed split: prod.split option.split
      dest!: prepareCurrentAppRevision_app)

lemma stage_render_frame: "patch_echoes C \<Longrightarrow> stage_keeps (stage_render C) app_frame"
  by (simp add: stage_keeps_framed stage_render_def Let_def framed_failed split: prod.split option.split sum.split)

lemma finalizeAndApplyAppRevision_app:
  assumes "finalizeAndApplyAppRevision C h comps w = Some ((e, h'), w')"
  shows "ahApp h' = ahApp h"
proof -
  from assms obtain cur rv where cur: "ahCurrentAppRev h = Some cur" "finalized_revision C h comps cur = Some rv"
    by (auto simp: finalizeAndApplyAppRevision_def bind_eq_Some_conv)
  obtain g v where "apGetRevision C (revNamespace (roRevision rv), revName (roRevision rv)) w = (g, v)" by fastforce
  with assms cur show ?thesis
    by (cases g) (auto simp: finalizeAndApplyAppRevision_def Let_def split: prod.splits if_splits)
qed

lemma stage_record_frame: "patch_echoes C \<Longrightarrow> stage_keeps (stage_record C) app_frame"
  by (auto simp: stage_keeps_framed stage_record_def Let_def framed_failed split: prod.split option.split
      dest!: finalizeAndApplyAppRevision_app)

lemma stage_policies_frame: "patch_echoes C \<Longrightarrow> stage_keeps (stage_policies C) app_frame"
  by (simp add: stage_keeps_framed stage_policies_def Let_def framed_failed split: prod.split sum.split)

lemma execute_steps_frame:
  "execute_steps C rv objects i steps app w = Some ((r, app'), w') \<Longrightarrow> app_frame app' = app_frame app"
  by (induction steps arbitrary: i app w)
     (auto simp: Let_def split: prod.splits option.splits sum.splits step_phase.splits if_splits)

lemma ExecuteSteps_frame:
  "ExecuteSteps C app rv objects w = Some x \<Longrightarrow> app_frame (snd (fst x)) = app_frame app"
  by (cases x) (auto simp: ExecuteSteps_def split: option.splits if_splits dest!: execute_steps_frame)

text \<open>The status is patched at the end of a stage.\<close>

lemma patchStatus_same: "patch_echoes C \<Longrightarrow> snd (fst (patchStatus C app w)) = app"
  by (simp add: patchStatus_def patch_echoes_def)

lemma stage_workflow_frame: "patch_echoes C \<Longrightarrow> stage_keeps (stage_workflow C) app_frame"
  by (auto simp: stage_keeps_framed stage_workflow_def Let_def framed_failed case_prod_unfold patchStatus_same
      split: Option.bind_split option.split dest!: ExecuteSteps_frame)

lemma stage_health_frame: "patch_echoes C \<Longrightarrow> stage_keeps (stage_health C) app_frame"
  by (simp add: stage_keeps_framed stage_health_def Let_def framed_failed case_prod_unfold patchStatus_same
      split: option.split sum.split)

lemma stage_collect_frame: "patch_echoes C \<Longrightarrow> stage_keeps (stage_collect C) app_frame"
  by (simp add: stage_keeps_framed stage_collect_def Let_def framed_failed case_prod_unfold patchStatus_same
      split: option.split)

lemma updateAppLatestRevisionStatus_app:
  assumes "patch_echoes C" "updateAppLatestRevisionStatus C h w = Some ((e, h'), w')"
  shows "app_frame (ahApp h') = app_frame (ahApp h) \<or>
    ahIsNewRevision h \<and> (\<exists>current. ahCurrentAppRev h = Some current \<and>
      app_frame (ahApp h') = (fst (app_frame (ahApp h)), fst (snd (app_frame (ahApp h))),
        Some \<lparr>latestName = revName (roRevision current), latestNumber = revision_number (revName (roRevision current)),
              latestHash = ahCurrentRevHash h\<rparr>))"
proof (cases "ahIsNewRevision h")
  case True
  with assms(2) obtain current where current: "ahCurrentAppRev h = Some current"
    by (auto simp: updateAppLatestRevisionStatus_def bind_eq_Some_conv)
  let ?l = "\<lparr>latestName = revName (roRevision current), latestNumber = revision_number (revName (roRevision current)),
              latestHash = ahCurrentRevHash h\<rparr>"
  let ?app = "(ahApp h)\<lparr>appStatus := (appStatus (ahApp h))\<lparr>apLatestRevision := Some ?l\<rparr>\<rparr>"
  obtain f app v where patch: "apPatchStatus C ?app w = ((f, app), v)" by (metis surj_pair)
  from assms(2) True current patch patch_echoesD [OF assms(1) patch] have "ahApp h' = ?app"
    by (auto simp: updateAppLatestRevisionStatus_def revision_number_def Let_def)
  with True current show ?thesis by (simp add: app_frame_def)
next
  case False
  with assms(2) show ?thesis by (simp add: updateAppLatestRevisionStatus_def)
qed

text \<open>What applying the manifests does to the frame: nothing, or the new revision is recorded afterwards.\<close>

lemma stage_apply_frame:
  assumes echo: "patch_echoes C" and ended: "stage_apply C s = Some (r, s')"
  shows "app_frame (runApp s') = app_frame (runApp s) \<or>
    (\<exists>current v. applyAppManifests C (runHandler s) (runComps s) (runPolicies s) (runWorld s) = Some (None, v) \<and>
       ahIsNewRevision (runHandler s) \<and> ahCurrentAppRev (runHandler s) = Some current \<and>
       app_frame (runApp s') = (fst (app_frame (runApp s)), fst (snd (app_frame (runApp s))),
        Some \<lparr>latestName = revName (roRevision current), latestNumber = revision_number (revName (roRevision current)),
              latestHash = ahCurrentRevHash (runHandler s)\<rparr>))"
proof -
  from ended obtain e v where a: "applyAppManifests C (runHandler s) (runComps s) (runPolicies s) (runWorld s) = Some (e, v)"
    by (auto simp: stage_apply_def split: option.splits)
  show ?thesis
  proof (cases e)
    case (Some err)
    with ended a have "failed_stage C ''FailedApply'' ''Applied'' err (s\<lparr>runWorld := v\<rparr>) = Some (r, s')"
      by (simp add: stage_apply_def)
    from failed_stage_ends(2) [OF echo this] show ?thesis by simp
  next
    case None
    from ended a None obtain f h u where u: "updateAppLatestRevisionStatus C (runHandler s) v = Some ((f, h), u)"
      by (auto simp: stage_apply_def split: option.splits)
    let ?s = "s\<lparr>runHandler := h, runWorld := u\<rparr>"
    have "app_frame (runApp s') = app_frame (ahApp h)"
    proof (cases f)
      case (Some err)
      with ended a None u have "reconcile_error C err ?s = Some (r, s')" by (simp add: stage_apply_def)
      from reconcile_error_ends(2) [OF echo this] show ?thesis by simp
    next
      case None
      with ended a \<open>e = None\<close> u show ?thesis by (auto simp: stage_apply_def ready_stage_def)
    qed
    with updateAppLatestRevisionStatus_app [OF echo u] a None show ?thesis by auto
  qed
qed

lemma handleRollout_Some:
  assumes "handleRollout C app es w = Some ((res, app'), es', w')"
  obtains l plan r h where "apLatestRevision (appStatus app) = Some l" "appRolloutPlan (appSpec app) = Some plan"
    "DoReconcile (apReconciler C) (embedded_rollout app (latestName l) plan) es w = Some (r, h)"
    "snd res = None \<and> app' = app\<lparr>appStatus := (appStatus app)\<lparr>apRollout := arStatus (hAppRollout h)\<rparr>\<rparr> \<or> app' = app"
  using assms by (auto simp: handleRollout_def bind_eq_Some_conv split: option.splits)

lemma stage_rollout_frame:
  assumes echo: "patch_echoes C" and ended: "stage_rollout C s = Some (r, s')"
  shows "app_frame (runApp s') = app_frame (runApp s) \<or>
    (\<exists>l plan x h. apLatestRevision (appStatus (runApp s)) = Some l \<and> appRolloutPlan (appSpec (runApp s)) = Some plan \<and>
       DoReconcile (apReconciler C) (embedded_rollout (runApp s) (latestName l) plan) (runEvents s) (runWorld s) = Some (x, h) \<and>
       app_frame (runApp s') = (fst (app_frame (runApp s)), arStatus (hAppRollout h), snd (snd (app_frame (runApp s)))))"
proof (cases "appRolloutPlan (appSpec (runApp s)) = None")
  case True
  with ended show ?thesis by (simp add: stage_rollout_def)
next
  case False
  with ended obtain k err app es w where hr: "handleRollout C (runApp s) (runEvents s) (runWorld s) = Some (((k, err), app), es, w)"
    by (auto simp: stage_rollout_def bind_eq_Some_conv)
  have "framed app_frame (app_frame app) (stage_rollout C s)"
    using False echo
    by (auto simp: stage_rollout_def hr Let_def framed_failed case_prod_unfold patchStatus_same split: option.split)
  with ended have "app_frame (runApp s') = app_frame app" by simp
  moreover from handleRollout_Some [OF hr] obtain l plan x h where
    "apLatestRevision (appStatus (runApp s)) = Some l" "appRolloutPlan (appSpec (runApp s)) = Some plan"
    "DoReconcile (apReconciler C) (embedded_rollout (runApp s) (latestName l) plan) (runEvents s) (runWorld s) = Some (x, h)"
    "app = (runApp s)\<lparr>appStatus := (appStatus (runApp s))\<lparr>apRollout := arStatus (hAppRollout h)\<rparr>\<rparr> \<or> app = runApp s"
    by metis
  ultimately show ?thesis by (auto simp: app_frame_def)
qed

section \<open>A whole reconcile\<close>

lemma next_stage_assoc: "next_stage (next_stage f g) h = next_stage f (next_stage g h)"
  by (auto simp: next_stage_def fun_eq_iff split: option.splits prod.splits)

lemma next_stage_Some:
  assumes "next_stage f g s = Some (r, s')"
  shows "(\<exists>res. r = Some res \<and> f s = Some (Some res, s')) \<or> (\<exists>s1. f s = Some (None, s1) \<and> g s1 = Some (r, s'))"
  using assms by (auto simp: next_stage_def split: option.splits prod.splits)

definition before_apply :: "'w app_client \<Rightarrow> 'w stage" where
  "before_apply C = next_stage (stage_parse C) (next_stage (stage_prepare C) (next_stage (stage_render C)
     (next_stage (stage_record C) (stage_policies C))))"

definition after_rollout :: "'w app_client \<Rightarrow> 'w stage" where
  "after_rollout C = next_stage (stage_health C) (stage_collect C)"

lemma reconcile_stages_parts:
  "reconcile_stages C = next_stage (before_apply C) (next_stage (stage_apply C)
     (next_stage (stage_workflow C) (next_stage (stage_rollout C) (after_rollout C))))"
  by (simp add: reconcile_stages_def before_apply_def after_rollout_def next_stage_assoc)

lemma part_frames:
  assumes "patch_echoes C"
  shows "stage_keeps (before_apply C) app_frame" "stage_keeps (after_rollout C) app_frame"
  unfolding before_apply_def after_rollout_def
  by (intro next_stage_keeps stage_parse_frame stage_prepare_frame stage_render_frame stage_record_frame
      stage_policies_frame stage_health_frame stage_collect_frame assms)+

lemma stage_keeps_part: "stage_keeps f app_frame \<Longrightarrow> stage_keeps f (\<lambda>app. q (app_frame app))"
  by (simp add: stage_keeps_def)

lemma latest_of_frame: "apLatestRevision (appStatus app) = snd (snd (app_frame app))"
  and rollout_of_frame: "apRollout (appStatus app) = fst (snd (app_frame app))"
  and spec_of_frame: "appSpec app = fst (fst (app_frame app))"
  by (simp_all add: app_frame_def)

lemma stage_rollout_latest:
  "patch_echoes C \<Longrightarrow> stage_keeps (stage_rollout C) (\<lambda>app. (fst (app_frame app), snd (snd (app_frame app))))"
  unfolding stage_keeps_def by (auto dest!: stage_rollout_frame)

lemma stage_apply_rollout:
  "patch_echoes C \<Longrightarrow> stage_keeps (stage_apply C) (\<lambda>app. (fst (app_frame app), fst (snd (app_frame app))))"
  unfolding stage_keeps_def by (auto dest!: stage_apply_frame)

lemma after_apply_latest:
  assumes "patch_echoes C"
  shows "stage_keeps (next_stage (stage_workflow C) (next_stage (stage_rollout C) (after_rollout C)))
    (\<lambda>app. (fst (app_frame app), snd (snd (app_frame app))))"
  using stage_rollout_latest [OF assms] stage_workflow_frame [OF assms] part_frames(2) [OF assms]
  by (intro next_stage_keeps) (auto dest: stage_keeps_part [where q = "\<lambda>x. (fst x, snd (snd x))"])

end
