(* ===== verification/App_Controller_Example.thy ===== *)
theory App_Controller_Example
  imports App_Controller_Stages Example_Client
begin

text \<open>
  Two runs of the controller of applications, for the examples: a changed application that settles, and
  an application that rolls out its first revision.
\<close>

definition run_appfile :: "kube_world appfile" where
  "run_appfile = \<lparr>afName = ''app'', afNamespace = ''default'', afRevisionName = '''', afWorkloads = []\<rparr>"

definition run_app :: "string \<Rightarrow> rollout_plan option \<Rightarrow> latest_revision \<Rightarrow> application" where
  "run_app n plan l =
     (let app = history_app '''' in
      app\<lparr>appName := n, appAnnotations := Some [AnnotationAppRevisionOnly \<mapsto> ''true'', AnnotationKubeVelaVersion \<mapsto> ''v1''],
          appSpec := (appSpec app)\<lparr>appRolloutPlan := plan\<rparr>,
          appStatus := (appStatus app)\<lparr>apLatestRevision := Some l\<rparr>\<rparr>)"

definition run_latest :: "string \<Rightarrow> int \<Rightarrow> string \<Rightarrow> latest_revision" where
  "run_latest n k h = \<lparr>latestName = n, latestNumber = k, latestHash = h\<rparr>"

text \<open>A deleted application that a finalizer of somebody else keeps.\<close>

definition deleted_app :: application where
  "deleted_app = (run_app ''app'' None (run_latest ''app-v4'' 4 ''4''))\<lparr>appFinalizers := [''other''], appDeleting := True\<rparr>"

definition run_client :: "kube_world reconciler \<Rightarrow> string list \<Rightarrow> kube_world app_client" where
  "run_client R names =
     (history_client (map history_revision names) [])\<lparr>apReconciler := R, apGetApp := \<lambda>n w. (Inr deleted_app, w),
       apEncoders := history_encoders\<lparr>eAppConfig := \<lambda>a. Some ''ac''\<rparr>,
       apGenerateAppFile := \<lambda>a w. (Inr run_appfile, w)\<rparr>"

definition run_at :: "application \<Rightarrow> kube_world app_run \<Rightarrow> bool" where
  "run_at app s \<longleftrightarrow>
     app_frame (runApp s) = app_frame app \<and> appAnnotations (runApp s) = appAnnotations app \<and>
     runComps s = [] \<and> runPolicies s = [] \<and> runSteps s = [] \<and> runWorld s = empty_world \<and>
     afWorkloads (runAppfile s) = []"

lemma run_echoes: "patch_echoes (run_client R names)"
  by (simp add: patch_echoes_def run_client_def history_client_def)

lemma run_client_simps [simp]:
  "apReconciler (run_client R names) = R"
  "apGenerateAppFile (run_client R names) = (\<lambda>a w. (Inr run_appfile, w))"
  "apGenerateManifests (run_client R names) = (\<lambda>f w. (Inr [], w))"
  "apGenerateWorkflow (run_client R names) = (\<lambda>f w. (Inr ([], []), w))"
  "apEncoders (run_client R names) = history_encoders\<lparr>eAppConfig := \<lambda>a. Some ''ac''\<rparr>"
  "apPatchStatus (run_client R names) a w = ((None, a), w)"
  "apGetConfigMap (run_client R names) n w = (Some not_found, w)"
  "apCreateConfigMap (run_client R names) m w = (None, w)"
  "apUpdateRevision (run_client R names) r w = ((None, r), w)"
  "apCreateRevision (run_client R names) r w = ((None, r), w)"
  "apListRevisions (run_client R names) ns l w = (Inr (map history_revision names), w)"
  "apDeleteRevision (run_client R names) r w = (None, w)"
  "apListTrackers (run_client R names) ns l w = (Inr [], w)"
  "apListDeployments (run_client R names) ns w = (Inr [], w)"
  "apOrder (run_client R names) xs = xs" "apRevisionLimit (run_client R names) = 1"
  by (simp_all add: run_client_def history_client_def)

lemma run_get:
  "n \<in> set names \<Longrightarrow> apGetRevision (run_client R names) (ns, n) w = (Inr (history_revision n), w)"
  by (induction names) (auto simp: run_client_def history_client_def history_revision_def)

lemma run_hash: "length (appRest spec) = 4 \<Longrightarrow> ComputeAppRevisionHash (run_client R names) (empty_revision spec) = Inr ''1''"
  by (simp add: ComputeAppRevisionHash_def hash_map_def spec_hash_def run_client_def history_client_def empty_revision_def
      strconv_FormatHex_def format_nat.simps digit_char_1)

lemma run_gather:
  assumes "length (appRest (appSpec app)) = 4" "afWorkloads af = []"
  shows "gatherRevisionSpec (run_client R names) app af = Inr (empty_revision ((appSpec app)\<lparr>appRolloutPlan := None\<rparr>), ''1'')"
  using assms run_hash by (simp add: gatherRevisionSpec_def)

lemma run_app_frame_same:
  "app_frame (runApp s) = app_frame app \<Longrightarrow> appSpec (runApp s) = appSpec app \<and> appName (runApp s) = appName app \<and>
    appNamespace (runApp s) = appNamespace app \<and> apLatestRevision (appStatus (runApp s)) = apLatestRevision (appStatus app) \<and>
    apRollout (appStatus (runApp s)) = apRollout (appStatus app) \<and> appUID (runApp s) = appUID app"
  by (simp add: app_frame_def)

lemma set_annotations [simp]:
  "appAnnotations (set_condition C c app) = appAnnotations app" "appAnnotations (set_app_phase p app) = appAnnotations app"
  by (simp_all add: set_condition_def set_app_phase_def)

lemma run_parse: "run_at app (s\<lparr>runAppfile := run_appfile\<rparr>) \<Longrightarrow> \<exists>s'. stage_parse (run_client R names) s = Some (None, s') \<and> run_at app s'"
  by (auto simp: stage_parse_def Let_def ready_stage_def run_at_def record_event_def on_app_def)

lemma run_render: "run_at app s \<Longrightarrow> stage_render (run_client R names) s = Some (None, s)"
  by (simp add: stage_render_def run_at_def)

lemma run_policies:
  "run_at app s \<Longrightarrow> \<exists>s'. stage_policies (run_client R names) s = Some (None, s') \<and> run_at app s' \<and>
     runHandler s' = (runHandler s)\<lparr>ahApp := runApp s'\<rparr>"
  by (auto simp: stage_policies_def Let_def ready_stage_def run_at_def record_event_def on_app_def)

lemma run_record:
  assumes "run_at app s" "ahCurrentAppRev (runHandler s) = Some cur"
  shows "\<exists>s' cur'. stage_record (run_client R names) s = Some (None, s') \<and> run_at app s' \<and>
    runHandler s' = (runHandler s)\<lparr>ahApp := runApp s', ahCurrentAppRev := Some cur'\<rparr> \<and>
    revName (roRevision cur') = revName (roRevision cur) \<and> revNamespace (roRevision cur') = appNamespace app \<and>
    revApplicationConfiguration (roRevision cur') = ''ac'' \<and> revComponents (roRevision cur') = []"
proof -
  let ?C = "run_client R names"
  from assms have comps: "runComps s = []" by (simp add: run_at_def)
  obtain fin where fin: "finalized_revision ?C (runHandler s) [] cur = Some fin"
    "revName (roRevision fin) = revName (roRevision cur)" "revNamespace (roRevision fin) = appNamespace app"
    "revApplicationConfiguration (roRevision fin) = ''ac''" "revComponents (roRevision fin) = []"
    using assms(1) run_app_frame_same [of s app]
    by (auto simp: finalized_revision_def componentManifests2AppConfig_def run_at_def)
  obtain g v where g: "apGetRevision ?C (revNamespace (roRevision fin), revName (roRevision fin)) (runWorld s) = (g, v)" by fastforce
  then have v: "v = runWorld s" by (auto simp: run_client_def history_client_def split: option.splits)
  obtain cur' where "finalizeAndApplyAppRevision ?C (runHandler s) (runComps s) (runWorld s) =
      Some ((None, (runHandler s)\<lparr>ahCurrentAppRev := Some cur'\<rparr>), runWorld s)"
    "revName (roRevision cur') = revName (roRevision cur)" "revNamespace (roRevision cur') = appNamespace app"
    "revApplicationConfiguration (roRevision cur') = ''ac''" "revComponents (roRevision cur') = []"
    using fin g v assms(2) comps
    by (cases g) (auto simp: finalizeAndApplyAppRevision_def run_client_def history_client_def not_found_def split: option.splits)
  with assms(1) show ?thesis
    by (auto simp: stage_record_def Let_def ready_stage_def run_at_def record_event_def on_app_def intro!: exI [of _ cur'])
qed

lemma run_prepare:
  assumes at: "run_at (run_app n plan l) s" and l: "latestName l \<in> set names" "latestName l \<noteq> ''''" "latestName l \<noteq> ''gone''"
  shows "\<exists>s' cur. stage_prepare (run_client R names) s = Some (None, s') \<and> run_at (run_app n plan l) s' \<and>
    runHandler s' = (runHandler s)\<lparr>ahCurrentRevHash := ''1'', ahLatestAppRev := Some (history_revision (latestName l)),
      ahIsNewRevision := latestHash l \<noteq> ''1'', ahCurrentAppRev := Some cur\<rparr> \<and>
    revName (roRevision cur) = (if latestHash l \<noteq> ''1'' then fst (GetAppNextRevision (Some (n, Some (latestNumber l)))) else latestName l)"
proof -
  let ?C = "run_client R names" and ?h = "runHandler s" and ?app = "run_app n plan l"
  have spec: "appSpec (runApp s) = appSpec ?app" "apLatestRevision (appStatus (runApp s)) = Some l"
    "appNamespace (runApp s) = ''default''" "appName (runApp s) = n" "afWorkloads (runAppfile s) = []"
    using at by (simp_all add: run_at_def app_frame_def run_app_def history_app_def Let_def)
  let ?new = "empty_revision ((appSpec ?app)\<lparr>appRolloutPlan := None\<rparr>)"
  have gather: "gatherRevisionSpec ?C (runApp s) (runAppfile s) = Inr (?new, ''1'')"
    using spec run_gather [of "runApp s" "runAppfile s" R names] by (simp add: run_app_def history_app_def)
  let ?h1 = "?h\<lparr>ahCurrentAppRev := Some ?new, ahCurrentRevHash := ''1''\<rparr>"
  let ?h2 = "?h1\<lparr>ahLatestAppRev := Some (history_revision (latestName l))\<rparr>"
  have latest: "getLatestAppRevision ?C ?h1 (runWorld s) = ((None, ?h2), runWorld s)"
    using spec l by (simp add: getLatestAppRevision_def run_get)
  have "DeepEqualRevision ?C (history_revision (latestName l)) ?new"
    by (simp add: DeepEqualRevision_def equal_specs_def history_revision_def empty_revision_def run_app_def history_app_def
        run_client_def history_client_def)
  then have new: "currentAppRevIsNew ?C ?h2 = Some (latestHash l \<noteq> ''1'')"
    using spec by (simp add: currentAppRevIsNew_def)
  let ?cur = "if latestHash l \<noteq> ''1'' then set_revision_name (fst (GetAppNextRevision (Some (n, Some (latestNumber l))))) ?new
    else history_revision (latestName l)"
  have prep: "prepareCurrentAppRevision ?C ?h (runAppfile s) (runWorld s) =
      Some ((None, ?h2\<lparr>ahIsNewRevision := latestHash l \<noteq> ''1'', ahCurrentAppRev := Some ?cur\<rparr>,
        (runAppfile s)\<lparr>afRevisionName := revName (roRevision ?cur)\<rparr>), runWorld s)"
    using spec(2,4) unfolding prepareCurrentAppRevision_def gather
    by (simp add: latest new Let_def)
  have "revName (roRevision ?cur) = (if latestHash l \<noteq> ''1'' then fst (GetAppNextRevision (Some (n, Some (latestNumber l)))) else latestName l)"
    by (simp add: set_revision_name_def history_revision_def)
  moreover have "stage_prepare ?C s = Some (None, s\<lparr>runHandler := ?h2\<lparr>ahIsNewRevision := latestHash l \<noteq> ''1'', ahCurrentAppRev := Some ?cur\<rparr>,
      runAppfile := (runAppfile s)\<lparr>afRevisionName := revName (roRevision ?cur)\<rparr>\<rparr>)"
    unfolding stage_prepare_def prep by simp
  moreover have "run_at ?app (s\<lparr>runHandler := ?h2\<lparr>ahIsNewRevision := latestHash l \<noteq> ''1'', ahCurrentAppRev := Some ?cur\<rparr>,
      runAppfile := (runAppfile s)\<lparr>afRevisionName := revName (roRevision ?cur)\<rparr>\<rparr>)"
    using at by (simp add: run_at_def)
  ultimately show ?thesis by (intro exI conjI) (assumption | simp)+
qed

lemma run_created:
  assumes "run_at app s" "map_get (appAnnotations app) AnnotationAppRevisionOnly = ''true''"
    and "ahCurrentAppRev (runHandler s) = Some cur"
  shows "applyAppManifests (run_client R names) (runHandler s) (runComps s) (runPolicies s) (runWorld s) = Some (None, empty_world)"
  using assms
  by (simp add: applyAppManifests_def only_revision_def createResourcesConfigMap_def config_workloads_def config_traits_def
      run_at_def not_found_def)

lemma run_before:
  assumes at: "run_at (run_app n plan l) (s\<lparr>runAppfile := run_appfile\<rparr>)"
    and l: "latestName l \<in> set names" "latestName l \<noteq> ''''" "latestName l \<noteq> ''gone''"
  shows "\<exists>s' cur. before_apply (run_client R names) s = Some (None, s') \<and> run_at (run_app n plan l) s' \<and>
    ahCurrentRevHash (runHandler s') = ''1'' \<and> ahIsNewRevision (runHandler s') = (latestHash l \<noteq> ''1'') \<and>
    ahCurrentAppRev (runHandler s') = Some cur \<and>
    revName (roRevision cur) = (if latestHash l \<noteq> ''1'' then fst (GetAppNextRevision (Some (n, Some (latestNumber l)))) else latestName l) \<and>
    revNamespace (roRevision cur) = ''default'' \<and> revApplicationConfiguration (roRevision cur) = ''ac'' \<and> revComponents (roRevision cur) = []"
proof -
  let ?C = "run_client R names"
  obtain s1 where s1: "stage_parse ?C s = Some (None, s1)" "run_at (run_app n plan l) s1" using run_parse [OF at] by blast
  obtain s2 cur where s2: "stage_prepare ?C s1 = Some (None, s2)" "run_at (run_app n plan l) s2"
    "runHandler s2 = (runHandler s1)\<lparr>ahCurrentRevHash := ''1'', ahLatestAppRev := Some (history_revision (latestName l)),
      ahIsNewRevision := latestHash l \<noteq> ''1'', ahCurrentAppRev := Some cur\<rparr>"
    "revName (roRevision cur) = (if latestHash l \<noteq> ''1'' then fst (GetAppNextRevision (Some (n, Some (latestNumber l)))) else latestName l)"
    using run_prepare [OF s1(2) l] by blast
  have "ahCurrentAppRev (runHandler s2) = Some cur" by (simp add: s2(3))
  from run_record [OF s2(2) this] obtain s3 cur' where s3: "stage_record ?C s2 = Some (None, s3)" "run_at (run_app n plan l) s3"
    "runHandler s3 = (runHandler s2)\<lparr>ahApp := runApp s3, ahCurrentAppRev := Some cur'\<rparr>"
    and cur': "revName (roRevision cur') = revName (roRevision cur)" "revNamespace (roRevision cur') = appNamespace (run_app n plan l)"
    "revApplicationConfiguration (roRevision cur') = ''ac''" "revComponents (roRevision cur') = []" by blast
  obtain s4 where s4: "stage_policies ?C s3 = Some (None, s4)" "run_at (run_app n plan l) s4"
    "runHandler s4 = (runHandler s3)\<lparr>ahApp := runApp s4\<rparr>" using run_policies [OF s3(2)] by blast
  have "before_apply ?C s = Some (None, s4)"
    by (simp add: before_apply_def next_stage_def s1(1) s2(1) run_render [OF s2(2)] s3(1) s4(1))
  moreover have "ahCurrentRevHash (runHandler s4) = ''1''" "ahIsNewRevision (runHandler s4) = (latestHash l \<noteq> ''1'')"
    "ahCurrentAppRev (runHandler s4) = Some cur'"
    using arg_cong [OF s4(3), of ahCurrentRevHash] arg_cong [OF s4(3), of ahIsNewRevision] arg_cong [OF s4(3), of ahCurrentAppRev]
      arg_cong [OF s3(3), of ahCurrentRevHash] arg_cong [OF s3(3), of ahIsNewRevision] arg_cong [OF s3(3), of ahCurrentAppRev]
    by (simp_all add: s2(3))
  moreover have "revNamespace (roRevision cur') = ''default''" using cur'(2) by (simp add: run_app_def history_app_def Let_def)
  ultimately show ?thesis using s4(2) s2(4) cur' by (intro exI [of _ s4] exI [of _ cur']) simp
qed

lemma run_annotated: "map_get (appAnnotations (run_app n plan l)) AnnotationAppRevisionOnly = ''true''"
  by (simp add: run_app_def map_get_def AnnotationAppRevisionOnly_def AnnotationKubeVelaVersion_def Let_def)

lemma run_apply:
  assumes at: "run_at (run_app n plan l) s" and cur: "ahCurrentAppRev (runHandler s) = Some cur"
    and new: "ahIsNewRevision (runHandler s)"
  shows "\<exists>s'. stage_apply (run_client R names) s = Some (None, s') \<and> ahCurrentAppRev (runHandler s') = Some cur \<and>
    run_at (run_app n plan \<lparr>latestName = revName (roRevision cur), latestNumber = revision_number (revName (roRevision cur)),
              latestHash = ahCurrentRevHash (runHandler s)\<rparr>) s'"
proof -
  let ?C = "run_client R names" and ?h = "runHandler s"
  let ?l = "\<lparr>latestName = revName (roRevision cur), latestNumber = revision_number (revName (roRevision cur)), latestHash = ahCurrentRevHash ?h\<rparr>"
  let ?h' = "?h\<lparr>ahApp := (runApp s)\<lparr>appStatus := (appStatus (runApp s))\<lparr>apLatestRevision := Some ?l\<rparr>\<rparr>\<rparr>"
  have "updateAppLatestRevisionStatus ?C ?h empty_world = Some ((None, ?h'), empty_world)"
    by (simp add: updateAppLatestRevisionStatus_def new cur revision_number_def Let_def)
  then have "stage_apply ?C s = ready_stage ?C ''Applied'' (NormalEvent ''Applied'' ''Applied successfully'')
      (s\<lparr>runHandler := ?h', runWorld := empty_world\<rparr>)"
    by (simp add: stage_apply_def run_created [OF at run_annotated cur])
  moreover have "run_at (run_app n plan ?l) (s\<lparr>runHandler := ?h', runWorld := empty_world\<rparr>)"
    using at by (simp add: run_at_def app_frame_def run_app_def Let_def)
  ultimately show ?thesis using cur
    by (auto simp: ready_stage_def record_event_def on_app_def run_at_def)
qed

lemma run_apply_same:
  assumes at: "run_at (run_app n plan l) s" and cur: "ahCurrentAppRev (runHandler s) = Some cur"
    and old: "\<not> ahIsNewRevision (runHandler s)"
  shows "\<exists>s'. stage_apply (run_client R names) s = Some (None, s') \<and> ahCurrentAppRev (runHandler s') = Some cur \<and>
    run_at (run_app n plan l) s'"
proof -
  let ?C = "run_client R names"
  have "stage_apply ?C s = ready_stage ?C ''Applied'' (NormalEvent ''Applied'' ''Applied successfully'')
      (s\<lparr>runHandler := runHandler s, runWorld := empty_world\<rparr>)"
    by (simp add: stage_apply_def run_created [OF at run_annotated cur] updateAppLatestRevisionStatus_def old)
  with at cur show ?thesis
    by (auto simp: ready_stage_def record_event_def on_app_def run_at_def)
qed

lemma run_workflow:
  assumes at: "run_at (run_app n plan l) s" and cur: "ahCurrentAppRev (runHandler s) = Some cur"
  shows "\<exists>s'. stage_workflow (run_client R names) s = Some (None, s') \<and> ahCurrentAppRev (runHandler s') = Some cur \<and>
    run_at (run_app n plan l) s'"
proof -
  from at have "appWorkflow (appSpec (runApp s)) = None"
    by (simp add: run_at_def app_frame_def run_app_def history_app_def Let_def)
  with at cur show ?thesis
    by (auto simp: stage_workflow_def ExecuteSteps_def on_app_def run_at_def)
qed

lemma run_health:
  assumes at: "run_at app s" and cur: "ahCurrentAppRev (runHandler s) = Some cur"
  shows "\<exists>s'. stage_health (run_client R names) s = Some (None, s') \<and> ahCurrentAppRev (runHandler s') = Some cur \<and> run_at app s'"
  using at cur
  by (auto simp: stage_health_def aggregateHealthStatus_def Let_def record_event_def on_app_def run_at_def)

definition run_reconciler :: "kube_world reconciler" where
  "run_reconciler = example_reconciler\<lparr>rcAssembler := rollout_assembler\<lparr>asDecoders := rollout_decoders\<lparr>dUnmarshalAppConfig := \<lambda>r. Inr []\<rparr>\<rparr>\<rparr>"

lemma run_no_components:
  "AppConfig2ComponentManifests (apDecoders (run_client run_reconciler names)) ''ac'' cs = Inr []"
  by (simp add: AppConfig2ComponentManifests_def RawExtension2AppConfig_def run_reconciler_def rollout_decoders_def plain_decoders_def)

lemma run_collect:
  assumes at: "run_at app s" and cur: "ahCurrentAppRev (runHandler s) = Some cur"
    and l: "apLatestRevision (appStatus app) = Some l" "latestName l = b" "b \<noteq> ''''" 
    and ac: "revApplicationConfiguration (roRevision cur) = ''ac''"
  shows "\<exists>s'. stage_collect (run_client run_reconciler [a, b]) s = Some (Some (0, None), s') \<and> run_at app s'"
proof -
  let ?C = "run_client run_reconciler [a, b]"
  have app: "apLatestRevision (appStatus (runApp s)) = Some l" "runWorld s = empty_world"
    using at l(1) run_app_frame_same [of s app] by (simp_all add: run_at_def)
  have gather: "gatherUsingAppRevision ?C (runApp s) empty_world = (Inr [b], empty_world)"
    using l app by (simp add: gatherUsingAppRevision_def CheckAppDeploymentUsingAppRevision_def)
  then have clean: "cleanUpApplicationRevision ?C (runApp s) empty_world = (None, empty_world)"
    by (simp add: cleanUpApplicationRevision_def)
  have "revApplicationConfiguration (roRevision (history_revision b)) = ''ac''"
    by (simp add: history_revision_def labelled_revision_def)
  then have "components_in_use ?C ns [b] empty_world = (Inr [], empty_world)" for ns
    using run_get [of b "[a, b]"] run_no_components by simp
  then have "cleanUpComponentRevision ?C (runHandler s) empty_world = Some (None, empty_world)"
    using gather cur ac run_no_components by (simp add: cleanUpComponentRevision_def)
  with at app clean show ?thesis
    by (auto simp: stage_collect_def garbageCollection_def Let_def patchStatus_def record_event_def on_app_def run_at_def)
qed

lemma run_start: "run_at app (start_run app empty_world\<lparr>runAppfile := run_appfile\<rparr>)"
  by (simp add: run_at_def start_run_def run_appfile_def)

text \<open>A changed application gets a new revision, which its status names then, and settles.\<close>

lemma run_settles:
  assumes "run_at (run_app ''app'' None (run_latest ''app-v4'' 4 ''4'')) (s\<lparr>runAppfile := run_appfile\<rparr>)"
  shows "\<exists>s'. reconcile_stages (run_client run_reconciler [''app-v4'', ''app-v5'']) s = Some (Some (0, None), s') \<and>
    apLatestRevision (appStatus (runApp s')) = Some (run_latest ''app-v5'' (revision_number ''app-v5'') ''1'')"
proof -
  let ?C = "run_client run_reconciler [''app-v4'', ''app-v5'']"
  let ?l = "run_latest ''app-v4'' 4 ''4''" and ?l' = "run_latest ''app-v5'' (revision_number ''app-v5'') ''1''"
  let ?app = "run_app ''app'' None ?l" and ?app' = "run_app ''app'' None ?l'"
  have succ: "fst (GetAppNextRevision (Some (''app'', Some 4))) = ''app-v5''" by code_simp
  obtain s1 cur where s1: "before_apply ?C s = Some (None, s1)" "run_at ?app s1"
    and h: "ahCurrentRevHash (runHandler s1) = ''1''" "ahIsNewRevision (runHandler s1)" "ahCurrentAppRev (runHandler s1) = Some cur"
    and cur: "revName (roRevision cur) = ''app-v5''" "revApplicationConfiguration (roRevision cur) = ''ac''"
    using run_before [OF assms, where names = "[''app-v4'', ''app-v5'']" and R = run_reconciler] succ
    by (auto simp: run_latest_def)
  obtain s2 where s2: "stage_apply ?C s1 = Some (None, s2)" "run_at ?app' s2" "ahCurrentAppRev (runHandler s2) = Some cur"
    using run_apply [OF s1(2) h(3,2)] by (auto simp: run_latest_def cur h(1))
  obtain s3 where s3: "stage_workflow ?C s2 = Some (None, s3)" "run_at ?app' s3" "ahCurrentAppRev (runHandler s3) = Some cur"
    using run_workflow [OF s2(2,3)] by blast
  have "appRolloutPlan (appSpec (runApp s3)) = None"
    using run_app_frame_same [of s3 ?app'] s3(2) by (simp add: run_at_def run_app_def Let_def)
  then have rollout: "stage_rollout ?C s3 = Some (None, s3)" by (simp add: stage_rollout_def)
  obtain s4 where s4: "stage_health ?C s3 = Some (None, s4)" "run_at ?app' s4" "ahCurrentAppRev (runHandler s4) = Some cur"
    using run_health [OF s3(2,3)] by blast
  have latest: "apLatestRevision (appStatus ?app') = Some ?l'" by (simp add: run_app_def Let_def)
  obtain s5 where s5: "stage_collect ?C s4 = Some (Some (0, None), s5)" "run_at ?app' s5"
    using run_collect [OF s4(2,3) latest _ _ cur(2)] by (auto simp: run_latest_def)
  have "reconcile_stages ?C s = Some (Some (0, None), s5)"
    by (simp add: reconcile_stages_parts next_stage_def s1(1) s2(1) s3(1) rollout after_rollout_def s4(1) s5(1))
  moreover have "apLatestRevision (appStatus (runApp s5)) = Some ?l'"
    using run_app_frame_same [of s5 ?app'] s5(2) latest by (simp add: run_at_def)
  ultimately show ?thesis by blast
qed

text \<open>An application that rolls out its first revision starts the next batch.\<close>

lemma run_rolls:
  "\<exists>s'. reconcile_stages (run_client example_reconciler [''app-v1'']) (start_run (run_app ''rollout'' (Some example_plan) (run_latest ''app-v1'' 1 ''1'')) empty_world) =
     Some (Some (5, None), s') \<and> phase (RolloutStatus (apRollout (appStatus (runApp s')))) = (RollingInBatchesState, BatchInitializingState, 1)"
proof -
  let ?C = "run_client example_reconciler [''app-v1'']" and ?l = "run_latest ''app-v1'' 1 ''1''"
  let ?app = "run_app ''rollout'' (Some example_plan) ?l"
  obtain s1 cur where s1: "before_apply ?C (start_run ?app empty_world) = Some (None, s1)" "run_at ?app s1"
    and h: "\<not> ahIsNewRevision (runHandler s1)" "ahCurrentAppRev (runHandler s1) = Some cur"
    using run_before [OF run_start, where l = ?l and names = "[''app-v1'']" and n = "''rollout''" and plan = "Some example_plan" and R = example_reconciler]
    by (auto simp: run_latest_def)
  obtain s2 where s2: "stage_apply ?C s1 = Some (None, s2)" "run_at ?app s2" "ahCurrentAppRev (runHandler s2) = Some cur"
    using run_apply_same [OF s1(2) h(2,1)] by blast
  obtain s3 where s3: "stage_workflow ?C s2 = Some (None, s3)" "run_at ?app s3" using run_workflow [OF s2(2,3)] by blast
  then have app: "appSpec (runApp s3) = appSpec ?app" "apLatestRevision (appStatus (runApp s3)) = Some ?l"
    "appRolloutPlan (appSpec (runApp s3)) = Some example_plan" "runWorld s3 = empty_world"
    using run_app_frame_same [of s3 ?app] by (simp_all add: run_at_def run_app_def Let_def)
  have num: "fst (ExtractRevisionNum ''app-v1'' CHR ''-'') = 1" by code_simp
  have emb: "embedded_rollout (runApp s3) ''app-v1'' example_plan =
      (example_rollout_of RollingInBatchesState BatchReadyState [''web''])\<lparr>arFinalizers := []\<rparr>"
    using run_app_frame_same [of s3 ?app] s3(2)
    by (simp add: run_at_def embedded_rollout_def num run_app_def history_app_def example_rollout_of_def Let_def)
  obtain h where h: "DoReconcile example_reconciler (embedded_rollout (runApp s3) ''app-v1'' example_plan) (runEvents s3) empty_world = Some ((5, None), h)"
    "arphase (hAppRollout h) = (RollingInBatchesState, BatchInitializingState, 1)"
    using example_DoReconcile_of [of "[]" "runEvents s3"] unfolding emb by blast
  have "\<exists>s4. stage_rollout ?C s3 = Some (Some (5, None), s4) \<and> apRollout (appStatus (runApp s4)) = arStatus (hAppRollout h)"
    using app h(1) by (auto simp: stage_rollout_def handleRollout_def run_latest_def Let_def patchStatus_def set_app_phase_def on_app_def)
  then obtain s4 where s4: "stage_rollout ?C s3 = Some (Some (5, None), s4)" "apRollout (appStatus (runApp s4)) = arStatus (hAppRollout h)" by blast
  have "reconcile_stages ?C (start_run ?app empty_world) = Some (Some (5, None), s4)"
    by (simp add: reconcile_stages_parts next_stage_def s1(1) s2(1) s3(1) s4(1))
  with s4(2) h(2) show ?thesis by (auto simp: arphase_def)
qed

end
