(* ===== verification/App_Controller_Properties.thy ===== *)
theory App_Controller_Properties
  imports App_Controller_Example
begin

text \<open>
  What the controller of applications guarantees: when a reconcile succeeds, when the latest revision
  moves on, what happens to the rollout that an application carries, and how finalizers are
  released.
\<close>

section \<open>The latest revision and the rollout\<close>

text \<open>What applying does when neither a workflow or an annotation asks for the revision only nor a rollout takes over.\<close>

lemma applyAppManifests_dispatched:
  assumes "applyAppManifests C h comps policies w = Some (None, w')"
    and "\<not> only_revision (ahApp h)" "\<not> appWillRollout (ahApp h)"
  shows "\<exists>current d v a manifests u rt. ahCurrentAppRev h = Some current \<and>
    NewAppManifestsDispatcher (Some (roRevision current)) = Some d \<and>
    dispatch_packaged C (StartAndSkipGC (latest_tracker (ahApp h)) d) comps w = Some (None, v) \<and>
    AssembledManifests (rcAssembler (apReconciler C))
      (WithWorkloadOption (discoverHelmModuleWorkload (rcAssembler (apReconciler C))) (NewAppManifests (roRevision current))) v =
        ((Inr manifests, a), u) \<and>
    Dispatch (apKube C) (EndAndGC (latest_tracker (ahApp h)) (StartAndSkipGC (latest_tracker (ahApp h)) d)) manifests u = Some (Inr rt, w')"
  using assms
  by (cases "ahCurrentAppRev h")
     (auto simp: applyAppManifests_def Let_def bind_eq_Some_conv split: option.splits prod.splits sum.splits)

text \<open>
  C24: The latest revision in the status of an application moves on only after this very reconcile has
  applied the manifests of the new revision without an error, while the status still named the
  previous one.  The stages before the apply have then succeeded, the new revision is the one that they
  recorded, and the apply ran on what they left.  Unless only the revision was asked for or a rollout takes
  over, in which cases the code does not dispatch, everything assembled from the new revision was
  dispatched, with garbage collection against the tracker of the previous revision.  The client leaves in memory the
  status that it patches.
\<close>

theorem latest_revision_follows_apply:
  fixes C :: "'w app_client"
  assumes echo: "patch_echoes C" and run: "reconcile_stages C s = Some (r, s')"
    and changed: "apLatestRevision (appStatus (runApp s')) \<noteq> apLatestRevision (appStatus (runApp s))"
  shows "\<exists>s1 w' current.
           before_apply C s = Some (None, s1) \<and>
           applyAppManifests C (runHandler s1) (runComps s1) (runPolicies s1) (runWorld s1) = Some (None, w') \<and>
           apLatestRevision (appStatus (runApp s1)) = apLatestRevision (appStatus (runApp s)) \<and>
           ahIsNewRevision (runHandler s1) \<and> ahCurrentAppRev (runHandler s1) = Some current \<and>
           apLatestRevision (appStatus (runApp s')) =
             Some \<lparr>latestName = revName (roRevision current), latestNumber = revision_number (revName (roRevision current)),
                   latestHash = ahCurrentRevHash (runHandler s1)\<rparr> \<and>
           (\<not> only_revision (runApp s1) \<and> \<not> appWillRollout (runApp s1) \<longrightarrow>
              (\<exists>d v a manifests u rt. NewAppManifestsDispatcher (Some (roRevision current)) = Some d \<and>
                 AssembledManifests (rcAssembler (apReconciler C))
                   (WithWorkloadOption (discoverHelmModuleWorkload (rcAssembler (apReconciler C))) (NewAppManifests (roRevision current))) v =
                     ((Inr manifests, a), u) \<and>
                 Dispatch (apKube C) (EndAndGC (latest_tracker (runApp s)) (StartAndSkipGC (latest_tracker (runApp s)) d)) manifests u =
                   Some (Inr rt, w')))"
proof -
  note before = stage_keepsD [OF part_frames(1) [OF echo]]
  from changed before have moved: "before_apply C s \<noteq> Some (Some res, s')" for res
    by (auto simp: latest_of_frame)
  with next_stage_Some [OF run [unfolded reconcile_stages_parts]] obtain s1 where
    s1: "before_apply C s = Some (None, s1)"
    and rest: "next_stage (stage_apply C) (next_stage (stage_workflow C) (next_stage (stage_rollout C) (after_rollout C))) s1 = Some (r, s')"
    by blast
  from before [OF s1] have same: "app_frame (runApp s1) = app_frame (runApp s)" .
  then have tracker: "latest_tracker (runApp s1) = latest_tracker (runApp s)" by (simp add: app_frame_def latest_tracker_def)
  obtain q s2 where applied: "stage_apply C s1 = Some (q, s2)" "apLatestRevision (appStatus (runApp s2)) = apLatestRevision (appStatus (runApp s'))"
    using next_stage_Some [OF rest] stage_keepsD [OF after_apply_latest [OF echo]] by (auto simp: latest_of_frame)
  with changed same have "app_frame (runApp s2) \<noteq> app_frame (runApp s1)" by (auto simp: latest_of_frame)
  with stage_apply_frame [OF echo applied(1)] obtain current v where
    "applyAppManifests C (runHandler s1) (runComps s1) (runPolicies s1) (runWorld s1) = Some (None, v)"
    "ahIsNewRevision (runHandler s1)" "ahCurrentAppRev (runHandler s1) = Some current"
    "snd (snd (app_frame (runApp s2))) = Some \<lparr>latestName = revName (roRevision current), latestNumber = revision_number (revName (roRevision current)),
        latestHash = ahCurrentRevHash (runHandler s1)\<rparr>" by auto
  note final = this
  have "\<exists>d v a manifests u rt. NewAppManifestsDispatcher (Some (roRevision current)) = Some d \<and>
      AssembledManifests (rcAssembler (apReconciler C))
        (WithWorkloadOption (discoverHelmModuleWorkload (rcAssembler (apReconciler C))) (NewAppManifests (roRevision current))) v =
          ((Inr manifests, a), u) \<and>
      Dispatch (apKube C) (EndAndGC (latest_tracker (runApp s)) (StartAndSkipGC (latest_tracker (runApp s)) d)) manifests u = Some (Inr rt, w')"
    if "applyAppManifests C (runHandler s1) (runComps s1) (runPolicies s1) (runWorld s1) = Some (None, w')"
      "\<not> only_revision (runApp s1)" "\<not> appWillRollout (runApp s1)" for w'
    using applyAppManifests_dispatched [OF that] final(3) unfolding tracker by (metis option.inject)
  with s1 final applied(2) same show ?thesis
    by (intro exI [of _ s1] exI [of _ v] exI [of _ current]) (simp add: latest_of_frame)
qed

lemma embedded_rollout_frame:
  "fst (app_frame a) = fst (app_frame b) \<Longrightarrow> apRollout (appStatus a) = apRollout (appStatus b) \<Longrightarrow>
     embedded_rollout a n plan = embedded_rollout b n plan"
  by (simp add: app_frame_def embedded_rollout_def Let_def)

lemma embedded_rollout_simps [simp]:
  "RolloutPlan (arSpec (embedded_rollout app n plan)) = plan"
  "arStatus (embedded_rollout app n plan) = apRollout (appStatus app)"
  by (simp_all add: embedded_rollout_def Let_def)

lemma stage_rollout_reached:
  assumes echo: "patch_echoes C" and run: "reconcile_stages C s = Some (r, s')"
    and changed: "apRollout (appStatus (runApp s')) \<noteq> apRollout (appStatus (runApp s))"
  obtains s1 q s2 where "stage_rollout C s1 = Some (q, s2)" "fst (app_frame (runApp s1)) = fst (app_frame (runApp s))"
    "apRollout (appStatus (runApp s1)) = apRollout (appStatus (runApp s))"
    "apRollout (appStatus (runApp s2)) = apRollout (appStatus (runApp s'))"
proof -
  let ?p = "\<lambda>app. (fst (app_frame app), fst (snd (app_frame app)))"
  let ?pre = "next_stage (before_apply C) (next_stage (stage_apply C) (stage_workflow C))"
  have pre: "stage_keeps ?pre ?p"
    using stage_apply_rollout [OF echo] part_frames(1) [OF echo] stage_workflow_frame [OF echo]
    by (intro next_stage_keeps) (auto dest: stage_keeps_part [where q = "\<lambda>x. (fst x, fst (snd x))"])
  note after = stage_keepsD [OF part_frames(2) [OF echo]]
  have "reconcile_stages C = next_stage ?pre (next_stage (stage_rollout C) (after_rollout C))"
    by (simp add: reconcile_stages_parts next_stage_assoc)
  with run have "next_stage ?pre (next_stage (stage_rollout C) (after_rollout C)) s = Some (r, s')" by simp
  from next_stage_Some [OF this] changed stage_keepsD [OF pre] obtain s1 where
    s1: "?pre s = Some (None, s1)" and rest: "next_stage (stage_rollout C) (after_rollout C) s1 = Some (r, s')"
    by (auto simp: rollout_of_frame)
  from stage_keepsD [OF pre s1] have same: "fst (app_frame (runApp s1)) = fst (app_frame (runApp s))"
    "apRollout (appStatus (runApp s1)) = apRollout (appStatus (runApp s))" by (simp_all add: rollout_of_frame)
  from next_stage_Some [OF rest] obtain q s2 where "stage_rollout C s1 = Some (q, s2)"
    "apRollout (appStatus (runApp s2)) = apRollout (appStatus (runApp s'))"
    using after by (auto simp: rollout_of_frame)
  with same that show thesis by blast
qed

text \<open>
  C25: The rollout in the status of an application is driven by the plan machine alone: a reconcile
  leaves it as it is, or moves its phase by a modification and one move, keeping the invariant of
  the plan, from the rollout of the latest revision with the plan of the application.
\<close>

theorem application_rollout_moves:
  fixes C :: "'w app_client"
  assumes echo: "patch_echoes C" and run: "reconcile_stages C s = Some (r, s')"
    and plan: "appRolloutPlan (appSpec (runApp s)) = Some plan" "length (batches plan) < 2 ^ 31"
    and inv: "\<And>n. plan_inv plan (arphase (reset_if_fresh (embedded_rollout (runApp s) n plan)))"
  shows "apRollout (appStatus (runApp s')) = apRollout (appStatus (runApp s)) \<or>
         (\<exists>n p. modified_phase (reset_if_fresh (embedded_rollout (runApp s) n plan)) p \<and>
            rollout_move plan p (phase (RolloutStatus (apRollout (appStatus (runApp s'))))) \<and>
            plan_inv plan (phase (RolloutStatus (apRollout (appStatus (runApp s'))))))"
proof (cases "apRollout (appStatus (runApp s')) = apRollout (appStatus (runApp s))")
  case False
  from stage_rollout_reached [OF echo run this] obtain s1 q s2 where
    s1: "stage_rollout C s1 = Some (q, s2)" "fst (app_frame (runApp s1)) = fst (app_frame (runApp s))"
      "apRollout (appStatus (runApp s1)) = apRollout (appStatus (runApp s))"
      "apRollout (appStatus (runApp s2)) = apRollout (appStatus (runApp s'))" .
  have emb: "embedded_rollout (runApp s1) n plan = embedded_rollout (runApp s) n plan" for n
    by (rule embedded_rollout_frame [OF s1(2,3)])
  have spec: "appRolloutPlan (appSpec (runApp s1)) = Some plan" using s1(2) plan(1) by (simp add: spec_of_frame)
  from s1(3,4) False have "app_frame (runApp s2) \<noteq> app_frame (runApp s1)" by (auto simp: rollout_of_frame)
  with stage_rollout_frame [OF echo s1(1)] obtain l plan' x h where
    "apLatestRevision (appStatus (runApp s1)) = Some l" "appRolloutPlan (appSpec (runApp s1)) = Some plan'"
    "DoReconcile (apReconciler C) (embedded_rollout (runApp s1) (latestName l) plan') (runEvents s1) (runWorld s1) = Some (x, h)"
    and frame: "app_frame (runApp s2) = (fst (app_frame (runApp s1)), arStatus (hAppRollout h), snd (snd (app_frame (runApp s1))))"
    by blast
  with spec emb have rec: "DoReconcile (apReconciler C) (embedded_rollout (runApp s) (latestName l) plan) (runEvents s1) (runWorld s1) = Some (x, h)"
    by simp
  from frame s1(4) have status: "apRollout (appStatus (runApp s')) = arStatus (hAppRollout h)" by (simp add: rollout_of_frame)
  from DoReconcile_moves [OF rec] inv plan(2) have
    "\<exists>p. modified_phase (reset_if_fresh (embedded_rollout (runApp s) (latestName l) plan)) p \<and> rollout_move plan p (arphase (hAppRollout h))"
    "plan_inv plan (arphase (hAppRollout h))" by simp_all
  then show ?thesis unfolding arphase_def status by blast
qed simp

theorem latest_revision_follows_apply_witness:
  "\<exists>s' s1 w.
     reconcile_stages (run_client run_reconciler [''app-v4'', ''app-v5'']) (start_run (run_app ''app'' None (run_latest ''app-v4'' 4 ''4'')) empty_world) =
       Some (Some (0, None), s') \<and>
     latestName (the (apLatestRevision (appStatus (runApp s')))) = ''app-v5'' \<and>
     before_apply (run_client run_reconciler [''app-v4'', ''app-v5'']) (start_run (run_app ''app'' None (run_latest ''app-v4'' 4 ''4'')) empty_world) =
       Some (None, s1) \<and>
     applyAppManifests (run_client run_reconciler [''app-v4'', ''app-v5'']) (runHandler s1) (runComps s1) (runPolicies s1) (runWorld s1) = Some (None, w) \<and>
     latestName (the (apLatestRevision (appStatus (runApp s1)))) = ''app-v4''"
proof -
  let ?C = "run_client run_reconciler [''app-v4'', ''app-v5'']" and ?s = "start_run (run_app ''app'' None (run_latest ''app-v4'' 4 ''4'')) empty_world"
  from run_settles [OF run_start] obtain s' where run: "reconcile_stages ?C ?s = Some (Some (0, None), s')"
    and l: "apLatestRevision (appStatus (runApp s')) = Some (run_latest ''app-v5'' (revision_number ''app-v5'') ''1'')" by blast
  have old: "apLatestRevision (appStatus (runApp ?s)) = Some (run_latest ''app-v4'' 4 ''4'')"
    by (simp add: start_run_def run_app_def Let_def)
  have "apLatestRevision (appStatus (runApp s')) \<noteq> apLatestRevision (appStatus (runApp ?s))" using l old by (simp add: run_latest_def)
  from latest_revision_follows_apply [OF run_echoes run this] obtain s1 w where
    "before_apply ?C ?s = Some (None, s1)"
    "applyAppManifests ?C (runHandler s1) (runComps s1) (runPolicies s1) (runWorld s1) = Some (None, w)"
    "apLatestRevision (appStatus (runApp s1)) = Some (run_latest ''app-v4'' 4 ''4'')"
    using old by auto
  with run l show ?thesis
    by (intro exI [of _ s'] exI [of _ s1] exI [of _ w]) (simp add: run_latest_def)
qed

theorem application_rollout_moves_witness:
  "\<exists>s' p. reconcile_stages (run_client example_reconciler [''app-v1''])
       (start_run (run_app ''rollout'' (Some example_plan) (run_latest ''app-v1'' 1 ''1'')) empty_world) = Some (Some (5, None), s') \<and>
     rollout_move example_plan p (RollingInBatchesState, BatchInitializingState, 1)"
proof -
  let ?s = "start_run (run_app ''rollout'' (Some example_plan) (run_latest ''app-v1'' 1 ''1'')) empty_world"
  from run_rolls obtain s' where run: "reconcile_stages (run_client example_reconciler [''app-v1'']) ?s = Some (Some (5, None), s')"
    and moved: "phase (RolloutStatus (apRollout (appStatus (runApp s')))) = (RollingInBatchesState, BatchInitializingState, 1)" by blast
  have start: "appRolloutPlan (appSpec (runApp ?s)) = Some example_plan"
    "apRollout (appStatus (runApp ?s)) = arStatus (example_rollout_of RollingInBatchesState BatchReadyState [])"
    by (simp_all add: start_run_def run_app_def history_app_def Let_def)
  have inv: "plan_inv example_plan (arphase (reset_if_fresh (embedded_rollout (runApp ?s) n example_plan)))" for n
    using start(2) by (simp add: reset_if_fresh_def arphase_def phase_def plan_inv_def)
  have "phase (RolloutStatus (apRollout (appStatus (runApp ?s)))) = (RollingInBatchesState, BatchReadyState, 0)"
    using start(2) by (simp add: phase_def)
  with moved have "apRollout (appStatus (runApp s')) \<noteq> apRollout (appStatus (runApp ?s))" by auto
  with application_rollout_moves [OF run_echoes run start(1) _ inv] moved run show ?thesis by auto
qed

section \<open>Settled\<close>

text \<open>Only the last stage ends a reconcile without an error and without a requeue.\<close>

definition unsettled :: "(reconcile_result option \<times> 'w app_run) option \<Rightarrow> bool" where
  "unsettled m \<longleftrightarrow> (\<forall>s'. m \<noteq> Some (Some (0, None), s'))"

lemma unsettled_simps [simp]:
  "unsettled None" "unsettled (Some (None, s))" "unsettled (Some (Some (k, e), s)) \<longleftrightarrow> k \<noteq> 0 \<or> e \<noteq> None"
  "unsettled (ready_stage C tpy ev s)"
  by (auto simp: unsettled_def ready_stage_def)

lemma unsettled_failed:
  assumes "patch_echoes C"
  shows "unsettled (failed_stage C reason tpy err s)" "unsettled (reconcile_error C err s)" "unsettled (end_negative C c s)"
  using fails [OF assms] by (auto simp: unsettled_def)

lemma stages_unsettled:
  assumes "patch_echoes C"
  shows "unsettled (stage_parse C s)" "unsettled (stage_prepare C s)" "unsettled (stage_render C s)"
    "unsettled (stage_record C s)" "unsettled (stage_policies C s)" "unsettled (stage_apply C s)"
    "unsettled (stage_workflow C s)" "unsettled (stage_rollout C s)" "unsettled (stage_health C s)"
  by (auto simp: stage_defs Let_def unsettled_failed [OF assms] WorkflowReconcileWaitTime_def
      split: prod.split option.split sum.split Option.bind_split)

lemma settled_next:
  "next_stage f g s = Some (Some (0, None), s') \<Longrightarrow> (\<And>s. unsettled (f s)) \<Longrightarrow>
     \<exists>s1. f s = Some (None, s1) \<and> g s1 = Some (Some (0, None), s')"
  using next_stage_Some [of f g s] by (fastforce simp: unsettled_def)

lemma settled_skip:
  "\<exists>s. next_stage f g s = Some (Some (0, None), s') \<Longrightarrow> (\<And>s. unsettled (f s)) \<Longrightarrow>
     \<exists>s. g s = Some (Some (0, None), s')"
  using settled_next by blast

lemma settled_last:
  assumes "patch_echoes C" "reconcile_stages C s = Some (Some (0, None), s')"
  shows "\<exists>u v. stage_health C u = Some (None, v) \<and> stage_collect C v = Some (Some (0, None), s')"
proof -
  note skip = stages_unsettled [OF assms(1)]
  from assms(2) have "\<exists>s. reconcile_stages C s = Some (Some (0, None), s')" by blast
  from this [unfolded reconcile_stages_def, THEN settled_skip, OF skip(1), THEN settled_skip, OF skip(2),
      THEN settled_skip, OF skip(3), THEN settled_skip, OF skip(4), THEN settled_skip, OF skip(5),
      THEN settled_skip, OF skip(6), THEN settled_skip, OF skip(7), THEN settled_skip, OF skip(8)]
  show ?thesis using settled_next [of "stage_health C", OF _ skip(9)] by blast
qed

lemma stage_health_passed:
  assumes "patch_echoes C" "stage_health C u = Some (None, v)"
  shows "apPhase (appStatus (runApp v)) = ApplicationRunning \<and> all_healthy (apServices (appStatus (runApp v))) \<and>
    map Some (map svName (apServices (appStatus (runApp v)))) = map (map_option awName) (afWorkloads (runAppfile v)) \<and>
    (\<forall>wl. Some wl \<in> set (afWorkloads (runAppfile v)) \<longrightarrow> \<not> secret_producer wl)"
proof -
  let ?u = "on_app (set_app_phase ApplicationHealthChecking) u"
  from assms(2) obtain sts h w where agg: "aggregateHealthStatus C (runApp ?u) (runAppfile ?u) (runWorld ?u) = Some (Inr (sts, h), w)"
    using fails [OF assms(1)] by (auto simp: stage_health_def Let_def split: option.splits sum.splits prod.splits)
  from component_statuses_healthy [OF agg [unfolded aggregateHealthStatus_def]] have ok: "h = all_healthy sts"
    "map Some (map svName sts) = map (map_option awName) (afWorkloads (runAppfile u))"
    "\<forall>wl. Some wl \<in> set (afWorkloads (runAppfile u)) \<longrightarrow> \<not> secret_producer wl" by auto
  have h: "h"
    using assms(2) agg fails [OF assms(1)] by (cases h) (auto simp: stage_health_def Let_def split: option.splits prod.splits)
  with assms(2) agg have "apServices (appStatus (runApp v)) = sts" "apPhase (appStatus (runApp v)) = ApplicationRunning"
    "runAppfile v = runAppfile u"
    by (auto simp: stage_health_def Let_def set_app_phase_def set_condition_def)
  with ok h show ?thesis by simp
qed

lemma stage_collect_passed:
  assumes "patch_echoes C" "stage_collect C v = Some (Some (0, None), s')"
  shows "runApp s' = runApp v \<and> runAppfile s' = runAppfile v \<and>
    (\<exists>w. garbageCollection C (runHandler v) (runWorld v) = Some (None, w))"
proof -
  from assms(2) obtain e w where gc: "garbageCollection C (runHandler v) (runWorld v) = Some (e, w)"
    by (auto simp: stage_collect_def split: option.splits)
  moreover have none: "e = None"
    using assms(2) gc fails [OF assms(1)] by (cases e) (auto simp: stage_collect_def)
  obtain f app x where patch: "patchStatus C (runApp v) w = ((f, app), x)" by (metis surj_pair)
  with patchStatus_same [OF assms(1), of "runApp v" w] have "app = runApp v" by simp
  moreover have "f = None"
    using assms(2) gc none patch fails [OF assms(1)] by (cases f) (auto simp: stage_collect_def record_event_def)
  ultimately show ?thesis
    using assms(2) gc none patch by (auto simp: stage_collect_def record_event_def on_app_def)
qed

text \<open>
  C26: A reconcile that ends without an error and without asking for another one has found every
  component and every trait healthy, in the order of the appfile, has collected the old revisions,
  and leaves the application running.  None of its components produces secrets: an application
  with such a component never settles.
\<close>

theorem settled_reconcile_is_healthy:
  fixes C :: "'w app_client"
  assumes echo: "patch_echoes C" and run: "reconcile_stages C s = Some (Some (0, None), s')"
  shows "apPhase (appStatus (runApp s')) = ApplicationRunning \<and> all_healthy (apServices (appStatus (runApp s'))) \<and>
         map Some (map svName (apServices (appStatus (runApp s')))) = map (map_option awName) (afWorkloads (runAppfile s')) \<and>
         (\<forall>wl. Some wl \<in> set (afWorkloads (runAppfile s')) \<longrightarrow> \<not> secret_producer wl) \<and>
         (\<exists>h w w'. garbageCollection C h w = Some (None, w'))"
proof -
  from settled_last [OF echo run] obtain u v where
    "stage_health C u = Some (None, v)" "stage_collect C v = Some (Some (0, None), s')" by blast
  with stage_health_passed [OF echo] stage_collect_passed [OF echo] show ?thesis by metis
qed

theorem settled_reconcile_is_healthy_witness:
  "\<exists>s'. reconcile_stages (run_client run_reconciler [''app-v4'', ''app-v5''])
       (start_run (run_app ''app'' None (run_latest ''app-v4'' 4 ''4'')) empty_world) = Some (Some (0, None), s') \<and>
     apPhase (appStatus (runApp s')) = ApplicationRunning \<and> all_healthy (apServices (appStatus (runApp s')))"
  using run_settles [OF run_start] settled_reconcile_is_healthy [OF run_echoes] by blast

section \<open>Components that produce secrets\<close>

lemma component_statuses_prefix:
  "component_statuses C app af ws w = Some (Inr r, w1) \<Longrightarrow> component_health C app af wl w1 = None \<Longrightarrow>
     component_statuses C app af (ws @ wl # rest) w = None"
  by (induction ws arbitrary: w r) (auto split: option.splits prod.splits sum.splits)

text \<open>
  The health check panics at the first component that is ready and produces secrets: the secrets
  are put into a context that has not been made yet.
\<close>

theorem secret_producer_panics:
  assumes "afWorkloads af = ws @ Some wl # rest"
    and "component_statuses C app af ws w = Some (Inr r, w1)" and "secret_producer wl"
  shows "aggregateHealthStatus C app af w = None"
proof -
  have "component_health C app af (Some wl) w1 = None"
    using assms(3) by (auto simp: component_health_def secret_producer_def Let_def)
  from component_statuses_prefix [OF assms(2) this] show ?thesis by (simp add: aggregateHealthStatus_def assms(1))
qed

theorem secret_producer_panics_witness:
  "aggregateHealthStatus (history_client [] []) (history_app '''')
     (run_appfile\<lparr>afWorkloads := [Some \<lparr>awName = ''db'', awReference = ('''', ''''), awComponentDefinition = None,
        awWorkloadDefinition = None, awTraits = [], awScopes = [], awConfigNotReady = False, awIsSecretProducer = True,
        awOutputSecretNames = Inr ''secret'', awTerraform = False,
        awEvaluations = \<lparr>evContext = \<lambda>w. (None, w), evHealth = \<lambda>w. (Inr True, w), evStatus = \<lambda>w. (Inr '''', w)\<rparr>\<rparr>]\<rparr>)
     empty_world = None"
  by (rule secret_producer_panics [where ws = "[]" and rest = "[]" and r = "([], True)" and ?w1.0 = empty_world],
      simp, simp, simp add: secret_producer_def)

section \<open>Finalizers\<close>

text \<open>The helpers of crossplane on finalizers, and an API server that takes an update as it is.\<close>

definition finalizer_doc :: "'w reconciler \<Rightarrow> bool" where
  "finalizer_doc R \<longleftrightarrow> (\<forall>fs f. rcFinalizerExists R fs f = (f \<in> set fs)) \<and> (\<forall>fs f. rcRemoveFinalizer R fs f = removeAll f fs)"

abbreviation app_finalizers :: "string set" where
  "app_finalizers \<equiv> {legacyResourceTrackerFinalizer, resourceTrackerFinalizer, onlyRevisionFinalizer}"

lemmas app_finalizer_names = legacyResourceTrackerFinalizer_def resourceTrackerFinalizer_def onlyRevisionFinalizer_def

text \<open>
  An API server that keeps the application, \<open>view\<close> being what it stores: it is read as it was written,
  and deletions and lists of trackers succeed and leave it alone.  Of the updates only those matter that
  the reconcile of a deleted application makes.
\<close>

definition stores_app :: "'w app_client \<Rightarrow> nsname \<Rightarrow> ('w \<Rightarrow> application) \<Rightarrow> bool" where
  "stores_app C req view \<longleftrightarrow>
     (\<forall>w. \<exists>w'. apGetApp C req w = (Inr (view w), w') \<and> view w' = view w) \<and>
     (\<forall>w fs. let app = (versioned C (view w))\<lparr>appFinalizers := fs\<rparr> in
        \<exists>w'. apUpdateApp C app w = ((None, app), w') \<and> view w' = app) \<and>
     (\<forall>rt w. ignore_NotFound (fst (kDeleteTracker (apKube C) rt w)) = None \<and> view (snd (kDeleteTracker (apKube C) rt w)) = view w) \<and>
     (\<forall>n l w. \<exists>rts w'. apListTrackers C n l w = (Inr rts, w') \<and> view w' = view w)"

text \<open>What no call of such a reconcile brings back once it is gone.\<close>

definition stays_gone :: "'w app_client \<Rightarrow> ('w \<Rightarrow> bool) \<Rightarrow> bool" where
  "stays_gone C gone \<longleftrightarrow>
     (\<forall>n w. gone w \<longrightarrow> gone (snd (apGetApp C n w))) \<and> (\<forall>app w. gone w \<longrightarrow> gone (snd (apUpdateApp C app w))) \<and>
     (\<forall>rt w. gone w \<longrightarrow> gone (snd (kDeleteTracker (apKube C) rt w))) \<and>
     (\<forall>n l w. gone w \<longrightarrow> gone (snd (apListTrackers C n l w)))"

lemma versioned_simps [simp]:
  "appFinalizers (versioned C app) = appFinalizers app" "appDeleting (versioned C app) = appDeleting app"
  "appStatus (versioned C app) = appStatus app" "appNamespace (versioned C app) = appNamespace app"
  "appName (versioned C app) = appName app"
  by (simp_all add: versioned_def)

definition release_one :: "string list \<Rightarrow> string list" where
  "release_one fs =
     (if legacyResourceTrackerFinalizer \<in> set fs then removeAll legacyResourceTrackerFinalizer fs
      else if resourceTrackerFinalizer \<in> set fs then removeAll resourceTrackerFinalizer fs
      else removeAll onlyRevisionFinalizer fs)"

lemma release_one_others: "filter (\<lambda>f. f \<notin> app_finalizers) (release_one fs) = filter (\<lambda>f. f \<notin> app_finalizers) fs"
  by (auto simp: release_one_def removeAll_filter_not_eq intro!: filter_cong)

lemma release_one_card:
  assumes "set fs \<inter> app_finalizers \<noteq> {}"
  shows "Suc (card (set (release_one fs) \<inter> app_finalizers)) = card (set fs \<inter> app_finalizers)"
proof -
  define f where "f = (if legacyResourceTrackerFinalizer \<in> set fs then legacyResourceTrackerFinalizer
    else if resourceTrackerFinalizer \<in> set fs then resourceTrackerFinalizer else onlyRevisionFinalizer)"
  have "set (release_one fs) = set fs - {f}" "f \<in> set fs \<inter> app_finalizers"
    using assms by (auto simp: release_one_def f_def)
  then have "set (release_one fs) \<inter> app_finalizers = (set fs \<inter> app_finalizers) - {f}" "f \<in> set fs \<inter> app_finalizers" by auto
  then show ?thesis using card_Suc_Diff1 [of "set fs \<inter> app_finalizers" f] by simp
qed

lemma delete_trackers_obeys:
  assumes "stores_app C req view" and "stays_gone C gone"
  shows "\<exists>v. delete_trackers C rts w = (None, v) \<and> view v = view w \<and> (gone w \<longrightarrow> gone v)"
proof (induction rts arbitrary: w)
  case (Cons rt rts)
  obtain e u where del: "kDeleteTracker (apKube C) rt w = (e, u)" by fastforce
  with assms have "ignore_NotFound e = None" "view u = view w" "gone w \<longrightarrow> gone u"
    unfolding stores_app_def stays_gone_def by (metis fst_conv snd_conv)+
  with del Cons.IH [of u] show ?case by auto
qed simp

lemma update_finalizers_obeys:
  assumes "stores_app C req view" and "stays_gone C gone" and "view u = view w"
  shows "\<exists>v. update_finalizers C (versioned C (view w)) fs u = ((True, None), (versioned C (view w))\<lparr>appFinalizers := fs\<rparr>, v) \<and>
    view v = (versioned C (view w))\<lparr>appFinalizers := fs\<rparr> \<and> (gone u \<longrightarrow> gone v)"
proof -
  let ?app = "(versioned C (view u))\<lparr>appFinalizers := fs\<rparr>"
  obtain v where "apUpdateApp C ?app u = ((None, ?app), v)" "view v = ?app"
    using assms(1) unfolding stores_app_def Let_def by blast
  moreover from this assms(2) have "gone u \<longrightarrow> gone v" unfolding stays_gone_def by (metis snd_conv)
  ultimately show ?thesis using assms(3) by (simp add: update_finalizers_def)
qed

text \<open>A reconcile of a deleted application that still has finalizers of the controller ends with releasing one.\<close>

lemma finalizers_released:
  assumes obeys: "stores_app C req view" "finalizer_doc (apReconciler C)" "stays_gone C gone"
    and app: "appDeleting (view w)" "set (appFinalizers (view w)) \<inter> app_finalizers \<noteq> {}"
    and latest: "apLatestRevision (appStatus (view w)) = Some l" "latestName l \<noteq> ''''"
    and gone: "\<And>rt v. rtName rt = ConstructResourceTrackerName (latestName l) (appNamespace (view w)) \<Longrightarrow> gone (snd (kDeleteTracker (apKube C) rt v))"
    and inv: "resourceTrackerFinalizer \<in> set (appFinalizers (view w)) \<or> gone w"
  shows "\<exists>v. handleFinalizers C (versioned C (view w)) w =
      ((True, None), (versioned C (view w))\<lparr>appFinalizers := release_one (appFinalizers (view w))\<rparr>, v) \<and>
    view v = (versioned C (view w))\<lparr>appFinalizers := release_one (appFinalizers (view w))\<rparr> \<and>
    (resourceTrackerFinalizer \<in> set (release_one (appFinalizers (view w))) \<or> gone v)"
proof -
  let ?app = "versioned C (view w)" and ?fs = "appFinalizers (view w)"
  let ?rt = "named_tracker (ConstructResourceTrackerName (latestName l) (appNamespace (view w)))"
  note del = delete_trackers_obeys [OF obeys(1,3)] and upd = update_finalizers_obeys [OF obeys(1,3), where w = w]
  note unfold = handleFinalizers_def Let_def obeys(2) [unfolded finalizer_doc_def, THEN conjunct1, rule_format]
    obeys(2) [unfolded finalizer_doc_def, THEN conjunct2, rule_format] release_one_def
  have names: "legacyResourceTrackerFinalizer \<noteq> resourceTrackerFinalizer" by (simp add: app_finalizer_names)
  consider (legacy) "legacyResourceTrackerFinalizer \<in> set ?fs"
    | (tracker) "legacyResourceTrackerFinalizer \<notin> set ?fs" "resourceTrackerFinalizer \<in> set ?fs"
    | (only) "legacyResourceTrackerFinalizer \<notin> set ?fs" "resourceTrackerFinalizer \<notin> set ?fs" "onlyRevisionFinalizer \<in> set ?fs"
    using app(2) by blast
  then show ?thesis
  proof cases
    case legacy
    obtain v where v: "delete_trackers C [named_tracker (appNamespace (view w) @ CHR ''-'' # appName (view w))] w = (None, v)"
      "view v = view w" "gone w \<longrightarrow> gone v" using del by blast
    from upd [OF v(2), of "removeAll legacyResourceTrackerFinalizer ?fs"] legacy app(1) v inv names show ?thesis
      by (auto simp: unfold simp del: delete_trackers.simps)
  next
    case tracker
    have "gone (snd (kDeleteTracker (apKube C) ?rt w))" by (rule gone) (simp add: named_tracker_def)
    moreover obtain v where v: "delete_trackers C [?rt] w = (None, v)" "view v = view w" using del by blast
    ultimately have "gone v" by (auto split: prod.splits option.splits)
    with upd [OF v(2), of "removeAll resourceTrackerFinalizer ?fs"] v tracker app(1) latest show ?thesis
      by (auto simp: unfold simp del: delete_trackers.simps)
  next
    case only
    obtain rts x where list: "apListTrackers C None [(LabelAppName, appName (view w)), (LabelAppNamespace, appNamespace (view w))] w = (Inr rts, x)"
      "view x = view w" using obeys(1) by (metis stores_app_def)
    with obeys(3) have x: "gone w \<longrightarrow> gone x" unfolding stays_gone_def by (metis snd_conv)
    obtain v where v: "delete_trackers C rts x = (None, v)" "view v = view w" "gone x \<longrightarrow> gone v" using del [of rts x] list(2) by auto
    from upd [OF v(2), of "removeAll onlyRevisionFinalizer ?fs"] list v x only app(1) inv show ?thesis
      by (auto simp: unfold simp del: delete_trackers.simps)
  qed
qed

text \<open>The world after a reconcile of the application.\<close>

definition reconciled_world :: "'w app_client \<Rightarrow> nsname \<Rightarrow> 'w \<Rightarrow> 'w" where
  "reconciled_world C req w = (case app_Reconcile C req w of None \<Rightarrow> w | Some (res, s, w') \<Rightarrow> w')"

text \<open>
  C27: Deleting an application releases it.  Let it have a latest revision and the finalizer for its
  tracker.  On a server that stores what is written, deletes trackers when asked, and does not bring a
  deleted one back, as many whole
  reconciles as it has finalizers of the controller, at most three, each end without an error before any
  stage of the reconcile is run, and then the controller's finalizers are gone and no others; the
  tracker of the latest revision, with which the resources of the application go, is gone before the
  finalizer that guards it is.  What a finalizer of somebody else keeps longer is not covered: the next
  reconcile takes it for a live application.
\<close>

theorem deletion_completes:
  fixes C :: "'w app_client"
  assumes obeys: "stores_app C req view" "finalizer_doc (apReconciler C)" "stays_gone C gone"
    and app: "appDeleting (view w)" "resourceTrackerFinalizer \<in> set (appFinalizers (view w))"
    and latest: "apLatestRevision (appStatus (view w)) = Some l" "latestName l \<noteq> ''''"
    and gone: "\<And>rt v. rtName rt = ConstructResourceTrackerName (latestName l) (appNamespace (view w)) \<Longrightarrow> gone (snd (kDeleteTracker (apKube C) rt v))"
  shows "let n = card (set (appFinalizers (view w)) \<inter> app_finalizers); at = (\<lambda>k. (reconciled_world C req ^^ k) w)
    in n \<le> 3 \<and>
       (\<forall>k < n. app_Reconcile C req (at k) = Some ((0, None), Some (start_run (view (at (Suc k))) (at (Suc k))), at (Suc k))) \<and>
       appFinalizers (view (at n)) = filter (\<lambda>f. f \<notin> app_finalizers) (appFinalizers (view w)) \<and> gone (at n) \<and>
       (\<forall>k \<le> n. resourceTrackerFinalizer \<in> set (appFinalizers (view (at k))) \<or> gone (at k))"
proof -
  define n where "n = card (set (appFinalizers (view w)) \<inter> app_finalizers)"
  define at where "at k = (reconciled_world C req ^^ k) w" for k
  let ?inv = "\<lambda>k v. appDeleting (view v) \<and> apLatestRevision (appStatus (view v)) = Some l \<and> appNamespace (view v) = appNamespace (view w) \<and>
    card (set (appFinalizers (view v)) \<inter> app_finalizers) = n - k \<and>
    filter (\<lambda>f. f \<notin> app_finalizers) (appFinalizers (view v)) = filter (\<lambda>f. f \<notin> app_finalizers) (appFinalizers (view w)) \<and>
    (resourceTrackerFinalizer \<in> set (appFinalizers (view v)) \<or> gone v)"
  have step: "\<exists>v'. app_Reconcile C req v = Some ((0, None), Some (start_run (view v') v'), v') \<and> ?inv (Suc k) v'"
    if "k < n" and inv: "?inv k v" for k v
  proof -
    obtain u where get: "apGetApp C req v = (Inr (view v), u)" "view u = view v"
      using obeys(1) unfolding stores_app_def by blast
    have u: "gone v \<longrightarrow> gone u" using get(1) obeys(3) unfolding stays_gone_def by (metis snd_conv)
    have held: "set (appFinalizers (view u)) \<inter> app_finalizers \<noteq> {}" using inv \<open>k < n\<close> get(2) by force
    have a: "appDeleting (view u)" "apLatestRevision (appStatus (view u)) = Some l"
      "resourceTrackerFinalizer \<in> set (appFinalizers (view u)) \<or> gone u" using inv get(2) u by auto
    have g: "rtName rt = ConstructResourceTrackerName (latestName l) (appNamespace (view u)) \<Longrightarrow>
      gone (snd (kDeleteTracker (apKube C) rt x))" for rt x using gone inv get(2) by simp
    obtain v' where fin: "handleFinalizers C (versioned C (view u)) u =
        ((True, None), (versioned C (view u))\<lparr>appFinalizers := release_one (appFinalizers (view u))\<rparr>, v')"
      "view v' = (versioned C (view u))\<lparr>appFinalizers := release_one (appFinalizers (view u))\<rparr>"
      "resourceTrackerFinalizer \<in> set (release_one (appFinalizers (view u))) \<or> gone v'"
      using finalizers_released [where l = l and w = u, OF obeys a(1) held a(2) latest(2) _ a(3)] g by meson
    have "app_Reconcile C req v = Some ((0, None), Some (start_run (view v') v'), v')"
      using get fin(1,2) by (simp add: app_Reconcile_def Let_def)
    moreover have "?inv (Suc k) v'"
      using inv get(2) fin(2,3) release_one_card [OF held] by (auto simp: release_one_others [simplified] simp del: Int_insert_right)
    ultimately show ?thesis by blast
  qed
  have at_Suc: "at (Suc k) = reconciled_world C req (at k)" for k by (simp add: at_def)
  have inv: "k \<le> n \<Longrightarrow> ?inv k (at k)" for k
  proof (induction k)
    case 0
    then show ?case using app latest by (simp add: at_def n_def)
  next
    case (Suc k)
    then have "k < n" "?inv k (at k)" by simp_all
    from step [OF this] at_Suc [of k] show ?case by (auto simp: reconciled_world_def)
  qed
  have runs: "app_Reconcile C req (at k) = Some ((0, None), Some (start_run (view (at (Suc k))) (at (Suc k))), at (Suc k))" if "k < n" for k
    using step [OF that inv] that at_Suc [of k] by (auto simp: reconciled_world_def)
  have none: "set (appFinalizers (view (at n))) \<inter> app_finalizers = {}" using inv [of n] by (simp del: Int_insert_right)
  then have all: "filter (\<lambda>f. f \<notin> app_finalizers) (appFinalizers (view (at n))) = appFinalizers (view (at n))"
    unfolding filter_id_conv by blast
  have "filter (\<lambda>f. f \<notin> app_finalizers) (appFinalizers (view (at n))) = filter (\<lambda>f. f \<notin> app_finalizers) (appFinalizers (view w))"
    using inv [of n] by blast
  from trans [OF sym [OF all] this]
  have "appFinalizers (view (at n)) = filter (\<lambda>f. f \<notin> app_finalizers) (appFinalizers (view w))" .
  moreover have "gone (at n)" using inv [of n] none by auto
  moreover have "n \<le> 3"
  proof -
    have "n \<le> card app_finalizers" unfolding n_def by (rule card_mono) auto
    also have "\<dots> \<le> 3" by (simp add: card_insert_if)
    finally show ?thesis .
  qed
  ultimately show ?thesis
    using inv runs unfolding n_def [symmetric] at_def [symmetric] Let_def by blast
qed

text \<open>An application that a tracker and a foreign finalizer hold, with its finalizers kept as owners of an object.\<close>

definition kept_at :: typed_reference where
  "kept_at = \<lparr>refAPIVersion = ''v1'', refKind = ''Application'', refName = ''app'', refNamespace = ''default''\<rparr>"

definition kept_app :: "kube_world \<Rightarrow> application" where
  "kept_app w =
     (versioned (history_client [] []) (history_app ''app-v4''))\<lparr>appDeleting := True,
        appFinalizers := (case kwObjects w kept_at of None \<Rightarrow> [] | Some u \<Rightarrow> map orName (uOwnerReferences u))\<rparr>"

definition keep_finalizers :: "string list \<Rightarrow> kube_world \<Rightarrow> kube_world" where
  "keep_finalizers fs w =
     w\<lparr>kwObjects := (kwObjects w)(kept_at \<mapsto> (example_object ''v1'' ''Application'' ''app'')
         \<lparr>uOwnerReferences := map (\<lambda>f. \<lparr>orAPIVersion = '''', orKind = '''', orName = f, orUID = '''',
            orController = None, orBlockOwnerDeletion = None\<rparr>) fs\<rparr>)\<rparr>"

definition keeping_client :: "kube_world app_client" where
  "keeping_client = (history_client [] [])\<lparr>apGetApp := \<lambda>n w. (Inr (kept_app w), w),
     apUpdateApp := \<lambda>a w. ((None, a), keep_finalizers (appFinalizers a) w)\<rparr>"

theorem deletion_completes_witness:
  "let w = keep_finalizers [''other'', onlyRevisionFinalizer, resourceTrackerFinalizer] full_world;
       w2 = (reconciled_world keeping_client (''default'', ''app'') ^^ 2) w
   in appFinalizers (kept_app w2) = [''other''] \<and> kwTrackers w2 (ConstructResourceTrackerName ''app-v4'' ''default'') = None"
proof -
  let ?C = keeping_client and ?n = "ConstructResourceTrackerName ''app-v4'' ''default''"
  let ?w = "keep_finalizers [''other'', onlyRevisionFinalizer, resourceTrackerFinalizer] full_world"
  have client: "apKube ?C = rollout_kube" "apListTrackers ?C m k v = (Inr [], v)" for m k v
    by (simp_all add: keeping_client_def history_client_def rollout_assembler_def)
  have del: "kDeleteTracker rollout_kube rt v = (None, v\<lparr>kwTrackers := (kwTrackers v)(rtName rt := None)\<rparr>)" for rt v
    by (simp add: rollout_kube_def example_kube_def)
  have same: "versioned ?C (kept_app v) = kept_app v" for v
    by (simp add: versioned_def kept_app_def keeping_client_def history_client_def map_get_def MergeMapOverrideWithDst_def)
  have view: "kept_app (keep_finalizers fs v) = (kept_app v)\<lparr>appFinalizers := fs\<rparr>" "kept_app (v\<lparr>kwTrackers := ts\<rparr>) = kept_app v" for fs v ts
    by (simp_all add: kept_app_def keep_finalizers_def comp_def)
  have stores: "stores_app ?C req kept_app" for req
    unfolding stores_app_def same client del by (simp add: keeping_client_def view ignore_NotFound_def)
  have doc: "finalizer_doc (apReconciler ?C)"
    by (simp add: finalizer_doc_def keeping_client_def history_client_def example_reconciler_def)
  have stays: "stays_gone ?C (\<lambda>v. kwTrackers v ?n = None)"
    unfolding stays_gone_def client del by (simp add: keeping_client_def keep_finalizers_def)
  have fs: "appFinalizers (kept_app ?w) = [''other'', onlyRevisionFinalizer, resourceTrackerFinalizer]" by (simp add: view)
  have n: "card (set (appFinalizers (kept_app ?w)) \<inter> app_finalizers) = 2" unfolding fs by (simp add: app_finalizer_names)
  have base: "appDeleting (kept_app ?w)" "apLatestRevision (appStatus (kept_app ?w)) = Some \<lparr>latestName = ''app-v4'', latestNumber = 4, latestHash = ''4''\<rparr>"
    "appNamespace (kept_app ?w) = ''default''"
    by (simp_all add: kept_app_def history_app_def)
  have held: "resourceTrackerFinalizer \<in> set (appFinalizers (kept_app ?w))" unfolding fs by simp
  have gone: "kwTrackers (snd (kDeleteTracker (apKube ?C) rt v)) ?n = None"
    if "rtName rt = ConstructResourceTrackerName (latestName \<lparr>latestName = ''app-v4'', latestNumber = 4, latestHash = ''4''\<rparr>) (appNamespace (kept_app ?w))" for rt v
    using that unfolding client del base(3) by simp
  note released = deletion_completes [where C = ?C and req = "(''default'', ''app'')" and view = kept_app and w = ?w
      and gone = "\<lambda>v. kwTrackers v ?n = None", OF stores doc stays base(1) held base(2) _ gone]
  have others: "filter (\<lambda>f. f \<notin> app_finalizers) [''other'', onlyRevisionFinalizer, resourceTrackerFinalizer] = [''other'']"
    by (simp add: app_finalizer_names)
  show ?thesis using released [unfolded Let_def n, unfolded fs others] unfolding Let_def by simp
qed

text \<open>
  Once its own finalizers are gone, an application that is deleted but that a finalizer of somebody
  else still keeps is reconciled as if it had not been deleted: its manifests are applied again.
\<close>

theorem deleted_application_is_reconciled:
  assumes "apGetApp C req w = (Inr app, w1)" and "appDeleting app"
    and "finalizer_doc (apReconciler C)" and "set (appFinalizers app) \<inter> app_finalizers = {}"
    and "reconcile_stages C (start_run (versioned C app) w1) = Some (Some res, s)"
  shows "app_Reconcile C req w = Some (res, Some s, runWorld s)"
proof -
  have "handleFinalizers C (versioned C app) w1 = ((False, None), versioned C app, w1)"
    using assms(2-4) by (auto simp: handleFinalizers_def finalizer_doc_def versioned_def Let_def)
  with assms(1,5) show ?thesis by (simp add: app_Reconcile_def Let_def)
qed

theorem deleted_application_is_reconciled_witness:
  "\<exists>s. app_Reconcile (run_client run_reconciler [''app-v4'', ''app-v5'']) (''default'', ''app'') empty_world =
         Some ((0, None), Some s, runWorld s) \<and>
       apLatestRevision (appStatus (runApp s)) = Some (run_latest ''app-v5'' (revision_number ''app-v5'') ''1'')"
proof -
  let ?C = "run_client run_reconciler [''app-v4'', ''app-v5'']"
  have get: "apGetApp ?C (''default'', ''app'') empty_world = (Inr deleted_app, empty_world)" by (simp add: run_client_def)
  have same: "versioned ?C deleted_app = deleted_app"
    by (simp add: versioned_def deleted_app_def run_app_def map_get_def Let_def)
  have "run_at (run_app ''app'' None (run_latest ''app-v4'' 4 ''4'')) (start_run deleted_app empty_world\<lparr>runAppfile := run_appfile\<rparr>)"
    by (simp add: run_at_def start_run_def run_appfile_def deleted_app_def app_frame_def)
  from run_settles [OF this] obtain s where
    s: "reconcile_stages ?C (start_run deleted_app empty_world) = Some (Some (0, None), s)"
      "apLatestRevision (appStatus (runApp s)) = Some (run_latest ''app-v5'' (revision_number ''app-v5'') ''1'')" by blast
  have "finalizer_doc (apReconciler ?C)" by (simp add: finalizer_doc_def run_reconciler_def example_reconciler_def)
  moreover have "appDeleting deleted_app" "set (appFinalizers deleted_app) \<inter> app_finalizers = {}"
    by (simp_all add: deleted_app_def app_finalizer_names)
  ultimately show ?thesis
    using deleted_application_is_reconciled [OF get, of "(0, None)" s] s same by auto
qed

end
