(* ===== verification/Definitions.thy ===== *)
theory Definitions
  imports App_History_Properties
begin

text \<open>
  Definitions of capabilities and their revisions: core/revison.go, and the four controllers of
  component, trait, policy and workflow step definitions, which differ in their texts, in whether the
  package discovery is refreshed, and in whether a schema is stored.  EndReconcileWithNegativeCondition
  is that of oam/util/helper.go.

  \<open>None\<close> is a panic: a definition without a latest revision where one is read.
\<close>

section \<open>Definitions and revisions\<close>

datatype def_kind = ComponentType | TraitType | PolicyType | WorkflowStepType

record definition_object =
  doKind :: def_kind
  doName :: string
  doNamespace :: string
  doUID :: string
  doAPIVersion :: string
  doTypeKind :: string
  doLabels :: string_map
  doAnnotations :: string_map
  doDeleting :: bool
  doReference :: string
  doSpec :: string
  doConditions :: "app_condition list"
  doConfigMapRef :: string
  doLatest :: "latest_revision option"

text \<open>The four definitions that a revision embeds; all but one are zero.\<close>

record embedded_definition =
  emName :: string
  emNamespace :: string
  emSpec :: string

record definition_revision =
  drName :: string
  drNamespace :: string
  drLabels :: string_map
  drAnnotations :: string_map
  drOwnerReferences :: "owner_ref list"
  drResourceVersion :: string
  drRevision :: int
  drHash :: string
  drType :: def_kind
  drEmbedded :: "def_kind \<Rightarrow> embedded_definition"

text \<open>
  The client of the four controllers.  RefreshPackageDiscover and StoreOpenAPISchema ask the discovery
  of packages and render CUE; the conditions are crossplane's; \<open>dcZero\<close> is the text of a zero
  specification.
\<close>

record 'w def_client =
  dcNow :: "'w \<Rightarrow> int"
  dcReconcileError :: "string \<Rightarrow> int \<Rightarrow> app_condition"
  dcGetCondition :: "string \<Rightarrow> app_condition list \<Rightarrow> app_condition"
  dcEqualCondition :: "app_condition \<Rightarrow> app_condition \<Rightarrow> bool"
  dcSetConditions :: "app_condition \<Rightarrow> app_condition list \<Rightarrow> app_condition list"
  dcQuote :: "string \<Rightarrow> string"
  dcGet :: "nsname \<Rightarrow> 'w \<Rightarrow> (api_error + definition_object) \<times> 'w"
  dcPatchStatus :: "definition_object \<Rightarrow> definition_object \<Rightarrow> 'w \<Rightarrow> api_error option \<times> 'w"
  dcUpdateStatus :: "definition_object \<Rightarrow> 'w \<Rightarrow> (api_error option \<times> definition_object) \<times> 'w"
  dcRetry :: "(definition_object \<times> 'w \<Rightarrow> api_error option \<times> definition_object \<times> 'w) \<Rightarrow>
     definition_object \<times> 'w \<Rightarrow> api_error option \<times> definition_object \<times> 'w"
  dcGetRevision :: "nsname \<Rightarrow> 'w \<Rightarrow> (api_error + definition_revision) \<times> 'w"
  dcCreateRevision :: "definition_revision \<Rightarrow> 'w \<Rightarrow> (api_error option \<times> definition_revision) \<times> 'w"
  dcUpdateRevision :: "definition_revision \<Rightarrow> 'w \<Rightarrow> api_error option \<times> 'w"
  dcDeleteRevision :: "definition_revision \<Rightarrow> 'w \<Rightarrow> api_error option \<times> 'w"
  dcListRevisions :: "string \<Rightarrow> (string \<times> string) list \<Rightarrow> 'w \<Rightarrow> (api_error + definition_revision list) \<times> 'w"
  dcRefreshPackageDiscover :: "definition_object \<Rightarrow> 'w \<Rightarrow> string option \<times> 'w"
  dcStoreOpenAPISchema :: "definition_object \<Rightarrow> nsname \<Rightarrow> string \<Rightarrow> 'w \<Rightarrow> (string + string) \<times> 'w"
  dcHash :: "def_kind \<Rightarrow> string \<Rightarrow> string + nat"
  dcEqual :: "def_kind \<Rightarrow> string \<Rightarrow> string \<Rightarrow> bool"
  dcZero :: "def_kind \<Rightarrow> string"
  dcSort :: "int list \<Rightarrow> nat list"
  dcRevisionLimit :: int

section \<open>Ending a reconcile\<close>

definition ErrReconcileErrInCondition :: "(string \<Rightarrow> string) \<Rightarrow> string \<Rightarrow> string \<Rightarrow> string" where
  "ErrReconcileErrInCondition quote tpy msg =
     ''object level reconcile error, type: '' @ quote tpy @ '', msg: '' @ quote msg"
definition ErrUpdateStatus :: string where "ErrUpdateStatus = ''cannot apply status''"
definition ErrRefreshPackageDiscover :: "string \<Rightarrow> string" where
  "ErrRefreshPackageDiscover err = ''cannot discover the open api of the CRD : '' @ err"
definition ErrGenerateDefinitionRevision :: "string \<Rightarrow> string \<Rightarrow> string" where
  "ErrGenerateDefinitionRevision n err = ''cannot generate DefinitionRevision of '' @ n @ '': '' @ err"
definition ErrCreateOrUpdateDefinitionRevision :: "string \<Rightarrow> string \<Rightarrow> string" where
  "ErrCreateOrUpdateDefinitionRevision n err = ''cannot create or update DefinitionRevision '' @ n @ '': '' @ err"
definition ErrStoreCapabilityInConfigMap :: "string \<Rightarrow> string \<Rightarrow> string" where
  "ErrStoreCapabilityInConfigMap n err = ''cannot store capability '' @ n @ '' in ConfigMap: '' @ err"

fun ErrUpdateDefinition :: "def_kind \<Rightarrow> string \<Rightarrow> string \<Rightarrow> string" where
  "ErrUpdateDefinition ComponentType n err = ''cannot update ComponentDefinition '' @ n @ '': '' @ err"
| "ErrUpdateDefinition TraitType n err = ''cannot update TraitDefinition '' @ n @ '': '' @ err"
| "ErrUpdateDefinition PolicyType n err = ''cannot update PolicyDefinition '' @ n @ '': '' @ err"
| "ErrUpdateDefinition WorkflowStepType n err = ''cannot update WorkflowStepDefinition '' @ n @ '': '' @ err"

text \<open>With one condition, as it is called here.  A condition that is new makes the patch itself trigger the next reconcile.\<close>

definition EndReconcileWithNegativeCondition ::
  "'w def_client \<Rightarrow> definition_object \<Rightarrow> app_condition \<Rightarrow> 'w \<Rightarrow> string option \<times> 'w" where
  "EndReconcileWithNegativeCondition C d condition w =
     (let existing = dcGetCondition C (acdType condition) (doConditions d);
          changed = \<not> dcEqualCondition C existing condition
      in case dcPatchStatus C d (d\<lparr>doConditions := dcSetConditions C condition (doConditions d)\<rparr>) w of
           (Some err, w) \<Rightarrow> (Some (errors_Wrap (errText err) ErrUpdateStatus), w)
         | (None, w) \<Rightarrow>
             if changed then (None, w)
             else (Some (ErrReconcileErrInCondition (dcQuote C) (acdType condition) (acdMessage condition)), w))"

section \<open>Generating a revision\<close>

definition zero_definition_revision :: "'w def_client \<Rightarrow> definition_revision" where
  "zero_definition_revision C =
     \<lparr>drName = '''', drNamespace = '''', drLabels = None, drAnnotations = None, drOwnerReferences = [],
      drResourceVersion = '''', drRevision = 0, drHash = '''', drType = ComponentType,
      drEmbedded = (\<lambda>k. \<lparr>emName = '''', emNamespace = '''', emSpec = dcZero C k\<rparr>)\<rparr>"

definition embedded :: "definition_revision \<Rightarrow> embedded_definition" where
  "embedded r = drEmbedded r (drType r)"

definition computeDefinitionRevisionHash :: "'w def_client \<Rightarrow> definition_revision \<Rightarrow> string + string" where
  "computeDefinitionRevisionHash C r = spec_hash (dcHash C (drType r) (emSpec (embedded r)))"

definition gatherRevisionInfo ::
  "'w def_client \<Rightarrow> definition_object \<Rightarrow> string + definition_revision \<times> latest_revision option" where
  "gatherRevisionInfo C d =
     (let r = zero_definition_revision C;
          r = r\<lparr>drType := doKind d,
                drEmbedded := (drEmbedded r)(doKind d := \<lparr>emName = doName d, emNamespace = doNamespace d, emSpec = doSpec d\<rparr>)\<rparr>
      in bind_result (computeDefinitionRevisionHash C r) (\<lambda>defHash. Inr (r\<lparr>drHash := defHash\<rparr>, doLatest d)))"

definition deepEqualDefRevision :: "'w def_client \<Rightarrow> definition_revision \<Rightarrow> definition_revision \<Rightarrow> bool" where
  "deepEqualDefRevision C old new =
     (let same = (\<lambda>k. dcEqual C k (emSpec (drEmbedded old k)) (emSpec (drEmbedded new k))) in
      if \<not> same ComponentType then False
      else if \<not> same TraitType then False
      else if \<not> same PolicyType then False
      else if \<not> same WorkflowStepType then False
      else True)"

text \<open>Whether the revision is new, and the revision, which takes the name of an equal one.\<close>

definition compareWithLastDefRevisionSpec ::
  "'w def_client \<Rightarrow> definition_revision \<Rightarrow> latest_revision option \<Rightarrow> 'w \<Rightarrow>
     (string + bool \<times> definition_revision) \<times> 'w" where
  "compareWithLastDefRevisionSpec C newDefRev lastRevision w =
     (case lastRevision of
        None \<Rightarrow> (Inr (True, newDefRev), w)
      | Some l \<Rightarrow>
          if latestHash l \<noteq> drHash newDefRev then (Inr (True, newDefRev), w)
          else (case dcGetRevision C (emNamespace (embedded newDefRev), latestName l) w of
                  (Inl err, w) \<Rightarrow> (Inl (errors_Wrap (errText err) (''get the definitionRevision '' @ latestName l)), w)
                | (Inr defRev, w) \<Rightarrow>
                    if deepEqualDefRevision C defRev newDefRev
                    then (Inr (False, newDefRev\<lparr>drName := drName defRev, drResourceVersion := drResourceVersion defRev\<rparr>), w)
                    else (Inr (True, newDefRev), w)))"

definition getDefNextRevision :: "definition_revision \<Rightarrow> latest_revision option \<Rightarrow> string \<times> int" where
  "getDefNextRevision defRev lastRevision =
     (let nextRevision = (case lastRevision of None \<Rightarrow> 1 | Some l \<Rightarrow> i64 (latestNumber l + 1))
      in (strings_Join [emName (embedded defRev), CHR ''v'' # itoa nextRevision] CHR ''-'', nextRevision))"

definition GenerateDefinitionRevision ::
  "'w def_client \<Rightarrow> definition_object \<Rightarrow> 'w \<Rightarrow> (string + definition_revision \<times> bool) \<times> 'w" where
  "GenerateDefinitionRevision C d w =
     (case gatherRevisionInfo C d of
        Inl err \<Rightarrow> (Inl err, w)
      | Inr (defRev, lastRevision) \<Rightarrow>
          (case compareWithLastDefRevisionSpec C defRev lastRevision w of
             (Inl err, w) \<Rightarrow> (Inl err, w)
           | (Inr (isNewRev, defRev), w) \<Rightarrow>
               (if isNewRev
                then (case getDefNextRevision defRev lastRevision of
                        (defRevName, revNum) \<Rightarrow> (Inr (defRev\<lparr>drName := defRevName, drRevision := revNum\<rparr>, True), w))
                else (Inr (defRev, False), w))))"

section \<open>Deleting old revisions\<close>

definition LabelComponentDefinitionName :: string where "LabelComponentDefinitionName = ''componentdefinition.oam.dev/name''"
definition LabelTraitDefinitionName :: string where "LabelTraitDefinitionName = ''trait.oam.dev/name''"
definition LabelPolicyDefinitionName :: string where "LabelPolicyDefinitionName = ''policydefinition.oam.dev/name''"
definition LabelWorkflowStepDefinitionName :: string where "LabelWorkflowStepDefinitionName = ''workflowstepdefinition.oam.dev/name''"

fun name_label :: "def_kind \<Rightarrow> string" where
  "name_label ComponentType = LabelComponentDefinitionName"
| "name_label TraitType = LabelTraitDefinitionName"
| "name_label PolicyType = LabelPolicyDefinitionName"
| "name_label WorkflowStepType = LabelWorkflowStepDefinitionName"

definition CleanUpDefinitionRevision ::
  "'w def_client \<Rightarrow> definition_object \<Rightarrow> 'w \<Rightarrow> (string option \<times> 'w) option" where
  "CleanUpDefinitionRevision C d w = do {
     l \<leftarrow> doLatest d;
     Some (case dcListRevisions C (doNamespace d) [(name_label (doKind d), doName d)] w of
             (Inl err, w) \<Rightarrow> (Some (errText err), w)
           | (Inr items, w) \<Rightarrow>
               (let needKill = int (length items) - dcRevisionLimit C - 1 in
                if needKill \<le> 0 then (None, w)
                else kill_oldest (dcDeleteRevision C) (\<lambda>r. drName r = latestName l) needKill
                       (sort_by (dcSort C) drRevision items) w))
   }"

section \<open>The controllers\<close>

definition def_owner_ref :: "definition_object \<Rightarrow> owner_ref" where
  "def_owner_ref d =
     \<lparr>orAPIVersion = doAPIVersion d, orKind = doTypeKind d, orName = doName d, orUID = doUID d,
      orController = Some True, orBlockOwnerDeletion = Some True\<rparr>"

text \<open>
  createOrUpdateComponentDefRevision and the three others: the error, and the revision in memory.
  An existing revision only gets new metadata.
\<close>

definition createOrUpdateDefRevision ::
  "'w def_client \<Rightarrow> string \<Rightarrow> definition_object \<Rightarrow> definition_revision \<Rightarrow> 'w \<Rightarrow> (string option \<times> definition_revision) \<times> 'w" where
  "createOrUpdateDefRevision C ns d defRev w =
     (let defRev = defRev\<lparr>drLabels := MergeMapOverrideWithDst (doLabels d) (Some [name_label (doKind d) \<mapsto> doName d]),
                          drNamespace := ns, drAnnotations := doAnnotations d, drOwnerReferences := [def_owner_ref d]\<rparr>
      in case dcGetRevision C (ns, drName defRev) w of
           (Inl err, w) \<Rightarrow>
             if errNotFound err
             then (case dcCreateRevision C defRev w of ((err, defRev), w) \<Rightarrow> ((map_option errText err, defRev), w))
             else ((Some (errText err), defRev), w)
         | (Inr old, w) \<Rightarrow>
             (case dcUpdateRevision C (old\<lparr>drAnnotations := drAnnotations defRev, drLabels := drLabels defRev,
                                            drOwnerReferences := drOwnerReferences defRev\<rparr>) w of
                (err, w) \<Rightarrow> ((map_option errText err, defRev), w)))"

definition def_UpdateStatus :: "'w def_client \<Rightarrow> definition_object \<Rightarrow> 'w \<Rightarrow> string option \<times> definition_object \<times> 'w" where
  "def_UpdateStatus C d w =
     (case dcRetry C (\<lambda>(d', w).
             case dcGet C (doNamespace d', doName d') w of
               (Inl err, w) \<Rightarrow> (Some err, d', w)
             | (Inr got, w) \<Rightarrow>
                 (case dcUpdateStatus C (got\<lparr>doConditions := doConditions d, doConfigMapRef := doConfigMapRef d,
                                             doLatest := doLatest d\<rparr>) w of
                    ((err, d'), w) \<Rightarrow> (err, d', w))) (d, w) of
        (err, d, w) \<Rightarrow> (map_option errText err, d, w))"

text \<open>The points at which a warning is recorded, and its reason in each controller.\<close>

datatype def_step = Refreshing | Generating | Updating | Storing | Creating | Reporting | Collecting bool

fun def_reason :: "def_kind \<Rightarrow> def_step \<Rightarrow> string" where
  "def_reason ComponentType Refreshing = ''Could not discover the open api of the CRD''"
| "def_reason ComponentType Generating = ''Could not generate DefinitionRevision''"
| "def_reason ComponentType Updating = ''Could not update DefinitionRevision''"
| "def_reason ComponentType Storing = ''Could not store capability in ConfigMap''"
| "def_reason ComponentType Creating = ''cannot create DefinitionRevision''"
| "def_reason ComponentType Reporting = ''cannot update ComponentDefinition Status''"
| "def_reason ComponentType (Collecting isNew) = ''failed to garbage collect DefinitionRevision of type ComponentDefinition''"
| "def_reason TraitType Refreshing = ''cannot refresh packageDiscover''"
| "def_reason TraitType Generating = ''Could not generate DefinitionRevision''"
| "def_reason TraitType Updating = ''cannot update DefinitionRevision''"
| "def_reason TraitType Storing = ''Could not store capability in ConfigMap''"
| "def_reason TraitType Creating = ''Could not create definitionRevision''"
| "def_reason TraitType Reporting = ''Could not update TraitDefinition Status''"
| "def_reason TraitType (Collecting isNew) =
     (if isNew then ''Failed to garbage collect DefinitionRevision of type TraitDefinition''
      else ''failed to garbage collect DefinitionRevision of type TraitDefinition'')"
| "def_reason k Refreshing = ''cannot refresh packageDiscover''"
| "def_reason k Generating = ''cannot generate DefinitionRevision''"
| "def_reason k Updating = ''cannot update DefinitionRevision''"
| "def_reason k Storing = ''''"
| "def_reason k Creating = ''cannot create DefinitionRevision''"
| "def_reason PolicyType Reporting = ''cannot update PolicyDefinition Status''"
| "def_reason PolicyType (Collecting isNew) = ''failed to garbage collect DefinitionRevision of type PolicyDefinition''"
| "def_reason WorkflowStepType Reporting = ''cannot update WorkflowStepDefinition Status''"
| "def_reason WorkflowStepType (Collecting isNew) =
     ''failed to garbage collect DefinitionRevision of type WorkflowStepDefinition''"

text \<open>A reconcile gives its error, the events and the world.\<close>

type_synonym 'w def_result = "(string option \<times> rec_event list \<times> 'w) option"

definition def_failed ::
  "'w def_client \<Rightarrow> definition_object \<Rightarrow> def_step \<Rightarrow> string \<Rightarrow> string \<Rightarrow> 'w \<Rightarrow> 'w def_result" where
  "def_failed C d step err msg w =
     (case EndReconcileWithNegativeCondition C d (dcReconcileError C msg (dcNow C w)) w of
        (res, w) \<Rightarrow> Some (res, [WarningEvent (def_reason (doKind d) step) err], w))"

definition collect_revisions :: "'w def_client \<Rightarrow> definition_object \<Rightarrow> bool \<Rightarrow> 'w \<Rightarrow> 'w def_result" where
  "collect_revisions C d isNew w = do {
     (err, w) \<leftarrow> CleanUpDefinitionRevision C d w;
     Some (None, case err of None \<Rightarrow> [] | Some err \<Rightarrow> [WarningEvent (def_reason (doKind d) (Collecting isNew)) err], w)
   }"

definition update_known_revision ::
  "'w def_client \<Rightarrow> nsname \<Rightarrow> definition_object \<Rightarrow> definition_revision \<Rightarrow> 'w \<Rightarrow> 'w def_result" where
  "update_known_revision C req d defRev w =
     (case createOrUpdateDefRevision C (fst req) d defRev w of
        ((Some err, defRev), w) \<Rightarrow> def_failed C d Updating err (ErrCreateOrUpdateDefinitionRevision (drName defRev) err) w
      | ((None, defRev), w) \<Rightarrow> collect_revisions C d False w)"

text \<open>Components and traits store the schema of their parameters.\<close>

definition stores_schema :: "def_kind \<Rightarrow> bool" where "stores_schema k \<longleftrightarrow> k = ComponentType \<or> k = TraitType"

definition record_new_revision ::
  "'w def_client \<Rightarrow> nsname \<Rightarrow> definition_object \<Rightarrow> definition_revision \<Rightarrow> 'w \<Rightarrow> 'w def_result" where
  "record_new_revision C req d defRev w =
     (case (if stores_schema (doKind d)
            then dcStoreOpenAPISchema C d req (drName defRev) w else (Inr (doConfigMapRef d), w)) of
        (Inl err, w) \<Rightarrow> def_failed C d Storing err (ErrStoreCapabilityInConfigMap (doName d) err) w
      | (Inr configMap, w) \<Rightarrow>
          (let d = d\<lparr>doConfigMapRef := configMap\<rparr> in
           case createOrUpdateDefRevision C (fst req) d defRev w of
             ((Some err, defRev), w) \<Rightarrow> def_failed C d Creating err (ErrCreateOrUpdateDefinitionRevision (drName defRev) err) w
           | ((None, defRev), w) \<Rightarrow>
               (let d = d\<lparr>doLatest := Some \<lparr>latestName = drName defRev, latestNumber = drRevision defRev, latestHash = drHash defRev\<rparr>\<rparr> in
                case def_UpdateStatus C d w of
                  (Some err, d, w) \<Rightarrow> def_failed C d Reporting err (ErrUpdateDefinition (doKind d) (doName d) err) w
                | (None, d, w) \<Rightarrow> collect_revisions C d True w)))"

definition refreshes :: "definition_object \<Rightarrow> bool" where
  "refreshes d \<longleftrightarrow> doKind d = ComponentType \<or> doReference d \<noteq> ''''"

definition def_Reconcile :: "'w def_client \<Rightarrow> nsname \<Rightarrow> 'w \<Rightarrow> 'w def_result" where
  "def_Reconcile C req w =
     (case dcGet C req w of
        (Inl err, w) \<Rightarrow> Some (if errNotFound err then None else Some (errText err), [], w)
      | (Inr d, w) \<Rightarrow>
          if doDeleting d then Some (None, [], w)
          else
            (case (if refreshes d then dcRefreshPackageDiscover C d w else (None, w)) of
               (Some err, w) \<Rightarrow> def_failed C d Refreshing err (ErrRefreshPackageDiscover err) w
             | (None, w) \<Rightarrow>
                 (case GenerateDefinitionRevision C d w of
                    (Inl err, w) \<Rightarrow> def_failed C d Generating err (ErrGenerateDefinitionRevision (doName d) err) w
                  | (Inr (defRev, isNewRevision), w) \<Rightarrow>
                      if \<not> isNewRevision then update_known_revision C req d defRev w
                      else record_new_revision C req d defRev w)))"

end
