(* ===== verification/Definitions_Properties.thy ===== *)
theory Definitions_Properties
  imports Definitions
begin

text \<open>
  What the controllers of definitions guarantee: a definition that is not edited settles on a revision
  that holds its specification, and what an existing revision of the new name does.
\<close>

section \<open>A server of definitions and revisions\<close>

abbreviation rev_key :: "definition_revision \<Rightarrow> nsname" where "rev_key r \<equiv> (drNamespace r, drName r)"

definition same_status :: "definition_object \<Rightarrow> definition_object \<Rightarrow> bool" where
  "same_status a b \<longleftrightarrow> doLatest a = doLatest b \<and> doConfigMapRef a = doConfigMapRef b \<and> doConditions a = doConditions b"

definition same_definition :: "definition_object \<Rightarrow> definition_object \<Rightarrow> bool" where
  "same_definition a b \<longleftrightarrow> doKind a = doKind b \<and> doName a = doName b \<and> doNamespace a = doNamespace b \<and> doSpec a = doSpec b"

text \<open>
  \<open>defs\<close> and \<open>revs\<close> are what the server stores.  Writes that succeed are stored, a deletion removes at
  most what it names, and a retry gives the outcome of the last call.
\<close>

definition def_server ::
  "'w def_client \<Rightarrow> ('w \<Rightarrow> nsname \<Rightarrow> definition_object option) \<Rightarrow> ('w \<Rightarrow> nsname \<Rightarrow> definition_revision option) \<Rightarrow> bool" where
  "def_server C defs revs \<longleftrightarrow>
     (\<forall>n w d. defs w n = Some d \<longrightarrow> dcGet C n w = (Inr d, w)) \<and>
     (\<forall>n w r. revs w n = Some r \<longrightarrow> dcGetRevision C n w = (Inr r, w)) \<and>
     (\<forall>n w. revs w n = None \<longrightarrow> (\<exists>err. dcGetRevision C n w = (Inl err, w) \<and> errNotFound err)) \<and>
     (\<forall>r w r' w'. dcCreateRevision C r w = ((None, r'), w') \<longrightarrow>
        rev_key r' = rev_key r \<and> drEmbedded r' = drEmbedded r \<and> drHash r' = drHash r \<and> drRevision r' = drRevision r \<and>
        revs w' = (revs w)(rev_key r \<mapsto> r') \<and> defs w' = defs w) \<and>
     (\<forall>r w w'. dcUpdateRevision C r w = (None, w') \<longrightarrow> revs w' = (revs w)(rev_key r \<mapsto> r) \<and> defs w' = defs w) \<and>
     (\<forall>r w n. defs (snd (dcDeleteRevision C r w)) = defs w \<and>
        (n \<noteq> rev_key r \<longrightarrow> revs (snd (dcDeleteRevision C r w)) n = revs w n)) \<and>
     (\<forall>ns l w. defs (snd (dcListRevisions C ns l w)) = defs w \<and> revs (snd (dcListRevisions C ns l w)) = revs w) \<and>
     (\<forall>d w. defs (snd (dcRefreshPackageDiscover C d w)) = defs w \<and> revs (snd (dcRefreshPackageDiscover C d w)) = revs w) \<and>
     (\<forall>d n v w. defs (snd (dcStoreOpenAPISchema C d n v w)) = defs w \<and> revs (snd (dcStoreOpenAPISchema C d n v w)) = revs w) \<and>
     (\<forall>d w d' w'. dcUpdateStatus C d w = ((None, d'), w') \<longrightarrow>
        same_definition d' d \<and> same_status d' d \<and> defs w' = (defs w)((doNamespace d, doName d) \<mapsto> d') \<and> revs w' = revs w) \<and>
     (\<forall>d w e d' w'. dcUpdateStatus C d w = ((Some e, d'), w') \<longrightarrow>
        doName d' = doName d \<and> doNamespace d' = doNamespace d \<and> defs w' = defs w \<and> revs w' = revs w) \<and>
     (\<forall>f s P. P s \<longrightarrow> (\<forall>s e s'. P s \<longrightarrow> f s = (Some e, s') \<longrightarrow> P s') \<longrightarrow> (\<exists>s'. P s' \<and> dcRetry C f s = f s'))"

text \<open>The names of what is stored.\<close>

definition stored_names ::
  "('w \<Rightarrow> nsname \<Rightarrow> definition_object option) \<Rightarrow> ('w \<Rightarrow> nsname \<Rightarrow> definition_revision option) \<Rightarrow> 'w \<Rightarrow> bool" where
  "stored_names defs revs w \<longleftrightarrow>
     (\<forall>n d. defs w n = Some d \<longrightarrow> n = (doNamespace d, doName d)) \<and> (\<forall>n r. revs w n = Some r \<longrightarrow> n = rev_key r)"

text \<open>The server keeps a revision for the definition, and the definition would not get another one.\<close>

definition settled :: "'w def_client \<Rightarrow> definition_revision option \<Rightarrow> definition_object \<Rightarrow> bool" where
  "settled C stored d \<longleftrightarrow>
     (\<exists>l r r0. doLatest d = Some l \<and> stored = Some r \<and> drName r = latestName l \<and>
        gatherRevisionInfo C d = Inr (r0, Some l) \<and> latestHash l = drHash r0 \<and> deepEqualDefRevision C r r0)"

lemma gatherRevisionInfo_Inr:
  "gatherRevisionInfo C d = Inr (r, l) \<Longrightarrow>
     l = doLatest d \<and> drType r = doKind d \<and> embedded r = \<lparr>emName = doName d, emNamespace = doNamespace d, emSpec = doSpec d\<rparr> \<and>
     computeDefinitionRevisionHash C r = Inr (drHash r) \<and> drName r = ''''"
  by (auto simp: gatherRevisionInfo_def Let_def bind_result_Inr embedded_def computeDefinitionRevisionHash_def
      zero_definition_revision_def)

lemma gatherRevisionInfo_same:
  "same_definition a b \<Longrightarrow> gatherRevisionInfo C a = (case gatherRevisionInfo C b of Inl e \<Rightarrow> Inl e | Inr (r, l) \<Rightarrow> Inr (r, doLatest a))"
  by (cases "spec_hash (dcHash C (doKind b) (doSpec b))")
     (auto simp: gatherRevisionInfo_def same_definition_def Let_def computeDefinitionRevisionHash_def embedded_def)

lemma settled_generates:
  assumes "settled C (revs w (doNamespace d, latestName l)) d" "doLatest d = Some l"
    and "\<And>n r. revs w n = Some r \<Longrightarrow> dcGetRevision C n w = (Inr r, w)"
  shows "\<exists>r. GenerateDefinitionRevision C d w = (Inr (r, False), w) \<and> drName r = latestName l"
proof -
  from assms(1,2) obtain r r0 where r: "revs w (doNamespace d, latestName l) = Some r"
    "drName r = latestName l" "latestHash l = drHash r0" "deepEqualDefRevision C r r0" "gatherRevisionInfo C d = Inr (r0, Some l)"
    by (auto simp: settled_def)
  from gatherRevisionInfo_Inr [OF r(5)] have "emNamespace (embedded r0) = doNamespace d" by simp
  with assms(3) [OF r(1)] r(2-5) show ?thesis
    by (simp add: GenerateDefinitionRevision_def compareWithLastDefRevisionSpec_def)
qed

section \<open>A reconcile, step by step\<close>

lemma def_serverD:
  assumes "def_server C defs revs"
  shows "\<And>n w d. defs w n = Some d \<Longrightarrow> dcGet C n w = (Inr d, w)"
    and "\<And>n w r. revs w n = Some r \<Longrightarrow> dcGetRevision C n w = (Inr r, w)"
    and "\<And>n w. revs w n = None \<Longrightarrow> \<exists>err. dcGetRevision C n w = (Inl err, w) \<and> errNotFound err"
    and "\<And>r w r' w'. dcCreateRevision C r w = ((None, r'), w') \<Longrightarrow>
        rev_key r' = rev_key r \<and> drEmbedded r' = drEmbedded r \<and> drHash r' = drHash r \<and> drRevision r' = drRevision r \<and>
        revs w' = (revs w)(rev_key r \<mapsto> r') \<and> defs w' = defs w"
    and "\<And>r w w'. dcUpdateRevision C r w = (None, w') \<Longrightarrow> revs w' = (revs w)(rev_key r \<mapsto> r) \<and> defs w' = defs w"
    and "\<And>r w. defs (snd (dcDeleteRevision C r w)) = defs w"
    and "\<And>r w n. n \<noteq> rev_key r \<Longrightarrow> revs (snd (dcDeleteRevision C r w)) n = revs w n"
    and "\<And>ns l w. defs (snd (dcListRevisions C ns l w)) = defs w \<and> revs (snd (dcListRevisions C ns l w)) = revs w"
    and "\<And>d w. defs (snd (dcRefreshPackageDiscover C d w)) = defs w \<and> revs (snd (dcRefreshPackageDiscover C d w)) = revs w"
    and "\<And>d n v w. defs (snd (dcStoreOpenAPISchema C d n v w)) = defs w \<and> revs (snd (dcStoreOpenAPISchema C d n v w)) = revs w"
    and "\<And>d w d' w'. dcUpdateStatus C d w = ((None, d'), w') \<Longrightarrow>
        same_definition d' d \<and> same_status d' d \<and> defs w' = (defs w)((doNamespace d, doName d) \<mapsto> d') \<and> revs w' = revs w"
    and "\<And>d w e d' w'. dcUpdateStatus C d w = ((Some e, d'), w') \<Longrightarrow>
        doName d' = doName d \<and> doNamespace d' = doNamespace d \<and> defs w' = defs w \<and> revs w' = revs w"
    and "\<And>f s P. P s \<Longrightarrow> (\<And>s e s'. P s \<Longrightarrow> f s = (Some e, s') \<Longrightarrow> P s') \<Longrightarrow> \<exists>s'. P s' \<and> dcRetry C f s = f s'"
  subgoal by (rule assms [unfolded def_server_def, THEN conjunct1, rule_format])
  subgoal by (rule assms [unfolded def_server_def, THEN conjunct2, THEN conjunct1, rule_format])
  subgoal by (rule assms [unfolded def_server_def, THEN conjunct2, THEN conjunct2, THEN conjunct1, rule_format])
  subgoal by (rule assms [unfolded def_server_def, THEN conjunct2, THEN conjunct2, THEN conjunct2, THEN conjunct1, rule_format])
  subgoal by (rule assms [unfolded def_server_def, THEN conjunct2, THEN conjunct2, THEN conjunct2, THEN conjunct2, THEN conjunct1, rule_format])
  subgoal using assms unfolding def_server_def by (elim conjE) meson
  subgoal using assms unfolding def_server_def by (elim conjE) meson
  subgoal by (rule assms [unfolded def_server_def, THEN conjunct2, THEN conjunct2, THEN conjunct2, THEN conjunct2, THEN conjunct2, THEN conjunct2, THEN conjunct1, rule_format])
  subgoal by (rule assms [unfolded def_server_def, THEN conjunct2, THEN conjunct2, THEN conjunct2, THEN conjunct2, THEN conjunct2, THEN conjunct2, THEN conjunct2, THEN conjunct1, rule_format])
  subgoal by (rule assms [unfolded def_server_def, THEN conjunct2, THEN conjunct2, THEN conjunct2, THEN conjunct2, THEN conjunct2, THEN conjunct2, THEN conjunct2, THEN conjunct2, THEN conjunct1, rule_format])
  subgoal by (rule assms [unfolded def_server_def, THEN conjunct2, THEN conjunct2, THEN conjunct2, THEN conjunct2, THEN conjunct2, THEN conjunct2, THEN conjunct2, THEN conjunct2, THEN conjunct2, THEN conjunct1, rule_format])
  subgoal by (rule assms [unfolded def_server_def, THEN conjunct2, THEN conjunct2, THEN conjunct2, THEN conjunct2, THEN conjunct2, THEN conjunct2, THEN conjunct2, THEN conjunct2, THEN conjunct2, THEN conjunct2, THEN conjunct1, rule_format])
  subgoal premises p for f s P by (rule assms [unfolded def_server_def, THEN conjunct2, THEN conjunct2, THEN conjunct2, THEN conjunct2, THEN conjunct2, THEN conjunct2, THEN conjunct2, THEN conjunct2, THEN conjunct2, THEN conjunct2, THEN conjunct2, THEN spec, THEN spec, THEN spec, THEN mp, THEN mp]) (use p in blast)+
  done

lemma createOrUpdate_creates:
  assumes server: "def_server C defs revs" and absent: "revs w (ns, drName r) = None"
    and run: "createOrUpdateDefRevision C ns d r w = ((None, r'), w')"
  shows "drName r' = drName r \<and> drHash r' = drHash r \<and> drRevision r' = drRevision r \<and> drNamespace r' = ns \<and>
    drEmbedded r' = drEmbedded r \<and> revs w' = (revs w)((ns, drName r) \<mapsto> r') \<and> defs w' = defs w"
  using def_serverD(3) [OF server absent] run
  by (auto simp: createOrUpdateDefRevision_def Let_def split: prod.splits dest!: def_serverD(4) [OF server])

lemma createOrUpdate_updates:
  assumes server: "def_server C defs revs" and old: "revs w (ns, drName r) = Some old" "rev_key old = (ns, drName r)"
    and run: "createOrUpdateDefRevision C ns d r w = ((None, r'), w')"
  shows "drName r' = drName r \<and> drHash r' = drHash r \<and> defs w' = defs w \<and>
    (\<exists>new. revs w' = (revs w)((ns, drName r) \<mapsto> new) \<and> rev_key new = rev_key old \<and> drEmbedded new = drEmbedded old \<and> drHash new = drHash old)"
  using def_serverD(2) [OF server old(1)] old(2) run
  by (auto simp: createOrUpdateDefRevision_def Let_def split: prod.splits dest!: def_serverD(5) [OF server])

lemma def_UpdateStatus_stores:
  assumes server: "def_server C defs revs" and stored: "stored_names defs revs w" "defs w (doNamespace d, doName d) = Some got"
    and run: "def_UpdateStatus C d w = (None, d', w')"
  shows "same_definition d' got \<and> same_status d' d \<and> defs w' = (defs w)((doNamespace d, doName d) \<mapsto> d') \<and> revs w' = revs w"
proof -
  let ?key = "(doNamespace d, doName d)"
  let ?f = "\<lambda>(d', w). case dcGet C (doNamespace d', doName d') w of
      (Inl err, w) \<Rightarrow> (Some err, d', w)
    | (Inr got, w) \<Rightarrow> (case dcUpdateStatus C (got\<lparr>doConditions := doConditions d, doConfigMapRef := doConfigMapRef d, doLatest := doLatest d\<rparr>) w of
        ((err, d'), w) \<Rightarrow> (err, d', w))"
  let ?P = "\<lambda>(d', v). (doNamespace d', doName d') = ?key \<and> defs v = defs w \<and> revs v = revs w"
  let ?got = "got\<lparr>doConditions := doConditions d, doConfigMapRef := doConfigMapRef d, doLatest := doLatest d\<rparr>"
  have name: "doNamespace got = doNamespace d" "doName got = doName d" using stored by (auto simp: stored_names_def)
  have step: "?f (a, v) = (case dcUpdateStatus C ?got v of ((err, d'), w) \<Rightarrow> (err, d', w))" if "?P (a, v)" for a v
    using that stored(2) def_serverD(1) [OF server, of v ?key got] by simp
  have "\<exists>s'. ?P s' \<and> dcRetry C ?f (d, w) = ?f s'"
  proof (rule def_serverD(13) [OF server])
    fix s e s' assume "?P s" "?f s = (Some e, s')"
    moreover obtain a v where s: "s = (a, v)" by fastforce
    moreover obtain r d1 v1 where upd: "dcUpdateStatus C ?got v = ((r, d1), v1)" by (metis surj_pair)
    ultimately have "s' = (d1, v1)" "dcUpdateStatus C ?got v = ((Some e, d1), v1)"
      using step [of a v] by auto
    with def_serverD(12) [OF server this(2)] \<open>?P s\<close> s name show "?P s'" by auto
  qed simp
  then obtain a v where P: "?P (a, v)" and r: "dcRetry C ?f (d, w) = ?f (a, v)" by fast
  from run r step [OF P] obtain e where u: "dcUpdateStatus C ?got v = ((None, d'), w')"
    by (auto simp: def_UpdateStatus_def split: prod.splits)
  from def_serverD(11) [OF server u] P name show ?thesis
    by (auto simp: same_definition_def same_status_def)
qed

lemma CleanUpDefinitionRevision_keeps:
  assumes server: "def_server C defs revs" and sort: "sort_doc (dcSort C)"
    and latest: "doLatest d = Some l" and run: "CleanUpDefinitionRevision C d w = Some (e, w')"
  shows "defs w' = defs w \<and> (\<forall>ns. revs w' (ns, latestName l) = revs w (ns, latestName l))"
proof -
  obtain x v where list: "dcListRevisions C (doNamespace d) [(name_label (doKind d), doName d)] w = (x, v)" by fastforce
  with def_serverD(8) [OF server] have v: "defs v = defs w \<and> revs v = revs w" by (metis snd_conv)
  let ?P = "\<lambda>u. defs u = defs w \<and> (\<forall>ns. revs u (ns, latestName l) = revs w (ns, latestName l))"
  have "?P (snd (delete_all (dcDeleteRevision C) (victims (\<lambda>r. drName r = latestName l) k rs) v))" for k rs
  proof (rule delete_all_keeps [where P = ?P])
    fix r u assume "r \<in> set (victims (\<lambda>r. drName r = latestName l) k rs)" "?P u"
    moreover from victims_unused [OF this(1)] have "(ns, latestName l) \<noteq> rev_key r" for ns by auto
    ultimately show "?P (snd (dcDeleteRevision C r u))"
      using def_serverD(6,7) [OF server] by metis
  qed (use v in simp)
  with v list run latest show ?thesis
    by (auto simp: CleanUpDefinitionRevision_def kill_oldest_delete_all Let_def split: sum.splits if_splits prod.splits)
       (metis snd_conv)+
qed

lemma def_failed_warns: "def_failed C d step err msg w \<noteq> Some (res, [], w')"
  by (auto simp: def_failed_def split: prod.splits)

lemma collect_revisions_quiet:
  assumes "collect_revisions C d isNew w = Some (res, [], w')"
  shows "CleanUpDefinitionRevision C d w = Some (None, w')"
  using assms by (auto simp: collect_revisions_def bind_eq_Some_conv split: option.splits)

lemma GenerateDefinitionRevision_cases:
  assumes "GenerateDefinitionRevision C d w = (Inr (r, isNew), w')"
  obtains r0 where "gatherRevisionInfo C d = Inr (r0, doLatest d)"
    and "isNew \<Longrightarrow> r = r0\<lparr>drName := fst (getDefNextRevision r0 (doLatest d)), drRevision := snd (getDefNextRevision r0 (doLatest d))\<rparr>"
    and "\<not> isNew \<Longrightarrow> \<exists>l old. doLatest d = Some l \<and> latestHash l = drHash r0 \<and> dcGetRevision C (doNamespace d, latestName l) w = (Inr old, w') \<and>
      deepEqualDefRevision C old r0 \<and> r = r0\<lparr>drName := drName old, drResourceVersion := drResourceVersion old\<rparr>"
proof -
  from assms obtain r0 where r0: "gatherRevisionInfo C d = Inr (r0, doLatest d)"
    by (auto simp: GenerateDefinitionRevision_def split: sum.splits dest!: gatherRevisionInfo_Inr)
  from gatherRevisionInfo_Inr [OF r0] have ns: "emNamespace (embedded r0) = doNamespace d" by simp
  show thesis
  proof (rule that [OF r0])
    show "r = r0\<lparr>drName := fst (getDefNextRevision r0 (doLatest d)), drRevision := snd (getDefNextRevision r0 (doLatest d))\<rparr>" if isNew
      using assms that r0
      by (auto simp: GenerateDefinitionRevision_def compareWithLastDefRevisionSpec_def split: prod.splits sum.splits option.splits if_splits)
    show "\<exists>l old. doLatest d = Some l \<and> latestHash l = drHash r0 \<and> dcGetRevision C (doNamespace d, latestName l) w = (Inr old, w') \<and>
      deepEqualDefRevision C old r0 \<and> r = r0\<lparr>drName := drName old, drResourceVersion := drResourceVersion old\<rparr>" if "\<not> isNew"
      using assms that r0 ns
      by (auto simp: GenerateDefinitionRevision_def compareWithLastDefRevisionSpec_def split: prod.splits sum.splits option.splits if_splits)
  qed
qed

lemma all_def_kinds: "(\<forall>k. P k) \<longleftrightarrow> P ComponentType \<and> P TraitType \<and> P PolicyType \<and> P WorkflowStepType"
  by (metis def_kind.exhaust)

lemma deepEqualDefRevision_iff:
  "deepEqualDefRevision C old new \<longleftrightarrow> (\<forall>k. dcEqual C k (emSpec (drEmbedded old k)) (emSpec (drEmbedded new k)))"
  by (simp add: deepEqualDefRevision_def Let_def all_def_kinds)

lemma stored_namesD:
  assumes "stored_names defs revs w"
  shows "defs w n = Some d \<Longrightarrow> n = (doNamespace d, doName d)" "revs w n = Some r \<Longrightarrow> n = rev_key r"
  using assms unfolding stored_names_def by blast+

lemma GenerateDefinitionRevision_reads:
  assumes "def_server C defs revs" "GenerateDefinitionRevision C d w = (x, w')"
  shows "w' = w"
proof -
  have get: "snd (dcGetRevision C n w) = w" for n
    using def_serverD(2,3) [OF assms(1), where w = w and n = n] by (cases "revs w n") auto
  have "snd (compareWithLastDefRevisionSpec C r l w) = w" for r l
    using get [of "(emNamespace (embedded r), latestName (the l))"]
    by (auto simp: compareWithLastDefRevisionSpec_def split: option.split sum.split prod.split)
  with assms(2) show ?thesis
    by (auto simp: GenerateDefinitionRevision_def split: sum.splits prod.splits if_splits) (metis snd_conv)+
qed

text \<open>Both ends of a reconcile leave the definition settled.\<close>

lemma update_known_revision_settles:
  assumes server: "def_server C defs revs" and sort: "sort_doc (dcSort C)" and names: "stored_names defs revs w"
    and d: "defs w req = Some d" and gen: "GenerateDefinitionRevision C d w = (Inr (r, False), w1)"
    and run: "update_known_revision C req d r w1 = Some (None, [], w')"
  shows "defs w' req = Some d \<and> (\<exists>l. doLatest d = Some l \<and> settled C (revs w' (fst req, latestName l)) d)"
proof -
  from stored_namesD(1) [OF names d] have req: "req = (doNamespace d, doName d)" .
  from GenerateDefinitionRevision_cases [OF gen] obtain r0 l old where r0: "gatherRevisionInfo C d = Inr (r0, doLatest d)"
    and l: "doLatest d = Some l" "latestHash l = drHash r0" "dcGetRevision C (doNamespace d, latestName l) w = (Inr old, w1)"
      "deepEqualDefRevision C old r0" "r = r0\<lparr>drName := drName old, drResourceVersion := drResourceVersion old\<rparr>" by metis
  have old: "revs w (fst req, latestName l) = Some old" "w1 = w"
    using l(3) req def_serverD(2,3) [OF server, where w = w and n = "(doNamespace d, latestName l)"]
    by (cases "revs w (doNamespace d, latestName l)"; simp)+
  from stored_namesD(2) [OF names old(1)] have key: "rev_key old = (fst req, latestName l)" by simp
  with l(5) have name: "drName r = latestName l" by simp
  from run obtain r' w2 where upd: "createOrUpdateDefRevision C (fst req) d r w1 = ((None, r'), w2)"
    and col: "collect_revisions C d False w2 = Some (None, [], w')"
    by (auto simp: update_known_revision_def def_failed_warns split: prod.splits option.splits)
  from createOrUpdate_updates [OF server _ _ upd, of old] old key name obtain new where
    new: "defs w2 = defs w" "revs w2 (fst req, latestName l) = Some new" "drName new = latestName l" "drEmbedded new = drEmbedded old" by auto
  from CleanUpDefinitionRevision_keeps [OF server sort l(1) collect_revisions_quiet [OF col]] new
  have "defs w' = defs w" "revs w' (fst req, latestName l) = Some new" by simp_all
  moreover have "deepEqualDefRevision C new r0" using l(4) new(4) by (simp add: deepEqualDefRevision_iff)
  ultimately show ?thesis using d l new r0 by (auto simp: settled_def)
qed

lemma record_new_revision_settles:
  assumes server: "def_server C defs revs" and sort: "sort_doc (dcSort C)" and refl: "\<And>k s. dcEqual C k s s"
    and names: "stored_names defs revs w" and d: "defs w req = Some d"
    and gen: "GenerateDefinitionRevision C d w = (Inr (r, True), w1)" and fresh: "revs w (fst req, drName r) = None"
    and same: "defs w1 = defs w" "revs w1 = revs w"
    and run: "record_new_revision C req d r w1 = Some (None, [], w')"
  shows "\<exists>d' l. defs w' req = Some d' \<and> same_definition d' d \<and> doLatest d' = Some l \<and> settled C (revs w' (fst req, latestName l)) d'"
proof -
  from stored_namesD(1) [OF names d] have req: "req = (doNamespace d, doName d)" .
  obtain r0 where r0: "gatherRevisionInfo C d = Inr (r0, doLatest d)"
    and r0r: "r = r0\<lparr>drName := fst (getDefNextRevision r0 (doLatest d)), drRevision := snd (getDefNextRevision r0 (doLatest d))\<rparr>"
    using GenerateDefinitionRevision_cases [OF gen] by blast
  then have r: "drHash r = drHash r0" "drEmbedded r = drEmbedded r0" by simp_all
  obtain sch w2 where sch: "(if stores_schema (doKind d) then dcStoreOpenAPISchema C d req (drName r) w1 else (Inr (doConfigMapRef d), w1)) = (sch, w2)"
    by fastforce
  have same2: "defs w2 = defs w \<and> revs w2 = revs w"
    using sch same def_serverD(10) [OF server, where d = d and n = req and v = "drName r" and w = w1] by (auto split: if_splits)
  from run sch obtain cm where cm: "sch = Inr cm" by (cases sch) (auto simp: record_new_revision_def def_failed_warns)
  let ?d = "d\<lparr>doConfigMapRef := cm\<rparr>"
  from run sch cm obtain r' w3 where upd: "createOrUpdateDefRevision C (fst req) ?d r w2 = ((None, r'), w3)"
    by (auto simp: record_new_revision_def def_failed_warns Let_def split: prod.splits option.splits)
  let ?l = "\<lparr>latestName = drName r', latestNumber = drRevision r', latestHash = drHash r'\<rparr>"
  from fresh same2 have "revs w2 (fst req, drName r) = None" by simp
  from createOrUpdate_creates [OF server this upd] have r': "drName r' = drName r" "drHash r' = drHash r"
    "drEmbedded r' = drEmbedded r" "revs w3 = (revs w2)((fst req, drName r) \<mapsto> r')" "defs w3 = defs w" "drNamespace r' = fst req"
    using same2 by auto
  from run sch cm upd obtain d' w4 where st: "def_UpdateStatus C (?d\<lparr>doLatest := Some ?l\<rparr>) w3 = (None, d', w4)"
    and col: "collect_revisions C d' True w4 = Some (None, [], w')"
    by (auto simp: record_new_revision_def def_failed_warns Let_def split: prod.splits option.splits)
  have "stored_names defs revs w3"
    using names r'(1,4-6) same2 by (auto simp: stored_names_def split: if_splits)
  from def_UpdateStatus_stores [OF server this _ st, of d] r'(5) d req
  have d': "same_definition d' d" "doLatest d' = Some ?l" "defs w4 req = Some d'" "revs w4 = revs w3" by (auto simp: same_status_def)
  from CleanUpDefinitionRevision_keeps [OF server sort d'(2) collect_revisions_quiet [OF col]] d' r'
  have "defs w' req = Some d'" "revs w' (fst req, drName r') = Some r'" by simp_all
  moreover have "gatherRevisionInfo C d' = Inr (r0, Some ?l)"
    using gatherRevisionInfo_same [OF d'(1), of C] r0 d'(2) by simp
  moreover have "deepEqualDefRevision C r' r0" using refl r'(3) r(2) by (simp add: deepEqualDefRevision_iff)
  ultimately show ?thesis using d' r' r by (auto simp: settled_def)
qed

text \<open>
  C30: A definition that is not edited settles, when no revision is stored yet under the name of the
  next revision that the reconcile would make (otherwise that one is reused and may be stale, see
  reused_revision_keeps_old_spec): after a reconcile without an error or a warning, the server keeps a revision whose specification equals that of the definition and which the status
  names, deleting old revisions has not deleted it, and whenever the definition is reconciled while
  that revision is stored, no other revision is made.
\<close>

theorem definition_settles:
  assumes server: "def_server C defs revs" and docs: "sort_doc (dcSort C)" "\<And>k s. dcEqual C k s s"
    and names: "stored_names defs revs w" and d: "defs w req = Some d" "\<not> doDeleting d"
    and fresh: "\<And>r l. gatherRevisionInfo C d = Inr (r, l) \<Longrightarrow> revs w (fst req, fst (getDefNextRevision r l)) = None"
    and run: "def_Reconcile C req w = Some (None, [], w')"
  shows "\<exists>d' l. defs w' req = Some d' \<and> same_definition d' d \<and> doLatest d' = Some l \<and>
           settled C (revs w' (fst req, latestName l)) d' \<and>
           (\<forall>v. revs v (fst req, latestName l) = revs w' (fst req, latestName l) \<longrightarrow>
              (\<exists>r. GenerateDefinitionRevision C d' v = (Inr (r, False), v) \<and> drName r = latestName l))"
proof -
  from stored_namesD(1) [OF names d(1)] have req: "req = (doNamespace d, doName d)" .
  obtain e w0 where ref: "(if refreshes d then dcRefreshPackageDiscover C d w else (None, w)) = (e, w0)" by fastforce
  have same: "defs w0 = defs w" "revs w0 = revs w"
    using ref def_serverD(9) [OF server, where d = d and w = w] by (auto split: if_splits)
  with names d have names0: "stored_names defs revs w0" "defs w0 req = Some d" by (simp_all add: stored_names_def)
  from run ref d have "e = None"
    by (cases e) (auto simp: def_Reconcile_def def_serverD(1) [OF server d(1)] def_failed_warns)
  with run ref d obtain r isNew w1 where gen: "GenerateDefinitionRevision C d w0 = (Inr (r, isNew), w1)"
    and rest: "(if \<not> isNew then update_known_revision C req d r w1 else record_new_revision C req d r w1) = Some (None, [], w')"
    by (auto simp: def_Reconcile_def def_serverD(1) [OF server d(1)] def_failed_warns split: prod.splits sum.splits)
  have "\<exists>d' l. defs w' req = Some d' \<and> same_definition d' d \<and> doLatest d' = Some l \<and> settled C (revs w' (fst req, latestName l)) d'"
  proof (cases isNew)
    case True
    obtain r0 where r0r: "gatherRevisionInfo C d = Inr (r0, doLatest d)"
      "r = r0\<lparr>drName := fst (getDefNextRevision r0 (doLatest d)), drRevision := snd (getDefNextRevision r0 (doLatest d))\<rparr>"
      using GenerateDefinitionRevision_cases [OF gen] True by blast
    then have r0: "gatherRevisionInfo C d = Inr (r0, doLatest d)" "drName r = fst (getDefNextRevision r0 (doLatest d))" by simp_all
    from fresh [OF r0(1)] r0(2) same have fr: "revs w0 (fst req, drName r) = None" by simp
    have "w1 = w0" by (rule GenerateDefinitionRevision_reads [OF server gen])
    with record_new_revision_settles [OF server docs names0 _ fr] gen rest True show ?thesis by auto
  next
    case False
    with update_known_revision_settles [OF server docs(1) names0] gen rest show ?thesis
      by (auto simp: same_definition_def)
  qed
  then obtain d' l where res: "defs w' req = Some d'" "same_definition d' d" "doLatest d' = Some l" "settled C (revs w' (fst req, latestName l)) d'" by blast
  with settled_generates [where C = C and d = d' and l = l and revs = revs] def_serverD(2) [OF server] req show ?thesis
    by (intro exI [of _ d'] exI [of _ l]) (auto simp: same_definition_def)
qed

text \<open>
  A revision that already has the name of the next one, as a reconcile leaves it whose update of
  the status failed, keeps its specification when the definition has been edited since: the reconcile
  succeeds, and the status names that revision with the hash of the other specification.
\<close>

theorem reused_revision_keeps_old_spec:
  assumes server: "def_server C defs revs" and sort: "sort_doc (dcSort C)"
    and names: "stored_names defs revs w" and d: "defs w req = Some d"
    and gen: "GenerateDefinitionRevision C d w = (Inr (r, True), w)"
    and left_over: "revs w (fst req, drName r) = Some old"
    and run: "record_new_revision C req d r w = Some (None, [], w')"
  shows "\<exists>d' stored. defs w' req = Some d' \<and> revs w' (fst req, drName r) = Some stored \<and>
           drEmbedded stored = drEmbedded old \<and> drHash stored = drHash old \<and>
           doLatest d' = Some \<lparr>latestName = drName r, latestNumber = drRevision r, latestHash = drHash r\<rparr>"
proof -
  from stored_namesD(1) [OF names d] have req: "req = (doNamespace d, doName d)" .
  from stored_namesD(2) [OF names left_over] have key: "rev_key old = (fst req, drName r)" by simp
  obtain sch w2 where sch: "(if stores_schema (doKind d) then dcStoreOpenAPISchema C d req (drName r) w else (Inr (doConfigMapRef d), w)) = (sch, w2)"
    by fastforce
  have same: "defs w2 = defs w" "revs w2 = revs w"
    using sch def_serverD(10) [OF server, where d = d and n = req and v = "drName r" and w = w] by (auto split: if_splits)
  from run sch obtain cm where cm: "sch = Inr cm" by (cases sch) (auto simp: record_new_revision_def def_failed_warns)
  let ?d = "d\<lparr>doConfigMapRef := cm\<rparr>"
  from run sch cm obtain r' w3 where upd: "createOrUpdateDefRevision C (fst req) ?d r w2 = ((None, r'), w3)"
    by (auto simp: record_new_revision_def def_failed_warns Let_def split: prod.splits option.splits)
  let ?l = "\<lparr>latestName = drName r', latestNumber = drRevision r', latestHash = drHash r'\<rparr>"
  from left_over same have "revs w2 (fst req, drName r) = Some old" by simp
  from createOrUpdate_updates [OF server this key upd] obtain new where r': "drName r' = drName r" "drHash r' = drHash r"
    "defs w3 = defs w" "revs w3 = (revs w)((fst req, drName r) \<mapsto> new)" "rev_key new = rev_key old"
    "drEmbedded new = drEmbedded old" "drHash new = drHash old" using same by auto
  have number: "drRevision r' = drRevision r"
    using upd def_serverD(2) [OF server \<open>revs w2 (fst req, drName r) = Some old\<close>]
    by (auto simp: createOrUpdateDefRevision_def Let_def split: prod.splits)
  from run sch cm upd obtain d' w4 where st: "def_UpdateStatus C (?d\<lparr>doLatest := Some ?l\<rparr>) w3 = (None, d', w4)"
    and col: "collect_revisions C d' True w4 = Some (None, [], w')"
    by (auto simp: record_new_revision_def def_failed_warns Let_def split: prod.splits option.splits)
  have "stored_names defs revs w3"
    using names r'(3-5) key by (auto simp: stored_names_def split: if_splits)
  from def_UpdateStatus_stores [OF server this _ st, of d] r'(3) d req
  have d': "doLatest d' = Some ?l" "defs w4 req = Some d'" "revs w4 = revs w3" by (auto simp: same_status_def)
  from CleanUpDefinitionRevision_keeps [OF server sort d'(1) collect_revisions_quiet [OF col]] d' r'
  have "defs w' req = Some d'" "revs w' (fst req, drName r) = Some new" by simp_all
  with d' r' number show ?thesis by simp
qed

section \<open>Examples\<close>

type_synonym def_world = "(nsname \<rightharpoonup> definition_object) \<times> (nsname \<rightharpoonup> definition_revision)"

definition def_example_client :: "def_world def_client" where
  "def_example_client =
     \<lparr>dcNow = (\<lambda>w. 0),
      dcReconcileError = (\<lambda>err t. \<lparr>acdType = ''Synced'', acdStatus = False, acdReason = ''ReconcileError'', acdMessage = err, acdTime = t\<rparr>),
      dcGetCondition = (\<lambda>t cs. \<lparr>acdType = t, acdStatus = False, acdReason = '''', acdMessage = '''', acdTime = 0\<rparr>),
      dcEqualCondition = (=), dcSetConditions = (\<lambda>c cs. [c]), dcQuote = (\<lambda>s. s),
      dcGet = (\<lambda>n w. (case fst w n of None \<Rightarrow> Inl not_found | Some d \<Rightarrow> Inr d, w)),
      dcPatchStatus = (\<lambda>old d w. (None, w)),
      dcUpdateStatus = (\<lambda>d w. ((None, d), (fst w)((doNamespace d, doName d) \<mapsto> d), snd w)),
      dcRetry = (\<lambda>f s. f s),
      dcGetRevision = (\<lambda>n w. (case snd w n of None \<Rightarrow> Inl not_found | Some r \<Rightarrow> Inr r, w)),
      dcCreateRevision = (\<lambda>r w. ((None, r), fst w, (snd w)(rev_key r \<mapsto> r))),
      dcUpdateRevision = (\<lambda>r w. (None, fst w, (snd w)(rev_key r \<mapsto> r))),
      dcDeleteRevision = (\<lambda>r w. (None, fst w, (snd w)(rev_key r := None))),
      dcListRevisions = (\<lambda>ns l w. (Inr [], w)),
      dcRefreshPackageDiscover = (\<lambda>d w. (None, w)),
      dcStoreOpenAPISchema = (\<lambda>d n v w. (Inr ''schema'', w)),
      dcHash = (\<lambda>k s. Inr (length s)), dcEqual = (\<lambda>k. (=)), dcZero = (\<lambda>k. ''''),
      dcSort = (\<lambda>ks. sort_key ((!) ks) [0..<length ks]), dcRevisionLimit = 2\<rparr>"

lemma def_example_server: "def_server def_example_client fst snd"
  unfolding def_server_def by (intro conjI; auto simp: def_example_client_def not_found_def same_definition_def same_status_def)

lemma def_example_docs: "sort_doc (dcSort def_example_client)" "dcEqual def_example_client k s s"
  by (simp_all add: def_example_client_def sort_key_doc)

definition webservice :: definition_object where
  "webservice =
     \<lparr>doKind = ComponentType, doName = ''webservice'', doNamespace = ''default'', doUID = ''uid'', doAPIVersion = ''core.oam.dev/v1beta1'',
      doTypeKind = ''ComponentDefinition'', doLabels = None, doAnnotations = None, doDeleting = False, doReference = '''',
      doSpec = ''spec'', doConditions = [], doConfigMapRef = '''', doLatest = None\<rparr>"

abbreviation webservice_key :: nsname where "webservice_key \<equiv> (''default'', ''webservice'')"

definition webservice_world :: def_world where "webservice_world = ([webservice_key \<mapsto> webservice], Map.empty)"

definition webservice_revision :: definition_revision where
  "webservice_revision =
     (zero_definition_revision def_example_client)\<lparr>drEmbedded := (drEmbedded (zero_definition_revision def_example_client))(ComponentType :=
        \<lparr>emName = ''webservice'', emNamespace = ''default'', emSpec = ''spec''\<rparr>), drHash := ''4'', drName := ''webservice-v1'', drRevision := 1\<rparr>"

lemma webservice_generates: "GenerateDefinitionRevision def_example_client webservice w = (Inr (webservice_revision, True), w)"
proof -
  have hash: "strconv_FormatHex (Suc (Suc (Suc (Suc 0)))) = ''4''" by code_simp
  have name: "strings_Join [''webservice'', CHR ''v'' # itoa 1] CHR ''-'' = ''webservice-v1''" by code_simp
  show ?thesis
    using hash name
    by (simp add: GenerateDefinitionRevision_def gatherRevisionInfo_def compareWithLastDefRevisionSpec_def getDefNextRevision_def
        computeDefinitionRevisionHash_def embedded_def spec_hash_def webservice_def webservice_revision_def
        zero_definition_revision_def def_example_client_def Let_def)
qed

theorem definition_settles_witness:
  "\<exists>w' d' l r. def_Reconcile def_example_client webservice_key webservice_world = Some (None, [], w') \<and>
     fst w' webservice_key = Some d' \<and> doLatest d' = Some l \<and>
     GenerateDefinitionRevision def_example_client d' w' = (Inr (r, False), w')"
proof -
  have names: "stored_names fst snd webservice_world" by (auto simp: stored_names_def webservice_world_def webservice_def split: if_splits)
  have d: "fst webservice_world webservice_key = Some webservice" "\<not> doDeleting webservice"
    by (simp_all add: webservice_world_def webservice_def)
  have fresh: "snd webservice_world n = None" for n by (simp add: webservice_world_def)
  have "\<exists>w'. def_Reconcile def_example_client webservice_key webservice_world = Some (None, [], w')"
    using d webservice_generates
    by (simp add: def_Reconcile_def def_example_client_def [THEN arg_cong [where f = dcGet]] fresh)
       (simp add: def_example_client_def record_new_revision_def createOrUpdateDefRevision_def fresh not_found_def
          def_UpdateStatus_def collect_revisions_def CleanUpDefinitionRevision_def webservice_def webservice_world_def Let_def)
  then obtain w' where run: "def_Reconcile def_example_client webservice_key webservice_world = Some (None, [], w')" by blast
  from definition_settles [OF def_example_server def_example_docs(1) def_example_docs(2) names d fresh run] run show ?thesis
    by metis
qed

text \<open>A revision that an earlier reconcile has left, of the specification \<open>old\<close>.\<close>

definition left_over_revision :: definition_revision where
  "left_over_revision =
     webservice_revision\<lparr>drNamespace := ''default'', drHash := ''3'',
       drEmbedded := (drEmbedded webservice_revision)(ComponentType := \<lparr>emName = ''webservice'', emNamespace = ''default'', emSpec = ''old''\<rparr>)\<rparr>"

theorem reused_revision_keeps_old_spec_witness:
  "\<exists>w' d' stored. record_new_revision def_example_client webservice_key webservice webservice_revision
       ([webservice_key \<mapsto> webservice], [(''default'', ''webservice-v1'') \<mapsto> left_over_revision]) = Some (None, [], w') \<and>
     fst w' webservice_key = Some d' \<and> snd w' (''default'', ''webservice-v1'') = Some stored \<and>
     emSpec (drEmbedded stored ComponentType) = ''old'' \<and> map_option latestHash (doLatest d') = Some ''4''"
proof -
  let ?w = "([webservice_key \<mapsto> webservice], [(''default'', ''webservice-v1'') \<mapsto> left_over_revision]) :: def_world"
  have name: "drName webservice_revision = ''webservice-v1''" "drHash webservice_revision = ''4''" "doName webservice = ''webservice''"
    "doNamespace webservice = ''default''" by (simp_all add: webservice_revision_def webservice_def)
  have names: "stored_names fst snd ?w"
    by (auto simp: stored_names_def left_over_revision_def name split: if_splits)
  have d: "fst ?w webservice_key = Some webservice" by simp
  have old: "snd ?w (fst webservice_key, drName webservice_revision) = Some left_over_revision" by (simp add: name)
  have "\<exists>w'. record_new_revision def_example_client webservice_key webservice webservice_revision ?w = Some (None, [], w')"
    by (simp add: record_new_revision_def createOrUpdateDefRevision_def def_UpdateStatus_def collect_revisions_def
        CleanUpDefinitionRevision_def def_example_client_def name Let_def)
  then obtain w' where run: "record_new_revision def_example_client webservice_key webservice webservice_revision ?w = Some (None, [], w')" by blast
  from reused_revision_keeps_old_spec [OF def_example_server def_example_docs(1) names d webservice_generates old run] run name show ?thesis
    by (auto simp: left_over_revision_def)
qed

end
