(* ===== verification/Config_Types.thy ===== *)
theory Config_Types
  imports Application
begin

text \<open>
  Application configurations: the types of apis/core.oam.dev/v1alpha2/core_types.go that their
  controller reads and writes, the client of the controller, and the look-up of definitions and
  components of pkg/oam/util/helper.go.

  The content of an object is reached through fieldpath, whose operations are in the client; a value
  at a path is a \<open>json\<close>.  An operation gives its error or its result, and the next world; \<open>on_ok\<close> is
  Go's early return of an error, \<open>on_safe\<close> the same for an operation that can panic (\<open>None\<close>).
\<close>

section \<open>Values\<close>

datatype json =
  JNull | JBool bool | JInt int | JFloat string | JString string
| JArray "json list" | JObject "(string \<times> json) list"

record cp_reference =
  trAPIVersion :: string
  trKind :: string
  trName :: string
  trUID :: string

definition reference_to :: "unstructured \<Rightarrow> cp_reference" where
  "reference_to u = \<lparr>trAPIVersion = uAPIVersion u, trKind = uKind u, trName = uName u, trUID = ''''\<rparr>"

definition zero_reference :: cp_reference where
  "zero_reference = \<lparr>trAPIVersion = '''', trKind = '''', trName = '''', trUID = ''''\<rparr>"

text \<open>An empty object of which only the type and the name are set.\<close>

definition blank_object :: "string \<Rightarrow> string \<Rightarrow> string \<Rightarrow> string \<Rightarrow> unstructured" where
  "blank_object version kind ns n =
     \<lparr>uAPIVersion = version, uKind = kind, uNamespace = ns, uName = n, uGenerateName = '''',
      uUID = '''', uLabels = None, uAnnotations = None, uOwnerReferences = [], uRest = ''''\<rparr>"

section \<open>Passing data\<close>

record data_condition =
  cqOperator :: string
  cqValue :: string
  cqValueFrom :: string
  cqFieldPath :: string

record data_operation =
  opType :: string
  opOperator :: string
  opToFieldPath :: string
  opToDataPath :: string
  opValue :: string
  opValueFrom :: string
  opConditions :: "data_condition list"

text \<open>A nil list of operations is different from an empty one where a reference is compared with zero.\<close>

record store_reference =
  stReference :: cp_reference
  stOperations :: "data_operation list option"

definition zero_store :: store_reference where
  "zero_store = \<lparr>stReference = zero_reference, stOperations = None\<rparr>"

definition operations_of :: "store_reference \<Rightarrow> data_operation list" where
  "operations_of s = (case stOperations s of None \<Rightarrow> [] | Some os \<Rightarrow> os)"

record data_output =
  outName :: string
  outFieldPath :: string
  outConditions :: "data_condition list"
  outStore :: store_reference

record data_input =
  inDataOutputName :: string
  inToFieldPaths :: "string list"
  inStrategyMergeKeys :: "string list"
  inConditions :: "data_condition list"
  inStore :: store_reference

record unsatisfied_dependency =
  udReason :: string
  udFrom :: cp_reference
  udFromFieldPath :: string
  udTo :: cp_reference
  udToFieldPaths :: "string list"

section \<open>Components and definitions\<close>

record component_parameter =
  cpName :: string
  cpFieldPaths :: "string list"
  cpRequired :: "bool option"

record oam_component =
  ocName :: string
  ocNamespace :: string
  ocUID :: string
  ocGeneration :: int
  ocWorkload :: raw_extension
  ocHelm :: "(raw_extension \<times> raw_extension) option"
  ocParameters :: "component_parameter list"
  ocObservedGeneration :: int
  ocLatestRevision :: "latest_revision option"

text \<open>Of a definition of a trait, what the controller reads.\<close>

record config_trait_definition =
  ctdName :: string
  ctdReference :: string
  ctdRevisionEnabled :: bool
  ctdWorkloadRefPath :: string

text \<open>The data of a controller revision: a decoded component, some other object, or raw text.\<close>

datatype revision_data =
  RevisionComponent oam_component | RevisionOther string | RevisionRaw raw_extension

record component_trait =
  ctTrait :: raw_extension
  ctDataOutputs :: "data_output list"
  ctDataInputs :: "data_input list"

record config_component =
  accName :: string
  accRevision :: string
  accDataOutputs :: "data_output list"
  accDataInputs :: "data_input list"
  accParameterValues :: "(string \<times> int_or_string) list"
  accTraitList :: "component_trait list"
  accScopeRefs :: "cp_reference list"

section \<open>The status\<close>

record config_trait_status =
  ctsStatus :: string
  ctsReference :: cp_reference
  ctsMessage :: string
  ctsAppliedGeneration :: int
  ctsDependencyUnsatisfied :: bool

record config_scope_status =
  cssStatus :: string
  cssReference :: cp_reference

record config_workload_status =
  cwsStatus :: string
  cwsComponentName :: string
  cwsComponentRevisionName :: string
  cwsDependencyUnsatisfied :: bool
  cwsAppliedComponentRevision :: string
  cwsReference :: cp_reference
  cwsTraits :: "config_trait_status list"
  cwsScopes :: "config_scope_status list"

record history_workload =
  hwRevision :: string
  hwReference :: cp_reference

datatype rolling_status =
  NotRolling | RollingTemplating | RollingTemplated | RollingCompleted | InactiveAfterRollingCompleted

record config_status =
  stConditions :: "app_condition list"
  stDependency :: "unsatisfied_dependency list"
  stRollingStatus :: rolling_status
  stWorkloads :: "config_workload_status list"
  stObservedGeneration :: int
  stHistoryWorkloads :: "history_workload list"

record app_config =
  acName :: string
  acNamespace :: string
  acUID :: string
  acGeneration :: int
  acLabels :: string_map
  acAnnotations :: string_map
  acOwnerReferences :: "owner_ref list"
  acFinalizers :: "string list"
  acDeleting :: bool
  acComponents :: "config_component list"
  acStatus :: config_status

definition on_config_status :: "(config_status \<Rightarrow> config_status) \<Rightarrow> app_config \<Rightarrow> app_config" where
  "on_config_status f ac = ac\<lparr>acStatus := f (acStatus ac)\<rparr>"

section \<open>What is rendered\<close>

text \<open>The types Trait and Workload of applicationconfiguration.go.  A map of outputs is kept with its keys in order of insertion.\<close>

record trait_instance =
  tiObject :: unstructured
  tiHasDep :: bool
  tiDefinition :: config_trait_definition
  tiDataOutputs :: "(string \<times> data_output) list"
  tiDataInputs :: "data_input list"

record workload_instance =
  wiComponentName :: string
  wiComponentRevisionName :: string
  wiWorkload :: unstructured
  wiSkipApply :: bool
  wiHasDep :: bool
  wiTraits :: "trait_instance list"
  wiRevisionEnabled :: bool
  wiScopes :: "unstructured list"
  wiDataOutputs :: "(string \<times> data_output) list"
  wiDataInputs :: "data_input list"

section \<open>Outside the repository\<close>

text \<open>
  The API client and the libraries.  \<open>ccGetValue\<close>, \<open>ccSetValue\<close>, \<open>ccGetString\<close> and \<open>ccGetInteger\<close> are
  fieldpath on the content of an object, \<open>ccElementString\<close> GetString on a decoded map; \<open>ccMarshal\<close> and
  \<open>ccMarshalValue\<close> are json.Marshal, \<open>ccUnmarshal\<close> decodes text over an object, \<open>ccGJSON\<close> is gjson, and the
  two patch operations are those of json-patch.  \<open>ccObject\<close> is Object2Unstructured, \<open>ccRESTMapping\<close> the
  resource that the discovery mapper gives for a group, a kind and a version, \<open>ccQuote\<close> the verb
  \<open>%q\<close>, \<open>ccOrder\<close> the order of a range over a map with the given keys.  A hook works on a pointer to the
  configuration; the hooks come in the order of the range over their map.
\<close>

record 'w config_client =
  ccKube :: "'w kube"
  ccEnvNamespace :: string
  ccSystemNamespace :: string
  ccParseGroupVersion :: "string \<Rightarrow> string + string \<times> string"
  ccRESTMapping :: "string \<Rightarrow> string \<Rightarrow> string \<Rightarrow> 'w \<Rightarrow> (api_error + string) \<times> 'w"
  ccGetTraitDefinition :: "nsname \<Rightarrow> 'w \<Rightarrow> (api_error + config_trait_definition) \<times> 'w"
  ccGetScopeDefinition :: "nsname \<Rightarrow> 'w \<Rightarrow> (api_error + string) \<times> 'w"
  ccGetComponent :: "nsname \<Rightarrow> 'w \<Rightarrow> (api_error + oam_component) \<times> 'w"
  ccGetRevision :: "nsname \<Rightarrow> 'w \<Rightarrow> (api_error + revision_data) \<times> 'w"
  ccUnmarshalComponent :: "raw_extension \<Rightarrow> string + oam_component"
  ccUnmarshalPaved :: "raw_extension \<Rightarrow> string + unstructured"
  ccUnmarshalObject :: "raw_extension \<Rightarrow> string + unstructured"
  ccNestedString :: "unstructured \<Rightarrow> string list \<Rightarrow> string option"
  ccGetValue :: "unstructured \<Rightarrow> string \<Rightarrow> api_error + json"
  ccSetValue :: "string \<Rightarrow> json \<Rightarrow> unstructured \<Rightarrow> string + unstructured"
  ccGetString :: "unstructured \<Rightarrow> string \<Rightarrow> string + string"
  ccGetInteger :: "unstructured \<Rightarrow> string \<Rightarrow> string + int"
  ccElementString :: "(string \<times> json) list \<Rightarrow> string \<Rightarrow> string + string"
  ccMarshal :: "unstructured \<Rightarrow> string + string"
  ccMarshalValue :: "json \<Rightarrow> string + string"
  ccUnmarshal :: "string \<Rightarrow> unstructured \<Rightarrow> string + unstructured"
  ccGJSON :: "string \<Rightarrow> string \<Rightarrow> string"
  ccDecodePatch :: "string \<Rightarrow> string + patch"
  ccApplyPatch :: "patch \<Rightarrow> string \<Rightarrow> string + string"
  ccTraitHash :: "component_trait \<Rightarrow> string"
  ccObject :: "app_config \<Rightarrow> string + unstructured"
  ccKruiseGroup :: string
  ccAppsGroup :: string
  ccQuote :: "string \<Rightarrow> string"
  ccOrder :: "string list \<Rightarrow> string list"
  ccUpdateObject :: "unstructured \<Rightarrow> 'w \<Rightarrow> api_error option \<times> 'w"
  ccListObjects :: "string \<Rightarrow> string \<Rightarrow> (string \<times> string) list \<Rightarrow> 'w \<Rightarrow> (api_error + unstructured list) \<times> 'w"
  ccGetConfig :: "nsname \<Rightarrow> 'w \<Rightarrow> (api_error + app_config) \<times> 'w"
  ccUpdateConfig :: "app_config \<Rightarrow> 'w \<Rightarrow> api_error option \<times> 'w"
  ccUpdateConfigStatus :: "app_config \<Rightarrow> 'w \<Rightarrow> (api_error option \<times> app_config) \<times> 'w"
  ccPatchConfigStatus :: "app_config \<Rightarrow> app_config \<Rightarrow> 'w \<Rightarrow> api_error option \<times> 'w"
  ccRetryConfig :: "(app_config \<times> 'w \<Rightarrow> api_error option \<times> app_config \<times> 'w) \<Rightarrow>
     app_config \<times> 'w \<Rightarrow> api_error option \<times> app_config \<times> 'w"
  ccFinalizerExists :: "string list \<Rightarrow> string \<Rightarrow> bool"
  ccAddFinalizer :: "string list \<Rightarrow> string \<Rightarrow> string list"
  ccRemoveFinalizer :: "string list \<Rightarrow> string \<Rightarrow> string list"
  ccNow :: "'w \<Rightarrow> int"
  ccReconcileError :: "string \<Rightarrow> int \<Rightarrow> app_condition"
  ccReconcileSuccess :: "int \<Rightarrow> app_condition"
  ccUnavailable :: "int \<Rightarrow> app_condition"
  ccGetCondition :: "string \<Rightarrow> app_condition list \<Rightarrow> app_condition"
  ccEqualCondition :: "app_condition \<Rightarrow> app_condition \<Rightarrow> bool"
  ccSetConditions :: "app_condition \<Rightarrow> app_condition list \<Rightarrow> app_condition list"
  ccPreHooks :: "(string \<times> (app_config \<Rightarrow> 'w \<Rightarrow> (int \<times> string option \<times> app_config) \<times> 'w)) list"
  ccPostHooks :: "(string \<times> (app_config \<Rightarrow> 'w \<Rightarrow> (int \<times> string option \<times> app_config) \<times> 'w)) list"
  ccApplyMode :: string
  ccDependCheckWait :: int

section \<open>Early return\<close>

definition on_ok ::
  "('e + 'a) \<times> 'w \<Rightarrow> ('a \<Rightarrow> 'w \<Rightarrow> ('e + 'b) \<times> 'w) \<Rightarrow> ('e + 'b) \<times> 'w" where
  "on_ok r f = (case r of (Inl e, w) \<Rightarrow> (Inl e, w) | (Inr x, w) \<Rightarrow> f x w)"

definition on_safe ::
  "(('e + 'a) \<times> 'w) option \<Rightarrow> ('a \<Rightarrow> 'w \<Rightarrow> (('e + 'b) \<times> 'w) option) \<Rightarrow> (('e + 'b) \<times> 'w) option" where
  "on_safe r f = (case r of None \<Rightarrow> None | Some (Inl e, w) \<Rightarrow> Some (Inl e, w) | Some (Inr x, w) \<Rightarrow> f x w)"

text \<open>Another error in place of the one there is.\<close>

definition map_error :: "('e \<Rightarrow> 'f) \<Rightarrow> ('e + 'a) \<times> 'w \<Rightarrow> ('f + 'a) \<times> 'w" where
  "map_error g r = (case r of (Inl e, w) \<Rightarrow> (Inl (g e), w) | (Inr x, w) \<Rightarrow> (Inr x, w))"

text \<open>A call that only has an error.\<close>

definition call_error :: "api_error option \<times> 'w \<Rightarrow> (api_error + unit) \<times> 'w" where
  "call_error r = (case r of (Some e, w) \<Rightarrow> (Inl e, w) | (None, w) \<Rightarrow> (Inr (), w))"

lemma on_ok_simps [simp]: "on_ok (Inl e, w) f = (Inl e, w)" "on_ok (Inr x, w) f = f x w"
  by (simp_all add: on_ok_def)

lemma on_safe_simps [simp]:
  "on_safe None f = None" "on_safe (Some (Inl e, w)) f = Some (Inl e, w)" "on_safe (Some (Inr x, w)) f = f x w"
  by (simp_all add: on_safe_def)

lemma map_error_simps [simp]: "map_error g (Inl e, w) = (Inl (g e), w)" "map_error g (Inr x, w) = (Inr x, w)"
  by (simp_all add: map_error_def)

lemma call_error_simps [simp]: "call_error (Some e, w) = (Inl e, w)" "call_error (None, w) = (Inr (), w)"
  by (simp_all add: call_error_def)

lemma on_ok_Inr: "on_ok r f = (Inr y, w2) \<longleftrightarrow> (\<exists>x w1. r = (Inr x, w1) \<and> f x w1 = (Inr y, w2))"
  by (cases r; cases "fst r") (auto simp: on_ok_def)

lemma on_safe_Inr: "on_safe r f = Some (Inr y, w2) \<longleftrightarrow> (\<exists>x w1. r = Some (Inr x, w1) \<and> f x w1 = Some (Inr y, w2))"
  by (auto simp: on_safe_def split: option.splits prod.splits sum.splits)

lemma map_error_Inr [simp]: "map_error g r = (Inr x, w) \<longleftrightarrow> r = (Inr x, w)"
  by (cases r; cases "fst r") (auto simp: map_error_def)

lemma on_ok_cong [fundef_cong]:
  "r = r' \<Longrightarrow> (\<And>x w. r' = (Inr x, w) \<Longrightarrow> f x w = g x w) \<Longrightarrow> on_ok r f = on_ok r' g"
  by (cases r'; cases "fst r'") auto

lemma on_safe_cong [fundef_cong]:
  "r = r' \<Longrightarrow> (\<And>x w. r' = Some (Inr x, w) \<Longrightarrow> f x w = g x w) \<Longrightarrow> on_safe r f = on_safe r' g"
  by (auto simp: on_safe_def split: option.splits prod.splits sum.splits)

end
