(* ===== verification/Config_Lookup.thy ===== *)
theory Config_Lookup
  imports Config_Types
begin

text \<open>
  How the controllers find definitions and components: pkg/oam/util/helper.go.  The namespace that a
  context carries is an argument; \<open>dns\<close> is the environment variable DEFINITION_NAMESPACE.
\<close>

section \<open>Definitions\<close>

definition SetNamespaceInCtx :: "string \<Rightarrow> string" where
  "SetNamespaceInCtx ns = (if ns = '''' then ''default'' else ns)"

definition checkRequestNamespaceError :: "api_error \<Rightarrow> bool" where
  "checkRequestNamespaceError err \<longleftrightarrow>
     errText err = ''an empty namespace may not be set when a resource name is provided''"

text \<open>\<open>get\<close> is the client's Get for the kind of definition that is asked for.\<close>

definition GetDefinition ::
  "(nsname \<Rightarrow> 'w \<Rightarrow> (api_error + 'd) \<times> 'w) \<Rightarrow> string \<Rightarrow> string \<Rightarrow> string \<Rightarrow> string \<Rightarrow> 'w \<Rightarrow> (api_error + 'd) \<times> 'w" where
  "GetDefinition get dns appNs sysNs definitionName w =
     (let two_levels = (\<lambda>w.
            case get (appNs, definitionName) w of
              (Inr d, w) \<Rightarrow> (Inr d, w)
            | (Inl err, w) \<Rightarrow>
                if errNotFound err then
                  (case get (sysNs, definitionName) w of
                     (Inr d, w) \<Rightarrow> (Inr d, w)
                   | (Inl err, w) \<Rightarrow>
                       if errNotFound err then
                         (case get ('''', definitionName) w of
                            (Inr d, w) \<Rightarrow> (Inr d, w)
                          | (Inl newErr, w) \<Rightarrow>
                              if checkRequestNamespaceError newErr then (Inl err, w) else (Inl newErr, w))
                       else (Inl err, w))
                else (Inl err, w))
      in if dns \<noteq> '''' then
           (case get (dns, definitionName) w of
              (Inr d, w) \<Rightarrow> (Inr d, w)
            | (Inl err, w) \<Rightarrow> if \<not> errNotFound err then (Inl err, w) else two_levels w)
         else two_levels w)"

definition other_error :: "string \<Rightarrow> api_error" where
  "other_error err = \<lparr>errNotFound = False, errText = err\<rparr>"

definition GetDefinitionName ::
  "'w config_client \<Rightarrow> unstructured \<Rightarrow> string \<Rightarrow> 'w \<Rightarrow> (api_error + string) \<times> 'w" where
  "GetDefinitionName C u typeLabel w =
     (case (if typeLabel \<noteq> '''' then map_lookup (uLabels u) typeLabel else None) of
        Some definitionName \<Rightarrow> (Inr definitionName, w)
      | None \<Rightarrow>
          (case ccParseGroupVersion C (uAPIVersion u) of
             Inl err \<Rightarrow> (Inl (other_error err), w)
           | Inr (gr, version) \<Rightarrow>
               on_ok (ccRESTMapping C gr (uKind u) version w) (\<lambda>resource w.
                 (Inr (resource @ ''.'' @ gr), w))))"

definition FetchScopeDefinition ::
  "'w config_client \<Rightarrow> string \<Rightarrow> unstructured \<Rightarrow> 'w \<Rightarrow> (api_error + string) \<times> 'w" where
  "FetchScopeDefinition C appNs scope w =
     on_ok (GetDefinitionName C scope '''' w) (\<lambda>spName.
       GetDefinition (ccGetScopeDefinition C) (ccEnvNamespace C) appNs (ccSystemNamespace C) spName)"

definition FetchTraitDefinition ::
  "'w config_client \<Rightarrow> string \<Rightarrow> unstructured \<Rightarrow> 'w \<Rightarrow> (api_error + config_trait_definition) \<times> 'w" where
  "FetchTraitDefinition C appNs trait w =
     on_ok (GetDefinitionName C trait TraitTypeLabel w) (\<lambda>trName.
       GetDefinition (ccGetTraitDefinition C) (ccEnvNamespace C) appNs (ccSystemNamespace C) trName)"

definition GetDummyTraitDefinition :: config_trait_definition where
  "GetDummyTraitDefinition =
     \<lparr>ctdName = Dummy, ctdReference = Dummy, ctdRevisionEnabled = False, ctdWorkloadRefPath = ''''\<rparr>"

section \<open>Revisions of definitions\<close>

definition ConvertDefinitionRevName :: "string \<Rightarrow> string + string" where
  "ConvertDefinitionRevName definitionName =
     (case ExtractRevisionNum definitionName CHR ''@'' of
        (_, Some err) \<Rightarrow> Inl err
      | (revNum, None) \<Rightarrow>
          let defName = strings_TrimSuffix definitionName (''@v'' @ itoa revNum) in
          if defName = '''' then Inl (''invalid definition defName '' @ definitionName)
          else Inr (defName @ ''-v'' @ itoa revNum))"

text \<open>
  errors.As gets a pointer to a variable of the interface type error, which every error is
  assignable to; its test is true for any error.
\<close>

definition fetchDefinitionRev ::
  "(nsname \<Rightarrow> 'w \<Rightarrow> (api_error + 'r) \<times> 'w) \<Rightarrow> string \<Rightarrow> string \<Rightarrow> string \<Rightarrow> string \<Rightarrow> 'w \<Rightarrow>
     (api_error + 'r option) \<times> 'w" where
  "fetchDefinitionRev getRev dns appNs sysNs definitionName w =
     (case ConvertDefinitionRevName definitionName of
        Inl err \<Rightarrow> (Inr None, w)
      | Inr defRevName \<Rightarrow>
          on_ok (GetDefinition getRev dns appNs sysNs defRevName w) (\<lambda>defRev w. (Inr (Some defRev), w)))"

definition GetCapabilityDefinition ::
  "(nsname \<Rightarrow> 'w \<Rightarrow> (api_error + 'd) \<times> 'w) \<Rightarrow> (nsname \<Rightarrow> 'w \<Rightarrow> (api_error + 'r) \<times> 'w) \<Rightarrow> ('r \<Rightarrow> 'd) \<Rightarrow>
     string \<Rightarrow> string \<Rightarrow> string \<Rightarrow> string \<Rightarrow> 'w \<Rightarrow> (api_error + 'd) \<times> 'w" where
  "GetCapabilityDefinition get getRev definition_in dns appNs sysNs definitionName w =
     on_ok (fetchDefinitionRev getRev dns appNs sysNs definitionName w) (\<lambda>r w.
       case r of
         None \<Rightarrow> GetDefinition get dns appNs sysNs definitionName w
       | Some defRev \<Rightarrow> (Inr (definition_in defRev), w))"

section \<open>Components\<close>

definition UnpackRevisionData :: "'w config_client \<Rightarrow> string \<Rightarrow> revision_data \<Rightarrow> string + oam_component" where
  "UnpackRevisionData C rname data =
     (case data of
        RevisionComponent c \<Rightarrow> Inr c
      | RevisionOther tpy \<Rightarrow> Inl (''invalid type of revision '' @ rname @ '', type should not be '' @ tpy)
      | RevisionRaw raw \<Rightarrow> ccUnmarshalComponent C raw)"

definition GetComponent ::
  "'w config_client \<Rightarrow> config_component \<Rightarrow> string \<Rightarrow> 'w \<Rightarrow> (string + oam_component \<times> string) \<times> 'w" where
  "GetComponent C acc ns w =
     (if accRevision acc \<noteq> '''' then
        on_ok (map_error (\<lambda>e. errors_Wrap (errText e) (''cannot get component revision '' @ ccQuote C (accRevision acc)))
                 (ccGetRevision C (ns, accRevision acc) w)) (\<lambda>revision w.
          on_ok (map_error (\<lambda>err. errors_Wrap err (''cannot get valid component data from controllerRevision '' @
                                     ccQuote C (accRevision acc)))
                   (UnpackRevisionData C (accRevision acc) revision, w)) (\<lambda>c w.
            (Inr (c, accRevision acc), w)))
      else
        on_ok (map_error (\<lambda>e. errors_Wrap (errText e) (''cannot get component '' @ ccQuote C (accName acc)))
                 (ccGetComponent C (ns, accName acc) w)) (\<lambda>c w.
          (Inr (c, case ocLatestRevision c of None \<Rightarrow> '''' | Some r \<Rightarrow> latestName r), w)))"

section \<open>Where a definition is found\<close>

text \<open>
  On a server that only reads and only fails when there is nothing, a definition is the one of the
  first namespace of the search that has it.
\<close>

definition reads_table ::
  "(nsname \<Rightarrow> 'w \<Rightarrow> (api_error + 'd) \<times> 'w) \<Rightarrow> 'w \<Rightarrow> (nsname \<rightharpoonup> 'd) \<Rightarrow> bool" where
  "reads_table get w T \<longleftrightarrow>
     (\<forall>k. snd (get k w) = w \<and>
        (case T k of Some d \<Rightarrow> fst (get k w) = Inr d
         | None \<Rightarrow> (\<exists>err. fst (get k w) = Inl err \<and> errNotFound err)))"

definition search_order :: "string \<Rightarrow> string \<Rightarrow> string \<Rightarrow> string list" where
  "search_order dns appNs sysNs = (if dns = '''' then [] else [dns]) @ [appNs, sysNs, '''']"

fun first_in :: "(nsname \<rightharpoonup> 'd) \<Rightarrow> string \<Rightarrow> string list \<Rightarrow> 'd option" where
  "first_in T n [] = None"
| "first_in T n (ns # nss) = (case T (ns, n) of Some d \<Rightarrow> Some d | None \<Rightarrow> first_in T n nss)"

lemma reads_tableD:
  assumes "reads_table get w T"
  shows "T k = Some d \<Longrightarrow> get k w = (Inr d, w)"
    and "T k = None \<Longrightarrow> \<exists>err. get k w = (Inl err, w) \<and> errNotFound err"
  using assms [unfolded reads_table_def, rule_format, of k]
  by (cases "get k w"; auto)+

lemma GetDefinition_first:
  assumes "reads_table get w T"
  shows "snd (GetDefinition get dns appNs sysNs n w) = w \<and>
     (case first_in T n (search_order dns appNs sysNs) of
        Some d \<Rightarrow> fst (GetDefinition get dns appNs sysNs n w) = Inr d
      | None \<Rightarrow> \<exists>err. fst (GetDefinition get dns appNs sysNs n w) = Inl err \<and> errNotFound err)"
proof -
  have g: "\<exists>err. get (ns, n) w = (case T (ns, n) of Some d \<Rightarrow> (Inr d, w) | None \<Rightarrow> (Inl err, w)) \<and> errNotFound err" for ns
    using reads_tableD [OF assms, of "(ns, n)"]
    by (cases "T (ns, n)") (auto intro: exI [of _ not_found] simp: not_found_def)
  obtain e1 where 1: "get (dns, n) w = (case T (dns, n) of Some d \<Rightarrow> (Inr d, w) | None \<Rightarrow> (Inl e1, w))" "errNotFound e1"
    using g by blast
  obtain e2 where 2: "get (appNs, n) w = (case T (appNs, n) of Some d \<Rightarrow> (Inr d, w) | None \<Rightarrow> (Inl e2, w))" "errNotFound e2"
    using g by blast
  obtain e3 where 3: "get (sysNs, n) w = (case T (sysNs, n) of Some d \<Rightarrow> (Inr d, w) | None \<Rightarrow> (Inl e3, w))" "errNotFound e3"
    using g by blast
  obtain e4 where 4: "get ('''', n) w = (case T ('''', n) of Some d \<Rightarrow> (Inr d, w) | None \<Rightarrow> (Inl e4, w))" "errNotFound e4"
    using g by blast
  show ?thesis
    by (cases "T (dns, n)"; cases "T (appNs, n)"; cases "T (sysNs, n)"; cases "T ('''', n)")
      (simp_all add: GetDefinition_def search_order_def Let_def 1 2 3 4)
qed

text \<open>
  A name with a revision that is not a number is taken as the name of the latest revision; the
  lookup is for a definition of that very name.
\<close>

lemma bad_revision_reads_latest:
  assumes "ConvertDefinitionRevName n = Inl err"
  shows "GetCapabilityDefinition get getRev pick dns appNs sysNs n w = GetDefinition get dns appNs sysNs n w"
  using assms by (simp add: GetCapabilityDefinition_def fetchDefinitionRev_def)

lemma GetComponent_revision:
  assumes "GetComponent C acc ns w = (Inr (c, r), w1)"
  shows "r = (if accRevision acc \<noteq> '''' then accRevision acc
              else case ocLatestRevision c of None \<Rightarrow> '''' | Some l \<Rightarrow> latestName l)"
  using assms by (auto simp: GetComponent_def on_ok_Inr split: if_splits)

end
