(* ===== verification/Config_Dag.thy ===== *)
theory Config_Dag
  imports Config_Lookup
begin

text \<open>
  Passing data between the objects of an application configuration: dag.go, and of render.go the part
  from addDataOutputsToDAG to checkConditions.  A source of data is an object with a field and
  conditions on it; an object whose input is not ready waits for it.

  \<open>None\<close> is a panic: reflect.TypeOf of a nil value has no kind, and a value at the target of a list
  that is not a list fails its type assertion.
\<close>

section \<open>Sources\<close>

record dag_source =
  dsReference :: cp_reference
  dsNamespace :: string
  dsFieldPath :: string
  dsConditions :: "data_condition list"

type_synonym dag = "string \<rightharpoonup> dag_source"

definition newDAG :: dag where "newDAG = Map.empty"

definition AddSource :: "dag \<Rightarrow> string \<Rightarrow> dag_source \<Rightarrow> dag" where
  "AddSource d sourceName s = d(sourceName \<mapsto> s)"

fun addDataOutputsToDAG :: "dag \<Rightarrow> data_output list \<Rightarrow> unstructured \<Rightarrow> dag" where
  "addDataOutputsToDAG d [] obj = d"
| "addDataOutputsToDAG d (out # outs) obj =
     addDataOutputsToDAG
       (AddSource d (outName out)
          \<lparr>dsReference = reference_to obj, dsNamespace = uNamespace obj, dsFieldPath = outFieldPath out,
           dsConditions = outConditions out\<rparr>) outs obj"

definition makeUnsatisfiedDependency ::
  "cp_reference \<Rightarrow> dag_source \<Rightarrow> string list \<Rightarrow> string \<Rightarrow> unsatisfied_dependency" where
  "makeUnsatisfiedDependency obj s toPaths reason =
     \<lparr>udReason = reason, udFrom = (dsReference s)\<lparr>trUID := ''''\<rparr>, udFromFieldPath = dsFieldPath s,
      udTo = obj, udToFieldPaths = toPaths\<rparr>"

section \<open>Merging lists\<close>

text \<open>The values that an element has at the given keys; an element that is not a map has none.\<close>

definition getElementValueByKeys :: "'w config_client \<Rightarrow> json \<Rightarrow> string list \<Rightarrow> (string \<times> string) list" where
  "getElementValueByKeys C ele keys =
     (case ele of
        JObject m \<Rightarrow> concat (map (\<lambda>key. case ccElementString C m key of Inl err \<Rightarrow> [] | Inr v \<Rightarrow> [(key, v)]) keys)
      | _ \<Rightarrow> [])"

definition compareResults :: "(string \<times> string) list \<Rightarrow> (string \<times> string) list \<Rightarrow> bool" where
  "compareResults base patch = list_ex (\<lambda>(k, v). map_of base k = Some v) patch"

text \<open>The loop that overwrites the first match, or appends.\<close>

fun put_first :: "('a \<Rightarrow> bool) \<Rightarrow> 'a \<Rightarrow> 'a list \<Rightarrow> 'a list" where
  "put_first match x [] = [x]"
| "put_first match x (y # ys) = (if match y then x # ys else y # put_first match x ys)"

fun strategyMergeSlice :: "'w config_client \<Rightarrow> json list \<Rightarrow> json list \<Rightarrow> string list \<Rightarrow> json list" where
  "strategyMergeSlice C base patch [] = base @ patch"
| "strategyMergeSlice C base [] (k # ks) = base"
| "strategyMergeSlice C base (patchElement # patch) (k # ks) =
     (let patchKeyResults = getElementValueByKeys C patchElement (k # ks) in
      strategyMergeSlice C
        (if length patchKeyResults = 0 then base @ [patchElement]
         else put_first (\<lambda>v. compareResults (getElementValueByKeys C v (k # ks)) patchKeyResults) patchElement base)
        patch (k # ks))"

fun fillDataInputValue ::
  "'w config_client \<Rightarrow> unstructured \<Rightarrow> string list \<Rightarrow> json \<Rightarrow> string list \<Rightarrow> (string + unstructured) option" where
  "fillDataInputValue C obj [] val keys = Some (Inr obj)"
| "fillDataInputValue C obj (fp # fs) val keys =
     (case (case val of
              JNull \<Rightarrow> None
            | JArray patch \<Rightarrow>
                (case ccGetValue C obj fp of
                   Inl err \<Rightarrow> if errNotFound err then Some (Inr (JArray (strategyMergeSlice C [] patch keys)))
                              else Some (Inl (errText err))
                 | Inr (JArray l) \<Rightarrow> Some (Inr (JArray (strategyMergeSlice C l patch keys)))
                 | Inr _ \<Rightarrow> None)
            | _ \<Rightarrow> Some (Inr val)) of
        None \<Rightarrow> None
      | Some (Inl err) \<Rightarrow> Some (Inl err)
      | Some (Inr toSet) \<Rightarrow>
          (case ccSetValue C fp toSet obj of
             Inl err \<Rightarrow> Some (Inl (errors_Wrap err ''paved.SetValue() failed''))
           | Inr obj \<Rightarrow> fillDataInputValue C obj fs val keys))"

section \<open>Conditions\<close>

definition ConditionEqual :: string where "ConditionEqual = ''eq''"
definition ConditionNotEqual :: string where "ConditionNotEqual = ''notEq''"
definition ConditionNotEmpty :: string where "ConditionNotEmpty = ''notEmpty''"

definition getCheckVal ::
  "'w config_client \<Rightarrow> data_condition \<Rightarrow> unstructured \<Rightarrow> string option \<Rightarrow> string + string" where
  "getCheckVal C m paved val =
     (if cqFieldPath m \<noteq> '''' then ccGetString C paved (cqFieldPath m)
      else case val of Some v \<Rightarrow> Inr v | None \<Rightarrow> Inl ''FieldPath not specified'')"

definition getExpectVal :: "'w config_client \<Rightarrow> data_condition \<Rightarrow> unstructured \<Rightarrow> string + string" where
  "getExpectVal C m ac =
     (if cqValue m \<noteq> '''' then Inr (cqValue m)
      else if cqValueFrom m = '''' then Inr ''''
      else case ccGetString C ac (cqValueFrom m) of
             Inl err \<Rightarrow> Inl (''get valueFrom.fieldPath fail: '' @ err)
           | Inr v \<Rightarrow> Inr v)"

fun checkConditions ::
  "'w config_client \<Rightarrow> data_condition list \<Rightarrow> unstructured \<Rightarrow> string option \<Rightarrow> unstructured \<Rightarrow> bool \<times> string" where
  "checkConditions C [] paved val ac = (True, '''')"
| "checkConditions C (m # conds) paved val ac =
     (case getCheckVal C m paved val of
        Inl err \<Rightarrow> (False, ''can't get value to check '' @ err)
      | Inr checkVal \<Rightarrow>
          (case getExpectVal C m ac of
             Inl err \<Rightarrow> (False, err)
           | Inr expected \<Rightarrow>
               if cqOperator m = ConditionEqual \<and> expected \<noteq> checkVal
               then (False, ''got('' @ checkVal @ '') expected to be '' @ expected)
               else if cqOperator m = ConditionNotEqual \<and> expected = checkVal
               then (False, ''got('' @ checkVal @ '') expected not to be '' @ expected)
               else if cqOperator m = ConditionNotEmpty \<and> checkVal = ''''
               then (False, ''value should not be empty'')
               else checkConditions C conds paved val ac))"

definition matchValue ::
  "'w config_client \<Rightarrow> data_condition list \<Rightarrow> string \<Rightarrow> unstructured \<Rightarrow> unstructured \<Rightarrow> bool \<times> string" where
  "matchValue C conds val paved ac =
     (if length conds = 0 then (if val = '''' then (False, ''value should not be empty'') else (True, ''''))
      else checkConditions C conds paved (Some val) ac)"

section \<open>Reading a source\<close>

definition key_string :: "nsname \<Rightarrow> string" where
  "key_string k = fst k @ CHR ''/'' # snd k"

text \<open>The value, whether it is ready, and why not.\<close>

definition getDataInput ::
  "'w config_client \<Rightarrow> dag_source \<Rightarrow> unstructured \<Rightarrow> bool \<Rightarrow> 'w \<Rightarrow> (string + json \<times> bool \<times> string) \<times> 'w" where
  "getDataInput C s ac ignoreNotFound w =
     (let r = dsReference s; key = (dsNamespace s, trName r) in
      if length (dsFieldPath s) = 0 \<and> length (dsConditions s) = 0 then (Inr (JNull, True, ''''), w)
      else (case kGet (ccKube C) (trAPIVersion r) (trKind r) key w of
          (Inl err, w) \<Rightarrow>
            let reason = ''failed to get object ('' @ key_string key @ '')'' in
            if errNotFound err then
              (if ignoreNotFound then (Inr (JNull, True, ''''), w) else (Inr (JNull, False, reason), w))
            else (Inl (errors_Wrap (errText err) reason), w)
        | (Inr u, w) \<Rightarrow>
            (case ccGetValue C u (dsFieldPath s) of
               Inl err \<Rightarrow>
                 if errNotFound err
                 then (Inr (JString '''', False, dsFieldPath s @ '' not found in object''), w)
                 else (Inl (''failed to get field value ('' @ dsFieldPath s @ '') in object ('' @ key_string key @
                          ''): '' @ errText err), w)
             | Inr rawval \<Rightarrow>
                 (let (ok, reason) = (case rawval of
                        JString val \<Rightarrow> matchValue C (dsConditions s) val u ac
                      | _ \<Rightarrow> checkConditions C (dsConditions s) u None ac)
                  in if ok then (Inr (rawval, True, ''''), w) else (Inr (JNull, False, reason), w)))))"


section \<open>Inputs\<close>

text \<open>What an input gives: the dependency it waits for, if any, and the object, perhaps filled.\<close>

type_synonym 'w input_result =
  "((string + unsatisfied_dependency option \<times> unstructured) \<times> 'w) option"

definition data_output_missing :: "string \<Rightarrow> string" where
  "data_output_missing n = errors_Wrap ''DataOutput does not exist'' (''DataOutputName ('' @ n @ '')'')"

definition handleDataOutputConds ::
  "'w config_client \<Rightarrow> data_input \<Rightarrow> dag \<Rightarrow> unstructured \<Rightarrow> unstructured \<Rightarrow> 'w \<Rightarrow> 'w input_result" where
  "handleDataOutputConds C i d obj ac w =
     (case d (inDataOutputName i) of
        None \<Rightarrow> Some (Inl (data_output_missing (inDataOutputName i)), w)
      | Some s \<Rightarrow>
          on_safe (Some (map_error (\<lambda>err. errors_Wrap err ''getDataInput failed'') (getDataInput C s ac False w)))
            (\<lambda>(val, ready, reason) w.
              if \<not> ready
              then Some (Inr (Some (makeUnsatisfiedDependency (reference_to obj) s (inToFieldPaths i) reason), obj), w)
              else (case fillDataInputValue C obj (inToFieldPaths i) val (inStrategyMergeKeys i) of
                      None \<Rightarrow> None
                    | Some (Inl err) \<Rightarrow> Some (Inl (errors_Wrap err ''fillDataInputValue failed''), w)
                    | Some (Inr obj) \<Rightarrow> Some (Inr (None, obj), w))))"

definition operation_target :: "data_operation \<Rightarrow> string" where
  "operation_target oper =
     (if length (opToDataPath oper) \<noteq> 0 then opToFieldPath oper @ ''('' @ opToDataPath oper @ '')''
      else opToFieldPath oper)"

text \<open>The source that an operation reads, on an object in the namespace of the configuration.\<close>

definition operation_source :: "cp_reference \<Rightarrow> string \<Rightarrow> data_operation \<Rightarrow> dag_source" where
  "operation_source r ns oper =
     \<lparr>dsReference = r, dsNamespace = ns, dsFieldPath = opValueFrom oper, dsConditions = opConditions oper\<rparr>"

fun handleDataStoreConds ::
  "'w config_client \<Rightarrow> cp_reference \<Rightarrow> data_operation list \<Rightarrow> unstructured \<Rightarrow> unstructured \<Rightarrow> 'w \<Rightarrow> 'w input_result" where
  "handleDataStoreConds C store [] obj ac w = Some (Inr (None, obj), w)"
| "handleDataStoreConds C store (oper # opers) obj ac w =
     (let s = operation_source store (uNamespace ac) oper in
      on_safe (Some (map_error (\<lambda>err. errors_Wrap err ''getDataInput failed'') (getDataInput C s ac False w)))
        (\<lambda>(val, ready, reason) w.
          if \<not> ready
          then Some (Inr (Some (makeUnsatisfiedDependency (reference_to obj) s [operation_target oper] reason), obj), w)
          else handleDataStoreConds C store opers obj ac w))"

definition handleDataInputConds ::
  "'w config_client \<Rightarrow> data_input \<Rightarrow> dag \<Rightarrow> unstructured \<Rightarrow> unstructured \<Rightarrow> 'w \<Rightarrow> 'w input_result" where
  "handleDataInputConds C i d obj ac w =
     (case d (inDataOutputName i) of
        None \<Rightarrow> Some (Inl (data_output_missing (inDataOutputName i)), w)
      | Some source \<Rightarrow>
          (let s = \<lparr>dsReference = reference_to obj, dsNamespace = uNamespace ac, dsFieldPath = '''',
                    dsConditions = inConditions i\<rparr> in
           on_safe (Some (map_error (\<lambda>err. errors_Wrap err ''getDataInput failed'') (getDataInput C s ac True w)))
             (\<lambda>(val, ready, reason) w.
               if \<not> ready
               then Some (Inr (Some (makeUnsatisfiedDependency (reference_to obj) source (inToFieldPaths i)
                                       (''DataInputs Conditions: '' @ reason)), obj), w)
               else Some (Inr (None, obj), w))))"

text \<open>One step of the loop, which returns at the first input that is not ready.\<close>

definition unless_waiting ::
  "'w input_result \<Rightarrow> (unstructured \<Rightarrow> 'w \<Rightarrow> 'w input_result) \<Rightarrow> 'w input_result" where
  "unless_waiting r f =
     on_safe r (\<lambda>(dep, obj) w. if dep = None then f obj w else Some (Inr (dep, obj), w))"

definition handle_input ::
  "'w config_client \<Rightarrow> data_input \<Rightarrow> dag \<Rightarrow> unstructured \<Rightarrow> unstructured \<Rightarrow> 'w \<Rightarrow> 'w input_result" where
  "handle_input C i d ac obj w =
     unless_waiting
       (if inDataOutputName i \<noteq> '''' \<and> length (strings_TrimSpace (inDataOutputName i)) \<noteq> 0
        then handleDataOutputConds C i d obj ac w else Some (Inr (None, obj), w)) (\<lambda>obj w.
     unless_waiting
       (if inStore i \<noteq> zero_store
        then handleDataStoreConds C ((stReference (inStore i))\<lparr>trUID := ''''\<rparr>) (operations_of (inStore i)) obj ac w
        else Some (Inr (None, obj), w)) (\<lambda>obj w.
       if length (inConditions i) \<noteq> 0 then handleDataInputConds C i d obj ac w
       else Some (Inr (None, obj), w)))"

fun handleDataInput ::
  "'w config_client \<Rightarrow> data_input list \<Rightarrow> dag \<Rightarrow> unstructured \<Rightarrow> unstructured \<Rightarrow> 'w \<Rightarrow>
     ((string + unsatisfied_dependency list \<times> unstructured) \<times> 'w) option" where
  "handleDataInput C [] d ac obj w = Some (Inr ([], obj), w)"
| "handleDataInput C (i # ins) d ac obj w =
     on_safe (handle_input C i d ac obj w) (\<lambda>(dep, obj) w.
       case dep of
         Some u \<Rightarrow> Some (Inr ([u], obj), w)
       | None \<Rightarrow> handleDataInput C ins d ac obj w)"

section \<open>Outputs\<close>

text \<open>The operations of an output: the dependency of the first that is not ready, and whether all are.\<close>

fun output_ready ::
  "'w config_client \<Rightarrow> dag_source \<Rightarrow> cp_reference \<Rightarrow> data_operation list \<Rightarrow> unstructured \<Rightarrow> 'w \<Rightarrow>
     (unsatisfied_dependency list \<times> bool) \<times> 'w" where
  "output_ready C s store [] ac w = (([], True), w)"
| "output_ready C s store (oper # opers) ac w =
     (let newS = operation_source ((dsReference s)\<lparr>trUID := ''''\<rparr>) (uNamespace ac) oper in
      case getDataInput C newS ac False w of
        (Inl err, w) \<Rightarrow> (([], False), w)
      | (Inr (val, ready, reason), w) \<Rightarrow>
          if ready then output_ready C s store opers ac w
          else (([makeUnsatisfiedDependency store newS [operation_target oper] reason], False), w))"

fun handleDataOutput ::
  "'w config_client \<Rightarrow> data_output list \<Rightarrow> dag \<Rightarrow> unstructured \<Rightarrow> 'w \<Rightarrow>
     (unsatisfied_dependency list \<times> (string \<times> data_output) list) \<times> 'w" where
  "handleDataOutput C [] d ac w = (([], []), w)"
| "handleDataOutput C (out # outs) d ac w =
     (if outStore out = zero_store then handleDataOutput C outs d ac w
      else case d (outName out) of
             None \<Rightarrow> handleDataOutput C outs d ac w
           | Some s \<Rightarrow>
               (case output_ready C s ((stReference (outStore out))\<lparr>trUID := ''''\<rparr>) (operations_of (outStore out)) ac w of
                  ((us, ready), w) \<Rightarrow>
                    (case handleDataOutput C outs d ac w of
                       ((uds, outputMap), w) \<Rightarrow>
                         ((us @ uds,
                           if ready \<and> outName out \<notin> fst ` set outputMap then (outName out, out) # outputMap
                           else outputMap), w))))"

section \<open>Dependencies of a component\<close>

definition object_name :: "unstructured \<Rightarrow> string" where
  "object_name u = ''('' @ uNamespace u @ ''/'' @ uName u @ '')''"

text \<open>The traits, by index as in the source.\<close>

fun handle_traits ::
  "'w config_client \<Rightarrow> component_trait list \<Rightarrow> trait_instance list \<Rightarrow> dag \<Rightarrow> unstructured \<Rightarrow> 'w \<Rightarrow>
     ((string + unsatisfied_dependency list \<times> trait_instance list) \<times> 'w) option" where
  "handle_traits C [] ts d ac w = Some (Inr ([], ts), w)"
| "handle_traits C (ct # cts) [] d ac w = None"
| "handle_traits C (ct # cts) (t # ts) d ac w =
     (case handleDataOutput C (ctDataOutputs ct) d ac w of
        ((outs, outputMap), w) \<Rightarrow>
          on_safe (map_option (map_error (\<lambda>err.
                     errors_Wrap err (''handleDataInput for trait '' @ object_name (tiObject t) @ '' failed'')))
                   (handleDataInput C (ctDataInputs ct) d ac (tiObject t) w)) (\<lambda>(unsatisfied, obj) w.
          let t = t\<lparr>tiObject := obj, tiDataOutputs := outputMap\<rparr>;
              t = (if length unsatisfied \<noteq> 0 then t\<lparr>tiHasDep := True\<rparr>
                   else t\<lparr>tiDataInputs := ctDataInputs ct\<rparr>)
          in on_safe (handle_traits C cts ts d ac w) (\<lambda>(uds, ts) w.
               Some (Inr (outs @ unsatisfied @ uds, t # ts), w))))"

definition handleDependency ::
  "'w config_client \<Rightarrow> workload_instance \<Rightarrow> config_component \<Rightarrow> dag \<Rightarrow> app_config \<Rightarrow> 'w \<Rightarrow>
     ((string + unsatisfied_dependency list \<times> workload_instance) \<times> 'w) option" where
  "handleDependency C wl acc d ac w =
     (case ccObject C ac of
        Inl err \<Rightarrow> Some (Inl (errors_Wrap err (''handleDataInput by convert AppConfig ('' @ acName ac @
                           '') to unstructured object failed'')), w)
      | Inr uac \<Rightarrow>
          (case handleDataOutput C (accDataOutputs acc) d uac w of
             ((outs, outputMap), w) \<Rightarrow>
               on_safe (map_option (map_error (\<lambda>err.
                          errors_Wrap err (''handleDataInput for workload '' @ object_name (wiWorkload wl) @ '' failed'')))
                        (handleDataInput C (accDataInputs acc) d uac (wiWorkload wl) w)) (\<lambda>(unsatisfied, obj) w.
               let wl = wl\<lparr>wiWorkload := obj, wiDataOutputs := outputMap\<rparr>;
                   wl = (if length unsatisfied \<noteq> 0 then wl\<lparr>wiHasDep := True\<rparr>
                         else wl\<lparr>wiDataInputs := accDataInputs acc\<rparr>)
               in on_safe (handle_traits C (accTraitList acc) (wiTraits wl) d uac w) (\<lambda>(uds, ts) w.
                    Some (Inr (outs @ unsatisfied @ uds, wl\<lparr>wiTraits := ts\<rparr>), w)))))"

end
