(* ===== verification/Config_Render.thy ===== *)
theory Config_Render
  imports Config_Dag
begin

text \<open>
  Rendering an application configuration into workloads and traits: render.go and workloads.go of the
  controller of application configurations.  The configuration is a pointer in the source; what
  Render does to its rolling status is returned, also with an error.
\<close>

section \<open>Parameters\<close>

record parameter =
  pmName :: string
  pmValue :: int_or_string
  pmFieldPaths :: "string list"

text \<open>The map of the parameters that are set, with its keys in order of insertion.\<close>

definition set_parameters :: "(string \<times> int_or_string) list \<Rightarrow> (string \<times> parameter) list" where
  "set_parameters cpv =
     foldl (\<lambda>s (n, v). AList.update n \<lparr>pmName = n, pmValue = v, pmFieldPaths = []\<rparr> s) [] cpv"

definition fill_field_paths ::
  "component_parameter list \<Rightarrow> (string \<times> parameter) list \<Rightarrow> (string \<times> parameter) list" where
  "fill_field_paths cp s =
     foldl (\<lambda>s p. AList.map_entry (cpName p) (\<lambda>x. x\<lparr>pmFieldPaths := cpFieldPaths p\<rparr>) s) s cp"

definition resolve ::
  "'w config_client \<Rightarrow> component_parameter list \<Rightarrow> (string \<times> int_or_string) list \<Rightarrow> string + parameter list" where
  "resolve C cp cpv =
     (case find (\<lambda>v. fst v \<notin> cpName ` set cp) cpv of
        Some v \<Rightarrow> Inl (''unsupported parameter '' @ ccQuote C (fst v))
      | None \<Rightarrow>
          (let params = set_parameters cpv in
           case find (\<lambda>p. cpName p \<notin> fst ` set params \<and> cpRequired p = Some True) cp of
             Some p \<Rightarrow> Inl (''required parameter '' @ ccQuote C (cpName p) @ '' not specified'')
           | None \<Rightarrow>
               (let params = fill_field_paths cp params in
                Inr (List.map_filter (map_of params) (ccOrder C (map fst params))))))"

section \<open>Resources\<close>

definition parameter_value :: "int_or_string \<Rightarrow> json" where
  "parameter_value v = (case IosType v of IosString \<Rightarrow> JString (StrVal v) | IosInt \<Rightarrow> JInt (sint (IntVal v)))"

fun set_paths :: "'w config_client \<Rightarrow> json \<Rightarrow> string list \<Rightarrow> unstructured \<Rightarrow> string + unstructured" where
  "set_paths C v [] u = Inr u"
| "set_paths C v (path # paths) u = bind_result (ccSetValue C path v u) (set_paths C v paths)"

fun set_params :: "'w config_client \<Rightarrow> parameter list \<Rightarrow> unstructured \<Rightarrow> string + unstructured" where
  "set_params C [] u = Inr u"
| "set_params C (p # ps) u =
     (case set_paths C (parameter_value (pmValue p)) (pmFieldPaths p) u of
        Inl err \<Rightarrow> Inl (errors_Wrap err (''cannot set parameter '' @ ccQuote C (pmName p)))
      | Inr u \<Rightarrow> set_params C ps u)"

definition renderWorkload :: "'w config_client \<Rightarrow> raw_extension \<Rightarrow> parameter list \<Rightarrow> string + unstructured" where
  "renderWorkload C data ps =
     (case ccUnmarshalPaved C data of
        Inl err \<Rightarrow> Inl (errors_Wrap err ''cannot unmarshal workload'')
      | Inr u \<Rightarrow> set_params C ps u)"

definition renderTrait :: "'w config_client \<Rightarrow> raw_extension \<Rightarrow> string + unstructured" where
  "renderTrait C data =
     (case ccUnmarshalObject C data of
        Inl err \<Rightarrow> Inl (errors_Wrap err ''cannot unmarshal trait'')
      | Inr u \<Rightarrow> Inr u)"

section \<open>Owners\<close>

definition app_controls :: "owner_ref \<Rightarrow> bool" where
  "app_controls r \<longleftrightarrow> orAPIVersion r = SchemeGroupVersion \<and> orKind r = ApplicationKind \<and> orController r = Some True"

definition isControlledByApp :: "app_config \<Rightarrow> bool" where
  "isControlledByApp ac \<longleftrightarrow> list_ex app_controls (acOwnerReferences ac)"

definition ConfigGroupVersion :: string where "ConfigGroupVersion = ''core.oam.dev/v1alpha2''"
definition ApplicationConfigurationKind :: string where
  "ApplicationConfigurationKind = ''ApplicationConfiguration''"
definition ApplicationContextKind :: string where "ApplicationContextKind = ''ApplicationContext''"

definition controller_ref :: "app_config \<Rightarrow> string \<Rightarrow> owner_ref" where
  "controller_ref ac kind =
     \<lparr>orAPIVersion = ConfigGroupVersion, orKind = kind, orName = acName ac, orUID = acUID ac,
      orController = Some True, orBlockOwnerDeletion = Some True\<rparr>"

definition getOwnerFromAC :: "app_config \<Rightarrow> owner_ref" where
  "getOwnerFromAC ac =
     controller_ref ac (if list_ex app_controls (acOwnerReferences ac) then ApplicationContextKind
                        else ApplicationConfigurationKind)"

section \<open>Names of workloads\<close>

definition SetAppWorkloadInstanceName ::
  "'w config_client \<Rightarrow> string \<Rightarrow> unstructured \<Rightarrow> int \<Rightarrow> string \<Rightarrow> unstructured" where
  "SetAppWorkloadInstanceName C componentName u revision inplaceUpgrade =
     (if inplaceUpgrade = ''true'' then u\<lparr>uName := componentName\<rparr>
      else if kGroup (ccKube C) (uAPIVersion u) = ccKruiseGroup C \<and>
              (uKind u = CloneSetKind \<or> uKind u = StatefulSetKind)
      then u\<lparr>uName := componentName\<rparr>
      else u\<lparr>uName := ConstructRevisionName componentName revision\<rparr>)"

definition kind_string :: "'w config_client \<Rightarrow> unstructured \<Rightarrow> string" where
  "kind_string C u =
     (if kGroup (ccKube C) (uAPIVersion u) = '''' then ''/'' else '''') @ uAPIVersion u @ '', Kind='' @ uKind u"

definition prepWorkloadInstanceForRollout :: "'w config_client \<Rightarrow> unstructured \<Rightarrow> string + unstructured" where
  "prepWorkloadInstanceForRollout C u =
     (let gr = kGroup (ccKube C) (uAPIVersion u);
          unknown = Inl (''we do not know how to prepare `'' @ uName u @ ''` as it has an unknown type '' @ kind_string C u)
      in if gr = ccKruiseGroup C then
           (if uKind u = CloneSetKind then ccSetValue C ''spec.updateStrategy.paused'' (JBool True) u
            else if uKind u = StatefulSetKind
            then ccSetValue C ''spec.updateStrategy.rollingUpdate.paused'' (JBool True) u
            else unknown)
         else if gr = ccAppsGroup C \<and> uKind u = DeploymentKind then ccSetValue C ''spec.paused'' (JBool True) u
         else unknown)"

definition isRevisionEnabled :: "config_trait_definition list \<Rightarrow> bool" where
  "isRevisionEnabled traitDefs \<longleftrightarrow> list_ex ctdRevisionEnabled traitDefs"

definition setWorkloadInstanceName ::
  "'w config_client \<Rightarrow> config_trait_definition list \<Rightarrow> unstructured \<Rightarrow> oam_component \<Rightarrow> unstructured option \<Rightarrow>
     string + unstructured" where
  "setWorkloadInstanceName C traitDefs u c existingWorkload =
     (if uName u \<noteq> '''' then Inr u
      else if isRevisionEnabled traitDefs then
        (case ocLatestRevision c of
           None \<Rightarrow> Inl (''cannot get latest revision for component '' @ ccQuote C (ocName c) @
                       '' while revision is enabled'')
         | Some r \<Rightarrow>
             (case existingWorkload of
                Some e \<Rightarrow>
                  if map_get (uLabels e) LabelAppComponentRevision = latestName r then Inr (u\<lparr>uName := uName e\<rparr>)
                  else Inr (u\<lparr>uName := latestName r\<rparr>)
              | None \<Rightarrow> Inr (u\<lparr>uName := latestName r\<rparr>)))
      else Inr (u\<lparr>uName := ocName c\<rparr>))"

text \<open>The last workload of the status with the name of the component.\<close>

definition getExistingWorkload ::
  "'w config_client \<Rightarrow> app_config \<Rightarrow> oam_component \<Rightarrow> unstructured \<Rightarrow> 'w \<Rightarrow> (string + unstructured option) \<times> 'w" where
  "getExistingWorkload C ac c u w =
     (let workloadName = foldl (\<lambda>n s. if cwsComponentName s \<noteq> ocName c then n else trName (cwsReference s)) ''''
                           (stWorkloads (acStatus ac))
      in if workloadName \<noteq> '''' then
           (case kGet (ccKube C) (uAPIVersion u) (uKind u) (acNamespace ac, workloadName) w of
              (Inl err, w) \<Rightarrow> (if errNotFound err then Inr None else Inl (errText err), w)
            | (Inr e, w) \<Rightarrow> (Inr (Some e), w))
         else (Inr (Some (blank_object '''' '''' '''' '''')), w))"

definition discoverHelmModule ::
  "'w config_client \<Rightarrow> oam_component \<Rightarrow> string \<Rightarrow> 'w \<Rightarrow> (string + unstructured) \<times> 'w" where
  "discoverHelmModule C c ns w =
     (case ocHelm c of
        None \<Rightarrow> (Inl ''the component has no valid helm module'', w)
      | Some (release, repository) \<Rightarrow>
          on_ok (map_error (\<lambda>err. errors_Wrap err ''cannot get helm release from component'')
                   (ccUnmarshalPaved C release, w)) (\<lambda>rls w.
          case ccNestedString C rls HelmChartNamePath of
            None \<Rightarrow> (Inl ''cannot get helm chart name'', w)
          | Some chartName \<Rightarrow>
              on_ok (map_error (\<lambda>err. errors_Wrap err ''cannot get workload from component'')
                       (ccUnmarshalPaved C (ocWorkload c), w)) (\<lambda>wl w.
              on_ok (map_error errText
                       (kGet (ccKube C) (uAPIVersion wl) (uKind wl)
                         (ns, helm_workload_name (uName rls) chartName) w)) (\<lambda>wl w.
              if managed_by_helm (uName rls) ns wl then (Inr wl, w)
              else (Inl (''the workload is found but not match with helm info(meta.helm.sh/release-name: '' @
                       uName rls @ '', meta.helm.sh/namespace: '' @ ns @
                       '', app.kubernetes.io/managed-by: Helm)''), w)))))"


section \<open>Traits and scopes\<close>

definition before_dot :: "string \<Rightarrow> string" where
  "before_dot s = (if strings_Contains s ''.'' then hd (strings_Split s CHR ''.'') else s)"

text \<open>The name that the status has for a trait of this type; the last one counts.\<close>

definition status_trait_name :: "app_config \<Rightarrow> string \<Rightarrow> unstructured \<Rightarrow> string" where
  "status_trait_name ac componentName t =
     foldl (\<lambda>n s. if cwsComponentName s \<noteq> componentName then n
                  else foldl (\<lambda>n tr. if trAPIVersion (ctsReference tr) = uAPIVersion t \<and>
                                        trKind (ctsReference tr) = uKind t
                                     then trName (ctsReference tr) else n) n (cwsTraits s)) ''''
       (stWorkloads (acStatus ac))"

definition getTraitName ::
  "'w config_client \<Rightarrow> app_config \<Rightarrow> string \<Rightarrow> component_trait \<Rightarrow> unstructured \<Rightarrow> config_trait_definition \<Rightarrow> string" where
  "getTraitName C ac componentName ct t traitDef =
     (if length (uName t) > 0 \<and> \<not> isControlledByApp ac then uName t
      else let traitName = status_trait_name ac componentName t in
           if length traitName = 0
           then GenTraitName componentName (ccTraitHash C ct) (before_dot (ctdName traitDef))
           else traitName)"

definition setTraitProperties ::
  "'w config_client \<Rightarrow> unstructured \<Rightarrow> string \<Rightarrow> string \<Rightarrow> owner_ref \<Rightarrow> unstructured" where
  "setTraitProperties C t traitName ns ref =
     (let t = (if uName t = '''' then t\<lparr>uName := traitName\<rparr> else t);
          tracked_elsewhere = (case kGetControllerOf (ccKube C) (uOwnerReferences t) of
             None \<Rightarrow> False
           | Some ctrl \<Rightarrow> orAPIVersion ctrl = SchemeGroupVersion \<and> orKind ctrl = ResourceTrackerKind)
      in if tracked_elsewhere then t
         else let t = (if length (uNamespace t) = 0 then t\<lparr>uNamespace := ns\<rparr> else t) in
              if uNamespace t = ns then t\<lparr>uOwnerReferences := [ref]\<rparr> else t)"

definition component_renderTrait ::
  "'w config_client \<Rightarrow> component_trait \<Rightarrow> app_config \<Rightarrow> string \<Rightarrow> owner_ref \<Rightarrow> dag \<Rightarrow> 'w \<Rightarrow>
     (string + unstructured \<times> config_trait_definition \<times> dag) \<times> 'w" where
  "component_renderTrait C ct ac componentName ref d w =
     on_ok (map_error (\<lambda>err. errors_Wrap err (''cannot render trait for component '' @ ccQuote C componentName))
              (renderTrait C (ctTrait ct), w)) (\<lambda>t w.
     on_ok (case FetchTraitDefinition C (SetNamespaceInCtx (acNamespace ac)) t w of
              (Inr traitDef, w) \<Rightarrow> (Inr traitDef, w)
            | (Inl err, w) \<Rightarrow>
                if \<not> errNotFound err
                then (Inl (errors_Wrap (errText err) (''cannot find trait definition '' @
                        ccQuote C (uAPIVersion t) @ '' '' @ ccQuote C (uKind t) @ '' '' @ ccQuote C (uName t))), w)
                else (Inr GetDummyTraitDefinition, w)) (\<lambda>traitDef w.
       let traitName = getTraitName C ac componentName ct t traitDef;
           t = setTraitProperties C t traitName (acNamespace ac) ref
       in (Inr (t, traitDef, addDataOutputsToDAG d (ctDataOutputs ct) t), w)))"

definition renderScope :: "'w config_client \<Rightarrow> cp_reference \<Rightarrow> string \<Rightarrow> 'w \<Rightarrow> (string + unstructured) \<times> 'w" where
  "renderScope C cs ns w =
     map_error (\<lambda>err. errors_Wrap (errText err) (''cannot get scope '' @ ccQuote C (trName cs)))
       (kGet (ccKube C) (trAPIVersion cs) (trKind cs) (ns, trName cs) w)"

fun renderScopes :: "'w config_client \<Rightarrow> cp_reference list \<Rightarrow> string \<Rightarrow> 'w \<Rightarrow> (string + unstructured list) \<times> 'w" where
  "renderScopes C [] ns w = (Inr [], w)"
| "renderScopes C (cs # css) ns w =
     on_ok (renderScope C cs ns w) (\<lambda>s w. on_ok (renderScopes C css ns w) (\<lambda>ss w. (Inr (s # ss), w)))"

section \<open>A component\<close>

text \<open>The labels and annotations of a rendered object.\<close>

definition compInfoLabels :: "app_config \<Rightarrow> string \<Rightarrow> string \<Rightarrow> string \<Rightarrow> string_map" where
  "compInfoLabels ac componentName revision tpy =
     Some [LabelAppName \<mapsto> acName ac, LabelAppComponent \<mapsto> componentName,
           LabelAppComponentRevision \<mapsto> revision, LabelOAMResourceType \<mapsto> tpy]"

definition AnnotationAppGeneration :: string where
  "AnnotationAppGeneration = ''app.oam.dev/generation''"

definition compInfoAnnotations :: "app_config \<Rightarrow> string_map" where
  "compInfoAnnotations ac = Some [AnnotationAppGeneration \<mapsto> itoa (acGeneration ac)]"

text \<open>The configuration as an object with labels and annotations.\<close>

definition config_meta :: "app_config \<Rightarrow> unstructured" where
  "config_meta ac = (blank_object '''' '''' '''' '''')\<lparr>uLabels := acLabels ac, uAnnotations := acAnnotations ac\<rparr>"

definition add_component_info :: "app_config \<Rightarrow> string_map \<Rightarrow> unstructured \<Rightarrow> unstructured" where
  "add_component_info ac labels u =
     RemoveAnnotations
       (PassLabelAndAnnotation (config_meta ac)
         (AddAnnotations (AddLabels u labels) (compInfoAnnotations ac)))
       [AnnotationAppRollout, AnnotationRollingComponent, AnnotationInplaceUpgrade]"

fun render_traits ::
  "'w config_client \<Rightarrow> component_trait list \<Rightarrow> app_config \<Rightarrow> string \<Rightarrow> string_map \<Rightarrow> owner_ref \<Rightarrow> dag \<Rightarrow> 'w \<Rightarrow>
     (string + trait_instance list \<times> dag) \<times> 'w" where
  "render_traits C [] ac componentName labels ref d w = (Inr ([], d), w)"
| "render_traits C (ct # cts) ac componentName labels ref d w =
     on_ok (component_renderTrait C ct ac componentName ref d w) (\<lambda>(t, traitDef, d) w.
     on_ok (render_traits C cts ac componentName labels ref d w) (\<lambda>(ts, d) w.
       (Inr (\<lparr>tiObject = add_component_info ac labels t, tiHasDep = False, tiDefinition = traitDef,
              tiDataOutputs = [], tiDataInputs = []\<rparr> # ts, d), w)))"

definition reference_json :: "cp_reference \<Rightarrow> json" where
  "reference_json r =
     JObject ([(''apiVersion'', JString (trAPIVersion r)), (''kind'', JString (trKind r)),
               (''name'', JString (trName r))] @ (if trUID r = '''' then [] else [(''uid'', JString (trUID r))]))"

fun set_workload_refs ::
  "'w config_client \<Rightarrow> cp_reference \<Rightarrow> trait_instance list \<Rightarrow> string + trait_instance list" where
  "set_workload_refs C r [] = Inr []"
| "set_workload_refs C r (t # ts) =
     bind_result
       (if length (ctdWorkloadRefPath (tiDefinition t)) \<noteq> 0
        then (case ccSetValue C (ctdWorkloadRefPath (tiDefinition t)) (reference_json r) (tiObject t) of
                Inl err \<Rightarrow> Inl (errors_Wrap err (''cannot set trait '' @ ccQuote C (uName (tiObject t)) @
                              '' reference to '' @ ccQuote C (trName r)))
              | Inr u \<Rightarrow> Inr (t\<lparr>tiObject := u\<rparr>))
        else Inr t) (\<lambda>t.
     bind_result (set_workload_refs C r ts) (\<lambda>ts. Inr (t # ts)))"

text \<open>
  The name of the workload, and whether the rollout controller is to take it over.
\<close>

definition name_workload ::
  "'w config_client \<Rightarrow> config_component \<Rightarrow> app_config \<Rightarrow> bool \<Rightarrow> bool \<Rightarrow> oam_component \<Rightarrow>
     config_trait_definition list \<Rightarrow> unstructured \<Rightarrow> owner_ref \<Rightarrow> 'w \<Rightarrow> (string + unstructured \<times> owner_ref) \<times> 'w" where
  "name_workload C acc ac controlled template c traitDefs u ref w =
     (if \<not> controlled then
        on_ok (getExistingWorkload C ac c u w) (\<lambda>existingWorkload w.
        on_ok (setWorkloadInstanceName C traitDefs u c existingWorkload, w) (\<lambda>u w. (Inr (u, ref), w)))
      else if ocHelm c \<noteq> None then
        on_ok (map_error (\<lambda>err. errors_Wrap err ''cannot get the workload created by a Helm module'')
                 (discoverHelmModule C c (acNamespace ac) w)) (\<lambda>e w. (Inr (u\<lparr>uName := uName e\<rparr>, ref), w))
      else
        (case ExtractRevision (accRevision acc) of
           (_, Some err) \<Rightarrow> (Inl err, w)
         | (revision, None) \<Rightarrow>
             (let u = SetAppWorkloadInstanceName C (accName acc) u revision
                        (map_get (acAnnotations ac) AnnotationInplaceUpgrade)
              in if template then
                   on_ok (prepWorkloadInstanceForRollout C u, w) (\<lambda>u w.
                     (Inr (u, ref\<lparr>orController := Some False\<rparr>), w))
                 else (Inr (u, ref), w))))"

definition effective_name :: "config_component \<Rightarrow> config_component" where
  "effective_name acc =
     (if accRevision acc \<noteq> '''' then acc\<lparr>accName := ExtractComponentName (accRevision acc)\<rparr> else acc)"

definition renderComponent ::
  "'w config_client \<Rightarrow> config_component \<Rightarrow> app_config \<Rightarrow> bool \<Rightarrow> bool \<Rightarrow> bool \<Rightarrow> dag \<Rightarrow> 'w \<Rightarrow>
     (string + workload_instance \<times> dag) \<times> 'w" where
  "renderComponent C acc ac controlled isComponentRolling needRolloutTemplate d w =
     (let acc = effective_name acc in
      on_ok (GetComponent C acc (acNamespace ac) w) (\<lambda>(c, componentRevisionName) w.
      on_ok (map_error (\<lambda>err. errors_Wrap err (''cannot resolve parameter values for component '' @ ccQuote C (accName acc)))
               (resolve C (ocParameters c) (accParameterValues acc), w)) (\<lambda>p w.
      on_ok (map_error (\<lambda>err. errors_Wrap err (''cannot render workload for component '' @ ccQuote C (accName acc)))
               (renderWorkload C (ocWorkload c) p, w)) (\<lambda>u w.
        let u = add_component_info ac (compInfoLabels ac (accName acc) componentRevisionName ResourceTypeWorkload) u;
            ref = getOwnerFromAC ac;
            u = (if length (uNamespace u) = 0 then u\<lparr>uNamespace := acNamespace ac\<rparr> else u)
        in
      on_ok (render_traits C (accTraitList acc) ac (accName acc)
               (compInfoLabels ac (accName acc) componentRevisionName ResourceTypeTrait) ref d w) (\<lambda>(ts, d) w.
      on_ok (name_workload C acc ac controlled (isComponentRolling \<and> needRolloutTemplate) c (map tiDefinition ts) u ref w)
        (\<lambda>(u, ref) w.
        let u = (if acNamespace ac = uNamespace u then u\<lparr>uOwnerReferences := [ref]\<rparr> else u) in
      on_ok (set_workload_refs C (reference_to u) ts, w) (\<lambda>ts w.
      on_ok (renderScopes C (accScopeRefs acc) (acNamespace ac) w) (\<lambda>scopes w.
        (Inr (\<lparr>wiComponentName = accName acc, wiComponentRevisionName = componentRevisionName, wiWorkload = u,
               wiSkipApply = (isComponentRolling \<and> \<not> needRolloutTemplate), wiHasDep = False, wiTraits = ts,
               wiRevisionEnabled = isRevisionEnabled (map tiDefinition ts), wiScopes = scopes,
               wiDataOutputs = [], wiDataInputs = []\<rparr>,
              addDataOutputsToDAG d (accDataOutputs acc) u), w)))))))))"

section \<open>Render\<close>

definition rolling_components :: "app_config \<Rightarrow> string list" where
  "rolling_components ac =
     (case map_lookup (acAnnotations ac) AnnotationRollingComponent of
        None \<Rightarrow> [] | Some anc \<Rightarrow> strings_Split anc CHR '','')"

text \<open>The loop over the components, with what has been rendered so far.\<close>

fun render_all ::
  "'w config_client \<Rightarrow> config_component list \<Rightarrow> string list \<Rightarrow> bool \<Rightarrow> dag \<Rightarrow> app_config \<times> 'w \<Rightarrow>
     (string + workload_instance list \<times> dag) \<times> (app_config \<times> 'w)" where
  "render_all C [] rolling need d s = (Inr ([], d), s)"
| "render_all C (acc # accs) rolling need d (ac, w) =
     (let isComponentRolling = accName (effective_name acc) \<in> set rolling in
      case renderComponent C acc ac (isControlledByApp ac) isComponentRolling need d w of
        (Inl err, w) \<Rightarrow> (Inl err, (ac, w))
      | (Inr (wl, d), w) \<Rightarrow>
          (let ac = (if isComponentRolling \<and> need
                     then on_config_status (\<lambda>s. s\<lparr>stRollingStatus := RollingTemplating\<rparr>) ac else ac) in
           on_ok (render_all C accs rolling need d (ac, w)) (\<lambda>(wls, d) s. (Inr (wl # wls, d), s))))"

fun handle_all ::
  "'w config_client \<Rightarrow> config_component list \<Rightarrow> workload_instance list \<Rightarrow> dag \<Rightarrow> app_config \<Rightarrow> 'w \<Rightarrow>
     ((string + workload_instance list \<times> unsatisfied_dependency list) \<times> 'w) option" where
  "handle_all C [] wls d ac w = Some (Inr ([], []), w)"
| "handle_all C (acc # accs) [] d ac w = None"
| "handle_all C (acc # accs) (wl # wls) d ac w =
     on_safe (handleDependency C wl acc d ac w) (\<lambda>(unsatisfied, wl) w.
     on_safe (handle_all C accs wls d ac w) (\<lambda>(res, uds) w. Some (Inr (wl # res, unsatisfied @ uds), w)))"

text \<open>The rolling components, whether a template is needed, and the configuration with its new status.\<close>

definition rollout_phase :: "app_config \<Rightarrow> string list \<times> bool \<times> app_config" where
  "rollout_phase ac =
     (if map_lookup (acAnnotations ac) AnnotationAppRollout \<noteq> None
      then (rolling_components ac, stRollingStatus (acStatus ac) \<noteq> RollingTemplated, ac)
      else if stRollingStatus (acStatus ac) = RollingTemplated
      then ([], False, on_config_status (\<lambda>s. s\<lparr>stRollingStatus := RollingCompleted\<rparr>) ac)
      else ([], False, ac))"

definition Render ::
  "'w config_client \<Rightarrow> app_config \<times> 'w \<Rightarrow>
     ((string + workload_instance list \<times> unsatisfied_dependency list) \<times> (app_config \<times> 'w)) option" where
  "Render C s =
     (case s of (ac, w) \<Rightarrow>
      (case rollout_phase ac of (rolling, need, ac) \<Rightarrow>
        on_safe (Some (render_all C (acComponents ac) rolling need newDAG (ac, w))) (\<lambda>(wls, d) (ac, w).
          map_option (\<lambda>(r, w). (r, (ac, w))) (handle_all C (acComponents ac) wls d ac w))))"

end
