(* ===== verification/Config_Apply.thy ===== *)
theory Config_Apply
  imports Config_Render
begin

text \<open>
  Applying what was rendered: apply.go of the controller of application configurations, and the apply
  option applyOnceOnly of applicationconfiguration.go.

  errors.Is finds the error GenerationUnchanged by the address of a value without fields, and all
  such values that live on the heap have one address; here it is found by its text.  \<open>None\<close> is a
  panic: an empty list of workloads, or a scope whose list of references is not a list of maps.
\<close>

section \<open>Strings\<close>

fun strings_ReplaceAll :: "string \<Rightarrow> string \<Rightarrow> string \<Rightarrow> string" where
  "strings_ReplaceAll [] old new = []"
| "strings_ReplaceAll (c # s) old new =
     (if old \<noteq> [] \<and> strings_HasPrefix (c # s) old
      then new @ strings_ReplaceAll (drop (length old - 1) s) old new
      else c # strings_ReplaceAll s old new)"

section \<open>Apply once\<close>

definition ApplyOnceOnlyOff :: string where "ApplyOnceOnlyOff = ''off''"
definition ApplyOnceOnlyOn :: string where "ApplyOnceOnlyOn = ''on''"
definition ApplyOnceOnlyForce :: string where "ApplyOnceOnlyForce = ''force''"

definition GenerationUnchanged :: string where
  "GenerationUnchanged =
     ''apply-only-once enabled,'' @ ''and detect generation in the annotation unchanged, will not apply.'' @
     ''Please ignore this error in other logic.''"

definition is_generation_unchanged :: "string \<Rightarrow> bool" where
  "is_generation_unchanged err \<longleftrightarrow> err = errors_Wrap GenerationUnchanged ''cannot apply ApplyOption''"

text \<open>The two ways in which a group, a version and a kind are read; they differ for a malformed version.\<close>

definition reference_gvk :: "'w config_client \<Rightarrow> cp_reference \<Rightarrow> string \<times> string \<times> string" where
  "reference_gvk C r =
     (case ccParseGroupVersion C (trAPIVersion r) of
        Inl err \<Rightarrow> ('''', '''', trKind r) | Inr (gr, version) \<Rightarrow> (gr, version, trKind r))"

definition object_gvk :: "'w config_client \<Rightarrow> unstructured \<Rightarrow> string \<times> string \<times> string" where
  "object_gvk C u =
     (case ccParseGroupVersion C (uAPIVersion u) of
        Inl err \<Rightarrow> ('''', '''', '''') | Inr (gr, version) \<Rightarrow> (gr, version, uKind u))"

definition refers_to :: "'w config_client \<Rightarrow> unstructured \<Rightarrow> cp_reference \<Rightarrow> bool" where
  "refers_to C desired r \<longleftrightarrow> reference_gvk C r = object_gvk C desired \<and> trName r = uName desired"

text \<open>
  Whether the status records that the object was applied with this revision or generation.  The loop
  ends at a workload that is the object; a trait that is the object ends only the loop over the
  traits of its workload.
\<close>

fun recorded_unchanged :: "'w config_client \<Rightarrow> unstructured \<Rightarrow> config_workload_status list \<Rightarrow> bool" where
  "recorded_unchanged C desired [] = False"
| "recorded_unchanged C desired (s # ss) =
     (if refers_to C desired (cwsReference s)
      then map_get (uLabels desired) LabelOAMResourceType = ResourceTypeWorkload \<and>
           cwsAppliedComponentRevision s = map_get (uLabels desired) LabelAppComponentRevision
      else case find (\<lambda>t. refers_to C desired (ctsReference t)) (cwsTraits s) of
             None \<Rightarrow> recorded_unchanged C desired ss
           | Some t \<Rightarrow>
               if map_get (uLabels desired) LabelOAMResourceType = ResourceTypeTrait \<and>
                  cwsComponentRevisionName s = map_get (uLabels desired) LabelAppComponentRevision \<and>
                  itoa (ctsAppliedGeneration t) = map_get (uAnnotations desired) AnnotationAppGeneration
               then True else recorded_unchanged C desired ss)"

definition applyOnceOnly :: "'w config_client \<Rightarrow> app_config \<Rightarrow> string \<Rightarrow> apply_option" where
  "applyOnceOnly C ac mode existing desired =
     (if mode = ApplyOnceOnlyOff then None
      else if map_get (uLabels desired) LabelOAMResourceType \<noteq> ResourceTypeWorkload \<and>
              map_get (uLabels desired) LabelOAMResourceType \<noteq> ResourceTypeTrait then None
      else case existing of
             None \<Rightarrow>
               if mode \<noteq> ApplyOnceOnlyForce then None
               else if recorded_unchanged C desired (stWorkloads (acStatus ac)) then Some GenerationUnchanged
               else None
           | Some e \<Rightarrow>
               if map_get (uAnnotations e) AnnotationAppGeneration \<noteq> map_get (uAnnotations desired) AnnotationAppGeneration \<or>
                  map_get (uLabels e) LabelAppComponentRevision \<noteq> map_get (uLabels desired) LabelAppComponentRevision
               then None
               else Some GenerationUnchanged)"

section \<open>Operations on data\<close>

definition backslash :: char where "backslash = CHR 0x5C"
definition dQuotes :: char where "dQuotes = CHR 0x22"

definition quoted :: "string \<Rightarrow> string" where
  "quoted s = dQuotes # s @ [dQuotes]"

definition escape :: "string \<Rightarrow> string" where
  "escape s = strings_ReplaceAll (strings_ReplaceAll s [backslash] [backslash, backslash]) [dQuotes] [backslash, dQuotes]"

text \<open>A path with dots as a JSON pointer; an escaped dot stays one.\<close>

definition pointer_of :: "string \<Rightarrow> string" where
  "pointer_of path =
     (let path = strings_ReplaceAll path [backslash, CHR ''.''] ''@@@DOTDOTDOT@@@'';
          path = strings_ReplaceAll path ''.'' ''/'';
          path = strings_ReplaceAll path ''@@@DOTDOTDOT@@@'' ''.''
      in if hd path \<noteq> CHR ''/'' then CHR ''/'' # path else path)"

definition jsonOperation ::
  "'w config_client \<Rightarrow> string \<Rightarrow> string \<Rightarrow> string \<Rightarrow> string \<Rightarrow> string \<Rightarrow> string + string" where
  "jsonOperation C jsonBytes op path v toDataPath =
     (if length jsonBytes = 0 \<or> length path = 0 then Inr v
      else
        let v = strings_ReplaceAll (strings_ReplaceAll v [backslash, dQuotes] [dQuotes]) [backslash, backslash] [backslash];
            v = (if length v > 1 \<and> hd v = dQuotes \<and> last v = dQuotes then quoted (escape (butlast (tl v)))
                 else if length toDataPath > 0 then quoted (escape v) else v);
            patchJSON = ''[{'' @ quoted ''op'' @ '': '' @ quoted op @ '', '' @ quoted ''path'' @ '': '' @
                        quoted (pointer_of path) @ '', '' @ quoted ''value'' @ '': '' @ v @ ''}]''
        in bind_result (ccDecodePatch C patchJSON) (\<lambda>patch. ccApplyPatch C patch jsonBytes))"

definition getValueFromPath :: "'w config_client \<Rightarrow> unstructured \<Rightarrow> string \<Rightarrow> string + json" where
  "getValueFromPath C u path =
     (case ccGetValue C u path of
        Inl err \<Rightarrow>
          if errNotFound err then Inl (path @ '' not found in object'')
          else Inl (''failed to get field value ('' @ path @ '') in object ('' @ uNamespace u @ '':'' @ uName u @
                    ''): '' @ errText err)
      | Inr v \<Rightarrow> Inr v)"

definition operation_value :: "'w config_client \<Rightarrow> unstructured \<Rightarrow> data_operation \<Rightarrow> string + string" where
  "operation_value C outputObj oper =
     (if length (opValue oper) \<noteq> 0 then Inr (opValue oper)
      else if length (opValueFrom oper) \<noteq> 0
      then bind_result (getValueFromPath C outputObj (opValueFrom oper)) (ccMarshalValue C)
      else Inl ''invaild value and valueFrom in operation: both are empty'')"

definition operationProcess ::
  "'w config_client \<Rightarrow> unstructured \<Rightarrow> unstructured \<Rightarrow> data_operation \<Rightarrow> string + unstructured" where
  "operationProcess C inputObj outputObj oper =
     (if opType oper \<noteq> ''jsonPatch'' then Inl ''invaild type in operation''
      else
        bind_result (ccMarshal C inputObj) (\<lambda>jsonBytes.
        bind_result (operation_value C outputObj oper) (\<lambda>v.
        bind_result (jsonOperation C (ccGJSON C jsonBytes (opToFieldPath oper)) (opOperator oper) (opToDataPath oper) v
                       (opToDataPath oper)) (\<lambda>targetJSON.
        bind_result (jsonOperation C jsonBytes ''replace'' (opToFieldPath oper) targetJSON (opToDataPath oper)) (\<lambda>jsonBytes.
          case ccUnmarshal C jsonBytes inputObj of
            Inl err \<Rightarrow> Inl (errors_Wrap err ''cannot unmarshal workload'')
          | Inr u \<Rightarrow> Inr u)))))"

fun process_operations ::
  "'w config_client \<Rightarrow> unstructured \<Rightarrow> unstructured \<Rightarrow> data_operation list \<Rightarrow> string + unstructured" where
  "process_operations C inputObj outputObj [] = Inr inputObj"
| "process_operations C inputObj outputObj (oper # opers) =
     bind_result (operationProcess C inputObj outputObj oper) (\<lambda>u. process_operations C u outputObj opers)"

text \<open>A read through the client, with the text of its error.\<close>

definition get_object :: "'w config_client \<Rightarrow> cp_reference \<Rightarrow> string \<Rightarrow> 'w \<Rightarrow> (api_error + unstructured) \<times> 'w" where
  "get_object C r ns w = kGet (ccKube C) (trAPIVersion r) (trKind r) (ns, trName r) w"

definition call_apply ::
  "'w config_client \<Rightarrow> unstructured \<Rightarrow> apply_option list \<Rightarrow> 'w \<Rightarrow> (string + unstructured) \<times> 'w" where
  "call_apply C u ao w =
     (case Apply (ccKube C) u ao w of
        ((Some err, u), w) \<Rightarrow> (Inl err, w)
      | ((None, u), w) \<Rightarrow> (Inr u, w))"

fun ApplyInputRef ::
  "'w config_client \<Rightarrow> unstructured \<Rightarrow> data_input list \<Rightarrow> string \<Rightarrow> 'w \<Rightarrow> (string + unstructured) \<times> 'w" where
  "ApplyInputRef C u [] ns w = (Inr u, w)"
| "ApplyInputRef C u (i # ins) ns w =
     (if inStore i = zero_store then ApplyInputRef C u ins ns w
      else on_ok (map_error errText (get_object C (stReference (inStore i)) ns w)) (\<lambda>ref w.
           on_ok (process_operations C u ref (operations_of (inStore i)), w) (\<lambda>u w.
             ApplyInputRef C u ins ns w)))"

definition apply_output ::
  "'w config_client \<Rightarrow> unstructured \<Rightarrow> data_output \<Rightarrow> string \<Rightarrow> apply_option list \<Rightarrow> 'w \<Rightarrow> (string + unit) \<times> 'w" where
  "apply_output C u out ns ao w =
     (let store = stReference (outStore out) in
      on_ok (map_error errText (get_object C (reference_to u) (uNamespace u) w)) (\<lambda>runningW w.
      on_ok (case get_object C store ns w of
               (Inr ref, w) \<Rightarrow> (Inr ref, w)
             | (Inl err, w) \<Rightarrow>
                 if \<not> errNotFound err then (Inl (errText err), w)
                 else on_ok (call_apply C ((blank_object (trAPIVersion store) (trKind store) ns (trName store))
                               \<lparr>uOwnerReferences := uOwnerReferences runningW\<rparr>) ao w) (\<lambda>ref w.
                      map_error errText (get_object C store ns w))) (\<lambda>ref w.
      on_ok (process_operations C ref runningW (operations_of (outStore out)), w) (\<lambda>ref w.
      on_ok (call_apply C ref ao w) (\<lambda>ref w. (Inr (), w))))))"

fun apply_outputs ::
  "'w config_client \<Rightarrow> unstructured \<Rightarrow> data_output list \<Rightarrow> string \<Rightarrow> apply_option list \<Rightarrow> 'w \<Rightarrow> (string + unit) \<times> 'w" where
  "apply_outputs C u [] ns ao w = (Inr (), w)"
| "apply_outputs C u (out # outs) ns ao w =
     (if outStore out = zero_store then apply_outputs C u outs ns ao w
      else on_ok (apply_output C u out ns ao w) (\<lambda>_ w. apply_outputs C u outs ns ao w))"

definition ApplyOutputRef ::
  "'w config_client \<Rightarrow> unstructured \<Rightarrow> (string \<times> data_output) list \<Rightarrow> string \<Rightarrow> apply_option list \<Rightarrow> 'w \<Rightarrow>
     (string + unit) \<times> 'w" where
  "ApplyOutputRef C u outputs ns ao w =
     apply_outputs C u (List.map_filter (map_of outputs) (ccOrder C (map fst outputs))) ns ao w"


section \<open>Scopes\<close>

definition workloadScopeFinalizer :: string where
  "workloadScopeFinalizer = ''scope.finalizer.core.oam.dev''"

definition is_reference :: "cp_reference \<Rightarrow> (string \<times> json) list \<Rightarrow> bool" where
  "is_reference r m \<longleftrightarrow>
     map_of m ''apiVersion'' = Some (JString (trAPIVersion r)) \<and> map_of m ''kind'' = Some (JString (trKind r)) \<and>
     map_of m ''name'' = Some (JString (trName r))"

text \<open>The index of the first reference to a workload; an item that is not a map before it is a panic.\<close>

fun reference_index :: "cp_reference \<Rightarrow> json list \<Rightarrow> nat option option" where
  "reference_index r [] = Some None"
| "reference_index r (JObject m # items) =
     (if is_reference r m then Some (Some 0) else map_option (map_option Suc) (reference_index r items))"
| "reference_index r (_ # items) = None"

definition scope_name :: "'w config_client \<Rightarrow> string \<Rightarrow> string \<Rightarrow> string \<Rightarrow> string" where
  "scope_name C version kind n = ccQuote C version @ '' '' @ ccQuote C kind @ '' '' @ ccQuote C n"

definition no_refs_path :: "'w config_client \<Rightarrow> unstructured \<Rightarrow> string \<Rightarrow> string \<Rightarrow> string" where
  "no_refs_path C s path err =
     errors_Wrap err (''cannot find scope workloadRef '' @ scope_name C (uAPIVersion s) (uKind s) (uName s) @
                      '' with workloadRefsPath '' @ ccQuote C path)"

definition applyScope ::
  "'w config_client \<Rightarrow> string \<Rightarrow> workload_instance \<Rightarrow> unstructured \<Rightarrow> cp_reference \<Rightarrow> 'w \<Rightarrow>
     ((string + unit) \<times> 'w) option" where
  "applyScope C appNs wl s workloadRef w =
     on_safe (Some (map_error (\<lambda>err. errors_Wrap (errText err) (''cannot find scope definition '' @
                      scope_name C (uAPIVersion s) (uKind s) (uName s))) (FetchScopeDefinition C appNs s w)))
       (\<lambda>workloadRefsPath w.
         if length workloadRefsPath = 0 then Some (Inr (), w)
         else (case ccGetValue C s workloadRefsPath of
             Inl err \<Rightarrow> Some (Inl (no_refs_path C s workloadRefsPath (errText err)), w)
           | Inr (JArray refs) \<Rightarrow>
               (case reference_index workloadRef refs of
                  None \<Rightarrow> None
                | Some (Some i) \<Rightarrow> Some (Inr (), w)
                | Some None \<Rightarrow>
                    (case ccSetValue C workloadRefsPath (JArray (refs @ [reference_json workloadRef])) s of
                       Inl err \<Rightarrow> Some (Inl (errors_Wrap err (''cannot set scope '' @ ccQuote C (uName s) @
                                     '' reference to '' @ ccQuote C (uName (wiWorkload wl)))), w)
                     | Inr s \<Rightarrow>
                         Some (map_error (\<lambda>err. errors_Wrap (errText err) (''cannot apply scope '' @
                                 scope_name C (uAPIVersion s) (uKind s) (uName s)))
                           (call_error (ccUpdateObject C s w)))))
           | Inr _ \<Rightarrow> None))"

text \<open>Removing an element by putting the last one in its place.\<close>

definition swap_remove :: "nat \<Rightarrow> 'a list \<Rightarrow> 'a list" where
  "swap_remove i xs = butlast (xs[i := last xs])"

definition applyScopeRemoval ::
  "'w config_client \<Rightarrow> string \<Rightarrow> string \<Rightarrow> cp_reference \<Rightarrow> config_scope_status \<Rightarrow> 'w \<Rightarrow> ((string + unit) \<times> 'w) option" where
  "applyScopeRemoval C appNs ns wr st w =
     (let r = cssReference st;
          cannot_apply = (\<lambda>err. errors_Wrap (errText err) (''cannot apply scope '' @
                            scope_name C (trAPIVersion r) (trKind r) (trName r)))
      in case get_object C r ns w of
           (Inl err, w) \<Rightarrow> if errNotFound err then Some (Inr (), w) else Some (Inl (cannot_apply err), w)
         | (Inr s, w) \<Rightarrow>
             (case FetchScopeDefinition C appNs s w of
                (Inl err, w) \<Rightarrow>
                  if errNotFound err then Some (Inr (), w)
                  else Some (Inl (errors_Wrap (errText err) (''cannot find scope definition '' @
                         scope_name C (uAPIVersion s) (uKind s) (uName s))), w)
              | (Inr workloadRefsPath, w) \<Rightarrow>
                  if length workloadRefsPath = 0
                  then Some (Inl (''cannot get workloadRefsPath for scope to be dereferenced '' @
                         scope_name C (uAPIVersion s) (uKind s) (uName s)), w)
                  else (case ccGetValue C s workloadRefsPath of
                      Inl err \<Rightarrow> Some (Inl (no_refs_path C s workloadRefsPath (errText err)), w)
                    | Inr (JArray refs) \<Rightarrow>
                        (case reference_index wr refs of
                           None \<Rightarrow> None
                         | Some None \<Rightarrow> Some (Inr (), w)
                         | Some (Some i) \<Rightarrow>
                             (case ccSetValue C workloadRefsPath (JArray (swap_remove i refs)) s of
                                Inl err \<Rightarrow> Some (Inl (errors_Wrap err (''cannot set scope '' @ ccQuote C (trName r) @
                                              '' reference to '' @ ccQuote C (trName wr))), w)
                              | Inr s \<Rightarrow> Some (map_error cannot_apply (call_error (ccUpdateObject C s w)))))
                    | Inr _ \<Rightarrow> None)))"

definition same_object :: "cp_reference \<Rightarrow> unstructured \<Rightarrow> bool" where
  "same_object r u \<longleftrightarrow> trAPIVersion r = uAPIVersion u \<and> trKind r = uKind u \<and> trName r = uName u"

definition findDereferencedScopes :: "config_scope_status list \<Rightarrow> unstructured list \<Rightarrow> config_scope_status list" where
  "findDereferencedScopes statusScopes scopes =
     filter (\<lambda>ss. \<not> list_ex (same_object (cssReference ss)) scopes) statusScopes"

fun remove_scopes ::
  "'w config_client \<Rightarrow> string \<Rightarrow> string \<Rightarrow> cp_reference \<Rightarrow> config_scope_status list \<Rightarrow> 'w \<Rightarrow> ((string + unit) \<times> 'w) option" where
  "remove_scopes C appNs ns wr [] w = Some (Inr (), w)"
| "remove_scopes C appNs ns wr (s # ss) w =
     on_safe (applyScopeRemoval C appNs ns wr s w) (\<lambda>_ w. remove_scopes C appNs ns wr ss w)"

text \<open>The scopes that a workload of the status is to leave; the last workload that it is counts.\<close>

definition to_be_dereferenced :: "config_workload_status \<Rightarrow> workload_instance list \<Rightarrow> config_scope_status list" where
  "to_be_dereferenced st wls =
     foldl (\<lambda>d wl. if same_object (cwsReference st) (wiWorkload wl)
                   then findDereferencedScopes (cwsScopes st) (wiScopes wl) else d) (cwsScopes st) wls"

fun dereferenceScope ::
  "'w config_client \<Rightarrow> string \<Rightarrow> string \<Rightarrow> config_workload_status list \<Rightarrow> workload_instance list \<Rightarrow> 'w \<Rightarrow>
     ((string + unit) \<times> 'w) option" where
  "dereferenceScope C appNs ns [] wls w = Some (Inr (), w)"
| "dereferenceScope C appNs ns (st # sts) wls w =
     on_safe (remove_scopes C appNs ns (cwsReference st) (to_be_dereferenced st wls) w) (\<lambda>_ w.
       dereferenceScope C appNs ns sts wls w)"

fun dereferenceAllScopes ::
  "'w config_client \<Rightarrow> string \<Rightarrow> string \<Rightarrow> config_workload_status list \<Rightarrow> 'w \<Rightarrow> ((string + unit) \<times> 'w) option" where
  "dereferenceAllScopes C appNs ns [] w = Some (Inr (), w)"
| "dereferenceAllScopes C appNs ns (st # sts) w =
     on_safe (remove_scopes C appNs ns (cwsReference st) (cwsScopes st) w) (\<lambda>_ w.
       dereferenceAllScopes C appNs ns sts w)"

definition Finalize :: "'w config_client \<Rightarrow> app_config \<Rightarrow> 'w \<Rightarrow> ((string + app_config) \<times> 'w) option" where
  "Finalize C ac w =
     (if ccFinalizerExists C (acFinalizers ac) workloadScopeFinalizer
      then on_safe (dereferenceAllScopes C (SetNamespaceInCtx (acNamespace ac)) (acNamespace ac)
                      (stWorkloads (acStatus ac)) w) (\<lambda>_ w.
             Some (Inr (ac\<lparr>acFinalizers := ccRemoveFinalizer C (acFinalizers ac) workloadScopeFinalizer\<rparr>), w))
      else Some (Inr ac, w))"

section \<open>Workloads and traits\<close>

text \<open>
  Applying one object unless something of it is not ready.  An object that is unchanged is passed over.
\<close>

definition apply_object ::
  "'w config_client \<Rightarrow> (unstructured \<Rightarrow> string) \<Rightarrow> unstructured \<Rightarrow> data_input list \<Rightarrow> string \<Rightarrow> apply_option list \<Rightarrow> 'w \<Rightarrow>
     (string + unstructured) \<times> 'w" where
  "apply_object C message u inputs ns ao w =
     on_ok (ApplyInputRef C u inputs ns w) (\<lambda>u w.
       case Apply (ccKube C) u ao w of
         ((Some err, u), w) \<Rightarrow>
           if is_generation_unchanged err then (Inr u, w) else (Inl (errors_Wrap err (message u)), w)
       | ((None, u), w) \<Rightarrow> (Inr u, w))"

fun apply_traits ::
  "'w config_client \<Rightarrow> trait_instance list \<Rightarrow> string \<Rightarrow> apply_option list \<Rightarrow> 'w \<Rightarrow> (string + trait_instance list) \<times> 'w" where
  "apply_traits C [] ns ao w = (Inr [], w)"
| "apply_traits C (t # ts) ns ao w =
     on_ok (if \<not> tiHasDep t
            then apply_object C (\<lambda>u. ''cannot apply trait '' @ scope_name C (uAPIVersion u) (uKind u) (uName u))
                   (tiObject t) (tiDataInputs t) ns ao w
            else (Inr (tiObject t), w)) (\<lambda>u w.
     on_ok (ApplyOutputRef C u (tiDataOutputs t) ns ao w) (\<lambda>_ w.
     on_ok (apply_traits C ts ns ao w) (\<lambda>ts w. (Inr (t\<lparr>tiObject := u\<rparr> # ts), w))))"

fun apply_scopes ::
  "'w config_client \<Rightarrow> string \<Rightarrow> workload_instance \<Rightarrow> unstructured list \<Rightarrow> cp_reference \<Rightarrow> 'w \<Rightarrow> ((string + unit) \<times> 'w) option" where
  "apply_scopes C appNs wl [] r w = Some (Inr (), w)"
| "apply_scopes C appNs wl (s # ss) r w =
     on_safe (applyScope C appNs wl s r w) (\<lambda>_ w. apply_scopes C appNs wl ss r w)"

definition apply_workload ::
  "'w config_client \<Rightarrow> string \<Rightarrow> workload_instance \<Rightarrow> string \<Rightarrow> apply_option list \<Rightarrow> 'w \<Rightarrow>
     ((string + workload_instance) \<times> 'w) option" where
  "apply_workload C appNs wl ns ao w =
     on_safe (Some (if \<not> wiHasDep wl \<and> \<not> wiSkipApply wl
                    then apply_object C (\<lambda>u. ''cannot apply workload '' @ ccQuote C (uName u))
                           (wiWorkload wl) (wiDataInputs wl) ns ao w
                    else (Inr (wiWorkload wl), w))) (\<lambda>u w.
     on_safe (Some (ApplyOutputRef C u (wiDataOutputs wl) ns ao w)) (\<lambda>_ w.
     on_safe (Some (apply_traits C (wiTraits wl) ns ao w)) (\<lambda>ts w.
       let wl = wl\<lparr>wiWorkload := u, wiTraits := ts\<rparr> in
     on_safe (apply_scopes C appNs wl (wiScopes wl) (reference_to u) w) (\<lambda>_ w. Some (Inr wl, w)))))"

fun apply_workloads ::
  "'w config_client \<Rightarrow> string \<Rightarrow> workload_instance list \<Rightarrow> string \<Rightarrow> apply_option list \<Rightarrow> 'w \<Rightarrow>
     ((string + workload_instance list) \<times> 'w) option" where
  "apply_workloads C appNs [] ns ao w = Some (Inr [], w)"
| "apply_workloads C appNs (wl # wls) ns ao w =
     on_safe (apply_workload C appNs wl ns ao w) (\<lambda>wl w.
     on_safe (apply_workloads C appNs wls ns ao w) (\<lambda>wls w. Some (Inr (wl # wls), w)))"

text \<open>The namespace is that of the first workload, which has to be there.\<close>

definition workloads_Apply ::
  "'w config_client \<Rightarrow> string \<Rightarrow> config_workload_status list \<Rightarrow> workload_instance list \<Rightarrow> apply_option list \<Rightarrow> 'w \<Rightarrow>
     ((string + workload_instance list) \<times> 'w) option" where
  "workloads_Apply C appNs status wls ao w =
     (case wls of
        [] \<Rightarrow> None
      | wl # _ \<Rightarrow>
          let ns = uNamespace (wiWorkload wl) in
          on_safe (apply_workloads C appNs wls ns ao w) (\<lambda>wls w.
          on_safe (dereferenceScope C appNs ns status wls w) (\<lambda>_ w. Some (Inr wls, w))))"

end
