(* ===== verification/Config_Controller.thy ===== *)
theory Config_Controller
  imports Config_Apply
begin

text \<open>
  The controller of application configurations (applicationconfiguration.go): the status, the garbage
  collection and the reconcile; and the controller of application contexts
  (applicationcontext_controller.go), which reconciles an application revision as a configuration.

  ACReconcile works on a pointer: it gives its result, the configuration as it is left, the events
  and the world, or panics.  The map of the retry is the client's; a duration is in nanoseconds.
\<close>

section \<open>The status of a workload\<close>

definition DummyTraitMessage :: string where
  "DummyTraitMessage = ''No TraitDefinition found, all framework capabilities will work as default''"

definition trait_status_of :: "trait_instance \<Rightarrow> config_trait_status" where
  "trait_status_of t =
     \<lparr>ctsStatus = '''', ctsReference = reference_to (tiObject t),
      ctsMessage = (if ctdName (tiDefinition t) = Dummy \<and> ctdReference (tiDefinition t) = Dummy
                    then DummyTraitMessage else ''''),
      ctsAppliedGeneration = 0, ctsDependencyUnsatisfied = tiHasDep t\<rparr>"

definition Status :: "workload_instance \<Rightarrow> config_workload_status" where
  "Status wl =
     \<lparr>cwsStatus = '''', cwsComponentName = wiComponentName wl,
      cwsComponentRevisionName = wiComponentRevisionName wl, cwsDependencyUnsatisfied = wiHasDep wl,
      cwsAppliedComponentRevision = '''', cwsReference = reference_to (wiWorkload wl),
      cwsTraits = map trait_status_of (wiTraits wl),
      cwsScopes = map (\<lambda>s. \<lparr>cssStatus = '''', cssReference = reference_to s\<rparr>) (wiScopes wl)\<rparr>"

section \<open>Garbage\<close>

definition IsRevisionWorkload :: "config_workload_status \<Rightarrow> workload_instance list \<Rightarrow> bool" where
  "IsRevisionWorkload st wls \<longleftrightarrow>
     strings_HasPrefix (trName (cwsReference st)) (cwsComponentName st @ ''-'') \<or>
     (case find (\<lambda>wl. wiComponentName wl = cwsComponentName st) wls of
        None \<Rightarrow> False | Some wl \<Rightarrow> wiRevisionEnabled wl)"

definition applied_references :: "workload_instance list \<Rightarrow> cp_reference list" where
  "applied_references wls =
     concat (map (\<lambda>wl. reference_to (wiWorkload wl) # map (reference_to \<circ> tiObject) (wiTraits wl)) wls)"

definition garbage_object :: "string \<Rightarrow> cp_reference \<Rightarrow> unstructured" where
  "garbage_object ns r = blank_object (trAPIVersion r) (trKind r) ns (trName r)"

definition eligible :: "string \<Rightarrow> config_workload_status list \<Rightarrow> workload_instance list \<Rightarrow> unstructured list" where
  "eligible ns ws wls =
     (let applied = applied_references wls in
      concat (map (\<lambda>s.
        (if cwsReference s \<notin> set applied \<and> \<not> IsRevisionWorkload s wls then [garbage_object ns (cwsReference s)] else []) @
        map (\<lambda>t. garbage_object ns (ctsReference t)) (filter (\<lambda>t. ctsReference t \<notin> set applied) (cwsTraits s))) ws))"

definition confirmDeleteOnApplyOnceMode :: "'w config_client \<Rightarrow> string \<Rightarrow> unstructured \<Rightarrow> 'w \<Rightarrow> string option \<times> 'w" where
  "confirmDeleteOnApplyOnceMode C ns u w =
     (if ccApplyMode C = ApplyOnceOnlyOff then (None, w)
      else (case kGet (ccKube C) (uAPIVersion u) (uKind u) (ns, uName u) w of
          (Inl err, w) \<Rightarrow> (if errNotFound err then None else Some (errText err), w)
        | (Inr getU, w) \<Rightarrow>
            (if uLabels getU = None \<or> map_get (uLabels getU) LabelOAMResourceType \<noteq> ResourceTypeWorkload then None
             else case ccGetInteger C getU ''spec.replicas'' of
                    Inl err \<Rightarrow>
                      if strings_Contains err ''no such field'' then None
                      else Some (errors_Wrap err (''fail to get '' @ [CHR 0x27] @ ''spec.replicas'' @ [CHR 0x27] @ '' from workload''))
                  | Inr replicas \<Rightarrow>
                      if replicas > 0
                      then Some (''can'' @ [CHR 0x27] @ ''t delete workload with replicas '' @ itoa replicas @
                                 '' in apply once only mode'')
                      else None, w)))"

text \<open>Deleting what is eligible, up to the first error, with the events that are recorded.\<close>

fun collect_garbage ::
  "'w config_client \<Rightarrow> string \<Rightarrow> unstructured list \<Rightarrow> 'w \<Rightarrow> (string option \<times> rec_event list) \<times> 'w" where
  "collect_garbage C ns [] w = ((None, []), w)"
| "collect_garbage C ns (e # es) w =
     (let failed_with = (\<lambda>err. (Some (errors_Wrap err ''cannot garbage collect components''),
                                [WarningEvent ''CannotGarbageCollectComponents'' err])) in
      case confirmDeleteOnApplyOnceMode C ns e w of
        (Some err, w) \<Rightarrow> (failed_with err, w)
      | (None, w) \<Rightarrow>
          (case kDelete (ccKube C) (object_ref e) w of
             (Some err, w') \<Rightarrow>
               if errNotFound err then
                 (case collect_garbage C ns es w' of
                    ((r, evs), w) \<Rightarrow> ((r, NormalEvent ''GarbageCollectedComponent'' ''Successfully garbage collected component'' # evs), w))
               else (failed_with (errText err), w')
           | (None, w') \<Rightarrow>
               (case collect_garbage C ns es w' of
                  ((r, evs), w) \<Rightarrow> ((r, NormalEvent ''GarbageCollectedComponent'' ''Successfully garbage collected component'' # evs), w))))"

section \<open>The status of a configuration\<close>

text \<open>Workloads of other revisions of a component; an error of the list is passed over.\<close>

fun history_workloads ::
  "'w config_client \<Rightarrow> app_config \<Rightarrow> workload_instance list \<Rightarrow> 'w \<Rightarrow> history_workload list \<times> 'w" where
  "history_workloads C ac [] w = ([], w)"
| "history_workloads C ac (wl # wls) w =
     (if \<not> wiRevisionEnabled wl then history_workloads C ac wls w
      else (case ccListObjects C (uAPIVersion (wiWorkload wl)) (uKind (wiWorkload wl))
                   [(LabelAppName, acName ac), (LabelAppComponent, wiComponentName wl),
                    (LabelOAMResourceType, ResourceTypeWorkload)] w of
          (Inl err, w) \<Rightarrow> history_workloads C ac wls w
        | (Inr items, w) \<Rightarrow>
            (case history_workloads C ac wls w of
               (hs, w) \<Rightarrow>
                 (map (\<lambda>v. \<lparr>hwRevision = uName v, hwReference = (reference_to v)\<lparr>trUID := uUID v\<rparr>\<rparr>)
                    (filter (\<lambda>v. uName v \<noteq> wiComponentRevisionName wl) items) @ hs, w))))"

definition patch_trait_status :: "config_trait_status list \<Rightarrow> config_trait_status \<Rightarrow> config_trait_status" where
  "patch_trait_status old t =
     foldl (\<lambda>t o1. if trAPIVersion (ctsReference o1) = trAPIVersion (ctsReference t) \<and>
                      trKind (ctsReference o1) = trKind (ctsReference t) \<and>
                      trName (ctsReference o1) = trName (ctsReference t) \<and> length (ctsStatus o1) > 0
                   then t\<lparr>ctsStatus := ctsStatus o1\<rparr> else t) t old"

definition patch_workload_status :: "config_workload_status list \<Rightarrow> config_workload_status \<Rightarrow> config_workload_status" where
  "patch_workload_status old s =
     foldl (\<lambda>s o1. if cwsComponentRevisionName s = cwsComponentRevisionName o1
                   then (let s = (if length (cwsStatus o1) > 0 then s\<lparr>cwsStatus := cwsStatus o1\<rparr> else s)
                         in s\<lparr>cwsTraits := map (patch_trait_status (cwsTraits o1)) (cwsTraits s)\<rparr>)
                   else s) s old"

definition patchExtraStatusField :: "config_status \<Rightarrow> config_status \<Rightarrow> config_status" where
  "patchExtraStatusField s acPatchStatus =
     s\<lparr>stWorkloads := map (patch_workload_status (stWorkloads acPatchStatus)) (stWorkloads s)\<rparr>"

definition config_updateStatus ::
  "'w config_client \<Rightarrow> app_config \<Rightarrow> app_config \<Rightarrow> workload_instance list \<Rightarrow> 'w \<Rightarrow> app_config \<times> 'w" where
  "config_updateStatus C ac acPatch wls w =
     (case history_workloads C ac wls w of
        (hs, w) \<Rightarrow>
          (on_config_status (\<lambda>s.
             let s = s\<lparr>stWorkloads := map Status wls, stHistoryWorkloads := hs\<rparr>;
                 s = patchExtraStatusField s (acStatus acPatch)
             in s\<lparr>stConditions := ccSetConditions C (ccReconcileSuccess C (ccNow C w)) (stConditions s)\<rparr>) ac, w))"

definition observe_trait :: "int \<Rightarrow> config_trait_status \<Rightarrow> config_trait_status" where
  "observe_trait g t =
     (if ctsAppliedGeneration t \<noteq> g \<and> \<not> ctsDependencyUnsatisfied t then t\<lparr>ctsAppliedGeneration := g\<rparr> else t)"

definition observe_workload :: "int \<Rightarrow> config_workload_status \<Rightarrow> config_workload_status" where
  "observe_workload g s =
     (let s = (if cwsAppliedComponentRevision s \<noteq> cwsComponentRevisionName s \<and> \<not> cwsDependencyUnsatisfied s
               then s\<lparr>cwsAppliedComponentRevision := cwsComponentRevisionName s\<rparr> else s)
      in s\<lparr>cwsTraits := map (observe_trait g) (cwsTraits s)\<rparr>)"

definition updateObservedGeneration :: "app_config \<Rightarrow> app_config" where
  "updateObservedGeneration ac =
     on_config_status (\<lambda>s.
       s\<lparr>stObservedGeneration := acGeneration ac,
         stWorkloads := map (observe_workload (acGeneration ac)) (stWorkloads s)\<rparr>) ac"

definition hasScope :: "app_config \<Rightarrow> bool" where
  "hasScope ac \<longleftrightarrow> list_ex (\<lambda>c. length (accScopeRefs c) > 0) (acComponents ac)"

definition registerFinalizers :: "'w config_client \<Rightarrow> app_config \<Rightarrow> bool \<times> app_config" where
  "registerFinalizers C ac =
     (if \<not> ccFinalizerExists C (acFinalizers ac) workloadScopeFinalizer \<and> hasScope ac
      then (True, ac\<lparr>acFinalizers := ccAddFinalizer C (acFinalizers ac) workloadScopeFinalizer\<rparr>)
      else (False, ac))"


section \<open>ACReconcile\<close>

type_synonym 'w ac_result = "((int \<times> string option) \<times> app_config \<times> rec_event list \<times> 'w) option"

text \<open>
  The hooks, up to the first error: the result and the error it ends with, \<open>None\<close> if there is none.
\<close>

fun run_hooks ::
  "string \<Rightarrow> string \<Rightarrow> rec_event \<Rightarrow> (string \<times> (app_config \<Rightarrow> 'w \<Rightarrow> (int \<times> string option \<times> app_config) \<times> 'w)) list \<Rightarrow>
     app_config \<Rightarrow> 'w \<Rightarrow> (int \<times> string) option \<times> app_config \<times> rec_event list \<times> 'w" where
  "run_hooks reason message ok [] ac w = (None, ac, [], w)"
| "run_hooks reason message ok ((name, hook) # hooks) ac w =
     (case hook ac w of
        ((result, Some err, ac), w) \<Rightarrow> (Some (result, errors_Wrap err message), ac, [WarningEvent reason err], w)
      | ((result, None, ac), w) \<Rightarrow>
          (case run_hooks reason message ok hooks ac w of
             (r, ac, evs, w) \<Rightarrow> (r, ac, ok # evs, w)))"

text \<open>What is deferred: the generation is recorded as observed and the hooks are run, whatever the result is.\<close>

definition deferred :: "'w config_client \<Rightarrow> 'w ac_result \<Rightarrow> 'w ac_result" where
  "deferred C r =
     (case r of
        None \<Rightarrow> None
      | Some (result, ac, evs, w) \<Rightarrow>
          (case run_hooks ''CannotExecutePosthooks'' ''failed to execute post-hooks''
                  (NormalEvent ''ExecutePosthook'' ''Successfully executed a posthook'')
                  (ccPostHooks C) (updateObservedGeneration ac) w of
             (None, ac, evs', w) \<Rightarrow> Some (result, ac, evs @ evs', w)
           | (Some (requeue, err), ac, evs', w) \<Rightarrow> Some ((requeue, Some err), ac, evs @ evs', w)))"

definition AnnotationAppRevision :: string where
  "AnnotationAppRevision = ''app.oam.dev/app-revision''"

text \<open>An application revision that is not reconciled any more.\<close>

definition is_inactive :: "app_config \<Rightarrow> bool" where
  "is_inactive ac \<longleftrightarrow> isControlledByApp ac \<and> map_get (acAnnotations ac) AnnotationAppRevision = ''true''"

definition revision_message :: string where
  "revision_message = ''Encounter an application revision, no need to reconcile''"

definition set_inactive :: "'w config_client \<Rightarrow> 'w \<Rightarrow> app_config \<Rightarrow> app_config" where
  "set_inactive C w =
     on_config_status (\<lambda>s. s\<lparr>stConditions := ccSetConditions C (ccUnavailable C (ccNow C w)) (stConditions s),
                            stRollingStatus := InactiveAfterRollingCompleted\<rparr>)"

definition set_templated :: "app_config \<Rightarrow> app_config" where
  "set_templated =
     on_config_status (\<lambda>s. if stRollingStatus s = RollingTemplating
                           then s\<lparr>stRollingStatus := RollingTemplated\<rparr> else s)"

text \<open>From the garbage collection on.\<close>

definition finish_reconcile ::
  "'w config_client \<Rightarrow> app_config \<Rightarrow> workload_instance list \<Rightarrow> unsatisfied_dependency list \<Rightarrow>
     app_config \<Rightarrow> rec_event list \<Rightarrow> 'w \<Rightarrow> (int \<times> string option) \<times> app_config \<times> rec_event list \<times> 'w" where
  "finish_reconcile C acPatch wls uds ac evs w =
     (case collect_garbage C (acNamespace ac) (eligible (acNamespace ac) (stWorkloads (acStatus ac)) wls) w of
        ((Some err, evs'), w) \<Rightarrow> ((0, Some err), ac, evs @ evs', w)
      | ((None, evs'), w) \<Rightarrow>
          (case config_updateStatus C ac acPatch wls w of
             (ac, w) \<Rightarrow>
               ((if length uds \<noteq> 0 then ccDependCheckWait C else 0, None),
                on_config_status (\<lambda>s. s\<lparr>stDependency := uds\<rparr>) ac, evs @ evs', w)))"

definition apply_options_of :: "'w config_client \<Rightarrow> app_config \<Rightarrow> apply_option list" where
  "apply_options_of C ac = [MustBeControllableBy (ccKube C) (acUID ac), applyOnceOnly C ac (ccApplyMode C)]"

definition rendered_event :: rec_event where
  "rendered_event = NormalEvent ''RenderedComponents'' ''Successfully rendered components''"

definition applied_event :: rec_event where
  "applied_event = NormalEvent ''AppliedComponents'' ''Successfully applied components''"

text \<open>Render, apply, collect, report.\<close>

definition render_and_apply ::
  "'w config_client \<Rightarrow> app_config \<Rightarrow> app_config \<Rightarrow> rec_event list \<Rightarrow> 'w \<Rightarrow> 'w ac_result" where
  "render_and_apply C acPatch ac evs w =
     (case Render C (ac, w) of
        None \<Rightarrow> None
      | Some (Inl err, (ac, w)) \<Rightarrow>
          Some ((0, Some (errors_Wrap err ''cannot render components'')), ac,
                evs @ [WarningEvent ''CannotRenderComponents'' err], w)
      | Some (Inr (wls, uds), (ac, w)) \<Rightarrow>
          (let evs = evs @ [rendered_event] in
           case workloads_Apply C (SetNamespaceInCtx (acNamespace ac)) (stWorkloads (acStatus ac)) wls
                  (apply_options_of C ac) w of
             None \<Rightarrow> None
           | Some (Inl err, w) \<Rightarrow>
               Some ((0, Some (errors_Wrap err ''cannot apply components'')), ac,
                     evs @ [WarningEvent ''CannotApplyComponents'' err], w)
           | Some (Inr wls, w) \<Rightarrow>
               Some (finish_reconcile C acPatch wls uds (set_templated ac) (evs @ [applied_event]) w)))"

definition ACReconcile :: "'w config_client \<Rightarrow> app_config \<Rightarrow> 'w \<Rightarrow> 'w ac_result" where
  "ACReconcile C ac w =
     deferred C
       (case run_hooks ''CannotExecutePrehooks'' ''failed to execute pre-hooks''
               (NormalEvent ''ExecutePrehook'' ''Successfully executed a prehook'') (ccPreHooks C) ac w of
          (Some (requeue, err), ac, evs, w) \<Rightarrow> Some ((requeue, Some err), ac, evs, w)
        | (None, ac', evs, w) \<Rightarrow>
            if is_inactive ac'
            then Some ((0, None), set_inactive C w ac', evs @ [NormalEvent ''ACRevision'' revision_message], w)
            else render_and_apply C ac ac' evs w)"

section \<open>Reconcile\<close>

definition config_UpdateStatus :: "'w config_client \<Rightarrow> app_config \<Rightarrow> 'w \<Rightarrow> string option \<times> app_config \<times> 'w" where
  "config_UpdateStatus C ac w =
     (let status = acStatus ac in
      case ccRetryConfig C (\<lambda>(ac, w).
             case ccGetConfig C (acNamespace ac, acName ac) w of
               (Inl err, w) \<Rightarrow> (Some err, ac, w)
             | (Inr ac, w) \<Rightarrow>
                 (case ccUpdateConfigStatus C (ac\<lparr>acStatus := status\<rparr>) w of ((err, ac), w) \<Rightarrow> (err, ac, w)))
           (ac, w) of
        (err, ac, w) \<Rightarrow> (map_option errText err, ac, w))"

definition end_with_condition ::
  "'w config_client \<Rightarrow> app_config \<Rightarrow> app_condition \<Rightarrow> 'w \<Rightarrow> string option \<times> 'w" where
  "end_with_condition C ac condition w =
     (let existing = ccGetCondition C (acdType condition) (stConditions (acStatus ac));
          changed = \<not> ccEqualCondition C existing condition;
          ac' = on_config_status (\<lambda>s. s\<lparr>stConditions := ccSetConditions C condition (stConditions s)\<rparr>) ac
      in case ccPatchConfigStatus C ac ac' w of
           (Some err, w) \<Rightarrow> (Some (errors_Wrap (errText err) ''cannot apply status''), w)
         | (None, w) \<Rightarrow>
             if changed then (None, w)
             else (Some (''object level reconcile error, type: '' @ ccQuote C (acdType condition) @ '', msg: '' @
                         ccQuote C (acdMessage condition)), w))"

definition errUpdateAppConfigStatus :: "string option \<Rightarrow> string option" where
  "errUpdateAppConfigStatus =
     map_option (\<lambda>err. errors_Wrap err ''cannot update application configuration status'')"

definition config_Reconcile ::
  "'w config_client \<Rightarrow> nsname \<Rightarrow> 'w \<Rightarrow> ((int \<times> string option) \<times> rec_event list \<times> 'w) option" where
  "config_Reconcile C req w =
     (case ccGetConfig C req w of
        (Inl err, w) \<Rightarrow>
          Some ((0, if errNotFound err then None
                    else Some (errors_Wrap (errText err) ''cannot get application configuration'')), [], w)
      | (Inr ac, w) \<Rightarrow>
          if \<not> acDeleting ac \<and> fst (registerFinalizers C ac) then
            (case ccUpdateConfig C (snd (registerFinalizers C ac)) w of
               (err, w) \<Rightarrow> Some ((0, errUpdateAppConfigStatus (map_option errText err)), [], w))
          else if acDeleting ac then
            (case Finalize C ac w of
               None \<Rightarrow> None
             | Some (Inl err, w) \<Rightarrow>
                 (let condition = ccReconcileError C (errors_Wrap err ''failed to finalize workloads'') (ccNow C w);
                      ac = on_config_status (\<lambda>s. s\<lparr>stConditions := ccSetConditions C condition (stConditions s)\<rparr>) ac
                  in case config_UpdateStatus C ac w of
                       (r, ac, w) \<Rightarrow>
                         Some ((0, errUpdateAppConfigStatus r), [WarningEvent ''CannotFinalizeWorkloads'' err], w))
             | Some (Inr ac, w) \<Rightarrow>
                 (case ccUpdateConfig C ac w of
                    (err, w) \<Rightarrow> Some ((0, errUpdateAppConfigStatus (map_option errText err)), [], w)))
          else
            (case ACReconcile C ac w of
               None \<Rightarrow> None
             | Some ((requeue, Some err), ac, evs, w) \<Rightarrow>
                 (case end_with_condition C ac (ccReconcileError C err (ccNow C w)) w of
                    (r, w) \<Rightarrow> Some ((0, r), evs, w))
             | Some ((requeue, None), ac, evs, w) \<Rightarrow>
                 (case config_UpdateStatus C ac w of
                    (Some err, ac, w) \<Rightarrow>
                      (case end_with_condition C ac (ccReconcileError C err (ccNow C w)) w of
                         (r, w) \<Rightarrow> Some ((0, r), evs, w))
                  | (None, ac, w) \<Rightarrow> Some ((requeue, None), evs, w))))"

section \<open>Application contexts\<close>

record app_context =
  cxName :: string
  cxNamespace :: string
  cxUID :: string
  cxLabels :: string_map
  cxAnnotations :: string_map
  cxOwnerReferences :: "owner_ref list"
  cxRevisionName :: string
  cxStatus :: config_status

text \<open>
  The client of the controller of contexts: \<open>xcMapper\<close> is the error of discoverymapper.New,
  \<open>xcDecode\<close> RawExtension2AppConfig of the configuration in an application revision.
\<close>

record 'w context_client =
  xcClient :: "'w config_client"
  xcGetContext :: "nsname \<Rightarrow> 'w \<Rightarrow> (api_error + app_context) \<times> 'w"
  xcMapper :: "string option"
  xcGetRevision :: "nsname \<Rightarrow> 'w \<Rightarrow> (api_error + raw_extension) \<times> 'w"
  xcDecode :: "raw_extension \<Rightarrow> string + app_config"
  xcPatchStatus :: "app_context \<Rightarrow> app_context \<Rightarrow> 'w \<Rightarrow> api_error option \<times> 'w"

text \<open>NewReconciler with the options that are given here: no hooks and no time to wait.\<close>

definition context_reconciler :: "'w context_client \<Rightarrow> 'w config_client" where
  "context_reconciler X = (xcClient X)\<lparr>ccPreHooks := [], ccPostHooks := [], ccDependCheckWait := 0\<rparr>"

definition config_of_context :: "app_context \<Rightarrow> app_config \<Rightarrow> app_config" where
  "config_of_context cx ac =
     ac\<lparr>acStatus := cxStatus cx, acName := cxName cx, acUID := cxUID cx, acLabels := cxLabels cx,
        acAnnotations := cxAnnotations cx, acOwnerReferences := cxOwnerReferences cx\<rparr>"

definition context_Reconcile ::
  "'w context_client \<Rightarrow> nsname \<Rightarrow> 'w \<Rightarrow> ((int \<times> string option) \<times> rec_event list \<times> 'w) option" where
  "context_Reconcile X req w =
     (case xcGetContext X req w of
        (Inl err, w) \<Rightarrow>
          Some ((0, if errNotFound err then None else Some (errors_Wrap (errText err) ''cannot get application context'')), [], w)
      | (Inr cx, w) \<Rightarrow>
          (case xcMapper X of
             Some err \<Rightarrow> Some ((0, Some (''create discovery dm fail '' @ err)), [], w)
           | None \<Rightarrow>
               (case xcGetRevision X (cxNamespace cx, cxRevisionName cx) w of
                  (Inl err, w) \<Rightarrow>
                    Some ((0, if errNotFound err then None
                              else Some (errors_Wrap (errText err)
                                     ''cannot get the application revision the context refers to'')), [], w)
                | (Inr raw, w) \<Rightarrow>
                    (case xcDecode X raw of
                       Inl err \<Rightarrow> Some ((0, Some err), [], w)
                     | Inr ac \<Rightarrow>
                         (case ACReconcile (context_reconciler X) (config_of_context cx ac) w of
                            None \<Rightarrow> None
                          | Some ((requeue, _), ac, evs, w) \<Rightarrow>
                              (let cx' = cx\<lparr>cxStatus := acStatus ac\<rparr> in
                               case xcPatchStatus X cx cx' w of
                                 (Some err, w) \<Rightarrow>
                                   Some ((0, Some (errors_Wrap (errText err) ''cannot update application context status'')), evs, w)
                               | (None, w) \<Rightarrow>
                                   Some ((if stRollingStatus (cxStatus cx') = RollingTemplated then 5000000000 else requeue, None),
                                         evs, w)))))))"

end
