(* ===== verification/Config_Garbage.thy ===== *)
theory Config_Garbage
  imports Config_Controller
begin

text \<open>
  What the status of a configuration records: the objects it refers to, what becomes of an object
  that is no longer rendered, and which revisions and generations count as applied.
\<close>

section \<open>Objects of a status\<close>

definition status_references :: "config_workload_status list \<Rightarrow> cp_reference set" where
  "status_references ws = cwsReference ` set ws \<union> (\<Union>s \<in> set ws. ctsReference ` set (cwsTraits s))"

text \<open>The references that Status writes have no identity.\<close>

definition plain_references :: "config_workload_status list \<Rightarrow> bool" where
  "plain_references ws \<longleftrightarrow> (\<forall>r \<in> status_references ws. trUID r = '''')"

lemma Status_simps [simp]:
  "cwsReference (Status wl) = reference_to (wiWorkload wl)"
  "cwsTraits (Status wl) = map trait_status_of (wiTraits wl)"
  "cwsDependencyUnsatisfied (Status wl) = wiHasDep wl"
  "cwsComponentName (Status wl) = wiComponentName wl"
  "cwsComponentRevisionName (Status wl) = wiComponentRevisionName wl"
  "cwsAppliedComponentRevision (Status wl) = ''''"
  "cwsStatus (Status wl) = ''''"
  by (simp_all add: Status_def)

lemma trait_status_simps [simp]:
  "ctsReference (trait_status_of t) = reference_to (tiObject t)"
  "ctsDependencyUnsatisfied (trait_status_of t) = tiHasDep t"
  "ctsAppliedGeneration (trait_status_of t) = 0" "ctsStatus (trait_status_of t) = ''''"
  by (simp_all add: trait_status_of_def)

lemma references_Status: "status_references (map Status wls) = set (applied_references wls)"
  by (induction wls) (auto simp: status_references_def applied_references_def image_image)

lemma Status_plain: "plain_references (map Status wls)"
  by (auto simp: plain_references_def references_Status applied_references_def reference_to_def)

lemma reference_to_garbage: "trUID r = '''' \<Longrightarrow> reference_to (garbage_object ns r) = r"
  by (simp add: reference_to_def garbage_object_def blank_object_def)

lemma eligible_iff:
  "u \<in> set (eligible ns ws wls) \<longleftrightarrow>
     (\<exists>s \<in> set ws. (u = garbage_object ns (cwsReference s) \<and> cwsReference s \<notin> set (applied_references wls) \<and>
                    \<not> IsRevisionWorkload s wls) \<or>
        (\<exists>t \<in> set (cwsTraits s). u = garbage_object ns (ctsReference t) \<and>
           ctsReference t \<notin> set (applied_references wls)))"
  by (auto simp: eligible_def Let_def)

lemma IsRevisionWorkload_iff:
  "IsRevisionWorkload s wls \<longleftrightarrow> strings_HasPrefix (trName (cwsReference s)) (cwsComponentName s @ ''-'') \<or>
     (\<exists>wl. find (\<lambda>wl. wiComponentName wl = cwsComponentName s) wls = Some wl \<and> wiRevisionEnabled wl)"
  by (auto simp: IsRevisionWorkload_def split: option.splits)

text \<open>
  C33: Garbage collection is exact.  Given a status whose references have no identity, as Status
  writes them, the objects that are deleted are in the given namespace, and they are exactly those recorded
  objects that the status of the rendered workloads does not record: every such trait, and every such
  workload but those of a component that keeps its old revisions.  Such a workload is kept: one whose name
  starts with that of its component and a hyphen, and one whose component has a trait, at the first workload
  rendered for it, that asks for revisions.
\<close>

theorem garbage_is_exact:
  assumes "plain_references ws"
  shows "reference_to ` set (eligible ns ws wls) =
           {r. r \<notin> status_references (map Status wls) \<and>
               ((\<exists>s \<in> set ws. r = cwsReference s \<and>
                   \<not> (strings_HasPrefix (trName r) (cwsComponentName s @ ''-'') \<or>
                      (\<exists>wl. find (\<lambda>wl. wiComponentName wl = cwsComponentName s) wls = Some wl \<and> wiRevisionEnabled wl))) \<or>
                (\<exists>s \<in> set ws. \<exists>t \<in> set (cwsTraits s). r = ctsReference t))} \<and>
         (\<forall>u \<in> set (eligible ns ws wls). uNamespace u = ns)"
proof -
  have plain: "reference_to (garbage_object ns (cwsReference s)) = cwsReference s"
    "t \<in> set (cwsTraits s) \<Longrightarrow> reference_to (garbage_object ns (ctsReference t)) = ctsReference t" if "s \<in> set ws" for s t
    using assms that by (auto simp: plain_references_def status_references_def intro!: reference_to_garbage)
  have "r \<in> reference_to ` set (eligible ns ws wls) \<longleftrightarrow>
      r \<notin> set (applied_references wls) \<and>
      ((\<exists>s \<in> set ws. r = cwsReference s \<and> \<not> IsRevisionWorkload s wls) \<or>
       (\<exists>s \<in> set ws. \<exists>t \<in> set (cwsTraits s). r = ctsReference t))" (is "?l = ?r") for r
  proof
    show "?l \<Longrightarrow> ?r" by (clarsimp simp: eligible_iff) (metis plain)
    assume ?r
    then obtain s where "s \<in> set ws" and r: "r \<notin> set (applied_references wls)"
      "r = cwsReference s \<and> \<not> IsRevisionWorkload s wls \<or> (\<exists>t \<in> set (cwsTraits s). r = ctsReference t)" by blast
    then have "garbage_object ns r \<in> set (eligible ns ws wls) \<and> reference_to (garbage_object ns r) = r"
      by (auto simp: eligible_iff plain)
    then show ?l by (metis imageI)
  qed
  then have "reference_to ` set (eligible ns ws wls) = {r. r \<notin> set (applied_references wls) \<and>
      ((\<exists>s \<in> set ws. r = cwsReference s \<and> \<not> IsRevisionWorkload s wls) \<or>
       (\<exists>s \<in> set ws. \<exists>t \<in> set (cwsTraits s). r = ctsReference t))}" by blast
  moreover have "\<forall>u \<in> set (eligible ns ws wls). uNamespace u = ns"
    by (auto simp: eligible_iff garbage_object_def blank_object_def)
  ultimately show ?thesis unfolding references_Status IsRevisionWorkload_iff by auto
qed

section \<open>What counts as applied\<close>

lemma observe_workload_of_Status:
  "observe_workload g s =
     s\<lparr>cwsAppliedComponentRevision := (if cwsDependencyUnsatisfied s then cwsAppliedComponentRevision s
                                      else cwsComponentRevisionName s),
       cwsTraits := map (\<lambda>t. t\<lparr>ctsAppliedGeneration := (if ctsDependencyUnsatisfied t then ctsAppliedGeneration t else g)\<rparr>)
                      (cwsTraits s)\<rparr>"
proof -
  have "observe_trait g = (\<lambda>t. t\<lparr>ctsAppliedGeneration := (if ctsDependencyUnsatisfied t then ctsAppliedGeneration t else g)\<rparr>)"
    by (rule ext) (simp add: observe_trait_def)
  then show ?thesis by (auto simp: observe_workload_def Let_def)
qed

end
