(* ===== verification/Config_Reconcile.thy ===== *)
theory Config_Reconcile
  imports Config_Garbage
begin

text \<open>
  The frame of a reconcile: rendering changes the rolling status of a configuration only, applying
  changes the objects of the workloads only, and what a reconcile without an error leaves.
\<close>

section \<open>What waits\<close>

definition wl_waits :: "workload_instance \<Rightarrow> bool" where
  "wl_waits wl \<longleftrightarrow> wiHasDep wl \<or> (\<exists>t \<in> set (wiTraits wl). tiHasDep t)"

lemma render_traits_ready:
  "render_traits C cts ac n labels ref d w = (Inr (ts, d'), w') \<Longrightarrow> \<forall>t \<in> set ts. \<not> tiHasDep t"
  by (induction C cts ac n labels ref d w arbitrary: ts d' w' rule: render_traits.induct) (fastforce simp: on_ok_Inr)+

lemma set_workload_refs_ready:
  "set_workload_refs C r ts = Inr ts' \<Longrightarrow> map tiHasDep ts' = map tiHasDep ts"
  by (induction C r ts arbitrary: ts' rule: set_workload_refs.induct) (auto simp: bind_result_Inr split: if_splits sum.splits)

lemma renderComponent_ready:
  assumes "renderComponent C acc ac controlled rolling need d w = (Inr (wl, d'), w')"
  shows "\<not> wl_waits wl"
proof -
  obtain ts ts1 r n labels ref d0 w0 d1 w1 where
    ts: "render_traits C (accTraitList (effective_name acc)) ac n labels ref d0 w0 = (Inr (ts, d1), w1)"
    "set_workload_refs C r ts = Inr ts1" and wl: "wiTraits wl = ts1" "\<not> wiHasDep wl"
    using assms by (auto simp: renderComponent_def Let_def on_ok_Inr)
  have "map tiHasDep ts1 = map tiHasDep ts" by (rule set_workload_refs_ready [OF ts(2)])
  moreover have "\<forall>t \<in> set ts. \<not> tiHasDep t" by (rule render_traits_ready [OF ts(1)])
  ultimately have "True \<notin> set (map tiHasDep ts1)" by auto
  then show ?thesis using wl by (auto simp: wl_waits_def)
qed

lemma render_all_Cons:
  assumes "render_all C (acc # accs) rolling need d (ac, w) = (Inr (wls, d'), s')"
  obtains wl wls' d1 w1 rolls where "wls = wl # wls'"
    and "renderComponent C acc ac (isControlledByApp ac) rolls need d w = (Inr (wl, d1), w1)"
    and "render_all C accs rolling need d1
           (if rolls \<and> need then on_config_status (\<lambda>s. s\<lparr>stRollingStatus := RollingTemplating\<rparr>) ac else ac, w1)
         = (Inr (wls', d'), s')"
proof -
  let ?rolls = "accName (effective_name acc) \<in> set rolling"
  from assms obtain wl d1 w1 where 1: "renderComponent C acc ac (isControlledByApp ac) ?rolls need d w = (Inr (wl, d1), w1)"
    by (auto simp: Let_def split: prod.splits sum.splits)
  with assms show ?thesis
    by (intro that [of wl "tl wls" ?rolls d1 w1]) (auto simp: 1 Let_def on_ok_Inr)
qed

lemma render_all_ready:
  "render_all C accs rolling need d (ac, w) = (Inr (wls, d'), s') \<Longrightarrow> wl \<in> set wls \<Longrightarrow> \<not> wl_waits wl"
proof (induction accs arbitrary: d ac w wls)
  case (Cons acc accs)
  from Cons.prems(1) show ?case
  proof (rule render_all_Cons)
    fix wl1 wls1 d1 w1 rolls
    assume 1: "wls = wl1 # wls1" "renderComponent C acc ac (isControlledByApp ac) rolls need d w = (Inr (wl1, d1), w1)"
      "render_all C accs rolling need d1
         (if rolls \<and> need then on_config_status (\<lambda>s. s\<lparr>stRollingStatus := RollingTemplating\<rparr>) ac else ac, w1)
       = (Inr (wls1, d'), s')"
    show ?thesis using Cons.IH [OF 1(3)] renderComponent_ready [OF 1(2)] Cons.prems(2) 1(1) by auto
  qed
qed simp

lemma handle_traits_Cons:
  assumes "handle_traits C (ct # cts) (t # ts) d ac w = Some (Inr (uds, ts'), w')"
  obtains outs us obj uds1 ts1 t1 w0 w1 where
    "handleDataInput C (ctDataInputs ct) d ac (tiObject t) w0 = Some (Inr (us, obj), w1)"
    and "handle_traits C cts ts d ac w1 = Some (Inr (uds1, ts1), w')"
    and "uds = outs @ us @ uds1" and "ts' = t1 # ts1" and "tiObject t1 = obj"
    and "tiHasDep t1 = (tiHasDep t \<or> us \<noteq> [])" and "tiDefinition t1 = tiDefinition t"
proof -
  obtain outs om w0 where o1: "handleDataOutput C (ctDataOutputs ct) d ac w = ((outs, om), w0)"
    by (metis prod.exhaust)
  with assms obtain us obj w1 uds1 ts1 where
    h: "handleDataInput C (ctDataInputs ct) d ac (tiObject t) w0 = Some (Inr (us, obj), w1)"
    "handle_traits C cts ts d ac w1 = Some (Inr (uds1, ts1), w')" "uds = outs @ us @ uds1"
    and ts': "ts' = (if us \<noteq> [] then t\<lparr>tiObject := obj, tiDataOutputs := om, tiHasDep := True\<rparr>
                else t\<lparr>tiObject := obj, tiDataOutputs := om, tiDataInputs := ctDataInputs ct\<rparr>) # ts1"
    by (auto simp: on_safe_Inr Let_def)
  show ?thesis by (rule that [OF h ts']) simp_all
qed

lemma handle_traits_waits:
  "handle_traits C cts ts d ac w = Some (Inr (uds, ts'), w') \<Longrightarrow> \<forall>t \<in> set ts. \<not> tiHasDep t \<Longrightarrow>
   \<exists>t \<in> set ts'. tiHasDep t \<Longrightarrow> uds \<noteq> []"
proof (induction cts arbitrary: ts w uds ts')
  case (Cons ct cts)
  then obtain t ts0 where ts: "ts = t # ts0" by (cases ts) auto
  from Cons.prems(1) [unfolded ts] show ?case
  proof (rule handle_traits_Cons)
    fix outs us obj uds1 ts1 t1 w0 w1
    assume r: "handle_traits C cts ts0 d ac w1 = Some (Inr (uds1, ts1), w')"
      and res: "uds = outs @ us @ uds1" "ts' = t1 # ts1" "tiHasDep t1 = (tiHasDep t \<or> us \<noteq> [])"
    show ?thesis
    proof (cases "us = []")
      case True
      then have "\<exists>t \<in> set ts1. tiHasDep t" using Cons.prems(2,3) res by (auto simp: ts)
      then show ?thesis using Cons.IH [OF r] Cons.prems(2) res(1) by (simp add: ts)
    qed (use res in simp)
  qed
qed auto

lemma handleDependency_parts:
  assumes "handleDependency C wl acc d ac w = Some (Inr (uds, wl'), w')"
  obtains uac outs us obj uds1 ts w0 w1 where
    "handleDataInput C (accDataInputs acc) d uac (wiWorkload wl) w0 = Some (Inr (us, obj), w1)"
    and "handle_traits C (accTraitList acc) (wiTraits wl) d uac w1 = Some (Inr (uds1, ts), w')"
    and "uds = outs @ us @ uds1" and "wiTraits wl' = ts" and "wiWorkload wl' = obj"
    and "wiHasDep wl' = (wiHasDep wl \<or> us \<noteq> [])"
proof -
  obtain uac where u: "ccObject C ac = Inr uac"
    using assms by (auto simp: handleDependency_def split: sum.splits)
  obtain outs om w0 where "handleDataOutput C (accDataOutputs acc) d uac w = ((outs, om), w0)"
    by (metis prod.exhaust)
  with assms u obtain us obj w1 uds1 ts where
    h: "handleDataInput C (accDataInputs acc) d uac (wiWorkload wl) w0 = Some (Inr (us, obj), w1)"
    "handle_traits C (accTraitList acc) (wiTraits wl) d uac w1 = Some (Inr (uds1, ts), w')" "uds = outs @ us @ uds1"
    and wl': "wl' = (if us \<noteq> [] then wl\<lparr>wiWorkload := obj, wiDataOutputs := om, wiHasDep := True\<rparr>
                else wl\<lparr>wiWorkload := obj, wiDataOutputs := om, wiDataInputs := accDataInputs acc\<rparr>)\<lparr>wiTraits := ts\<rparr>"
    by (auto simp: handleDependency_def on_safe_Inr Let_def split: if_splits)
  show ?thesis by (rule that [OF h]) (simp_all add: wl')
qed

lemma handleDependency_waits:
  assumes "handleDependency C wl acc d ac w = Some (Inr (uds, wl'), w')" and "\<not> wl_waits wl" and "wl_waits wl'"
  shows "uds \<noteq> []"
  using assms(1)
proof (rule handleDependency_parts)
  fix uac outs us obj uds1 ts w0 w1
  assume t: "handle_traits C (accTraitList acc) (wiTraits wl) d uac w1 = Some (Inr (uds1, ts), w')"
    and res: "uds = outs @ us @ uds1" "wiTraits wl' = ts" "wiHasDep wl' = (wiHasDep wl \<or> us \<noteq> [])"
  show ?thesis
  proof (cases "us = []")
    case True
    then have "\<exists>t \<in> set ts. tiHasDep t" using assms(2,3) res by (auto simp: wl_waits_def)
    then have "uds1 \<noteq> []" using handle_traits_waits [OF t] assms(2) by (simp add: wl_waits_def)
    then show ?thesis using res(1) by simp
  qed (use res in simp)
qed

lemma handle_all_waits:
  "handle_all C accs wls d ac w = Some (Inr (wls', uds), w') \<Longrightarrow> \<forall>wl \<in> set wls. \<not> wl_waits wl \<Longrightarrow>
   \<exists>wl \<in> set wls'. wl_waits wl \<Longrightarrow> uds \<noteq> []"
proof (induction accs arbitrary: wls w wls' uds)
  case (Cons acc accs)
  then obtain wl wls0 where wls: "wls = wl # wls0" by (cases wls) auto
  with Cons.prems(1) obtain us wl1 w1 uds1 wls1 where
    h: "handleDependency C wl acc d ac w = Some (Inr (us, wl1), w1)"
    and r: "handle_all C accs wls0 d ac w1 = Some (Inr (wls1, uds1), w')"
    and res: "wls' = wl1 # wls1" "uds = us @ uds1"
    by (auto simp: on_safe_Inr)
  show ?case
  proof (cases "wl_waits wl1")
    case True
    then show ?thesis using handleDependency_waits [OF h] Cons.prems(2) res by (simp add: wls)
  next
    case False
    then show ?thesis using Cons.IH [OF r] Cons.prems(2,3) res by (simp add: wls)
  qed
qed auto

lemma Render_waits:
  assumes "Render C (ac, w) = Some (Inr (wls, uds), (ac', w'))" and "wl \<in> set wls" and "wl_waits wl"
  shows "uds \<noteq> []"
proof -
  obtain rolling need ac0 where p: "rollout_phase ac = (rolling, need, ac0)" by (metis prod.exhaust)
  with assms(1) obtain wls0 d ac1 w1 where
    r: "render_all C (acComponents ac0) rolling need newDAG (ac0, w) = (Inr (wls0, d), (ac1, w1))"
    and h: "handle_all C (acComponents ac1) wls0 d ac1 w1 = Some (Inr (wls, uds), w')"
    by (auto simp: Render_def on_safe_Inr)
  show ?thesis using handle_all_waits [OF h] render_all_ready [OF r] assms(2,3) by blast
qed

section \<open>What rendering and applying leave alone\<close>

definition only_config_status :: "app_config \<Rightarrow> app_config \<Rightarrow> bool" where
  "only_config_status ac ac' \<longleftrightarrow> ac'\<lparr>acStatus := acStatus ac\<rparr> = ac"

text \<open>Of the status, only the conditions, the rolling status and the dependencies may be different.\<close>

definition same_workloads :: "app_config \<Rightarrow> app_config \<Rightarrow> bool" where
  "same_workloads ac ac' \<longleftrightarrow>
     only_config_status ac ac' \<and> stWorkloads (acStatus ac') = stWorkloads (acStatus ac) \<and>
     stDependency (acStatus ac') = stDependency (acStatus ac)"

lemma same_workloads_refl [simp]: "same_workloads ac ac"
  by (simp add: same_workloads_def only_config_status_def)

lemma same_workloads_trans [trans]: "same_workloads a b \<Longrightarrow> same_workloads b c \<Longrightarrow> same_workloads a c"
  unfolding same_workloads_def only_config_status_def
  by (cases a; cases b; cases c) simp

lemma only_config_statusD:
  "only_config_status ac ac' \<Longrightarrow> acGeneration ac' = acGeneration ac \<and> acName ac' = acName ac \<and> acNamespace ac' = acNamespace ac"
  unfolding only_config_status_def by (cases ac; cases ac') simp

lemma same_workloads_rolling:
  "same_workloads ac (on_config_status (\<lambda>s. s\<lparr>stRollingStatus := r\<rparr>) ac)"
  by (simp add: same_workloads_def only_config_status_def on_config_status_def)

lemma render_all_frame: "render_all C accs rolling need d (ac, w) = (r, (ac', w')) \<Longrightarrow> same_workloads ac ac'"
proof (induction accs arbitrary: d ac w r ac' w')
  case (Cons acc accs)
  let ?rolls = "accName (effective_name acc) \<in> set rolling"
  let ?ac = "if ?rolls \<and> need then on_config_status (\<lambda>s. s\<lparr>stRollingStatus := RollingTemplating\<rparr>) ac else ac"
  show ?case
  proof (cases "renderComponent C acc ac (isControlledByApp ac) ?rolls need d w")
    case (Pair x w1)
    show ?thesis
    proof (cases x)
      case (Inl err)
      then show ?thesis using Cons.prems Pair by (simp add: Let_def)
    next
      case (Inr b)
      obtain wl d1 where b: "b = (wl, d1)" by fastforce
      obtain r1 ac1 w2 where r: "render_all C accs rolling need d1 (?ac, w1) = (r1, (ac1, w2))" by (metis prod.exhaust)
      with Cons.prems Pair Inr b have "ac' = ac1" by (cases r1) (auto simp: Let_def)
      moreover have "same_workloads ac ?ac" by (simp add: same_workloads_rolling)
      ultimately show ?thesis using Cons.IH [OF r] same_workloads_trans by blast
    qed
  qed
qed simp

lemma Render_frame:
  assumes "Render C (ac, w) = Some (r, (ac', w'))"
  shows "same_workloads ac ac'"
proof -
  obtain rolling need ac0 where p: "rollout_phase ac = (rolling, need, ac0)" by (metis prod.exhaust)
  then have p0: "same_workloads ac ac0"
    by (auto simp: rollout_phase_def same_workloads_rolling split: if_splits)
  obtain r1 ac1 w1 where r: "render_all C (acComponents ac0) rolling need newDAG (ac0, w) = (r1, (ac1, w1))"
    by (metis prod.exhaust)
  have "ac' = ac1" using assms p r by (cases r1) (auto simp: Render_def)
  with p0 render_all_frame [OF r] show ?thesis using same_workloads_trans by blast
qed

text \<open>What Status takes from a workload apart from its objects.\<close>

definition same_shape :: "workload_instance \<Rightarrow> workload_instance \<Rightarrow> bool" where
  "same_shape wl wl' \<longleftrightarrow>
     wiHasDep wl' = wiHasDep wl \<and> map tiHasDep (wiTraits wl') = map tiHasDep (wiTraits wl) \<and>
     wiComponentName wl' = wiComponentName wl \<and> wiComponentRevisionName wl' = wiComponentRevisionName wl \<and>
     wiRevisionEnabled wl' = wiRevisionEnabled wl"

lemma apply_traits_shape: "apply_traits C ts ns ao w = (Inr ts', w') \<Longrightarrow> map tiHasDep ts' = map tiHasDep ts"
  by (induction ts arbitrary: w ts') (auto simp: on_ok_Inr)

lemma apply_workload_shape: "apply_workload C appNs wl ns ao w = Some (Inr wl', w') \<Longrightarrow> same_shape wl wl'"
  by (auto simp: apply_workload_def same_shape_def on_safe_Inr Let_def dest!: apply_traits_shape)

lemma apply_workloads_shape:
  "apply_workloads C appNs wls ns ao w = Some (Inr wls', w') \<Longrightarrow> list_all2 same_shape wls wls'"
  by (induction wls arbitrary: w wls') (auto simp: on_safe_Inr dest: apply_workload_shape)

lemma workloads_Apply_shape:
  "workloads_Apply C appNs status wls ao w = Some (Inr wls', w') \<Longrightarrow> list_all2 same_shape wls wls'"
  by (auto simp: workloads_Apply_def on_safe_Inr Let_def simp del: apply_workloads.simps
      dest!: apply_workloads_shape split: list.splits)

lemma same_shape_waits: "same_shape wl wl' \<Longrightarrow> wl_waits wl' \<Longrightarrow> wl_waits wl"
proof -
  assume s: "same_shape wl wl'" and "wl_waits wl'"
  then have "wiHasDep wl' \<or> True \<in> set (map tiHasDep (wiTraits wl'))" by (auto simp: wl_waits_def)
  with s have "wiHasDep wl \<or> True \<in> set (map tiHasDep (wiTraits wl))" by (simp add: same_shape_def)
  then show ?thesis by (auto simp: wl_waits_def)
qed

section \<open>What patching the status leaves alone\<close>

definition strip_trait :: "config_trait_status \<Rightarrow> config_trait_status" where
  "strip_trait t = t\<lparr>ctsStatus := ''''\<rparr>"

definition strip_status :: "config_workload_status \<Rightarrow> config_workload_status" where
  "strip_status s = s\<lparr>cwsStatus := '''', cwsTraits := map strip_trait (cwsTraits s)\<rparr>"

lemma foldl_keeps: "(\<And>x y. f (g x y) = f x) \<Longrightarrow> f (foldl g x ys) = f x"
  by (induction ys arbitrary: x) simp_all

lemma patch_trait_strip: "strip_trait (patch_trait_status old t) = strip_trait t"
  unfolding patch_trait_status_def by (rule foldl_keeps) (simp add: strip_trait_def)

lemma patch_workload_strip: "strip_status (patch_workload_status old s) = strip_status s"
  unfolding patch_workload_status_def
  by (rule foldl_keeps) (simp add: strip_status_def Let_def patch_trait_strip)

lemma strip_trait_fields:
  "strip_trait t = strip_trait t' \<Longrightarrow> ctsReference t = ctsReference t' \<and>
     ctsDependencyUnsatisfied t = ctsDependencyUnsatisfied t' \<and> ctsAppliedGeneration t = ctsAppliedGeneration t'"
  by (cases t; cases t') (simp add: strip_trait_def)

lemma strip_status_fields:
  "strip_status s = strip_status s' \<Longrightarrow> cwsReference s = cwsReference s' \<and>
     cwsDependencyUnsatisfied s = cwsDependencyUnsatisfied s' \<and>
     cwsAppliedComponentRevision s = cwsAppliedComponentRevision s' \<and>
     cwsComponentRevisionName s = cwsComponentRevisionName s' \<and>
     cwsComponentName s = cwsComponentName s' \<and>
     map strip_trait (cwsTraits s) = map strip_trait (cwsTraits s')"
  by (cases s; cases s') (simp add: strip_status_def)

text \<open>A trait of the patched status and the one it comes from.\<close>

lemma patched_trait:
  assumes "t \<in> set (cwsTraits (patch_workload_status old s))"
  obtains t' where "t' \<in> set (cwsTraits s)" and "ctsReference t = ctsReference t'"
    and "ctsDependencyUnsatisfied t = ctsDependencyUnsatisfied t'" and "ctsAppliedGeneration t = ctsAppliedGeneration t'"
proof -
  have "strip_trait t \<in> strip_trait ` set (cwsTraits (patch_workload_status old s))" using assms by simp
  also have "\<dots> = strip_trait ` set (cwsTraits s)"
    using strip_status_fields [OF patch_workload_strip [of old s]] by (metis set_map)
  finally obtain t' where "t' \<in> set (cwsTraits s)" "strip_trait t = strip_trait t'" by auto
  with strip_trait_fields [of t t'] show ?thesis by (blast intro: that)
qed

lemma patched_traits:
  assumes "\<And>t. f (strip_trait t) = f t"
  shows "map f (cwsTraits (patch_workload_status old s)) = map f (cwsTraits s)"
proof -
  have "map f ts = map f (map strip_trait ts)" for ts using assms by simp
  then show ?thesis using strip_status_fields [OF patch_workload_strip [of old s]] by metis
qed

lemmas patched_fields = strip_status_fields [OF patch_workload_strip]

end
