(* ===== verification/Config_Properties.thy ===== *)
theory Config_Properties
  imports Config_Reconcile
begin

text \<open>
  What a reconcile of an application configuration guarantees, and what that of an application context
  does with an error.  The reconcilers of the repository are made without hooks.
\<close>

section \<open>A reconcile without hooks\<close>

definition no_hooks :: "'w config_client \<Rightarrow> bool" where
  "no_hooks C \<longleftrightarrow> ccPreHooks C = [] \<and> ccPostHooks C = []"

lemma ACReconcile_no_hooks:
  "no_hooks C \<Longrightarrow> ACReconcile C ac w =
     map_option (\<lambda>(result, ac, evs, w). (result, updateObservedGeneration ac, evs, w))
       (if is_inactive ac
        then Some ((0, None), set_inactive C w ac, [NormalEvent ''ACRevision'' revision_message], w)
        else render_and_apply C ac ac [] w)"
  by (auto simp: ACReconcile_def deferred_def no_hooks_def split: option.splits)

lemma context_reconciler_no_hooks [simp]: "no_hooks (context_reconciler X)"
  by (simp add: no_hooks_def context_reconciler_def)

text \<open>Without an error, the new status comes from workloads of the shape that was rendered.\<close>

definition from_rendered ::
  "'w config_client \<Rightarrow> app_config \<Rightarrow> app_config \<Rightarrow> 'w \<Rightarrow> int \<Rightarrow> bool" where
  "from_rendered C ac ac' w q \<longleftrightarrow>
     (\<exists>wls uds ac1 w1 wls' w2. Render C (ac, w) = Some (Inr (wls, uds), (ac1, w1)) \<and>
        workloads_Apply C (SetNamespaceInCtx (acNamespace ac)) (stWorkloads (acStatus ac)) wls (apply_options_of C ac1) w1 =
          Some (Inr wls', w2) \<and> list_all2 same_shape wls wls' \<and>
        stWorkloads (acStatus ac') = map (patch_workload_status (stWorkloads (acStatus ac)) \<circ> Status) wls' \<and>
        stDependency (acStatus ac') = uds \<and> only_config_status ac ac' \<and>
        q = (if uds \<noteq> [] then ccDependCheckWait C else 0))"

lemma config_updateStatus_fields:
  assumes "config_updateStatus C ac acPatch wls w = (ac', w')"
  shows "stWorkloads (acStatus ac') = map (patch_workload_status (stWorkloads (acStatus acPatch)) \<circ> Status) wls"
    and "only_config_status ac ac'"
  using assms
  by (auto simp: config_updateStatus_def on_config_status_def only_config_status_def patchExtraStatusField_def
      Let_def split: prod.splits)

lemma only_config_status_trans: "only_config_status a b \<Longrightarrow> only_config_status b c \<Longrightarrow> only_config_status a c"
  unfolding only_config_status_def by (cases a; cases b; cases c) simp

lemma same_workloads_only: "same_workloads a b \<Longrightarrow> only_config_status a b"
  by (simp add: same_workloads_def)

lemma set_templated_same: "same_workloads ac (set_templated ac)"
  by (simp add: set_templated_def same_workloads_def only_config_status_def on_config_status_def)

lemma set_inactive_same: "same_workloads ac (set_inactive C w ac)"
  by (simp add: set_inactive_def same_workloads_def only_config_status_def on_config_status_def)

lemma render_and_apply_cases:
  assumes "render_and_apply C ac ac evs w = Some ((q, r), ac', evs', w')"
  shows "(r \<noteq> None \<and> q = 0 \<and> same_workloads ac ac') \<or> (r = None \<and> from_rendered C ac ac' w q)"
proof -
  obtain x ac1 w1 where R: "Render C (ac, w) = Some (x, (ac1, w1))"
    using assms by (auto simp: render_and_apply_def split: option.splits)
  have s1: "same_workloads ac ac1" by (rule Render_frame [OF R])
  then have applied_in: "acNamespace ac1 = acNamespace ac" "stWorkloads (acStatus ac1) = stWorkloads (acStatus ac)"
    by (auto simp: same_workloads_def dest: only_config_statusD)
  show ?thesis
  proof (cases x)
    case (Inl err)
    then show ?thesis using assms R s1 by (auto simp: render_and_apply_def)
  next
    case (Inr b)
    obtain wls uds where b: "b = (wls, uds)" by fastforce
    obtain y w2 where A: "workloads_Apply C (SetNamespaceInCtx (acNamespace ac1)) (stWorkloads (acStatus ac1)) wls
        (apply_options_of C ac1) w1 = Some (y, w2)"
      using assms R Inr b by (auto simp: render_and_apply_def Let_def split: option.splits)
    show ?thesis
    proof (cases y)
      case (Inl err)
      then show ?thesis using assms R Inr b A s1 by (auto simp: render_and_apply_def Let_def)
    next
      case (Inr wls')
      define ac2 where "ac2 = set_templated ac1"
      have s2: "same_workloads ac ac2"
        unfolding ac2_def using s1 set_templated_same same_workloads_trans by blast
      have f: "finish_reconcile C ac wls' uds ac2 ((evs @ [rendered_event]) @ [applied_event]) w2 = ((q, r), ac', evs', w')"
        using assms R \<open>x = Inr b\<close> b A Inr by (simp add: render_and_apply_def Let_def ac2_def)
      obtain e evs1 w3 where g: "collect_garbage C (acNamespace ac2)
          (eligible (acNamespace ac2) (stWorkloads (acStatus ac2)) wls') w2 = ((e, evs1), w3)"
        by (metis prod.exhaust)
      show ?thesis
      proof (cases e)
        case (Some err)
        then show ?thesis using f g s2 by (auto simp: finish_reconcile_def)
      next
        case None
        obtain ac3 w4 where u: "config_updateStatus C ac2 ac wls' w3 = (ac3, w4)" by (metis prod.exhaust)
        have f': "r = None" "q = (if uds \<noteq> [] then ccDependCheckWait C else 0)"
          "ac' = on_config_status (\<lambda>s. s\<lparr>stDependency := uds\<rparr>) ac3"
          using f g u None by (auto simp: finish_reconcile_def)
        have "only_config_status ac ac3"
          using only_config_status_trans [OF same_workloads_only [OF s2] config_updateStatus_fields(2) [OF u]] .
        then have "only_config_status ac ac'"
          unfolding f'(3) only_config_status_def on_config_status_def by (cases ac; cases ac3) simp
        then show ?thesis
          using f' R \<open>x = Inr b\<close> b A [unfolded Inr applied_in] workloads_Apply_shape [OF A [unfolded Inr]]
            config_updateStatus_fields(1) [OF u]
          by (auto simp: from_rendered_def on_config_status_def)
      qed
    qed
  qed
qed

lemma ACReconcile_cases:
  assumes "no_hooks C" and "ACReconcile C ac w = Some ((q, r), ac', evs, w')"
  obtains ac1 where "ac' = updateObservedGeneration ac1"
    and "((r \<noteq> None \<or> is_inactive ac) \<and> q = 0 \<and> same_workloads ac ac1) \<or> (r = None \<and> \<not> is_inactive ac \<and> from_rendered C ac ac1 w q)"
proof (cases "is_inactive ac")
  case True
  then show ?thesis using assms set_inactive_same
    by (intro that [of "set_inactive C w ac"]) (auto simp: ACReconcile_no_hooks)
next
  case False
  with assms obtain ac1 where "ac' = updateObservedGeneration ac1"
    "render_and_apply C ac ac [] w = Some ((q, r), ac1, evs, w')"
    by (auto simp: ACReconcile_no_hooks)
  with render_and_apply_cases [OF this(2)] False show ?thesis by (intro that [of ac1]) auto
qed

section \<open>The status\<close>

definition status_waits :: "config_workload_status \<Rightarrow> bool" where
  "status_waits s \<longleftrightarrow> cwsDependencyUnsatisfied s \<or> (\<exists>t \<in> set (cwsTraits s). ctsDependencyUnsatisfied t)"

text \<open>References without identity, and whatever waits has a dependency that is reported.\<close>

definition status_wf :: "config_status \<Rightarrow> bool" where
  "status_wf s \<longleftrightarrow> plain_references (stWorkloads s) \<and>
     ((\<exists>x \<in> set (stWorkloads s). status_waits x) \<longrightarrow> stDependency s \<noteq> [])"

lemma observe_fields [simp]:
  "cwsReference (observe_workload g s) = cwsReference s"
  "cwsDependencyUnsatisfied (observe_workload g s) = cwsDependencyUnsatisfied s"
  "ctsReference (observe_trait g t) = ctsReference t"
  "ctsDependencyUnsatisfied (observe_trait g t) = ctsDependencyUnsatisfied t"
  "cwsTraits (observe_workload g s) = map (observe_trait g) (cwsTraits s)"
  by (simp_all add: observe_workload_def observe_trait_def Let_def)

lemma observe_waits [simp]: "status_waits (observe_workload g s) = status_waits s"
  by (simp add: status_waits_def)

lemma observe_references [simp]: "status_references (map (observe_workload g) ws) = status_references ws"
  by (simp add: status_references_def image_image)

lemma observe_status_wf: "status_wf (acStatus (updateObservedGeneration ac)) = status_wf (acStatus ac)"
  by (simp add: status_wf_def updateObservedGeneration_def on_config_status_def plain_references_def)

lemma patched_waits: "status_waits (patch_workload_status old (Status wl)) \<Longrightarrow> wl_waits wl"
  using patched_fields [of old "Status wl"]
  by (auto simp: status_waits_def wl_waits_def elim!: patched_trait)

lemma patched_reference: "cwsReference (patch_workload_status old (Status wl)) = reference_to (wiWorkload wl)"
  using patched_fields [of old "Status wl"] by simp

lemma from_rendered_wf:
  assumes "from_rendered C ac ac' w q"
  shows "status_wf (acStatus ac')"
proof -
  obtain wls uds ac1 w1 wls' where R: "Render C (ac, w) = Some (Inr (wls, uds), (ac1, w1))"
    and shape: "list_all2 same_shape wls wls'"
    and ws: "stWorkloads (acStatus ac') = map (patch_workload_status (stWorkloads (acStatus ac)) \<circ> Status) wls'"
    and ds: "stDependency (acStatus ac') = uds"
    using assms unfolding from_rendered_def by blast
  have "trUID r = ''''" if "r \<in> status_references (stWorkloads (acStatus ac'))" for r
    using that by (auto simp: status_references_def ws patched_reference reference_to_def elim!: patched_trait)
  moreover have "uds \<noteq> []" if waits: "x \<in> set (stWorkloads (acStatus ac'))" "status_waits x" for x
  proof -
    obtain wl' where wl': "wl' \<in> set wls'" "wl_waits wl'" using waits by (auto simp: ws dest: patched_waits)
    then obtain i where i: "i < length wls'" "wls' ! i = wl'" by (auto simp: in_set_conv_nth)
    with shape have "same_shape (wls ! i) wl'" "i < length wls" by (auto simp: list_all2_conv_all_nth)
    then show ?thesis using Render_waits [OF R, of "wls ! i"] same_shape_waits wl'(2) by simp
  qed
  ultimately show ?thesis by (auto simp: status_wf_def plain_references_def ds)
qed

text \<open>
  C31: A reconcile keeps the status of a configuration well formed, however it ends: its references
  to workloads and traits have no identity, which is what the exactness of garbage collection rests
  on, and while a workload or a trait waits for data, an unsatisfied dependency is reported.
\<close>

theorem reconciled_status_invariant:
  assumes "no_hooks C" and "status_wf (acStatus ac)" and "ACReconcile C ac w = Some (r, ac', evs, w')"
  shows "status_wf (acStatus ac')"
proof -
  obtain q e where r: "r = (q, e)" by fastforce
  from assms(1) assms(3) [unfolded r] show ?thesis
  proof (rule ACReconcile_cases)
    fix ac1
    assume ac': "ac' = updateObservedGeneration ac1"
      and "((e \<noteq> None \<or> is_inactive ac) \<and> q = 0 \<and> same_workloads ac ac1) \<or>
           (e = None \<and> \<not> is_inactive ac \<and> from_rendered C ac ac1 w q)"
    then consider "same_workloads ac ac1" | "from_rendered C ac ac1 w q" by blast
    then have "status_wf (acStatus ac1)"
    proof cases
      case 1
      then show ?thesis using assms(2) by (simp add: status_wf_def same_workloads_def)
    qed (rule from_rendered_wf)
    then show ?thesis by (simp add: ac' observe_status_wf)
  qed
qed

section \<open>What is recorded as applied\<close>

lemma observe_applied:
  "cwsComponentRevisionName (observe_workload g s) = cwsComponentRevisionName s"
  "cwsAppliedComponentRevision (observe_workload g s) =
     (if cwsDependencyUnsatisfied s then cwsAppliedComponentRevision s else cwsComponentRevisionName s)"
  "ctsAppliedGeneration (observe_trait g t) = (if ctsDependencyUnsatisfied t then ctsAppliedGeneration t else g)"
  by (simp_all add: observe_workload_def observe_trait_def Let_def)

text \<open>
  What a status says of a workload and its traits: component and revision, the object, whether it
  waits, and the revision, or generation, that is recorded as applied; and what it should say.
\<close>

definition status_report :: "config_workload_status \<Rightarrow>
    (string \<times> string \<times> cp_reference \<times> bool \<times> string) \<times> (cp_reference \<times> bool \<times> int) list" where
  "status_report s =
     ((cwsComponentName s, cwsComponentRevisionName s, cwsReference s, cwsDependencyUnsatisfied s, cwsAppliedComponentRevision s),
      map (\<lambda>t. (ctsReference t, ctsDependencyUnsatisfied t, ctsAppliedGeneration t)) (cwsTraits s))"

definition applied_report :: "int \<Rightarrow> workload_instance \<Rightarrow>
    (string \<times> string \<times> cp_reference \<times> bool \<times> string) \<times> (cp_reference \<times> bool \<times> int) list" where
  "applied_report g wl =
     ((wiComponentName wl, wiComponentRevisionName wl, reference_to (wiWorkload wl), wiHasDep wl,
       if wiHasDep wl then '''' else wiComponentRevisionName wl),
      map (\<lambda>t. (reference_to (tiObject t), tiHasDep t, if tiHasDep t then 0 else g)) (wiTraits wl))"

lemma observed_report: "status_report (observe_workload g (patch_workload_status old (Status wl))) = applied_report g wl"
proof -
  let ?s = "patch_workload_status old (Status wl)"
  have "cwsComponentName (observe_workload g ?s) = cwsComponentName ?s" by (simp add: observe_workload_def Let_def)
  moreover have "map (\<lambda>t. (ctsReference t, ctsDependencyUnsatisfied t, if ctsDependencyUnsatisfied t then ctsAppliedGeneration t else g)) (cwsTraits ?s) =
      map (\<lambda>t. (reference_to (tiObject t), tiHasDep t, if tiHasDep t then 0 else g)) (wiTraits wl)"
    by (subst patched_traits) (simp_all add: strip_trait_def)
  ultimately show ?thesis
    using patched_fields [of old "Status wl"]
    by (simp add: status_report_def applied_report_def observe_applied comp_def)
qed

text \<open>
  C32: What is recorded as applied is what this reconcile applied.  After a reconcile without an error of a
  configuration that is reconciled at all, that is no inactive application revision, by a reconciler
  without hooks, as those of the repository are, the status lists in
  order the workloads that were rendered and applied; each is recorded as applied in the revision it was
  rendered from and each of its traits in this generation, unless it waits for data: then it is recorded as
  never applied, whatever was recorded before.  The observed generation is that of the configuration, and
  the reconcile comes back after the time to wait exactly if rendering left a dependency unsatisfied.
\<close>

theorem applied_is_recorded:
  assumes "no_hooks C" and "\<not> is_inactive ac" and "ACReconcile C ac w = Some ((q, None), ac', evs, w')"
  shows "\<exists>wls uds ac1 w1 wls' w2.
     Render C (ac, w) = Some (Inr (wls, uds), (ac1, w1)) \<and>
     workloads_Apply C (SetNamespaceInCtx (acNamespace ac)) (stWorkloads (acStatus ac)) wls (apply_options_of C ac1) w1 =
       Some (Inr wls', w2) \<and>
     map status_report (stWorkloads (acStatus ac')) = map (applied_report (acGeneration ac)) wls' \<and>
     stObservedGeneration (acStatus ac') = acGeneration ac \<and> stDependency (acStatus ac') = uds \<and>
     q = (if uds \<noteq> [] then ccDependCheckWait C else 0)"
  using assms(1,3)
proof (rule ACReconcile_cases)
  fix ac1
  assume ac': "ac' = updateObservedGeneration ac1"
    and "(((None :: string option) \<noteq> None \<or> is_inactive ac) \<and> q = 0 \<and> same_workloads ac ac1) \<or>
         ((None :: string option) = None \<and> \<not> is_inactive ac \<and> from_rendered C ac ac1 w q)"
  then have R: "from_rendered C ac ac1 w q" using assms(2) by simp
  then have g: "acGeneration ac1 = acGeneration ac" by (auto simp: from_rendered_def dest: only_config_statusD)
  have "map status_report (stWorkloads (acStatus ac')) = map (applied_report (acGeneration ac)) wls'"
    if "stWorkloads (acStatus ac1) = map (patch_workload_status (stWorkloads (acStatus ac)) \<circ> Status) wls'" for wls'
    by (simp add: ac' updateObservedGeneration_def on_config_status_def that g observed_report)
  moreover have "stObservedGeneration (acStatus ac') = acGeneration ac" "stDependency (acStatus ac') = stDependency (acStatus ac1)"
    by (simp_all add: ac' updateObservedGeneration_def on_config_status_def g)
  ultimately show ?thesis using R unfolding from_rendered_def by metis
qed

section \<open>Application contexts\<close>

lemma ACReconcile_error:
  assumes "no_hooks C" and "ACReconcile C ac w = Some ((q, Some err), ac', evs, w')"
  shows "q = 0 \<and> stWorkloads (acStatus ac') = map (observe_workload (acGeneration ac)) (stWorkloads (acStatus ac)) \<and>
         stDependency (acStatus ac') = stDependency (acStatus ac) \<and> stObservedGeneration (acStatus ac') = acGeneration ac"
  using assms
proof (rule ACReconcile_cases)
  fix ac1
  assume "ac' = updateObservedGeneration ac1"
    and "((Some err \<noteq> None \<or> is_inactive ac) \<and> q = 0 \<and> same_workloads ac ac1) \<or>
         (Some err = None \<and> \<not> is_inactive ac \<and> from_rendered C ac ac1 w q)"
  then show ?thesis
    by (auto simp: updateObservedGeneration_def on_config_status_def same_workloads_def dest: only_config_statusD)
qed

lemma ACReconcile_context_requeue:
  assumes "ACReconcile (context_reconciler X) ac w = Some ((q, r), ac', evs, w')"
  shows "q = 0"
  using context_reconciler_no_hooks [of X] assms
proof (rule ACReconcile_cases)
  fix ac1
  assume "((r \<noteq> None \<or> is_inactive ac) \<and> q = 0 \<and> same_workloads ac ac1) \<or>
          (r = None \<and> \<not> is_inactive ac \<and> from_rendered (context_reconciler X) ac ac1 w q)"
  moreover have "ccDependCheckWait (context_reconciler X) = 0" by (simp add: context_reconciler_def)
  ultimately show ?thesis by (auto simp: from_rendered_def)
qed

text \<open>
  C36: When the reconcile of the configuration of an application context fails, for example because
  its manifests could not be applied, the reconcile of the context succeeds and does not come back by
  itself, except after five seconds for a configuration that is templated.  What it writes says
  that the generation was observed and that every workload and trait that was not waiting has been
  applied in this generation.
\<close>

theorem failed_context_counts_as_applied:
  assumes "xcGetContext X req w = (Inr cx, w0)" and "xcMapper X = None"
    and "xcGetRevision X (cxNamespace cx, cxRevisionName cx) w0 = (Inr raw, w1)" and "xcDecode X raw = Inr ac"
    and "ACReconcile (context_reconciler X) (config_of_context cx ac) w1 = Some ((q, Some err), ac', evs, w2)"
    and "xcPatchStatus X cx (cx\<lparr>cxStatus := acStatus ac'\<rparr>) w2 = (None, w3)"
  shows "(\<exists>d \<in> {0, 5000000000}. context_Reconcile X req w = Some ((d, None), evs, w3)) \<and>
     stObservedGeneration (acStatus ac') = acGeneration ac \<and>
     stWorkloads (acStatus ac') = map (\<lambda>s. s
        \<lparr>cwsAppliedComponentRevision := (if cwsDependencyUnsatisfied s then cwsAppliedComponentRevision s
                                         else cwsComponentRevisionName s),
         cwsTraits := map (\<lambda>t. t\<lparr>ctsAppliedGeneration := (if ctsDependencyUnsatisfied t then ctsAppliedGeneration t
                                                            else acGeneration ac)\<rparr>) (cwsTraits s)\<rparr>)
       (stWorkloads (cxStatus cx))"
proof -
  note e = ACReconcile_error [OF context_reconciler_no_hooks assms(5)]
  have "observe_workload (acGeneration ac) = (\<lambda>s. s
        \<lparr>cwsAppliedComponentRevision := (if cwsDependencyUnsatisfied s then cwsAppliedComponentRevision s
                                         else cwsComponentRevisionName s),
         cwsTraits := map (\<lambda>t. t\<lparr>ctsAppliedGeneration := (if ctsDependencyUnsatisfied t then ctsAppliedGeneration t
                                                            else acGeneration ac)\<rparr>) (cwsTraits s)\<rparr>)"
    by (rule ext) (rule observe_workload_of_Status)
  with e assms show ?thesis
    by (simp add: context_Reconcile_def Let_def config_of_context_def)
qed

text \<open>
  The reconcile of an application context never comes back to look at a dependency that was
  not satisfied.
\<close>

theorem context_never_waits:
  assumes "context_Reconcile X req w = Some ((d, r), evs, w')"
  shows "d = 0 \<or> d = 5000000000"
  using assms
  by (auto simp: context_Reconcile_def Let_def split: prod.splits sum.splits option.splits if_splits
      dest: ACReconcile_context_requeue)

section \<open>No components\<close>

text \<open>
  A configuration without components makes every reconcile panic: the first of the rendered workloads is
  read for their namespace.  The panic is there unless the configuration is deleted or no
  longer reconciled.
\<close>

theorem empty_configuration_panics:
  assumes "ccGetConfig C req w = (Inr ac, w1)" and "acComponents ac = []" and "\<not> acDeleting ac"
    and "ccPreHooks C = []" and "\<not> is_inactive ac"
  shows "config_Reconcile C req w = None"
proof -
  have "fst (registerFinalizers C ac) = False" using assms(2) by (simp add: registerFinalizers_def hasScope_def)
  moreover have "ACReconcile C ac w1 = None"
    using assms(2,4,5)
    by (auto simp: ACReconcile_def deferred_def render_and_apply_def Render_def rollout_phase_def workloads_Apply_def
        on_config_status_def Let_def)
  ultimately show ?thesis using assms(1,3) by (simp add: config_Reconcile_def)
qed

end
