(* ===== verification/Config_Apply_Properties.thy ===== *)
theory Config_Apply_Properties
  imports Config_Controller
begin

text \<open>
  What applying the workloads of a configuration does to the cluster: an object that is unchanged is
  left alone in the modes that apply once, and one that waits for data is not written.
\<close>

section \<open>Apply once\<close>

text \<open>Whether an object counts as unchanged, against the object there is or against the status.\<close>

definition counts_as_unchanged :: "'w config_client \<Rightarrow> app_config \<Rightarrow> unstructured option \<Rightarrow> unstructured \<Rightarrow> bool" where
  "counts_as_unchanged C ac existing u \<longleftrightarrow>
     map_get (uLabels u) LabelOAMResourceType \<in> {ResourceTypeWorkload, ResourceTypeTrait} \<and>
     (case existing of
        Some e \<Rightarrow> ccApplyMode C \<noteq> ApplyOnceOnlyOff \<and>
          map_get (uAnnotations e) AnnotationAppGeneration = map_get (uAnnotations u) AnnotationAppGeneration \<and>
          map_get (uLabels e) LabelAppComponentRevision = map_get (uLabels u) LabelAppComponentRevision
      | None \<Rightarrow> ccApplyMode C = ApplyOnceOnlyForce \<and> recorded_unchanged C u (stWorkloads (acStatus ac)))"

lemma applyOnceOnly_eq:
  "applyOnceOnly C ac (ccApplyMode C) existing u =
     (if counts_as_unchanged C ac existing u then Some GenerationUnchanged else None)"
  by (auto simp: applyOnceOnly_def counts_as_unchanged_def ApplyOnceOnlyOff_def ApplyOnceOnlyForce_def
      split: option.splits)

definition existing_of :: "api_error + unstructured \<Rightarrow> unstructured option" where
  "existing_of r = (case r of Inl err \<Rightarrow> None | Inr e \<Rightarrow> Some e)"

lemma run_options:
  "executeApplyOptions existing u (apply_options_of C ac) =
     (case MustBeControllableBy (ccKube C) (acUID ac) existing u of
        Some err \<Rightarrow> Some (errors_Wrap err ''cannot apply ApplyOption'')
      | None \<Rightarrow> if counts_as_unchanged C ac existing u
                then Some (errors_Wrap GenerationUnchanged ''cannot apply ApplyOption'') else None)"
  by (simp add: apply_options_of_def applyOnceOnly_eq split: option.splits)

lemma run_owner_option:
  "executeApplyOptions existing u [MustBeControllableBy K i] =
     map_option (\<lambda>err. errors_Wrap err ''cannot apply ApplyOption'') (MustBeControllableBy K i existing u)"
  by (simp split: option.splits)

lemma Apply_missing:
  assumes "kGet K (uAPIVersion u) (uKind u) (uNamespace u, uName u) w = (Inl nf, w1)" "uName u \<noteq> ''''" "errNotFound nf"
  shows "Apply K u ao w =
     (case executeApplyOptions None u ao of
        Some err \<Rightarrow> ((Some err, u), w1)
      | None \<Rightarrow>
          (case applyCreate K u [] w1 of
             ((Inl err, u), w) \<Rightarrow> ((Some err, u), w)
           | ((Inr x, u), w) \<Rightarrow> ((None, u), w)))"
  using assms
  by (auto simp: Apply_def createOrGetExisting_def applyCreate_def simp del: executeApplyOptions.simps(2)
      split: option.splits prod.splits)

text \<open>
  C35: Applying an object once is exact.  When reading the object tells whether it exists, an object
  of a workload or a trait that counts as unchanged, and that may be controlled by the configuration,
  is left as it is after the one read, without an error; in every other case the object is applied as
  if there were no mode.  An existing object counts as unchanged when its generation and its
  revision are those of the desired one; a missing one, in the mode force, when the status has recorded
  its revision or its generation.
\<close>

theorem apply_once_is_exact:
  assumes "kGet (ccKube C) (uAPIVersion u) (uKind u) (uNamespace u, uName u) w = (r, w1)"
    and "uName u \<noteq> ''''" and "\<And>err. r = Inl err \<Longrightarrow> errNotFound err"
  shows "apply_object C message u [] ns (apply_options_of C ac) w =
     (if counts_as_unchanged C ac (existing_of r) u \<and>
         MustBeControllableBy (ccKube C) (acUID ac) (existing_of r) u = None
      then (Inr u, w1)
      else apply_object C message u [] ns [MustBeControllableBy (ccKube C) (acUID ac)] w)"
proof -
  let ?mbc = "MustBeControllableBy (ccKube C) (acUID ac) (existing_of r) u"
  have gu: "is_generation_unchanged (errors_Wrap GenerationUnchanged ''cannot apply ApplyOption'')"
    by (simp add: is_generation_unchanged_def)
  have opts: "Apply (ccKube C) u (apply_options_of C ac) w =
      (if counts_as_unchanged C ac (existing_of r) u \<and> ?mbc = None
       then ((Some (errors_Wrap GenerationUnchanged ''cannot apply ApplyOption''), u), w1)
       else Apply (ccKube C) u [MustBeControllableBy (ccKube C) (acUID ac)] w)"
  proof (cases r)
    case (Inl err)
    have nf: "errNotFound err" by (rule assms(3) [OF Inl])
    show ?thesis
      unfolding Apply_missing [OF assms(1) [unfolded Inl] assms(2) nf] run_options run_owner_option Inl existing_of_def
      by (simp add: MustBeControllableBy_def)
  next
    case (Inr e)
    show ?thesis
      unfolding Apply_existing [OF assms(1) [unfolded Inr] assms(2)] run_options run_owner_option Inr existing_of_def
      by (simp split: option.splits)
  qed
  show ?thesis by (simp add: apply_object_def opts gu)
qed

section \<open>Objects that wait\<close>

definition kept :: "('w \<Rightarrow> bool) \<Rightarrow> ('x \<times> 'w) option \<Rightarrow> bool" where
  "kept I r \<longleftrightarrow> (\<forall>x w. r = Some (x, w) \<longrightarrow> I w)"

lemma kept_on_safe:
  "kept I r \<Longrightarrow> (\<And>x w. r = Some (Inr x, w) \<Longrightarrow> I w \<Longrightarrow> kept I (f x w)) \<Longrightarrow> kept I (on_safe r f)"
  by (auto simp: kept_def on_safe_def split: option.splits sum.splits)

lemma kept_on_ok:
  "kept I (Some r) \<Longrightarrow> (\<And>x w. r = (Inr x, w) \<Longrightarrow> I w \<Longrightarrow> kept I (Some (f x w))) \<Longrightarrow> kept I (Some (on_ok r f))"
  by (auto simp: kept_def on_ok_def split: prod.splits sum.splits)

lemma kept_simps [simp]:
  "kept I None" "kept I (Some (x, w)) = I w" "kept I (Some (map_error g r)) = kept I (Some r)"
  "kept I (Some (call_error s)) = kept I (Some s)"
  by (auto simp: kept_def map_error_def call_error_def split: prod.splits sum.splits option.splits)

text \<open>
  What a property of the world has to survive so that it survives applying everything but the object
  \<open>r\<close>: reads, and writes of other objects.
\<close>

definition frame_of :: "'w config_client \<Rightarrow> cp_reference \<Rightarrow> ('w \<Rightarrow> bool) \<Rightarrow> bool" where
  "frame_of C r I \<longleftrightarrow>
     (\<forall>v k n w. I w \<longrightarrow> I (snd (kGet (ccKube C) v k n w))) \<and>
     (\<forall>u w. reference_to u \<noteq> r \<longrightarrow> I w \<longrightarrow> I (snd (kCreate (ccKube C) u w))) \<and>
     (\<forall>u p w. reference_to u \<noteq> r \<longrightarrow> I w \<longrightarrow> I (snd (kPatch (ccKube C) u p w))) \<and>
     (\<forall>u w. reference_to u \<noteq> r \<longrightarrow> I w \<longrightarrow> I (snd (ccUpdateObject C u w))) \<and>
     (\<forall>g k v w. I w \<longrightarrow> I (snd (ccRESTMapping C g k v w))) \<and>
     (\<forall>n w. I w \<longrightarrow> I (snd (ccGetScopeDefinition C n w)))"

text \<open>
  Reading an object gives the object that was asked for, and the path to the references in a scope, as
  its definition has it, is not a path to what identifies the scope.
\<close>

definition same_objects_doc :: "'w config_client \<Rightarrow> bool" where
  "same_objects_doc C \<longleftrightarrow>
     (\<forall>v k n w u w'. kGet (ccKube C) v k n w = (Inr u, w') \<longrightarrow>
        reference_to u = \<lparr>trAPIVersion = v, trKind = k, trName = snd n, trUID = ''''\<rparr>) \<and>
     (\<forall>n w p w1 v u u'. ccGetScopeDefinition C n w = (Inr p, w1) \<longrightarrow> ccSetValue C p v u = Inr u' \<longrightarrow>
        reference_to u' = reference_to u)"

text \<open>Operations that do not turn an object into another one.\<close>

definition keeps_name :: "'w config_client \<Rightarrow> data_operation \<Rightarrow> bool" where
  "keeps_name C oper \<longleftrightarrow> (\<forall>a b a'. operationProcess C a b oper = Inr a' \<longrightarrow> reference_to a' = reference_to a)"

lemma process_operations_same:
  "process_operations C a b opers = Inr a' \<Longrightarrow> \<forall>oper \<in> set opers. keeps_name C oper \<Longrightarrow>
   reference_to a' = reference_to a"
proof (induction opers arbitrary: a)
  case (Cons oper opers)
  then obtain a1 where "operationProcess C a b oper = Inr a1" "process_operations C a1 b opers = Inr a'"
    by (auto simp: bind_result_Inr)
  with Cons.IH [of a1] Cons.prems(2) show ?case by (auto simp: keeps_name_def)
qed simp

definition inputs_keep_names :: "'w config_client \<Rightarrow> data_input list \<Rightarrow> bool" where
  "inputs_keep_names C ins \<longleftrightarrow> (\<forall>i \<in> set ins. \<forall>oper \<in> set (operations_of (inStore i)). keeps_name C oper)"

lemma reference_to_annotations [simp]: "reference_to (u\<lparr>uAnnotations := a\<rparr>) = reference_to u"
  by (simp add: reference_to_def)

lemma modified_same: "getModifiedConfiguration K u b = (x, u') \<Longrightarrow> reference_to u' = reference_to u"
  by (auto simp: getModifiedConfiguration_def Let_def split: sum.splits if_splits)

lemma last_applied_same: "addLastAppliedConfigAnnotation K u = (x, u') \<Longrightarrow> reference_to u' = reference_to u"
  by (auto simp: addLastAppliedConfigAnnotation_def dest!: modified_same split: prod.splits sum.splits)

lemma merge_patch_same: "threeWayMergePatch K e u = (x, u') \<Longrightarrow> reference_to u' = reference_to u"
  by (auto simp: threeWayMergePatch_def Let_def dest!: modified_same split: prod.splits sum.splits scheme_result.splits)

lemma applyCreate_frame:
  assumes "\<And>v w. reference_to v = reference_to u \<Longrightarrow> I w \<Longrightarrow> I (snd (kCreate K v w))" and "I w"
  shows "I (snd (applyCreate K u ao w))"
proof (cases "executeApplyOptions None u ao")
  case None
  obtain x v where a: "addLastAppliedConfigAnnotation K u = (x, v)" by (metis prod.exhaust)
  obtain err v' w' where c: "kCreate K v w = ((err, v'), w')" by (metis prod.exhaust)
  with assms(1) [OF last_applied_same [OF a] assms(2)] assms(2) show ?thesis
    by (auto simp: applyCreate_def None a split: option.splits)
qed (simp add: applyCreate_def assms(2))

lemma createOrGet_frame:
  assumes "\<And>v k n w. I w \<Longrightarrow> I (snd (kGet K v k n w))"
    and "\<And>v w. reference_to v = reference_to u \<Longrightarrow> I w \<Longrightarrow> I (snd (kCreate K v w))" and "I w"
  shows "I (snd (createOrGetExisting K u ao w))"
proof -
  obtain x w1 where g: "kGet K (uAPIVersion u) (uKind u) (uNamespace u, uName u) w = (x, w1)" by (metis prod.exhaust)
  then have "I w1" using assms(1) [OF assms(3)] by (metis snd_conv)
  then show ?thesis using applyCreate_frame [of u I K] assms(2,3)
    by (auto simp: createOrGetExisting_def g split: sum.splits)
qed

lemma createOrGet_object:
  "createOrGetExisting K u ao w = ((Inr (Some e), u'), w') \<Longrightarrow> u' = u"
  by (auto simp: createOrGetExisting_def applyCreate_def split: if_splits prod.splits sum.splits option.splits)

lemma Apply_frame:
  assumes "\<And>v k n w. I w \<Longrightarrow> I (snd (kGet K v k n w))"
    and "\<And>v w. reference_to v = reference_to u \<Longrightarrow> I w \<Longrightarrow> I (snd (kCreate K v w))"
    and "\<And>v p w. reference_to v = reference_to u \<Longrightarrow> I w \<Longrightarrow> I (snd (kPatch K v p w))" and "I w"
  shows "I (snd (Apply K u ao w))"
proof -
  obtain x u1 w1 where c: "createOrGetExisting K u ao w = ((x, u1), w1)" by (metis prod.exhaust)
  have w1: "I w1" using createOrGet_frame [of I K u w ao, OF assms(1,2,4)] by (simp add: c)
  show ?thesis
  proof (cases "\<exists>e. x = Inr (Some e) \<and> executeApplyOptions (Some e) u1 ao = None")
    case True
    then obtain e where e: "x = Inr (Some e)" "executeApplyOptions (Some e) u1 ao = None" by blast
    have u1: "u1 = u" by (rule createOrGet_object [OF c [unfolded e(1)]])
    obtain y v where p: "threeWayMergePatch K e u = (y, v)" by (metis prod.exhaust)
    have "I (snd (kPatch K v p w1))" for p by (rule assms(3) [OF merge_patch_same [OF p] w1])
    then show ?thesis using w1 e(2)
      by (auto simp: Apply_def c e(1) u1 p split: sum.splits prod.splits option.splits) (metis snd_conv)+
  qed (use w1 in \<open>auto simp: Apply_def c split: sum.splits option.splits\<close>)
qed

lemma Apply_kept: "frame_of C r I \<Longrightarrow> reference_to u \<noteq> r \<Longrightarrow> I w \<Longrightarrow> I (snd (Apply (ccKube C) u ao w))"
  by (rule Apply_frame) (auto simp: frame_of_def)

lemma kept_get_object: "frame_of C r I \<Longrightarrow> I w \<Longrightarrow> kept I (Some (get_object C x ns w))"
  by (auto simp: kept_def get_object_def frame_of_def) (metis snd_conv)

lemma kept_call_apply:
  assumes "frame_of C r I" "same_objects_doc C" "reference_to u \<noteq> r" "I w"
  shows "kept I (Some (call_apply C u ao w))"
proof -
  have "I (snd (Apply (ccKube C) u ao w))" by (rule Apply_kept [OF assms(1,3,4)])
  then show ?thesis by (auto simp: kept_def call_apply_def split: prod.splits option.splits)
qed

lemma ApplyInputRef_kept: "frame_of C r I \<Longrightarrow> I w \<Longrightarrow> kept I (Some (ApplyInputRef C u ins ns w))"
  by (induction ins arbitrary: u w) (auto intro!: kept_on_ok kept_get_object)

lemma ApplyInputRef_same:
  "inputs_keep_names C ins \<Longrightarrow> ApplyInputRef C u ins ns w = (Inr u', w') \<Longrightarrow> reference_to u' = reference_to u"
  by (induction ins arbitrary: u w)
    (auto simp: on_ok_Inr inputs_keep_names_def split: if_splits dest!: process_operations_same)

lemma apply_object_kept:
  assumes "frame_of C r I" "same_objects_doc C" "inputs_keep_names C ins" "reference_to u \<noteq> r" "I w"
  shows "kept I (Some (apply_object C message u ins ns ao w))"
  unfolding apply_object_def
proof (rule kept_on_ok [OF ApplyInputRef_kept [OF assms(1,5)]])
  fix x w1 assume x: "ApplyInputRef C u ins ns w = (Inr x, w1)" and i: "I w1"
  have "reference_to x \<noteq> r" using ApplyInputRef_same [OF assms(3) x] assms(4) by simp
  from Apply_kept [OF assms(1) this i] have "I (snd (Apply (ccKube C) x ao w1))" .
  then show "kept I (Some (case Apply (ccKube C) x ao w1 of
      ((None, u), w) \<Rightarrow> (Inr u, w)
    | ((Some err, u), w) \<Rightarrow> if is_generation_unchanged err then (Inr u, w) else (Inl (errors_Wrap err (message u)), w)))"
    by (auto simp: kept_def split: prod.splits option.splits if_splits)
qed

definition plain :: "cp_reference \<Rightarrow> cp_reference" where
  "plain r = r\<lparr>trUID := ''''\<rparr>"

lemma get_object_same: "same_objects_doc C \<Longrightarrow> get_object C x ns w = (Inr u, w') \<Longrightarrow> reference_to u = plain x"
  unfolding same_objects_doc_def get_object_def plain_def by (cases x) fastforce

lemma reference_to_blank: "reference_to (blank_object v k ns n\<lparr>uOwnerReferences := os\<rparr>) = \<lparr>trAPIVersion = v, trKind = k, trName = n, trUID = ''''\<rparr>"
  by (simp add: reference_to_def blank_object_def)

lemma apply_output_kept:
  assumes f: "frame_of C r I" and s: "same_objects_doc C" and "plain (stReference (outStore out)) \<noteq> r" "I w"
    and ops: "\<forall>oper \<in> set (operations_of (outStore out)). keeps_name C oper"
  shows "kept I (Some (apply_output C u out ns ao w))"
proof -
  let ?store = "stReference (outStore out)"
  have get: "kept I (Some (map_error errText (get_object C x ns w)))" if "I w" for x ns w
    using kept_get_object [OF f that] by simp
  have "\<lparr>trAPIVersion = trAPIVersion ?store, trKind = trKind ?store, trName = trName ?store, trUID = ''''\<rparr> = plain ?store"
    by (cases ?store) (simp add: plain_def)
  then have new: "kept I (Some (on_ok (call_apply C ((blank_object (trAPIVersion ?store) (trKind ?store) ns (trName ?store))
      \<lparr>uOwnerReferences := os\<rparr>) ao w) (\<lambda>ref w. map_error errText (get_object C ?store ns w))))" if "I w" for os w
    by (intro kept_on_ok [OF kept_call_apply [OF f s _ that]] get) (use assms(3) in \<open>simp_all add: reference_to_blank\<close>)
  have last: "kept I (Some (on_ok (process_operations C ref rw (operations_of (outStore out)), w)
      (\<lambda>ref w. on_ok (call_apply C ref ao w) (\<lambda>ref w. (Inr (), w)))))"
    if "I w" "reference_to ref = plain ?store" for w ref rw
  proof (rule kept_on_ok, simp add: that)
    fix x w1 assume "(process_operations C ref rw (operations_of (outStore out)), w) = (Inr x, w1)" "I w1"
    then have "reference_to x \<noteq> r" using process_operations_same [OF _ ops] that(2) assms(3) by auto
    with \<open>I w1\<close> show "kept I (Some (on_ok (call_apply C x ao w1) (\<lambda>ref w. (Inr (), w))))"
      by (intro kept_on_ok [OF kept_call_apply [OF f s]]) simp_all
  qed
  show ?thesis unfolding apply_output_def Let_def
  proof (rule kept_on_ok [OF get [OF assms(4)]], goal_cases)
    case (1 rw w1)
    obtain y w2 where g: "get_object C ?store ns w1 = (y, w2)" by (metis prod.exhaust)
    have w2: "I w2" using kept_get_object [OF f 1(2), of ?store ns] g by simp
    show ?case
    proof (rule kept_on_ok, goal_cases)
      case 1
      then show ?case using w2 new [OF w2] by (cases y) (auto simp: g)
    next
      case (2 ref w3)
      have "reference_to ref = plain ?store"
      proof (cases y)
        case (Inr x)
        with 2(1) have "ref = x" by (simp add: g)
        then show ?thesis using get_object_same [OF s g [unfolded Inr]] by simp
      next
        case (Inl err)
        then have "errNotFound err" using 2(1) by (auto simp: g split: if_splits)
        with 2(1) Inl obtain w4 where "get_object C ?store ns w4 = (Inr ref, w3)" by (auto simp: g on_ok_Inr)
        then show ?thesis by (rule get_object_same [OF s])
      qed
      with 2(2) show ?case by (rule last)
    qed
  qed
qed

lemma apply_outputs_kept:
  "frame_of C r I \<Longrightarrow> same_objects_doc C \<Longrightarrow>
   \<forall>out \<in> set outs. plain (stReference (outStore out)) \<noteq> r \<and> (\<forall>oper \<in> set (operations_of (outStore out)). keeps_name C oper) \<Longrightarrow>
   I w \<Longrightarrow> kept I (Some (apply_outputs C u outs ns ao w))"
  by (induction outs arbitrary: w) (auto intro!: kept_on_ok apply_output_kept)

text \<open>Outputs that are not stored in \<open>r\<close>.\<close>

definition outputs_spare :: "'w config_client \<Rightarrow> cp_reference \<Rightarrow> (string \<times> data_output) list \<Rightarrow> bool" where
  "outputs_spare C r outputs \<longleftrightarrow>
     (\<forall>out \<in> snd ` set outputs. plain (stReference (outStore out)) \<noteq> r \<and>
        (\<forall>oper \<in> set (operations_of (outStore out)). keeps_name C oper))"

lemma ApplyOutputRef_kept:
  assumes "frame_of C r I" "same_objects_doc C" "outputs_spare C r outputs" "I w"
  shows "kept I (Some (ApplyOutputRef C u outputs ns ao w))"
proof -
  have "set (List.map_filter (map_of outputs) ks) \<subseteq> snd ` set outputs" for ks
  proof
    fix out assume "out \<in> set (List.map_filter (map_of outputs) ks)"
    then obtain k where "map_of outputs k = Some out" by (auto simp: List.map_filter_def)
    then have "(k, out) \<in> set outputs" by (rule map_of_SomeD)
    then show "out \<in> snd ` set outputs" by force
  qed
  then have "\<forall>out \<in> set (List.map_filter (map_of outputs) ks). plain (stReference (outStore out)) \<noteq> r \<and>
      (\<forall>oper \<in> set (operations_of (outStore out)). keeps_name C oper)" for ks
    using assms(3) unfolding outputs_spare_def by blast
  then show ?thesis unfolding ApplyOutputRef_def by (intro apply_outputs_kept [OF assms(1,2) _ assms(4)])
qed

lemma apply_traits_kept:
  "frame_of C r I \<Longrightarrow> same_objects_doc C \<Longrightarrow>
   \<forall>t \<in> set ts. (reference_to (tiObject t) = r \<longrightarrow> tiHasDep t) \<and> outputs_spare C r (tiDataOutputs t) \<and>
                inputs_keep_names C (tiDataInputs t) \<Longrightarrow> I w \<Longrightarrow>
   kept I (Some (apply_traits C ts ns ao w))"
  by (induction ts arbitrary: w) (auto intro!: kept_on_ok apply_object_kept ApplyOutputRef_kept)

section \<open>Scopes\<close>

lemma kept_Some: "kept I (Some r) \<longleftrightarrow> I (snd r)"
  by (cases r) simp

lemma kept_named:
  assumes "frame_of C r I" "I w"
  shows "kept I (Some (GetDefinitionName C u l w))"
proof -
  have R: "kept I (Some (ccRESTMapping C g k v w))" for g k v using assms by (simp add: frame_of_def kept_Some)
  show ?thesis unfolding GetDefinitionName_def
    by (cases "if l \<noteq> '''' then map_lookup (uLabels u) l else None"; cases "ccParseGroupVersion C (uAPIVersion u)")
      (auto intro!: kept_on_ok R simp: assms(2))
qed

lemma kept_GetDefinition:
  assumes g: "\<And>n w. I w \<Longrightarrow> I (snd (get n w))" and w: "I w"
  shows "kept I (Some (GetDefinition get dns appNs sysNs n w))"
proof -
  have step: "\<exists>x w'. get k w = (x, w') \<and> I w'" if "I w" for k w
    using g [OF that, of k] by (metis prod.collapse)
  define two_levels where "two_levels = (\<lambda>w. case get (appNs, n) w of
              (Inr d, w) \<Rightarrow> (Inr d, w)
            | (Inl err, w) \<Rightarrow>
                if errNotFound err then
                  (case get (sysNs, n) w of
                     (Inr d, w) \<Rightarrow> (Inr d, w)
                   | (Inl err, w) \<Rightarrow>
                       if errNotFound err then
                         (case get ('''', n) w of
                            (Inr d, w) \<Rightarrow> (Inr d, w)
                          | (Inl newErr, w) \<Rightarrow>
                              if checkRequestNamespaceError newErr then (Inl err, w) else (Inl newErr, w))
                       else (Inl err, w))
                else (Inl err, w))"
  have two: "I (snd (two_levels w))" if w: "I w" for w
  proof -
    obtain x1 w1 where 1: "get (appNs, n) w = (x1, w1)" "I w1" using step [OF w] by blast
    obtain x2 w2 where 2: "get (sysNs, n) w1 = (x2, w2)" "I w2" using step [OF 1(2)] by blast
    obtain x3 w3 where 3: "get ('''', n) w2 = (x3, w3)" "I w3" using step [OF 2(2)] by blast
    show ?thesis by (cases x1; cases x2; cases x3) (simp_all add: two_levels_def 1 2 3)
  qed
  obtain x0 w0 where 0: "get (dns, n) w = (x0, w0)" "I w0" using step [OF w] by blast
  show ?thesis unfolding GetDefinition_def two_levels_def [symmetric] Let_def kept_Some
    by (cases x0) (auto simp: 0 two two [OF w])
qed

lemma FetchScope_kept: "frame_of C r I \<Longrightarrow> I w \<Longrightarrow> kept I (Some (FetchScopeDefinition C appNs s w))"
  unfolding FetchScopeDefinition_def
  by (rule kept_on_ok [OF kept_named], assumption, assumption, rule kept_GetDefinition)
    (simp_all add: frame_of_def split_paired_all)

lemma update_kept: "frame_of C r I \<Longrightarrow> reference_to s \<noteq> r \<Longrightarrow> I w \<Longrightarrow> kept I (Some (ccUpdateObject C s w))"
  by (auto simp: kept_def frame_of_def) (metis snd_conv)

lemma GetDefinition_from:
  assumes "GetDefinition get dns appNs sysNs n w = (Inr d, w')"
  shows "\<exists>k w1 w2. get k w1 = (Inr d, w2)"
proof (rule ccontr)
  assume none: "\<nexists>k w1 w2. get k w1 = (Inr d, w2)"
  then have "fst (get k w1) \<noteq> Inr d" for k w1 by (metis prod.collapse)
  then have *: "(case get k w1 of (Inr x, w) \<Rightarrow> (Inr x, w) | (Inl err, w) \<Rightarrow> f err w) = (Inr d, w2) \<longleftrightarrow>
      (\<exists>err w3. get k w1 = (Inl err, w3) \<and> f err w3 = (Inr d, w2))" for k w1 f w2
    using none by (cases k; cases "get k w1"; cases "fst (get k w1)") auto
  show False using assms by (auto simp: GetDefinition_def Let_def * split: if_splits)
qed

lemma set_value_same:
  assumes "same_objects_doc C" "FetchScopeDefinition C appNs s w = (Inr p, w')" "ccSetValue C p v u = Inr u'"
  shows "reference_to u' = reference_to u"
proof -
  obtain k w1 w2 where "ccGetScopeDefinition C k w1 = (Inr p, w2)"
    using assms(2) by (auto simp: FetchScopeDefinition_def on_ok_Inr dest!: GetDefinition_from)
  with assms(1,3) show ?thesis unfolding same_objects_doc_def by blast
qed

lemma applyScope_kept:
  assumes "frame_of C r I" "same_objects_doc C" "reference_to s \<noteq> r" "I w"
  shows "kept I (applyScope C appNs wl s x w)"
  unfolding applyScope_def
  by (rule kept_on_safe)
    (use assms FetchScope_kept [OF assms(1,4)] in
      \<open>auto split: sum.splits json.splits option.splits intro!: update_kept [OF assms(1)] dest: set_value_same [OF assms(2)]\<close>)

lemma apply_scopes_kept:
  "frame_of C r I \<Longrightarrow> same_objects_doc C \<Longrightarrow> \<forall>s \<in> set ss. reference_to s \<noteq> r \<Longrightarrow> I w \<Longrightarrow>
   kept I (apply_scopes C appNs wl ss x w)"
  by (induction ss arbitrary: w) (auto intro!: kept_on_safe applyScope_kept)

lemma applyScopeRemoval_kept:
  assumes "frame_of C r I" "same_objects_doc C" "plain (cssReference st) \<noteq> r" "I w"
  shows "kept I (applyScopeRemoval C appNs ns wr st w)"
proof -
  obtain y w1 where g: "get_object C (cssReference st) ns w = (y, w1)" by (metis prod.exhaust)
  have w1: "I w1" using kept_get_object [OF assms(1,4), of "cssReference st" ns] g by simp
  show ?thesis
  proof (cases y)
    case (Inr s)
    obtain z w2 where F: "FetchScopeDefinition C appNs s w1 = (z, w2)" by (metis prod.exhaust)
    have w2: "I w2" using FetchScope_kept [OF assms(1) w1, of appNs s] F by simp
    have "reference_to s \<noteq> r" using get_object_same [OF assms(2)] g Inr assms(3) by simp
    moreover have "reference_to u = reference_to s" if "z = Inr p" "ccSetValue C p v s = Inr u" for p v u
      using set_value_same [OF assms(2) F [unfolded that(1)] that(2)] .
    ultimately show ?thesis using w2
      by (auto simp: applyScopeRemoval_def g Inr F Let_def split: sum.splits json.splits option.splits
          intro!: update_kept [OF assms(1)])
  qed (use w1 in \<open>simp add: applyScopeRemoval_def g Let_def\<close>)
qed

lemma remove_scopes_kept:
  "frame_of C r I \<Longrightarrow> same_objects_doc C \<Longrightarrow> \<forall>st \<in> set ss. plain (cssReference st) \<noteq> r \<Longrightarrow> I w \<Longrightarrow>
   kept I (remove_scopes C appNs ns wr ss w)"
  by (induction ss arbitrary: w) (auto intro!: kept_on_safe applyScopeRemoval_kept)

lemma to_be_dereferenced_subset: "set (to_be_dereferenced st wls) \<subseteq> set (cwsScopes st)"
proof -
  have "set (foldl (\<lambda>d wl. if same_object (cwsReference st) (wiWorkload wl)
          then findDereferencedScopes (cwsScopes st) (wiScopes wl) else d) d wls) \<subseteq> set (cwsScopes st)"
    if "set d \<subseteq> set (cwsScopes st)" for d
    using that by (induction wls arbitrary: d) (auto simp: findDereferencedScopes_def)
  then show ?thesis by (simp add: to_be_dereferenced_def)
qed

lemma dereferenceScope_kept:
  "frame_of C r I \<Longrightarrow> same_objects_doc C \<Longrightarrow> \<forall>st \<in> set sts. \<forall>s \<in> set (cwsScopes st). plain (cssReference s) \<noteq> r \<Longrightarrow> I w \<Longrightarrow>
   kept I (dereferenceScope C appNs ns sts wls w)"
proof (induction sts arbitrary: w)
  case (Cons st sts)
  then show ?case using to_be_dereferenced_subset [of st wls]
    by (auto intro!: kept_on_safe remove_scopes_kept)
qed simp

section \<open>Everything that is applied\<close>

definition spares :: "'w config_client \<Rightarrow> cp_reference \<Rightarrow> workload_instance \<Rightarrow> bool" where
  "spares C r wl \<longleftrightarrow>
     (reference_to (wiWorkload wl) = r \<longrightarrow> wiHasDep wl \<or> wiSkipApply wl) \<and>
     outputs_spare C r (wiDataOutputs wl) \<and> inputs_keep_names C (wiDataInputs wl) \<and>
     (\<forall>t \<in> set (wiTraits wl). (reference_to (tiObject t) = r \<longrightarrow> tiHasDep t) \<and>
        outputs_spare C r (tiDataOutputs t) \<and> inputs_keep_names C (tiDataInputs t)) \<and>
     (\<forall>s \<in> set (wiScopes wl). reference_to s \<noteq> r)"

lemma apply_workload_kept:
  assumes "frame_of C r I" "same_objects_doc C" "spares C r wl" "I w"
  shows "kept I (apply_workload C appNs wl ns ao w)"
  unfolding apply_workload_def Let_def
  by (intro kept_on_safe)
    (use assms in \<open>auto simp: spares_def intro!: apply_object_kept ApplyOutputRef_kept apply_traits_kept apply_scopes_kept\<close>)

lemma apply_workloads_kept:
  "frame_of C r I \<Longrightarrow> same_objects_doc C \<Longrightarrow> \<forall>wl \<in> set wls. spares C r wl \<Longrightarrow> I w \<Longrightarrow>
   kept I (apply_workloads C appNs wls ns ao w)"
  by (induction wls arbitrary: w) (auto intro!: kept_on_safe apply_workload_kept)

text \<open>
  C34: An object that waits for data, or that the rollout controller has taken over, is not written.
  Let a property of the world survive reads and writes of other objects than r, let the client read the
  objects that it is asked for, and let the operations on passed data, and writing the references of a
  scope, not change the name, kind or API version of the object that they work on.  If every workload that is
  r waits or is to be skipped, every trait that is r waits, and r is neither the store of an output nor
  a scope, of what is rendered or of the status, then the property survives applying the workloads,
  whether that succeeds or fails.
\<close>

theorem waiting_object_is_untouched:
  assumes "frame_of C r I" and "same_objects_doc C" and "\<forall>wl \<in> set wls. spares C r wl"
    and "\<forall>st \<in> set status. \<forall>s \<in> set (cwsScopes st). plain (cssReference s) \<noteq> r"
    and "I w" and "workloads_Apply C appNs status wls ao w = Some (res, w')"
  shows "I w'"
proof -
  have "kept I (workloads_Apply C appNs status wls ao w)"
    unfolding workloads_Apply_def Let_def
    by (cases wls) (use assms in \<open>auto simp del: apply_workloads.simps
        intro!: kept_on_safe apply_workloads_kept dereferenceScope_kept\<close>)
  with assms(6) show ?thesis by (simp add: kept_def)
qed

end
