(* ===== verification/Config_Example.thy ===== *)
theory Config_Example
  imports Config_Properties Config_Apply_Properties
begin

text \<open>A client and a configuration of one component, for the examples.\<close>

section \<open>A server\<close>

text \<open>The server gives an object the name it is asked for.\<close>

definition config_kube :: "kube_world kube" where
  "config_kube = example_kube
     \<lparr>kGet := \<lambda>v k n w. (case kwObjects w \<lparr>refAPIVersion = v, refKind = k, refName = snd n, refNamespace = fst n\<rparr> of
        None \<Rightarrow> Inl not_found
      | Some u \<Rightarrow> Inr (u\<lparr>uAPIVersion := v, uKind := k, uName := snd n\<rparr>), w)\<rparr>"

definition some_condition :: app_condition where
  "some_condition = \<lparr>acdType = ''Synced'', acdStatus = True, acdReason = ''ReconcileSuccess'', acdMessage = '''', acdTime = 0\<rparr>"

definition web_oam :: oam_component where
  "web_oam = \<lparr>ocName = ''web'', ocNamespace = ''default'', ocUID = ''c'', ocGeneration = 2, ocWorkload = ''web'', ocHelm = None,
     ocParameters = [], ocObservedGeneration = 1, ocLatestRevision = Some \<lparr>latestName = ''web-v1'', latestNumber = 1, latestHash = ''''\<rparr>\<rparr>"

text \<open>The client knows the components in a list and applies in the given mode.\<close>

definition config_example :: "oam_component list \<Rightarrow> string \<Rightarrow> kube_world config_client" where
  "config_example comps mode =
     \<lparr>ccKube = config_kube, ccEnvNamespace = '''', ccSystemNamespace = ''vela-system'',
      ccParseGroupVersion = (\<lambda>v. Inr ('''', v)), ccRESTMapping = (\<lambda>g k v w. (Inr k, w)),
      ccGetTraitDefinition = (\<lambda>n w. (Inl not_found, w)), ccGetScopeDefinition = (\<lambda>n w. (Inr ''spec.refs'', w)),
      ccGetComponent = (\<lambda>n w. (case find (\<lambda>c. ocName c = snd n) comps of None \<Rightarrow> Inl not_found | Some c \<Rightarrow> Inr c, w)),
      ccGetRevision = (\<lambda>n w. (Inl not_found, w)), ccUnmarshalComponent = (\<lambda>r. Inl ''no text''),
      ccUnmarshalPaved = (\<lambda>r. Inr (example_object ''v1'' ''Pod'' r)),
      ccUnmarshalObject = (\<lambda>r. Inr (example_object ''v1'' ''Trait'' r)),
      ccNestedString = (\<lambda>u p. None), ccGetValue = (\<lambda>u p. Inr (JArray [])), ccSetValue = (\<lambda>p v u. Inr u),
      ccGetString = (\<lambda>u p. Inr ''''), ccGetInteger = (\<lambda>u p. Inr 0), ccElementString = (\<lambda>m k. Inr ''''),
      ccMarshal = (\<lambda>u. Inr (uRest u)), ccMarshalValue = (\<lambda>v. Inr ''''), ccUnmarshal = (\<lambda>s u. Inr u),
      ccGJSON = (\<lambda>s p. s), ccDecodePatch = (\<lambda>s. Inl s), ccApplyPatch = (\<lambda>p s. Inr s),
      ccTraitHash = (\<lambda>t. ctTrait t), ccObject = (\<lambda>ac. Inr (config_meta ac)),
      ccKruiseGroup = ''apps.kruise.io'', ccAppsGroup = ''apps'', ccQuote = (\<lambda>s. s), ccOrder = (\<lambda>ks. ks),
      ccUpdateObject = (\<lambda>u w. (None, kw_store u w)), ccListObjects = (\<lambda>v k l w. (Inr [], w)),
      ccGetConfig = (\<lambda>n w. (Inl not_found, w)), ccUpdateConfig = (\<lambda>a w. (None, w)),
      ccUpdateConfigStatus = (\<lambda>a w. ((None, a), w)), ccPatchConfigStatus = (\<lambda>a b w. (None, w)), ccRetryConfig = (\<lambda>f. f),
      ccFinalizerExists = (\<lambda>fs f. f \<in> set fs), ccAddFinalizer = (\<lambda>fs f. fs @ [f]), ccRemoveFinalizer = (\<lambda>fs f. removeAll f fs),
      ccNow = (\<lambda>w. 0), ccReconcileError = (\<lambda>s t. some_condition), ccReconcileSuccess = (\<lambda>t. some_condition),
      ccUnavailable = (\<lambda>t. some_condition), ccGetCondition = (\<lambda>t cs. some_condition), ccEqualCondition = (=),
      ccSetConditions = (\<lambda>c cs. [c]), ccPreHooks = [], ccPostHooks = [], ccApplyMode = mode, ccDependCheckWait = 10\<rparr>"

section \<open>A configuration\<close>

definition web_reference :: cp_reference where
  "web_reference = \<lparr>trAPIVersion = ''v1'', trKind = ''Pod'', trName = ''web'', trUID = ''''\<rparr>"

definition old_reference :: cp_reference where
  "old_reference = \<lparr>trAPIVersion = ''v1'', trKind = ''Pod'', trName = ''old'', trUID = ''''\<rparr>"

definition recorded_workload :: "string \<Rightarrow> cp_reference \<Rightarrow> config_workload_status" where
  "recorded_workload n r =
     \<lparr>cwsStatus = '''', cwsComponentName = n, cwsComponentRevisionName = n @ ''-v1'', cwsDependencyUnsatisfied = False,
      cwsAppliedComponentRevision = '''', cwsReference = r, cwsTraits = [], cwsScopes = []\<rparr>"

definition web_entry :: config_component where
  "web_entry = \<lparr>accName = ''web'', accRevision = '''', accDataOutputs = [], accDataInputs = [], accParameterValues = [],
     accTraitList = [], accScopeRefs = []\<rparr>"

definition config_example_ac :: app_config where
  "config_example_ac =
     \<lparr>acName = ''shop'', acNamespace = ''default'', acUID = ''shop-uid'', acGeneration = 3, acLabels = None, acAnnotations = None,
      acOwnerReferences = [], acFinalizers = [], acDeleting = False, acComponents = [web_entry],
      acStatus = \<lparr>stConditions = [], stDependency = [], stRollingStatus = NotRolling,
        stWorkloads = [recorded_workload ''old'' old_reference], stObservedGeneration = 2, stHistoryWorkloads = []\<rparr>\<rparr>"

definition fresh_world :: kube_world where
  "fresh_world = \<lparr>kwObjects = Map.empty, kwTrackers = Map.empty\<rparr>"

lemmas config_example_simps = config_example_def config_example_ac_def web_entry_def web_oam_def
  recorded_workload_def old_reference_def

section \<open>What is rendered and applied\<close>

lemma add_component_info_simps [simp]:
  "uAPIVersion (add_component_info ac labels u) = uAPIVersion u" "uKind (add_component_info ac labels u) = uKind u"
  "uName (add_component_info ac labels u) = uName u" "uNamespace (add_component_info ac labels u) = uNamespace u"
  by (simp_all add: add_component_info_def RemoveAnnotations_def PassLabelAndAnnotation_def AddAnnotations_def AddLabels_def)

definition web_pod :: unstructured where
  "web_pod = (add_component_info config_example_ac (compInfoLabels config_example_ac ''web'' ''web-v1'' ResourceTypeWorkload)
     (example_object ''v1'' ''Pod'' ''web''))\<lparr>uOwnerReferences := [getOwnerFromAC config_example_ac]\<rparr>"

definition web_instance :: workload_instance where
  "web_instance = \<lparr>wiComponentName = ''web'', wiComponentRevisionName = ''web-v1'', wiWorkload = web_pod, wiSkipApply = False,
     wiHasDep = False, wiTraits = [], wiRevisionEnabled = False, wiScopes = [], wiDataOutputs = [], wiDataInputs = []\<rparr>"

lemma web_pod_simps [simp]:
  "uAPIVersion web_pod = ''v1''" "uKind web_pod = ''Pod''" "uName web_pod = ''web''" "uNamespace web_pod = ''default''"
  by (simp_all add: web_pod_def)

lemma example_rendered:
  "Render (config_example [web_oam] mode) (config_example_ac, w) = Some (Inr ([web_instance], []), (config_example_ac, w))"
proof -
  have ac: "acComponents config_example_ac = [web_entry]" "acAnnotations config_example_ac = None"
    "stRollingStatus (acStatus config_example_ac) = NotRolling" "acOwnerReferences config_example_ac = []"
    "acNamespace config_example_ac = ''default''"
    "stWorkloads (acStatus config_example_ac) = [recorded_workload ''old'' old_reference]"
    by (simp_all add: config_example_ac_def)
  have r: "renderComponent (config_example [web_oam] mode) web_entry config_example_ac False False False newDAG w
      = (Inr (web_instance, newDAG), w)"
    by (simp add: renderComponent_def effective_name_def web_entry_def GetComponent_def config_example_def web_oam_def
        resolve_def set_parameters_def fill_field_paths_def List.map_filter_def renderWorkload_def name_workload_def Let_def
        getExistingWorkload_def ac recorded_workload_def setWorkloadInstanceName_def isRevisionEnabled_def web_instance_def web_pod_def)
  have h: "handleDependency (config_example [web_oam] mode) web_instance web_entry newDAG config_example_ac w
      = Some (Inr ([], web_instance), w)"
    by (simp add: handleDependency_def config_example_def web_entry_def web_instance_def)
  show ?thesis
    by (simp add: Render_def rollout_phase_def ac isControlledByApp_def r h)
qed

lemma config_kube_creates:
  assumes "uName u \<noteq> ''''" and "kwObjects w (object_ref u) = None" and "\<forall>f \<in> set ao. f None u = None"
  shows "\<exists>v. Apply config_kube u ao w = ((None, v), kw_store v w) \<and> reference_to v = reference_to u"
proof -
  have "executeApplyOptions None u ao = None" using assms(3) by (simp add: executeApplyOptions_None)
  moreover have "kGet config_kube (uAPIVersion u) (uKind u) (uNamespace u, uName u) w = (Inl not_found, w)"
    using assms(2) by (simp add: config_kube_def object_ref_def)
  moreover obtain x v where v: "addLastAppliedConfigAnnotation config_kube u = (x, v)" by (metis prod.exhaust)
  moreover have "x = None" using v
    by (auto simp: addLastAppliedConfigAnnotation_def getModifiedConfiguration_def Let_def config_kube_def example_kube_def)
  moreover have "kCreate config_kube v w = ((None, v), kw_store v w)" by (simp add: config_kube_def example_kube_def)
  ultimately show ?thesis using assms(1) last_applied_same [OF v]
    by (auto simp: Apply_def createOrGetExisting_def applyCreate_def not_found_def)
qed

section \<open>A reconcile\<close>

text \<open>The pod is created, the old one is not found, and the status lists the pod.\<close>

lemma example_reconciled:
  "\<exists>ac' evs w'. ACReconcile (config_example [web_oam] ''off'') config_example_ac fresh_world = Some ((0, None), ac', evs, w') \<and>
     map (\<lambda>s. (cwsReference s, cwsComponentRevisionName s, cwsDependencyUnsatisfied s)) (stWorkloads (acStatus ac')) =
       [(web_reference, ''web-v1'', False)]"
proof -
  let ?C = "config_example [web_oam] ''off''" and ?ac = config_example_ac
  have C: "ccKube ?C = config_kube" "ccApplyMode ?C = ''off''" "ccOrder ?C = (\<lambda>ks. ks)" by (simp_all add: config_example_def)
  have none: "kwObjects fresh_world r = None" for r by (simp add: fresh_world_def)
  obtain v where v: "Apply config_kube web_pod (apply_options_of ?C ?ac) fresh_world = ((None, v), kw_store v fresh_world)"
    and rv: "reference_to v = reference_to web_pod"
    using config_kube_creates [of web_pod fresh_world "apply_options_of ?C ?ac"]
    by (auto simp: none apply_options_of_def MustBeControllableBy_def applyOnceOnly_def C ApplyOnceOnlyOff_def)
  have st: "stWorkloads (acStatus ?ac) = [recorded_workload ''old'' old_reference]" "cwsScopes (recorded_workload n r) = []" for n r
    by (simp_all add: config_example_ac_def recorded_workload_def)
  have applied: "workloads_Apply ?C (SetNamespaceInCtx (acNamespace ?ac)) (stWorkloads (acStatus ?ac)) [web_instance]
      (apply_options_of ?C ?ac) fresh_world = Some (Inr [web_instance\<lparr>wiWorkload := v\<rparr>], kw_store v fresh_world)"
    by (simp add: workloads_Apply_def apply_workload_def Let_def web_instance_def apply_object_def C v ApplyOutputRef_def
        to_be_dereferenced_def findDereferencedScopes_def List.map_filter_def st)
  have "old_reference \<noteq> reference_to v" unfolding rv by (simp add: old_reference_def reference_to_def)
  then have e: "eligible ''default'' (stWorkloads (acStatus ?ac)) [web_instance\<lparr>wiWorkload := v\<rparr>] = [garbage_object ''default'' old_reference]"
    by (simp add: eligible_def applied_references_def config_example_ac_def recorded_workload_def web_instance_def IsRevisionWorkload_def
        old_reference_def strings_HasPrefix_def)
  have "uName v = ''web''" using arg_cong [OF rv, of trName] by (simp add: reference_to_def)
  then have d: "kDelete config_kube (object_ref (garbage_object ''default'' old_reference)) (kw_store v fresh_world)
      = (Some not_found, kw_store v fresh_world)"
    by (simp add: config_kube_def example_kube_def kw_store_def none object_ref_def garbage_object_def old_reference_def blank_object_def)
  have r: "reference_to v = web_reference" using rv by (simp add: web_reference_def) (simp add: reference_to_def)
  have f: "acNamespace ?ac = ''default''" "\<not> is_inactive ?ac" "stRollingStatus (acStatus ?ac) = NotRolling" "no_hooks ?C"
    by (simp_all add: config_example_ac_def is_inactive_def isControlledByApp_def no_hooks_def config_example_def)
  have ra: "render_and_apply ?C ?ac ?ac [] fresh_world = Some (finish_reconcile ?C ?ac [web_instance\<lparr>wiWorkload := v\<rparr>] []
      (set_templated ?ac) [rendered_event, applied_event] (kw_store v fresh_world))"
    by (simp only: render_and_apply_def example_rendered Let_def applied option.case sum.case prod.case append.simps)
  have t: "set_templated ?ac = ?ac" by (simp add: set_templated_def on_config_status_def f)
  let ?wls = "[web_instance\<lparr>wiWorkload := v\<rparr>]"
  obtain evs where g: "collect_garbage ?C (acNamespace ?ac) (eligible (acNamespace ?ac) (stWorkloads (acStatus ?ac)) ?wls)
      (kw_store v fresh_world) = ((None, evs), kw_store v fresh_world)"
    unfolding f(1) e using d by (simp add: confirmDeleteOnApplyOnceMode_def C ApplyOnceOnlyOff_def not_found_def)
  obtain ac3 w3 where u: "config_updateStatus ?C ?ac ?ac ?wls (kw_store v fresh_world) = (ac3, w3)" by (metis prod.exhaust)
  define ac' where "ac' = on_config_status (\<lambda>s. s\<lparr>stDependency := []\<rparr>) ac3"
  have fin: "finish_reconcile ?C ?ac ?wls [] ?ac [rendered_event, applied_event] (kw_store v fresh_world)
      = ((0, None), ac', [rendered_event, applied_event] @ evs, w3)"
    by (simp only: finish_reconcile_def g u prod.case option.case list.size ac'_def simp_thms if_False)
  have ws: "stWorkloads (acStatus ac') = [patch_workload_status [recorded_workload ''old'' old_reference] (Status (web_instance\<lparr>wiWorkload := v\<rparr>))]"
    using config_updateStatus_fields(1) [OF u] by (simp add: ac'_def on_config_status_def st)
  have run: "ACReconcile ?C ?ac fresh_world =
      Some ((0, None), updateObservedGeneration ac', [rendered_event, applied_event] @ evs, w3)"
    unfolding ACReconcile_no_hooks [OF f(4)] ra t fin using f(2) by simp
  have "cwsReference (Status (web_instance\<lparr>wiWorkload := v\<rparr>)) = web_reference" by (simp add: r)
  then have "map (\<lambda>s. (cwsReference s, cwsComponentRevisionName s, cwsDependencyUnsatisfied s))
      (stWorkloads (acStatus (updateObservedGeneration ac'))) = [(web_reference, ''web-v1'', False)]"
    by (simp add: updateObservedGeneration_def on_config_status_def ws patch_workload_status_def observe_workload_def Let_def
        recorded_workload_def web_instance_def)
  with run show ?thesis by (intro exI conjI)
qed

lemma no_hooks_example: "no_hooks (config_example comps mode)"
  by (simp add: no_hooks_def config_example_def)

lemma example_status_wf: "status_wf (acStatus config_example_ac)"
  by (simp add: status_wf_def plain_references_def status_references_def config_example_ac_def recorded_workload_def
      old_reference_def status_waits_def)

theorem reconciled_status_invariant_witness:
  "\<exists>ac' evs w'. ACReconcile (config_example [web_oam] ''off'') config_example_ac fresh_world = Some ((0, None), ac', evs, w') \<and>
     status_wf (acStatus ac')"
  using example_reconciled reconciled_status_invariant [OF no_hooks_example example_status_wf] by blast

theorem applied_is_recorded_witness:
  "\<exists>ac' evs w'. ACReconcile (config_example [web_oam] ''off'') config_example_ac fresh_world = Some ((0, None), ac', evs, w') \<and>
     stObservedGeneration (acStatus ac') = 3 \<and> map cwsAppliedComponentRevision (stWorkloads (acStatus ac')) = [''web-v1'']"
proof -
  obtain ac' evs w' where r: "ACReconcile (config_example [web_oam] ''off'') config_example_ac fresh_world = Some ((0, None), ac', evs, w')"
    and ws: "map (\<lambda>s. (cwsReference s, cwsComponentRevisionName s, cwsDependencyUnsatisfied s)) (stWorkloads (acStatus ac')) =
       [(web_reference, ''web-v1'', False)]"
    using example_reconciled by (elim exE conjE) (rule that)
  have "\<not> is_inactive config_example_ac" by (simp add: is_inactive_def isControlledByApp_def config_example_ac_def)
  from applied_is_recorded [OF no_hooks_example this r] obtain wls' where
    reports: "map status_report (stWorkloads (acStatus ac')) = map (applied_report (acGeneration config_example_ac)) wls'"
    and g: "stObservedGeneration (acStatus ac') = acGeneration config_example_ac" by blast
  obtain s where s: "stWorkloads (acStatus ac') = [s]" "cwsComponentRevisionName s = ''web-v1''" "\<not> cwsDependencyUnsatisfied s"
    using ws by auto
  with reports have "cwsAppliedComponentRevision s = ''web-v1''"
    by (auto simp: status_report_def applied_report_def split: if_splits)
  with g s r show ?thesis by (auto simp: config_example_ac_def)
qed

theorem garbage_is_exact_witness:
  "let ws = [recorded_workload ''old'' old_reference];
       gone = eligible ''default'' ws [web_instance]
   in reference_to ` set gone = {old_reference} \<and> old_reference \<notin> status_references (map Status [web_instance])"
proof -
  let ?ws = "[recorded_workload ''old'' old_reference]"
  have plain: "plain_references ?ws"
    by (simp add: plain_references_def status_references_def recorded_workload_def old_reference_def)
  have refs: "status_references ?ws = {old_reference}" by (simp add: status_references_def recorded_workload_def)
  have new: "old_reference \<notin> status_references (map Status [web_instance])"
    unfolding references_Status by (simp add: applied_references_def web_instance_def reference_to_def old_reference_def)
  have "\<not> strings_HasPrefix (trName old_reference) (cwsComponentName (recorded_workload ''old'' old_reference) @ ''-'')"
    by (simp add: old_reference_def recorded_workload_def strings_HasPrefix_def)
  moreover have "\<not> wiRevisionEnabled web_instance" by (simp add: web_instance_def)
  moreover have "cwsReference (recorded_workload ''old'' old_reference) = old_reference" "cwsTraits (recorded_workload ''old'' old_reference) = []"
    by (simp_all add: recorded_workload_def)
  ultimately show ?thesis
    using garbage_is_exact [OF plain, of "''default''" "[web_instance]"] new by (auto simp: Let_def)
qed

section \<open>A context\<close>

definition example_context :: app_context where
  "example_context = \<lparr>cxName = ''shop'', cxNamespace = ''default'', cxUID = ''cx'', cxLabels = None, cxAnnotations = None,
     cxOwnerReferences = [], cxRevisionName = ''shop-v1'', cxStatus = acStatus config_example_ac\<rparr>"

text \<open>A server that has the context and its revision, but not the component.\<close>

definition context_example :: "kube_world context_client" where
  "context_example = \<lparr>xcClient = config_example [] ''off'', xcGetContext = (\<lambda>n w. (Inr example_context, w)), xcMapper = None,
     xcGetRevision = (\<lambda>n w. (Inr ''shop'', w)), xcDecode = (\<lambda>r. Inr config_example_ac), xcPatchStatus = (\<lambda>a b w. (None, w))\<rparr>"

lemma context_example_fails:
  "ACReconcile (context_reconciler context_example) (config_of_context example_context config_example_ac) w =
     Some ((0, Some ''cannot render components: cannot get component web: not found''),
       updateObservedGeneration (config_of_context example_context config_example_ac),
       [WarningEvent ''CannotRenderComponents'' ''cannot get component web: not found''], w)"
  unfolding ACReconcile_no_hooks [OF context_reconciler_no_hooks]
  by (simp add: is_inactive_def isControlledByApp_def render_and_apply_def Render_def rollout_phase_def config_of_context_def
      example_context_def config_example_simps effective_name_def Let_def renderComponent_def GetComponent_def
      context_reconciler_def context_example_def errors_Wrap_def not_found_def)

theorem failed_context_counts_as_applied_witness:
  "\<exists>d evs ac'. context_Reconcile context_example (''default'', ''shop'') fresh_world = Some ((d, None), evs, fresh_world) \<and>
     ACReconcile (context_reconciler context_example) (config_of_context example_context config_example_ac) fresh_world =
       Some ((0, Some ''cannot render components: cannot get component web: not found''), ac', evs, fresh_world) \<and>
     map cwsAppliedComponentRevision (stWorkloads (cxStatus example_context)) = [''''] \<and>
     map cwsAppliedComponentRevision (stWorkloads (acStatus ac')) = [''old-v1'']"
proof -
  have X: "xcGetContext context_example (''default'', ''shop'') fresh_world = (Inr example_context, fresh_world)" "xcMapper context_example = None"
    "xcGetRevision context_example n fresh_world = (Inr ''shop'', fresh_world)" "xcDecode context_example r = Inr config_example_ac"
    "xcPatchStatus context_example a b fresh_world = (None, fresh_world)" for n r a b
    by (simp_all add: context_example_def)
  let ?ac = "updateObservedGeneration (config_of_context example_context config_example_ac)"
  note f = failed_context_counts_as_applied [OF X(1,2,3,4) context_example_fails X(5)]
  have before: "stWorkloads (cxStatus example_context) = [recorded_workload ''old'' old_reference]"
    by (simp add: example_context_def config_example_ac_def)
  with f have "map cwsAppliedComponentRevision (stWorkloads (acStatus ?ac)) = [''old-v1'']"
    by (simp add: recorded_workload_def)
  moreover have "map cwsAppliedComponentRevision (stWorkloads (cxStatus example_context)) = ['''']"
    by (simp add: before recorded_workload_def)
  moreover obtain d where "context_Reconcile context_example (''default'', ''shop'') fresh_world =
      Some ((d, None), [WarningEvent ''CannotRenderComponents'' ''cannot get component web: not found''], fresh_world)"
    using f by auto
  ultimately show ?thesis using context_example_fails [of fresh_world] by (intro exI conjI) assumption+
qed

theorem context_never_waits_witness:
  "\<exists>d r evs w'. context_Reconcile context_example (''default'', ''shop'') fresh_world = Some ((d, r), evs, w') \<and> (d = 0 \<or> d = 5000000000)"
proof -
  have "context_Reconcile context_example (''default'', ''shop'') fresh_world \<noteq> None"
    unfolding context_Reconcile_def
    by (simp add: Let_def context_example_fails) (simp add: context_example_def context_example_fails [unfolded context_example_def])
  then obtain d r evs w' where c: "context_Reconcile context_example (''default'', ''shop'') fresh_world = Some ((d, r), evs, w')" by auto
  from context_never_waits [OF c] c show ?thesis by blast
qed

section \<open>Applying\<close>

text \<open>An unchanged pod is not written again in the mode that applies once.\<close>

definition applied_pod :: unstructured where
  "applied_pod = (example_object ''v1'' ''Pod'' ''web'')
     \<lparr>uLabels := Some [LabelOAMResourceType \<mapsto> ResourceTypeWorkload, LabelAppComponentRevision \<mapsto> ''web-v1''],
      uAnnotations := Some [AnnotationAppGeneration \<mapsto> ''3'']\<rparr>"

theorem apply_once_is_exact_witness:
  "let C = config_example [] ''on'';
       w = fresh_world\<lparr>kwObjects := [object_ref applied_pod \<mapsto> applied_pod]\<rparr>
   in apply_object C uName applied_pod [] ''default'' (apply_options_of C config_example_ac) w = (Inr applied_pod, w)"
proof -
  let ?C = "config_example [] ''on''" and ?w = "fresh_world\<lparr>kwObjects := [object_ref applied_pod \<mapsto> applied_pod]\<rparr>"
  have pod: "uAPIVersion applied_pod = ''v1''" "uKind applied_pod = ''Pod''" "uName applied_pod = ''web''"
    by (simp_all add: applied_pod_def)
  have g: "kGet (ccKube ?C) (uAPIVersion applied_pod) (uKind applied_pod) (uNamespace applied_pod, uName applied_pod) ?w = (Inr applied_pod, ?w)"
    by (simp add: config_example_def config_kube_def object_ref_def pod)
  have n: "uName applied_pod \<noteq> ''''" by (simp add: pod)
  have c: "counts_as_unchanged ?C config_example_ac (Some applied_pod) applied_pod"
    by (simp add: counts_as_unchanged_def config_example_def ApplyOnceOnlyOff_def applied_pod_def map_get_def
        LabelOAMResourceType_def LabelAppComponentRevision_def)
  have m: "MustBeControllableBy (ccKube ?C) u (Some applied_pod) applied_pod = None" for u
    by (simp add: MustBeControllableBy_def config_example_def config_kube_def example_kube_def applied_pod_def)
  have "apply_object ?C uName applied_pod [] ''default'' (apply_options_of ?C config_example_ac) ?w = (Inr applied_pod, ?w)"
    using apply_once_is_exact [OF g n, of uName "''default''" config_example_ac] c m by (simp add: existing_of_def)
  then show ?thesis by (simp add: Let_def)
qed

text \<open>A pod that waits is not created, in no namespace, while another one is.\<close>

definition waiting_instance :: workload_instance where
  "waiting_instance = web_instance\<lparr>wiHasDep := True\<rparr>"

definition other_instance :: workload_instance where
  "other_instance = web_instance\<lparr>wiWorkload := example_object ''v1'' ''Pod'' ''db''\<rparr>"

definition absent :: "cp_reference \<Rightarrow> kube_world \<Rightarrow> bool" where
  "absent r w \<longleftrightarrow> (\<forall>ns. kwObjects w \<lparr>refAPIVersion = trAPIVersion r, refKind = trKind r, refName = trName r, refNamespace = ns\<rparr> = None)"

lemma absent_store: "trUID r = '''' \<Longrightarrow> reference_to u \<noteq> r \<Longrightarrow> absent r w \<Longrightarrow> absent r (kw_store u w)"
  by (cases r) (auto simp: absent_def kw_store_def object_ref_def reference_to_def)

lemma absent_frame: "trUID r = '''' \<Longrightarrow> frame_of (config_example comps mode) r (absent r)"
  by (auto simp: frame_of_def config_example_def config_kube_def example_kube_def kw_patch_def intro: absent_store
      split: option.splits)

lemma example_same_objects: "same_objects_doc (config_example comps mode)"
  by (auto simp: same_objects_doc_def config_example_def config_kube_def reference_to_def split: option.splits)

theorem waiting_object_is_untouched_witness:
  "\<exists>wls w'. workloads_Apply (config_example [] ''off'') ''default'' [] [waiting_instance, other_instance] [] fresh_world =
      Some (Inr wls, w') \<and> absent web_reference w' \<and> w' \<noteq> fresh_world"
proof -
  let ?C = "config_example [] ''off''"
  have C: "ccKube ?C = config_kube" "ccOrder ?C = (\<lambda>ks. ks)" by (simp_all add: config_example_def)
  have none: "kwObjects fresh_world r = None" for r by (simp add: fresh_world_def)
  obtain v where v: "Apply config_kube (example_object ''v1'' ''Pod'' ''db'') [] fresh_world = ((None, v), kw_store v fresh_world)"
    using config_kube_creates [of "example_object ''v1'' ''Pod'' ''db''" fresh_world "[]"] by (auto simp: none)
  have run: "workloads_Apply ?C ''default'' [] [waiting_instance, other_instance] [] fresh_world =
      Some (Inr [waiting_instance, other_instance\<lparr>wiWorkload := v\<rparr>], kw_store v fresh_world)"
    by (simp add: workloads_Apply_def apply_workload_def Let_def web_instance_def waiting_instance_def other_instance_def
        apply_object_def C v ApplyOutputRef_def List.map_filter_def)
  have sp: "\<forall>wl \<in> set [waiting_instance, other_instance]. spares ?C web_reference wl"
    by (simp add: spares_def waiting_instance_def other_instance_def web_instance_def outputs_spare_def inputs_keep_names_def
        web_reference_def reference_to_def)
  have "absent web_reference (kw_store v fresh_world)"
    by (rule waiting_object_is_untouched [OF absent_frame example_same_objects sp _ _ run])
      (simp_all add: web_reference_def absent_def fresh_world_def)
  moreover have "kw_store v fresh_world \<noteq> fresh_world"
    by (simp add: kw_store_def fresh_world_def)
  ultimately show ?thesis using run by blast
qed

section \<open>No components\<close>

text \<open>A server with a configuration that has no components.\<close>

definition config_without_components :: app_config where
  "config_without_components = config_example_ac\<lparr>acComponents := []\<rparr>"

theorem empty_configuration_panics_witness:
  "config_Reconcile ((config_example [] ''off'')\<lparr>ccGetConfig := \<lambda>n w. (Inr config_without_components, w)\<rparr>) (''default'', ''shop'') fresh_world = None"
  by (rule empty_configuration_panics [of _ _ _ config_without_components fresh_world])
    (simp_all add: config_without_components_def config_example_def config_example_ac_def is_inactive_def isControlledByApp_def)

end
