(* ===== verification/Config_Scopes.thy ===== *)
theory Config_Scopes
  imports Config_Example
begin

text \<open>
  Membership of a workload in a scope: joining it writes one reference, joining again writes nothing,
  and leaving it writes the scope as it was.
\<close>

section \<open>Lists of references\<close>

lemma reference_index_refl: "reference_index r [reference_json r] = Some (Some 0)"
  by (simp add: reference_json_def is_reference_def)

text \<open>An index is the first one, and nothing before it is another value than a map.\<close>

lemma reference_index_less: "reference_index r refs = Some (Some i) \<Longrightarrow> i < length refs"
  by (induction r refs arbitrary: i rule: reference_index.induct) (auto split: if_splits)

lemma reference_index_joined:
  "reference_index r refs = Some None \<Longrightarrow> reference_index r (refs @ [reference_json r]) = Some (Some (length refs))"
  by (induction r refs rule: reference_index.induct) (auto simp: reference_index_refl split: if_splits)

lemma swap_remove_last [simp]: "swap_remove (length xs) (xs @ [x]) = xs"
  by (simp add: swap_remove_def)

text \<open>In the middle the order changes, the other references do not.\<close>

lemma mset_swap_remove:
  assumes "i < length xs"
  shows "mset (swap_remove i xs) = mset xs - {#xs ! i#}"
proof -
  obtain ys y where xs: "xs = ys @ [y]" using assms by (cases xs rule: rev_cases) auto
  show ?thesis
  proof (cases "i = length ys")
    case False
    then have "i < length ys" using assms xs by simp
    then show ?thesis by (simp add: xs swap_remove_def list_update_append nth_append mset_update)
  qed (simp add: xs)
qed

section \<open>Joining and leaving\<close>

text \<open>What fieldpath does: a value that was set is read back, and setting the old one restores the object.  Nothing is assumed of the empty path.\<close>

definition paths_doc :: "'w config_client \<Rightarrow> bool" where
  "paths_doc C \<longleftrightarrow>
     (\<forall>p v u u'. p \<noteq> '''' \<longrightarrow> ccSetValue C p v u = Inr u' \<longrightarrow> ccGetValue C u' p = Inr v) \<and>
     (\<forall>p v old u u'. p \<noteq> '''' \<longrightarrow> ccGetValue C u p = Inr old \<longrightarrow> ccSetValue C p v u = Inr u' \<longrightarrow> ccSetValue C p old u' = Inr u)"

text \<open>
  C37: Joining a scope and leaving it is a round trip.  Let a workload not be among the references of a
  scope, and let joining it write the scope.  Then what is written has exactly the one reference more;
  joining again, when the scope is read as it was written, writes nothing; and leaving it writes the scope
  as it was before.
\<close>

theorem scope_membership_roundtrip:
  assumes "paths_doc C" and "FetchScopeDefinition C appNs s w = (Inr p, w1)" and "p \<noteq> ''''"
    and "ccGetValue C s p = Inr (JArray refs)" and "reference_index r refs = Some None"
    and "ccSetValue C p (JArray (refs @ [reference_json r])) s = Inr s'"
    and "ccUpdateObject C s' w1 = (None, w2)"
    and "get_object C (cssReference st) ns w2 = (Inr s', w3)" and "FetchScopeDefinition C appNs s' w3 = (Inr p, w4)"
  shows "applyScope C appNs wl s r w = Some (Inr (), w2) \<and>
    ccGetValue C s' p = Inr (JArray (refs @ [reference_json r])) \<and>
    applyScope C appNs wl s' r w3 = Some (Inr (), w4) \<and>
    (\<exists>message. applyScopeRemoval C appNs ns r st w2 = Some (map_error message (call_error (ccUpdateObject C s w4))))"
proof -
  have join: "applyScope C appNs wl s r w = Some (Inr (), w2)" using assms by (simp add: applyScope_def)
  have get: "ccGetValue C s' p = Inr (JArray (refs @ [reference_json r]))"
    using assms(1,3,6) unfolding paths_doc_def by blast
  have i: "reference_index r (refs @ [reference_json r]) = Some (Some (length refs))"
    by (rule reference_index_joined [OF assms(5)])
  have again: "applyScope C appNs wl s' r w3 = Some (Inr (), w4)" using get i assms(3,9) by (simp add: applyScope_def)
  have "ccSetValue C p (JArray refs) s' = Inr s" using assms(1,3,4,6) unfolding paths_doc_def by blast
  with get i assms(3,8,9) have "applyScopeRemoval C appNs ns r st w2 =
      Some (map_error (\<lambda>err. errors_Wrap (errText err) (''cannot apply scope '' @ scope_name C (trAPIVersion (cssReference st))
        (trKind (cssReference st)) (trName (cssReference st)))) (call_error (ccUpdateObject C s w4)))"
    by (simp add: applyScopeRemoval_def Let_def)
  then have "\<exists>message. applyScopeRemoval C appNs ns r st w2 = Some (map_error message (call_error (ccUpdateObject C s w4)))"
    by (rule exI [of "\<lambda>m. applyScopeRemoval C appNs ns r st w2 = Some (map_error m (call_error (ccUpdateObject C s w4)))"])
  with join get again show ?thesis by simp
qed

section \<open>An example\<close>

text \<open>A client whose fieldpath knows one list of references, which an object keeps as a word.\<close>

definition scope_object :: "string \<Rightarrow> unstructured" where
  "scope_object members = (example_object ''v1'' ''HealthScope'' ''health'')\<lparr>uRest := members\<rparr>"

definition scope_client :: "kube_world config_client" where
  "scope_client = (config_example [] ''off'')
     \<lparr>ccGetValue := \<lambda>u p. if uRest u = ''free'' then Inr (JArray [])
        else if uRest u = ''joined'' then Inr (JArray [reference_json web_reference]) else Inl not_found,
      ccSetValue := \<lambda>p v u. if v = JArray [] then Inr (u\<lparr>uRest := ''free''\<rparr>)
        else if v = JArray [reference_json web_reference] then Inr (u\<lparr>uRest := ''joined''\<rparr>) else Inl ''unknown''\<rparr>"

lemma scope_client_paths: "paths_doc scope_client"
  by (auto simp: paths_doc_def scope_client_def reference_json_def split: if_splits)

definition scope_status :: config_scope_status where
  "scope_status = \<lparr>cssStatus = '''', cssReference = \<lparr>trAPIVersion = ''v1'', trKind = ''HealthScope'', trName = ''health'', trUID = ''''\<rparr>\<rparr>"

theorem scope_membership_roundtrip_witness:
  "let w2 = kw_store (scope_object ''joined'') fresh_world in
   applyScope scope_client ''default'' web_instance (scope_object ''free'') web_reference fresh_world = Some (Inr (), w2) \<and>
   applyScope scope_client ''default'' web_instance (scope_object ''joined'') web_reference w2 = Some (Inr (), w2) \<and>
   applyScopeRemoval scope_client ''default'' ''default'' web_reference scope_status w2 =
     Some (Inr (), kw_store (scope_object ''free'') w2)"
proof -
  let ?w = "kw_store (scope_object ''joined'') fresh_world"
  have fetch: "FetchScopeDefinition scope_client ''default'' (scope_object m) w = (Inr ''spec.refs'', w)" for m w
    by (simp add: FetchScopeDefinition_def GetDefinitionName_def GetDefinition_def scope_client_def config_example_def Let_def
        scope_object_def)
  have gets: "ccGetValue scope_client (scope_object ''free'') ''spec.refs'' = Inr (JArray [])"
    by (simp add: scope_client_def scope_object_def)
  have setting: "ccSetValue scope_client ''spec.refs'' (JArray ([] @ [reference_json web_reference])) (scope_object ''free'')
      = Inr (scope_object ''joined'')"
    by (simp add: scope_client_def scope_object_def)
  have update: "ccUpdateObject scope_client u w = (None, kw_store u w)" for u w
    by (simp add: scope_client_def config_example_def)
  have reads: "get_object scope_client (cssReference scope_status) ''default'' ?w = (Inr (scope_object ''joined''), ?w)"
    by (simp add: get_object_def scope_client_def config_example_def config_kube_def scope_status_def kw_store_def object_ref_def
        scope_object_def)
  have p: "''spec.refs'' \<noteq> ''''" and none: "reference_index web_reference [] = Some None" by simp_all
  from scope_membership_roundtrip [OF scope_client_paths fetch p gets none setting update reads fetch, of web_instance]
  show ?thesis by (auto simp: Let_def update)
qed

end
