(* ===== verification/Config_Parameters.thy ===== *)
theory Config_Parameters
  imports Config_Example
begin

text \<open>What resolving the parameters of a component gives: an exact specification of \<open>resolve\<close>.\<close>

section \<open>The two loops\<close>

definition plain_parameter :: "string \<Rightarrow> int_or_string \<Rightarrow> parameter" where
  "plain_parameter n v = \<lparr>pmName = n, pmValue = v, pmFieldPaths = []\<rparr>"

lemma set_parameters_snoc:
  "set_parameters (cpv @ [(n, v)]) = AList.update n (plain_parameter n v) (set_parameters cpv)"
  by (simp add: set_parameters_def plain_parameter_def)

lemma set_parameters_map: "map_of (set_parameters cpv) n = map_option (plain_parameter n) (map_of (rev cpv) n)"
proof (induction cpv rule: rev_induct)
  case (snoc x cpv)
  then show ?case by (cases x) (auto simp: set_parameters_snoc update_conv')
qed (simp add: set_parameters_def)

lemma set_parameters_distinct: "distinct (map fst (set_parameters cpv))"
proof (induction cpv rule: rev_induct)
  case (snoc x cpv)
  then show ?case by (cases x) (simp add: set_parameters_snoc distinct_update)
qed (simp add: set_parameters_def)

lemma fill_snoc:
  "fill_field_paths (cp @ [p]) s = AList.map_entry (cpName p) (\<lambda>x. x\<lparr>pmFieldPaths := cpFieldPaths p\<rparr>) (fill_field_paths cp s)"
  by (simp add: fill_field_paths_def)

lemma fill_keys: "map fst (fill_field_paths cp s) = map fst s"
proof -
  have keys: "map fst (AList.map_entry k f xs) = map fst xs" for k and f :: "parameter \<Rightarrow> parameter" and xs
    by (induction xs) auto
  show ?thesis by (induction cp rule: rev_induct) (simp_all add: fill_snoc keys fill_field_paths_def [of "[]"])
qed

text \<open>The paths of the last declaration of a parameter.\<close>

definition paths_of :: "component_parameter list \<Rightarrow> string \<Rightarrow> string list option" where
  "paths_of cp n = map_of (rev (map (\<lambda>p. (cpName p, cpFieldPaths p)) cp)) n"

lemma paths_of_snoc: "paths_of (cp @ [p]) n = (if n = cpName p then Some (cpFieldPaths p) else paths_of cp n)"
  by (simp add: paths_of_def)

lemma fill_map:
  "map_of (fill_field_paths cp s) n =
     map_option (\<lambda>x. case paths_of cp n of None \<Rightarrow> x | Some fp \<Rightarrow> x\<lparr>pmFieldPaths := fp\<rparr>) (map_of s n)"
proof (induction cp rule: rev_induct)
  case Nil
  then show ?case by (simp add: fill_field_paths_def paths_of_def option.map_ident)
next
  case (snoc p cp)
  then show ?case
    by (cases "map_of s n") (auto simp: fill_snoc map_of_map_entry paths_of_snoc split: option.splits)
qed

lemma paths_of_declared: "n \<in> cpName ` set cp \<Longrightarrow> \<exists>fp. paths_of cp n = Some fp"
  by (induction cp rule: rev_induct) (auto simp: paths_of_snoc)

lemma map_filter_lookup: "set (List.map_filter f xs) = {y. \<exists>x \<in> set xs. f x = Some y}"
  by (force simp: List.map_filter_def)

lemma given_keys: "fst ` set (set_parameters cpv) = fst ` set cpv"
proof -
  have "n \<in> fst ` set (set_parameters cpv) \<longleftrightarrow> n \<in> fst ` set cpv" for n
    using set_parameters_map [of cpv n] by (simp add: map_of_eq_None_iff [symmetric] flip: not_None_eq)
      (metis (no_types, lifting) map_of_eq_None_iff option.map_disc_iff set_rev)
  then show ?thesis by blast
qed

section \<open>The specification\<close>

definition values_supported :: "component_parameter list \<Rightarrow> (string \<times> int_or_string) list \<Rightarrow> bool" where
  "values_supported cp cpv \<longleftrightarrow> fst ` set cpv \<subseteq> cpName ` set cp"

definition required_given :: "component_parameter list \<Rightarrow> (string \<times> int_or_string) list \<Rightarrow> bool" where
  "required_given cp cpv \<longleftrightarrow> cpName ` {p \<in> set cp. cpRequired p = Some True} \<subseteq> fst ` set cpv"

text \<open>
  C38: Resolving parameters is exact.  It fails exactly if a value is given for a parameter that the component
  does not have, or none for one that it requires.  Otherwise it gives, in some order, one parameter for each
  name that has a value, with the last value that is given for the name and the paths of the last
  declaration of it.
\<close>

theorem resolve_is_exact:
  assumes order: "\<And>ks. set (ccOrder C ks) = set ks"
  shows "case resolve C cp cpv of
      Inl err \<Rightarrow> \<not> (values_supported cp cpv \<and> required_given cp cpv)
    | Inr ps \<Rightarrow> values_supported cp cpv \<and> required_given cp cpv \<and>
        set ps = {\<lparr>pmName = n, pmValue = v, pmFieldPaths = fp\<rparr> | n v fp. map_of (rev cpv) n = Some v \<and> paths_of cp n = Some fp}"
proof (cases "values_supported cp cpv \<and> required_given cp cpv")
  case False
  then consider v where "find (\<lambda>v. fst v \<notin> cpName ` set cp) cpv = Some v"
    | p where "find (\<lambda>v. fst v \<notin> cpName ` set cp) cpv = None"
        "find (\<lambda>p. cpName p \<notin> fst ` set (set_parameters cpv) \<and> cpRequired p = Some True) cp = Some p"
    by (cases "find (\<lambda>v. fst v \<notin> cpName ` set cp) cpv";
        cases "find (\<lambda>p. cpName p \<notin> fst ` set (set_parameters cpv) \<and> cpRequired p = Some True) cp")
      (auto simp: values_supported_def required_given_def find_None_iff given_keys)
  then show ?thesis using False by cases (simp_all add: resolve_def Let_def)
next
  case True
  let ?s = "fill_field_paths cp (set_parameters cpv)"
  have none: "find (\<lambda>v. fst v \<notin> cpName ` set cp) cpv = None"
    "find (\<lambda>p. cpName p \<notin> fst ` set (set_parameters cpv) \<and> cpRequired p = Some True) cp = None"
    using True by (auto simp: find_None_iff values_supported_def required_given_def given_keys)
  have lookup: "map_of ?s n = Some x \<longleftrightarrow>
      (\<exists>v fp. x = \<lparr>pmName = n, pmValue = v, pmFieldPaths = fp\<rparr> \<and> map_of (rev cpv) n = Some v \<and> paths_of cp n = Some fp)" for n x
  proof (cases "map_of (rev cpv) n")
    case (Some v)
    then have "n \<in> fst ` set cpv" by (metis map_of_eq_None_iff option.distinct(1) set_rev)
    then have "n \<in> cpName ` set cp" using True unfolding values_supported_def by blast
    then obtain fp where "paths_of cp n = Some fp" using paths_of_declared by blast
    with Some show ?thesis by (auto simp: fill_map set_parameters_map plain_parameter_def)
  qed (simp add: fill_map set_parameters_map)
  have "set (List.map_filter (map_of ?s) (ccOrder C (map fst ?s))) = {x. \<exists>n. map_of ?s n = Some x}"
    unfolding map_filter_lookup order by auto (metis fst_conv map_of_SomeD)
  then show ?thesis using True unfolding lookup by (auto simp: resolve_def none Let_def)
qed

section \<open>An example\<close>

definition text_value :: "string \<Rightarrow> int_or_string" where
  "text_value s = \<lparr>IosType = IosString, IntVal = 0, StrVal = s\<rparr>"

definition image_parameters :: "component_parameter list" where
  "image_parameters =
     [\<lparr>cpName = ''image'', cpFieldPaths = [''spec.image''], cpRequired = Some True\<rparr>,
      \<lparr>cpName = ''port'', cpFieldPaths = [''spec.port''], cpRequired = None\<rparr>]"

theorem resolve_is_exact_witness:
  "resolve (config_example [] ''off'') image_parameters [(''image'', text_value ''v1''), (''image'', text_value ''v2'')] =
     Inr [\<lparr>pmName = ''image'', pmValue = text_value ''v2'', pmFieldPaths = [''spec.image'']\<rparr>] \<and>
   \<not> required_given image_parameters [(''port'', text_value ''80'')]"
proof -
  let ?C = "config_example [] ''off''"
  have order: "set (ccOrder ?C ks) = set ks" for ks by (simp add: config_example_def)
  have "resolve ?C image_parameters [(''image'', text_value ''v1''), (''image'', text_value ''v2'')] =
      Inr [\<lparr>pmName = ''image'', pmValue = text_value ''v2'', pmFieldPaths = [''spec.image'']\<rparr>]"
    by (simp add: resolve_def image_parameters_def set_parameters_def fill_field_paths_def Let_def List.map_filter_def config_example_def)
  moreover have "resolve ?C image_parameters [(''port'', text_value ''80'')] =
      Inl ''required parameter image not specified''"
    by (simp add: resolve_def image_parameters_def set_parameters_def Let_def config_example_def)
  with resolve_is_exact [of ?C image_parameters "[(''port'', text_value ''80'')]", OF order]
  have "\<not> (values_supported image_parameters [(''port'', text_value ''80'')] \<and> required_given image_parameters [(''port'', text_value ''80'')])"
    by simp
  moreover have "values_supported image_parameters [(''port'', text_value ''80'')]"
    by (simp add: values_supported_def image_parameters_def)
  ultimately show ?thesis by blast
qed

end
