(* ===== verification/Config_Components.thy ===== *)
theory Config_Components
  imports Config_Controller App_History_Properties
begin

text \<open>
  What the controller of application configurations does at an event of a component: component.go
  and component_custom_revision.go.  A changed component gets a controller revision, old revisions
  are deleted, and configurations that use the component are reconciled.

  utils.CompareWithRevision runs its function once: wait.ExponentialBackoff ends when the function has
  an error and when it says that it is done, and it never says anything else.
\<close>

section \<open>Types\<close>

record component_revision =
  cvName :: string
  cvNamespace :: string
  cvOwnerReferences :: "owner_ref list"
  cvLabels :: string_map
  cvRevision :: int
  cvData :: revision_data

text \<open>
  The client of the handler.  \<open>hcEqualSpec\<close> is reflect.DeepEqual on the specifications of two components,
  \<open>hcDecode\<close> decodes text over a component, \<open>hcSelector\<close> is the error of LabelSelectorAsSelector,
  \<open>hcListRevisions\<close> lists by a label in all namespaces.
\<close>

record 'w component_client =
  hcRevisionLimit :: int
  hcHookURL :: string
  hcListConfigs :: "'w \<Rightarrow> (api_error + app_config list) \<times> 'w"
  hcGetRevision :: "nsname \<Rightarrow> 'w \<Rightarrow> (api_error + revision_data) \<times> 'w"
  hcUnmarshal :: "raw_extension \<Rightarrow> string + oam_component"
  hcEqualSpec :: "oam_component \<Rightarrow> oam_component \<Rightarrow> bool"
  hcMarshalHook :: "nsname list \<Rightarrow> oam_component \<Rightarrow> string + string"
  hcNewRequest :: "string \<Rightarrow> string option"
  hcPost :: "string \<Rightarrow> string \<Rightarrow> 'w \<Rightarrow> (string + http_response) \<times> 'w"
  hcDecode :: "string \<Rightarrow> oam_component \<Rightarrow> string option \<times> oam_component"
  hcCreateRevision :: "component_revision \<Rightarrow> 'w \<Rightarrow> api_error option \<times> 'w"
  hcGetComponent :: "nsname \<Rightarrow> 'w \<Rightarrow> (api_error + oam_component) \<times> 'w"
  hcUpdateStatus :: "oam_component \<Rightarrow> 'w \<Rightarrow> (api_error option \<times> oam_component) \<times> 'w"
  hcRetry :: "(oam_component \<times> 'w \<Rightarrow> api_error option \<times> oam_component \<times> 'w) \<Rightarrow>
     oam_component \<times> 'w \<Rightarrow> api_error option \<times> oam_component \<times> 'w"
  hcSelector :: "string \<Rightarrow> string option"
  hcListRevisions :: "(string \<times> string) \<Rightarrow> 'w \<Rightarrow> (api_error + component_revision list) \<times> 'w"
  hcDeleteRevision :: "component_revision \<Rightarrow> 'w \<Rightarrow> api_error option \<times> 'w"
  hcSort :: "int list \<Rightarrow> nat list"

section \<open>Configurations that use a component\<close>

definition uses_component :: "string \<Rightarrow> app_config \<Rightarrow> bool" where
  "uses_component n ac \<longleftrightarrow>
     list_ex (\<lambda>c. accName c = n \<or> ExtractComponentName (accRevision c) = n) (acComponents ac)"

definition isMatch :: "app_config list \<Rightarrow> string \<Rightarrow> nsname option" where
  "isMatch appConfigs n =
     map_option (\<lambda>ac. (acNamespace ac, acName ac)) (find (uses_component n) appConfigs)"

definition getRelatedAppConfig :: "'w component_client \<Rightarrow> nsname \<Rightarrow> 'w \<Rightarrow> nsname list \<times> 'w" where
  "getRelatedAppConfig C object w =
     (case hcListConfigs C w of
        (Inl err, w) \<Rightarrow> ([], w)
      | (Inr appConfigs, w) \<Rightarrow>
          (case isMatch appConfigs (snd object) of None \<Rightarrow> ([], w) | Some n \<Rightarrow> ([n], w)))"

section \<open>Comparing with the latest revision\<close>

definition unpack_revision :: "'w component_client \<Rightarrow> string \<Rightarrow> revision_data \<Rightarrow> string + oam_component" where
  "unpack_revision C rname data =
     (case data of
        RevisionComponent c \<Rightarrow> Inr c
      | RevisionOther tpy \<Rightarrow> Inl (''invalid type of revision '' @ rname @ '', type should not be '' @ tpy)
      | RevisionRaw raw \<Rightarrow> hcUnmarshal C raw)"

text \<open>Whether a new revision is needed, or the error.  A revision that is not found is compared as an empty one.\<close>

definition CompareWithRevision ::
  "'w component_client \<Rightarrow> string \<Rightarrow> string \<Rightarrow> oam_component \<Rightarrow> 'w \<Rightarrow> (string + bool) \<times> 'w" where
  "CompareWithRevision C ns latestRevision curComp w =
     (case hcGetRevision C (ns, latestRevision) w of
        (Inl err, w) \<Rightarrow>
          if \<not> errNotFound err then (Inl (errText err), w)
          else (case unpack_revision C '''' (RevisionRaw '''') of
                  Inl err \<Rightarrow> (Inl err, w) | Inr oldComp \<Rightarrow> (Inr (\<not> hcEqualSpec C curComp oldComp), w))
      | (Inr data, w) \<Rightarrow>
          (case unpack_revision C latestRevision data of
             Inl err \<Rightarrow> (Inl err, w) | Inr oldComp \<Rightarrow> (Inr (\<not> hcEqualSpec C curComp oldComp), w)))"

definition IsRevisionDiff :: "'w component_client \<Rightarrow> nsname \<Rightarrow> oam_component \<Rightarrow> 'w \<Rightarrow> (bool \<times> int) \<times> 'w" where
  "IsRevisionDiff C mt curComp w =
     (case ocLatestRevision curComp of
        None \<Rightarrow> ((True, 0), w)
      | Some r \<Rightarrow>
          (case CompareWithRevision C (fst mt) (latestName r) curComp w of
             (Inl err, w) \<Rightarrow> ((True, latestNumber r), w)
           | (Inr needNewRevision, w) \<Rightarrow> ((needNewRevision, latestNumber r), w)))"

section \<open>The hook\<close>

definition customComponentRevisionHook ::
  "'w component_client \<Rightarrow> nsname list \<Rightarrow> oam_component \<Rightarrow> 'w \<Rightarrow> (string option \<times> oam_component) \<times> 'w" where
  "customComponentRevisionHook C relatedApps c w =
     (if hcHookURL C = '''' then ((None, c), w)
      else case hcMarshalHook C relatedApps c of
             Inl err \<Rightarrow> ((Some err, c), w)
           | Inr data \<Rightarrow>
               (case hcNewRequest C (hcHookURL C) of
                  Some err \<Rightarrow> ((Some err, c), w)
                | None \<Rightarrow>
                    (case hcPost C (hcHookURL C) data w of
                       (Inl err, w) \<Rightarrow> ((Some err, c), w)
                     | (Inr resp, w) \<Rightarrow>
                         (case respBody resp of
                            Inl err \<Rightarrow> ((Some err, c), w)
                          | Inr respData \<Rightarrow>
                              if respStatusCode resp \<noteq> 200
                              then ((Some (''httpcode('' @ itoa (respStatusCode resp) @ '') err: '' @ respData), c), w)
                              else (hcDecode C respData c, w)))))"

section \<open>Deleting old revisions\<close>

definition live_revisions :: "app_config list \<Rightarrow> string list" where
  "live_revisions appConfigs =
     remdups (filter (\<lambda>n. n \<noteq> '''') (concat (map (\<lambda>ac. map accRevision (acComponents ac)) appConfigs)))"

text \<open>The revisions, sorted where some are to be deleted, and how many are.\<close>

definition sortedControllerRevision ::
  "'w component_client \<Rightarrow> app_config list \<Rightarrow> component_revision list \<Rightarrow> component_revision list \<times> int \<times> string list" where
  "sortedControllerRevision C appConfigs revisions =
     (let liveHashes = live_revisions appConfigs;
          toKill = int (length revisions) - (hcRevisionLimit C + int (length liveHashes))
      in if toKill \<le> 0 then (revisions, 0, liveHashes)
         else (sort_by (hcSort C) cvRevision revisions, toKill, liveHashes))"

fun clean_revisions ::
  "('r \<Rightarrow> 'w \<Rightarrow> api_error option \<times> 'w) \<Rightarrow> ('r \<Rightarrow> bool) \<Rightarrow> int \<Rightarrow> 'r list \<Rightarrow> 'w \<Rightarrow> string option \<times> 'w" where
  "clean_revisions delete live toKill [] w = (None, w)"
| "clean_revisions delete live toKill (r # rs) w =
     (if toKill \<le> 0 then (None, w)
      else if live r then clean_revisions delete live toKill rs w
      else (case delete r w of
              (Some err, w) \<Rightarrow> (Some (errText err), w)
            | (None, w) \<Rightarrow> clean_revisions delete live (toKill - 1) rs w))"

definition cleanupControllerRevision :: "'w component_client \<Rightarrow> oam_component \<Rightarrow> 'w \<Rightarrow> string option \<times> 'w" where
  "cleanupControllerRevision C curComp w =
     (case hcSelector C (ocName curComp) of
        Some err \<Rightarrow> (Some err, w)
      | None \<Rightarrow>
          (case hcListRevisions C (LabelControllerRevisionComponent, ocName curComp) w of
             (Inl err, w) \<Rightarrow> (Some (errText err), w)
           | (Inr revisions, w) \<Rightarrow>
               (case hcListConfigs C w of
                  (Inl err, w) \<Rightarrow> (Some (errText err), w)
                | (Inr appConfigs, w) \<Rightarrow>
                    (case sortedControllerRevision C appConfigs revisions of
                       (controllerRevisions, toKill, liveHashes) \<Rightarrow>
                         clean_revisions (hcDeleteRevision C) (\<lambda>r. cvName r \<in> set liveHashes) toKill controllerRevisions w))))"

section \<open>A new revision\<close>

definition component_UpdateStatus :: "'w component_client \<Rightarrow> oam_component \<Rightarrow> 'w \<Rightarrow> string option \<times> oam_component \<times> 'w" where
  "component_UpdateStatus C c w =
     (case hcRetry C (\<lambda>(c', w).
             case hcGetComponent C (ocNamespace c', ocName c') w of
               (Inl err, w) \<Rightarrow> (Some err, c', w)
             | (Inr c', w) \<Rightarrow>
                 (case hcUpdateStatus C (c'\<lparr>ocObservedGeneration := ocObservedGeneration c,
                                            ocLatestRevision := ocLatestRevision c\<rparr>) w of
                    ((err, c'), w) \<Rightarrow> (err, c', w)))
           (c, w) of
        (err, c, w) \<Rightarrow> (map_option errText err, c, w))"

definition ComponentKind :: string where "ComponentKind = ''Component''"

definition revision_of :: "oam_component \<Rightarrow> string \<Rightarrow> int \<Rightarrow> component_revision" where
  "revision_of c revisionName nextRevision =
     \<lparr>cvName = revisionName, cvNamespace = ocNamespace c,
      cvOwnerReferences = [\<lparr>orAPIVersion = ConfigGroupVersion, orKind = ComponentKind, orName = ocName c,
                            orUID = ocUID c, orController = Some True, orBlockOwnerDeletion = None\<rparr>],
      cvLabels = Some [LabelControllerRevisionComponent \<mapsto> ocName c],
      cvRevision = nextRevision, cvData = RevisionComponent c\<rparr>"

definition createControllerRevision ::
  "'w component_client \<Rightarrow> nsname \<Rightarrow> oam_component \<Rightarrow> 'w \<Rightarrow> (nsname list \<times> bool) \<times> 'w" where
  "createControllerRevision C mt curComp w =
     (if ocGeneration curComp = ocObservedGeneration curComp then (([], False), w)
      else (case IsRevisionDiff C mt curComp w of
          ((diff, curRevision), w) \<Rightarrow>
            if \<not> diff then (([], False), w)
            else (case getRelatedAppConfig C mt w of
                (reqs, w) \<Rightarrow>
                  (case customComponentRevisionHook C reqs curComp w of
                     ((Some err, c), w) \<Rightarrow> (([], False), w)
                   | ((None, c), w) \<Rightarrow>
                       (let nextRevision = i64 (curRevision + 1);
                            revisionName = ConstructRevisionName (snd mt) nextRevision;
                            c = c\<lparr>ocObservedGeneration := ocGeneration c,
                                  ocLatestRevision := Some \<lparr>latestName = revisionName, latestNumber = nextRevision,
                                                           latestHash = ''''\<rparr>\<rparr>
                        in case hcCreateRevision C (revision_of c revisionName nextRevision) w of
                             (Some err, w) \<Rightarrow> (([], False), w)
                           | (None, w) \<Rightarrow>
                               (case component_UpdateStatus C c w of
                                  (Some err, c, w) \<Rightarrow> (([], False), w)
                                | (None, c, w) \<Rightarrow>
                                    if hcRevisionLimit C < nextRevision
                                    then ((reqs, True), snd (cleanupControllerRevision C c w))
                                    else ((reqs, True), w)))))))"

section \<open>Events\<close>

text \<open>What is put into the queue of the controller.\<close>

datatype component_event =
  CreateEvent nsname oam_component | UpdateEvent nsname oam_component | DeleteEvent nsname | GenericEvent

definition handle_event :: "'w component_client \<Rightarrow> component_event \<Rightarrow> 'w \<Rightarrow> nsname list \<times> 'w" where
  "handle_event C ev w =
     (case ev of
        CreateEvent mt c \<Rightarrow>
          (case createControllerRevision C mt c w of ((reqs, succeed), w) \<Rightarrow> (if succeed then reqs else [], w))
      | UpdateEvent mt c \<Rightarrow>
          (case createControllerRevision C mt c w of ((reqs, succeed), w) \<Rightarrow> (if succeed then reqs else [], w))
      | DeleteEvent mt \<Rightarrow> getRelatedAppConfig C mt w
      | GenericEvent \<Rightarrow> ([], w))"

end
