(* ===== verification/Config_Components_Properties.thy ===== *)
theory Config_Components_Properties
  imports Config_Components
begin

text \<open>Which revisions of a component the handler of its events deletes.\<close>

section \<open>Deleting old revisions\<close>

text \<open>The loop deletes the first revisions that are not in use, until the first error.\<close>

fun delete_each :: "('r \<Rightarrow> 'w \<Rightarrow> api_error option \<times> 'w) \<Rightarrow> 'r list \<Rightarrow> 'w \<Rightarrow> string option \<times> 'w" where
  "delete_each delete [] w = (None, w)"
| "delete_each delete (r # rs) w =
     (case delete r w of (Some err, w) \<Rightarrow> (Some (errText err), w) | (None, w) \<Rightarrow> delete_each delete rs w)"

lemma clean_revisions_delete_each:
  "clean_revisions delete live k rs w = delete_each delete (victims live k rs) w"
  by (induction rs arbitrary: k w) (auto split: prod.splits option.splits)

definition is_live :: "app_config list \<Rightarrow> component_revision \<Rightarrow> bool" where
  "is_live acs r \<longleftrightarrow> (\<exists>ac \<in> set acs. \<exists>c \<in> set (acComponents ac). accRevision c \<noteq> '''' \<and> accRevision c = cvName r)"

lemma live_revisions_iff: "cvName r \<in> set (live_revisions acs) \<longleftrightarrow> is_live acs r"
  unfolding live_revisions_def is_live_def set_remdups set_filter set_concat set_map
  by (simp add: image_iff) metis

text \<open>
  C39: Cleaning up the revisions of a component deletes, in this order and until the first failure, revisions
  that are listed for the name of the component, whatever their namespace is.  None of them has a
  name that a configuration of any namespace refers to, and none is newer than an unused revision that
  stays.  It deletes as many as exceed the limit and the number of names that are referred to, if so many
  are unused.
\<close>

theorem component_cleanup_oldest_first:
  assumes sort: "sort_doc (hcSort C)" and sel: "hcSelector C (ocName c) = None"
    and list: "hcListRevisions C (LabelControllerRevisionComponent, ocName c) w = (Inr revs, w1)"
    and configs: "hcListConfigs C w1 = (Inr acs, w2)"
  shows "\<exists>vs. cleanupControllerRevision C c w = delete_each (hcDeleteRevision C) vs w2 \<and>
           mset vs \<subseteq># mset revs \<and> (\<forall>v \<in> set vs. \<not> is_live acs v) \<and>
           (\<forall>v \<in> set vs. \<forall>r \<in># mset revs - mset vs. \<not> is_live acs r \<longrightarrow> cvRevision v \<le> cvRevision r) \<and>
           length vs = min (nat (int (length revs) - hcRevisionLimit C - int (length (live_revisions acs))))
             (length (filter (\<lambda>r. \<not> is_live acs r) revs))"
proof -
  let ?k = "int (length revs) - hcRevisionLimit C - int (length (live_revisions acs))"
  let ?vs = "victims (is_live acs) ?k (sort_by (hcSort C) cvRevision revs)"
  have live: "(\<lambda>r. cvName r \<in> set (live_revisions acs)) = is_live acs" by (simp add: fun_eq_iff live_revisions_iff)
  have "cleanupControllerRevision C c w = delete_each (hcDeleteRevision C) ?vs w2"
    by (simp add: cleanupControllerRevision_def sel list configs sortedControllerRevision_def Let_def live
        clean_revisions_delete_each algebra_simps)
  moreover note kept_revisions [OF sort_by_sorted [OF sort, of cvRevision revs] sort_by_mset [OF sort, of cvRevision revs],
      where limit = "hcRevisionLimit C" and n = "length (live_revisions acs)" and inUse = "is_live acs"]
  ultimately show ?thesis by (intro exI [of _ ?vs] conjI)
qed

section \<open>An example\<close>

text \<open>A server that keeps a log of what was deleted.\<close>

definition web_revision :: "string \<Rightarrow> int \<Rightarrow> component_revision" where
  "web_revision ns n = \<lparr>cvName = ConstructRevisionName ''web'' n, cvNamespace = ns, cvOwnerReferences = [],
     cvLabels = Some [LabelControllerRevisionComponent \<mapsto> ''web''], cvRevision = n, cvData = RevisionRaw ''''\<rparr>"

definition log_client :: "component_revision list \<Rightarrow> (string \<times> int) list component_client" where
  "log_client revs =
     \<lparr>hcRevisionLimit = 1, hcHookURL = '''', hcListConfigs = (\<lambda>w. (Inr [], w)), hcGetRevision = (\<lambda>n w. (Inl not_found, w)),
      hcUnmarshal = (\<lambda>r. Inl ''no component''), hcEqualSpec = (=), hcMarshalHook = (\<lambda>ns c. Inr ''''),
      hcNewRequest = (\<lambda>u. None), hcPost = (\<lambda>u d w. (Inl ''no server'', w)), hcDecode = (\<lambda>s c. (None, c)),
      hcCreateRevision = (\<lambda>r w. (None, w)), hcGetComponent = (\<lambda>n w. (Inl not_found, w)),
      hcUpdateStatus = (\<lambda>c w. ((None, c), w)), hcRetry = (\<lambda>f. f), hcSelector = (\<lambda>n. None),
      hcListRevisions = (\<lambda>l w. (Inr revs, w)),
      hcDeleteRevision = (\<lambda>r w. (None, w @ [(cvNamespace r, cvRevision r)])),
      hcSort = (\<lambda>ks. sort_key ((!) ks) [0..<length ks])\<rparr>"

definition web_component_of :: "string \<Rightarrow> oam_component" where
  "web_component_of ns = \<lparr>ocName = ''web'', ocNamespace = ns, ocUID = ''c'', ocGeneration = 2, ocWorkload = '''', ocHelm = None,
     ocParameters = [], ocObservedGeneration = 1, ocLatestRevision = None\<rparr>"

text \<open>The only revision of a component in another namespace is deleted for one of this namespace.\<close>

theorem component_cleanup_oldest_first_witness:
  "snd (cleanupControllerRevision (log_client [web_revision ''prod'' 2, web_revision ''dev'' 1]) (web_component_of ''prod'') []) =
     [(''dev'', 1)]"
proof -
  let ?revs = "[web_revision ''prod'' 2, web_revision ''dev'' 1]" and ?c = "web_component_of ''prod''"
  let ?C = "log_client ?revs"
  have C: "sort_doc (hcSort ?C)" "hcSelector ?C (ocName ?c) = None" "hcListConfigs ?C [] = (Inr [], [])"
    "hcListRevisions ?C (LabelControllerRevisionComponent, ocName ?c) [] = (Inr ?revs, [])"
    by (simp_all add: log_client_def sort_key_doc)
  have free: "\<not> is_live [] r" for r by (simp add: is_live_def)
  obtain vs where run: "cleanupControllerRevision ?C ?c [] = delete_each (hcDeleteRevision ?C) vs []"
    and sub: "mset vs \<subseteq># mset ?revs" and old: "\<forall>v \<in> set vs. \<forall>r \<in># mset ?revs - mset vs. cvRevision v \<le> cvRevision r"
    and len: "length vs = 1"
    using component_cleanup_oldest_first [OF C(1,2,4,3)] by (auto simp: free log_client_def live_revisions_def)
  from len obtain v where vs: "vs = [v]" by (cases vs) auto
  with sub have "v \<in> set ?revs" by (metis insert_subset list.simps(15) set_mset_mono set_mset_mset)
  moreover have "v \<noteq> web_revision ''prod'' 2"
  proof
    assume "v = web_revision ''prod'' 2"
    with old vs show False by (simp add: web_revision_def)
  qed
  ultimately have "v = web_revision ''dev'' 1" by simp
  then show ?thesis unfolding run vs by (simp add: log_client_def web_revision_def)
qed

end
