(* ===== verification/Spec2Isabelle.thy ===== *)
theory Spec2Isabelle
  imports Rollout_Plan Rollout_Validation Dispatch App_Validation Assemble App_Rollout_Properties App_History_Properties App_Controller_Properties Definitions_Properties Config_Properties Config_Apply_Properties Config_Scopes Config_Parameters Config_Components_Properties
begin

text \<open>
  A verification library for the application and rollout controllers of KubeVela (RudrX).

  The program.  A user describes an application.  Its controller (pkg/controller/core.oam.dev/
  v1alpha2/application) parses it into an appfile (pkg/appfile), records a revision of it and of its
  components, applies the manifests, takes the steps of its workflow (pkg/workflow), drives the
  rollout the application may carry, checks the health of the components and deletes old revisions.
  A user can also roll an application out with an AppRollout object.  Admission webhooks
  (pkg/webhook) default and check it.  Its controller (pkg/controller/core.oam.dev/v1alpha2/
  applicationrollout) assembles the manifests of the source and target application revision
  (application/assemble), dispatches them to the cluster (application/dispatch, with the applicator
  of pkg/utils/apply), finds the workload to roll, and hands it with the rollout plan to the plan
  controller (pkg/controller/common/rollout).  The plan controller is a state machine: each
  reconcile calls one method of a workload controller (pkg/controller/common/rollout/workloads),
  which changes a CloneSet or a pair of Deployments through the API server, or calls webhooks, and
  then moves the state in the object's status (apis/standard.oam.dev/v1alpha1/rollout_state.go).

  The older path to the cluster is an application configuration, or an application context that
  points at one in an application revision.  Its controller (applicationconfiguration, with
  applicationcontext) renders the components and traits, passes data between them, applies what does not
  wait, joins the workloads to scopes and collects what is no longer rendered; a handler of component
  events records the revisions of components.

  The theories, rollout of a plan.
  \<^item> Prelude: Go's integers and the parts of strings and strconv that the code calls.
  \<^item> Rollout_Types: the API types of rollout_plan_types.go.
  \<^item> Rollout_State: rollout_state.go, all methods of RolloutStatus.  Abstract machine
    \<open>phase_step\<close>; StateTransition implements it; reachable statuses have the shape \<open>phase_ok\<close>.
  \<^item> Batches: common.go, the verification of a plan and the target of a batch.  On a verified
    plan the targets are monotone and end at the target size.
  \<^item> Workloads: controller.go, the interface of a workload controller as a record of methods,
    the environment \<open>env\<close> they run in, and the contract \<open>workload_contract\<close>.
  \<^item> Example_Env: a concrete environment, for the examples.
  \<^item> CloneSet_Rollout, CloneSet_Scale, Deployment_Client, Deployment_Rollout, Deployment_Scale: the
    four workload controllers, each method by method; each is an interpretation of the contract.
    Submitted batches are accepted at their end, what verification guarantees, the total of the
    two Deployments is kept, claiming and releasing is a round trip.
  \<^item> Rollout_Webhook: rollout_webhook.go.
  \<^item> Rollout_Plan: rollout_plan_controller.go.  Reconcile implements the abstract controller
    \<open>reconcile_step\<close>, never panics under the invariant \<open>plan_inv\<close>, changes the phase a bounded number
    of times, and succeeds when nothing holds it back.
  \<^item> Rollout_Validation: rollout_plan.go of the webhooks, the defaults and the validation of a plan,
    and what an admitted plan guarantees to the plan controller.

  The theories, from revisions to the cluster.
  \<^item> Names: names of revisions and resource trackers, with their round trips.
  \<^item> K8s_Objects: unstructured objects with the metadata that is read, references, trackers, the
    helpers on labels and annotations, and the API client as the record \<open>kube\<close>.
  \<^item> App_Revision: application revisions, and component manifests saved in and read from them.
  \<^item> Apply: the applicator with its options and the record of the last applied configuration.
  \<^item> Dispatch: dispatch.go and gc.go.  A dispatch delivers the manifests, records them in the tracker
    and deletes exactly what only the previous tracker has.
  \<^item> Assemble: assemble.go and options.go.  What every assembled object carries, and which components
    have a workload.
  \<^item> App_Validation: AppRollout and its admission webhooks, with an independent specification of what they
    admit (\<open>admissible_rollout\<close>, \<open>may_update\<close>) and the equivalence with the handler.
  \<^item> App_Rollout: the AppRollout controller, with the frame of each step (\<open>keeps\<close>, \<open>only_status\<close>).
  \<^item> App_Rollout_Safety: its reconcile moves the plan machine (\<open>rollout_move\<close>), the shape of a prepared
    handler (\<open>handler_wf\<close>), and when a reconcile panics.
  \<^item> App_Rollout_Properties: what an admitted rollout guarantees, and what a modification, a deletion
    and the end of a rollout do.

  The theories, applications.
  \<^item> Application: the types of the application controller, and its client \<open>app_client\<close>.
  \<^item> App_History: revision.go, method by method; App_History_Properties: when a revision is new, the
    history of a component, and what the deletion of old revisions keeps.
  \<^item> Workflow: workflow.go.  Executing the steps implements the abstract \<open>workflow_run\<close>.
  \<^item> App_Controller: apply.go and application_controller.go; Reconcile is a sequence of blocks
    (\<open>stage\<close>) that each go on or return.
  \<^item> App_Controller_Stages: the frame of each stage (\<open>app_frame\<close>) and the health of the components;
    App_Controller_Properties: the latest revision, the rollout of the application, when a reconcile
    settles, and the release of a deleted application, whose reconciles end before the stages.
  \<^item> Example_Client, App_Controller_Example: a concrete client and two runs, for the examples.
  \<^item> Definitions: core/revison.go and the four definition controllers (core/components, traits, workflow,
    policies).  Definitions_Properties: a reconcile settles a definition on its revision, and when a
    revision that is used again is stale.

  The theories, application configurations.
  \<^item> Config_Types: the types of core_types.go that are read and written, JSON values, the client
    \<open>config_client\<close>, and the combinators \<open>on_ok\<close> and \<open>on_safe\<close> for Go's early return of an error.
  \<^item> Config_Lookup: the lookup of definitions and components in oam/util/helper.go; a definition is that of
    the first namespace of the search that has one.
  \<^item> Config_Dag: dag.go and the second half of render.go: sources of data, conditions, and the
    dependencies that are left.
  \<^item> Config_Render: the first half of render.go, and workloads.go.  Config_Parameters: an exact specification
    of the resolution of parameters.
  \<^item> Config_Apply: apply.go and the apply option applyOnceOnly.  Config_Apply_Properties: what applying once
    is, and that an object that waits is not written, by frame lemmas (\<open>kept\<close>, \<open>frame_of\<close>) for each operation.
    Config_Scopes: joining and leaving a scope.
  \<^item> Config_Controller: applicationconfiguration.go and applicationcontext_controller.go.  Config_Garbage: the
    objects of a status and their collection.  Config_Reconcile: what rendering and applying leave alone
    (\<open>same_workloads\<close>, \<open>same_shape\<close>).  Config_Properties: the invariant \<open>status_wf\<close>, what is recorded as applied, and
    errors of a context.
  \<^item> Config_Components: component.go and component_custom_revision.go.  Config_Components_Properties: which
    revisions are deleted.
  \<^item> Config_Example: a client and a reconcile, for the examples.

  State and effects.  A controller's methods are functions on the record \<open>ctl\<close>: the world behind the
  API client (of any type), the rollout status and the recorded events.  Elsewhere the world is
  passed and returned.  A panic is \<open>None\<close>; an error is the text of the error.  Logging is left out.

  Parameters.  The API server, the clock, the HTTP client, retry.OnError, crossplane's
  SetConditions, intstr.GetValueFromIntOrPercent, metav1.GetControllerOf and NewControllerRef and
  the hash function are fields of \<open>env\<close>; the client for unstructured objects and the merge patches
  are fields of \<open>kube\<close>; JSON is \<open>decoders\<close> and \<open>encoders\<close>; fieldpath is in \<open>assembler\<close>; the typed
  client of the AppRollout controller and the finalizer helpers are in \<open>reconciler\<close>; those of the
  webhooks in \<open>admission\<close>; the typed client of the application controller, the parser of appfiles,
  its rendering of manifests and policies, the evaluation of a component's health, hashing, sorting
  and semantic equality are in \<open>app_client\<close> and in the appfile; the typed client of the definition controllers is
  \<open>def_client\<close>; those of configurations, contexts and component events, with fieldpath, gjson and JSON patches,
  are \<open>config_client\<close>, \<open>context_client\<close> and \<open>component_client\<close>.  What is assumed of them is stated as a predicate and is a hypothesis of the theorems that need it (\<open>retry_returns_last\<close>, \<open>replicas_defaulted\<close>, \<open>deployment_server\<close>,
  \<open>patch_keeps_owners\<close>, \<open>sane_replicas\<close>, \<open>intstr_doc\<close>, \<open>intstr_int_doc\<close>, \<open>server_doc\<close>, \<open>codec_doc\<close>,
  \<open>fields_doc\<close>, \<open>contains_doc\<close>, \<open>controller_of_doc\<close>, \<open>sort_doc\<close>, \<open>exact_equality\<close>, \<open>reads_only\<close>, \<open>patch_echoes\<close>,
  \<open>finalizer_doc\<close>, \<open>stores_app\<close>, \<open>stays_gone\<close>, \<open>def_server\<close>, \<open>same_objects_doc\<close>,
  \<open>paths_doc\<close>, \<open>no_hooks\<close>); each has an instance.

  Bounds.  int32 is a 32-bit word; Go's int is 64 bits wide.  The arithmetic theorems are for plans of
  fewer than \<open>2 ^ 30\<close> batches, and of fewer than \<open>2 ^ 31\<close> where only the batch counter matters.

  Not modelled.  Metrics and logging; the rendering of components by CUE and Helm, the command line,
  the API server of the dashboard and the installer, which are I/O around libraries; the
  controllers of health scopes and of application deployments, whose traffic objects are those of a
  third party; generated code.
\<close>

end
